(* ===== verification/Prelude.thy ===== *)
theory Prelude
  imports
    "HOL-Library.Word"
    "HOL-Library.Char_ord"
    "HOL-Library.List_Lexorder"
    "HOL-Library.Monad_Syntax"
    "HOL-Library.Sublist"
begin

text \<open>
  Shared vocabulary of the development: the C++ integer types, the exceptions the modelled code
  throws and catches, bounds-checked vector access, \<open>std::map\<close> as a key-sorted association list
  together with the interface (a locale) its clients use, and the \<open>std::string\<close> operations
  \<open>find\<close>, \<open>substr\<close> and friends with their exact out-of-range behaviour.
\<close>

named_theorems cxx_simps \<open>characteristic equations of the C++ library operations\<close>
named_theorems inv_intros \<open>invariant preservation, one rule per operation\<close>

section \<open>Machine types and exceptions\<close>

type_synonym u8 = "8 word"
type_synonym u16 = "16 word"

datatype cxx_exn =
    out_of_range
  | runtime_error string
  | assertion_failure string
  | IotaException string string nat
  | bad_cast string
  | undefined_behaviour string

type_synonym 'a result = "cxx_exn + 'a"

text \<open>Sequencing of computations that may throw.\<close>

definition bind_exn :: "'a result \<Rightarrow> ('a \<Rightarrow> 'b result) \<Rightarrow> 'b result" where
  "bind_exn r f = (case r of Inl e \<Rightarrow> Inl e | Inr x \<Rightarrow> f x)"

lemma bind_exn_simps [simp]:
  "bind_exn (Inl e) f = Inl e"
  "bind_exn (Inr x) f = f x"
  by (simp_all add: bind_exn_def)

lemma bind_exn_eq_Inr_iff:
  "bind_exn r f = Inr y \<longleftrightarrow> (\<exists>x. r = Inr x \<and> f x = Inr y)"
  by (cases r) simp_all

lemma bind_exn_cong [fundef_cong]:
  "r = r' \<Longrightarrow> (\<And>x. r' = Inr x \<Longrightarrow> f x = g x) \<Longrightarrow> bind_exn r f = bind_exn r' g"
  by (cases r') simp_all

text \<open>\<open>std::vector::at\<close>: the element, or \<open>std::out_of_range\<close>.\<close>

definition vec_at :: "'a list \<Rightarrow> nat \<Rightarrow> 'a result" where
  "vec_at xs i = (if i < length xs then Inr (xs ! i) else Inl out_of_range)"

lemma vec_at_in [simp]: "i < length xs \<Longrightarrow> vec_at xs i = Inr (xs ! i)"
  by (simp add: vec_at_def)

lemma vec_at_out [simp]: "length xs \<le> i \<Longrightarrow> vec_at xs i = Inl out_of_range"
  by (simp add: vec_at_def)

section \<open>Printing numbers\<close>

text \<open>Decimal output of integers, as streams and \<open>lexical_cast\<close> print them.\<close>

definition digit_char :: "nat \<Rightarrow> char" where
  "digit_char d = char_of (48 + d)"

fun show_nat :: "nat \<Rightarrow> string" where
  "show_nat n = (if n < 10 then [digit_char n] else show_nat (n div 10) @ [digit_char (n mod 10)])"

declare show_nat.simps [simp del]

definition show_int :: "int \<Rightarrow> string" where
  "show_int i = (if i < 0 then CHR ''-'' # show_nat (nat (- i)) else show_nat (nat i))"

text \<open>Reading digits back.\<close>

definition digit_val :: "char \<Rightarrow> nat" where
  "digit_val c = of_char c - 48"

definition is_digit :: "char \<Rightarrow> bool" where
  "is_digit c \<longleftrightarrow> 48 \<le> (of_char c :: nat) \<and> (of_char c :: nat) \<le> 57"

definition is_space :: "char \<Rightarrow> bool" where
  "is_space c \<longleftrightarrow> (of_char c :: nat) = 32 \<or> (9 \<le> (of_char c :: nat) \<and> (of_char c :: nat) \<le> 13)"

definition read_nat :: "string \<Rightarrow> nat" where
  "read_nat s = foldl (\<lambda>n c. 10 * n + digit_val c) 0 s"

lemma digit_char_digit [simp]: "d < 10 \<Longrightarrow> is_digit (digit_char d)" "d < 10 \<Longrightarrow> digit_val (digit_char d) = d"
  by (simp_all add: digit_char_def is_digit_def digit_val_def)

lemma is_digit_not_space: "is_digit c \<Longrightarrow> \<not> is_space c"
  by (auto simp: is_digit_def is_space_def)

lemma show_nat_digits: "c \<in> set (show_nat n) \<Longrightarrow> is_digit c"
  by (induction n rule: show_nat.induct) (subst (asm) (2) show_nat.simps, auto split: if_splits)

lemma show_nat_nonempty [simp]: "show_nat n \<noteq> []"
  by (subst show_nat.simps) simp

lemma read_show_nat [simp]: "read_nat (show_nat n) = n"
  by (induction n rule: show_nat.induct) (subst show_nat.simps, auto simp: read_nat_def)

lemma show_nat_inject [simp]: "show_nat m = show_nat n \<longleftrightarrow> m = n"
  by (metis read_show_nat)

lemma show_int_inject [simp]: "show_int i = show_int j \<longleftrightarrow> i = j"
proof -
  have "\<not> is_digit (CHR ''-'')" by (simp add: is_digit_def)
  then have ne: "CHR ''-'' # s \<noteq> show_nat n" for s n
    using show_nat_digits [of "CHR ''-''" n] by (metis list.set_intros(1))
  show ?thesis
    using ne ne [symmetric] by (auto simp: show_int_def)
qed

text \<open>\<open>atoi\<close>: blanks, a sign, digits.\<close>

definition atoi :: "string \<Rightarrow> int" where
  "atoi s =
     (let t = dropWhile is_space s
      in case t of
           [] \<Rightarrow> 0
         | c # r \<Rightarrow>
             if c = CHR ''-'' then - int (read_nat (takeWhile is_digit r))
             else if c = CHR ''+'' then int (read_nat (takeWhile is_digit r))
             else int (read_nat (takeWhile is_digit t)))"

lemma atoi_show_nat: "atoi (show_nat n) = int n"
proof -
  obtain c r where cr: "show_nat n = c # r" by (meson list.exhaust show_nat_nonempty)
  have dig: "\<forall>x \<in> set (show_nat n). is_digit x"
    using show_nat_digits by blast
  then have "\<not> is_space c" "c \<noteq> CHR ''-''" "c \<noteq> CHR ''+''"
    using cr by (auto simp: is_digit_def is_space_def)
  moreover have "takeWhile is_digit (c # r) = c # r"
    using dig unfolding cr by (simp add: takeWhile_eq_all_conv)
  ultimately show ?thesis
    using read_show_nat [of n] unfolding cr by (simp add: atoi_def)
qed

lemma atoi_show_int: "atoi (show_int i) = i"
proof (cases "i < 0")
  case True
  have digits: "takeWhile is_digit (show_nat n) = show_nat n" for n
    by (simp add: takeWhile_eq_all_conv show_nat_digits)
  show ?thesis using True by (simp add: atoi_def show_int_def is_space_def digits)
qed (simp add: show_int_def atoi_show_nat)

definition to_signed :: "nat \<Rightarrow> nat \<Rightarrow> int" where
  "to_signed w n = (if n < 2 ^ (w - 1) then int n else int n - 2 ^ w)"

text \<open>The text conversions: \<open>strtol\<close> saturates at the limits of \<open>long\<close>, and \<open>atoi\<close> keeps the low
  32 bits; reading a \<open>long long\<close> from a stream saturates too.\<close>

definition clamp64 :: "int \<Rightarrow> int" where
  "clamp64 i = max (- (2 ^ 63)) (min (2 ^ 63 - 1) i)"

definition c_atoi :: "string \<Rightarrow> int" where
  "c_atoi s = to_signed 32 (nat (clamp64 (atoi s) mod 2 ^ 32))"

lemma c_atoi_small: "- (2 ^ 31) \<le> atoi s \<Longrightarrow> atoi s < 2 ^ 31 \<Longrightarrow> c_atoi s = atoi s"
proof -
  assume r: "- (2 ^ 31) \<le> atoi s" "atoi s < 2 ^ 31"
  then have "atoi s mod 2 ^ 32 = (if atoi s < 0 then atoi s + 2 ^ 32 else atoi s)"
    using mod_add_self2 [of "atoi s" "2 ^ 32"] by (auto simp del: mod_add_self2)
  then show ?thesis using r by (auto simp: c_atoi_def clamp64_def to_signed_def nat_less_iff)
qed

section \<open>Property trees\<close>

text \<open>\<open>boost::property_tree::ptree\<close>: a string and an ordered list of keyed children.\<close>

datatype ptree = PTree (pt_data: string) (pt_children: "(string \<times> ptree) list")

text \<open>\<open>get<std::string>(key, default)\<close> for a key without dots.\<close>

definition pt_get :: "ptree \<Rightarrow> string \<Rightarrow> string \<Rightarrow> string" where
  "pt_get t key dflt = (case map_of (pt_children t) key of Some c \<Rightarrow> pt_data c | None \<Rightarrow> dflt)"

section \<open>Ordered maps\<close>

text \<open>\<open>std::map\<close> as the list of its entries in key order.  \<open>map_insert\<close> is the member \<open>insert\<close>
  (an existing entry stays as it is), \<open>map_assign\<close> is \<open>m[k] = v\<close>.\<close>

type_synonym ('k, 'v) std_map = "('k \<times> 'v) list"

fun map_insert :: "'k::linorder \<Rightarrow> 'v \<Rightarrow> ('k, 'v) std_map \<Rightarrow> ('k, 'v) std_map" where
  "map_insert k v [] = [(k, v)]"
| "map_insert k v ((k', v') # m) =
     (if k < k' then (k, v) # (k', v') # m
      else if k = k' then (k', v') # m
      else (k', v') # map_insert k v m)"

fun map_assign :: "'k::linorder \<Rightarrow> 'v \<Rightarrow> ('k, 'v) std_map \<Rightarrow> ('k, 'v) std_map" where
  "map_assign k v [] = [(k, v)]"
| "map_assign k v ((k', v') # m) =
     (if k < k' then (k, v) # (k', v') # m
      else if k = k' then (k, v) # m
      else (k', v') # map_assign k v m)"

fun map_erase :: "'k::linorder \<Rightarrow> ('k, 'v) std_map \<Rightarrow> ('k, 'v) std_map" where
  "map_erase k [] = []"
| "map_erase k ((k', v') # m) = (if k = k' then m else (k', v') # map_erase k m)"

definition map_find :: "('k, 'v) std_map \<Rightarrow> 'k \<Rightarrow> 'v option" where
  "map_find m k = map_of m k"

definition map_ok :: "('k::linorder, 'v) std_map \<Rightarrow> bool" where
  "map_ok m = sorted_wrt (<) (map fst m)"

definition map_keys :: "('k, 'v) std_map \<Rightarrow> 'k set" where
  "map_keys m = fst ` set m"

lemma map_keys_simps [simp]:
  "map_keys [] = {}"
  "map_keys ((k, v) # m) = insert k (map_keys m)"
  by (simp_all add: map_keys_def)

lemma map_ok_simps [simp]:
  "map_ok []"
  "map_ok ((k, v) # m) \<longleftrightarrow> (\<forall>x \<in> map_keys m. k < x) \<and> map_ok m"
  by (auto simp: map_ok_def map_keys_def)

lemma map_find_simps [simp]:
  "map_find [] k = None"
  "map_find ((k', v') # m) k = (if k = k' then Some v' else map_find m k)"
  by (auto simp: map_find_def)

lemma map_find_None_iff: "map_find m k = None \<longleftrightarrow> k \<notin> map_keys m"
  by (simp add: map_find_def map_keys_def map_of_eq_None_iff)

lemma map_find_notin [simp]: "k \<notin> map_keys m \<Longrightarrow> map_find m k = None"
  by (simp add: map_find_None_iff)

lemma keys_map_insert [simp]: "map_keys (map_insert k v m) = insert k (map_keys m)"
  by (induction k v m rule: map_insert.induct) auto

lemma keys_map_assign [simp]: "map_keys (map_assign k v m) = insert k (map_keys m)"
  by (induction k v m rule: map_assign.induct) auto

lemma keys_map_erase: "map_ok m \<Longrightarrow> map_keys (map_erase k m) = map_keys m - {k}"
  by (induction k m rule: map_erase.induct) auto

lemma map_ok_insert [simp]: "map_ok m \<Longrightarrow> map_ok (map_insert k v m)"
  by (induction k v m rule: map_insert.induct) auto

lemma map_ok_assign [simp]: "map_ok m \<Longrightarrow> map_ok (map_assign k v m)"
  by (induction k v m rule: map_assign.induct) auto

lemma map_ok_erase [simp]: "map_ok m \<Longrightarrow> map_ok (map_erase k m)"
  by (induction k m rule: map_erase.induct) (auto simp: keys_map_erase)

lemma map_find_insert:
  "map_ok m \<Longrightarrow> map_find (map_insert k v m) k' =
     (if k = k' then Some (case map_find m k of None \<Rightarrow> v | Some w \<Rightarrow> w) else map_find m k')"
proof (induction k v m rule: map_insert.induct)
  case (2 k v k1 v1 m)
  have "k < k1 \<Longrightarrow> k \<notin> map_keys m"
    using "2.prems" less_asym by auto
  then show ?case using 2 by auto
qed simp

lemma map_find_assign:
  "map_ok m \<Longrightarrow> map_find (map_assign k v m) k' = (if k = k' then Some v else map_find m k')"
  by (induction k v m rule: map_assign.induct) auto

lemma map_find_erase:
  "map_ok m \<Longrightarrow> map_find (map_erase k m) k' = (if k = k' then None else map_find m k')"
  by (induction k m rule: map_erase.induct) (auto simp: map_find_None_iff)

lemma set_map_assign: "set (map_assign k v m) \<subseteq> insert (k, v) (set m)"
  by (induction k v m rule: map_assign.induct) auto

lemma set_map_insert: "set (map_insert k v m) \<subseteq> insert (k, v) (set m)"
  by (induction k v m rule: map_insert.induct) auto

text \<open>The interface the components rely on.\<close>

locale std_map_spec =
  fixes empty :: "'m"
    and insert :: "'k \<Rightarrow> 'v \<Rightarrow> 'm \<Rightarrow> 'm"
    and assign :: "'k \<Rightarrow> 'v \<Rightarrow> 'm \<Rightarrow> 'm"
    and erase :: "'k \<Rightarrow> 'm \<Rightarrow> 'm"
    and find :: "'m \<Rightarrow> 'k \<Rightarrow> 'v option"
    and invar :: "'m \<Rightarrow> bool"
  assumes find_empty: "find empty k = None"
    and find_insert: "invar m \<Longrightarrow> find (insert k v m) k' =
      (if k = k' then Some (case find m k of None \<Rightarrow> v | Some w \<Rightarrow> w) else find m k')"
    and find_assign: "invar m \<Longrightarrow> find (assign k v m) k' = (if k = k' then Some v else find m k')"
    and find_erase: "invar m \<Longrightarrow> find (erase k m) k' = (if k = k' then None else find m k')"
    and invar_empty: "invar empty"
    and invar_insert: "invar m \<Longrightarrow> invar (insert k v m)"
    and invar_assign: "invar m \<Longrightarrow> invar (assign k v m)"
    and invar_erase: "invar m \<Longrightarrow> invar (erase k m)"
begin

definition insert_all :: "('k \<times> 'v) list \<Rightarrow> 'm \<Rightarrow> 'm" where
  "insert_all kvs m = fold (\<lambda>(k, v). insert k v) kvs m"

lemma invar_insert_all: "invar m \<Longrightarrow> invar (insert_all kvs m)"
  unfolding insert_all_def
  by (induction kvs arbitrary: m) (auto simp: invar_insert)

text \<open>Inserting entries one after the other: the first entry of a key wins.\<close>

lemma find_insert_all:
  "invar m \<Longrightarrow> find (insert_all kvs m) k =
     (case find m k of None \<Rightarrow> map_of kvs k | Some v \<Rightarrow> Some v)"
  unfolding insert_all_def
  by (induction kvs arbitrary: m)
    (auto simp: invar_insert find_insert split: option.splits)

lemma insert_keeps: "invar m \<Longrightarrow> find m k = Some w \<Longrightarrow> find (insert k v m) = find m"
  by (auto simp: find_insert fun_eq_iff)

lemma erase_insert_fresh:
  "invar m \<Longrightarrow> find m k = None \<Longrightarrow> find (erase k (insert k v m)) = find m"
  by (auto simp: find_insert find_erase invar_insert fun_eq_iff)

end

interpretation omap: std_map_spec "[]" map_insert map_assign map_erase map_find map_ok
  by unfold_locales
    (simp_all add: map_find_insert map_find_assign map_find_erase)

section \<open>Strings\<close>

text \<open>\<open>std::string::find\<close> and \<open>substr\<close>.  A position is \<open>None\<close> where the code has \<open>npos\<close>.\<close>

fun find_sub :: "string \<Rightarrow> string \<Rightarrow> nat option" where
  "find_sub pat [] = (if pat = [] then Some 0 else None)"
| "find_sub pat (c # cs) =
     (if prefix pat (c # cs) then Some 0 else map_option Suc (find_sub pat cs))"

definition str_find :: "string \<Rightarrow> string \<Rightarrow> nat \<Rightarrow> nat option" where
  "str_find s pat pos =
     (if pos > length s then None else map_option (\<lambda>i. pos + i) (find_sub pat (drop pos s)))"

definition str_substr :: "string \<Rightarrow> nat \<Rightarrow> nat \<Rightarrow> string result" where
  "str_substr s pos n = (if pos > length s then Inl out_of_range else Inr (take n (drop pos s)))"

definition str_suffix :: "string \<Rightarrow> nat \<Rightarrow> string result" where
  "str_suffix s pos = (if pos > length s then Inl out_of_range else Inr (drop pos s))"

lemma find_sub_char: "c \<notin> set xs \<Longrightarrow> find_sub [c] (xs @ c # ys) = Some (length xs)"
  by (induction xs) auto

lemma find_sub_char_None: "c \<notin> set xs \<Longrightarrow> find_sub [c] xs = None"
  by (induction xs) auto

lemma find_sub_hd: "c \<notin> set xs \<Longrightarrow> find_sub (c # cs) (xs @ (c # cs) @ ys) = Some (length xs)"
  by (induction xs) auto

lemma find_sub_Some: "find_sub pat s = Some i \<Longrightarrow> s = take i s @ pat @ drop (i + length pat) s"
proof (induction pat s arbitrary: i rule: find_sub.induct)
  case (2 pat c cs)
  then show ?case
    by (auto simp: prefix_def split: if_splits)
qed (auto split: if_splits)

text \<open>Positions where the code does not find anything start nowhere in the string.\<close>

lemma find_sub_None: "find_sub pat s = None \<Longrightarrow> s \<noteq> us @ pat @ vs"
proof (induction pat s arbitrary: us rule: find_sub.induct)
  case (2 pat c cs)
  show ?case
  proof (cases us)
    case Nil
    with 2 show ?thesis by (auto simp: prefix_def split: if_splits)
  next
    case (Cons a us')
    with 2 show ?thesis by (auto split: if_splits)
  qed
qed (auto split: if_splits)

lemma find_sub_bound: "find_sub pat s = Some i \<Longrightarrow> i + length pat \<le> length s"
  by (induction pat s arbitrary: i rule: find_sub.induct)
     (auto split: if_splits dest: prefix_length_le)

lemma find_sub_append_char:
  "c \<notin> set xs \<Longrightarrow> find_sub [c] (xs @ ys) = map_option (\<lambda>i. length xs + i) (find_sub [c] ys)"
  by (induction xs; cases "find_sub [c] ys") auto

text \<open>\<open>c_str()\<close>: what C code sees of a string; \<open>boost::trim\<close> and \<open>boost::erase_all\<close> for single characters.\<close>

definition c_str :: "string \<Rightarrow> string" where
  "c_str s = takeWhile (\<lambda>c. c \<noteq> CHR 0x00) s"

definition boost_trim :: "string \<Rightarrow> string" where
  "boost_trim s = rev (dropWhile is_space (rev (dropWhile is_space s)))"

definition erase_all :: "char \<Rightarrow> string \<Rightarrow> string" where
  "erase_all c s = filter (\<lambda>x. x \<noteq> c) s"

lemma c_str_no_nul: "CHR 0x00 \<notin> set s \<Longrightarrow> c_str s = s"
  by (auto simp: c_str_def takeWhile_eq_all_conv)

lemma c_str_nul: "CHR 0x00 \<notin> set s \<Longrightarrow> c_str (s @ CHR 0x00 # t) = s"
  unfolding c_str_def by (subst takeWhile_append2) auto

text \<open>Splitting at a separator, and joining again.\<close>

fun split_on :: "(char \<Rightarrow> bool) \<Rightarrow> string \<Rightarrow> string list" where
  "split_on p [] = [[]]"
| "split_on p (c # cs) =
     (if p c then [] # split_on p cs
      else case split_on p cs of t # ts \<Rightarrow> (c # t) # ts | [] \<Rightarrow> [[c]])"

fun join_with :: "string \<Rightarrow> string list \<Rightarrow> string" where
  "join_with sep [] = []"
| "join_with sep [t] = t"
| "join_with sep (t # u # ts) = t @ sep @ join_with sep (u # ts)"

lemma split_on_nonempty [simp]: "split_on p s \<noteq> []"
  by (induction s) (auto split: list.split)

lemma join_split: "join_with [c] (split_on (\<lambda>x. x = c) s) = s"
proof (induction s)
  case (Cons a s)
  obtain t ts where "split_on (\<lambda>x. x = c) s = t # ts"
    by (meson list.exhaust split_on_nonempty)
  then show ?case using Cons by (cases ts) auto
qed simp

lemma split_on_append:
  "\<forall>c \<in> set t. \<not> p c \<Longrightarrow> split_on p (t @ s) = (t @ hd (split_on p s)) # tl (split_on p s)"
proof (induction t)
  case Nil
  then show ?case by (cases "split_on p s") (use split_on_nonempty in auto)
next
  case (Cons a t)
  then show ?case by simp
qed

lemma split_join:
  assumes "p c" "ts \<noteq> []" "\<forall>t \<in> set ts. \<forall>x \<in> set t. \<not> p x"
  shows "split_on p (join_with [c] ts) = ts"
  using assms(2,3)
proof (induction "[c]" ts rule: join_with.induct)
  case (2 t)
  then show ?case using split_on_append [of t p "[]"] by simp
next
  case (3 t u ts)
  then show ?case using split_on_append [of t p "c # join_with [c] (u # ts)"] assms(1) by simp
qed simp

end
