(* ===== verification/Modbus_Crc.thy ===== *)
theory Modbus_Crc
  imports Prelude
begin

text \<open>
  The checksum of \<^verbatim>\<open>src/modbus/modbus.cc\<close>: the two lookup tables as they stand in the
  source and the table-driven loop \<open>iota::Modbus::crc\<close>.  The reference is the bitwise definition of
  CRC-16/MODBUS (reflected polynomial 0xA001, initial value 0xFFFF).  The theory shows that the
  loop computes the reference with its two bytes swapped (the code sends the first byte of its
  result first, as the Modbus RTU frame wants the low byte first), that the running checksum is
  injective both in its state and in the next byte, and that two consecutive bytes determine the
  checksum bijectively, which is what error detection rests on.
\<close>

unbundle bit_operations_syntax

section \<open>The code\<close>

definition table_crc_hi :: "u8 list" where
  "table_crc_hi = [
    0x00, 0xC1, 0x81, 0x40, 0x01, 0xC0, 0x80, 0x41, 0x01, 0xC0, 0x80, 0x41,
    0x00, 0xC1, 0x81, 0x40, 0x01, 0xC0, 0x80, 0x41, 0x00, 0xC1, 0x81, 0x40,
    0x00, 0xC1, 0x81, 0x40, 0x01, 0xC0, 0x80, 0x41, 0x01, 0xC0, 0x80, 0x41,
    0x00, 0xC1, 0x81, 0x40, 0x00, 0xC1, 0x81, 0x40, 0x01, 0xC0, 0x80, 0x41,
    0x00, 0xC1, 0x81, 0x40, 0x01, 0xC0, 0x80, 0x41, 0x01, 0xC0, 0x80, 0x41,
    0x00, 0xC1, 0x81, 0x40, 0x01, 0xC0, 0x80, 0x41, 0x00, 0xC1, 0x81, 0x40,
    0x00, 0xC1, 0x81, 0x40, 0x01, 0xC0, 0x80, 0x41, 0x00, 0xC1, 0x81, 0x40,
    0x01, 0xC0, 0x80, 0x41, 0x01, 0xC0, 0x80, 0x41, 0x00, 0xC1, 0x81, 0x40,
    0x00, 0xC1, 0x81, 0x40, 0x01, 0xC0, 0x80, 0x41, 0x01, 0xC0, 0x80, 0x41,
    0x00, 0xC1, 0x81, 0x40, 0x01, 0xC0, 0x80, 0x41, 0x00, 0xC1, 0x81, 0x40,
    0x00, 0xC1, 0x81, 0x40, 0x01, 0xC0, 0x80, 0x41, 0x01, 0xC0, 0x80, 0x41,
    0x00, 0xC1, 0x81, 0x40, 0x00, 0xC1, 0x81, 0x40, 0x01, 0xC0, 0x80, 0x41,
    0x00, 0xC1, 0x81, 0x40, 0x01, 0xC0, 0x80, 0x41, 0x01, 0xC0, 0x80, 0x41,
    0x00, 0xC1, 0x81, 0x40, 0x00, 0xC1, 0x81, 0x40, 0x01, 0xC0, 0x80, 0x41,
    0x01, 0xC0, 0x80, 0x41, 0x00, 0xC1, 0x81, 0x40, 0x01, 0xC0, 0x80, 0x41,
    0x00, 0xC1, 0x81, 0x40, 0x00, 0xC1, 0x81, 0x40, 0x01, 0xC0, 0x80, 0x41,
    0x00, 0xC1, 0x81, 0x40, 0x01, 0xC0, 0x80, 0x41, 0x01, 0xC0, 0x80, 0x41,
    0x00, 0xC1, 0x81, 0x40, 0x01, 0xC0, 0x80, 0x41, 0x00, 0xC1, 0x81, 0x40,
    0x00, 0xC1, 0x81, 0x40, 0x01, 0xC0, 0x80, 0x41, 0x01, 0xC0, 0x80, 0x41,
    0x00, 0xC1, 0x81, 0x40, 0x00, 0xC1, 0x81, 0x40, 0x01, 0xC0, 0x80, 0x41,
    0x00, 0xC1, 0x81, 0x40, 0x01, 0xC0, 0x80, 0x41, 0x01, 0xC0, 0x80, 0x41,
    0x00, 0xC1, 0x81, 0x40]"

definition table_crc_lo :: "u8 list" where
  "table_crc_lo = [
    0x00, 0xC0, 0xC1, 0x01, 0xC3, 0x03, 0x02, 0xC2, 0xC6, 0x06, 0x07, 0xC7,
    0x05, 0xC5, 0xC4, 0x04, 0xCC, 0x0C, 0x0D, 0xCD, 0x0F, 0xCF, 0xCE, 0x0E,
    0x0A, 0xCA, 0xCB, 0x0B, 0xC9, 0x09, 0x08, 0xC8, 0xD8, 0x18, 0x19, 0xD9,
    0x1B, 0xDB, 0xDA, 0x1A, 0x1E, 0xDE, 0xDF, 0x1F, 0xDD, 0x1D, 0x1C, 0xDC,
    0x14, 0xD4, 0xD5, 0x15, 0xD7, 0x17, 0x16, 0xD6, 0xD2, 0x12, 0x13, 0xD3,
    0x11, 0xD1, 0xD0, 0x10, 0xF0, 0x30, 0x31, 0xF1, 0x33, 0xF3, 0xF2, 0x32,
    0x36, 0xF6, 0xF7, 0x37, 0xF5, 0x35, 0x34, 0xF4, 0x3C, 0xFC, 0xFD, 0x3D,
    0xFF, 0x3F, 0x3E, 0xFE, 0xFA, 0x3A, 0x3B, 0xFB, 0x39, 0xF9, 0xF8, 0x38,
    0x28, 0xE8, 0xE9, 0x29, 0xEB, 0x2B, 0x2A, 0xEA, 0xEE, 0x2E, 0x2F, 0xEF,
    0x2D, 0xED, 0xEC, 0x2C, 0xE4, 0x24, 0x25, 0xE5, 0x27, 0xE7, 0xE6, 0x26,
    0x22, 0xE2, 0xE3, 0x23, 0xE1, 0x21, 0x20, 0xE0, 0xA0, 0x60, 0x61, 0xA1,
    0x63, 0xA3, 0xA2, 0x62, 0x66, 0xA6, 0xA7, 0x67, 0xA5, 0x65, 0x64, 0xA4,
    0x6C, 0xAC, 0xAD, 0x6D, 0xAF, 0x6F, 0x6E, 0xAE, 0xAA, 0x6A, 0x6B, 0xAB,
    0x69, 0xA9, 0xA8, 0x68, 0x78, 0xB8, 0xB9, 0x79, 0xBB, 0x7B, 0x7A, 0xBA,
    0xBE, 0x7E, 0x7F, 0xBF, 0x7D, 0xBD, 0xBC, 0x7C, 0xB4, 0x74, 0x75, 0xB5,
    0x77, 0xB7, 0xB6, 0x76, 0x72, 0xB2, 0xB3, 0x73, 0xB1, 0x71, 0x70, 0xB0,
    0x50, 0x90, 0x91, 0x51, 0x93, 0x53, 0x52, 0x92, 0x96, 0x56, 0x57, 0x97,
    0x55, 0x95, 0x94, 0x54, 0x9C, 0x5C, 0x5D, 0x9D, 0x5F, 0x9F, 0x9E, 0x5E,
    0x5A, 0x9A, 0x9B, 0x5B, 0x99, 0x59, 0x58, 0x98, 0x88, 0x48, 0x49, 0x89,
    0x4B, 0x8B, 0x8A, 0x4A, 0x4E, 0x8E, 0x8F, 0x4F, 0x8D, 0x4D, 0x4C, 0x8C,
    0x44, 0x84, 0x85, 0x45, 0x87, 0x47, 0x46, 0x86, 0x82, 0x42, 0x43, 0x83,
    0x41, 0x81, 0x80, 0x40]"

text \<open>One iteration of the loop, on the two checksum bytes \<open>(crc_hi, crc_lo)\<close>.\<close>

definition crc_step :: "u8 \<times> u8 \<Rightarrow> u8 \<Rightarrow> u8 \<times> u8" where
  "crc_step st b =
     (let i = unat (fst st XOR b)
      in (snd st XOR table_crc_hi ! i, table_crc_lo ! i))"

text \<open>\<open>crc_hi << 8 | crc_lo\<close>, narrowed to \<open>unsigned short\<close>.\<close>

definition be16 :: "u8 \<Rightarrow> u8 \<Rightarrow> u16" where
  "be16 h l = push_bit 8 (ucast h) OR ucast l"

definition crc :: "u8 list \<Rightarrow> u16" where
  "crc frame = (let st = foldl crc_step (0xFF, 0xFF) frame in be16 (fst st) (snd st))"

text \<open>\<open>(x >> 8) & 0xFF\<close> and \<open>x & 0xFF\<close> as they are pushed into a frame.\<close>

definition hi_byte :: "u16 \<Rightarrow> u8" where
  "hi_byte x = ucast (drop_bit 8 x AND 0xFF)"

definition lo_byte :: "u16 \<Rightarrow> u8" where
  "lo_byte x = ucast (x AND 0xFF)"

section \<open>Splitting and joining 16-bit values\<close>

lemma bit_u8D: "bit (x :: u8) n \<Longrightarrow> n < 8"
  using bit_imp_le_length [of x n] by simp

lemma u16_FF_mask: "(0xFF :: u16) = mask 8"
  by (simp add: mask_eq_exp_minus_1)

lemma bit_be16:
  "bit (be16 h l) n \<longleftrightarrow> (if n < 8 then bit l n else bit h (n - 8))"
  by (auto simp: be16_def bit_simps dest: bit_u8D)

lemma bit_hi_byte: "bit (hi_byte x) n \<longleftrightarrow> n < 8 \<and> bit x (8 + n)"
  by (auto simp: hi_byte_def u16_FF_mask bit_simps)

lemma bit_lo_byte: "bit (lo_byte x) n \<longleftrightarrow> n < 8 \<and> bit x n"
  by (auto simp: lo_byte_def u16_FF_mask bit_simps)

lemmas byte_bits = bit_be16 bit_hi_byte bit_lo_byte bit_xor_iff

lemma be16_hi_lo [simp]: "be16 (hi_byte x) (lo_byte x) = x"
  by (rule bit_word_eqI) (auto simp: byte_bits)

lemma hi_byte_be16 [simp]: "hi_byte (be16 h l) = h"
  by (rule bit_word_eqI) (auto simp: byte_bits)

lemma lo_byte_be16 [simp]: "lo_byte (be16 h l) = l"
  by (rule bit_word_eqI) (auto simp: byte_bits)

lemma be16_inject [simp]: "be16 h l = be16 h' l' \<longleftrightarrow> h = h' \<and> l = l'"
  by (metis hi_byte_be16 lo_byte_be16)

lemma be16_xor: "be16 h l XOR be16 h' l' = be16 (h XOR h') (l XOR l')"
  by (rule bit_word_eqI) (auto simp: byte_bits)

section \<open>The bitwise reference\<close>

definition crc_bit :: "u16 \<Rightarrow> u16" where
  "crc_bit c = (if bit c 0 then drop_bit 1 c XOR 0xA001 else drop_bit 1 c)"

definition crc_bits8 :: "u16 \<Rightarrow> u16" where
  "crc_bits8 c = crc_bit (crc_bit (crc_bit (crc_bit (crc_bit (crc_bit (crc_bit (crc_bit c)))))))"

definition crc16_modbus :: "u8 list \<Rightarrow> u16" where
  "crc16_modbus frame = foldl (\<lambda>c b. crc_bits8 (c XOR ucast b)) 0xFFFF frame"

lemma crc_bit_xor: "crc_bit (a XOR b) = crc_bit a XOR crc_bit b"
  by (simp add: crc_bit_def bit_xor_iff ac_simps)

lemma crc_bits8_xor: "crc_bits8 (a XOR b) = crc_bits8 a XOR crc_bits8 b"
  by (simp add: crc_bits8_def crc_bit_xor)

lemma crc_bit_push:
  assumes "n < 8"
  shows "crc_bit (push_bit (Suc n) (ucast (y :: u8))) = push_bit n (ucast y)"
proof -
  have "\<not> bit (push_bit (Suc n) (ucast y) :: u16) 0"
    by (simp only: bit_push_bit_iff) simp
  moreover have "drop_bit 1 (push_bit (Suc n) (ucast y) :: u16) = push_bit n (ucast y)"
    using assms by (intro bit_word_eqI) (auto simp: bit_simps simp del: push_bit_Suc dest: bit_u8D)
  ultimately show ?thesis
    by (simp add: crc_bit_def)
qed

lemma crc_bits8_high: "crc_bits8 (push_bit 8 (ucast (y :: u8))) = ucast y"
  using crc_bit_push [of 7 y] crc_bit_push [of 6 y] crc_bit_push [of 5 y] crc_bit_push [of 4 y]
    crc_bit_push [of 3 y] crc_bit_push [of 2 y] crc_bit_push [of 1 y] crc_bit_push [of 0 y]
  by (simp add: crc_bits8_def push_bit_eq_mult mult.commute)

lemma be16_eq_xor: "be16 h l = push_bit 8 (ucast h) XOR ucast l"
  by (rule bit_word_eqI) (auto simp: bit_be16 bit_simps dest: bit_u8D)

section \<open>The tables hold the reference of every byte\<close>

lemma table_lengths [simp]: "length table_crc_hi = 256" "length table_crc_lo = 256"
  by (simp_all add: table_crc_hi_def table_crc_lo_def)

lemma crc_tables_eq_map:
  "map (\<lambda>i. crc_bits8 (of_nat i)) [0..<256] = map2 be16 table_crc_lo table_crc_hi"
proof -
  have "[0..<256] = 0 # 1 # [2..<(256 :: nat)]"
    by (simp add: upt_conv_Cons numeral_2_eq_2 del: upt_rec_numeral)
  then have "map (\<lambda>i. crc_bits8 (of_nat i)) [0..<256]
      = crc_bits8 0 # crc_bits8 1 # map (\<lambda>i. crc_bits8 (of_nat i)) [2..<256]"
    by (simp del: upt_rec_numeral)
  also have "\<dots> = map2 be16 table_crc_lo table_crc_hi"
    apply (simp add: table_crc_hi_def table_crc_lo_def be16_def)
    apply (simp add: crc_bits8_def crc_bit_def)
    done
  finally show ?thesis .
qed

lemma crc_table_entry:
  "crc_bits8 (ucast (i :: u8)) = be16 (table_crc_lo ! unat i) (table_crc_hi ! unat i)"
proof -
  have lt: "unat i < 256"
    using unsigned_less [of i] by simp
  have "map (\<lambda>i. crc_bits8 (of_nat i)) [0..<256] ! unat i
      = map2 be16 table_crc_lo table_crc_hi ! unat i"
    by (simp only: crc_tables_eq_map)
  then show ?thesis
    using lt by simp
qed

section \<open>The table-driven loop computes the reference\<close>

text \<open>The two bytes of the loop's state, read as the reference's 16-bit value.\<close>

definition crc_abs :: "u8 \<times> u8 \<Rightarrow> u16" where
  "crc_abs st = be16 (snd st) (fst st)"

lemma crc_step_refines: "crc_abs (crc_step st b) = crc_bits8 (crc_abs st XOR ucast b)"
proof -
  obtain h l where st: "st = (h, l)" by (cases st)
  have "crc_bits8 (be16 l h XOR ucast b)
      = crc_bits8 (push_bit 8 (ucast l) XOR ucast (h XOR b))"
    by (simp add: be16_eq_xor unsigned_xor_eq ac_simps)
  also have "\<dots> = ucast l XOR be16 (table_crc_lo ! unat (h XOR b)) (table_crc_hi ! unat (h XOR b))"
    by (simp only: crc_bits8_xor crc_bits8_high crc_table_entry)
  also have "ucast l = be16 0 l"
    by (simp add: be16_eq_xor)
  finally show ?thesis
    by (simp add: st crc_abs_def crc_step_def Let_def be16_xor)
qed

lemma foldl_crc_refines:
  "crc_abs (foldl crc_step st frame) = foldl (\<lambda>c b. crc_bits8 (c XOR ucast b)) (crc_abs st) frame"
  by (induction frame arbitrary: st) (simp_all add: crc_step_refines)

lemma crc_abs_init: "crc_abs (0xFF, 0xFF) = 0xFFFF"
  by (simp add: crc_abs_def be16_def)

lemma crc_abs_crc16: "crc_abs (foldl crc_step (0xFF, 0xFF) frame) = crc16_modbus frame"
  by (simp add: crc16_modbus_def foldl_crc_refines crc_abs_init)

lemma crc_eq_iff: "crc frame = be16 a b \<longleftrightarrow> crc16_modbus frame = be16 b a"
  by (auto simp: crc_def crc_abs_def Let_def simp flip: crc_abs_crc16)

text \<open>C1: for every frame the table-driven checksum of the code is the CRC-16/MODBUS of the frame
  (bit by bit, polynomial 0xA001, initial value 0xFFFF) with its low byte in the high position,
  which is the order in which the frame carries it.\<close>

theorem crc_computes_crc16_modbus:
  "crc frame = be16 (lo_byte (crc16_modbus frame)) (hi_byte (crc16_modbus frame))"
  by (simp add: crc_eq_iff)

section \<open>Error detection\<close>

lemma crc_bit_eq_0: "crc_bit x = 0 \<longleftrightarrow> x = 0"
proof
  assume z: "crc_bit x = 0"
  have "\<not> bit x 0"
  proof
    assume b: "bit x 0"
    with z have "drop_bit 1 x XOR 0xA001 = 0" by (simp add: crc_bit_def)
    then have "\<not> bit (drop_bit 1 x XOR 0xA001) 15" by simp
    moreover have "\<not> bit (drop_bit 1 x) 15"
      using bit_imp_le_length [of x 16] by (auto simp: bit_simps)
    ultimately show False by (simp add: bit_xor_iff)
  qed
  with z have d: "drop_bit 1 x = 0" by (simp add: crc_bit_def)
  have "\<not> bit x n" for n
  proof (cases n)
    case 0 with \<open>\<not> bit x 0\<close> show ?thesis by simp
  next
    case (Suc m)
    have "\<not> bit (drop_bit 1 x) m" unfolding d by simp
    with Suc show ?thesis by (simp add: bit_drop_bit_eq)
  qed
  then show "x = 0" by (simp add: bit_eq_iff)
qed (simp add: crc_bit_def)

lemma crc_bits8_eq_0: "crc_bits8 x = 0 \<longleftrightarrow> x = 0"
  by (simp add: crc_bits8_def crc_bit_eq_0)

lemma u16_xor_eq_0: "(a :: u16) XOR b = 0 \<longleftrightarrow> a = b"
  by (metis xor.assoc xor_self_eq xor.right_neutral xor.left_neutral)

lemma crc_bits8_inject [simp]: "crc_bits8 x = crc_bits8 y \<longleftrightarrow> x = y"
  by (metis crc_bits8_eq_0 crc_bits8_xor u16_xor_eq_0)

lemma u16_xor_cancel_right [simp]: "(a :: u16) XOR c = b XOR c \<longleftrightarrow> a = b"
  by (metis xor.assoc xor_self_eq xor.right_neutral)

lemma u16_xor_cancel_left [simp]: "(c :: u16) XOR a = c XOR b \<longleftrightarrow> a = b"
  by (metis xor.commute u16_xor_cancel_right)

text \<open>Two consecutive bytes act on the checksum as one 16-bit value.\<close>

lemma crc16_two_bytes:
  "crc_bits8 (crc_bits8 (c XOR ucast b1) XOR ucast b2) = crc_bits8 (crc_bits8 (c XOR be16 b2 b1))"
  by (simp add: be16_eq_xor crc_bits8_xor crc_bits8_high ac_simps)

lemma foldl_crc16_inject_state:
  "foldl (\<lambda>c b. crc_bits8 (c XOR ucast (b :: u8))) c frame
     = foldl (\<lambda>c b. crc_bits8 (c XOR ucast b)) c' frame \<longleftrightarrow> c = c'"
  by (induction frame arbitrary: c c') simp_all

lemma crc16_modbus_pair_inject:
  "crc16_modbus (pre @ [b1, b2] @ suf) = crc16_modbus (pre @ [b1', b2'] @ suf)
     \<longleftrightarrow> b1 = b1' \<and> b2 = b2'"
  by (auto simp: crc16_modbus_def foldl_crc16_inject_state crc16_two_bytes)

text \<open>Appending the checksum, low byte first, leaves residue 0, and nothing else does.\<close>

lemma crc16_modbus_residue:
  "crc16_modbus (frame @ [l, h]) = 0 \<longleftrightarrow> be16 h l = crc16_modbus frame"
  by (simp add: crc16_modbus_def crc16_two_bytes crc_bits8_eq_0 u16_xor_eq_0) metis

end
