(* ===== verification/Modbus_Frame.thy ===== *)
theory Modbus_Frame
  imports Modbus_Crc
begin

text \<open>
  The class \<open>iota::Modbus\<close> (\<^verbatim>\<open>src/modbus/modbus.h\<close>, \<^verbatim>\<open>src/modbus/modbus.cc\<close>): a request that is
  built and sent by the master, and the assembly and validation of its response, which arrives in
  arbitrary chunks.  A Modbus object is a record with the fields of the class (time stamps and
  logging do not influence the protocol and the former is kept as a field, the latter dropped).
\<close>

unbundle bit_operations_syntax

section \<open>The code\<close>

datatype FunctionCode =
    READ_HOLDING_REGISTERS
  | PRESET_SINGLE_REGISTER
  | PRESET_MULTIPLE_REGISTER

fun function_byte :: "FunctionCode \<Rightarrow> u8" where
  "function_byte READ_HOLDING_REGISTERS = 0x03"
| "function_byte PRESET_SINGLE_REGISTER = 0x06"
| "function_byte PRESET_MULTIPLE_REGISTER = 0x10"

record modbus =
  app_operation :: string
  modbus_frame :: "u8 list"
  modbus_frame_response :: "u8 list"
  slave_address :: u8
  function_code :: FunctionCode
  address_data :: u16
  number_of_or_value :: u16
  values_to_write :: "u16 list"
  mb_values :: "(u16, u16) std_map"
  finished :: bool
  completed :: bool
  confirmed :: bool
  need_be_confirmed :: bool
  time_instant :: int

text \<open>The checksum is pushed after the frame it was computed on.\<close>

definition push_crc :: "u8 list \<Rightarrow> u8 list" where
  "push_crc frame = (let c = crc frame in frame @ [hi_byte c, lo_byte c])"

definition Modbus_single :: "u8 \<Rightarrow> FunctionCode \<Rightarrow> u16 \<Rightarrow> u16 \<Rightarrow> string \<Rightarrow> modbus" where
  "Modbus_single slave fc addr n app =
     \<lparr> app_operation = app,
       modbus_frame = push_crc [slave, function_byte fc, hi_byte addr, lo_byte addr,
                                hi_byte n, lo_byte n],
       modbus_frame_response = [], slave_address = slave, function_code = fc,
       address_data = addr, number_of_or_value = n, values_to_write = [], mb_values = [],
       finished = False, completed = False, confirmed = True, need_be_confirmed = False,
       time_instant = - 1 \<rparr>"

definition register_bytes :: "u16 list \<Rightarrow> u8 list" where
  "register_bytes vs = concat (map (\<lambda>v. [hi_byte v, lo_byte v]) vs)"

definition Modbus_multi ::
  "u8 \<Rightarrow> FunctionCode \<Rightarrow> u16 \<Rightarrow> u16 list \<Rightarrow> string \<Rightarrow> bool \<Rightarrow> modbus" where
  "Modbus_multi slave fc addr vs app confirm =
     \<lparr> app_operation = app,
       modbus_frame = push_crc ([slave, function_byte fc, hi_byte addr, lo_byte addr,
                                 of_nat (length vs div 256), of_nat (length vs),
                                 of_nat (length vs * 2)] @ register_bytes vs),
       modbus_frame_response = [], slave_address = slave, function_code = fc,
       address_data = addr, number_of_or_value = 0, values_to_write = vs, mb_values = [],
       finished = False, completed = False, confirmed = \<not> confirm, need_be_confirmed = confirm,
       time_instant = - 1 \<rparr>"

text \<open>On a frame of fewer than two bytes the iterator range is invalid; the model answers with the
  exception of the following \<open>at\<close>.\<close>

definition check_crc :: "u8 list \<Rightarrow> bool result" where
  "check_crc frame =
     (if length frame < 2 then Inl out_of_range
      else let f = take (length frame - 2) frame in
        bind_exn (vec_at frame (length frame - 2)) (\<lambda>h.
        bind_exn (vec_at frame (length frame - 1)) (\<lambda>l.
        Inr (be16 h l = crc f))))"

definition check_completed :: "modbus \<Rightarrow> u8 list \<Rightarrow> bool \<times> modbus" where
  "check_completed m frame =
     (let resp = modbus_frame_response m @ frame;
          m' = m\<lparr> modbus_frame_response := resp \<rparr>
      in case function_code m of
           READ_HOLDING_REGISTERS \<Rightarrow>
             (length resp \<ge> 3 \<and> length resp - 2 = unat (resp ! 2) + 3, m')
         | PRESET_SINGLE_REGISTER \<Rightarrow>
             (length resp = length (modbus_frame m), m')
         | PRESET_MULTIPLE_REGISTER \<Rightarrow>
             (let done1 = ((\<not> need_be_confirmed m \<or> confirmed m) \<and> length resp \<ge> 8)
              in if need_be_confirmed m \<and> \<not> confirmed m then
                   if length resp = length (modbus_frame m) then
                     if resp = modbus_frame m
                     then (done1, m'\<lparr> confirmed := True, modbus_frame_response := [] \<rparr>)
                     else (True, m')
                   else if length resp > length (modbus_frame m) then (True, m')
                   else (done1, m')
                 else (done1, m')))"

text \<open>The register loop: \<open>i\<close> runs from 3 in steps of two up to \<open>bytes + 3\<close>.  The map built so
  far is returned with the outcome, since an exception leaves it changed.\<close>

function read_registers ::
  "u8 list \<Rightarrow> u16 \<Rightarrow> nat \<Rightarrow> nat \<Rightarrow> u16 \<Rightarrow> (u16, u16) std_map \<Rightarrow> bool result \<times> (u16, u16) std_map" where
  "read_registers resp addr limit i num_reg vals =
     (if i < limit then
        case bind_exn (vec_at resp i) (\<lambda>h. bind_exn (vec_at resp (i + 1)) (\<lambda>l. Inr (be16 h l))) of
          Inl e \<Rightarrow> (Inl e, vals)
        | Inr v \<Rightarrow> read_registers resp addr limit (i + 2) (num_reg + 1)
                    (map_insert (addr + (num_reg + 1)) v vals)
      else (Inr True, vals))"
  by pat_completeness auto
termination
  by (relation "measure (\<lambda>(resp, addr, limit, i, n, vals). limit - i)") auto

declare read_registers.simps [simp del]

definition read_u16 :: "u8 list \<Rightarrow> nat \<Rightarrow> u16 result" where
  "read_u16 resp i =
     bind_exn (vec_at resp i) (\<lambda>h. bind_exn (vec_at resp (i + 1)) (\<lambda>l. Inr (be16 h l)))"

text \<open>The body of the \<open>try\<close> block once the frame is complete: the verdict \<open>frame_ok\<close> or the
  exception, and the object it leaves.\<close>

definition header_ok :: "modbus \<Rightarrow> bool result" where
  "header_ok m =
     (let resp = modbus_frame_response m in
      bind_exn (vec_at resp 0) (\<lambda>a.
        if a \<noteq> slave_address m then Inr False
        else bind_exn (vec_at resp 1) (\<lambda>f.
          if f \<noteq> function_byte (function_code m) then Inr False
          else check_crc resp)))"

definition process_completed :: "modbus \<Rightarrow> bool result \<times> modbus" where
  "process_completed m =
     (let resp = modbus_frame_response m in
      case header_ok m of
        Inl e \<Rightarrow> (Inl e, m)
      | Inr False \<Rightarrow> (Inr False, m)
      | Inr True \<Rightarrow>
          (case function_code m of
             READ_HOLDING_REGISTERS \<Rightarrow>
               (case vec_at resp 2 of
                  Inl e \<Rightarrow> (Inl e, m)
                | Inr bytes \<Rightarrow>
                    if length resp - 2 \<noteq> unat bytes + 3 then (Inr False, m)
                    else let r = read_registers resp (address_data m) (unat bytes + 3) 3 0 (mb_values m)
                         in (fst r, m\<lparr> mb_values := snd r \<rparr>))
           | PRESET_SINGLE_REGISTER \<Rightarrow>
               (bind_exn (read_u16 resp 2) (\<lambda>addr_response.
                bind_exn (read_u16 resp 4) (\<lambda>value.
                Inr (addr_response = address_data m \<and> value = number_of_or_value m))), m)
           | PRESET_MULTIPLE_REGISTER \<Rightarrow>
               (if \<not> confirmed m then Inr False
                else bind_exn (read_u16 resp 2) (\<lambda>addr_response.
                     bind_exn (read_u16 resp 4) (\<lambda>n.
                     Inr (addr_response = address_data m
                          \<and> unat n = length (values_to_write m) \<and> length resp = 8))), m)))"

definition receive_modbus_frame :: "modbus \<Rightarrow> u8 list \<Rightarrow> bool \<times> modbus" where
  "receive_modbus_frame m mb_msg =
     (if modbus_frame m = [] then (False, m\<lparr> finished := True, completed := True \<rparr>)
      else let (c, m1) = check_completed m mb_msg; m2 = m1\<lparr> completed := c \<rparr>
           in if \<not> c then (True, m2)
              else let (r, m3) = process_completed (m2\<lparr> finished := True \<rparr>)
                   in if r = Inr True then (True, m3)
                      else (False, m3\<lparr> finished := True, completed := True \<rparr>))"

text \<open>A conversation: the chunks of a response one after the other, up to the first rejected one.\<close>

fun receive_chunks :: "modbus \<Rightarrow> u8 list list \<Rightarrow> bool \<times> modbus" where
  "receive_chunks m [] = (True, m)"
| "receive_chunks m (c # cs) =
     (case receive_modbus_frame m c of
        (True, m') \<Rightarrow> receive_chunks m' cs
      | (False, m') \<Rightarrow> (False, m'))"

section \<open>Checksums of frames\<close>

lemma length_push_crc [simp]: "length (push_crc f) = length f + 2"
  by (simp add: push_crc_def Let_def)

lemma check_crc_append2: "check_crc (f @ [h, l]) = Inr (be16 h l = crc f)"
  by (simp add: check_crc_def nth_append)

lemma check_crc_push_crc: "check_crc (push_crc f) = Inr True"
  by (simp add: push_crc_def Let_def check_crc_append2)

lemma ends_in_two:
  assumes "2 \<le> length f"
  obtains g h l where "f = g @ [h, l]"
proof -
  obtain g l where g: "f = g @ [l]"
    using assms by (cases f rule: rev_cases) auto
  moreover obtain g' h where "g = g' @ [h]"
    using assms g by (cases g rule: rev_cases) auto
  ultimately show thesis using that by simp
qed

text \<open>A frame passes exactly when the checksum of all its bytes, the received checksum included,
  is 0.\<close>

lemma check_crc_residue:
  assumes "2 \<le> length f"
  shows "check_crc f = Inr (crc16_modbus f = 0)"
proof -
  obtain g h l where f: "f = g @ [h, l]" using ends_in_two [OF assms] .
  show ?thesis
    using crc_eq_iff [of g h l] by (auto simp: f check_crc_append2 crc16_modbus_residue)
qed

lemma crc_sample: "crc [1, 3, 2, 0, 5] = 0x7847"
  by (simp add: crc_def crc_step_def Let_def table_crc_hi_def table_crc_lo_def be16_def)

text \<open>C21: the checksum test detects every corruption confined to two neighbouring bytes, wherever
  they are: if a received frame passes, the same frame with any other contents in two consecutive
  positions (payload, checksum or one of each) is refused.\<close>

theorem check_crc_detects_burst:
  assumes "check_crc (pre @ [b1, b2] @ suf) = Inr True"
    and "(b1', b2') \<noteq> (b1, b2)"
  shows "check_crc (pre @ [b1', b2'] @ suf) = Inr False"
  using assms crc16_modbus_pair_inject [of pre b1 b2 suf b1' b2']
  by (auto simp: check_crc_residue)

theorem check_crc_detects_burst_witness:
  "check_crc ([1, 3, 2, 0] @ [5, 0x78] @ [0x47]) = Inr True
   \<and> check_crc ([1, 3, 2, 0] @ [7, 0x79] @ [0x47]) = Inr False"
proof
  show ok: "check_crc ([1, 3, 2, 0] @ [5, 0x78] @ [0x47]) = Inr True"
    using check_crc_append2 [of "[1, 3, 2, 0, 5]" "0x78" "0x47"] by (simp add: be16_def crc_sample)
  show "check_crc ([1, 3, 2, 0] @ [7, 0x79] @ [0x47]) = Inr False"
    by (rule check_crc_detects_burst [OF ok]) simp
qed

text \<open>every request the class builds carries its own valid checksum, in both constructors,
  and has the length the response logic counts on.\<close>

theorem request_frames_valid:
  "check_crc (modbus_frame (Modbus_single s fc a n app)) = Inr True
   \<and> length (modbus_frame (Modbus_single s fc a n app)) = 8
   \<and> check_crc (modbus_frame (Modbus_multi s fc a vs app cf)) = Inr True
   \<and> length (modbus_frame (Modbus_multi s fc a vs app cf)) = 9 + 2 * length vs"
proof -
  have "length (register_bytes vs) = 2 * length vs"
    by (induction vs) (simp_all add: register_bytes_def)
  then show ?thesis
    by (simp add: Modbus_single_def Modbus_multi_def check_crc_push_crc del: append_Cons)
qed

lemma request_frame_nonempty: "modbus_frame (Modbus_single s fc a n app) \<noteq> []"
  by (simp add: Modbus_single_def push_crc_def Let_def)

section \<open>The exception handler is dead code\<close>

definition modbus_wf :: "modbus \<Rightarrow> bool" where
  "modbus_wf m \<longleftrightarrow> 8 \<le> length (modbus_frame m) \<and> map_ok (mb_values m)
     \<and> (confirmed m \<or> need_be_confirmed m)"

lemma read_registers_total:
  assumes "limit < length resp"
  shows "\<exists>vals'. read_registers resp addr limit i n vals = (Inr True, vals')
           \<and> (map_ok vals \<longrightarrow> map_ok vals')"
  using assms
proof (induction resp addr limit i n vals rule: read_registers.induct)
  case (1 resp addr limit i n vals)
  show ?case
  proof (cases "i < limit")
    case True
    with "1.prems" have lt: "i < length resp" "i + 1 < length resp" by simp_all
    have "\<exists>vals'. read_registers resp addr limit (i + 2) (n + 1)
             (map_insert (addr + (n + 1)) (be16 (resp ! i) (resp ! (i + 1))) vals) = (Inr True, vals')
           \<and> (map_ok (map_insert (addr + (n + 1)) (be16 (resp ! i) (resp ! (i + 1))) vals)
              \<longrightarrow> map_ok vals')"
      using lt by (intro "1.IH" [OF True _ "1.prems"]) simp
    with True lt show ?thesis
      by (subst read_registers.simps) auto
  next
    case False
    then show ?thesis by (subst read_registers.simps) simp
  qed
qed

lemma check_completed_length:
  assumes "modbus_wf m" and "check_completed m msg = (True, m')"
  shows "5 \<le> length (modbus_frame_response m')"
    and "function_code m \<noteq> READ_HOLDING_REGISTERS \<Longrightarrow> 8 \<le> length (modbus_frame_response m')"
    and "function_code m' = function_code m"
    and "modbus_wf m'"
  using assms
  by (auto simp: check_completed_def modbus_wf_def Let_def
      split: FunctionCode.splits if_splits)

lemma read_u16_in [simp]:
  "i + 1 < length resp \<Longrightarrow> read_u16 resp i = Inr (be16 (resp ! i) (resp ! (i + 1)))"
  by (simp add: read_u16_def)

lemma header_ok_total: "2 \<le> length (modbus_frame_response m) \<Longrightarrow> \<exists>b. header_ok m = Inr b"
  by (cases "modbus_frame_response m = []") (auto simp: header_ok_def Let_def check_crc_residue)

lemma process_completed_total:
  assumes len: "5 \<le> length (modbus_frame_response m)"
    and len8: "function_code m \<noteq> READ_HOLDING_REGISTERS \<Longrightarrow> 8 \<le> length (modbus_frame_response m)"
  shows "\<exists>ok. fst (process_completed m) = Inr ok"
proof -
  obtain b where "header_ok m = Inr b"
    using header_ok_total [of m] len by auto
  moreover have "\<exists>vals'. read_registers (modbus_frame_response m) (address_data m)
      (unat (modbus_frame_response m ! 2) + 3) 3 0 (mb_values m) = (Inr True, vals')"
    if "length (modbus_frame_response m) - 2 = unat (modbus_frame_response m ! 2) + 3"
    using that len
      read_registers_total [of "unat (modbus_frame_response m ! 2) + 3" "modbus_frame_response m"]
    by fastforce
  ultimately show ?thesis
    using len len8
    by (auto simp: process_completed_def Let_def ex_bool_eq split: FunctionCode.splits bool.splits)
qed

text \<open>the indexing of the response processing is safe.  For a well-formed object, whatever
  bytes arrive, once the length check declares the response complete no bounds-checked access
  throws: the handler of \<open>std::exception\<close> is never entered.\<close>

theorem completed_frame_never_throws:
  assumes "modbus_wf m" and "check_completed m msg = (True, m')"
  shows "\<exists>ok. fst (process_completed (m'\<lparr> completed := True, finished := True \<rparr>)) = Inr ok"
  using check_completed_length [OF assms] by (intro process_completed_total) auto

theorem completed_frame_never_throws_witness:
  "\<exists>ok. fst (process_completed
     ((snd (check_completed (Modbus_single 1 READ_HOLDING_REGISTERS 7 2 ''op'') [1, 3, 0, 9, 9]))
       \<lparr> completed := True, finished := True \<rparr>)) = Inr ok"
proof -
  let ?m = "Modbus_single 1 READ_HOLDING_REGISTERS 7 2 ''op''"
  have "modbus_wf ?m"
    by (simp add: modbus_wf_def Modbus_single_def)
  moreover have "check_completed ?m [1, 3, 0, 9, 9] = (True, snd (check_completed ?m [1, 3, 0, 9, 9]))"
    by (simp add: check_completed_def Modbus_single_def)
  ultimately show ?thesis
    by (rule completed_frame_never_throws)
qed

section \<open>Reading registers from a response delivered in chunks\<close>

text \<open>The answer of a slave to a read request for the register contents \<open>vs\<close>.\<close>

definition read_response :: "u8 \<Rightarrow> u16 list \<Rightarrow> u8 list" where
  "read_response slave vs =
     push_crc ([slave, 0x03, of_nat (2 * length vs)] @ register_bytes vs)"

lemma register_bytes_simps [simp]:
  "register_bytes [] = []"
  "register_bytes (v # vs) = hi_byte v # lo_byte v # register_bytes vs"
  by (simp_all add: register_bytes_def)

lemma length_register_bytes [simp]: "length (register_bytes vs) = 2 * length vs"
  by (induction vs) simp_all

lemma length_read_response: "length (read_response slave vs) = 5 + 2 * length vs"
  by (simp add: read_response_def)

lemma read_response_nth2: "read_response slave vs ! 2 = of_nat (2 * length vs)"
  by (simp add: read_response_def push_crc_def Let_def)

lemma unat_byte_count: "length vs \<le> 127 \<Longrightarrow> unat (read_response slave vs ! 2) = 2 * length vs"
  by (simp only: read_response_nth2 unat_of_nat) simp

text \<open>The map entries the register loop inserts, in order.\<close>

fun register_entries :: "u16 \<Rightarrow> u16 \<Rightarrow> u16 list \<Rightarrow> (u16 \<times> u16) list" where
  "register_entries addr n [] = []"
| "register_entries addr n (v # vs) = (addr + (n + 1), v) # register_entries addr (n + 1) vs"

lemma read_registers_entries:
  "read_registers (pre @ register_bytes vs @ suf) addr (length pre + 2 * length vs) (length pre) n vals
     = (Inr True, omap.insert_all (register_entries addr n vs) vals)"
proof (induction vs arbitrary: pre n vals)
  case Nil
  show ?case by (simp add: read_registers.simps omap.insert_all_def)
next
  case (Cons v vs)
  let ?resp = "pre @ register_bytes (v # vs) @ suf"
  have "read_registers ?resp addr (length pre + 2 * length (v # vs)) (length pre) n vals
      = read_registers ?resp addr (length pre + 2 * length (v # vs)) (length pre + 2) (n + 1)
          (map_insert (addr + (n + 1)) v vals)"
    by (subst read_registers.simps) (simp add: nth_append)
  also have "\<dots> = (Inr True, omap.insert_all (register_entries addr (n + 1) vs)
                        (map_insert (addr + (n + 1)) v vals))"
    using Cons.IH [of "pre @ [hi_byte v, lo_byte v]" "n + 1" "map_insert (addr + (n + 1)) v vals"]
    by simp
  finally show ?case by (simp add: omap.insert_all_def)
qed

lemma register_entries_nth:
  "register_entries addr n vs = map (\<lambda>i. (addr + (n + 1) + of_nat i, vs ! i)) [0..<length vs]"
proof (induction vs arbitrary: n)
  case (Cons v vs)
  have "[0..<length (v # vs)] = 0 # map Suc [0..<length vs]"
    by (simp add: upt_conv_Cons map_Suc_upt del: upt_Suc)
  then show ?case by (simp add: Cons.IH ac_simps del: upt_Suc)
qed simp

lemma distinct_register_keys:
  assumes "length vs \<le> 65536"
  shows "distinct (map fst (register_entries addr n vs))"
proof -
  have "inj_on (\<lambda>i. addr + (n + 1) + of_nat i :: u16) {0..<length vs}"
  proof (rule inj_onI)
    fix i j assume ij: "i \<in> {0..<length vs}" "j \<in> {0..<length vs}"
      and "addr + (n + 1) + of_nat i = addr + (n + 1) + (of_nat j :: u16)"
    then have "unat (of_nat i :: u16) = unat (of_nat j :: u16)" by simp
    with ij assms show "i = j" by (simp add: unat_of_nat)
  qed
  then show ?thesis
    by (simp add: register_entries_nth comp_def distinct_map)
qed

lemma map_of_register_entries:
  assumes "length vs \<le> 65536" and "i < length vs"
  shows "map_of (register_entries addr n vs) (addr + (n + 1) + of_nat i) = Some (vs ! i)"
  using distinct_register_keys [OF assms(1), of addr n] assms(2)
  by (intro map_of_is_SomeI) (auto simp: register_entries_nth)

text \<open>A proper prefix of the response never counts as complete.\<close>

lemma read_prefix_incomplete:
  assumes "length vs \<le> 127" and "r @ rest = read_response slave vs" and "rest \<noteq> []"
  shows "\<not> (3 \<le> length r \<and> length r - 2 = unat (r ! 2) + 3)"
proof
  assume r: "3 \<le> length r \<and> length r - 2 = unat (r ! 2) + 3"
  then have "r ! 2 = read_response slave vs ! 2"
    by (simp add: assms(2) [symmetric] nth_append)
  with r assms(1) have "length r = 5 + 2 * length vs"
    by (auto simp: unat_byte_count)
  moreover have "length r < length (read_response slave vs)"
    using assms(3) by (simp add: assms(2) [symmetric])
  ultimately show False by (simp add: length_read_response)
qed

lemma receive_read_prefix:
  assumes "function_code m = READ_HOLDING_REGISTERS" "modbus_frame m \<noteq> []" "\<not> completed m"
    and "length vs \<le> 127" and "rest \<noteq> []"
    and "modbus_frame_response m @ c @ rest = read_response slave vs"
  shows "receive_modbus_frame m c = (True, m\<lparr> modbus_frame_response := modbus_frame_response m @ c \<rparr>)"
  using read_prefix_incomplete [of vs "modbus_frame_response m @ c" rest slave] assms
  by (simp add: receive_modbus_frame_def check_completed_def Let_def)

lemma receive_read_chunks:
  assumes "function_code m = READ_HOLDING_REGISTERS" "modbus_frame m \<noteq> []" "\<not> completed m"
    and "length vs \<le> 127" and "rest \<noteq> []"
    and "modbus_frame_response m @ concat cs @ rest = read_response slave vs"
  shows "receive_chunks m cs
    = (True, m\<lparr> modbus_frame_response := modbus_frame_response m @ concat cs \<rparr>)"
  using assms
proof (induction cs arbitrary: m)
  case (Cons c cs)
  have "receive_modbus_frame m c
      = (True, m\<lparr> modbus_frame_response := modbus_frame_response m @ c \<rparr>)"
    using Cons.prems by (intro receive_read_prefix [where rest = "concat cs @ rest"]) auto
  then show ?case using Cons.prems by (simp add: Cons.IH)
qed simp

lemma process_read_response:
  assumes "function_code m = READ_HOLDING_REGISTERS" and "length vs \<le> 127"
    and "modbus_frame_response m = read_response (slave_address m) vs"
  shows "process_completed m
    = (Inr True, m\<lparr> mb_values := omap.insert_all (register_entries (address_data m) 0 vs) (mb_values m) \<rparr>)"
proof -
  let ?resp = "read_response (slave_address m) vs"
  have len: "length ?resp = 5 + 2 * length vs" by (rule length_read_response)
  then have ne: "?resp \<noteq> []" by auto
  have "?resp ! 0 = slave_address m" "?resp ! 1 = 3"
    by (simp_all add: read_response_def push_crc_def Let_def)
  moreover have "check_crc ?resp = Inr True"
    by (simp add: read_response_def check_crc_push_crc del: append_Cons)
  ultimately have "header_ok m = Inr True"
    using assms len ne by (simp add: header_ok_def)
  moreover have "read_registers ?resp (address_data m) (2 * length vs + 3) 3 0 (mb_values m)
      = (Inr True, omap.insert_all (register_entries (address_data m) 0 vs) (mb_values m))"
    using read_registers_entries [of "[slave_address m, 3, of_nat (2 * length vs)]" vs]
    by (simp add: read_response_def push_crc_def Let_def numeral_3_eq_3)
  ultimately show ?thesis
    using assms len by (simp add: process_completed_def unat_byte_count)
qed

text \<open>C2: reading holding registers, end to end.  However a slave's answer (at most 127 registers,
  what the one-byte count can express) is cut into chunks by the transport, every chunk is
  accepted, the request is not completed before the last byte is there and is completed with it,
  and then the value map holds register \<open>i\<close> of the answer under address \<open>address_data + 1 + i\<close>
  (modulo \<open>2 ^ 16\<close>).\<close>

theorem read_response_in_any_chunks:
  assumes "length vs \<le> 127" and "c \<noteq> []"
    and "concat cs @ c = read_response slave vs"
  shows "\<exists>m1 m2. receive_chunks (Modbus_single slave READ_HOLDING_REGISTERS addr n app) cs = (True, m1)
     \<and> \<not> completed m1
     \<and> receive_modbus_frame m1 c = (True, m2) \<and> completed m2 \<and> finished m2
     \<and> (\<forall>i < length vs. map_find (mb_values m2) (addr + 1 + of_nat i) = Some (vs ! i))"
proof -
  let ?m = "Modbus_single slave READ_HOLDING_REGISTERS addr n app"
  let ?m1 = "?m\<lparr> modbus_frame_response := concat cs \<rparr>"
  let ?m2 = "?m\<lparr> modbus_frame_response := read_response slave vs, completed := True, finished := True,
               mb_values := omap.insert_all (register_entries addr 0 vs) [] \<rparr>"
  have ne: "modbus_frame ?m \<noteq> []"
    using request_frame_nonempty by blast
  have "receive_chunks ?m cs = (True, ?m1)"
    using receive_read_chunks [of ?m vs c cs slave] assms ne
    by (simp add: Modbus_single_def)
  moreover have "receive_modbus_frame ?m1 c = (True, ?m2)"
    using process_read_response [of "?m\<lparr> modbus_frame_response := read_response slave vs,
        completed := True, finished := True \<rparr>" vs] assms ne
    by (simp add: receive_modbus_frame_def check_completed_def Let_def Modbus_single_def
        length_read_response unat_byte_count)
  moreover have "map_find (mb_values ?m2) (addr + 1 + of_nat i) = Some (vs ! i)" if "i < length vs" for i
    using map_of_register_entries [of vs i addr 0] that assms(1)
    by (simp add: omap.find_insert_all)
  ultimately show ?thesis
    by (intro exI [of _ ?m1] exI [of _ ?m2]) (simp add: Modbus_single_def)
qed

theorem read_response_in_any_chunks_witness:
  "\<exists>m1 m2. receive_chunks (Modbus_single 1 READ_HOLDING_REGISTERS 0xFFFF 1 ''op'') [[1], [3, 2, 0]] = (True, m1)
     \<and> \<not> completed m1
     \<and> receive_modbus_frame m1 [5, 0x78, 0x47] = (True, m2) \<and> completed m2 \<and> finished m2
     \<and> (\<forall>i < length [5 :: u16]. map_find (mb_values m2) (0xFFFF + 1 + of_nat i) = Some ([5] ! i))"
  by (rule read_response_in_any_chunks [where slave = 1 and vs = "[5]"])
    (simp_all add: read_response_def push_crc_def Let_def crc_sample hi_byte_def lo_byte_def)

section \<open>Writing registers\<close>

lemma header_ok_iff:
  assumes "2 \<le> length (modbus_frame_response m)"
  shows "header_ok m = Inr (modbus_frame_response m ! 0 = slave_address m
     \<and> modbus_frame_response m ! 1 = function_byte (function_code m)
     \<and> crc16_modbus (modbus_frame_response m) = 0)"
  using assms by (cases "modbus_frame_response m = []") (simp_all add: header_ok_def Let_def check_crc_residue)

lemma length8_cases:
  assumes "length xs = 8"
  obtains a b c d e f g h where "xs = [a, b, c, d, e, f, g, h]"
  using assms by (auto simp: numeral_eq_Suc length_Suc_conv)

lemma be16_eq_iff: "be16 h l = x \<longleftrightarrow> h = hi_byte x \<and> l = lo_byte x"
  by (metis be16_hi_lo be16_inject)

lemma residue_snoc2:
  "crc16_modbus (f @ [h, l]) = 0 \<longleftrightarrow> h = hi_byte (crc f) \<and> l = lo_byte (crc f)"
  using crc_eq_iff [of f h l] by (metis be16_eq_iff crc16_modbus_residue)

text \<open>a single-register write is acknowledged by its echo and by nothing else: of all
  eight-byte answers exactly the request itself is accepted.\<close>

theorem preset_single_accepts_exactly_echo:
  assumes "length resp = 8"
  shows "fst (receive_modbus_frame (Modbus_single slave PRESET_SINGLE_REGISTER addr v app) resp)
     \<longleftrightarrow> resp = modbus_frame (Modbus_single slave PRESET_SINGLE_REGISTER addr v app)"
proof -
  let ?m = "Modbus_single slave PRESET_SINGLE_REGISTER addr v app"
  obtain a b c d e f g h where resp: "resp = [a, b, c, d, e, f, g, h]"
    using assms by (rule length8_cases)
  let ?m2 = "?m\<lparr> modbus_frame_response := resp, completed := True, finished := True \<rparr>"
  have "header_ok ?m2 = Inr (a = slave \<and> b = 6
      \<and> g = hi_byte (crc [a, b, c, d, e, f]) \<and> h = lo_byte (crc [a, b, c, d, e, f]))"
    using residue_snoc2 [of "[a, b, c, d, e, f]" g h]
    by (simp add: header_ok_iff resp Modbus_single_def)
  then have "fst (process_completed ?m2) = Inr True \<longleftrightarrow> resp = modbus_frame ?m"
    by (auto simp: process_completed_def resp Modbus_single_def push_crc_def Let_def be16_eq_iff
        split: bool.splits)
  then show ?thesis
    by (simp add: receive_modbus_frame_def check_completed_def Let_def assms resp
        Modbus_single_def case_prod_beta)
qed

theorem preset_single_accepts_exactly_echo_witness:
  "\<not> fst (receive_modbus_frame (Modbus_single 1 PRESET_SINGLE_REGISTER 2 3 ''op'') [1, 6, 0, 2, 0, 4, 0, 0])"
  using preset_single_accepts_exactly_echo [of "[1, 6, 0, 2, 0, 4, 0, 0]" 1 2 3 "''op''"]
  by (simp add: Modbus_single_def push_crc_def Let_def lo_byte_def)

text \<open>The acknowledgement of a multiple-register write.\<close>

definition write_ack :: "u8 \<Rightarrow> u16 \<Rightarrow> u16 \<Rightarrow> u8 list" where
  "write_ack slave addr n =
     push_crc [slave, 0x10, hi_byte addr, lo_byte addr, hi_byte n, lo_byte n]"

lemma length_write_ack [simp]: "length (write_ack slave addr n) = 8"
  by (simp add: write_ack_def)

lemma process_write_ack:
  assumes "function_code m = PRESET_MULTIPLE_REGISTER" "confirmed m"
    and "length (values_to_write m) < 65536"
    and "modbus_frame_response m
      = write_ack (slave_address m) (address_data m) (of_nat (length (values_to_write m)))"
  shows "process_completed m = (Inr True, m)"
proof -
  let ?ack = "write_ack (slave_address m) (address_data m) (of_nat (length (values_to_write m)))"
  have "check_crc ?ack = Inr True" and "?ack ! 0 = slave_address m" and "?ack ! 1 = 0x10"
    by (simp_all add: write_ack_def check_crc_push_crc) (simp_all add: push_crc_def Let_def)
  moreover have "?ack \<noteq> []"
    using length_write_ack by (metis list.size(3) zero_neq_numeral)
  ultimately have "header_ok m = Inr True"
    using assms by (simp add: header_ok_def)
  then show ?thesis
    using assms by (simp add: process_completed_def Let_def)
      (simp add: write_ack_def push_crc_def Let_def unat_of_nat)
qed

text \<open>a multiple-register write that wants confirmation walks through its two phases: the
  echo of the request is swallowed and only marks the request confirmed, then the eight-byte
  acknowledgement completes it.\<close>

theorem preset_multiple_two_phases:
  assumes "length vs < 65536"
  shows "\<exists>m1 m2. receive_modbus_frame (Modbus_multi slave PRESET_MULTIPLE_REGISTER addr vs app True)
         (modbus_frame (Modbus_multi slave PRESET_MULTIPLE_REGISTER addr vs app True)) = (True, m1)
     \<and> confirmed m1 \<and> \<not> completed m1 \<and> modbus_frame_response m1 = []
     \<and> receive_modbus_frame m1 (write_ack slave addr (of_nat (length vs))) = (True, m2)
     \<and> completed m2 \<and> finished m2"
proof -
  let ?m = "Modbus_multi slave PRESET_MULTIPLE_REGISTER addr vs app True"
  let ?ack = "write_ack slave addr (of_nat (length vs))"
  let ?m1 = "?m\<lparr> confirmed := True \<rparr>"
  let ?m2 = "?m1\<lparr> modbus_frame_response := ?ack, completed := True, finished := True \<rparr>"
  have ne: "modbus_frame ?m \<noteq> []"
    by (simp add: Modbus_multi_def push_crc_def Let_def)
  have "receive_modbus_frame ?m (modbus_frame ?m) = (True, ?m1)"
    using ne by (simp add: receive_modbus_frame_def check_completed_def Let_def Modbus_multi_def)
  moreover have "process_completed ?m2 = (Inr True, ?m2)"
    using assms by (intro process_write_ack) (simp_all add: Modbus_multi_def)
  then have "receive_modbus_frame ?m1 ?ack = (True, ?m2)"
    using ne by (simp add: receive_modbus_frame_def check_completed_def Let_def Modbus_multi_def)
  ultimately show ?thesis
    by (intro exI [of _ ?m1] exI [of _ ?m2]) (simp add: Modbus_multi_def)
qed

theorem preset_multiple_two_phases_witness:
  "\<exists>m1 m2. receive_modbus_frame (Modbus_multi 1 PRESET_MULTIPLE_REGISTER 9 [7, 8] ''op'' True)
         (modbus_frame (Modbus_multi 1 PRESET_MULTIPLE_REGISTER 9 [7, 8] ''op'' True)) = (True, m1)
     \<and> confirmed m1 \<and> \<not> completed m1 \<and> modbus_frame_response m1 = []
     \<and> receive_modbus_frame m1 (write_ack 1 9 (of_nat (length [7 :: u16, 8]))) = (True, m2)
     \<and> completed m2 \<and> finished m2"
  by (rule preset_multiple_two_phases) simp

text \<open>the confirmation is sensitive to how the transport groups bytes.  When echo and
  acknowledgement arrive in one chunk, the very bytes that are accepted one after the other are refused and the request
  ends as an error.\<close>

theorem preset_multiple_glued_echo_refused:
  "fst (receive_modbus_frame (Modbus_multi slave PRESET_MULTIPLE_REGISTER addr vs app True)
     (modbus_frame (Modbus_multi slave PRESET_MULTIPLE_REGISTER addr vs app True)
        @ write_ack slave addr (of_nat (length vs)))) = False"
proof -
  let ?m = "Modbus_multi slave PRESET_MULTIPLE_REGISTER addr vs app True"
  let ?resp = "modbus_frame ?m @ write_ack slave addr (of_nat (length vs))"
  let ?m2 = "?m\<lparr> modbus_frame_response := ?resp, completed := True, finished := True \<rparr>"
  have ne: "modbus_frame ?m \<noteq> []"
    by (simp add: Modbus_multi_def push_crc_def Let_def)
  have cc: "check_completed ?m ?resp = (True, ?m\<lparr> modbus_frame_response := ?resp \<rparr>)"
    by (simp add: check_completed_def Let_def Modbus_multi_def)
  have "fst (process_completed ?m2) \<noteq> Inr True"
    by (simp add: process_completed_def Let_def Modbus_multi_def split: sum.split bool.split)
  then show ?thesis
    using ne cc by (simp add: receive_modbus_frame_def Let_def case_prod_beta)
qed

end
