(* ===== verification/Mqtt_Buffer.thy ===== *)
theory Mqtt_Buffer
  imports Prelude
begin

text \<open>
  The receive buffer of the MQTT input plugin (\<^verbatim>\<open>src/esp/plugins/input_mqtt/ESP_MqttBuffer.cpp\<close>): a
  queue of serialized messages \<open>topic // payload\<close> that is read in pieces of any size.  The interface
  \<open>byte_source\<close> says what a reader relies on, a byte stream with a count of unread bytes; its
  consequences are proved once for any implementation and the buffer is shown to be one.  Message
  sizes are C++ \<open>int\<close>; the model's integers agree with them while the buffered total stays below
  \<open>2 ^ 31\<close>.
\<close>

section \<open>The code\<close>

text \<open>\<open>struct mosquitto_message\<close>, as far as the buffer reads it; \<open>payloadlen\<close> is the length of
  \<open>payload\<close>.\<close>

record mosquitto_message =
  topic :: string
  payload :: string

text \<open>\<open>buffSerialized\<close> is NULL (\<open>None\<close>) when the allocation failed.\<close>

record ESP_MqttMsg =
  readOffset :: int
  buffSerialized :: "string option"
  msg_length :: int

record ESP_MqttBuffer =
  qMqttMsg :: "ESP_MqttMsg list"
  unreadBytes :: int

definition ESP_MQTT_DELIM_END :: string where
  "ESP_MQTT_DELIM_END = ''//''"

definition new_MqttMsg :: "bool \<Rightarrow> mosquitto_message \<Rightarrow> ESP_MqttMsg" where
  "new_MqttMsg malloc_ok msg =
     (if malloc_ok then
        \<lparr> readOffset = 0,
          buffSerialized = Some (c_str (topic msg) @ ESP_MQTT_DELIM_END @ payload msg),
          msg_length = int (length (payload msg)) + int (length (c_str (topic msg)))
                       + int (length ESP_MQTT_DELIM_END) \<rparr>
      else \<lparr> readOffset = 0, buffSerialized = None, msg_length = - 1 \<rparr>)"

definition getTotalLength :: "ESP_MqttMsg \<Rightarrow> int" where
  "getTotalLength m = msg_length m"

definition getRemainingLength :: "ESP_MqttMsg \<Rightarrow> int" where
  "getRemainingLength m = msg_length m - readOffset m"

text \<open>The buffer from the read offset on, and the length to copy.\<close>

definition getBufferToBeCopied :: "ESP_MqttMsg \<Rightarrow> string option \<times> int" where
  "getBufferToBeCopied m =
     (map_option (drop (nat (readOffset m))) (buffSerialized m), getRemainingLength m)"

definition moveOffset :: "int \<Rightarrow> ESP_MqttMsg \<Rightarrow> ESP_MqttMsg" where
  "moveOffset n m = m\<lparr> readOffset := readOffset m + n \<rparr>"

definition new_MqttBuffer :: ESP_MqttBuffer where
  "new_MqttBuffer = \<lparr> qMqttMsg = [], unreadBytes = 0 \<rparr>"

definition addMsg :: "ESP_MqttMsg \<Rightarrow> ESP_MqttBuffer \<Rightarrow> ESP_MqttBuffer" where
  "addMsg m b = b\<lparr> qMqttMsg := qMqttMsg b @ [m], unreadBytes := unreadBytes b + getTotalLength m \<rparr>"

definition decreaseUnreadBytes :: "int \<Rightarrow> ESP_MqttBuffer \<Rightarrow> ESP_MqttBuffer" where
  "decreaseUnreadBytes n b = b\<lparr> unreadBytes := unreadBytes b - n \<rparr>"

text \<open>\<open>front\<close> and \<open>pop\<close> of an empty queue, and \<open>memcpy\<close> from NULL or with a negative count, have no
  defined behaviour; they are the error branch.\<close>

definition removeMsg :: "ESP_MqttBuffer \<Rightarrow> ESP_MqttBuffer result" where
  "removeMsg b =
     (case qMqttMsg b of
        [] \<Rightarrow> Inl (runtime_error ''front'')
      | m # q \<Rightarrow> Inr (b\<lparr> qMqttMsg := q \<rparr>))"

definition getFirstMqttMessage :: "ESP_MqttBuffer \<Rightarrow> string option \<times> int" where
  "getFirstMqttMessage b =
     (case qMqttMsg b of [] \<Rightarrow> (None, 0) | m # q \<Rightarrow> getBufferToBeCopied m)"

definition deleteFirstMessage :: "ESP_MqttBuffer \<Rightarrow> ESP_MqttBuffer result" where
  "deleteFirstMessage b =
     (case qMqttMsg b of
        [] \<Rightarrow> Inl (runtime_error ''front'')
      | m # q \<Rightarrow> removeMsg (decreaseUnreadBytes (snd (getBufferToBeCopied m)) b))"

definition mem_copy :: "string option \<Rightarrow> int \<Rightarrow> string result" where
  "mem_copy src n =
     (case src of
        None \<Rightarrow> Inl (runtime_error ''memcpy'')
      | Some s \<Rightarrow> if n < 0 then Inl (runtime_error ''memcpy'') else Inr (take (nat n) s))"

text \<open>The bytes written to \<open>buffOutput\<close> (the returned count is their number) and the buffer
  afterwards.\<close>

definition getSerialized :: "ESP_MqttBuffer \<Rightarrow> int \<Rightarrow> (string \<times> ESP_MqttBuffer) result" where
  "getSerialized b lenRead =
     (case qMqttMsg b of
        [] \<Rightarrow> Inr ([], b)
      | m # q \<Rightarrow>
          let (auxBuff, nMsgLen) = getBufferToBeCopied m;
              nBuffLen = (if nMsgLen > lenRead then lenRead else nMsgLen)
          in bind_exn (mem_copy auxBuff nBuffLen) (\<lambda>out.
             let b1 = decreaseUnreadBytes nBuffLen b in
             if nBuffLen < nMsgLen
             then Inr (out, b1\<lparr> qMqttMsg := moveOffset nBuffLen m # q \<rparr>)
             else bind_exn (removeMsg b1) (\<lambda>b2. Inr (out, b2))))"

definition getUnreadBytes :: "ESP_MqttBuffer \<Rightarrow> int" where
  "getUnreadBytes b = unreadBytes b"

definition isQueueEmpty :: "ESP_MqttBuffer \<Rightarrow> bool" where
  "isQueueEmpty b = (qMqttMsg b = [])"

section \<open>What a reader relies on\<close>

datatype 'm buffer_op = Add 'm | Read int

locale byte_source =
  fixes add :: "'m \<Rightarrow> 'b \<Rightarrow> 'b"
    and read :: "'b \<Rightarrow> int \<Rightarrow> (string \<times> 'b) result"
    and unread :: "'b \<Rightarrow> int"
    and content :: "'m \<Rightarrow> string"
    and pending :: "'b \<Rightarrow> string"
    and msg_ok :: "'m \<Rightarrow> bool"
    and invar :: "'b \<Rightarrow> bool"
  assumes pending_add: "invar b \<Longrightarrow> msg_ok m \<Longrightarrow> pending (add m b) = pending b @ content m"
    and invar_add: "invar b \<Longrightarrow> msg_ok m \<Longrightarrow> invar (add m b)"
    and read_total: "invar b \<Longrightarrow> 0 \<le> n \<Longrightarrow> \<exists>s b'. read b n = Inr (s, b')"
    and read_splits: "invar b \<Longrightarrow> 0 \<le> n \<Longrightarrow> read b n = Inr (s, b') \<Longrightarrow>
      pending b = s @ pending b' \<and> int (length s) \<le> n \<and> invar b'"
    and read_progress: "invar b \<Longrightarrow> 0 < n \<Longrightarrow> read b n = Inr (s, b') \<Longrightarrow> pending b \<noteq> [] \<Longrightarrow> s \<noteq> []"
    and unread_pending: "invar b \<Longrightarrow> unread b = int (length (pending b))"
begin

text \<open>A sequence of arrivals and reads, with everything read so far.\<close>

fun run_ops :: "'m buffer_op list \<Rightarrow> 'b \<Rightarrow> (string \<times> 'b) result" where
  "run_ops [] b = Inr ([], b)"
| "run_ops (Add m # ops) b = run_ops ops (add m b)"
| "run_ops (Read n # ops) b =
     bind_exn (read b n) (\<lambda>(s, b'). bind_exn (run_ops ops b') (\<lambda>(t, b''). Inr (s @ t, b'')))"

fun op_ok :: "'m buffer_op \<Rightarrow> bool" where
  "op_ok (Add m) = msg_ok m"
| "op_ok (Read n) = (0 \<le> n)"

fun op_bytes :: "'m buffer_op \<Rightarrow> string" where
  "op_bytes (Add m) = content m"
| "op_bytes (Read n) = []"

lemma run_ops_fifo:
  "invar b \<Longrightarrow> list_all op_ok ops \<Longrightarrow>
     \<exists>out b'. run_ops ops b = Inr (out, b') \<and> invar b'
       \<and> out @ pending b' = pending b @ concat (map op_bytes ops)"
proof (induction ops b rule: run_ops.induct)
  case (2 m ops b)
  then show ?case using invar_add pending_add by auto
next
  case (3 n ops b)
  obtain s b1 where r: "read b n = Inr (s, b1)"
    using read_total 3 by fastforce
  with 3 have sp: "pending b = s @ pending b1" "invar b1"
    using read_splits by fastforce+
  obtain t b2 where "run_ops ops b1 = Inr (t, b2) \<and> invar b2
      \<and> t @ pending b2 = pending b1 @ concat (map op_bytes ops)"
    using "3.IH" [OF r refl sp(2)] 3 by auto
  with r sp show ?case by simp
qed simp

text \<open>Reading in fixed pieces until the count is down to 0.\<close>

fun drain :: "nat \<Rightarrow> int \<Rightarrow> 'b \<Rightarrow> (string \<times> 'b) result" where
  "drain 0 n b = Inr ([], b)"
| "drain (Suc fuel) n b =
     (if unread b = 0 then Inr ([], b)
      else bind_exn (read b n) (\<lambda>(s, b'). bind_exn (drain fuel n b') (\<lambda>(t, b''). Inr (s @ t, b''))))"

lemma drain_reads_all:
  "invar b \<Longrightarrow> 0 < n \<Longrightarrow> length (pending b) \<le> fuel \<Longrightarrow>
     \<exists>b'. drain fuel n b = Inr (pending b, b') \<and> pending b' = [] \<and> unread b' = 0"
proof (induction fuel arbitrary: b)
  case 0
  then show ?case by (simp add: unread_pending)
next
  case (Suc fuel)
  show ?case
  proof (cases "pending b = []")
    case True
    with Suc show ?thesis by (simp add: unread_pending)
  next
    case False
    obtain s b1 where r: "read b n = Inr (s, b1)"
      using read_total Suc.prems by fastforce
    have sp: "pending b = s @ pending b1" "invar b1"
      using read_splits [OF Suc.prems(1) _ r] Suc.prems(2) by simp_all
    have "0 < length s"
      using read_progress [OF Suc.prems(1,2) r False] by simp
    moreover have "length (pending b) = length s + length (pending b1)"
      by (simp add: sp(1))
    ultimately have "length (pending b1) \<le> fuel"
      using Suc.prems(3) by linarith
    then obtain b' where "drain fuel n b1 = Inr (pending b1, b') \<and> pending b' = [] \<and> unread b' = 0"
      using Suc.IH [OF sp(2)] Suc.prems(2) by blast
    moreover have "unread b \<noteq> 0"
      using False Suc.prems(1) by (simp add: unread_pending)
    ultimately show ?thesis using r sp(1) by simp
  qed
qed

end

section \<open>The buffer is a byte source\<close>

definition msg_wf :: "ESP_MqttMsg \<Rightarrow> bool" where
  "msg_wf m = (case buffSerialized m of None \<Rightarrow> False
     | Some s \<Rightarrow> msg_length m = int (length s) \<and> 0 \<le> readOffset m \<and> readOffset m < msg_length m)"

definition remaining :: "ESP_MqttMsg \<Rightarrow> string" where
  "remaining m = drop (nat (readOffset m)) (the (buffSerialized m))"

definition mqtt_pending :: "ESP_MqttBuffer \<Rightarrow> string" where
  "mqtt_pending b = concat (map remaining (qMqttMsg b))"

definition mqtt_invar :: "ESP_MqttBuffer \<Rightarrow> bool" where
  "mqtt_invar b \<longleftrightarrow> list_all msg_wf (qMqttMsg b) \<and> unreadBytes b = int (length (mqtt_pending b))"

definition msg_fresh :: "ESP_MqttMsg \<Rightarrow> bool" where
  "msg_fresh m \<longleftrightarrow> msg_wf m \<and> readOffset m = 0"

lemma msg_wf_buffer:
  "msg_wf m \<Longrightarrow> getBufferToBeCopied m = (Some (remaining m), int (length (remaining m)))"
  by (auto simp: msg_wf_def remaining_def getBufferToBeCopied_def getRemainingLength_def
      split: option.splits)

lemma msg_wf_nonempty: "msg_wf m \<Longrightarrow> remaining m \<noteq> []"
  by (auto simp: msg_wf_def remaining_def split: option.splits)

lemma fresh_content: "msg_fresh m \<Longrightarrow> remaining m = the (buffSerialized m) \<and> getTotalLength m = int (length (remaining m))"
  by (auto simp: msg_fresh_def msg_wf_def remaining_def getTotalLength_def split: option.splits)

lemma msg_wf_moveOffset:
  assumes "msg_wf m" "0 \<le> n" "n < int (length (remaining m))"
  shows "msg_wf (moveOffset n m)" "remaining (moveOffset n m) = drop (nat n) (remaining m)"
  using assms
  by (auto simp: msg_wf_def moveOffset_def remaining_def nat_add_distrib add.commute split: option.splits)

text \<open>The two outcomes of a read from a non-empty queue.\<close>

lemma getSerialized_Cons:
  assumes "qMqttMsg b = m # q" "msg_wf m" "0 \<le> n"
  shows "getSerialized b n =
    (if n < int (length (remaining m))
     then Inr (take (nat n) (remaining m),
               b\<lparr> unreadBytes := unreadBytes b - n, qMqttMsg := moveOffset n m # q \<rparr>)
     else Inr (remaining m,
               b\<lparr> unreadBytes := unreadBytes b - int (length (remaining m)), qMqttMsg := q \<rparr>))"
  using assms
  by (simp add: msg_wf_buffer getSerialized_def mem_copy_def decreaseUnreadBytes_def removeMsg_def Let_def)

interpretation mqtt: byte_source addMsg getSerialized getUnreadBytes "\<lambda>m. the (buffSerialized m)"
  mqtt_pending msg_fresh mqtt_invar
proof (unfold_locales, goal_cases)
  case (1 b m)
  then show ?case by (simp add: addMsg_def mqtt_pending_def fresh_content)
next
  case (2 b m)
  then show ?case
    using fresh_content [of m] by (auto simp: addMsg_def mqtt_pending_def mqtt_invar_def msg_fresh_def)
next
  case (3 b n)
  then show ?case
    by (cases "qMqttMsg b") (simp_all add: getSerialized_Cons mqtt_invar_def, simp add: getSerialized_def)
next
  case (4 b n s b')
  then show ?case
    by (cases "qMqttMsg b")
      (auto simp: getSerialized_Cons mqtt_invar_def mqtt_pending_def msg_wf_moveOffset split: if_splits,
       auto simp: getSerialized_def)
next
  case (5 b n s b')
  then show ?case
    by (cases "qMqttMsg b")
      (auto simp: getSerialized_Cons mqtt_invar_def mqtt_pending_def dest: msg_wf_nonempty split: if_splits)
next
  case (6 b)
  then show ?case by (simp add: mqtt_invar_def getUnreadBytes_def)
qed

section \<open>Properties\<close>

lemma new_msg_fresh:
  "msg_fresh (new_MqttMsg True msg)
   \<and> the (buffSerialized (new_MqttMsg True msg)) = c_str (topic msg) @ ''//'' @ payload msg"
  by (simp add: msg_fresh_def msg_wf_def new_MqttMsg_def ESP_MQTT_DELIM_END_def)

lemma new_buffer_invar: "mqtt_invar new_MqttBuffer" "mqtt_pending new_MqttBuffer = []"
  by (simp_all add: mqtt_invar_def mqtt_pending_def new_MqttBuffer_def)

text \<open>Arrivals and reads in any order, on the operations of the class.\<close>

fun mqtt_run :: "mosquitto_message buffer_op list \<Rightarrow> ESP_MqttBuffer \<Rightarrow> (string \<times> ESP_MqttBuffer) result" where
  "mqtt_run [] b = Inr ([], b)"
| "mqtt_run (Add msg # ops) b = mqtt_run ops (addMsg (new_MqttMsg True msg) b)"
| "mqtt_run (Read n # ops) b =
     bind_exn (getSerialized b n) (\<lambda>(s, b').
     bind_exn (mqtt_run ops b') (\<lambda>(t, b''). Inr (s @ t, b'')))"

fun arriving :: "mosquitto_message buffer_op \<Rightarrow> string" where
  "arriving (Add msg) = c_str (topic msg) @ ''//'' @ payload msg"
| "arriving (Read n) = []"

lemma mqtt_run_eq: "mqtt_run ops b = mqtt.run_ops (map (map_buffer_op (new_MqttMsg True)) ops) b"
  by (induction ops b rule: mqtt_run.induct) (simp_all add: bind_exn_def split: sum.split)

lemma arriving_eq:
  "concat (map arriving ops) = concat (map mqtt.op_bytes (map (map_buffer_op (new_MqttMsg True)) ops))"
proof (induction ops)
  case (Cons x xs)
  then show ?case by (cases x) (simp_all add: new_msg_fresh)
qed simp



text \<open>The reader's loop: pieces of at most \<open>n\<close> bytes while the unread count is positive.\<close>

fun read_all :: "nat \<Rightarrow> int \<Rightarrow> ESP_MqttBuffer \<Rightarrow> (string \<times> ESP_MqttBuffer) result" where
  "read_all 0 n b = Inr ([], b)"
| "read_all (Suc fuel) n b =
     (if getUnreadBytes b = 0 then Inr ([], b)
      else bind_exn (getSerialized b n) (\<lambda>(s, b').
           bind_exn (read_all fuel n b') (\<lambda>(t, b''). Inr (s @ t, b''))))"

lemma read_all_eq: "read_all fuel n b = mqtt.drain fuel n b"
  by (induction fuel arbitrary: b) (simp_all add: bind_exn_def split: sum.split)

text \<open>reading makes progress and ends.  With any positive piece size, at most one read per
  pending byte empties the buffer: the loop returns exactly the pending bytes, and the count is
  then 0.\<close>

theorem mqtt_read_loop_drains:
  assumes "mqtt_invar b" and "0 < n" and "length (mqtt_pending b) \<le> fuel"
  shows "\<exists>b'. read_all fuel n b = Inr (mqtt_pending b, b')
     \<and> mqtt_pending b' = [] \<and> getUnreadBytes b' = 0"
  using mqtt.drain_reads_all [OF assms] by (simp add: read_all_eq)

theorem mqtt_read_loop_drains_witness:
  "\<exists>b'. read_all 9 2 (addMsg (new_MqttMsg True \<lparr> topic = ''dev'', payload = ''#x|7'' \<rparr>) new_MqttBuffer)
     = Inr (''dev//#x|7'', b') \<and> mqtt_pending b' = [] \<and> getUnreadBytes b' = 0"
proof -
  let ?m = "new_MqttMsg True \<lparr> topic = ''dev'', payload = ''#x|7'' \<rparr>"
  have "mqtt_invar (addMsg ?m new_MqttBuffer)"
    by (intro mqtt.invar_add new_buffer_invar) (simp add: new_msg_fresh)
  moreover have "mqtt_pending (addMsg ?m new_MqttBuffer) = ''dev//#x|7''"
    using new_msg_fresh new_buffer_invar by (subst mqtt.pending_add) (simp_all add: c_str_def)
  ultimately show ?thesis
    using mqtt_read_loop_drains [of "addMsg ?m new_MqttBuffer" 2 9] by simp
qed

text \<open>Dropping a whole message keeps the count exact too.\<close>

lemma deleteFirstMessage_drops:
  assumes "mqtt_invar b" and "qMqttMsg b = m # q"
  shows "\<exists>b'. deleteFirstMessage b = Inr b' \<and> mqtt_invar b'
    \<and> mqtt_pending b = remaining m @ mqtt_pending b'"
  using assms
  by (simp add: deleteFirstMessage_def removeMsg_def decreaseUnreadBytes_def mqtt_invar_def
      mqtt_pending_def msg_wf_buffer)

end
