(* ===== verification/Multi_Index.thy ===== *)
theory Multi_Index
  imports Prelude
begin

text \<open>
  The part of \<open>boost::multi_index_container\<close> the two caches use: a sequence of elements with a
  unique hashed index on top.  The container is library code; the model takes its hashed lookup as
  a parameter \<open>fnd\<close> and states what boost promises about it as \<open>find_ok\<close>: a hit is an element of the
  container that compares equal to the key, and an element that both hashes like the key and compares
  equal to it is never missed.  (When two keys compare equal but hash differently, both outcomes are
  possible: it depends on whether they share a bucket.)  The positional operations on the sequence
  are written out.  The locale \<open>hash_consistent\<close> collects what follows when equal hash keys imply
  equality; both caches interpret it.
\<close>

type_synonym 'a finder = "'a \<Rightarrow> 'a list \<Rightarrow> 'a option"

definition find_ok :: "('a \<Rightarrow> 'k) \<Rightarrow> ('a \<Rightarrow> 'a \<Rightarrow> bool) \<Rightarrow> 'a finder \<Rightarrow> bool" where
  "find_ok hkey eq fnd \<longleftrightarrow>
     (\<forall>key l. case fnd key l of
        Some d \<Rightarrow> d \<in> set l \<and> eq d key
      | None \<Rightarrow> \<forall>d \<in> set l. hkey d = hkey key \<longrightarrow> \<not> eq d key)"

text \<open>Lookup in a non-unique index: some element with the key's index value, if there is one.\<close>

definition key_find_ok :: "('a \<Rightarrow> 'k) \<Rightarrow> 'a finder \<Rightarrow> bool" where
  "key_find_ok ikey fnd \<longleftrightarrow>
     (\<forall>key l. case fnd key l of
        Some d \<Rightarrow> d \<in> set l \<and> ikey d = ikey key
      | None \<Rightarrow> \<forall>d \<in> set l. ikey d \<noteq> ikey key)"

text \<open>\<open>push_front\<close>, \<open>push_back\<close>: the sequence, the element at the returned iterator, and whether the
  element was inserted.\<close>

definition push_front :: "'a finder \<Rightarrow> 'a \<Rightarrow> 'a list \<Rightarrow> 'a list \<times> 'a \<times> bool" where
  "push_front fnd x l = (case fnd x l of None \<Rightarrow> (x # l, x, True) | Some y \<Rightarrow> (l, y, False))"

definition push_back :: "'a finder \<Rightarrow> 'a \<Rightarrow> 'a list \<Rightarrow> 'a list \<times> 'a \<times> bool" where
  "push_back fnd x l = (case fnd x l of None \<Rightarrow> (l @ [x], x, True) | Some y \<Rightarrow> (l, y, False))"

definition relocate_begin :: "'a \<Rightarrow> 'a list \<Rightarrow> 'a list" where
  "relocate_begin y l = y # remove1 y l"

definition relocate_end :: "'a \<Rightarrow> 'a list \<Rightarrow> 'a list" where
  "relocate_end y l = remove1 y l @ [y]"

text \<open>A finder that meets the contract: first element with the same hash key.\<close>

definition scan :: "('a \<Rightarrow> 'k) \<Rightarrow> 'a finder" where
  "scan key x l = find (\<lambda>d. key d = key x) l"

text \<open>Timers are armed and cancelled through the elements; the caches log it.\<close>

datatype 'a timer_act = Start 'a int | Cancel 'a

lemma find_okD:
  assumes "find_ok hkey eq fnd"
  shows find_ok_Some: "fnd key l = Some d \<Longrightarrow> d \<in> set l \<and> eq d key"
    and find_ok_None: "fnd key l = None \<Longrightarrow> d \<in> set l \<Longrightarrow> hkey d = hkey key \<Longrightarrow> \<not> eq d key"
  using assms [unfolded find_ok_def, rule_format, of l key] by auto

lemma key_find_okD:
  assumes "key_find_ok ikey fnd"
  shows key_find_ok_Some: "fnd key l = Some d \<Longrightarrow> d \<in> set l \<and> ikey d = ikey key"
    and key_find_ok_None: "fnd key l = None \<Longrightarrow> d \<in> set l \<Longrightarrow> ikey d \<noteq> ikey key"
  using assms [unfolded key_find_ok_def, rule_format, of l key] by auto

lemma scan_key_find_ok: "key_find_ok key (scan key)"
  by (auto simp: key_find_ok_def scan_def find_None_iff find_Some_iff split: option.split)

lemma distinct_map_remove1: "distinct (map f l) \<Longrightarrow> distinct (map f (remove1 x l))"
  using set_remove1_subset by (induction l) (auto, fastforce)

lemma distinct_map_butlast: "distinct (map f l) \<Longrightarrow> distinct (map f (butlast l))"
  by (simp add: map_butlast distinct_butlast)

lemma distinct_relocate:
  assumes "distinct (map f l)" and "y \<in> set l"
  shows "distinct (map f (relocate_begin y l))" "distinct (map f (relocate_end y l))"
proof -
  obtain us vs where l: "l = us @ y # vs"
    using assms(2) by (meson split_list)
  with assms(1) have "remove1 y l = us @ vs"
    by (auto simp: remove1_append)
  with assms(1) l have "distinct (map f (y # remove1 y l))"
    by auto
  then show "distinct (map f (relocate_begin y l))" "distinct (map f (relocate_end y l))"
    by (auto simp: relocate_begin_def relocate_end_def)
qed

lemma length_relocate [simp]:
  assumes "y \<in> set l"
  shows "length (relocate_begin y l) = length l" "length (relocate_end y l) = length l"
  using length_pos_if_in_set [OF assms] assms
  by (simp_all add: relocate_begin_def relocate_end_def length_remove1)

lemma set_relocate [simp]:
  "y \<in> set l \<Longrightarrow> distinct l \<Longrightarrow> set (relocate_begin y l) = set l"
  "y \<in> set l \<Longrightarrow> distinct l \<Longrightarrow> set (relocate_end y l) = set l"
  by (auto simp: relocate_begin_def relocate_end_def)

section \<open>Least-recently-used lists\<close>

text \<open>The keys of a recency list of capacity \<open>n\<close> after the accesses \<open>ks\<close>, most recent first.\<close>

definition recent :: "nat \<Rightarrow> 'k list \<Rightarrow> 'k list" where
  "recent n ks = take n (rev (remdups ks))"

lemma remdups_snoc: "remdups (ks @ [k]) = filter (\<lambda>x. x \<noteq> k) (remdups ks) @ [k]"
  by (induction ks) auto

lemma rev_remdups_snoc: "rev (remdups (ks @ [k])) = k # filter (\<lambda>x. x \<noteq> k) (rev (remdups ks))"
  by (simp add: remdups_snoc rev_filter)

lemma remove1_distinct: "distinct l \<Longrightarrow> remove1 k l = filter (\<lambda>x. x \<noteq> k) l"
  by (simp add: distinct_remove1_removeAll removeAll_filter_not_eq eq_commute)

lemma take_filter_hit:
  assumes "distinct l" "k \<in> set (take n l)"
  shows "take n (k # filter (\<lambda>x. x \<noteq> k) l) = k # filter (\<lambda>x. x \<noteq> k) (take n l)"
  using assms
proof (induction l arbitrary: n)
  case (Cons a l)
  show ?case
  proof (cases n)
    case (Suc m)
    show ?thesis
    proof (cases "a = k")
      case True
      then show ?thesis using Suc Cons.prems
        by (auto simp: filter_id_conv intro!: filter_True [symmetric] arg_cong [where f = "take m"] dest: in_set_takeD)
          (metis (mono_tags, lifting) filter_True in_set_takeD)
    next
      case False
      with Suc Cons.prems have "k \<in> set (take m l)" "distinct l" by auto
      from Cons.IH [OF this(2,1)] False Suc show ?thesis
        using \<open>k \<in> set (take m l)\<close> by (cases m) auto
    qed
  qed (use Cons.prems in simp)
qed simp

lemma take_filter_miss:
  assumes "k \<notin> set (take n l)"
  shows "take (Suc n) (k # filter (\<lambda>x. x \<noteq> k) l) = k # take n (filter (\<lambda>x. x \<noteq> k) l)"
    and "m \<le> n \<Longrightarrow> take m (filter (\<lambda>x. x \<noteq> k) l) = take m l"
proof -
  show "m \<le> n \<Longrightarrow> take m (filter (\<lambda>x. x \<noteq> k) l) = take m l"
    using assms
  proof (induction l arbitrary: n m)
    case (Cons a l)
    show ?case
    proof (cases m)
      case (Suc m')
      with Cons.prems obtain n' where "n = Suc n'" by (cases n) auto
      with Suc Cons show ?thesis by auto
    qed simp
  qed simp
qed simp

lemma recent_snoc:
  "recent n (ks @ [k]) =
     (if k \<in> set (recent n ks) then k # remove1 k (recent n ks)
      else take n (k # recent n ks))"
proof (cases "k \<in> set (recent n ks)")
  case True
  then show ?thesis
    using take_filter_hit [of "rev (remdups ks)" k n]
    by (simp add: recent_def rev_remdups_snoc remove1_distinct)
next
  case False
  show ?thesis
  proof (cases n)
    case (Suc m)
    have "take m (filter (\<lambda>x. x \<noteq> k) (rev (remdups ks))) = take m (rev (remdups ks))"
      using False by (intro take_filter_miss(2) [where n = n]) (simp_all add: recent_def Suc)
    then show ?thesis
      using False by (simp add: recent_def rev_remdups_snoc Suc min_def)
  qed (use False in \<open>simp add: recent_def\<close>)
qed

section \<open>Insertion into the sequence\<close>

text \<open>What both caches do to the sequence, without the timers: a known element moves to the front, a
  new one is pushed there and the last one is dropped when the capacity is exceeded; in the other
  mode elements are added or moved at the end while there is room.\<close>

definition lru_insert :: "'a finder \<Rightarrow> nat \<Rightarrow> 'a \<Rightarrow> 'a list \<Rightarrow> 'a list" where
  "lru_insert fnd n x l =
     (let (l', y, new) = push_front fnd x l
      in if \<not> new then relocate_begin y l'
         else if length l' > n then butlast l' else l')"

definition mru_insert :: "'a finder \<Rightarrow> nat \<Rightarrow> 'a \<Rightarrow> 'a list \<Rightarrow> 'a list" where
  "mru_insert fnd n x l =
     (if length l < n
      then let (l', y, new) = push_back fnd x l in if \<not> new then relocate_end y l' else l'
      else l)"

locale hash_consistent =
  fixes hkey :: "'a \<Rightarrow> 'k" and eq :: "'a \<Rightarrow> 'a \<Rightarrow> bool"
  assumes hkey_eq: "hkey a = hkey b \<Longrightarrow> eq a b"
begin

definition seq_invar :: "nat \<Rightarrow> 'a list \<Rightarrow> bool" where
  "seq_invar n l \<longleftrightarrow> length l \<le> n \<and> distinct (map hkey l)"

lemma miss_fresh:
  "find_ok hkey eq fnd \<Longrightarrow> fnd x l = None \<Longrightarrow> hkey x \<notin> hkey ` set l"
  using find_ok_None [of hkey eq fnd x l] hkey_eq by force

lemma scan_find_ok: "find_ok hkey eq (scan hkey)"
  by (auto simp: find_ok_def scan_def find_None_iff find_Some_iff hkey_eq split: option.split)

lemma lru_insert_cases:
  assumes "find_ok hkey eq fnd"
  obtains (hit) y where "fnd x l = Some y" "y \<in> set l" "eq y x" "lru_insert fnd n x l = relocate_begin y l"
  | (miss) "fnd x l = None" "hkey x \<notin> hkey ` set l"
      "lru_insert fnd n x l = (if length l < n then x # l else butlast (x # l))"
  using find_ok_Some [OF assms, of x l] miss_fresh [OF assms, of x l]
  by (cases "fnd x l") (auto simp: lru_insert_def push_front_def)

lemma mru_insert_cases:
  assumes "find_ok hkey eq fnd" and "length l < n"
  obtains (hit) y where "y \<in> set l" "eq y x" "mru_insert fnd n x l = relocate_end y l"
  | (miss) "hkey x \<notin> hkey ` set l" "mru_insert fnd n x l = l @ [x]"
  using find_ok_Some [OF assms(1), of x l] miss_fresh [OF assms(1), of x l] assms(2)
  by (cases "fnd x l") (auto simp: mru_insert_def push_back_def)

lemma lru_insert_invar:
  assumes "find_ok hkey eq fnd" and inv: "seq_invar n l"
  shows "seq_invar n (lru_insert fnd n x l)"
  using assms(1)
proof (cases rule: lru_insert_cases [where x = x and l = l and n = n])
  case (hit y)
  with inv show ?thesis
    by (simp add: seq_invar_def distinct_relocate)
next
  case miss
  with inv show ?thesis
    by (auto simp: seq_invar_def distinct_map_butlast dest: in_set_butlastD)
qed

lemma mru_insert_invar:
  assumes "find_ok hkey eq fnd" and inv: "seq_invar n l"
  shows "seq_invar n (mru_insert fnd n x l)"
proof (cases "length l < n")
  case True
  with assms(1) show ?thesis
  proof (cases rule: mru_insert_cases [where x = x])
    case (hit y)
    with inv show ?thesis by (simp add: seq_invar_def distinct_relocate)
  next
    case miss
    with inv True show ?thesis by (auto simp: seq_invar_def)
  qed
next
  case False
  with inv show ?thesis by (simp add: mru_insert_def)
qed

lemma remove1_invar: "seq_invar n l \<Longrightarrow> seq_invar n (remove1 x l)"
  by (auto simp: seq_invar_def distinct_map_remove1 length_remove1)

lemma lru_insert_front:
  assumes "find_ok hkey eq fnd" and "0 < n"
  shows "\<exists>y ys. lru_insert fnd n x l = y # ys \<and> eq y x"
  using assms(1)
proof (cases rule: lru_insert_cases [where x = x and l = l and n = n])
  case (hit y)
  then show ?thesis by (simp add: relocate_begin_def)
next
  case miss
  then show ?thesis using assms(2) by (cases l) (auto simp: hkey_eq)
qed

lemma map_remove1_key:
  "distinct (map hkey l) \<Longrightarrow> y \<in> set l \<Longrightarrow> map hkey (remove1 y l) = remove1 (hkey y) (map hkey l)"
  by (induction l) (auto simp: rev_image_eqI)

text \<open>When equal elements always have equal hash keys, the sequence is the recency list.\<close>

lemma lru_insert_recent:
  assumes ok: "find_ok hkey eq fnd" and inv: "seq_invar n l"
    and consistent: "\<forall>a \<in> insert x (set l). \<forall>b \<in> insert x (set l). eq a b \<longrightarrow> hkey a = hkey b"
    and keys: "map hkey l = recent n ks"
  shows "map hkey (lru_insert fnd n x l) = recent n (ks @ [hkey x])"
  using ok
proof (cases rule: lru_insert_cases [where x = x and l = l and n = n])
  case (hit y)
  then have k: "hkey x = hkey y" using consistent by auto
  then have "hkey x \<in> hkey ` set l" using hit(2) by simp
  moreover have "map hkey (relocate_begin y l) = hkey x # remove1 (hkey x) (map hkey l)"
    using inv hit(2) by (simp add: relocate_begin_def map_remove1_key seq_invar_def k)
  ultimately show ?thesis
    by (simp add: recent_snoc hit(4) flip: keys)
next
  case miss
  have "take n (hkey x # map hkey l) = map hkey (if length l < n then x # l else butlast (x # l))"
    using inv by (auto simp: seq_invar_def butlast_conv_take take_map take_Cons')
  with miss show ?thesis
    by (simp add: recent_snoc flip: keys)
qed

lemma set_lru_insert:
  "find_ok hkey eq fnd \<Longrightarrow> set (lru_insert fnd n x l) \<subseteq> insert x (set l)"
  by (erule lru_insert_cases [where x = x and l = l and n = n])
    (auto simp: relocate_begin_def dest: notin_set_remove1 in_set_butlastD split: if_splits)

lemma lru_sequence_recent:
  assumes ok: "find_ok hkey eq fnd"
    and consistent: "\<forall>a \<in> set xs. \<forall>b \<in> set xs. eq a b \<longrightarrow> hkey a = hkey b"
  shows "map hkey (foldl (\<lambda>l x. lru_insert fnd n x l) [] xs) = recent n (map hkey xs)
    \<and> seq_invar n (foldl (\<lambda>l x. lru_insert fnd n x l) [] xs)
    \<and> set (foldl (\<lambda>l x. lru_insert fnd n x l) [] xs) \<subseteq> set xs"
  using consistent
proof (induction xs rule: rev_induct)
  case Nil
  show ?case by (simp add: recent_def seq_invar_def)
next
  case (snoc x xs)
  let ?l = "foldl (\<lambda>l x. lru_insert fnd n x l) [] xs"
  have IH: "map hkey ?l = recent n (map hkey xs)" "seq_invar n ?l" "set ?l \<subseteq> set xs"
    using snoc by simp_all
  moreover have "map hkey (lru_insert fnd n x ?l) = recent n (map hkey xs @ [hkey x])"
    using snoc.prems IH by (intro lru_insert_recent [OF ok]) auto
  ultimately show ?case
    using lru_insert_invar [OF ok IH(2), of x] set_lru_insert [OF ok, of n x ?l] by auto
qed

end

end
