(* ===== verification/Device_Cache.thy ===== *)
theory Device_Cache
  imports Multi_Index
begin

text \<open>
  Devices and the device cache (\<^verbatim>\<open>src/util/device.h\<close>, \<^verbatim>\<open>src/util/cache.h\<close>, \<^verbatim>\<open>src/util/cache.cc\<close>).
  The hashed lookups of the container are parameters (see \<open>Multi_Index\<close>); the functions that fetch
  a device from the database are fields of the cache, as in the code, and NULL is \<open>None\<close>.  Locks
  are not modelled: each operation holds the cache's mutex from start to end, so operations are
  atomic steps.
\<close>

section \<open>Devices\<close>

record Device =
  dev_name :: string
  protocol :: string
  service :: string
  service_path :: string
  entity_type :: string
  entity_name :: string
  timezone :: string
  endpoint :: string
  attributes :: "(string, string) std_map"
  commands :: "(string, string) std_map"
  static_attributes :: "(string, string) std_map"
  lazy :: "(string, string) std_map"
  model :: string
  active :: int
  registration_id :: string
  duration_cb :: int
  timestamp_data :: int

definition INT_MIN :: int where
  "INT_MIN = - (2 ^ 31)"

definition LONG_MIN :: int where
  "LONG_MIN = - (2 ^ 63)"

definition blank_device :: Device where
  "blank_device =
     \<lparr> dev_name = [], protocol = [], service = [], service_path = [], entity_type = [],
       entity_name = [], timezone = [], endpoint = [], attributes = [], commands = [],
       static_attributes = [], lazy = [], model = [], active = INT_MIN, registration_id = [],
       duration_cb = LONG_MIN, timestamp_data = - 1 \<rparr>"

definition Device_named :: "string \<Rightarrow> string \<Rightarrow> Device" where
  "Device_named name serv = blank_device\<lparr> dev_name := name, service := serv \<rparr>"

definition Device_entity :: "string \<Rightarrow> string \<Rightarrow> string \<Rightarrow> Device" where
  "Device_entity ename etype serv =
     blank_device\<lparr> entity_name := ename, entity_type := etype, service := serv \<rparr>"

definition insert_entries ::
  "(string, string) std_map \<Rightarrow> (string, string) std_map \<Rightarrow> (string, string) std_map" where
  "insert_entries src dst = fold (\<lambda>(k, v). map_insert k v) src dst"

text \<open>The copy constructor copies every non-default field into a blank device.  The map of lazy
  attributes is not among them.\<close>

definition copy_device :: "Device \<Rightarrow> Device" where
  "copy_device d =
     (let keep = (\<lambda>s. if s \<noteq> [] then s else []) in
      blank_device\<lparr>
        dev_name := keep (dev_name d), service := keep (service d),
        service_path := keep (service_path d), entity_type := keep (entity_type d),
        entity_name := keep (entity_name d), timezone := keep (timezone d),
        endpoint := keep (endpoint d), model := keep (model d),
        registration_id := keep (registration_id d), protocol := keep (protocol d),
        duration_cb := (if duration_cb d \<noteq> LONG_MIN then duration_cb d else LONG_MIN),
        timestamp_data := (if timestamp_data d \<noteq> - 1 then timestamp_data d else - 1),
        attributes := insert_entries (attributes d) [],
        commands := insert_entries (commands d) [],
        static_attributes := insert_entries (static_attributes d) [],
        active := (if active d \<noteq> INT_MIN then active d else INT_MIN) \<rparr>)"

text \<open>\<open>operator==\<close>, the fields that enter \<open>hash_value\<close>, and the keys of the other two indices.\<close>

definition dev_eq :: "Device \<Rightarrow> Device \<Rightarrow> bool" where
  "dev_eq a b \<longleftrightarrow> dev_name a = dev_name b \<and> service a = service b"

definition dev_hash_key :: "Device \<Rightarrow> string \<times> string \<times> string" where
  "dev_hash_key d = (dev_name d, service d, service_path d)"

definition unique_entity :: "Device \<Rightarrow> string" where
  "unique_entity d = service d @ '':'' @ service_path d @ '':'' @ entity_name d @ '':''
     @ entity_type d @ '':'' @ protocol d"

definition unique_name :: "Device \<Rightarrow> string" where
  "unique_name d = dev_name d"

text \<open>The ordering functor: names and services are compared as one concatenated string.\<close>

definition dev_less :: "Device \<Rightarrow> Device \<Rightarrow> bool" where
  "dev_less one two \<longleftrightarrow> dev_name one @ service one < dev_name two @ service two"

text \<open>\<open>service_ptree.get(ENTITY_TYPE, "")\<close> is the argument \<open>service_entity_type\<close>.\<close>

definition get_real_name :: "Device \<Rightarrow> string \<Rightarrow> string" where
  "get_real_name d service_entity_type =
     (let etype = (if entity_type d \<noteq> [] \<and> entity_type d \<noteq> ''default'' then entity_type d
                   else if service_entity_type \<noteq> [] then service_entity_type
                   else ''thing'')
      in if entity_name d \<noteq> [] \<and> entity_name d \<noteq> ''default'' then entity_name d
         else etype @ '':'' @ dev_name d)"

text \<open>\<open>_attributes[object_id]\<close> creates a missing entry with an empty value.\<close>

definition get_attribute :: "string \<Rightarrow> Device \<Rightarrow> string \<times> Device" where
  "get_attribute oid d =
     (case map_find (attributes d) oid of
        Some v \<Rightarrow> (v, d)
      | None \<Rightarrow> ([], d\<lparr> attributes := map_insert oid [] (attributes d) \<rparr>))"

section \<open>The cache\<close>

type_synonym fetch = "(Device \<Rightarrow> Device option) option"

record cache =
  max_num_items :: nat
  items :: "Device list"
  lru :: bool
  time_life :: nat
  get_function :: fetch
  get_entity_function :: fetch
  timers :: "Device timer_act list"

definition new_cache :: "nat \<Rightarrow> bool \<Rightarrow> nat \<Rightarrow> cache" where
  "new_cache capacity l t =
     \<lparr> max_num_items = capacity, items = [], lru = l, time_life = t,
       get_function = None, get_entity_function = None, timers = [] \<rparr>"

definition set_function :: "fetch \<Rightarrow> cache \<Rightarrow> cache" where
  "set_function f c = c\<lparr> get_function := f \<rparr>"

definition set_entity_function :: "fetch \<Rightarrow> cache \<Rightarrow> cache" where
  "set_entity_function f c = c\<lparr> get_entity_function := f \<rparr>"

definition start_timer :: "Device \<Rightarrow> cache \<Rightarrow> cache" where
  "start_timer d c = (if time_life c > 0 then c\<lparr> timers := timers c @ [Start d (int (time_life c))] \<rparr> else c)"

definition cancel_timer :: "Device \<Rightarrow> cache \<Rightarrow> cache" where
  "cancel_timer d c = c\<lparr> timers := timers c @ [Cancel d] \<rparr>"

definition cache_insert :: "Device finder \<Rightarrow> Device \<Rightarrow> cache \<Rightarrow> cache" where
  "cache_insert fnd item c =
     (if lru c then
        let (l, p_first, p_second) = push_front fnd item (items c);
            c1 = start_timer item (c\<lparr> items := l \<rparr>)
        in if \<not> p_second then c1\<lparr> items := relocate_begin p_first l \<rparr>
           else if length l > max_num_items c then
             let c2 = (if time_life c > 0 then cancel_timer (last l) c1 else c1)
             in c2\<lparr> items := butlast l \<rparr>
           else c1
      else
        if length (items c) < max_num_items c then
          let (l, p_first, p_second) = push_back fnd item (items c);
              l' = (if \<not> p_second then relocate_end p_first l else l)
          in start_timer item (c\<lparr> items := l' \<rparr>)
        else c)"

text \<open>A lookup through one of the indices, falling back to a fetch function.  Calling an unset
  \<open>boost::function\<close> throws.\<close>

definition lookup_with ::
  "Device finder \<Rightarrow> Device finder \<Rightarrow> (cache \<Rightarrow> fetch) \<Rightarrow> Device \<Rightarrow> cache \<Rightarrow> (Device option \<times> cache) result" where
  "lookup_with fnd idx fetch_of key c =
     (case idx key (items c) of
        Some d \<Rightarrow> Inr (Some d, cache_insert fnd d c)
      | None \<Rightarrow>
          (case get_function c of
             None \<Rightarrow> Inr (None, c)
           | Some _ \<Rightarrow>
               (case fetch_of c of
                  None \<Rightarrow> Inl (runtime_error ''bad_function_call'')
                | Some f \<Rightarrow>
                    (case f key of
                       None \<Rightarrow> Inr (None, c)
                     | Some d \<Rightarrow> Inr (Some d, cache_insert fnd d c)))))"

definition cache_get :: "Device finder \<Rightarrow> Device \<Rightarrow> cache \<Rightarrow> (Device option \<times> cache) result" where
  "cache_get fnd key c = lookup_with fnd fnd get_function key c"

definition get_by_entity ::
  "Device finder \<Rightarrow> Device finder \<Rightarrow> Device \<Rightarrow> cache \<Rightarrow> (Device option \<times> cache) result" where
  "get_by_entity fnd fnd_e key c = lookup_with fnd fnd_e get_entity_function key c"

definition get_by_name ::
  "Device finder \<Rightarrow> Device finder \<Rightarrow> Device \<Rightarrow> cache \<Rightarrow> (Device option \<times> cache) result" where
  "get_by_name fnd fnd_n key c = lookup_with fnd fnd_n get_entity_function key c"

definition cache_size :: "cache \<Rightarrow> nat" where
  "cache_size c = length (items c)"

definition cache_remove :: "Device finder \<Rightarrow> Device \<Rightarrow> cache \<Rightarrow> cache" where
  "cache_remove fnd key c =
     (case fnd (copy_device key) (items c) of
        None \<Rightarrow> c
      | Some d \<Rightarrow> cancel_timer d (c\<lparr> items := remove1 d (items c) \<rparr>))"

definition item_timeout :: "Device finder \<Rightarrow> Device \<Rightarrow> bool \<Rightarrow> cache \<Rightarrow> cache" where
  "item_timeout fnd d aborted c = (if aborted then c else cache_remove fnd d c)"

definition set_time_to_life :: "nat \<Rightarrow> cache \<Rightarrow> cache" where
  "set_time_to_life t c =
     (if t = 0 then c else if time_life c = 0 then c\<lparr> time_life := t \<rparr> else c)"

section \<open>Properties of devices\<close>

interpretation dev: hash_consistent dev_hash_key dev_eq
  by unfold_locales (auto simp: dev_hash_key_def dev_eq_def)

lemma insert_entries_id: "map_ok m \<Longrightarrow> insert_entries m [] = m"
proof -
  have "map_ok (m1 @ m2) \<Longrightarrow> fold (\<lambda>(k, v). map_insert k v) m2 m1 = m1 @ m2"
    for m1 m2 :: "(string, string) std_map"
  proof (induction m2 arbitrary: m1)
    case (Cons e m2)
    obtain k v where e: "e = (k, v)" by (cases e)
    have "map_insert k v m1 = m1 @ [(k, v)]"
      using Cons.prems unfolding e by (induction m1) (force simp: map_keys_def)+
    with Cons.IH [of "m1 @ [(k, v)]"] Cons.prems e show ?case by simp
  qed simp
  from this [of "[]" m] show "map_ok m \<Longrightarrow> insert_entries m [] = m"
    by (simp add: insert_entries_def)
qed

definition device_ok :: "Device \<Rightarrow> bool" where
  "device_ok d \<longleftrightarrow> map_ok (attributes d) \<and> map_ok (commands d) \<and> map_ok (static_attributes d)"

text \<open>copying a device reproduces every field except the lazy attributes, which the copy
  loses.\<close>

theorem copy_device_drops_lazy:
  assumes "device_ok d"
  shows "copy_device d = d\<lparr> lazy := [] \<rparr>"
  using assms
  by (simp add: copy_device_def device_ok_def insert_entries_id blank_device_def Let_def)

theorem copy_device_drops_lazy_witness:
  "copy_device ((Device_named ''sensor'' ''home'')\<lparr> attributes := [(''h'', ''humidity''), (''t'', ''temp'')], lazy := [(''b'', ''battery'')] \<rparr>)
     = (Device_named ''sensor'' ''home'')\<lparr> attributes := [(''h'', ''humidity''), (''t'', ''temp'')], lazy := [] \<rparr>"
  using copy_device_drops_lazy [of "(Device_named ''sensor'' ''home'')\<lparr> attributes := [(''h'', ''humidity''), (''t'', ''temp'')], lazy := [(''b'', ''battery'')] \<rparr>"]
  by (simp add: device_ok_def Device_named_def blank_device_def)

lemma copy_device_keys [simp]:
  "dev_hash_key (copy_device d) = dev_hash_key d" "dev_eq x (copy_device d) = dev_eq x d"
  by (simp_all add: copy_device_def dev_hash_key_def dev_eq_def blank_device_def Let_def)

section \<open>Properties of the cache\<close>

text \<open>On the sequence, the code's insertion is the one of the container theory.\<close>

lemma items_start_timer [simp]: "items (start_timer d c) = items c"
  by (simp add: start_timer_def)

lemma items_cancel_timer [simp]: "items (cancel_timer d c) = items c"
  by (simp add: cancel_timer_def)

lemma conf_timer [simp]:
  "max_num_items (start_timer d c) = max_num_items c" "max_num_items (cancel_timer d c) = max_num_items c"
  "lru (start_timer d c) = lru c" "lru (cancel_timer d c) = lru c"
  by (simp_all add: start_timer_def cancel_timer_def)

lemma items_cache_insert:
  "items (cache_insert fnd d c) =
     (if lru c then lru_insert fnd (max_num_items c) d (items c)
      else mru_insert fnd (max_num_items c) d (items c))"
  by (auto simp: cache_insert_def lru_insert_def mru_insert_def push_front_def push_back_def Let_def
      split: option.splits)

lemma conf_cache_insert [simp]:
  "max_num_items (cache_insert fnd d c) = max_num_items c" "lru (cache_insert fnd d c) = lru c"
  by (auto simp: cache_insert_def push_front_def push_back_def Let_def split: option.splits)

definition cache_invar :: "cache \<Rightarrow> bool" where
  "cache_invar c \<longleftrightarrow> cache_size c \<le> max_num_items c \<and> distinct (map dev_hash_key (items c))"

lemma cache_invar_seq: "cache_invar c = dev.seq_invar (max_num_items c) (items c)"
  by (simp add: cache_invar_def dev.seq_invar_def cache_size_def)

abbreviation dev_find_ok :: "Device finder \<Rightarrow> bool" where
  "dev_find_ok \<equiv> find_ok dev_hash_key dev_eq"

lemma cache_insert_invar [inv_intros]:
  "dev_find_ok fnd \<Longrightarrow> cache_invar c \<Longrightarrow> cache_invar (cache_insert fnd d c)"
  by (simp add: cache_invar_seq items_cache_insert dev.lru_insert_invar dev.mru_insert_invar)

lemma lookup_with_invar [inv_intros]:
  "dev_find_ok fnd \<Longrightarrow> cache_invar c \<Longrightarrow> lookup_with fnd idx g key c = Inr (r, c') \<Longrightarrow> cache_invar c'"
  by (auto simp: lookup_with_def cache_insert_invar split: option.splits)

lemma cache_remove_invar [inv_intros]: "cache_invar c \<Longrightarrow> cache_invar (cache_remove fnd d c)"
  by (auto simp: cache_invar_seq cache_remove_def dev.remove1_invar split: option.split)

lemma cache_setters_invar [inv_intros]:
  assumes "cache_invar c"
  shows "cache_invar (set_function f c)" "cache_invar (set_entity_function f c)"
    "cache_invar (set_time_to_life t c)" "cache_invar (item_timeout fnd d aborted c)"
  using assms cache_remove_invar [OF assms, of fnd d]
  by (simp_all add: set_function_def set_entity_function_def set_time_to_life_def
      item_timeout_def cache_invar_def cache_size_def)

text \<open>The life of a cache: any operation, each time with any lookup behaviour the container may
  show at that moment.\<close>

inductive cache_step :: "cache \<Rightarrow> cache \<Rightarrow> bool" where
  step_insert: "dev_find_ok fnd \<Longrightarrow> cache_step c (cache_insert fnd d c)"
| step_get: "dev_find_ok fnd \<Longrightarrow> cache_get fnd key c = Inr (r, c') \<Longrightarrow> cache_step c c'"
| step_entity: "dev_find_ok fnd \<Longrightarrow> key_find_ok unique_entity idx \<Longrightarrow>
    get_by_entity fnd idx key c = Inr (r, c') \<Longrightarrow> cache_step c c'"
| step_name: "dev_find_ok fnd \<Longrightarrow> key_find_ok unique_name idx \<Longrightarrow>
    get_by_name fnd idx key c = Inr (r, c') \<Longrightarrow> cache_step c c'"
| step_remove: "dev_find_ok fnd \<Longrightarrow> cache_step c (cache_remove fnd d c)"
| step_timeout: "dev_find_ok fnd \<Longrightarrow> cache_step c (item_timeout fnd d aborted c)"
| step_life: "cache_step c (set_time_to_life t c)"
| step_function: "cache_step c (set_function f c)"
| step_entity_function: "cache_step c (set_entity_function f c)"

inductive_cases cache_stepE: "cache_step c c'"

lemma cache_step_invar: "cache_step c c' \<Longrightarrow> cache_invar c \<Longrightarrow> cache_invar c'"
  by (erule cache_stepE) (auto simp: cache_get_def get_by_entity_def get_by_name_def intro: inv_intros)

text \<open>in every reachable state the cache holds at most as many devices as its capacity and
  never two with the same name, service and service path, whatever operations, timeouts and lookup
  behaviours of the container led there.\<close>

theorem cache_bounded_and_unique:
  assumes "cache_step\<^sup>*\<^sup>* (new_cache capacity l t) c"
  shows "cache_size c \<le> max_num_items c \<and> distinct (map dev_hash_key (items c))"
  using assms
proof (induction rule: rtranclp_induct)
  case base
  show ?case by (simp add: new_cache_def cache_size_def)
next
  case (step c c')
  then show ?case using cache_step_invar [of c c'] by (simp add: cache_invar_def)
qed

theorem cache_bounded_and_unique_witness:
  "cache_size (cache_insert (scan dev_hash_key) (Device_named ''a'' ''s'') (new_cache 5 True 0)) \<le> 5
   \<and> distinct (map dev_hash_key (items (cache_insert (scan dev_hash_key) (Device_named ''a'' ''s'') (new_cache 5 True 0))))"
proof -
  have "cache_step\<^sup>*\<^sup>* (new_cache 5 True 0)
      (cache_insert (scan dev_hash_key) (Device_named ''a'' ''s'') (new_cache 5 True 0))"
    by (intro r_into_rtranclp step_insert dev.scan_find_ok)
  from cache_bounded_and_unique [OF this] show ?thesis
    by (simp add: new_cache_def)
qed

lemma items_insert_sequence:
  "lru c \<Longrightarrow> items (foldl (\<lambda>c d. cache_insert fnd d c) c ds)
     = foldl (\<lambda>l d. lru_insert fnd (max_num_items c) d l) (items c) ds"
  by (induction ds arbitrary: c) (simp_all add: items_cache_insert)

text \<open>C8: the sequence of a least-recently-used cache is the recency order.  After any series of
  insertions (a hit on a lookup inserts again) of devices whose service path is determined by name
  and service, the cache holds exactly the last \<open>capacity\<close> different devices, most recently used
  first, for every lookup behaviour the container may show.\<close>

theorem lru_cache_keeps_most_recent:
  assumes "dev_find_ok fnd"
    and "\<forall>a \<in> set ds. \<forall>b \<in> set ds. dev_eq a b \<longrightarrow> service_path a = service_path b"
  shows "map dev_hash_key (items (foldl (\<lambda>c d. cache_insert fnd d c) (new_cache capacity True t) ds))
     = take capacity (rev (remdups (map dev_hash_key ds)))"
proof -
  have "\<forall>a \<in> set ds. \<forall>b \<in> set ds. dev_eq a b \<longrightarrow> dev_hash_key a = dev_hash_key b"
  proof (intro ballI impI)
    fix a b assume "a \<in> set ds" "b \<in> set ds" "dev_eq a b"
    then have "service_path a = service_path b" using assms(2) by blast
    with \<open>dev_eq a b\<close> show "dev_hash_key a = dev_hash_key b"
      by (simp add: dev_eq_def dev_hash_key_def)
  qed
  from dev.lru_sequence_recent [OF assms(1) this, of capacity] show ?thesis
    by (simp add: items_insert_sequence new_cache_def recent_def)
qed

theorem lru_cache_keeps_most_recent_witness:
  "map dev_hash_key (items (foldl (\<lambda>c d. cache_insert (scan dev_hash_key) d c) (new_cache 2 True 0)
      [Device_named ''a'' ''s'', Device_named ''b'' ''s'', Device_named ''a'' ''s'', Device_named ''c'' ''s'']))
    = [(''c'', ''s'', []), (''a'', ''s'', [])]"
  (is "map dev_hash_key (items (foldl ?ins ?c ?ds)) = _")
proof -
  have "map dev_hash_key (items (foldl ?ins ?c ?ds)) = take 2 (rev (remdups (map dev_hash_key ?ds)))"
    by (rule lru_cache_keeps_most_recent [OF dev.scan_find_ok])
      (simp add: Device_named_def blank_device_def)
  also have "\<dots> = [(''c'', ''s'', []), (''a'', ''s'', [])]"
    by (simp add: dev_hash_key_def Device_named_def blank_device_def)
  finally show ?thesis .
qed

text \<open>what was just inserted is found again.  In a cache of positive capacity a lookup right
  after the insertion answers from the cache, without calling the fetch function, with a device of
  the same name and service.\<close>

theorem lru_insert_then_get:
  assumes "dev_find_ok fnd" "dev_find_ok fnd'" and "lru c" "0 < max_num_items c"
    and "\<forall>x \<in> set (items c). dev_eq x d \<longrightarrow> service_path x = service_path d"
  shows "\<exists>y c'. cache_get fnd' d (cache_insert fnd d c) = Inr (Some y, c') \<and> dev_eq y d
     \<and> y \<in> set (items (cache_insert fnd d c))"
proof -
  let ?c = "cache_insert fnd d c"
  obtain y ys where y: "items ?c = y # ys" "dev_eq y d"
    using dev.lru_insert_front [OF assms(1,4)] assms(3) by (fastforce simp: items_cache_insert)
  have "y \<in> insert d (set (items c))"
    using dev.set_lru_insert [OF assms(1), of "max_num_items c" d "items c"] y assms(3)
    by (auto simp: items_cache_insert)
  with y assms(5) have "dev_hash_key y = dev_hash_key d"
    by (auto simp: dev_hash_key_def dev_eq_def)
  with y find_ok_None [OF assms(2), of d "items ?c" y]
  obtain z where z: "fnd' d (items ?c) = Some z"
    by (cases "fnd' d (items ?c)") auto
  from find_ok_Some [OF assms(2) this] z show ?thesis
    by (simp add: cache_get_def lookup_with_def)
qed

theorem lru_insert_then_get_witness:
  "\<exists>y c'. cache_get (scan dev_hash_key) (Device_named ''a'' ''s'')
       (cache_insert (scan dev_hash_key) (Device_named ''a'' ''s'') (new_cache 1 True 9)) = Inr (Some y, c')
     \<and> dev_eq y (Device_named ''a'' ''s'')
     \<and> y \<in> set (items (cache_insert (scan dev_hash_key) (Device_named ''a'' ''s'') (new_cache 1 True 9)))"
  by (rule lru_insert_then_get [OF dev.scan_find_ok dev.scan_find_ok]) (simp_all add: new_cache_def)

text \<open>no timer outlives its device.  When a cache with a life time evicts a device to make
  room, the timer of that device is cancelled in the same operation, and the timer of the inserted
  device is started.\<close>

theorem eviction_cancels_timer:
  assumes "lru c" and "0 < time_life c" and "x \<in> set (items c)" and "x \<notin> set (items (cache_insert fnd d c))"
    and "dev_find_ok fnd" and "cache_invar c"
  shows "timers (cache_insert fnd d c) = timers c @ [Start d (int (time_life c)), Cancel x]"
proof (cases "fnd d (items c)")
  case (Some y)
  then have "y \<in> set (items c)" using find_ok_Some [OF assms(5)] by blast
  moreover have "distinct (items c)"
    using assms(6) by (simp add: cache_invar_def distinct_map)
  ultimately have "set (items (cache_insert fnd d c)) = set (items c)"
    using assms(1) Some by (simp add: items_cache_insert lru_insert_def push_front_def)
  with assms(3,4) show ?thesis by simp
next
  case None
  let ?l = "d # items c"
  have full: "length ?l > max_num_items c"
    using assms None by (auto simp: items_cache_insert lru_insert_def push_front_def split: if_splits)
  have "items (cache_insert fnd d c) = butlast ?l"
    using assms(1) None full by (simp add: items_cache_insert lru_insert_def push_front_def)
  moreover have "set ?l = insert (last ?l) (set (butlast ?l))"
    by (metis append_butlast_last_id list.distinct(1) list.simps(15) rotate1.simps(2) set_rotate1)
  ultimately have "x = last ?l"
    using assms(3,4) by (metis insertE list.set_intros(2))
  then show ?thesis
    using assms(1,2) None full
    by (simp add: cache_insert_def push_front_def start_timer_def cancel_timer_def Let_def)
qed

theorem eviction_cancels_timer_witness:
  "timers (cache_insert (scan dev_hash_key) (Device_named ''b'' ''s'')
      (cache_insert (scan dev_hash_key) (Device_named ''a'' ''s'') (new_cache 1 True 9)))
    = [Start (Device_named ''a'' ''s'') 9, Start (Device_named ''b'' ''s'') 9, Cancel (Device_named ''a'' ''s'')]"
proof -
  let ?c = "(new_cache 1 True 9)\<lparr> items := [Device_named ''a'' ''s''], timers := [Start (Device_named ''a'' ''s'') 9] \<rparr>"
  have "timers (cache_insert (scan dev_hash_key) (Device_named ''b'' ''s'') ?c)
      = timers ?c @ [Start (Device_named ''b'' ''s'') (int (time_life ?c)), Cancel (Device_named ''a'' ''s'')]"
    by (rule eviction_cancels_timer [OF _ _ _ _ dev.scan_find_ok])
      (simp_all add: cache_invar_def cache_size_def items_cache_insert lru_insert_def push_front_def
        scan_def new_cache_def dev_hash_key_def Device_named_def blank_device_def)
  moreover have "cache_insert (scan dev_hash_key) (Device_named ''a'' ''s'') (new_cache 1 True 9) = ?c"
    by (simp add: cache_insert_def push_front_def scan_def start_timer_def new_cache_def)
  ultimately show ?thesis by (simp add: new_cache_def)
qed

text \<open>hashing is not consistent with equality.  Two devices of one name and service under
  different service paths compare equal but hash differently, so the container may or may not treat
  the second as a duplicate of the first: both results are allowed by its contract.\<close>

theorem device_identity_depends_on_buckets:
  "\<exists>a b fnd1 fnd2. dev_eq a b \<and> dev_hash_key a \<noteq> dev_hash_key b
     \<and> dev_find_ok fnd1 \<and> dev_find_ok fnd2
     \<and> cache_size (cache_insert fnd1 b (cache_insert fnd1 a (new_cache 9 True 0))) = 2
     \<and> cache_size (cache_insert fnd2 b (cache_insert fnd2 a (new_cache 9 True 0))) = 1"
proof (intro exI conjI)
  let ?a = "(Device_named ''d'' ''s'')\<lparr> service_path := ''/x'' \<rparr>"
  let ?b = "(Device_named ''d'' ''s'')\<lparr> service_path := ''/y'' \<rparr>"
  show "dev_eq ?a ?b" "dev_hash_key ?a \<noteq> dev_hash_key ?b"
    by (simp_all add: dev_eq_def dev_hash_key_def Device_named_def blank_device_def)
  show "dev_find_ok (scan dev_hash_key)" by (rule dev.scan_find_ok)
  show "dev_find_ok (scan (\<lambda>d. (dev_name d, service d)))"
    by (auto simp: find_ok_def scan_def dev_eq_def find_None_iff find_Some_iff split: option.split)
  show "cache_size (cache_insert (scan dev_hash_key) ?b (cache_insert (scan dev_hash_key) ?a (new_cache 9 True 0))) = 2"
    "cache_size (cache_insert (scan (\<lambda>d. (dev_name d, service d))) ?b
       (cache_insert (scan (\<lambda>d. (dev_name d, service d))) ?a (new_cache 9 True 0))) = 1"
    by (simp_all add: cache_size_def items_cache_insert lru_insert_def push_front_def scan_def
        new_cache_def dev_hash_key_def Device_named_def blank_device_def relocate_begin_def)
qed

end
