(* ===== verification/Command_Cache.thy ===== *)
theory Command_Cache
  imports Multi_Index
begin

text \<open>
  Commands and the command cache (\<^verbatim>\<open>src/util/command.h\<close>, \<^verbatim>\<open>src/util/command.cc\<close>,
  \<^verbatim>\<open>src/util/command_cache.h\<close>, \<^verbatim>\<open>src/util/command_cache.cc\<close>).  As in the device cache the hashed lookups
  of the container are parameters, and so is the order in which a hashed index is iterated
  (\<open>ord\<close>).  The timeout callback is recorded in the state.
\<close>

section \<open>Commands\<close>

record Command =
  cmd_timeout :: int
  cmd_entity :: string
  cmd_entity_type :: string
  cmd_responseURI :: string
  cmd_id :: string
  cmd_name :: string
  cmd_expired :: int
  cmd_command :: ptree
  cmd_status :: int
  cmd_service :: string
  cmd_service_path :: string
  cmd_sequence :: string

definition CMD_INT_MIN :: int where
  "CMD_INT_MIN = - (2 ^ 31)"

definition blank_command :: Command where
  "blank_command =
     \<lparr> cmd_timeout = CMD_INT_MIN, cmd_entity = [], cmd_entity_type = [], cmd_responseURI = [],
       cmd_id = [], cmd_name = [], cmd_expired = CMD_INT_MIN, cmd_command = PTree [] [],
       cmd_status = CMD_INT_MIN, cmd_service = [], cmd_service_path = [], cmd_sequence = [] \<rparr>"

definition Command_entity :: "string \<Rightarrow> string \<Rightarrow> string \<Rightarrow> Command" where
  "Command_entity id_entity serv path =
     blank_command\<lparr> cmd_service := serv, cmd_service_path := path, cmd_entity := id_entity \<rparr>"

definition Command_new ::
  "string \<Rightarrow> string \<Rightarrow> string \<Rightarrow> string \<Rightarrow> string \<Rightarrow> string \<Rightarrow> ptree \<Rightarrow> Command" where
  "Command_new id_cmd serv path sequence id_entity responseURI cmd =
     blank_command\<lparr> cmd_id := id_cmd, cmd_service := serv, cmd_service_path := path,
       cmd_sequence := sequence, cmd_entity := id_entity, cmd_responseURI := responseURI,
       cmd_command := cmd \<rparr>"

text \<open>The constructor for commands recovered from the store.  \<open>age\<close> is the time since the stored
  time stamp in milliseconds, \<open>None\<close> when there is no time stamp.  The recomputed time-out is
  overwritten by the assignment at the end.\<close>

definition Command_stored ::
  "string \<Rightarrow> string \<Rightarrow> string \<Rightarrow> string \<Rightarrow> string \<Rightarrow> string \<Rightarrow> string \<Rightarrow> string \<Rightarrow> int \<Rightarrow> int option \<Rightarrow> ptree \<Rightarrow> Command" where
  "Command_stored id_cmd name serv path sequence id_entity entity_type responseURI timeout age cmd =
     (let t0 = (if timeout < 0 then CMD_INT_MIN else timeout);
          (expired, t1) = (case age of
             None \<Rightarrow> (0, t0)
           | Some ms \<Rightarrow> if ms \<ge> t0 then (1, t0) else (0, t0 - (if ms \<ge> 0 then ms div 1000 else - ((- ms) div 1000))));
          c = blank_command\<lparr> cmd_id := id_cmd, cmd_name := name, cmd_service := serv,
                cmd_service_path := path, cmd_sequence := sequence, cmd_entity := id_entity,
                cmd_entity_type := entity_type, cmd_responseURI := responseURI,
                cmd_command := cmd, cmd_timeout := t1, cmd_expired := expired \<rparr>
      in c\<lparr> cmd_timeout := timeout, cmd_status := CMD_INT_MIN \<rparr>)"

definition cmd_eq :: "Command \<Rightarrow> Command \<Rightarrow> bool" where
  "cmd_eq a b \<longleftrightarrow> cmd_sequence a = cmd_sequence b \<and> cmd_service a = cmd_service b"

definition cmd_hash_key :: "Command \<Rightarrow> string \<times> string \<times> string" where
  "cmd_hash_key c = (cmd_sequence c, cmd_service c, cmd_service_path c)"

definition cmd_less :: "Command \<Rightarrow> Command \<Rightarrow> bool" where
  "cmd_less one two \<longleftrightarrow> cmd_sequence one @ cmd_service one < cmd_sequence two @ cmd_service two"

text \<open>The key of the entity index; the status is printed by \<open>lexical_cast\<close>, here \<open>show_int\<close>.\<close>

definition cmd_unique_entity :: "Command \<Rightarrow> string" where
  "cmd_unique_entity c = cmd_service c @ '':'' @ cmd_service_path c @ '':'' @ cmd_entity c @ '':''
     @ show_int (cmd_status c)"

definition cmd_unique_id :: "Command \<Rightarrow> string" where
  "cmd_unique_id c = cmd_service c @ '':'' @ cmd_service_path c @ '':'' @ cmd_id c"

definition set_status :: "int \<Rightarrow> Command \<Rightarrow> Command" where
  "set_status st c = c\<lparr> cmd_status := st \<rparr>"

section \<open>The cache\<close>

type_synonym cmd_fetch = "(Command \<Rightarrow> Command option) option"

record command_cache =
  cc_max_num_items :: nat
  cc_items :: "Command list"
  cc_lru :: bool
  cc_get_function :: cmd_fetch
  cc_get_entity_function :: cmd_fetch
  cc_get_id_function :: cmd_fetch
  cc_has_timeout_function :: bool
  cc_timers :: "Command timer_act list"
  cc_timed_out :: "Command list"

definition new_command_cache :: "nat \<Rightarrow> bool \<Rightarrow> command_cache" where
  "new_command_cache capacity l =
     \<lparr> cc_max_num_items = capacity, cc_items = [], cc_lru = l, cc_get_function = None,
       cc_get_entity_function = None, cc_get_id_function = None, cc_has_timeout_function = False,
       cc_timers = [], cc_timed_out = [] \<rparr>"

definition set_max_num_items :: "nat \<Rightarrow> command_cache \<Rightarrow> command_cache" where
  "set_max_num_items n c = c\<lparr> cc_max_num_items := n \<rparr>"

text \<open>\<open>Timer::start\<close> takes the time-out as \<open>unsigned short\<close>.\<close>

definition cc_start :: "Command \<Rightarrow> command_cache \<Rightarrow> command_cache" where
  "cc_start d c =
     (if cmd_timeout d > 0
      then c\<lparr> cc_timers := cc_timers c @ [Start d (cmd_timeout d mod 65536)] \<rparr> else c)"

definition cc_cancel :: "Command \<Rightarrow> command_cache \<Rightarrow> command_cache" where
  "cc_cancel d c = c\<lparr> cc_timers := cc_timers c @ [Cancel d] \<rparr>"

definition cc_insert :: "Command finder \<Rightarrow> Command \<Rightarrow> command_cache \<Rightarrow> command_cache" where
  "cc_insert fnd item c =
     (if cc_lru c then
        let (l, p_first, p_second) = push_front fnd item (cc_items c);
            c1 = cc_start item (c\<lparr> cc_items := l \<rparr>)
        in if \<not> p_second then c1\<lparr> cc_items := relocate_begin p_first l \<rparr>
           else if length l > cc_max_num_items c
                then (cc_cancel (last l) c1)\<lparr> cc_items := butlast l \<rparr>
           else c1
      else
        if length (cc_items c) < cc_max_num_items c then
          let (l, p_first, p_second) = push_back fnd item (cc_items c);
              l' = (if \<not> p_second then relocate_end p_first l else l)
          in cc_start item (c\<lparr> cc_items := l' \<rparr>)
        else c)"

definition cc_fetch :: "(command_cache \<Rightarrow> cmd_fetch) \<Rightarrow> Command \<Rightarrow> command_cache \<Rightarrow> Command option result" where
  "cc_fetch fetch_of key c =
     (case cc_get_function c of
        None \<Rightarrow> Inr None
      | Some _ \<Rightarrow>
          (case fetch_of c of
             None \<Rightarrow> Inl (runtime_error ''bad_function_call'')
           | Some f \<Rightarrow> Inr (f key)))"

definition cc_lookup_with ::
  "Command finder \<Rightarrow> Command finder \<Rightarrow> (command_cache \<Rightarrow> cmd_fetch) \<Rightarrow> Command \<Rightarrow> command_cache
   \<Rightarrow> (Command option \<times> command_cache) result" where
  "cc_lookup_with fnd idx fetch_of key c =
     (case idx key (cc_items c) of
        Some d \<Rightarrow> Inr (Some d, cc_insert fnd d c)
      | None \<Rightarrow> bind_exn (cc_fetch fetch_of key c) (\<lambda>r.
          case r of None \<Rightarrow> Inr (None, c) | Some d \<Rightarrow> Inr (Some d, cc_insert fnd d c)))"

definition cc_get :: "Command finder \<Rightarrow> Command \<Rightarrow> command_cache \<Rightarrow> (Command option \<times> command_cache) result" where
  "cc_get fnd key c = cc_lookup_with fnd fnd cc_get_function key c"

definition cc_get_by_entity ::
  "Command finder \<Rightarrow> Command finder \<Rightarrow> Command \<Rightarrow> command_cache \<Rightarrow> (Command option \<times> command_cache) result" where
  "cc_get_by_entity fnd fnd_e key c = cc_lookup_with fnd fnd_e cc_get_entity_function key c"

definition cc_get_by_id ::
  "Command finder \<Rightarrow> Command finder \<Rightarrow> Command \<Rightarrow> command_cache \<Rightarrow> (Command option \<times> command_cache) result" where
  "cc_get_by_id fnd fnd_i key c = cc_lookup_with fnd fnd_i cc_get_id_function key c"

definition get_by_id_from_mongo :: "Command \<Rightarrow> command_cache \<Rightarrow> Command option result" where
  "get_by_id_from_mongo key c = cc_fetch cc_get_id_function key c"

text \<open>The loops of \<open>get_by_entityV\<close> and \<open>get_by_idV\<close>: every element from the iterator on is (given a
  new status in place and) inserted again.\<close>

fun revisit :: "Command finder \<Rightarrow> (Command \<Rightarrow> Command) \<Rightarrow> Command list \<Rightarrow> command_cache \<Rightarrow> Command list \<times> command_cache" where
  "revisit fnd upd [] c = ([], c)"
| "revisit fnd upd (d # ds) c =
     (let d' = upd d;
          c1 = c\<lparr> cc_items := map (\<lambda>x. if x = d then d' else x) (cc_items c) \<rparr>;
          (r, c2) = revisit fnd upd ds (cc_insert fnd d' c1)
      in (d' # r, c2))"

definition get_by_entityV ::
  "Command finder \<Rightarrow> Command finder \<Rightarrow> (Command list \<Rightarrow> Command list) \<Rightarrow> Command \<Rightarrow> int \<Rightarrow> command_cache
   \<Rightarrow> (Command list \<times> command_cache) result" where
  "get_by_entityV fnd fnd_e ord key new_status c =
     (case fnd_e key (cc_items c) of
        Some d \<Rightarrow> Inr (revisit fnd (set_status new_status) (dropWhile (\<lambda>x. x \<noteq> d) (ord (cc_items c))) c)
      | None \<Rightarrow> bind_exn (cc_fetch cc_get_entity_function key c) (\<lambda>r.
          case r of
            None \<Rightarrow> Inr ([], c)
          | Some d \<Rightarrow> Inr ([set_status new_status d], cc_insert fnd (set_status new_status d) c)))"

definition get_by_idV ::
  "Command finder \<Rightarrow> Command finder \<Rightarrow> (Command list \<Rightarrow> Command list) \<Rightarrow> Command \<Rightarrow> command_cache
   \<Rightarrow> Command list \<times> command_cache" where
  "get_by_idV fnd fnd_i ord key c =
     (case fnd_i key (cc_items c) of
        Some d \<Rightarrow> revisit fnd (\<lambda>x. x) (dropWhile (\<lambda>x. x \<noteq> d) (ord (cc_items c))) c
      | None \<Rightarrow> ([], c))"

definition cc_size :: "command_cache \<Rightarrow> nat" where
  "cc_size c = length (cc_items c)"

definition cc_remove :: "Command finder \<Rightarrow> Command \<Rightarrow> command_cache \<Rightarrow> command_cache" where
  "cc_remove fnd_i key c =
     (case fnd_i key (cc_items c) of
        None \<Rightarrow> c
      | Some d \<Rightarrow> (cc_cancel d c)\<lparr> cc_items := remove1 d (cc_items c) \<rparr>)"

definition cc_remove_all :: "(Command list \<Rightarrow> Command list) \<Rightarrow> command_cache \<Rightarrow> command_cache" where
  "cc_remove_all ord c =
     (case ord (cc_items c) of
        [] \<Rightarrow> c
      | d # _ \<Rightarrow> c\<lparr> cc_items := remove1 d (cc_items c) \<rparr>)"

definition cc_item_timeout :: "Command finder \<Rightarrow> Command \<Rightarrow> bool \<Rightarrow> command_cache \<Rightarrow> command_cache" where
  "cc_item_timeout fnd_i item aborted c =
     (if aborted then c
      else let c1 = (if cc_has_timeout_function c then c\<lparr> cc_timed_out := cc_timed_out c @ [item] \<rparr> else c)
           in cc_remove fnd_i item c1)"

section \<open>Properties of commands\<close>

interpretation cmd: hash_consistent cmd_hash_key cmd_eq
  by unfold_locales (auto simp: cmd_hash_key_def cmd_eq_def)

text \<open>a recovered command keeps the full stored time-out, however old it is (the remaining
  time the constructor computes is overwritten), and it counts as expired as soon as its age in
  milliseconds reaches the number of seconds of its time-out.\<close>

theorem recovered_command_timeout:
  assumes "0 \<le> timeout"
  shows "cmd_timeout (Command_stored i n s p q e ty u timeout (Some ms) t) = timeout
     \<and> (cmd_expired (Command_stored i n s p q e ty u timeout (Some ms) t) = 1 \<longleftrightarrow> timeout \<le> ms)"
  using assms by (simp add: Command_stored_def blank_command_def Let_def)

theorem recovered_command_timeout_witness:
  "cmd_timeout (Command_stored ''1'' ''PING'' ''s'' ''/'' ''q'' ''e'' ''thing'' [] 600 (Some 599000) (PTree [] [])) = 600
   \<and> cmd_expired (Command_stored ''1'' ''PING'' ''s'' ''/'' ''q'' ''e'' ''thing'' [] 600 (Some 600) (PTree [] [])) = 1"
  using recovered_command_timeout [of 600 "''1''" "''PING''" "''s''" "''/''" "''q''" "''e''" "''thing''" "[]" 599000 "PTree [] []"]
    recovered_command_timeout [of 600 "''1''" "''PING''" "''s''" "''/''" "''q''" "''e''" "''thing''" "[]" 600 "PTree [] []"]
  by simp

section \<open>Properties of the cache\<close>

lemma cc_timer_frame [simp]:
  "cc_items (cc_start d c) = cc_items c" "cc_items (cc_cancel d c) = cc_items c"
  "cc_max_num_items (cc_start d c) = cc_max_num_items c" "cc_max_num_items (cc_cancel d c) = cc_max_num_items c"
  "cc_lru (cc_start d c) = cc_lru c" "cc_lru (cc_cancel d c) = cc_lru c"
  by (simp_all add: cc_start_def cc_cancel_def)

lemma items_cc_insert:
  "cc_items (cc_insert fnd d c) =
     (if cc_lru c then lru_insert fnd (cc_max_num_items c) d (cc_items c)
      else mru_insert fnd (cc_max_num_items c) d (cc_items c))"
  by (auto simp: cc_insert_def lru_insert_def mru_insert_def push_front_def push_back_def Let_def
      split: option.splits)

lemma conf_cc_insert [simp]:
  "cc_max_num_items (cc_insert fnd d c) = cc_max_num_items c" "cc_lru (cc_insert fnd d c) = cc_lru c"
  by (auto simp: cc_insert_def push_front_def push_back_def Let_def split: option.splits)

definition cc_invar :: "command_cache \<Rightarrow> bool" where
  "cc_invar c \<longleftrightarrow> cc_size c \<le> cc_max_num_items c \<and> distinct (map cmd_hash_key (cc_items c))"

lemma cc_invar_seq: "cc_invar c = cmd.seq_invar (cc_max_num_items c) (cc_items c)"
  by (simp add: cc_invar_def cmd.seq_invar_def cc_size_def)

abbreviation cmd_find_ok :: "Command finder \<Rightarrow> bool" where
  "cmd_find_ok \<equiv> find_ok cmd_hash_key cmd_eq"

lemma cc_insert_invar [inv_intros]:
  "cmd_find_ok fnd \<Longrightarrow> cc_invar c \<Longrightarrow> cc_invar (cc_insert fnd d c)"
  by (simp add: cc_invar_seq items_cc_insert cmd.lru_insert_invar cmd.mru_insert_invar)

lemma cc_lookup_with_invar [inv_intros]:
  "cmd_find_ok fnd \<Longrightarrow> cc_invar c \<Longrightarrow> cc_lookup_with fnd idx g key c = Inr (r, c') \<Longrightarrow> cc_invar c'"
  by (auto simp: cc_lookup_with_def cc_insert_invar bind_exn_eq_Inr_iff split: option.splits)

text \<open>Updating elements in place without touching their hash keys keeps the invariant.\<close>

lemma update_in_place_invar:
  assumes "cmd_hash_key (upd d) = cmd_hash_key d" and "cc_invar c"
  shows "cc_invar (c\<lparr> cc_items := map (\<lambda>x. if x = d then upd d else x) (cc_items c) \<rparr>)"
proof -
  have "map cmd_hash_key (map (\<lambda>x. if x = d then upd d else x) (cc_items c)) = map cmd_hash_key (cc_items c)"
    using assms(1) by simp
  then show ?thesis
    using assms(2) by (simp add: cc_invar_def cc_size_def del: map_map map_eq_conv)
qed

lemma revisit_invar:
  assumes "cmd_find_ok fnd" and "\<And>d. cmd_hash_key (upd d) = cmd_hash_key d" and "cc_invar c"
  shows "cc_invar (snd (revisit fnd upd ds c))"
  using assms(3)
proof (induction ds arbitrary: c)
  case (Cons d ds)
  then have "cc_invar (cc_insert fnd (upd d)
      (c\<lparr> cc_items := map (\<lambda>x. if x = d then upd d else x) (cc_items c) \<rparr>))"
    by (intro cc_insert_invar assms(1) update_in_place_invar assms(2))
  from Cons.IH [OF this] show ?case by (simp add: Let_def case_prod_beta)
qed simp

lemma set_status_key [simp]: "cmd_hash_key (set_status st d) = cmd_hash_key d"
  by (simp add: cmd_hash_key_def set_status_def)

lemma get_by_entityV_invar [inv_intros]:
  "cmd_find_ok fnd \<Longrightarrow> cc_invar c \<Longrightarrow> get_by_entityV fnd idx ord key st c = Inr (r, c') \<Longrightarrow> cc_invar c'"
  using revisit_invar [of fnd "set_status st" c "dropWhile (\<lambda>x. x \<noteq> the (idx key (cc_items c))) (ord (cc_items c))"]
  by (auto simp: get_by_entityV_def cc_insert_invar bind_exn_eq_Inr_iff split: option.splits)

lemma get_by_idV_invar [inv_intros]:
  "cmd_find_ok fnd \<Longrightarrow> cc_invar c \<Longrightarrow> get_by_idV fnd idx ord key c = (r, c') \<Longrightarrow> cc_invar c'"
  using revisit_invar [of fnd "\<lambda>x. x" c "dropWhile (\<lambda>x. x \<noteq> the (idx key (cc_items c))) (ord (cc_items c))"]
  by (auto simp: get_by_idV_def split: option.splits)

lemma cc_remove_invar [inv_intros]:
  "cc_invar c \<Longrightarrow> cc_invar (cc_remove fnd d c)" "cc_invar c \<Longrightarrow> cc_invar (cc_remove_all ord c)"
  "cc_invar c \<Longrightarrow> cc_invar (cc_item_timeout fnd d aborted c)"
  by (auto simp: cc_invar_seq cc_remove_def cc_remove_all_def cc_item_timeout_def cmd.remove1_invar
      split: option.split list.split)

inductive command_step :: "command_cache \<Rightarrow> command_cache \<Rightarrow> bool" where
  "cmd_find_ok fnd \<Longrightarrow> command_step c (cc_insert fnd d c)"
| "cmd_find_ok fnd \<Longrightarrow> cc_get fnd key c = Inr (r, c') \<Longrightarrow> command_step c c'"
| "cmd_find_ok fnd \<Longrightarrow> cc_get_by_entity fnd idx key c = Inr (r, c') \<Longrightarrow> command_step c c'"
| "cmd_find_ok fnd \<Longrightarrow> cc_get_by_id fnd idx key c = Inr (r, c') \<Longrightarrow> command_step c c'"
| "cmd_find_ok fnd \<Longrightarrow> get_by_entityV fnd idx ord key st c = Inr (rs, c') \<Longrightarrow> command_step c c'"
| "cmd_find_ok fnd \<Longrightarrow> get_by_idV fnd idx ord key c = (rs, c') \<Longrightarrow> command_step c c'"
| "command_step c (cc_remove idx d c)"
| "command_step c (cc_remove_all ord c)"
| "command_step c (cc_item_timeout idx d aborted c)"

inductive_cases command_stepE: "command_step c c'"

lemma command_step_invar: "command_step c c' \<Longrightarrow> cc_invar c \<Longrightarrow> cc_invar c'"
  by (erule command_stepE)
    (auto simp: cc_get_def cc_get_by_entity_def cc_get_by_id_def intro: inv_intros)

text \<open>the command cache never holds more commands than its capacity nor two with the same
  sequence, service and path, through every operation, including the ones that change the status of
  stored commands in place.\<close>

theorem command_cache_bounded_and_unique:
  assumes "command_step\<^sup>*\<^sup>* (new_command_cache capacity l) c"
  shows "cc_size c \<le> cc_max_num_items c \<and> distinct (map cmd_hash_key (cc_items c))"
  using assms
proof (induction rule: rtranclp_induct)
  case base
  show ?case by (simp add: new_command_cache_def cc_size_def)
next
  case (step c c')
  then show ?case using command_step_invar [of c c'] by (simp add: cc_invar_def)
qed

theorem command_cache_bounded_and_unique_witness:
  "cc_size (cc_insert (scan cmd_hash_key) (Command_entity ''e'' ''s'' ''/'') (new_command_cache 0 True)) = 0"
proof -
  have "command_step\<^sup>*\<^sup>* (new_command_cache 0 True)
      (cc_insert (scan cmd_hash_key) (Command_entity ''e'' ''s'' ''/'') (new_command_cache 0 True))"
    by (intro r_into_rtranclp command_step.intros(1) cmd.scan_find_ok)
  from command_cache_bounded_and_unique [OF this] show ?thesis
    by (simp add: new_command_cache_def)
qed

text \<open>How many cached commands carry a given id.\<close>

definition id_count :: "string \<Rightarrow> command_cache \<Rightarrow> nat" where
  "id_count u c = length (filter (\<lambda>x. cmd_unique_id x = u) (cc_items c))"

lemma filter_remove1_length:
  assumes "d \<in> set l" "P d"
  shows "Suc (length (filter P (remove1 d l))) = length (filter P l)"
  using assms by (induction l) auto

text \<open>expiry.  When the timer of a command runs out (and was not cancelled), the timeout
  callback sees that command exactly once, the command's timer is cancelled and exactly one cached
  command with its id is gone; a cancelled timer changes nothing.\<close>

theorem command_expiry:
  assumes "key_find_ok cmd_unique_id idx" and "item \<in> set (cc_items c)" and "cc_has_timeout_function c"
  shows "Suc (id_count (cmd_unique_id item) (cc_item_timeout idx item False c)) = id_count (cmd_unique_id item) c
     \<and> Suc (cc_size (cc_item_timeout idx item False c)) = cc_size c
     \<and> cc_timed_out (cc_item_timeout idx item False c) = cc_timed_out c @ [item]
     \<and> (\<exists>d. cmd_unique_id d = cmd_unique_id item \<and> cc_timers (cc_item_timeout idx item False c) = cc_timers c @ [Cancel d])
     \<and> cc_item_timeout idx item True c = c"
proof -
  obtain d where d: "idx item (cc_items c) = Some d"
    using key_find_ok_None [OF assms(1) _ assms(2)] by (cases "idx item (cc_items c)") auto
  then have "d \<in> set (cc_items c)" "cmd_unique_id d = cmd_unique_id item"
    using key_find_ok_Some [OF assms(1)] by blast+
  moreover have "0 < length (cc_items c)"
    using assms(2) by (auto intro: length_pos_if_in_set)
  ultimately show ?thesis
    using d assms(3)
    by (auto simp: cc_item_timeout_def cc_remove_def id_count_def filter_remove1_length cc_size_def
        length_remove1 cc_cancel_def)
qed

theorem command_expiry_witness:
  "cc_size (cc_item_timeout (scan cmd_unique_id) (Command_entity ''e'' ''s'' ''/'') False
     ((new_command_cache 3 True)\<lparr> cc_items := [Command_entity ''e'' ''s'' ''/''], cc_has_timeout_function := True \<rparr>)) = 0"
  using command_expiry [OF scan_key_find_ok, of "Command_entity ''e'' ''s'' ''/''"
    "(new_command_cache 3 True)\<lparr> cc_items := [Command_entity ''e'' ''s'' ''/''], cc_has_timeout_function := True \<rparr>"]
  by (simp add: cc_size_def)

text \<open>\<open>remove_all\<close> removes a single command: in whatever order the index is iterated, a cache
  of \<open>n + 1\<close> commands still holds \<open>n\<close> of them afterwards.\<close>

theorem remove_all_removes_one:
  assumes "set (ord (cc_items c)) = set (cc_items c)"
  shows "cc_size (cc_remove_all ord c) = cc_size c - 1"
proof (cases "ord (cc_items c)")
  case Nil
  with assms have "cc_items c = []" by simp
  with Nil show ?thesis by (simp add: cc_remove_all_def cc_size_def)
next
  case (Cons d ds)
  with assms have "d \<in> set (cc_items c)" by auto
  with Cons show ?thesis by (simp add: cc_remove_all_def cc_size_def length_remove1)
qed

theorem remove_all_removes_one_witness:
  "cc_size (cc_remove_all rev ((new_command_cache 9 True)\<lparr> cc_items :=
     [Command_entity ''e'' ''s'' ''/'', Command_entity ''f'' ''s'' ''/'', Command_entity ''g'' ''s'' ''/''] \<rparr>)) = 2"
  using remove_all_removes_one [of rev "(new_command_cache 9 True)\<lparr> cc_items :=
     [Command_entity ''e'' ''s'' ''/'', Command_entity ''f'' ''s'' ''/'', Command_entity ''g'' ''s'' ''/''] \<rparr>"]
  by (simp add: cc_size_def insert_commute)

text \<open>\<open>get_by_idV\<close> answers with every command from the first match to the end of the index,
  whatever their ids: with two commands of different ids in the cache, asking for the first may
  return both.\<close>

theorem get_by_idV_returns_other_ids:
  "\<exists>a b c. cmd_unique_id a \<noteq> cmd_unique_id b \<and> cc_invar c
     \<and> fst (get_by_idV (scan cmd_hash_key) (scan cmd_unique_id) (\<lambda>l. l) a c) = [a, b]"
proof -
  let ?a = "(Command_new ''1'' ''s'' ''/'' ''q1'' ''e'' [] (PTree [] []))"
  let ?b = "(Command_new ''2'' ''s'' ''/'' ''q2'' ''e'' [] (PTree [] []))"
  let ?c = "(new_command_cache 9 True)\<lparr> cc_items := [?a, ?b] \<rparr>"
  have "?a \<noteq> ?b"
    by (simp add: Command_new_def blank_command_def)
  then have "fst (get_by_idV (scan cmd_hash_key) (scan cmd_unique_id) (\<lambda>l. l) ?a ?c) = [?a, ?b]"
    by (simp add: get_by_idV_def scan_def Let_def case_prod_beta)
  moreover have "cmd_unique_id ?a \<noteq> cmd_unique_id ?b" "cc_invar ?c"
    by (simp_all add: cmd_unique_id_def cc_invar_def cc_size_def new_command_cache_def cmd_hash_key_def
        Command_new_def blank_command_def)
  ultimately show ?thesis by blast
qed

end
