(* ===== verification/Func_Util.thy ===== *)
theory Func_Util
  imports Prelude
begin

text \<open>
  The free functions of \<^verbatim>\<open>src/util/FuncUtil.cc\<close>: URL decoding, the query-string parser (a
  two-state machine), hexadecimal dumps and their inverse, the checks of the service headers,
  identifier rendering and the search for forbidden characters.  Characters are bytes; the
  character classes are those of the C locale.
\<close>

section \<open>Character classes\<close>

abbreviation code :: "char \<Rightarrow> nat" where
  "code c \<equiv> of_char c"

definition is_lower :: "char \<Rightarrow> bool" where
  "is_lower c \<longleftrightarrow> 97 \<le> code c \<and> code c \<le> 122"

definition is_upper :: "char \<Rightarrow> bool" where
  "is_upper c \<longleftrightarrow> 65 \<le> code c \<and> code c \<le> 90"

definition is_alpha :: "char \<Rightarrow> bool" where
  "is_alpha c \<longleftrightarrow> is_lower c \<or> is_upper c"

definition is_alnum :: "char \<Rightarrow> bool" where
  "is_alnum c \<longleftrightarrow> is_alpha c \<or> is_digit c"

definition to_lower :: "char \<Rightarrow> char" where
  "to_lower c = (if is_upper c then char_of (code c + 32) else c)"

definition hex_val :: "char \<Rightarrow> nat option" where
  "hex_val c =
     (if is_digit c then Some (code c - 48)
      else if 97 \<le> code c \<and> code c \<le> 102 then Some (code c - 87)
      else if 65 \<le> code c \<and> code c \<le> 70 then Some (code c - 55)
      else None)"

definition hex_number :: "string \<Rightarrow> nat" where
  "hex_number ds = foldl (\<lambda>n c. 16 * n + the (hex_val c)) 0 (takeWhile (\<lambda>c. hex_val c \<noteq> None) ds)"

text \<open>\<open>strtol(s, 0, 16)\<close>: spaces, a sign, an optional prefix, digits; 0 when there are none.\<close>

definition strtol16 :: "string \<Rightarrow> int" where
  "strtol16 s =
     (let t = dropWhile is_space s;
          (neg, u) = (case t of c # r \<Rightarrow> if c = CHR ''-'' then (True, r) else if c = CHR ''+'' then (False, r) else (False, t)
                      | [] \<Rightarrow> (False, []));
          v = (case u of a # b # d # r \<Rightarrow>
                 if a = CHR ''0'' \<and> (b = CHR ''x'' \<or> b = CHR ''X'') \<and> hex_val d \<noteq> None then d # r else u
               | _ \<Rightarrow> u);
          n = int (hex_number v)
      in if neg then - n else n)"

section \<open>The code\<close>

text \<open>\<open>url_decode\<close>: a \<open>%\<close> with two more characters behind it is replaced by the byte they denote.\<close>

fun url_decode :: "string \<Rightarrow> string" where
  "url_decode [] = []"
| "url_decode (c # cs) =
     (if c = CHR ''%'' then
        (case cs of
           a # b # rest \<Rightarrow> char_of (nat (strtol16 (takeWhile (\<lambda>x. x \<noteq> CHR 0x00) [a, b]) mod 256)) # url_decode rest
         | _ \<Rightarrow> CHR ''%'' # url_decode cs)
      else c # url_decode cs)"

definition isControl :: "char \<Rightarrow> bool" where
  "isControl c \<longleftrightarrow> code c \<le> 31 \<or> code c = 127"

text \<open>\<open>iota::KVP\<close> is a pair of strings.\<close>

type_synonym KVP = "string \<times> string"

datatype QueryParseState = QUERY_PARSE_NAME | QUERY_PARSE_VALUE

definition QUERY_NAME_MAX :: nat where
  "QUERY_NAME_MAX = 1024"

definition QUERY_VALUE_MAX :: nat where
  "QUERY_VALUE_MAX = 1024 * 1024"

text \<open>The character loop.  The state is the parse state, the name and the value under
  construction and the parameters found; the Boolean is the return value.\<close>

fun query_loop :: "string \<Rightarrow> QueryParseState \<Rightarrow> string \<Rightarrow> string \<Rightarrow> KVP list \<Rightarrow> bool \<times> KVP list" where
  "query_loop [] st nm val ps = (True, if nm \<noteq> [] then ps @ [(nm, val)] else ps)"
| "query_loop (c # cs) QUERY_PARSE_NAME nm val ps =
     (if c = CHR ''='' then
        (if nm = [] then (False, ps) else query_loop cs QUERY_PARSE_VALUE nm val ps)
      else if c = CHR ''&'' then
        (if nm \<noteq> [] then query_loop cs QUERY_PARSE_NAME [] val (ps @ [(nm, val)])
         else query_loop cs QUERY_PARSE_NAME nm val ps)
      else if c = CHR 0x0D \<or> c = CHR 0x0A then query_loop cs QUERY_PARSE_NAME nm val ps
      else if isControl c \<or> length nm \<ge> QUERY_NAME_MAX then (False, ps)
      else query_loop cs QUERY_PARSE_NAME (nm @ [c]) val ps)"
| "query_loop (c # cs) QUERY_PARSE_VALUE nm val ps =
     (if c = CHR ''&'' then query_loop cs QUERY_PARSE_NAME [] [] (ps @ [(nm, val)])
      else if c = CHR 0x0D \<or> c = CHR 0x0A then query_loop cs QUERY_PARSE_VALUE nm val ps
      else if isControl c \<or> length val \<ge> QUERY_VALUE_MAX then (False, ps)
      else query_loop cs QUERY_PARSE_VALUE nm (val @ [c]) ps)"

definition riot_getQueryParams :: "string \<Rightarrow> KVP list \<Rightarrow> bool \<times> KVP list" where
  "riot_getQueryParams q_str q_param =
     (if q_str = [] then (False, q_param)
      else query_loop (url_decode q_str) QUERY_PARSE_NAME [] [] q_param)"

definition isEqualString :: "bool \<Rightarrow> string \<Rightarrow> string \<Rightarrow> bool" where
  "isEqualString case_sensitive str1 str2 =
     (if length str1 = length str2 then
        if case_sensitive then str1 = str2 else map to_lower str1 = map to_lower str2
      else False)"

text \<open>\<open>riot_tokenizer\<close>: boost's \<open>char_separator\<close> keeping empty tokens; an empty string has no token.\<close>

definition riot_tokenizer :: "string \<Rightarrow> string \<Rightarrow> string list" where
  "riot_tokenizer str sep = (if str = [] then [] else split_on (\<lambda>c. c \<in> set sep) str)"

definition hex_digit :: "nat \<Rightarrow> char" where
  "hex_digit d = (if d < 10 then char_of (48 + d) else char_of (55 + d))"

text \<open>\<open>%02X\<close>, and the dump with the trailing blank trimmed.\<close>

definition hex2 :: "u8 \<Rightarrow> string" where
  "hex2 b = [hex_digit (unat b div 16), hex_digit (unat b mod 16)]"

definition str_to_hex :: "u8 list \<Rightarrow> string" where
  "str_to_hex fr = boost_trim (concat (map (\<lambda>b. hex2 b @ '' '') fr))"

text \<open>\<open>ss >> std::hex >> x\<close> for an \<open>unsigned short\<close>: at least one digit is needed, what follows the
  digits is left unread.\<close>

definition extract_hex :: "string \<Rightarrow> u16 option" where
  "extract_hex s =
     (let t = dropWhile is_space s;
          (neg, u) = (case t of c # r \<Rightarrow> if c = CHR ''-'' then (True, r) else if c = CHR ''+'' then (False, r) else (False, t)
                      | [] \<Rightarrow> (False, []));
          v = (case u of a # b # r \<Rightarrow> if a = CHR ''0'' \<and> (b = CHR ''x'' \<or> b = CHR ''X'') then r else u
               | _ \<Rightarrow> u)
      in if takeWhile (\<lambda>c. hex_val c \<noteq> None) v = [] then None
         else if hex_number v > 65535 then None
         else Some (if neg then - of_nat (hex_number v) else of_nat (hex_number v)))"

function hex_pairs :: "string \<Rightarrow> u8 list \<Rightarrow> u8 list" where
  "hex_pairs s v =
     (if s = [] then v
      else case extract_hex (take 2 s) of
             None \<Rightarrow> []
           | Some x \<Rightarrow> hex_pairs (drop 2 s) (v @ [ucast x]))"
  by pat_completeness auto
termination
  by (relation "measure (\<lambda>(s, v). length s)") auto

declare hex_pairs.simps [simp del]

definition hex_str_to_vector :: "string \<Rightarrow> u8 list" where
  "hex_str_to_vector str = hex_pairs (filter (\<lambda>c. c \<noteq> CHR '' '') str) []"

text \<open>The parameters of a multimap in key order; \<open>enc\<close> is pion's \<open>url_encode\<close>.\<close>

definition make_query_string :: "(string \<Rightarrow> string) \<Rightarrow> KVP list \<Rightarrow> string" where
  "make_query_string enc params =
     join_with ''&'' (map (\<lambda>(k, v). enc k @ ''='' @ enc v) (filter (\<lambda>(k, v). v \<noteq> []) params))"

definition FIWARE_SERVICE_LENGTH :: nat where
  "FIWARE_SERVICE_LENGTH = 50"

text \<open>The header checks throw an \<open>IotaException\<close>; \<open>True\<close> is the normal return.\<close>

definition check_fiware_service_name :: "string \<Rightarrow> bool" where
  "check_fiware_service_name h =
     (let error = (h = [] \<or> length h > FIWARE_SERVICE_LENGTH)
      in \<not> (error \<or> (\<exists>c \<in> set h. (\<not> is_alnum c \<and> c \<noteq> CHR ''_'') \<or> (is_alpha c \<and> \<not> is_lower c))))"

text \<open>\<open>h[1]\<close> of a one-character string is its terminating zero.\<close>

definition check_fiware_service_path_name :: "string \<Rightarrow> bool" where
  "check_fiware_service_path_name h =
     (if h = [] then True
      else
        let c1 = (if length h > 1 then h ! 1 else CHR 0x00);
            wild_card = (c1 = CHR ''*'' \<or> c1 = CHR ''#'');
            start = (if wild_card then 2 else 1);
            error = (h ! 0 \<noteq> CHR ''/'' \<or> (wild_card \<and> length h > 2) \<or> length h > FIWARE_SERVICE_LENGTH + 1)
        in \<not> (error \<or> (\<exists>c \<in> set (drop start h). \<not> is_alnum c \<and> c \<noteq> CHR ''_'')))"

definition IOTA_FORBIDDEN_CHARACTERS :: string where
  "IOTA_FORBIDDEN_CHARACTERS = [CHR ''<'', CHR ''>'', CHR 0x22, CHR 0x27, CHR ''='', CHR '';'', CHR ''('', CHR '')'']"

definition check_forbidden_characters :: "string \<Rightarrow> string \<Rightarrow> bool" where
  "check_forbidden_characters forbidden str = (\<exists>c \<in> set str. c \<in> set forbidden)"

text \<open>A BSON document as the check walks it: \<open>valuestrsafe\<close> of a scalar, nested objects and arrays.
  \<open>Obj()\<close> of an array element that is no object throws.\<close>

datatype bson = BVal string | BObj "(string \<times> bson) list" | BArr "bson list"

fun check_fields :: "bool \<Rightarrow> (string \<times> bson) list \<Rightarrow> bool result"
  and check_value :: "bool \<Rightarrow> bson \<Rightarrow> bool result"
  and check_elems :: "bool \<Rightarrow> bson list \<Rightarrow> bool result" where
  "check_fields acc [] = Inr acc"
| "check_fields acc ((k, v) # fs) = bind_exn (check_value acc v) (\<lambda>a. check_fields a fs)"
| "check_value acc (BVal s) = Inr (acc \<or> check_forbidden_characters IOTA_FORBIDDEN_CHARACTERS s)"
| "check_value acc (BObj fs) = (if acc then Inr True else check_fields False fs)"
| "check_value acc (BArr es) = check_elems acc es"
| "check_elems acc [] = Inr acc"
| "check_elems acc (e # es) =
     (case e of
        BObj fs \<Rightarrow> bind_exn (if acc then Inr True else check_fields False fs) (\<lambda>a. check_elems a es)
      | _ \<Rightarrow> Inl (runtime_error ''not an object''))"

definition check_forbidden_bson :: "(string \<times> bson) list \<Rightarrow> bool result" where
  "check_forbidden_bson doc = check_fields False doc"

definition number_of_decimals :: "string \<Rightarrow> nat" where
  "number_of_decimals str =
     (case str_find str ''.'' 0 of None \<Rightarrow> 0 | Some pos \<Rightarrow> length (drop (pos + 1) str))"

definition REGEX_IDENTIFIER_FORBIDDEN :: string where
  "REGEX_IDENTIFIER_FORBIDDEN =
     [CHR ''<'', CHR ''>'', CHR ''('', CHR '')'', CHR '';'', CHR 0x27, CHR ''='', CHR 0x22, CHR ''/'',
      CHR ''?'', CHR ''#'', CHR ''&'', CHR '' '']"

definition IDENTIFIER_MAX_LENGTH :: nat where
  "IDENTIFIER_MAX_LENGTH = 256"

definition render_identifier :: "string \<Rightarrow> string" where
  "render_identifier s =
     take IDENTIFIER_MAX_LENGTH (filter (\<lambda>c. c \<notin> set REGEX_IDENTIFIER_FORBIDDEN) s)"

section \<open>Hexadecimal dumps\<close>

lemma hex_val_digit [simp]: "d < 16 \<Longrightarrow> hex_val (hex_digit d) = Some d"
  by (auto simp: hex_val_def hex_digit_def is_digit_def)

lemma hex_digit_other:
  assumes "d < 16"
  shows "hex_digit d \<noteq> CHR ''-''" "hex_digit d \<noteq> CHR ''+''" "hex_digit d \<noteq> CHR ''x''" "hex_digit d \<noteq> CHR ''X''"
    "hex_digit d \<noteq> CHR '' ''" "\<not> is_space (hex_digit d)"
proof -
  have "hex_val (CHR ''-'') = None" "hex_val (CHR ''+'') = None" "hex_val (CHR ''x'') = None"
    "hex_val (CHR ''X'') = None" "hex_val (CHR '' '') = None"
    by (simp_all add: hex_val_def is_digit_def)
  then show "hex_digit d \<noteq> CHR ''-''" "hex_digit d \<noteq> CHR ''+''" "hex_digit d \<noteq> CHR ''x''"
    "hex_digit d \<noteq> CHR ''X''" "hex_digit d \<noteq> CHR '' ''"
    using hex_val_digit [OF assms] by (metis option.distinct(1))+
  show "\<not> is_space (hex_digit d)"
    using assms by (auto simp: is_space_def hex_digit_def)
qed

lemma unat_u8_less: "unat (b :: u8) < 256"
  using unsigned_less [of b, where ?'a = nat] by simp

lemma u8_nibbles: "unat (b :: u8) div 16 < 16" "unat b mod 16 < 16"
  using unat_u8_less [of b] by (simp_all add: less_mult_imp_div_less)

lemma extract_hex2: "extract_hex (hex2 b) = Some (of_nat (unat b))"
proof -
  have n: "hex_number (hex2 b) = unat b"
    using u8_nibbles [of b] by (simp add: hex_number_def hex2_def)
  moreover have "unat b \<le> 65535"
    using unat_u8_less [of b] by simp
  moreover have "takeWhile (\<lambda>c. hex_val c \<noteq> None) (hex2 b) \<noteq> []"
    using u8_nibbles [of b] by (simp add: hex2_def)
  ultimately show ?thesis
    using hex_digit_other [OF u8_nibbles(1) [of b]] hex_digit_other [OF u8_nibbles(2) [of b]]
    by (simp add: extract_hex_def hex2_def [of b] Let_def)
qed

lemma ucast_of_nat_unat: "ucast (ucast (b :: u8) :: u16) = b"
  by (rule bit_word_eqI) (simp add: bit_simps)

lemma hex_pairs_dump: "hex_pairs (concat (map hex2 v)) acc = acc @ v"
proof (induction v arbitrary: acc)
  case (Cons b v)
  have "take 2 (hex2 b @ concat (map hex2 v)) = hex2 b" "drop 2 (hex2 b @ concat (map hex2 v)) = concat (map hex2 v)"
    by (simp_all add: hex2_def)
  then show ?case
    using Cons.IH [of "acc @ [b]"]
    by (subst hex_pairs.simps) (simp add: extract_hex2 ucast_of_nat_unat, auto simp: hex2_def)
qed (simp add: hex_pairs.simps)

lemma filter_dropWhile:
  "\<forall>c \<in> set s. q c \<longrightarrow> \<not> p c \<Longrightarrow> filter p (dropWhile q s) = filter p s"
  by (induction s) auto

lemma filter_trim:
  assumes "\<forall>c \<in> set s. is_space c \<longrightarrow> \<not> p c"
  shows "filter p (boost_trim s) = filter p s"
  unfolding boost_trim_def rev_filter [symmetric]
  using assms set_dropWhileD [of _ is_space s]
  by (subst filter_dropWhile) (auto simp: rev_filter filter_dropWhile)

lemma filter_blank_dump: "filter (\<lambda>c. c \<noteq> CHR '' '') (concat (map (\<lambda>b. hex2 b @ '' '') v)) = concat (map hex2 v)"
  using u8_nibbles hex_digit_other by (induction v) (auto simp: hex2_def)

text \<open>a byte vector survives the hexadecimal dump: decoding the dump of any vector gives the
  vector back.\<close>

theorem hex_dump_roundtrip: "hex_str_to_vector (str_to_hex v) = v"
proof -
  have "\<forall>c \<in> set (concat (map (\<lambda>b. hex2 b @ '' '') v)). is_space c \<longrightarrow> \<not> c \<noteq> CHR '' ''"
    using u8_nibbles hex_digit_other(6) by (auto simp: hex2_def)
  then show ?thesis
    by (simp add: hex_str_to_vector_def str_to_hex_def filter_trim filter_blank_dump hex_pairs_dump)
qed

section \<open>Query strings\<close>

text \<open>Names and values that need no escaping.\<close>

definition plain_name :: "string \<Rightarrow> bool" where
  "plain_name n \<longleftrightarrow> n \<noteq> [] \<and> length n \<le> QUERY_NAME_MAX
     \<and> (\<forall>c \<in> set n. c \<noteq> CHR ''='' \<and> c \<noteq> CHR ''&'' \<and> c \<noteq> CHR ''%'' \<and> \<not> isControl c)"

definition plain_value :: "string \<Rightarrow> bool" where
  "plain_value v \<longleftrightarrow> length v \<le> QUERY_VALUE_MAX
     \<and> (\<forall>c \<in> set v. c \<noteq> CHR ''&'' \<and> c \<noteq> CHR ''%'' \<and> \<not> isControl c)"

definition query_text :: "KVP list \<Rightarrow> string" where
  "query_text ps = join_with ''&'' (map (\<lambda>(n, v). n @ ''='' @ v) ps)"

lemma plain_no_percent:
  "plain_name n \<Longrightarrow> CHR ''%'' \<notin> set n" "plain_value v \<Longrightarrow> CHR ''%'' \<notin> set v"
  unfolding plain_name_def plain_value_def by blast+

lemma url_decode_append: "CHR ''%'' \<notin> set s \<Longrightarrow> url_decode (s @ t) = s @ url_decode t"
  by (induction s) auto

lemma url_decode_plain: "CHR ''%'' \<notin> set s \<Longrightarrow> url_decode s = s"
  using url_decode_append [of s "[]"] by simp

lemma not_control_CRLF: "\<not> isControl c \<Longrightarrow> c \<noteq> CHR 0x0D \<and> c \<noteq> CHR 0x0A"
  by (auto simp: isControl_def)

lemma query_loop_name:
  assumes "\<forall>c \<in> set n. c \<noteq> CHR ''='' \<and> c \<noteq> CHR ''&'' \<and> \<not> isControl c" "length nm + length n \<le> QUERY_NAME_MAX"
  shows "query_loop (n @ rest) QUERY_PARSE_NAME nm val ps = query_loop rest QUERY_PARSE_NAME (nm @ n) val ps"
  using assms by (induction n arbitrary: nm) (auto dest: not_control_CRLF)

lemma query_loop_value:
  assumes "\<forall>c \<in> set v. c \<noteq> CHR ''&'' \<and> \<not> isControl c" "length val + length v \<le> QUERY_VALUE_MAX"
  shows "query_loop (v @ rest) QUERY_PARSE_VALUE nm val ps = query_loop rest QUERY_PARSE_VALUE nm (val @ v) ps"
  using assms by (induction v arbitrary: val) (auto dest: not_control_CRLF)

lemma query_loop_pair:
  assumes "plain_name n" "plain_value v"
  shows "query_loop (n @ ''='' @ v @ rest) QUERY_PARSE_NAME [] [] ps = query_loop rest QUERY_PARSE_VALUE n v ps"
  using assms by (simp add: plain_name_def plain_value_def query_loop_name query_loop_value)

lemma query_loop_text:
  assumes "list_all (\<lambda>(n, v). plain_name n \<and> plain_value v) ps"
  shows "query_loop (query_text ps) QUERY_PARSE_NAME [] [] acc = (True, acc @ ps)"
  using assms unfolding query_text_def
proof (induction ps arbitrary: acc)
  case (Cons p ps)
  obtain n v where p: "p = (n, v)" by (cases p)
  with Cons.prems have pl: "plain_name n" "plain_value v" "n \<noteq> []"
    by (auto simp: plain_name_def)
  show ?case
  proof (cases ps)
    case Nil
    then show ?thesis using query_loop_pair [OF pl(1,2), of "[]" acc] pl(3) p by simp
  next
    case (Cons q qs)
    then have "join_with ''&'' (map (\<lambda>(n, v). n @ ''='' @ v) (p # ps))
        = n @ ''='' @ v @ ''&'' @ join_with ''&'' (map (\<lambda>(n, v). n @ ''='' @ v) ps)"
      by (simp add: p case_prod_beta)
    then show ?thesis
      using query_loop_pair [OF pl(1,2)] Cons.IH [of "acc @ [(n, v)]"] Cons.prems p by simp
  qed
qed simp

lemma query_text_no_percent:
  "list_all (\<lambda>(n, v). plain_name n \<and> plain_value v) ps \<Longrightarrow> CHR ''%'' \<notin> set (query_text ps)"
proof -
  have "c \<in> set (join_with ''&'' ts) \<Longrightarrow> c = CHR ''&'' \<or> (\<exists>t \<in> set ts. c \<in> set t)" for c ts
    by (induction "''&''" ts rule: join_with.induct) auto
  then show "list_all (\<lambda>(n, v). plain_name n \<and> plain_value v) ps \<Longrightarrow> CHR ''%'' \<notin> set (query_text ps)"
    unfolding query_text_def plain_name_def plain_value_def list_all_iff by fastforce
qed

text \<open>the query parser inverts the writing of parameters.  A query string written from names
  and values without reserved or control characters, within the size limits, is accepted and
  yields exactly these parameters in order, appended to the ones already collected.\<close>

theorem query_params_roundtrip:
  assumes "ps \<noteq> []" and "list_all (\<lambda>(n, v). plain_name n \<and> plain_value v) ps"
  shows "riot_getQueryParams (query_text ps) acc = (True, acc @ ps)"
proof -
  have "query_text ps \<noteq> []"
    using assms unfolding query_text_def
    by (cases ps; cases "tl ps") (auto simp: plain_name_def)
  then show ?thesis
    using assms(2) by (simp add: riot_getQueryParams_def url_decode_plain query_text_no_percent query_loop_text)
qed

theorem query_params_roundtrip_witness:
  "riot_getQueryParams ''i=dev_1&k=&t=2016-01'' [] = (True, [(''i'', ''dev_1''), (''k'', []), (''t'', ''2016-01'')])"
  using query_params_roundtrip [of "[(''i'', ''dev_1''), (''k'', []), (''t'', ''2016-01'')]" "[]"]
  by (simp add: plain_name_def plain_value_def QUERY_NAME_MAX_def QUERY_VALUE_MAX_def isControl_def query_text_def)

text \<open>What a parsed parameter looks like.\<close>

definition param_ok :: "KVP \<Rightarrow> bool" where
  "param_ok p \<longleftrightarrow> fst p \<noteq> [] \<and> length (fst p) \<le> QUERY_NAME_MAX \<and> length (snd p) \<le> QUERY_VALUE_MAX
     \<and> (\<forall>c \<in> set (fst p @ snd p). \<not> isControl c \<and> c \<noteq> CHR ''&'')"

lemma param_ok_snoc_name:
  "nm = [] \<or> param_ok (nm, []) \<Longrightarrow> length nm < QUERY_NAME_MAX \<Longrightarrow> \<not> isControl c \<Longrightarrow> c \<noteq> CHR ''&''
   \<Longrightarrow> param_ok (nm @ [c], [])"
  unfolding param_ok_def by fastforce

lemma param_ok_snoc_value:
  "param_ok (nm, val) \<Longrightarrow> length val < QUERY_VALUE_MAX \<Longrightarrow> \<not> isControl c \<Longrightarrow> c \<noteq> CHR ''&''
   \<Longrightarrow> param_ok (nm, val @ [c])"
  unfolding param_ok_def by fastforce

definition parse_ok :: "QueryParseState \<Rightarrow> string \<Rightarrow> string \<Rightarrow> bool" where
  "parse_ok st nm val \<longleftrightarrow> (case st of
     QUERY_PARSE_NAME \<Rightarrow> val = [] \<and> (nm = [] \<or> param_ok (nm, []))
   | QUERY_PARSE_VALUE \<Rightarrow> param_ok (nm, val))"

lemma query_loop_params_ok:
  "list_all param_ok ps \<Longrightarrow> parse_ok st nm val \<Longrightarrow> list_all param_ok (snd (query_loop s st nm val ps))"
  by (induction s st nm val ps rule: query_loop.induct)
    (auto simp: parse_ok_def param_ok_snoc_name param_ok_snoc_value split: QueryParseState.splits)

text \<open>whatever the input, accepted or rejected, every parameter the parser has produced has a
  non-empty name of at most 1024 characters, a value of at most 1 MiB, and neither contains control
  characters or a separator.\<close>

theorem query_params_wellformed: "list_all param_ok (snd (riot_getQueryParams q []))"
  by (auto simp: riot_getQueryParams_def parse_ok_def intro: query_loop_params_ok)

text \<open>the string is decoded before it is split, so an escaped separator inside a value is not
  protected: a value written with \<open>%26\<close> comes back cut, followed by a parameter that was never
  sent.\<close>

theorem escaped_separator_splits_value:
  assumes "plain_name n" "plain_value v" "plain_name n'" "plain_value v'"
  shows "riot_getQueryParams (n @ ''='' @ v @ ''%26'' @ n' @ ''='' @ v') [] = (True, [(n, v), (n', v')])"
proof -
  have np: "CHR ''%'' \<notin> set n" "CHR ''%'' \<notin> set v" "CHR ''%'' \<notin> set n'" "CHR ''%'' \<notin> set v'"
    using assms plain_no_percent by blast+
  have amp: "char_of (nat (strtol16 (takeWhile (\<lambda>x. x \<noteq> CHR 0x00) ''26'') mod 256)) = CHR ''&''"
    by code_simp
  have "url_decode (n @ ''='' @ v @ ''%26'' @ n' @ ''='' @ v') = n @ ''='' @ v @ ''&'' @ n' @ ''='' @ v'"
    using np amp by (simp add: url_decode_append url_decode_plain)
  also have "\<dots> = query_text [(n, v), (n', v')]"
    by (simp add: query_text_def)
  finally show ?thesis
    using assms by (simp add: riot_getQueryParams_def query_loop_text)
qed

theorem escaped_separator_splits_value_witness:
  "riot_getQueryParams ''cmd=on%26admin=1'' [] = (True, [(''cmd'', ''on''), (''admin'', ''1'')])"
  using escaped_separator_splits_value [of "''cmd''" "''on''" "''admin''" "''1''"]
  by (simp add: plain_name_def plain_value_def QUERY_NAME_MAX_def QUERY_VALUE_MAX_def isControl_def)

section \<open>Headers and identifiers\<close>

lemma service_name_iff:
  "check_fiware_service_name h \<longleftrightarrow>
     1 \<le> length h \<and> length h \<le> 50 \<and> list_all (\<lambda>c. is_lower c \<or> is_digit c \<or> c = CHR ''_'') h"
proof -
  have "is_upper c \<Longrightarrow> \<not> is_lower c \<and> \<not> is_digit c" for c
    by (auto simp: is_upper_def is_lower_def is_digit_def)
  then have cls: "(\<not> is_alnum c \<and> c \<noteq> CHR ''_'') \<or> (is_alpha c \<and> \<not> is_lower c)
      \<longleftrightarrow> \<not> (is_lower c \<or> is_digit c \<or> c = CHR ''_'')" for c
    unfolding is_alnum_def is_alpha_def by (cases "c = CHR ''_''") (auto simp: is_upper_def)
  show ?thesis
    unfolding check_fiware_service_name_def cls Let_def FIWARE_SERVICE_LENGTH_def list_all_iff
    by (cases h) auto
qed

lemma service_path_Cons:
  "check_fiware_service_path_name (a # b # m) \<longleftrightarrow>
     a = CHR ''/'' \<and> (if b = CHR ''*'' \<or> b = CHR ''#'' then m = []
       else length (b # m) \<le> 50 \<and> list_all (\<lambda>c. is_alnum c \<or> c = CHR ''_'') (b # m))"
  by (cases m) (auto simp: check_fiware_service_path_name_def Let_def FIWARE_SERVICE_LENGTH_def list_all_iff)

lemma service_path_iff:
  "check_fiware_service_path_name p \<longleftrightarrow>
     p = [] \<or> p = ''/*'' \<or> p = ''/#''
     \<or> (\<exists>n. p = CHR ''/'' # n \<and> length n \<le> 50 \<and> list_all (\<lambda>c. is_alnum c \<or> c = CHR ''_'') n)"
proof -
  have w: "\<not> is_alnum (CHR ''*'')" "\<not> is_alnum (CHR ''#'')"
    by (simp_all add: is_alnum_def is_alpha_def is_lower_def is_upper_def is_digit_def)
  consider "p = []" | a where "p = [a]" | a b m where "p = a # b # m"
    by (cases p; cases "tl p") auto
  then show ?thesis
  proof cases
    case 2
    then show ?thesis by (simp add: check_fiware_service_path_name_def FIWARE_SERVICE_LENGTH_def)
  next
    case 3
    then show ?thesis
      unfolding \<open>p = a # b # m\<close> service_path_Cons
      by (cases "b = CHR ''*''"; cases "b = CHR ''#''") (use w in auto)
  qed (simp add: check_fiware_service_path_name_def)
qed

text \<open>the service header check accepts exactly the names of 1 to 50 characters from lower-case
  letters, digits and underscore; the path check accepts exactly the empty path, \<open>/\<close>, the two
  wild cards \<open>/*\<close> and \<open>/#\<close>, and a slash followed by 1 to 50 letters, digits and underscores.\<close>

theorem service_headers_accept:
  "(check_fiware_service_name h \<longleftrightarrow>
      1 \<le> length h \<and> length h \<le> 50 \<and> list_all (\<lambda>c. is_lower c \<or> is_digit c \<or> c = CHR ''_'') h)
   \<and> (check_fiware_service_path_name p \<longleftrightarrow>
      p = [] \<or> p = ''/*'' \<or> p = ''/#''
      \<or> (\<exists>n. p = CHR ''/'' # n \<and> length n \<le> 50 \<and> list_all (\<lambda>c. is_alnum c \<or> c = CHR ''_'') n))"
  using service_name_iff service_path_iff by blast

text \<open>identifiers come out clean and rendering again changes nothing: the result has at most
  256 characters, none of them forbidden, and is a fixed point of the function.\<close>

theorem render_identifier_clean:
  "length (render_identifier s) \<le> 256
   \<and> \<not> check_forbidden_characters REGEX_IDENTIFIER_FORBIDDEN (render_identifier s)
   \<and> render_identifier (render_identifier s) = render_identifier s"
proof -
  define r where "r = render_identifier s"
  have clean: "c \<in> set r \<Longrightarrow> c \<notin> set REGEX_IDENTIFIER_FORBIDDEN" for c
    by (auto simp: r_def render_identifier_def dest!: in_set_takeD)
  have len: "length r \<le> IDENTIFIER_MAX_LENGTH"
    by (simp add: r_def render_identifier_def)
  have "render_identifier r = take IDENTIFIER_MAX_LENGTH r"
    using clean by (simp add: render_identifier_def)
  with clean len show ?thesis
    by (auto simp: check_forbidden_characters_def IDENTIFIER_MAX_LENGTH_def simp flip: r_def)
qed

text \<open>The strings a document holds anywhere, and the documents whose arrays hold objects only.\<close>

fun bson_strings :: "bson \<Rightarrow> string list" where
  "bson_strings (BVal s) = [s]"
| "bson_strings (BObj fs) = concat (map (\<lambda>f. bson_strings (snd f)) fs)"
| "bson_strings (BArr es) = concat (map bson_strings es)"

fun bson_typed :: "bson \<Rightarrow> bool" where
  "bson_typed (BVal s) = True"
| "bson_typed (BObj fs) = list_all (\<lambda>f. bson_typed (snd f)) fs"
| "bson_typed (BArr es) = list_all (\<lambda>e. (case e of BObj fs \<Rightarrow> True | _ \<Rightarrow> False) \<and> bson_typed e) es"

definition doc_forbidden :: "bson \<Rightarrow> bool" where
  "doc_forbidden v = list_ex (check_forbidden_characters IOTA_FORBIDDEN_CHARACTERS) (bson_strings v)"

lemma doc_forbidden_simps [simp]:
  "doc_forbidden (BVal s) = check_forbidden_characters IOTA_FORBIDDEN_CHARACTERS s"
  "doc_forbidden (BObj fs) = list_ex (\<lambda>f. doc_forbidden (snd f)) fs"
  "doc_forbidden (BArr es) = list_ex doc_forbidden es"
  by (auto simp: doc_forbidden_def list_ex_iff)

lemma check_bson_spec:
  "list_all (\<lambda>f. bson_typed (snd f)) fs \<Longrightarrow> check_fields acc fs = Inr (acc \<or> list_ex (\<lambda>f. doc_forbidden (snd f)) fs)"
  "bson_typed v \<Longrightarrow> check_value acc v = Inr (acc \<or> doc_forbidden v)"
  "bson_typed (BArr es) \<Longrightarrow> check_elems acc es = Inr (acc \<or> list_ex doc_forbidden es)"
proof (induction acc fs and acc v and acc es rule: check_fields_check_value_check_elems.induct)
  case (7 acc e es)
  then show ?case by (cases e) (auto split: if_splits)
qed auto

text \<open>the search for forbidden characters is complete for documents whose arrays contain only
  objects: it reports one exactly when some string value, at any depth, contains one.  An array
  element that is not an object makes the check throw.\<close>

theorem forbidden_search_complete:
  assumes "bson_typed (BObj doc)"
  shows "check_forbidden_bson doc = Inr (list_ex (check_forbidden_characters IOTA_FORBIDDEN_CHARACTERS) (bson_strings (BObj doc)))
     \<and> (\<exists>e. check_forbidden_bson [(k, BArr [BVal s])] = Inl e)"
  using check_bson_spec(1) [of doc False] assms
  by (simp add: check_forbidden_bson_def flip: doc_forbidden_def del: bson_strings.simps)

theorem forbidden_search_complete_witness:
  "check_forbidden_bson [(''name'', BVal ''ok''), (''attrs'', BArr [BObj [(''value'', BVal ''a<b'')]])] = Inr True
   \<and> (\<exists>e. check_forbidden_bson [(''attrs'', BArr [BVal ''x''])] = Inl e)"
  using forbidden_search_complete [of "[(''name'', BVal ''ok''), (''attrs'', BArr [BObj [(''value'', BVal ''a<b'')]])]" "''attrs''" "''x''"]
  by (simp add: check_forbidden_characters_def IOTA_FORBIDDEN_CHARACTERS_def)

end
