(* ===== verification/Iot_Url.thy ===== *)
theory Iot_Url
  imports Prelude
begin

text \<open>
  The URL parser \<open>iota::IoTUrl\<close> (\<^verbatim>\<open>src/util/iot_url.cc\<close>).  Positions are \<open>size_t\<close> values, \<open>None\<close>
  standing for \<open>npos\<close>; differences of positions wrap modulo \<open>2 ^ 64\<close> as in the code.  The constructor
  turns every standard exception into an \<open>IotaException\<close>, the error branch here.
\<close>

section \<open>The code\<close>

record IoTUrl =
  url_protocol :: string
  url_host :: string
  url_port :: int
  url_path :: string
  url_query :: string

definition size_sub :: "nat \<Rightarrow> nat \<Rightarrow> nat" where
  "size_sub a b = (if b \<le> a then a - b else 2 ^ 64 - (b - a))"

text \<open>\<open>find\<close> and \<open>substr\<close> from a position that may be \<open>npos\<close>.\<close>

definition find_from :: "string \<Rightarrow> string \<Rightarrow> nat option \<Rightarrow> nat option" where
  "find_from s pat pos = (case pos of None \<Rightarrow> None | Some p \<Rightarrow> str_find s pat p)"

definition substr_from :: "string \<Rightarrow> nat option \<Rightarrow> string result" where
  "substr_from s pos = (case pos of None \<Rightarrow> Inl out_of_range | Some p \<Rightarrow> str_suffix s p)"

definition substr_range :: "string \<Rightarrow> nat option \<Rightarrow> nat \<Rightarrow> string result" where
  "substr_range s pos q =
     (case pos of None \<Rightarrow> Inl out_of_range | Some p \<Rightarrow> str_substr s p (size_sub q p))"

text \<open>Host and port from the authority part, with the default ports.\<close>

definition split_authority :: "string \<Rightarrow> string \<times> int" where
  "split_authority hp =
     (case str_find hp '':'' 0 of
        Some p \<Rightarrow> (take p hp, atoi (drop (p + 1) hp))
      | None \<Rightarrow> (hp, - 1))"

definition default_port :: "string \<Rightarrow> int \<Rightarrow> int" where
  "default_port proto port =
     (if port = - 1 then if proto = ''http'' then 80 else if proto = ''https'' then 443 else port
      else port)"

definition parse_url :: "string \<Rightarrow> IoTUrl result" where
  "parse_url url =
     (let pos0 = str_find url ''://'' 0;
          proto = (case pos0 of Some p \<Rightarrow> take p url | None \<Rightarrow> []);
          pos_prot = map_option (\<lambda>p. p + length ''://'') pos0;
          pos_path = find_from url ''/'' pos_prot;
          pos_query = find_from url ''?'' pos_prot
      in bind_exn (case pos_path of Some p \<Rightarrow> substr_range url pos_prot p | None \<Rightarrow> Inr []) (\<lambda>hp0.
         bind_exn (case pos_query of Some q \<Rightarrow> str_suffix url (q + 1) | None \<Rightarrow> Inr []) (\<lambda>query.
         bind_exn
           (case (pos_query, pos_path) of
              (Some q, None) \<Rightarrow> bind_exn (substr_range url pos_prot q) (\<lambda>hp. Inr (hp, []))
            | (Some q, Some p) \<Rightarrow> bind_exn (str_substr url p (size_sub q p)) (\<lambda>path. Inr (hp0, path))
            | (None, None) \<Rightarrow> bind_exn (substr_from url pos_prot) (\<lambda>hp. Inr (hp, []))
            | (None, Some p) \<Rightarrow> bind_exn (str_suffix url p) (\<lambda>path. Inr (hp0, path)))
           (\<lambda>(hp, path).
              let (host, port) = split_authority hp
              in Inr \<lparr> url_protocol = proto, url_host = host, url_port = default_port proto port,
                       url_path = (if path = [] then ''/'' else path), url_query = query \<rparr>))))"

definition new_IoTUrl :: "string \<Rightarrow> IoTUrl result" where
  "new_IoTUrl url =
     (if url = [] then Inl (runtime_error ''Invalid parameter[ empty url ]'')
      else case parse_url url of
             Inl e \<Rightarrow> Inl (runtime_error (''Invalid parameter['' @ url @ '']''))
           | Inr u \<Rightarrow> Inr u)"

definition getSSL :: "IoTUrl \<Rightarrow> bool" where
  "getSSL u \<longleftrightarrow> url_protocol u = ''https''"

section \<open>Properties\<close>

lemma str_find_at: "find_sub pat ys = r \<Longrightarrow> str_find (xs @ ys) pat (length xs) = map_option (\<lambda>i. length xs + i) r"
  by (simp add: str_find_def)

lemma str_find_scheme:
  "CHR '':'' \<notin> set proto \<Longrightarrow> str_find (proto @ ''://'' @ rest) ''://'' 0 = Some (length proto)"
  using find_sub_hd [of "CHR '':''" proto "''//''" rest] by (simp add: str_find_def)

lemma find_sub_after:
  "c \<notin> set xs \<Longrightarrow> find_sub [c] (xs @ ys) = map_option (\<lambda>i. length xs + i) (find_sub [c] ys)"
  by (rule find_sub_append_char)

lemma split_authority_simps:
  "CHR '':'' \<notin> set host \<Longrightarrow> split_authority host = (host, - 1)"
  "CHR '':'' \<notin> set host \<Longrightarrow> split_authority (host @ '':'' @ show_nat n) = (host, int n)"
  by (simp_all add: split_authority_def str_find_def find_sub_char find_sub_char_None atoi_show_nat)

text \<open>The parser on a URL with a scheme, reduced to the part behind it.\<close>

definition parse_rest :: "string \<Rightarrow> string \<times> string \<times> string" where
  "parse_rest r =
     (case (find_sub ''/'' r, find_sub ''?'' r) of
        (None, None) \<Rightarrow> (r, [], [])
      | (Some p, None) \<Rightarrow> (take p r, drop p r, [])
      | (None, Some q) \<Rightarrow> (take q r, [], drop (q + 1) r)
      | (Some p, Some q) \<Rightarrow> (take p r, if p \<le> q then take (q - p) (drop p r) else drop p r, drop (q + 1) r))"

lemma find_char_bound: "find_sub [c] s = Some i \<Longrightarrow> i < length s"
  using find_sub_bound [of "[c]" s i] by simp

lemma substr_behind:
  "p \<le> length r \<Longrightarrow> str_substr (xs @ r) (length xs + p) n = Inr (take n (drop p r))"
  "p \<le> length r \<Longrightarrow> str_suffix (xs @ r) (length xs + p) = Inr (drop p r)"
  by (simp_all add: str_substr_def str_suffix_def)

lemma size_sub_simps:
  "size_sub (a + p) (a + q) = size_sub p q" "size_sub (a + p) a = p"
  by (simp_all add: size_sub_def)

lemma take_wrapped:
  "p < length r \<Longrightarrow> length r < 2 ^ 63 \<Longrightarrow>
     take (size_sub q p) (drop p r) = (if p \<le> q then take (q - p) (drop p r) else drop p r)"
  by (simp add: size_sub_def)

lemma parse_url_scheme:
  assumes "CHR '':'' \<notin> set proto" and len: "length r < 2 ^ 63"
  shows "parse_url (proto @ ''://'' @ r) =
    (let (hp, path, query) = parse_rest r; (host, port) = split_authority hp
     in Inr \<lparr> url_protocol = proto, url_host = host, url_port = default_port proto port,
              url_path = (if path = [] then ''/'' else path), url_query = query \<rparr>)"
proof -
  define xs where "xs = proto @ ''://''"
  have url: "proto @ ''://'' @ r = xs @ r" and n: "map_option (\<lambda>p. p + length ''://'') (Some (length proto)) = Some (length xs)"
    by (simp_all add: xs_def)
  have pos0: "str_find (xs @ r) ''://'' 0 = Some (length proto)" "take (length proto) (xs @ r) = proto"
    using str_find_scheme [OF assms(1), of r] by (simp_all add: xs_def)
  have tk: "take (length proto) xs = proto" "length proto - length xs = 0"
    by (simp_all add: xs_def)
  have fnd: "str_find (xs @ r) pat (length xs) = map_option (\<lambda>i. length xs + i) (find_sub pat r)" for pat
    by (simp add: str_find_def)
  have bnd: "\<And>i. find_sub ''/'' r = Some i \<Longrightarrow> i < length r" "\<And>i. find_sub ''?'' r = Some i \<Longrightarrow> i < length r"
    using find_char_bound by blast+
  note take_wrapped' = take_wrapped [OF _ len]
  show ?thesis
    unfolding url parse_url_def parse_rest_def pos0 n Let_def
    using bnd len
    by (cases "find_sub ''/'' r"; cases "find_sub ''?'' r")
      (simp_all add: pos0 tk fnd find_from_def substr_from_def substr_range_def substr_behind
        substr_behind(1) [where p = 0, simplified] substr_behind(2) [where p = 0, simplified]
        substr_behind(2) [where p = "Suc q" for q, simplified]
        size_sub_simps take_wrapped' Let_def case_prod_beta not_le del: length_append)
qed

lemma show_nat_length: "length (show_nat n) \<le> n + 1"
proof (induction n rule: show_nat.induct)
  case (1 n)
  show ?case
  proof (cases "n < 10")
    case False
    then have "n div 10 + 1 \<le> n" by linarith
    with 1 False show ?thesis by (subst show_nat.simps) simp
  qed (subst show_nat.simps, simp)
qed

lemma new_IoTUrl_scheme:
  "CHR '':'' \<notin> set proto \<Longrightarrow> length r < 2 ^ 63 \<Longrightarrow> new_IoTUrl (proto @ ''://'' @ r) = parse_url (proto @ ''://'' @ r)"
  by (simp add: new_IoTUrl_def parse_url_scheme Let_def case_prod_beta del: append_Cons append_Nil)

text \<open>The delimiters a host, a path and so on may not contain.\<close>

definition host_ok :: "string \<Rightarrow> bool" where
  "host_ok h \<longleftrightarrow> CHR '':'' \<notin> set h \<and> CHR ''/'' \<notin> set h \<and> CHR ''?'' \<notin> set h"

lemma digits_no_delims:
  "CHR ''/'' \<notin> set (show_nat n)" "CHR ''?'' \<notin> set (show_nat n)" "CHR '':'' \<notin> set (show_nat n)"
  using show_nat_digits [of "CHR ''/''" n] show_nat_digits [of "CHR ''?''" n] show_nat_digits [of "CHR '':''" n]
  by (auto simp: is_digit_def)

lemma parse_rest_full:
  assumes "CHR ''/'' \<notin> set hp" "CHR ''?'' \<notin> set hp" "CHR ''?'' \<notin> set path"
  shows "parse_rest (hp @ ''/'' @ path @ ''?'' @ query) = (hp, CHR ''/'' # path, query)"
    and "parse_rest (hp @ ''/'' @ path) = (hp, CHR ''/'' # path, [])"
    and "parse_rest hp = (hp, [], [])"
proof -
  have p: "find_sub ''/'' (hp @ ''/'' @ rest) = Some (length hp)" for rest
    using assms(1) by (simp add: find_sub_char)
  have q: "find_sub ''?'' (hp @ ''/'' @ path @ ''?'' @ query) = Some (length hp + 1 + length path)"
    using find_sub_char [of "CHR ''?''" "hp @ ''/'' @ path" query] assms(2,3) by simp
  have nq: "find_sub ''?'' (hp @ ''/'' @ path) = None" "find_sub ''?'' hp = None" "find_sub ''/'' hp = None"
    using assms by (simp_all add: find_sub_char_None)
  show "parse_rest (hp @ ''/'' @ path @ ''?'' @ query) = (hp, CHR ''/'' # path, query)"
    unfolding parse_rest_def p q by simp
  show "parse_rest (hp @ ''/'' @ path) = (hp, CHR ''/'' # path, [])"
    unfolding parse_rest_def p nq by simp
  show "parse_rest hp = (hp, [], [])"
    unfolding parse_rest_def nq by simp
qed



text \<open>without a scheme delimiter no URL is accepted: the constructor throws for every string
  that does not contain \<open>://\<close>.\<close>

theorem url_needs_scheme: "str_find url ''://'' 0 = None \<Longrightarrow> \<exists>e. new_IoTUrl url = Inl e"
  by (simp add: new_IoTUrl_def parse_url_def find_from_def substr_from_def Let_def)

theorem url_needs_scheme_witness: "\<exists>e. new_IoTUrl ''localhost:1026/v1'' = Inl e"
  by (rule url_needs_scheme) (simp add: str_find_def)

text \<open>a query that contains a slash spoils a URL without a path: the host then runs up to that
  slash and the rest of the query is taken for the path.\<close>

theorem url_slash_in_query:
  assumes "CHR '':'' \<notin> set proto" "host_ok host" "CHR ''/'' \<notin> set q" "CHR '':'' \<notin> set q"
    and "length host + length q + length rest < 2 ^ 62"
  shows "new_IoTUrl (proto @ ''://'' @ host @ ''?'' @ q @ ''/'' @ rest)
    = Inr \<lparr> url_protocol = proto, url_host = host @ ''?'' @ q, url_port = default_port proto (- 1),
            url_path = CHR ''/'' # rest, url_query = q @ ''/'' @ rest \<rparr>"
proof -
  let ?r = "host @ ''?'' @ q @ ''/'' @ rest"
  have len: "length ?r < 2 ^ 63" using assms(5) by simp
  have "find_sub ''/'' ?r = Some (length host + 1 + length q)"
    using find_sub_char [of "CHR ''/''" "host @ ''?'' @ q" rest] assms by (simp add: host_ok_def)
  moreover have "find_sub ''?'' ?r = Some (length host)"
    using find_sub_char [of "CHR ''?''" host "q @ ''/'' @ rest"] assms by (simp add: host_ok_def)
  ultimately have "parse_rest ?r = (host @ ''?'' @ q, CHR ''/'' # rest, q @ ''/'' @ rest)"
    by (simp add: parse_rest_def)
  moreover have "split_authority (host @ ''?'' @ q) = (host @ ''?'' @ q, - 1)"
    using assms by (intro split_authority_simps) (simp add: host_ok_def)
  ultimately show ?thesis
    unfolding new_IoTUrl_scheme [OF assms(1) len] parse_url_scheme [OF assms(1) len] by simp
qed

theorem url_slash_in_query_witness:
  "new_IoTUrl ''http://orion?notify=http//x''
    = Inr \<lparr> url_protocol = ''http'', url_host = ''orion?notify=http'', url_port = 80, url_path = ''//x'', url_query = ''notify=http//x'' \<rparr>"
  using url_slash_in_query [of "''http''" "''orion''" "''notify=http''" "''/x''"]
  by (simp add: host_ok_def default_port_def)

end
