(* ===== verification/Alarm.thy ===== *)
theory Alarm
  imports Prelude
begin

text \<open>
  The alarm registry (\<^verbatim>\<open>src/util/alarm.cc\<close>): the active alarms by key in a \<open>std::map\<close>, raised by
  \<open>error\<close> and cleared by \<open>info\<close>.  The singleton is the state; every operation holds its mutex.  What the
  operations log is kept in the state as well.
\<close>

section \<open>The code\<close>

datatype log_level = LOG_ERROR | LOG_DEBUG

record alarm =
  alarms :: "(string, string) std_map"
  alarm_log :: "(log_level \<times> string) list"

definition new_Alarm :: alarm where
  "new_Alarm = \<lparr> alarms = [], alarm_log = [] \<rparr>"

definition message :: "int \<Rightarrow> string \<Rightarrow> string \<Rightarrow> string \<Rightarrow> string" where
  "message code endpoint status text =
     '' code='' @ show_int code @ '' to='' @ endpoint @ '' info='' @ text"

definition message_info :: "int \<Rightarrow> string \<Rightarrow> string \<Rightarrow> ptree \<Rightarrow> string \<Rightarrow> string \<Rightarrow> string" where
  "message_info code endpoint content servicept status text =
     '' code='' @ show_int code @ '' to='' @ endpoint
     @ '' service='' @ pt_get servicept ''service'' []
     @ '' service_path='' @ pt_get servicept ''service_path'' ''/''
     @ '' content='' @ content @ '' info='' @ text"

definition get_key :: "int \<Rightarrow> string \<Rightarrow> string \<Rightarrow> string" where
  "get_key code endpoint status = show_int code @ endpoint"

definition put_alarm :: "string \<Rightarrow> string \<Rightarrow> alarm \<Rightarrow> alarm" where
  "put_alarm key errorSTR a =
     a\<lparr> alarm_log := alarm_log a @ [(LOG_ERROR, errorSTR)],
        alarms := map_insert key errorSTR (alarms a) \<rparr>"

definition alarm_put :: "int \<Rightarrow> string \<Rightarrow> string \<Rightarrow> string \<Rightarrow> alarm \<Rightarrow> alarm" where
  "alarm_put code endpoint status text a =
     put_alarm (get_key code endpoint status) ('' event=ALARM'' @ message code endpoint status text) a"

definition alarm_put_info ::
  "int \<Rightarrow> string \<Rightarrow> string \<Rightarrow> ptree \<Rightarrow> string \<Rightarrow> string \<Rightarrow> alarm \<Rightarrow> alarm" where
  "alarm_put_info code endpoint content info status text a =
     put_alarm (get_key code endpoint status)
       ('' event=ALARM'' @ message_info code endpoint content info status text) a"

text \<open>\<open>erase\<close> returns the number of removed entries, which decides the level of the log line.\<close>

definition alarm_remove :: "int \<Rightarrow> string \<Rightarrow> string \<Rightarrow> string \<Rightarrow> alarm \<Rightarrow> alarm" where
  "alarm_remove code endpoint status text a =
     (let errorSTR = '' event=END-ALARM'' @ message code endpoint status text;
          key = get_key code endpoint status;
          level = (if map_find (alarms a) key \<noteq> None then LOG_ERROR else LOG_DEBUG)
      in a\<lparr> alarms := map_erase key (alarms a), alarm_log := alarm_log a @ [(level, errorSTR)] \<rparr>)"

definition alarm_reset :: "alarm \<Rightarrow> alarm" where
  "alarm_reset a = a\<lparr> alarms := [] \<rparr>"

text \<open>\<open>begin()->second\<close>, undefined when there is no alarm.\<close>

definition get_last :: "alarm \<Rightarrow> string result" where
  "get_last a = (case alarms a of [] \<Rightarrow> Inl (runtime_error ''end()'') | (k, v) # m \<Rightarrow> Inr v)"

definition alarm_size :: "alarm \<Rightarrow> nat" where
  "alarm_size a = length (alarms a)"

section \<open>Histories\<close>

datatype alarm_event =
    Raise int string string string
  | Raise_info int string string ptree string string
  | Clear int string string string
  | Reset

fun handle :: "alarm_event \<Rightarrow> alarm \<Rightarrow> alarm" where
  "handle (Raise c e st t) a = alarm_put c e st t a"
| "handle (Raise_info c e ct i st t) a = alarm_put_info c e ct i st t a"
| "handle (Clear c e st t) a = alarm_remove c e st t a"
| "handle Reset a = alarm_reset a"

text \<open>The message under a key after a history: the first one raised since the key was last cleared.\<close>

fun raised :: "string \<Rightarrow> string option \<Rightarrow> alarm_event \<Rightarrow> string option" where
  "raised k cur (Raise c e st t) =
     (if get_key c e st = k \<and> cur = None then Some ('' event=ALARM'' @ message c e st t) else cur)"
| "raised k cur (Raise_info c e ct i st t) =
     (if get_key c e st = k \<and> cur = None then Some ('' event=ALARM'' @ message_info c e ct i st t) else cur)"
| "raised k cur (Clear c e st t) = (if get_key c e st = k then None else cur)"
| "raised k cur Reset = None"

lemma handle_ok [inv_intros]: "map_ok (alarms a) \<Longrightarrow> map_ok (alarms (handle ev a))"
  by (cases ev)
    (simp_all add: alarm_put_def alarm_put_info_def put_alarm_def alarm_remove_def alarm_reset_def Let_def)

lemma find_handle:
  "map_ok (alarms a) \<Longrightarrow> map_find (alarms (handle ev a)) k = raised k (map_find (alarms a) k) ev"
  by (cases ev)
    (auto simp: alarm_put_def alarm_put_info_def put_alarm_def alarm_remove_def alarm_reset_def Let_def
      omap.find_insert omap.find_erase split: option.splits)

text \<open>C16: the registry refines the history of events.  Starting from no alarms, after any sequence
  of raised, cleared and reset alarms, the message stored under a key is the first one raised since
  that key was last cleared, and nothing is stored when there is none; the map stays well-formed.\<close>

theorem alarms_refine_history:
  "map_find (alarms (fold handle evs new_Alarm)) k = foldl (raised k) None evs
   \<and> map_ok (alarms (fold handle evs new_Alarm))"
proof -
  have "map_ok (alarms a) \<Longrightarrow>
      map_find (alarms (fold handle evs a)) k = foldl (raised k) (map_find (alarms a) k) evs
      \<and> map_ok (alarms (fold handle evs a))" for a
    by (induction evs arbitrary: a) (simp_all add: handle_ok find_handle)
  from this [of new_Alarm] show ?thesis by (simp add: new_Alarm_def)
qed

text \<open>distinct alarms can share a key, because code and endpoint are joined without a
  separator: clearing one of them then clears the other.\<close>

theorem alarm_keys_collide:
  "\<exists>c1 e1 c2 e2. (c1, e1) \<noteq> (c2, e2)
     \<and> alarm_size (alarm_remove c2 e2 st t (alarm_put c1 e1 st t' new_Alarm)) = 0"
proof (intro exI conjI)
  show "(1 :: int, ''0.com'') \<noteq> (10, ''.com'')" by simp
  have "show_int 1 = ''1''" "show_int 10 = ''10''" by code_simp+
  then show "alarm_size (alarm_remove 10 ''.com'' st t (alarm_put 1 ''0.com'' st t' new_Alarm)) = 0"
    by (simp add: alarm_size_def alarm_remove_def alarm_put_def put_alarm_def new_Alarm_def get_key_def Let_def)
qed

end
