(* ===== verification/Statistic.thy ===== *)
theory Statistic
  imports Complex_Main Prelude
begin

text \<open>
  The statistics of \<^verbatim>\<open>src/rest/iot_statistic.cc\<close>: per hour a map of named accumulators, at most 24 hours
  kept, and the duration helper of \<^verbatim>\<open>src/rest/iot_duration.cc\<close>.  A boost accumulator is represented by the
  list of the samples it was given (its count, sum, minimum, maximum and mean are functions of
  them).  The clock \<open>time(0)\<close> is an argument.
\<close>

section \<open>The code\<close>

record 'v IoTStatistic =
  stat_name :: string
  stat_enabled :: bool
  accumulators :: "(int, (string, 'v list) std_map) std_map"

definition new_IoTStatistic :: "string \<Rightarrow> 'v IoTStatistic" where
  "new_IoTStatistic name = \<lparr> stat_name = name, stat_enabled = True, accumulators = [] \<rparr>"

definition set_enable :: "bool \<Rightarrow> 'v IoTStatistic \<Rightarrow> 'v IoTStatistic" where
  "set_enable b s = s\<lparr> stat_enabled := b \<rparr>"

definition hour_of :: "int \<Rightarrow> int" where
  "hour_of t = (t div 3600) * 3600"

definition stat_reset :: "'v IoTStatistic \<Rightarrow> 'v IoTStatistic" where
  "stat_reset s =
     (if length (accumulators s) \<ge> 24 then s\<lparr> accumulators := tl (accumulators s) \<rparr> else s)"

text \<open>\<open>operator[]\<close> hands out an accumulator, creating it empty when needed.\<close>

definition stat_index :: "int \<Rightarrow> string \<Rightarrow> 'v IoTStatistic \<Rightarrow> 'v list option \<times> 'v IoTStatistic" where
  "stat_index now acc_name s =
     (if \<not> stat_enabled s then (None, s)
      else let acc_time = hour_of now in
        case map_find (accumulators s) acc_time of
          Some accs \<Rightarrow>
            (case map_find accs acc_name of
               None \<Rightarrow> (Some [], s\<lparr> accumulators :=
                          map_assign acc_time (map_insert acc_name [] accs) (accumulators s) \<rparr>)
             | Some acc \<Rightarrow> (Some acc, s))
        | None \<Rightarrow>
            let s1 = stat_reset s
            in (Some [], s1\<lparr> accumulators := map_insert acc_time [(acc_name, [])] (accumulators s1) \<rparr>))"

definition stat_add :: "int \<Rightarrow> string \<Rightarrow> 'v \<Rightarrow> 'v IoTStatistic \<Rightarrow> 'v IoTStatistic" where
  "stat_add now acc_name value s =
     (if \<not> stat_enabled s then s
      else let acc_time = hour_of now in
        case map_find (accumulators s) acc_time of
          Some accs \<Rightarrow>
            (case map_find accs acc_name of
               Some acc \<Rightarrow> s\<lparr> accumulators :=
                          map_assign acc_time (map_assign acc_name (acc @ [value]) accs) (accumulators s) \<rparr>
             | None \<Rightarrow> s\<lparr> accumulators :=
                          map_assign acc_time (map_insert acc_name [value] accs) (accumulators s) \<rparr>)
        | None \<Rightarrow>
            let s1 = stat_reset s
            in s1\<lparr> accumulators := map_insert acc_time [(acc_name, [value])] (accumulators s1) \<rparr>)"

text \<open>\<open>Duration::get_duration\<close> from two time stamps \<open>(tv_sec, tv_usec)\<close>: milliseconds, rounded.  The
  double arithmetic of the code is exact at the half-way points and far from them elsewhere.\<close>

definition get_duration :: "int \<times> int \<Rightarrow> int \<times> int \<Rightarrow> int" where
  "get_duration t0 tf =
     (let seconds = fst tf - fst t0; useconds = snd tf - snd t0;
          x = of_int (seconds * 1000) + of_int useconds / 1000 + 1 / 2 :: rat
      in if x \<ge> 0 then \<lfloor>x\<rfloor> else \<lceil>x\<rceil>)"

section \<open>Properties\<close>

definition samples :: "'v IoTStatistic \<Rightarrow> int \<Rightarrow> string \<Rightarrow> 'v list" where
  "samples s h n =
     (case map_find (accumulators s) h of
        None \<Rightarrow> []
      | Some accs \<Rightarrow> (case map_find accs n of None \<Rightarrow> [] | Some acc \<Rightarrow> acc))"

definition stat_ok :: "'v IoTStatistic \<Rightarrow> bool" where
  "stat_ok s \<longleftrightarrow> map_ok (accumulators s) \<and> length (accumulators s) \<le> 24
     \<and> list_all (\<lambda>e. map_ok (snd e)) (accumulators s)"

text \<open>The hour an addition pushes out: the oldest one, when a 25th would be opened.\<close>

definition evicted :: "int \<Rightarrow> 'v IoTStatistic \<Rightarrow> int \<Rightarrow> bool" where
  "evicted now s h \<longleftrightarrow> map_find (accumulators s) (hour_of now) = None
     \<and> length (accumulators s) \<ge> 24 \<and> h = fst (hd (accumulators s))"

lemma map_assign_known:
  "map_find m k = Some w \<Longrightarrow> map_ok m \<Longrightarrow> length (map_assign k v m) = length m"
proof (induction k v m rule: map_assign.induct)
  case (2 k v k' v' m)
  have "k < k' \<Longrightarrow> k \<notin> map_keys m"
    using "2.prems"(2) by fastforce
  then have "k < k' \<Longrightarrow> map_find m k = None" by simp
  then show ?case using 2 by (auto split: if_splits)
qed simp

lemma map_insert_length: "length (map_insert k v m) \<le> Suc (length m)"
  by (induction k v m rule: map_insert.induct) auto

lemma map_find_in_set: "map_find m k = Some v \<Longrightarrow> (k, v) \<in> set m"
  by (simp add: map_find_def map_of_SomeD)

lemma map_ok_tl: "map_ok m \<Longrightarrow> map_ok (tl m)"
  by (cases m) auto

lemma map_find_tl:
  "map_ok m \<Longrightarrow> m \<noteq> [] \<Longrightarrow> map_find (tl m) k = (if k = fst (hd m) then None else map_find m k)"
  by (cases m) (auto simp: map_find_None_iff)

lemma stat_reset_ok:
  assumes "stat_ok s"
  shows "stat_ok (stat_reset s)" "length (accumulators (stat_reset s)) < 24"
  using assms by (auto simp: stat_reset_def stat_ok_def map_ok_tl list_all_iff dest: list.set_sel(2) [rotated])

lemma stat_add_ok [inv_intros]:
  assumes "stat_ok s"
  shows "stat_ok (stat_add now n v s)"
proof (cases "map_find (accumulators s) (hour_of now)")
  case None
  have "stat_ok (stat_reset s)" "length (accumulators (stat_reset s)) < 24"
    using stat_reset_ok [OF assms] by auto
  moreover have "stat_ok (r\<lparr> accumulators := map_insert h [(n, v)] (accumulators r) \<rparr>)"
    if "stat_ok r" "length (accumulators r) < 24" for r :: "'a IoTStatistic" and h n and v :: "'a list"
    using that map_insert_length [of h "[(n, v)]" "accumulators r"] set_map_insert [of h "[(n, v)]" "accumulators r"]
    by (auto simp: stat_ok_def list_all_iff)
  ultimately show ?thesis
    using None assms by (simp add: stat_add_def Let_def)
next
  case (Some accs)
  have upd: "stat_ok (s\<lparr> accumulators := map_assign (hour_of now) accs' (accumulators s) \<rparr>)" if "map_ok accs'" for accs'
    using that assms Some map_assign_known [of "accumulators s" "hour_of now" accs accs']
      set_map_assign [of "hour_of now" accs' "accumulators s"]
    by (auto simp: stat_ok_def list_all_iff)
  have "map_ok accs"
    using assms map_find_in_set [OF Some] by (auto simp: stat_ok_def list_all_iff)
  then show ?thesis
    using Some assms upd by (simp add: stat_add_def Let_def split: option.split)
qed

lemma samples_reset:
  "map_ok (accumulators s) \<Longrightarrow> map_find (accumulators s) (hour_of now) = None \<Longrightarrow>
     samples (stat_reset s) h n = (if evicted now s h then [] else samples s h n)"
  by (cases "accumulators s = []")
    (auto simp: stat_reset_def samples_def evicted_def map_find_tl)

text \<open>the hourly statistics.  Adding a value to an enabled, consistent statistic appends it to
  the samples of its hour and name, drops the samples of the oldest hour exactly when a 25th hour
  would be opened, and leaves all others as they were; the result is consistent again, so that at
  most 24 hours are ever kept.  A disabled statistic does not change.\<close>

theorem stat_add_samples:
  assumes "stat_ok s"
  shows "stat_ok (stat_add now n v s)
     \<and> length (accumulators (stat_add now n v s)) \<le> 24
     \<and> (stat_enabled s \<longrightarrow> samples (stat_add now n v s) h m =
          (if h = hour_of now \<and> m = n then samples s h m @ [v]
           else if evicted now s h then [] else samples s h m))
     \<and> (\<not> stat_enabled s \<longrightarrow> stat_add now n v s = s)"
proof -
  have ok: "map_ok (accumulators s)" using assms by (simp add: stat_ok_def)
  have oks: "stat_ok (stat_add now n v s)" using assms by (rule stat_add_ok)
  have "samples (stat_add now n v s) h m =
          (if h = hour_of now \<and> m = n then samples s h m @ [v]
           else if evicted now s h then [] else samples s h m)" if en: "stat_enabled s"
  proof (cases "map_find (accumulators s) (hour_of now)")
    case None
    have okr: "map_ok (accumulators (stat_reset s))"
      using stat_reset_ok [OF assms] by (simp add: stat_ok_def)
    have "samples (stat_reset s) h m = (if evicted now s h then [] else samples s h m)"
      by (rule samples_reset [OF ok None])
    moreover have "map_find (accumulators (stat_reset s)) (hour_of now) = None"
      using None ok by (auto simp: stat_reset_def map_find_tl) (metis list.size(3) map_find_tl not_numeral_le_zero)
    ultimately show ?thesis
      using None en okr
      by (auto simp: stat_add_def Let_def samples_def omap.find_insert split: option.splits if_splits)
  next
    case (Some accs)
    have "map_ok accs"
      using assms map_find_in_set [OF Some] by (auto simp: stat_ok_def list_all_iff)
    then show ?thesis
      using Some en ok
      by (auto simp: stat_add_def Let_def samples_def evicted_def omap.find_assign omap.find_insert split: option.splits)
  qed
  with oks assms show ?thesis
    by (auto simp: stat_ok_def [of "stat_add now n v s"]) (simp add: stat_add_def)+
qed

theorem stat_add_samples_witness:
  "samples (stat_add 3700 ''in'' (7 :: int) (new_IoTStatistic ''traffic'')) 3600 ''in'' = [7]"
  using stat_add_samples [of "new_IoTStatistic ''traffic'' :: int IoTStatistic" 3700 "''in''" 7 3600 "''in''"]
  by (simp add: stat_ok_def new_IoTStatistic_def hour_of_def samples_def)

text \<open>Durations are the elapsed microseconds rounded to the nearest millisecond.\<close>

lemma get_duration_rounds:
  assumes "0 \<le> (fst tf - fst t0) * 1000000 + (snd tf - snd t0)"
  shows "\<bar>1000 * get_duration t0 tf - ((fst tf - fst t0) * 1000000 + (snd tf - snd t0))\<bar> \<le> 500"
proof -
  define us where "us = (fst tf - fst t0) * 1000000 + (snd tf - snd t0)"
  have x: "of_int ((fst tf - fst t0) * 1000) + of_int (snd tf - snd t0) / 1000 + 1 / 2
      = (of_int (us + 500) / of_int 1000 :: rat)"
    by (simp add: us_def field_simps)
  have "get_duration t0 tf = (us + 500) div 1000"
    using assms floor_divide_of_int_eq [of "us + 500" 1000, where ?'a = rat]
    unfolding get_duration_def Let_def x us_def [symmetric] by simp
  then show ?thesis
    unfolding us_def [symmetric] by linarith
qed

end
