(* ===== verification/Esp_String.thy ===== *)
theory Esp_String
  imports Prelude
begin

text \<open>
  The string library of the ESP engine, \<^verbatim>\<open>src/src/esp/source/ESP_StringUtils.cpp\<close>: trimming,
  substitution, condensing of blanks, tokenizers and the parameter strings parsed with them, path
  splitting, character classification and the conversion of ANSI text to UTF-8.

  A position is a \<open>nat\<close> and \<open>npos\<close> is \<open>None\<close>, except in \<open>condense\<close>, whose positions are 32-bit
  \<open>unsigned int\<close>s: there \<open>npos\<close> is truncated and every sum is written out modulo \<open>2 ^ 32\<close>.
  A loop that may not end (\<open>replaceString\<close>) is a partial function, for which not returning is the
  value \<open>None\<close>.
\<close>

section \<open>Searching\<close>

text \<open>\<open>find_first_not_of\<close> from a position and \<open>find_last_not_of\<close>, \<open>rfind\<close>.\<close>

fun first_not_of :: "string \<Rightarrow> string \<Rightarrow> nat option" where
  "first_not_of [] t = None"
| "first_not_of (c # cs) t = (if c \<in> set t then map_option Suc (first_not_of cs t) else Some 0)"

definition find_first_not_of :: "string \<Rightarrow> string \<Rightarrow> nat \<Rightarrow> nat option" where
  "find_first_not_of s t pos = map_option (\<lambda>i. pos + i) (first_not_of (drop pos s) t)"

definition find_last_not_of :: "string \<Rightarrow> string \<Rightarrow> nat option" where
  "find_last_not_of s t = map_option (\<lambda>i. length s - 1 - i) (first_not_of (rev s) t)"

fun rfind :: "string \<Rightarrow> string \<Rightarrow> nat option" where
  "rfind [] pat = (if pat = [] then Some 0 else None)"
| "rfind (c # cs) pat =
     (case rfind cs pat of
        Some i \<Rightarrow> Some (Suc i)
      | None \<Rightarrow> if prefix pat (c # cs) then Some 0 else None)"

section \<open>Operations\<close>

definition whitespace :: string where
  "whitespace = [CHR '' '', CHR 0x09, CHR 0x0A, CHR 0x0D, CHR 0x0C, CHR 0x0B]"

definition trim :: "string \<Rightarrow> string \<Rightarrow> string" where
  "trim s t =
     (let s1 = (case find_first_not_of s t 0 of None \<Rightarrow> [] | Some i \<Rightarrow> drop i s) in
      case find_last_not_of s1 t of None \<Rightarrow> [] | Some i \<Rightarrow> take (i + 1) s1)"

text \<open>The loop over the vector: the iterator stays where an empty item was erased.\<close>

function trim_vector_loop :: "string list \<Rightarrow> nat \<Rightarrow> string list" where
  "trim_vector_loop v it =
     (if it < length v then
        if length (v ! it) = 0 then trim_vector_loop (take it v @ drop (Suc it) v) it
        else trim_vector_loop v (Suc it)
      else v)"
  by auto
termination by (relation "measure (\<lambda>(v, it). length v - it)") auto

declare trim_vector_loop.simps [simp del]

definition trim_vector :: "string list \<Rightarrow> string list" where
  "trim_vector v = trim_vector_loop v 0"

definition AddEndingString :: "string \<Rightarrow> string \<Rightarrow> string" where
  "AddEndingString inOriginalString inSearchString =
     (let sOutString = inOriginalString in
      case rfind sOutString inSearchString of
        None \<Rightarrow> sOutString @ inSearchString
      | Some nPos \<Rightarrow>
          if nPos + length inSearchString < length sOutString then sOutString @ inSearchString
          else sOutString)"

definition replaceChar :: "string \<Rightarrow> char \<Rightarrow> char \<Rightarrow> string" where
  "replaceChar dest srch repl = map (\<lambda>c. if c = srch then repl else c) dest"

definition strToLower :: "string \<Rightarrow> string" where
  "strToLower str = str"

definition strToUpper :: "string \<Rightarrow> string" where
  "strToUpper str = str"

definition strToFirstCapital :: "string \<Rightarrow> string" where
  "strToFirstCapital str = str"

definition applyFormat :: "string \<Rightarrow> string \<Rightarrow> string" where
  "applyFormat source fmt =
     (let operation = strToLower fmt in
      if operation = ''uppercase'' then strToUpper source
      else if operation = ''lowercase'' then strToLower source
      else if operation = ''firstcapital'' then strToFirstCapital source
      else if operation = ''addsemicolon'' then AddEndingString source '':''
      else source)"

text \<open>\<open>istringstream >> int\<close>: blanks are skipped, a sign and digits are read, a value outside the
  range of \<open>int\<close> sets the fail bit; the test succeeds when nothing is left.\<close>

definition isIntegerNumber :: "string \<Rightarrow> bool" where
  "isIntegerNumber str =
     (let s = dropWhile is_space str;
          neg = (case s of c # _ \<Rightarrow> c = CHR ''-'' | [] \<Rightarrow> False);
          body = (case s of c # cs \<Rightarrow> if c = CHR ''-'' \<or> c = CHR ''+'' then cs else s | [] \<Rightarrow> []);
          digits = takeWhile is_digit body;
          val = (if neg then - int (read_nat digits) else int (read_nat digits)) in
      digits \<noteq> [] \<and> - (2 ^ 31) \<le> val \<and> val < 2 ^ 31 \<and> dropWhile is_digit body = [])"

definition in_range :: "char \<Rightarrow> char \<Rightarrow> char \<Rightarrow> bool" where
  "in_range lo hi c \<longleftrightarrow>
     (of_char lo :: nat) \<le> of_char c \<and> (of_char c :: nat) \<le> of_char hi"

definition isValidLogin :: "string \<Rightarrow> bool" where
  "isValidLogin str =
     list_all (\<lambda>c. in_range CHR ''A'' CHR ''Z'' c \<or> in_range CHR ''a'' CHR ''z'' c
                 \<or> in_range CHR ''0'' CHR ''9'' c) str"

definition isValidUtf8 :: "string \<Rightarrow> bool" where
  "isValidUtf8 pIn =
     list_all (\<lambda>ch. let c = (of_char ch :: nat) in
                  \<not> (c = 192 \<or> c = 193 \<or> 245 \<le> c \<and> c \<le> 255)) (c_str pIn)"

unbundle bit_operations_syntax

text \<open>\<open>char\<close> is signed: the operand of the shift is the sign-extended value.\<close>

definition signed_char :: "char \<Rightarrow> int" where
  "signed_char c = (let n = int (of_char c) in if n < 128 then n else n - 256)"

definition char_of_int :: "int \<Rightarrow> char" where
  "char_of_int v = char_of (nat (v mod 256))"

definition AnsiToUtf8_char :: "char \<Rightarrow> string" where
  "AnsiToUtf8_char c =
     (if signed_char c AND 0x80 \<noteq> 0 then
        [char_of_int (0xC0 OR drop_bit 6 (signed_char c)), char_of_int (0x80 OR (signed_char c AND 0x3F))]
      else [c])"

definition AnsiToUtf8 :: "string \<Rightarrow> string" where
  "AnsiToUtf8 pIn = concat (map AnsiToUtf8_char pIn)"

definition isalnum :: "char \<Rightarrow> bool" where
  "isalnum c \<longleftrightarrow> in_range CHR ''A'' CHR ''Z'' c \<or> in_range CHR ''a'' CHR ''z'' c
     \<or> in_range CHR ''0'' CHR ''9'' c"

definition replaceNonAlphanumeric :: "string \<Rightarrow> char \<Rightarrow> string" where
  "replaceNonAlphanumeric origin newChar = map (\<lambda>c. if \<not> isalnum c then newChar else c) origin"

partial_function (option) replaceString_loop ::
  "string \<Rightarrow> string \<Rightarrow> string \<Rightarrow> nat \<Rightarrow> nat \<Rightarrow> string \<Rightarrow> string option" where
  "replaceString_loop origin oldStr newStr pos lastPos ss =
     (case str_find origin oldStr pos of
        None \<Rightarrow> Some (ss @ drop lastPos origin)
      | Some p \<Rightarrow>
          replaceString_loop origin oldStr newStr (p + length oldStr) (p + length oldStr)
            (ss @ take (p - lastPos) (drop lastPos origin) @ newStr))"

definition replaceString :: "string \<Rightarrow> string \<Rightarrow> string \<Rightarrow> string option" where
  "replaceString origin oldStr newStr = replaceString_loop origin oldStr newStr 0 0 []"

definition startsWith :: "string \<Rightarrow> string \<Rightarrow> bool" where
  "startsWith fullString starting =
     (length fullString \<ge> length starting \<and> take (length starting) fullString = starting)"

definition endsWith :: "string \<Rightarrow> string \<Rightarrow> bool" where
  "endsWith fullString ending =
     (length fullString \<ge> length ending
      \<and> take (length ending) (drop (length fullString - length ending) fullString) = ending)"

subsection \<open>condense\<close>

definition u32 :: "nat option \<Rightarrow> nat" where
  "u32 p = (case p of None \<Rightarrow> 2 ^ 32 - 1 | Some i \<Rightarrow> i mod 2 ^ 32)"

definition s32 :: "nat \<Rightarrow> int" where
  "s32 n = (if n mod 2 ^ 32 < 2 ^ 31 then int (n mod 2 ^ 32) else int (n mod 2 ^ 32) - 2 ^ 32)"

definition str_erase :: "string \<Rightarrow> nat \<Rightarrow> nat \<Rightarrow> string" where
  "str_erase s pos n = take pos s @ drop (pos + n) s"

text \<open>One round of the loop; \<open>None\<close> when \<open>exists\<close> stays false.  The comparisons of the 32-bit
  positions with the 64-bit \<open>npos\<close> are always true.\<close>

definition condense_round :: "string \<Rightarrow> string option" where
  "condense_round str =
     (let iniSpaceString = u32 (str_find str ''  '' 0);
          next = (iniSpaceString + 1) mod 2 ^ 32 in
      if next < length str then
        let pos = u32 (find_first_not_of str '' '' next);
            endSpaceString = (pos + (2 ^ 32 - 1)) mod 2 ^ 32;
            spaceStringLen = s32 (endSpaceString + (2 ^ 32 - iniSpaceString) + 1) in
        if spaceStringLen \<ge> 2 then Some (str_erase str next (nat (spaceStringLen - 1))) else None
      else None)"

lemma str_erase_shortens: "pos < length s \<Longrightarrow> 0 < n \<Longrightarrow> length (str_erase s pos n) < length s"
  by (auto simp: str_erase_def)

lemma condense_round_shortens:
  assumes "condense_round s = Some s'"
  shows "length s' < length s"
proof -
  obtain pos n where "pos < length s" "2 \<le> (n :: int)" "s' = str_erase s pos (nat (n - 1))"
    using assms unfolding condense_round_def Let_def by (metis option.distinct(1) option.inject)
  then show ?thesis by (simp add: str_erase_shortens)
qed

function condense_loop :: "string \<Rightarrow> string" where
  "condense_loop str =
     (case condense_round str of None \<Rightarrow> str | Some s' \<Rightarrow> condense_loop s')"
  by auto
termination by (relation "measure length") (auto dest: condense_round_shortens)

declare condense_loop.simps [simp del]

definition condense :: "string \<Rightarrow> string option" where
  "condense str = do {
     s0 \<leftarrow> Some (trim str whitespace);
     s1 \<leftarrow> replaceString s0 [CHR 0x0A] '' '';
     s2 \<leftarrow> replaceString s1 [CHR 0x09] '' '';
     s3 \<leftarrow> replaceString s2 [CHR 0x0D] '' '';
     s4 \<leftarrow> replaceString s3 [CHR 0x0C] '' '';
     s5 \<leftarrow> replaceString s4 [CHR 0x0B] '' '';
     Some (condense_loop s5) }"

subsection \<open>Paths\<close>

text \<open>The result and the two out parameters.  \<open>pos - 1\<close> is computed in \<open>size_t\<close>: for position 0
  it is \<open>2 ^ 64 - 1\<close>.\<close>

definition splitPathAndFilename :: "string \<Rightarrow> bool \<times> string \<times> string" where
  "splitPathAndFilename fullPath =
     (let n = length fullPath;
          found = (case rfind fullPath [CHR 0x5C] of None \<Rightarrow> rfind fullPath ''/'' | Some p \<Rightarrow> Some p) in
      case found of
        Some pos \<Rightarrow>
          (let before = (pos + (2 ^ 64 - 1)) mod 2 ^ 64 < n;
               after = pos + 1 < n in
           (before \<and> after,
            if before then take pos fullPath else [],
            if after then drop (pos + 1) fullPath else []))
      | None \<Rightarrow> (False, [], fullPath))"

text \<open>The loop has at most \<open>n\<close> rounds.\<close>

fun ocurrences_loop :: "string \<Rightarrow> string \<Rightarrow> nat \<Rightarrow> nat \<Rightarrow> nat option \<Rightarrow> nat option" where
  "ocurrences_loop str search 0 start result = result"
| "ocurrences_loop str search (Suc rounds) start result =
     (case str_find str search start of
        None \<Rightarrow> result
      | Some p \<Rightarrow> ocurrences_loop str search rounds (p + length search) (Some p))"

definition getStringOcurrencesPosition :: "string \<Rightarrow> string \<Rightarrow> int \<Rightarrow> nat option" where
  "getStringOcurrencesPosition str search n = ocurrences_loop str search (nat n) 0 None"

definition intToString :: "int \<Rightarrow> string" where
  "intToString n = show_int n"

definition longToString :: "nat \<Rightarrow> string" where
  "longToString n = show_nat n"

definition convertToPassword :: "string \<Rightarrow> bool \<Rightarrow> string" where
  "convertToPassword str convert = map (\<lambda>c. if convert then CHR ''*'' else c) str"

subsection \<open>Tokenizer\<close>

record CC_StringTokenizer =
  tk_elements :: "string list"
  tk_count :: int
  tk_index :: int
  tk_sep :: string

text \<open>The loop of the constructor: the tokens so far and the one being read.\<close>

fun tokenize_step :: "string \<Rightarrow> nat \<Rightarrow> char \<Rightarrow> string list \<times> string \<Rightarrow> string list \<times> string" where
  "tokenize_step sp maxtokens c (els, str1) =
     (if [c] = take 1 sp then
        (if maxtokens = 0 \<or> length els < maxtokens then els @ [str1] else els, [])
      else (els, str1 @ [c]))"

definition new_CC_StringTokenizer :: "string \<Rightarrow> string \<Rightarrow> nat \<Rightarrow> CC_StringTokenizer" where
  "new_CC_StringTokenizer str sp maxtokens =
     (let (els, str1) = (if length sp = 1 then fold (tokenize_step sp maxtokens) str ([], []) else ([], []));
          els' = (if str1 \<noteq> [] \<and> (maxtokens = 0 \<or> length els < maxtokens) then els @ [str1] else els) in
      \<lparr> tk_elements = els', tk_count = int (length els'), tk_index = 0, tk_sep = sp \<rparr>)"

definition getNextElement :: "CC_StringTokenizer \<Rightarrow> string \<times> CC_StringTokenizer" where
  "getNextElement st =
     (if tk_index st < tk_count st
      then (tk_elements st ! nat (tk_index st), st\<lparr>tk_index := tk_index st + 1\<rparr>) else ([], st))"

definition countElements :: "CC_StringTokenizer \<Rightarrow> int" where
  "countElements st = tk_count st"

definition elementAt :: "CC_StringTokenizer \<Rightarrow> int \<Rightarrow> string" where
  "elementAt st i = (if i \<ge> tk_count st \<or> i < 0 then [] else tk_elements st ! nat i)"

text \<open>The elements from one index to another; an index outside the vector is undefined behaviour,
  here \<open>None\<close>.\<close>

definition getVectorStringBetweenElements :: "CC_StringTokenizer \<Rightarrow> int \<Rightarrow> int \<Rightarrow> string list option" where
  "getVectorStringBetweenElements st i j =
     (if i \<le> j \<and> (i < 0 \<or> j \<ge> int (length (tk_elements st))) then None
      else Some (map (\<lambda>k. tk_elements st ! nat k) [i..j]))"

fun between_loop :: "string \<Rightarrow> string list \<Rightarrow> string" where
  "between_loop sp [] = []"
| "between_loop sp (e # es) = e @ (if es \<noteq> [] then sp else []) @ between_loop sp es"

definition getStringBetweenElements :: "CC_StringTokenizer \<Rightarrow> int \<Rightarrow> int \<Rightarrow> string option" where
  "getStringBetweenElements st i j =
     map_option (between_loop (tk_sep st)) (getVectorStringBetweenElements st i j)"

definition parseParamsString :: "string \<Rightarrow> bool \<Rightarrow> (string, string) std_map" where
  "parseParamsString str valueToLower =
     (let ST = new_CC_StringTokenizer str '','' 0 in
      fold (\<lambda>i pt.
        let ST2 = new_CC_StringTokenizer (elementAt ST i) ''='' 0 in
        if countElements ST2 = 2
        then map_insert (strToLower (elementAt ST2 0))
               (if valueToLower then strToLower (elementAt ST2 1) else elementAt ST2 1) pt
        else pt) [0..countElements ST - 1] [])"

section \<open>Lemmas\<close>

lemma first_not_of_eq:
  "first_not_of s t =
     (if set s \<subseteq> set t then None else Some (length (takeWhile (\<lambda>c. c \<in> set t) s)))"
  by (induction s) auto

lemma trim_eq:
  "trim s t = rev (dropWhile (\<lambda>c. c \<in> set t) (rev (dropWhile (\<lambda>c. c \<in> set t) s)))"
proof -
  let ?p = "\<lambda>c. c \<in> set t"
  have all: "dropWhile ?p xs = [] \<longleftrightarrow> set xs \<subseteq> set t" for xs
    by (auto simp: dropWhile_eq_Nil_conv)
  have s1: "(case find_first_not_of s t 0 of None \<Rightarrow> [] | Some i \<Rightarrow> drop i s) = dropWhile ?p s"
    by (auto simp: find_first_not_of_def first_not_of_eq all [symmetric] dropWhile_eq_drop)
  have s2: "(case find_last_not_of xs t of None \<Rightarrow> [] | Some i \<Rightarrow> take (i + 1) xs)
      = rev (dropWhile ?p (rev xs))" for xs
  proof (cases "set xs \<subseteq> set t")
    case True
    then show ?thesis using all [of "rev xs"] by (simp add: find_last_not_of_def first_not_of_eq)
  next
    case False
    then have "length (takeWhile ?p (rev xs)) < length xs"
      by (metis all dropWhile_eq_drop drop_all length_rev not_le set_rev)
    then show ?thesis using False
      by (simp add: find_last_not_of_def first_not_of_eq dropWhile_eq_drop rev_drop Suc_diff_Suc)
  qed
  show ?thesis by (simp only: trim_def Let_def s1 s2)
qed

lemma trim_vector_loop_eq:
  "trim_vector_loop v it = take it v @ filter (\<lambda>x. x \<noteq> []) (drop it v)"
proof (induction v it rule: trim_vector_loop.induct)
  case (1 v it)
  show ?case
  proof (cases "it < length v")
    case True
    then have d: "drop it v = v ! it # drop (Suc it) v" by (simp add: Cons_nth_drop_Suc)
    show ?thesis
    proof (cases "v ! it = []")
      case empty: True
      then have "trim_vector_loop v it = trim_vector_loop (take it v @ drop (Suc it) v) it"
        using True by (subst trim_vector_loop.simps) simp
      then show ?thesis using 1(1) True empty d by simp
    next
      case False
      then have "trim_vector_loop v it = trim_vector_loop v (Suc it)"
        using True by (subst trim_vector_loop.simps) simp
      then show ?thesis using 1(2) True False d by (simp add: take_Suc_conv_app_nth)
    qed
  qed (subst trim_vector_loop.simps, simp)
qed

lemma trim_vector_eq: "trim_vector v = filter (\<lambda>x. x \<noteq> []) v"
  by (simp add: trim_vector_def trim_vector_loop_eq)

lemma rfind_Some:
  "rfind s pat = Some i \<Longrightarrow>
     i + length pat \<le> length s \<and> prefix pat (drop i s) \<and> (\<forall>j. i < j \<and> j \<le> length s \<longrightarrow> \<not> prefix pat (drop j s))"
proof (induction s pat arbitrary: i rule: rfind.induct)
  case (2 c cs pat)
  show ?case
  proof (cases "rfind cs pat")
    case None
    then have "\<not> prefix pat (drop j cs)" if "j \<le> length cs" for j
      using that
    proof (induction cs arbitrary: j)
      case (Cons a as)
      then show ?case by (cases j) (auto split: option.splits if_splits)
    qed (auto split: if_splits)
    with None 2 show ?thesis
      by (auto split: if_splits simp: drop_Cons' dest: prefix_length_le)
  next
    case (Some k)
    have "\<not> prefix pat (drop (j - 1) cs)" if "Suc k < j" "j \<le> Suc (length cs)" for j
      using 2(1) [OF Some] that by (auto dest!: spec [of _ "j - 1"])
    with Some 2 show ?thesis by (auto simp: drop_Cons')
  qed
qed (auto split: if_splits)

lemma rfind_None: "rfind s pat = None \<Longrightarrow> j \<le> length s \<Longrightarrow> \<not> prefix pat (drop j s)"
proof (induction s arbitrary: j)
  case (Cons a as)
  then show ?case by (cases j) (auto split: option.splits if_splits)
qed (auto split: if_splits)

lemma AddEndingString_eq:
  "AddEndingString s e = (if suffix e s then s else s @ e)"
proof -
  have suf: "suffix e s \<longleftrightarrow> length e \<le> length s \<and> prefix e (drop (length s - length e) s)"
    by (auto simp: suffix_def prefix_def)
       (metis append_eq_append_conv append_take_drop_id length_drop diff_diff_cancel append_Nil2)
  show ?thesis
  proof (cases "rfind s e")
    case None
    then show ?thesis using rfind_None [OF None, of "length s - length e"] suf
      by (simp add: AddEndingString_def)
  next
    case (Some i)
    note found = rfind_Some [OF Some]
    show ?thesis
    proof (cases "i + length e < length s")
      case True
      then have "\<not> suffix e s" using found suf by auto
      then show ?thesis using Some True by (simp add: AddEndingString_def)
    next
      case False
      then have "i = length s - length e" using found by linarith
      then have "suffix e s" using found suf by auto
      then show ?thesis using Some False by (simp add: AddEndingString_def)
    qed
  qed
qed

subsection \<open>Substitution\<close>

text \<open>A leftmost substitution splits the string at the occurrences of the old string.\<close>

function parts_of :: "string \<Rightarrow> string \<Rightarrow> string list" where
  "parts_of pat s =
     (case find_sub pat s of
        None \<Rightarrow> [s]
      | Some i \<Rightarrow> if pat = [] then [s] else take i s # parts_of pat (drop (i + length pat) s))"
  by auto

termination parts_of
  by (relation "measure (\<lambda>(pat, s). length s)")
     (auto dest: find_sub_bound simp: neq_Nil_conv)

declare parts_of.simps [simp del]

lemma parts_of_nonempty [simp]: "parts_of pat s \<noteq> []"
  by (subst parts_of.simps) (auto split: option.splits)

lemma join_parts_Cons: "ts \<noteq> [] \<Longrightarrow> join_with sp (t # ts) = t @ sp @ join_with sp ts"
  by (cases ts) auto

lemma join_parts_of: "join_with pat (parts_of pat s) = s"
proof (induction pat s rule: parts_of.induct)
  case (1 pat s)
  show ?case
  proof (cases "find_sub pat s")
    case None
    then show ?thesis by (subst parts_of.simps) simp
  next
    case (Some i)
    show ?thesis
    proof (cases "pat = []")
      case False
      then show ?thesis
        using 1 [OF Some] Some find_sub_Some [OF Some]
        by (subst parts_of.simps) (simp add: join_parts_Cons)
    qed (subst parts_of.simps, simp add: Some split: option.split)
  qed
qed

text \<open>No part holds the old string: the occurrence found is the first one.\<close>

lemma find_sub_first:
  "find_sub pat s = Some i \<Longrightarrow> pat \<noteq> [] \<Longrightarrow> \<not> sublist pat (take i s)"
proof (induction pat s arbitrary: i rule: find_sub.induct)
  case (2 pat c cs)
  show ?case
  proof (cases "prefix pat (c # cs)")
    case False
    with 2 obtain k where k: "find_sub pat cs = Some k" "i = Suc k" by auto
    have "\<not> prefix pat (c # take k cs)"
      using False by (metis prefix_order.trans take_is_prefix take_Suc_Cons)
    then show ?thesis using 2 k False by (simp add: sublist_Cons_right)
  qed (use 2 in auto)
qed (auto split: if_splits)

lemma parts_of_clean: "pat \<noteq> [] \<Longrightarrow> list_all (\<lambda>t. \<not> sublist pat t) (parts_of pat s)"
proof (induction pat s rule: parts_of.induct)
  case (1 pat s)
  show ?case
  proof (cases "find_sub pat s")
    case None
    then show ?thesis using find_sub_None [OF None] by (subst parts_of.simps) (simp add: sublist_def)
  next
    case (Some i)
    then show ?thesis
      using 1 find_sub_first [OF Some] by (subst parts_of.simps) simp
  qed
qed

lemma replaceString_loop_eq:
  assumes "oldStr \<noteq> []" "pos \<le> length origin"
  shows "replaceString_loop origin oldStr newStr pos pos ss
       = Some (ss @ join_with newStr (parts_of oldStr (drop pos origin)))"
  using assms(2)
proof (induction "length origin - pos" arbitrary: pos ss rule: less_induct)
  case less
  show ?case
  proof (cases "find_sub oldStr (drop pos origin)")
    case None
    then show ?thesis using less.prems
      by (subst replaceString_loop.simps, subst parts_of.simps) (simp add: str_find_def)
  next
    case (Some i)
    note b = find_sub_bound [OF Some]
    have lt: "length origin - (pos + i + length oldStr) < length origin - pos"
      using b assms(1) less.prems by (cases oldStr) auto
    show ?thesis
      using less.hyps [OF lt] b Some less.prems assms(1)
      by (subst replaceString_loop.simps, subst parts_of.simps)
         (simp add: str_find_def join_parts_Cons add.assoc add.commute [of i] add.left_commute)
  qed
qed

lemma replaceString_eq:
  "oldStr \<noteq> [] \<Longrightarrow> replaceString origin oldStr newStr = Some (join_with newStr (parts_of oldStr origin))"
  by (simp add: replaceString_def replaceString_loop_eq)

text \<open>The empty old string is found again and again at the same place.\<close>

lemma replaceString_loop_empty:
  "replaceString_loop origin oldStr newStr pos lastPos ss = Some r \<Longrightarrow>
     \<not> (oldStr = [] \<and> pos \<le> length origin)"
proof (erule replaceString_loop.raw_induct
    [where P = "\<lambda>origin oldStr newStr pos lastPos ss r. \<not> (oldStr = [] \<and> pos \<le> length origin)", rotated])
  fix rec :: "string \<Rightarrow> string \<Rightarrow> string \<Rightarrow> nat \<Rightarrow> nat \<Rightarrow> string \<Rightarrow> string option"
    and origin oldStr newStr ss r :: string and pos lastPos :: nat
  assume ih: "\<And>origin oldStr newStr pos lastPos ss r. rec origin oldStr newStr pos lastPos ss = Some r
      \<Longrightarrow> \<not> (oldStr = [] \<and> pos \<le> length origin)"
    and step: "(case str_find origin oldStr pos of None \<Rightarrow> Some (ss @ drop lastPos origin)
      | Some p \<Rightarrow> rec origin oldStr newStr (p + length oldStr) (p + length oldStr)
          (ss @ take (p - lastPos) (drop lastPos origin) @ newStr)) = Some r"
  show "\<not> (oldStr = [] \<and> pos \<le> length origin)"
  proof
    assume e: "oldStr = [] \<and> pos \<le> length origin"
    then have "str_find origin oldStr pos = Some pos"
      by (cases "drop pos origin") (auto simp: str_find_def)
    with step have "rec origin oldStr newStr (pos + length oldStr) (pos + length oldStr)
        (ss @ take (pos - lastPos) (drop lastPos origin) @ newStr) = Some r" by simp
    from ih [OF this] e show False by simp
  qed
qed

lemma parts_of_char: "parts_of [c] s = split_on (\<lambda>x. x = c) s"
proof (induction s)
  case Nil
  then show ?case by (subst parts_of.simps) simp
next
  case (Cons a s)
  have tail: "parts_of [c] s = (case find_sub [c] s of None \<Rightarrow> [s]
      | Some i \<Rightarrow> take i s # parts_of [c] (drop (i + 1) s))"
    by (subst parts_of.simps) (auto split: option.splits)
  show ?case
  proof (cases "find_sub [c] s")
    case None
    then have "split_on (\<lambda>x. x = c) s = [s]" using Cons tail by simp
    then show ?thesis using None Cons by (subst parts_of.simps) simp
  next
    case (Some i)
    then have "split_on (\<lambda>x. x = c) s = take i s # parts_of [c] (drop (i + 1) s)"
      using Cons tail by simp
    then show ?thesis using Some Cons by (subst parts_of.simps) simp
  qed
qed

lemma join_map_split:
  "join_with [d] (split_on (\<lambda>x. x = c) s) = map (\<lambda>x. if x = c then d else x) s"
proof (induction s)
  case (Cons a s)
  obtain t ts where "split_on (\<lambda>x. x = c) s = t # ts"
    by (meson list.exhaust split_on_nonempty)
  then show ?case using Cons by (cases ts) auto
qed simp

lemma replaceString_char:
  "replaceString s [c] [d] = Some (map (\<lambda>x. if x = c then d else x) s)"
  by (simp add: replaceString_eq parts_of_char join_map_split)

text \<open>\<open>replaceString\<close> returns for every non-empty old string: the text is cut at the old
  string into parts none of which contains it, and the parts are joined with the new string.  For
  the empty old string it does not return.\<close>

theorem replaceString_substitutes:
  "replaceString origin [] newStr = None \<and>
   (oldStr \<noteq> [] \<longrightarrow> (\<exists>ts. ts \<noteq> [] \<and> join_with oldStr ts = origin
      \<and> list_all (\<lambda>t. \<not> sublist oldStr t) ts
      \<and> replaceString origin oldStr newStr = Some (join_with newStr ts)))"
proof -
  have "replaceString origin [] newStr = None"
    using replaceString_loop_empty [of origin "[]" newStr 0 0 "[]"]
    by (cases "replaceString_loop origin [] newStr 0 0 []") (auto simp: replaceString_def)
  moreover have "\<exists>ts. ts \<noteq> [] \<and> join_with oldStr ts = origin
      \<and> list_all (\<lambda>t. \<not> sublist oldStr t) ts
      \<and> replaceString origin oldStr newStr = Some (join_with newStr ts)" if "oldStr \<noteq> []"
    by (rule exI [of _ "parts_of oldStr origin"])
       (simp add: replaceString_eq [OF that] join_parts_of parts_of_clean [OF that])
  ultimately show ?thesis by simp
qed

theorem replaceString_substitutes_witness:
  "\<exists>ts. ts \<noteq> [] \<and> join_with ''ab'' ts = ''aabab''
      \<and> list_all (\<lambda>t. \<not> sublist ''ab'' t) ts
      \<and> replaceString ''aabab'' ''ab'' ''x'' = Some (join_with ''x'' ts)"
  using replaceString_substitutes [of "''aabab''" "''x''" "''ab''"] by simp

subsection \<open>Words\<close>

lemma split_on_sep: "p c \<Longrightarrow> split_on p (a @ c # b) = split_on p a @ split_on p b"
proof (induction a)
  case (Cons x a)
  obtain t ts where "split_on p a = t # ts" by (meson list.exhaust split_on_nonempty)
  then show ?case using Cons by auto
qed simp

definition words_of :: "(char \<Rightarrow> bool) \<Rightarrow> string \<Rightarrow> string list" where
  "words_of p s = filter (\<lambda>t. t \<noteq> []) (split_on p s)"

lemma words_of_sep: "p c \<Longrightarrow> words_of p (a @ c # b) = words_of p a @ words_of p b"
  by (simp add: words_of_def split_on_sep)

lemma words_of_Cons: "p c \<Longrightarrow> words_of p (c # b) = words_of p b"
  by (simp add: words_of_def)

lemma words_of_blanks: "\<forall>c \<in> set bs. p c \<Longrightarrow> words_of p (bs @ s) = words_of p s"
  by (induction bs) (simp_all add: words_of_Cons)

lemma words_of_blanks_end: "\<forall>c \<in> set bs. p c \<Longrightarrow> words_of p (s @ bs) = words_of p s"
proof (cases bs)
  case (Cons b bs')
  assume "\<forall>c \<in> set bs. p c"
  then show ?thesis using Cons words_of_sep [of p b s bs'] words_of_blanks [of bs' p "[]"]
    by (simp add: words_of_def)
qed simp

lemma split_on_parts_clean: "t \<in> set (split_on p s) \<Longrightarrow> c \<in> set t \<Longrightarrow> \<not> p c"
proof (induction s arbitrary: t)
  case (Cons a s)
  obtain u us where u: "split_on p s = u # us" by (meson list.exhaust split_on_nonempty)
  show ?case
  proof (cases "p a")
    case False
    then have "t = a # u \<or> t \<in> set us" using Cons.prems u by auto
    then show ?thesis using Cons.IH [of u] Cons.IH [of t] Cons.prems(2) u False by auto
  qed (use Cons in auto)
qed simp

lemma words_of_map:
  assumes "\<And>c. q (f c) = p c" "\<And>c. \<not> p c \<Longrightarrow> f c = c"
  shows "words_of q (map f s) = words_of p s"
proof -
  have "split_on q (map f s) = map (map f) (split_on p s)"
    by (induction s) (auto simp: assms(1) split: list.split)
  moreover have "map (map f) (split_on p s) = split_on p s"
    by (intro map_idI) (auto simp: assms(2) split_on_parts_clean)
  ultimately show ?thesis by (simp add: words_of_def)
qed

text \<open>Without a double blank and without a blank at either end there is no empty word.\<close>

lemma no_double_blank_words:
  assumes "find_sub ''  '' s = None" "s \<noteq> []" "hd s \<noteq> CHR '' ''" "last s \<noteq> CHR '' ''"
  shows "[] \<notin> set (split_on (\<lambda>c. c = CHR '' '') s)"
proof -
  let ?b = "CHR '' ''"
  have "[] \<notin> set (split_on (\<lambda>c. c = ?b) s) \<or> s = [] \<or> (hd s = ?b \<and> [] \<notin> set (tl (split_on (\<lambda>c. c = ?b) s)))"
    if "find_sub ''  '' s = None" "s = [] \<or> last s \<noteq> ?b" for s
    using that
  proof (induction s)
    case (Cons a s)
    obtain u us where u: "split_on (\<lambda>c. c = ?b) s = u # us" by (meson list.exhaust split_on_nonempty)
    have ih: "[] \<notin> set (u # us) \<or> s = [] \<or> (hd s = ?b \<and> [] \<notin> set us)"
      using Cons u by (auto split: if_splits)
    show ?case
    proof (cases s)
      case Nil
      then show ?thesis using Cons.prems by auto
    next
      case (Cons b s')
      then have "a = ?b \<Longrightarrow> b \<noteq> ?b" using Cons.prems by (auto split: if_splits)
      then show ?thesis using ih u Cons by auto
    qed
  qed simp
  then show ?thesis using assms by blast
qed

lemma condense_round_none:
  assumes "find_sub ''  '' s = None" "s = [] \<or> hd s \<noteq> CHR '' ''"
  shows "condense_round s = None"
proof (cases s)
  case (Cons a as)
  then have "first_not_of s '' '' = Some 0" using assms by simp
  then show ?thesis using assms(1) Cons
    by (simp add: condense_round_def Let_def str_find_def u32_def find_first_not_of_def s32_def)
qed (simp add: condense_round_def str_find_def u32_def)

lemma condense_round_some:
  assumes "find_sub ''  '' s = Some i" "last s \<noteq> CHR '' ''" "length s < 2 ^ 31"
  obtains k where "s = take (i + 1) s @ replicate k CHR '' '' @ drop (i + 1 + k) s" "0 < k"
    "i + 1 + k < length s"
    "condense_round s = Some (take (i + 1) s @ drop (i + 1 + k) s)"
proof -
  let ?b = "CHR '' ''"
  let ?k = "length (takeWhile (\<lambda>c. c = ?b) (drop (i + 1) s))"
  have s: "s = take i s @ [?b, ?b] @ drop (i + 2) s" and len: "i + 2 \<le> length s"
    using find_sub_Some [OF assms(1)] find_sub_bound [OF assms(1)] by simp_all
  have d: "drop (i + 1) s = ?b # drop (i + 2) s"
    using arg_cong [OF s, of "drop (i + 1)"] len by (simp add: numeral_2_eq_2 Suc_diff_le)
  then have k0: "0 < ?k" by simp
  have "\<not> set (drop (i + 1) s) \<subseteq> {?b}"
    using assms(2) d len by (metis last_drop last_in_set list.discI singletonD subset_iff
        One_nat_def add_Suc_right add_2_eq_Suc' add.right_neutral Suc_le_lessD)
  then have f: "first_not_of (drop (i + 1) s) '' '' = Some ?k"
    by (simp add: first_not_of_eq)
  have rep: "takeWhile (\<lambda>c. c = ?b) xs = replicate (length (takeWhile (\<lambda>c. c = ?b) xs)) ?b" for xs
    by (induction xs) auto
  have split: "drop (i + 1) s = replicate ?k ?b @ drop (i + 1 + ?k) s"
    by (metis rep takeWhile_dropWhile_id dropWhile_eq_drop drop_drop add.commute)
  have kl: "i + 1 + ?k < length s"
    using f \<open>\<not> set (drop (i + 1) s) \<subseteq> {?b}\<close> split
    by (metis append_Nil2 drop_all not_le set_replicate_conv_if subset_refl empty_subsetI)
  have wrap: "(4294967297 + ?k) mod 4294967296 = ?k + 1"
    using kl assms(3) by (subst mod_if) simp
  have "condense_round s = Some (take (i + 1) s @ drop (i + 1 + ?k) s)"
    using assms k0 kl f wrap
    by (simp add: condense_round_def Let_def str_find_def u32_def find_first_not_of_def s32_def str_erase_def Suc_le_eq)
  then show thesis using that k0 kl split by (metis append_take_drop_id)
qed

lemma condense_loop_words:
  assumes "s = [] \<or> hd s \<noteq> CHR '' '' \<and> last s \<noteq> CHR '' ''" "length s < 2 ^ 31"
  shows "condense_loop s = join_with '' '' (words_of (\<lambda>c. c = CHR '' '') s)"
  using assms
proof (induction s rule: condense_loop.induct)
  case (1 s)
  let ?p = "\<lambda>c. c = CHR '' ''"
  show ?case
  proof (cases "find_sub ''  '' s")
    case None
    have r: "condense_loop s = s"
      using condense_round_none [OF None] 1(2) by (subst condense_loop.simps) auto
    have "words_of ?p s = (if s = [] then [] else split_on ?p s)"
    proof (cases "s = []")
      case False
      then show ?thesis
        using no_double_blank_words [OF None] 1(2) by (auto simp: words_of_def filter_id_conv)
    qed (simp add: words_of_def)
    then show ?thesis using r join_split [of "CHR '' ''" s] by simp
  next
    case (Some i)
    then have ne: "s \<noteq> []" by auto
    then have outer: "hd s \<noteq> CHR '' ''" "last s \<noteq> CHR '' ''" using 1(2) by auto
    obtain k where s: "s = take (i + 1) s @ replicate k CHR '' '' @ drop (i + 1 + k) s"
      and k: "0 < k" "i + 1 + k < length s"
      and round: "condense_round s = Some (take (i + 1) s @ drop (i + 1 + k) s)"
      using condense_round_some [OF Some outer(2) 1(3)] .
    let ?s' = "take (i + 1) s @ drop (i + 1 + k) s"
    have "hd ?s' = hd s" "last ?s' = last s" using ne k by (simp_all add: hd_append)
    then have "condense_loop ?s' = join_with '' '' (words_of ?p ?s')"
      using 1(1) [OF round] outer 1(3) k by simp
    moreover have "condense_loop s = condense_loop ?s'"
      using round by (subst condense_loop.simps) simp
    moreover have "words_of ?p s = words_of ?p ?s'"
    proof -
      have "take (i + 1) s = take i s @ [CHR '' '']"
        using find_sub_Some [OF Some] k(2) by (metis append_take_drop_id take_Suc_conv_app_nth
            Suc_eq_plus1 Suc_lessD add_lessD1 append_Cons nth_append_length nth_via_drop
            append_eq_conv_conj)
      then have "s = take i s @ CHR '' '' # replicate k CHR '' '' @ drop (i + 1 + k) s"
        "?s' = take i s @ CHR '' '' # drop (i + 1 + k) s" using s by simp_all
      then show ?thesis
        by (metis words_of_sep [of ?p "CHR '' ''"] words_of_blanks [of "replicate k CHR '' ''" ?p]
            in_set_replicate)
    qed
    ultimately show ?thesis by simp
  qed
qed

lemma is_space_whitespace: "is_space c \<longleftrightarrow> c \<in> set whitespace"
proof -
  have range: "9 \<le> n \<and> n \<le> 13 \<longleftrightarrow> n = 9 \<or> n = 10 \<or> n = 11 \<or> n = 12 \<or> n = 13" for n :: nat
    by arith
  have eq: "c = d \<longleftrightarrow> (of_char c :: nat) = of_char d" for d
    by simp
  show ?thesis
    unfolding is_space_def range whitespace_def list.set insert_iff empty_iff eq by auto
qed

lemma trim_whitespace:
  obtains a b where "s = a @ trim s whitespace @ b" "\<forall>c \<in> set a. is_space c" "\<forall>c \<in> set b. is_space c"
proof -
  let ?p = "\<lambda>c. c \<in> set whitespace"
  let ?d = "dropWhile ?p s"
  have "s = takeWhile ?p s @ rev (dropWhile ?p (rev ?d)) @ rev (takeWhile ?p (rev ?d))"
    by (metis rev_append rev_rev_ident takeWhile_dropWhile_id)
  then show thesis
    using that by (metis trim_eq is_space_whitespace set_takeWhileD set_rev)
qed

lemma trim_outer:
  "trim s whitespace = [] \<or> \<not> is_space (hd (trim s whitespace)) \<and> \<not> is_space (last (trim s whitespace))"
proof -
  let ?p = "\<lambda>c. c \<in> set whitespace"
  define d where "d = dropWhile ?p s"
  define e where "e = dropWhile ?p (rev d)"
  have t: "trim s whitespace = rev e" by (simp add: trim_eq d_def e_def)
  have "hd (rev e) = hd d \<and> d \<noteq> []" if "e \<noteq> []"
  proof -
    have de: "rev d = takeWhile ?p (rev d) @ e" by (simp add: e_def)
    have "last (rev d) = last e" by (subst de) (simp add: that)
    moreover have "rev d \<noteq> []" using that e_def by auto
    ultimately have "last (rev d) = last e" "rev d \<noteq> []" by simp_all
    then show ?thesis using that by (simp add: hd_rev last_rev)
  qed
  moreover have "hd d \<notin> set whitespace" if "d \<noteq> []"
    using that hd_dropWhile unfolding d_def by metis
  moreover have "hd e \<notin> set whitespace" if "e \<noteq> []"
    using that hd_dropWhile unfolding e_def by metis
  ultimately show ?thesis
    unfolding t is_space_whitespace by (cases "e = []") (simp_all add: last_rev)
qed

lemma blank_chain:
  "(\<lambda>x. if x = CHR 0x0B then CHR '' '' else x) \<circ> (\<lambda>x. if x = CHR 0x0C then CHR '' '' else x)
     \<circ> (\<lambda>x. if x = CHR 0x0D then CHR '' '' else x) \<circ> (\<lambda>x. if x = CHR 0x09 then CHR '' '' else x)
     \<circ> (\<lambda>x. if x = CHR 0x0A then CHR '' '' else x)
   = (\<lambda>c. if is_space c then CHR '' '' else c)"
  by (rule ext) (simp add: is_space_whitespace whitespace_def)

text \<open>\<open>condense\<close> always returns, and its result is the words of the text (the maximal runs of
  characters that are not white space) separated by single blanks, although the positions of its
  loop are truncated to 32 bits.\<close>

theorem condense_joins_words:
  assumes "length str < 2 ^ 31"
  shows "condense str = Some (join_with '' '' (filter (\<lambda>t. t \<noteq> []) (split_on is_space str)))"
proof -
  let ?t = "trim str whitespace"
  let ?f = "\<lambda>c. if is_space c then CHR '' '' else c"
  let ?u = "map ?f ?t"
  obtain a b where ab: "str = a @ ?t @ b" "\<forall>c \<in> set a. is_space c" "\<forall>c \<in> set b. is_space c"
    using trim_whitespace .
  have f: "?f c = CHR '' '' \<longleftrightarrow> is_space c" for c
    by (cases "is_space c") (auto simp: is_space_def)
  have nb: "\<not> is_space c \<Longrightarrow> c \<noteq> CHR '' ''" for c
    by (auto simp: is_space_def)
  have "condense str = Some (condense_loop ?u)"
    by (simp only: condense_def replaceString_char Option.bind.simps map_map blank_chain)
  moreover have "condense_loop ?u = join_with '' '' (words_of (\<lambda>c. c = CHR '' '') ?u)"
  proof (rule condense_loop_words)
    show "?u = [] \<or> hd ?u \<noteq> CHR '' '' \<and> last ?u \<noteq> CHR '' ''"
      using trim_outer [of str] by (cases "?t = []") (simp_all add: hd_map last_map nb)
    show "length ?u < 2 ^ 31"
      using assms arg_cong [OF ab(1), of length] by simp
  qed
  moreover have "words_of (\<lambda>c. c = CHR '' '') ?u = words_of is_space ?t"
    by (rule words_of_map) (simp_all add: f)
  moreover have "words_of is_space str = words_of is_space ?t"
    using ab by (metis words_of_blanks words_of_blanks_end)
  ultimately show ?thesis by (simp add: words_of_def)
qed

theorem condense_joins_words_witness:
  "condense ''  two   words '' = Some ''two words''"
  using condense_joins_words [of "''  two   words ''"] by (simp add: is_space_def)

subsection \<open>ANSI and UTF-8\<close>

lemma and_0x80: "(v :: int) AND 0x80 = 0 \<longleftrightarrow> even (v div 128)"
  using and_exp_eq_0_iff_not_bit [of v 7] by (simp add: bit_iff_odd)

lemma AnsiToUtf8_ascii: "(of_char c :: nat) < 128 \<Longrightarrow> AnsiToUtf8_char c = [c]"
  by (simp add: AnsiToUtf8_char_def and_0x80 signed_char_def Let_def div_pos_pos_trivial)

lemma AnsiToUtf8_high:
  assumes "128 \<le> (of_char c :: nat)"
  obtains c1 c2 where "AnsiToUtf8_char c = [c1, c2]" "254 \<le> (of_char c1 :: nat)"
proof -
  define v where "v = signed_char c"
  have n: "(of_char c :: nat) < 256" by (metis of_char_mod_256 mod_less_divisor zero_less_numeral)
  have v: "v = int (of_char c :: nat) - 256" using assms by (simp add: v_def signed_char_def Let_def)
  have r: "- 128 \<le> v" "v < 0" using v n assms by linarith+
  have "drop_bit 6 v = - 1 \<or> drop_bit 6 v = - 2"
    using r by (simp add: drop_bit_eq_div) presburger
  then have c1: "254 \<le> (of_char (char_of_int (0xC0 OR drop_bit 6 v)) :: nat)"
    by (auto simp: char_of_int_def)
  have "v div 128 = - 1" using r by presburger
  then have "v AND 0x80 \<noteq> 0" by (simp add: and_0x80)
  then have "AnsiToUtf8_char c = [char_of_int (0xC0 OR drop_bit 6 v), char_of_int (0x80 OR (v AND 0x3F))]"
    by (simp add: AnsiToUtf8_char_def v_def)
  then show thesis using that c1 by blast
qed

text \<open>The conversion to UTF-8 is broken by the signed shift: its output passes the validity
  test of the same class exactly when the text was plain ASCII, where it changes nothing.\<close>

theorem ansi_to_utf8_valid_iff_ascii:
  "isValidUtf8 (AnsiToUtf8 s) \<longleftrightarrow> list_all (\<lambda>c. (of_char c :: nat) < 128) (c_str s)"
proof (induction s)
  case Nil
  then show ?case by (simp add: isValidUtf8_def AnsiToUtf8_def c_str_def)
next
  case (Cons a s)
  show ?case
  proof (cases "(of_char a :: nat) < 128")
    case True
    then show ?thesis using Cons
      by (simp add: isValidUtf8_def AnsiToUtf8_def c_str_def AnsiToUtf8_ascii Let_def)
  next
    case False
    then obtain c1 c2 where c: "AnsiToUtf8_char a = [c1, c2]" "254 \<le> (of_char c1 :: nat)"
      using AnsiToUtf8_high [of a] by (metis not_le)
    have lt: "(of_char c1 :: nat) < 256" by (metis of_char_mod_256 mod_less_divisor zero_less_numeral)
    have nz: "c1 \<noteq> CHR 0x00" "a \<noteq> CHR 0x00" using c(2) False by auto
    have le: "(of_char c1 :: nat) \<le> 255" using lt by linarith
    have "\<not> isValidUtf8 (AnsiToUtf8 (a # s))"
      using nz c le by (simp add: isValidUtf8_def AnsiToUtf8_def c_str_def Let_def)
    then show ?thesis using nz False by (simp add: c_str_def)
  qed
qed

subsection \<open>Tokens\<close>

lemma fold_tokenize:
  "fold (tokenize_step [c] 0) s (els, cur) =
     (els @ butlast ((cur @ hd (split_on (\<lambda>x. x = c) s)) # tl (split_on (\<lambda>x. x = c) s)),
      last ((cur @ hd (split_on (\<lambda>x. x = c) s)) # tl (split_on (\<lambda>x. x = c) s)))"
proof (induction s arbitrary: els cur)
  case (Cons a s)
  obtain t ts where t: "split_on (\<lambda>x. x = c) s = t # ts"
    by (meson list.exhaust split_on_nonempty)
  show ?case
  proof (cases "a = c")
    case True
    then show ?thesis using Cons [of "els @ [cur]" "[]"] t by simp
  next
    case False
    then show ?thesis using Cons [of els "cur @ [a]"] t by simp
  qed
qed simp

lemma tokenizer_elements:
  "tk_elements (new_CC_StringTokenizer s [c] 0) =
     (let ts = split_on (\<lambda>x. x = c) s in if last ts = [] then butlast ts else ts)"
proof -
  obtain t ts where "split_on (\<lambda>x. x = c) s = t # ts"
    by (meson list.exhaust split_on_nonempty)
  then show ?thesis
    using fold_tokenize [of c s "[]" "[]"]
    by (auto simp: new_CC_StringTokenizer_def Let_def)
qed

lemma tokenizer_count [simp]:
  "tk_count (new_CC_StringTokenizer s sp n) = int (length (tk_elements (new_CC_StringTokenizer s sp n)))"
  by (simp add: new_CC_StringTokenizer_def Let_def split_beta)

lemma elementAt_all:
  "tk_count st = int (length (tk_elements st)) \<Longrightarrow>
     map (elementAt st) [0..countElements st - 1] = tk_elements st"
  by (rule nth_equalityI) (simp_all add: elementAt_def countElements_def)

lemma tokenizer_join:
  assumes "ts \<noteq> []" "last ts \<noteq> []" "\<forall>t \<in> set ts. c \<notin> set t"
  shows "tk_elements (new_CC_StringTokenizer (join_with [c] ts) [c] 0) = ts"
proof -
  have "split_on (\<lambda>x. x = c) (join_with [c] ts) = ts"
    by (rule split_join) (use assms in auto)
  then show ?thesis using assms(2) by (simp add: tokenizer_elements)
qed

lemma parseParamsString_fold:
  "parseParamsString str b =
     fold (\<lambda>e pt. let ST2 = tk_elements (new_CC_StringTokenizer e ''='' 0) in
        if length ST2 = 2 then map_insert (ST2 ! 0) (ST2 ! 1) pt else pt)
       (tk_elements (new_CC_StringTokenizer str '','' 0)) []"
proof -
  let ?st = "new_CC_StringTokenizer str '','' 0"
  have "parseParamsString str b =
     fold (\<lambda>e pt. let ST2 = tk_elements (new_CC_StringTokenizer e ''='' 0) in
        if length ST2 = 2 then map_insert (ST2 ! 0) (ST2 ! 1) pt else pt)
       (map (elementAt ?st) [0..countElements ?st - 1]) []"
    unfolding parseParamsString_def Let_def fold_map comp_def
    by (intro fold_cong refl ext) (auto simp: countElements_def elementAt_def strToLower_def)
  then show ?thesis by (simp add: elementAt_all)
qed

text \<open>A parameter string written as \<open>key=value\<close> pairs separated by commas is parsed back to
  these pairs, the first of a repeated key winning, when no key or value contains a separator and
  no value is empty.\<close>

theorem params_string_roundtrip:
  assumes "list_all (\<lambda>(k, v). set k \<inter> {CHR '','', CHR ''=''} = {}
    \<and> set v \<inter> {CHR '','', CHR ''=''} = {} \<and> v \<noteq> []) kvs"
  shows "parseParamsString (join_with '','' (map (\<lambda>(k, v). k @ ''='' @ v) kvs)) b
       = fold (\<lambda>(k, v). map_insert k v) kvs []"
proof (cases "kvs = []")
  case True
  then show ?thesis by (simp add: parseParamsString_fold tokenizer_elements)
next
  case False
  let ?ts = "map (\<lambda>(k, v). k @ ''='' @ v) kvs"
  have el: "tk_elements (new_CC_StringTokenizer (join_with '','' ?ts) '','' 0) = ?ts"
  proof (rule tokenizer_join)
    show "last ?ts \<noteq> []" using False by (simp add: last_map split_beta)
    show "\<forall>t \<in> set ?ts. CHR '','' \<notin> set t" using assms by (auto simp: list_all_iff)
  qed (use False in simp)
  have pair: "tk_elements (new_CC_StringTokenizer (k @ CHR ''='' # v) ''='' 0) = [k, v]"
    if "(k, v) \<in> set kvs" for k v
    using that assms tokenizer_join [of "[k, v]" "CHR ''=''"] by (auto simp: list_all_iff)
  show ?thesis
    unfolding parseParamsString_fold el fold_map comp_def
    by (rule fold_cong) (auto simp: pair fun_eq_iff)
qed

theorem params_string_roundtrip_witness:
  "parseParamsString ''a=1,b=22,a=3'' True = [(''a'', ''1''), (''b'', ''22'')]"
  using params_string_roundtrip [of "[(''a'', ''1''), (''b'', ''22''), (''a'', ''3'')]" True] by simp

subsection \<open>Paths\<close>

lemma rfind_char: "rfind s [c] = Some i \<Longrightarrow> i < length s \<and> s = take i s @ c # drop (i + 1) s \<and> c \<notin> set (drop (i + 1) s)"
proof -
  assume a: "rfind s [c] = Some i"
  note f = rfind_Some [OF this]
  have i: "i < length s" using f by simp
  then have d: "drop i s = c # drop (i + 1) s"
    using f by (metis Cons_nth_drop_Suc Suc_eq_plus1 prefix_Cons prefix_code(3))
  have "c \<notin> set (drop (i + 1) s)"
  proof
    assume "c \<in> set (drop (i + 1) s)"
    then obtain k where k: "k < length (drop (i + 1) s)" "drop (i + 1) s ! k = c"
      by (meson in_set_conv_nth)
    then have "prefix [c] (drop (i + 1 + k) s)"
      by (metis Cons_nth_drop_Suc add.commute drop_drop prefix_Cons prefix_order.dual_order.refl Nil_prefix)
    then show False using f k by auto
  qed
  then show ?thesis using i d by (metis append_take_drop_id)
qed

lemma splitPath_found:
  assumes "length fullPath < 2 ^ 31" "pos < length fullPath"
    and "(case rfind fullPath [CHR 0x5C] of None \<Rightarrow> rfind fullPath ''/'' | Some p \<Rightarrow> Some p) = Some pos"
  shows "splitPathAndFilename fullPath =
    (0 < pos \<and> pos + 1 < length fullPath, take pos fullPath, drop (pos + 1) fullPath)"
proof -
  have "(pos + (2 ^ 64 - 1)) mod 2 ^ 64 < length fullPath \<longleftrightarrow> 0 < pos"
  proof (cases pos)
    case 0
    then show ?thesis using assms(1) by simp
  next
    case (Suc k)
    then have "(pos + (2 ^ 64 - 1)) mod 2 ^ 64 = k" using assms by simp
    then show ?thesis using Suc assms(2) by simp
  qed
  then show ?thesis
    unfolding splitPathAndFilename_def Let_def assms(3) by (simp add: assms(2))
qed

text \<open>When \<open>splitPathAndFilename\<close> succeeds, path, separator and file name make up the full path,
  and the file name is a proper one: not empty and without the separator.  A separator in the first
  or the last position makes it fail.\<close>

theorem split_path_inverts:
  assumes "splitPathAndFilename fullPath = (r, path, filename)" "length fullPath < 2 ^ 31"
  shows "r \<longleftrightarrow> (\<exists>c. (c = CHR 0x5C \<or> c = CHR ''/'' \<and> CHR 0x5C \<notin> set fullPath)
     \<and> fullPath = path @ [c] @ filename \<and> path \<noteq> [] \<and> filename \<noteq> [] \<and> c \<notin> set filename)"
proof (cases "case rfind fullPath [CHR 0x5C] of None \<Rightarrow> rfind fullPath ''/'' | Some p \<Rightarrow> Some p")
  case None
  then show ?thesis using assms(1) by (simp add: splitPathAndFilename_def)
next
  case (Some pos)
  then obtain c where c: "rfind fullPath [c] = Some pos"
    "c = CHR 0x5C \<or> c = CHR ''/'' \<and> rfind fullPath [CHR 0x5C] = None"
    by (auto split: option.splits)
  note f = rfind_char [OF c(1)]
  have no: "CHR 0x5C \<notin> set fullPath" if "rfind fullPath [CHR 0x5C] = None"
  proof
    assume "CHR 0x5C \<in> set fullPath"
    then obtain k where "k < length fullPath" "fullPath ! k = CHR 0x5C" by (meson in_set_conv_nth)
    then show False
      using rfind_None [OF that, of k] by (simp flip: Cons_nth_drop_Suc)
  qed
  have split: "r \<longleftrightarrow> 0 < pos \<and> pos + 1 < length fullPath" "path = take pos fullPath" "filename = drop (pos + 1) fullPath"
    using splitPath_found [OF assms(2) _ Some] f assms(1) by simp_all
  show ?thesis
  proof
    assume r
    then show "\<exists>c. (c = CHR 0x5C \<or> c = CHR ''/'' \<and> CHR 0x5C \<notin> set fullPath)
     \<and> fullPath = path @ [c] @ filename \<and> path \<noteq> [] \<and> filename \<noteq> [] \<and> c \<notin> set filename"
      using split f c no by (intro exI [of _ c]) auto
  next
    assume "\<exists>c. (c = CHR 0x5C \<or> c = CHR ''/'' \<and> CHR 0x5C \<notin> set fullPath)
     \<and> fullPath = path @ [c] @ filename \<and> path \<noteq> [] \<and> filename \<noteq> [] \<and> c \<notin> set filename"
    then show r using split by auto
  qed
qed

theorem split_path_inverts_witness:
  "splitPathAndFilename ''/etc/conf'' = (True, ''/etc'', ''conf'')
   \<and> True = (\<exists>c. (c = CHR 0x5C \<or> c = CHR ''/'' \<and> CHR 0x5C \<notin> set ''/etc/conf'')
     \<and> ''/etc/conf'' = ''/etc'' @ [c] @ ''conf'' \<and> ''/etc'' \<noteq> []
     \<and> ''conf'' \<noteq> [] \<and> c \<notin> set ''conf'')"
proof -
  have eq: "splitPathAndFilename ''/etc/conf'' = (True, ''/etc'', ''conf'')"
    by (simp add: splitPathAndFilename_def)
  show ?thesis by (rule conjI [OF eq split_path_inverts [OF eq]]) simp
qed

end
