(* ===== verification/Esp_Attribute.thy ===== *)
theory Esp_Attribute
  imports Esp_String
begin

text \<open>
  The attributes the ESP engine reads from a frame, \<^verbatim>\<open>src/src/esp/source/ESP_Attribute.cpp\<close>.  The
  value of an attribute is the block of bytes the class allocates; a \<open>const char*\<close> argument is the
  list of the bytes from the address to the end of the allocated memory, \<open>None\<close> for \<open>NULL\<close>.  Integers
  are stored in the little-endian order of the platform, \<open>int\<close> in 4 and \<open>long long\<close> in 8 bytes.

  A read or write outside a block has no defined result: the operation is \<open>None\<close> there.  The
  conversion between text and IEEE numbers, their order and their printing are parameters (\<open>fp_ops\<close>).
\<close>

section \<open>Memory\<close>

type_synonym mem = "u8 list"

fun le_nat :: "mem \<Rightarrow> nat" where
  "le_nat [] = 0"
| "le_nat (b # bs) = unat b + 256 * le_nat bs"

fun le_bytes :: "nat \<Rightarrow> nat \<Rightarrow> mem" where
  "le_bytes 0 n = []"
| "le_bytes (Suc k) n = of_nat (n mod 256) # le_bytes k (n div 256)"

definition int_bytes :: "nat \<Rightarrow> int \<Rightarrow> mem" where
  "int_bytes w i = le_bytes (w div 8) (nat (i mod 2 ^ w))"

definition bytes_str :: "mem \<Rightarrow> string" where
  "bytes_str bs = map (\<lambda>b. char_of (unat b)) bs"

definition str_bytes :: "string \<Rightarrow> mem" where
  "str_bytes s = map (\<lambda>c. of_nat (of_char c)) s"

definition read_mem :: "mem \<Rightarrow> int \<Rightarrow> mem option" where
  "read_mem v n = (if 0 \<le> n \<and> nat n \<le> length v then Some (take (nat n) v) else None)"

record fp_ops =
  fp_float :: "string \<Rightarrow> mem"
  fp_double :: "string \<Rightarrow> mem"
  fp_fless :: "mem \<Rightarrow> mem \<Rightarrow> bool"
  fp_dless :: "mem \<Rightarrow> mem \<Rightarrow> bool"
  fp_fshow :: "mem \<Rightarrow> string"
  fp_dshow :: "mem \<Rightarrow> string"

section \<open>Attributes\<close>

abbreviation (input) "ESP_DataType_UNKNOWN \<equiv> 0 :: int"
abbreviation (input) "ESP_DataType_INT \<equiv> 1 :: int"
abbreviation (input) "ESP_DataType_FLOAT \<equiv> 2 :: int"
abbreviation (input) "ESP_DataType_LONG \<equiv> 3 :: int"
abbreviation (input) "ESP_DataType_DOUBLE \<equiv> 4 :: int"
abbreviation (input) "ESP_DataType_STRING \<equiv> 5 :: int"

abbreviation (input) "ESP_DataCode_UNKNOWN \<equiv> 0 :: int"
abbreviation (input) "ESP_DataCode_MSB \<equiv> 1 :: int"
abbreviation (input) "ESP_DataCode_LSB \<equiv> 2 :: int"
abbreviation (input) "ESP_DataCode_STRING \<equiv> 3 :: int"
abbreviation (input) "ESP_DataCode_STRINGDELIM \<equiv> 4 :: int"

abbreviation (input) "ESP_PARSER_MAX_VALUE_SIZE \<equiv> 102400 :: int"

record ESP_Attribute =
  at_name :: string
  at_value :: "mem option"
  at_datasize :: int
  at_datatype :: int
  at_datacode :: int

definition new_ESP_Attribute :: ESP_Attribute where
  "new_ESP_Attribute =
     \<lparr> at_name = [], at_value = None, at_datasize = 0, at_datatype = 0, at_datacode = 0 \<rparr>"

definition clearValue :: "ESP_Attribute \<Rightarrow> ESP_Attribute" where
  "clearValue a =
     (if at_value a \<noteq> None then a\<lparr>at_value := None, at_datasize := 0\<rparr> else a)"

text \<open>The block both the copy constructor and the assignment allocate.\<close>

definition copy_block :: "ESP_Attribute \<Rightarrow> mem option option" where
  "copy_block pa =
     (case at_value pa of
        Some v \<Rightarrow> if at_datasize pa > 0 then map_option Some (read_mem v (at_datasize pa)) else Some None
      | None \<Rightarrow> Some None)"

definition copy_ESP_Attribute :: "ESP_Attribute \<Rightarrow> ESP_Attribute option" where
  "copy_ESP_Attribute pa = do {
     v \<leftarrow> copy_block pa;
     Some \<lparr> at_name = at_name pa, at_value = v, at_datasize = at_datasize pa,
            at_datatype = at_datatype pa, at_datacode = at_datacode pa \<rparr> }"

definition assign_ESP_Attribute :: "ESP_Attribute \<Rightarrow> ESP_Attribute \<Rightarrow> ESP_Attribute option" where
  "assign_ESP_Attribute this pa = do {
     let cleared = clearValue this;
     v \<leftarrow> copy_block pa;
     Some (cleared\<lparr> at_name := at_name pa,
       at_value := (case v of Some b \<Rightarrow> Some b | None \<Rightarrow> at_value cleared),
       at_datasize := at_datasize pa, at_datatype := at_datatype pa, at_datacode := at_datacode pa \<rparr>) }"

text \<open>The zeroed buffer \<open>result\<close> of \<open>setValue\<close>: the bytes copied to its front, and the final copy
  of its first \<open>_datasize\<close> bytes.\<close>

definition copy_in :: "mem \<Rightarrow> int \<Rightarrow> mem option" where
  "copy_in v n = (if n \<le> ESP_PARSER_MAX_VALUE_SIZE then read_mem v n else None)"

definition copy_out :: "mem \<Rightarrow> int \<Rightarrow> mem option" where
  "copy_out result n =
     (if 0 \<le> n \<and> n \<le> ESP_PARSER_MAX_VALUE_SIZE
      then Some (take (nat n) (result @ replicate (nat n) 0)) else None)"

definition text_code :: "int \<Rightarrow> bool" where
  "text_code datacode \<longleftrightarrow> datacode = ESP_DataCode_STRINGDELIM \<or> datacode = ESP_DataCode_STRING"

text \<open>\<open>std::string(value, datasize).c_str()\<close>, and a \<open>std::string\<close> made from the bare pointer, which
  runs to the first NUL.\<close>

definition sized_text :: "mem \<Rightarrow> int \<Rightarrow> string option" where
  "sized_text v n = map_option (\<lambda>b. c_str (bytes_str b)) (read_mem v n)"

definition bare_text :: "mem \<Rightarrow> string option" where
  "bare_text v = (if 0 \<in> set v then Some (c_str (bytes_str v)) else None)"

definition convert_value :: "fp_ops \<Rightarrow> mem \<Rightarrow> int \<Rightarrow> int \<Rightarrow> int \<Rightarrow> (mem \<times> int) option" where
  "convert_value fp v datasize datatype datacode =
     (if datatype = ESP_DataType_INT then
        if text_code datacode
        then map_option (\<lambda>t. (int_bytes 32 (c_atoi t), 4)) (sized_text v datasize)
        else map_option (\<lambda>b. (b, 4)) (copy_in v datasize)
      else if datatype = ESP_DataType_LONG then
        if text_code datacode
        then map_option (\<lambda>t. (int_bytes 64 (clamp64 (atoi t)), 8)) (bare_text v)
        else map_option (\<lambda>b. (b, 8)) (copy_in v datasize)
      else if datatype = ESP_DataType_FLOAT then
        if text_code datacode
        then map_option (\<lambda>t. (fp_float fp t, 4)) (sized_text v datasize)
        else map_option (\<lambda>b. (b, 4)) (copy_in v datasize)
      else if datatype = ESP_DataType_DOUBLE then
        if text_code datacode
        then map_option (\<lambda>t. (fp_double fp t, 8)) (sized_text v datasize)
        else map_option (\<lambda>b. (b, 8)) (copy_in v datasize)
      else if datatype = ESP_DataType_STRING then
        map_option (\<lambda>b. (b, datasize)) (copy_in v datasize)
      else Some ([], datasize))"

definition setValue ::
  "fp_ops \<Rightarrow> string \<Rightarrow> mem option \<Rightarrow> int \<Rightarrow> int \<Rightarrow> int \<Rightarrow> ESP_Attribute \<Rightarrow> ESP_Attribute option" where
  "setValue fp name val datasize datatype datacode this =
     (case val of
        None \<Rightarrow> Some (this\<lparr>at_name := name\<rparr>)
      | Some v \<Rightarrow> do {
          (result, size) \<leftarrow> convert_value fp v datasize datatype datacode;
          final \<leftarrow> copy_out result size;
          Some \<lparr> at_name = name, at_value = Some final, at_datasize = size,
                 at_datatype = datatype, at_datacode = datacode \<rparr> })"

unbundle bit_operations_syntax

definition setBitN :: "32 word \<Rightarrow> nat \<Rightarrow> int \<Rightarrow> 32 word" where
  "setBitN result bitpos val =
     (let temp = push_bit bitpos 1 in
      if val \<noteq> 0 then result OR temp else result AND NOT temp)"

definition getBitN :: "32 word \<Rightarrow> nat \<Rightarrow> int" where
  "getBitN result bitpos =
     (let temp = push_bit bitpos 1 in if result AND temp \<noteq> 0 then 1 else 0)"

definition getIntValue :: "ESP_Attribute \<Rightarrow> int option" where
  "getIntValue a =
     (case at_value a of None \<Rightarrow> Some 0
      | Some v \<Rightarrow> map_option (\<lambda>b. to_signed 32 (le_nat b)) (read_mem v 4))"

definition getFloatValue :: "ESP_Attribute \<Rightarrow> mem option" where
  "getFloatValue a = (case at_value a of None \<Rightarrow> Some (replicate 4 0) | Some v \<Rightarrow> read_mem v 4)"

definition getLongValue :: "ESP_Attribute \<Rightarrow> int option" where
  "getLongValue a =
     (case at_value a of None \<Rightarrow> Some 0
      | Some v \<Rightarrow> map_option (\<lambda>b. to_signed 64 (le_nat b)) (read_mem v 8))"

definition getDoubleValue :: "ESP_Attribute \<Rightarrow> mem option" where
  "getDoubleValue a = (case at_value a of None \<Rightarrow> Some (replicate 8 0) | Some v \<Rightarrow> read_mem v 8)"

definition getStringValue :: "ESP_Attribute \<Rightarrow> string option" where
  "getStringValue a =
     (case at_value a of None \<Rightarrow> Some []
      | Some v \<Rightarrow> map_option bytes_str (read_mem v (at_datasize a)))"

definition getValueAsString :: "fp_ops \<Rightarrow> ESP_Attribute \<Rightarrow> string option" where
  "getValueAsString fp a =
     (if at_datatype a = ESP_DataType_INT then map_option show_int (getIntValue a)
      else if at_datatype a = ESP_DataType_FLOAT then map_option (fp_fshow fp) (getFloatValue a)
      else if at_datatype a = ESP_DataType_LONG then map_option show_int (getLongValue a)
      else if at_datatype a = ESP_DataType_DOUBLE then map_option (fp_dshow fp) (getDoubleValue a)
      else if at_datatype a = ESP_DataType_STRING then getStringValue a
      else Some [])"

text \<open>The sign of \<open>std::string::compare\<close>, and the three-way test on numbers.\<close>

definition three_way :: "('a \<Rightarrow> 'a \<Rightarrow> bool) \<Rightarrow> 'a \<Rightarrow> 'a \<Rightarrow> int" where
  "three_way lt x y = (if lt x y then - 1 else if lt y x then 1 else 0)"

definition compareValue ::
  "fp_ops \<Rightarrow> ESP_Attribute option \<Rightarrow> ESP_Attribute option \<Rightarrow> int option" where
  "compareValue fp pa1 pa2 =
     (case (pa1, pa2) of
        (Some a1, Some a2) \<Rightarrow>
          if at_datatype a1 = at_datatype a2 then
            if at_datatype a1 = ESP_DataType_INT then do {
              x \<leftarrow> getIntValue a1; y \<leftarrow> getIntValue a2; Some (three_way (\<lambda>a b. a < b) x y) }
            else if at_datatype a1 = ESP_DataType_FLOAT then do {
              x \<leftarrow> getFloatValue a1; y \<leftarrow> getFloatValue a2; Some (three_way (fp_fless fp) x y) }
            else if at_datatype a1 = ESP_DataType_LONG then do {
              x \<leftarrow> getLongValue a1; y \<leftarrow> getLongValue a2; Some (three_way (\<lambda>a b. a < b) x y) }
            else if at_datatype a1 = ESP_DataType_DOUBLE then do {
              x \<leftarrow> getDoubleValue a1; y \<leftarrow> getDoubleValue a2; Some (three_way (fp_dless fp) x y) }
            else if at_datatype a1 = ESP_DataType_STRING then do {
              x \<leftarrow> getStringValue a1; y \<leftarrow> getStringValue a2; Some (three_way (\<lambda>a b. a < b) x y) }
            else Some (- 1)
          else Some (- 1)
      | _ \<Rightarrow> Some (- 1))"

definition getDataTypeFromString :: "string \<Rightarrow> int" where
  "getDataTypeFromString type =
     (if type = ''int'' then ESP_DataType_INT
      else if type = ''float'' then ESP_DataType_FLOAT
      else if type = ''long'' then ESP_DataType_LONG
      else if type = ''double'' then ESP_DataType_DOUBLE
      else if type = ''string'' then ESP_DataType_STRING
      else ESP_DataType_UNKNOWN)"

definition getDataCodeFromString :: "string \<Rightarrow> int" where
  "getDataCodeFromString type =
     (if type = ''msb'' then ESP_DataCode_MSB
      else if type = ''lsb'' then ESP_DataCode_LSB
      else if type = ''string'' then ESP_DataCode_STRING
      else if type = ''stringdelim'' then ESP_DataCode_STRINGDELIM
      else ESP_DataCode_UNKNOWN)"

type_synonym CC_AttributesType = "(string, ESP_Attribute) std_map"

definition searchAttributeRefByName :: "CC_AttributesType \<Rightarrow> string \<Rightarrow> ESP_Attribute option" where
  "searchAttributeRefByName attributes name = map_find attributes name"

section \<open>Lemmas\<close>

lemma length_le_bytes [simp]: "length (le_bytes k n) = k"
  by (induction k n rule: le_bytes.induct) auto

lemma le_nat_le_bytes: "le_nat (le_bytes k n) = n mod 256 ^ k"
proof (induction k n rule: le_bytes.induct)
  case (2 k n)
  have "unat (of_nat (n mod 256) :: u8) = n mod 256"
    by (simp add: unat_of_nat)
  then show ?case using 2 by (simp add: mod_mult2_eq)
qed simp

lemma le_nat_append: "le_nat (xs @ ys) = le_nat xs + 256 ^ length xs * le_nat ys"
  by (induction xs) (simp_all add: algebra_simps)

lemma le_nat_zeros [simp]: "le_nat (replicate k 0) = 0"
  by (induction k) auto

lemma le_nat_bound: "le_nat bs < 256 ^ length bs"
proof (induction bs)
  case (Cons b bs)
  have "unat b < 256" using unsigned_less [of b, where 'a = nat] by simp
  then show ?case using Cons by simp
qed simp

lemma int_bytes_inverse:
  assumes "w = 32 \<or> w = 64" "- (2 ^ (w - 1)) \<le> i" "i < 2 ^ (w - 1)"
  shows "to_signed w (le_nat (int_bytes w i)) = i"
proof -
  have p: "(256 :: nat) ^ (w div 8) = 2 ^ w" using assms(1) by auto
  have lt: "nat (i mod 2 ^ w) < 2 ^ w"
    by (simp add: nat_less_iff)
  then have n: "le_nat (int_bytes w i) = nat (i mod 2 ^ w)"
    by (simp add: int_bytes_def le_nat_le_bytes p)
  have "i mod 2 ^ w = (if i < 0 then i + 2 ^ w else i)"
  proof (cases "i < 0")
    case True
    have "i mod 2 ^ w = (i + 2 ^ w) mod 2 ^ w" by simp
    also have "\<dots> = i + 2 ^ w" using True assms by (intro mod_pos_pos_trivial) auto
    finally show ?thesis using True by simp
  next
    case False
    then have "i mod 2 ^ w = i" using assms by (intro mod_pos_pos_trivial) auto
    then show ?thesis using False by simp
  qed
  then show ?thesis using n assms by (auto simp: to_signed_def nat_less_iff)
qed

lemma bytes_str_inverse [simp]: "bytes_str (str_bytes s) = s"
proof -
  have "char_of (unat (of_nat (of_char c) :: u8)) = c" for c
    by (simp add: unat_of_nat)
  then show ?thesis by (simp add: bytes_str_def str_bytes_def comp_def)
qed

lemma length_str_bytes [simp]: "length (str_bytes s) = length s"
  by (simp add: str_bytes_def)

lemma read_mem_all [simp]: "read_mem v (int (length v)) = Some v"
  by (simp add: read_mem_def)

lemma show_int_no_nul: "CHR 0x00 \<notin> set (show_int i)"
proof -
  have "\<not> is_digit (CHR 0x00)" by (simp add: is_digit_def)
  then have "CHR 0x00 \<notin> set (show_nat n)" for n using show_nat_digits by blast
  then show ?thesis by (simp add: show_int_def)
qed

section \<open>Properties\<close>

text \<open>The invariant of an attribute: the block has the size the attribute says, and the numeric
  types have the size of their C type.\<close>

definition attribute_ok :: "ESP_Attribute \<Rightarrow> bool" where
  "attribute_ok a =
     (case at_value a of
        None \<Rightarrow> at_datasize a = 0
      | Some v \<Rightarrow> at_datasize a = int (length v)
          \<and> (at_datatype a \<in> {ESP_DataType_INT, ESP_DataType_FLOAT} \<longrightarrow> length v = 4)
          \<and> (at_datatype a \<in> {ESP_DataType_LONG, ESP_DataType_DOUBLE} \<longrightarrow> length v = 8))"

lemma convert_value_size:
  "convert_value fp v datasize datatype datacode = Some (r, n) \<Longrightarrow>
     (datatype \<in> {1, 2} \<longrightarrow> n = 4) \<and> (datatype \<in> {3, 4} \<longrightarrow> n = 8)"
  by (auto simp: convert_value_def split: if_splits)

lemma length_copy_out: "copy_out r n = Some b \<Longrightarrow> int (length b) = n"
  by (auto simp: copy_out_def split: if_splits)

lemma setValue_ok [inv_intros]:
  assumes "attribute_ok a" "setValue fp name val datasize datatype datacode a = Some a'"
  shows "attribute_ok a'"
proof (cases val)
  case None
  then show ?thesis using assms by (auto simp: setValue_def attribute_ok_def split: option.splits)
next
  case (Some v)
  then obtain r n b where c: "convert_value fp v datasize datatype datacode = Some (r, n)"
    "copy_out r n = Some b" "a' = \<lparr> at_name = name, at_value = Some b, at_datasize = n,
       at_datatype = datatype, at_datacode = datacode \<rparr>"
    using assms(2) by (auto simp: setValue_def split: Option.bind_splits)
  then show ?thesis
    using convert_value_size [OF c(1)] length_copy_out [OF c(2)] by (auto simp: attribute_ok_def)
qed

lemma new_attribute_ok [inv_intros]: "attribute_ok new_ESP_Attribute"
  by (simp add: attribute_ok_def new_ESP_Attribute_def)

text \<open>Attributes that satisfy the invariant are read and copied without leaving their block.\<close>

lemma getters_defined:
  assumes "attribute_ok a"
  shows "getValueAsString fp a \<noteq> None"
    "getStringValue a \<noteq> None"
    "at_datatype a = ESP_DataType_INT \<Longrightarrow> getIntValue a \<noteq> None"
    "at_datatype a = ESP_DataType_LONG \<Longrightarrow> getLongValue a \<noteq> None"
  using assms
  by (auto simp: attribute_ok_def getValueAsString_def getIntValue_def getFloatValue_def getLongValue_def
      getDoubleValue_def getStringValue_def read_mem_def split: option.splits)

lemma copy_ok:
  assumes "attribute_ok a"
  shows "\<exists>v. copy_ESP_Attribute a = Some (a\<lparr>at_value := v\<rparr>) \<and> (v = at_value a \<or> at_value a = Some [] \<and> v = None)"
  using assms
  by (cases a) (auto simp: attribute_ok_def copy_ESP_Attribute_def copy_block_def split: option.splits)

lemma assign_ok:
  assumes "attribute_ok a"
  shows "assign_ESP_Attribute this a = copy_ESP_Attribute a"
  using assms
  by (cases this; cases a)
     (auto simp: attribute_ok_def assign_ESP_Attribute_def copy_ESP_Attribute_def copy_block_def
        clearValue_def Let_def split: option.splits Option.bind_splits)

text \<open>When the conversion is defined: exactly when it reads and writes inside the blocks.\<close>

lemma setValue_defined:
  assumes "0 \<le> datasize" "datasize \<le> ESP_PARSER_MAX_VALUE_SIZE" "nat datasize \<le> length v"
    "datatype = ESP_DataType_LONG \<and> text_code datacode \<Longrightarrow> 0 \<in> set v"
  shows "setValue fp name (Some v) datasize datatype datacode a \<noteq> None"
  using assms
  by (auto simp: setValue_def convert_value_def copy_in_def copy_out_def read_mem_def sized_text_def
      bare_text_def split: Option.bind_splits)

text \<open>C20: An integer that arrives as text is read back exactly, as \<open>int\<close> from the bytes of the field
  and as \<open>long long\<close> from NUL-terminated text, and prints as the text it came from.\<close>

theorem attribute_text_roundtrip:
  "(- (2 ^ 31) \<le> i \<and> i < 2 ^ 31 \<longrightarrow>
     (\<exists>a'. setValue fp name (Some (str_bytes (show_int i) @ rest)) (int (length (show_int i)))
             ESP_DataType_INT ESP_DataCode_STRING a = Some a'
        \<and> attribute_ok a' \<and> getIntValue a' = Some i \<and> getValueAsString fp a' = Some (show_int i)))
   \<and> (- (2 ^ 63) \<le> i \<and> i < 2 ^ 63 \<longrightarrow>
     (\<exists>a'. setValue fp name (Some (str_bytes (show_int i) @ 0 # rest)) n
             ESP_DataType_LONG ESP_DataCode_STRING a = Some a'
        \<and> attribute_ok a' \<and> getLongValue a' = Some i \<and> getValueAsString fp a' = Some (show_int i)))"
proof (intro conjI impI)
  assume r: "- (2 ^ 31) \<le> i \<and> i < 2 ^ 31"
  have "clamp64 i = i" using r by (simp add: clamp64_def)
  moreover have "to_signed 32 (nat (i mod 2 ^ 32)) = i"
    using int_bytes_inverse [of 32 i] r by (simp add: int_bytes_def le_nat_le_bytes nat_less_iff)
  ultimately have t: "c_atoi (show_int i) = i" by (simp add: c_atoi_def atoi_show_int)
  have b: "to_signed 32 (le_nat (int_bytes 32 i)) = i" using int_bytes_inverse [of 32 i] r by simp
  show "\<exists>a'. setValue fp name (Some (str_bytes (show_int i) @ rest)) (int (length (show_int i)))
             ESP_DataType_INT ESP_DataCode_STRING a = Some a'
        \<and> attribute_ok a' \<and> getIntValue a' = Some i \<and> getValueAsString fp a' = Some (show_int i)"
    using b by (simp add: setValue_def convert_value_def text_code_def sized_text_def read_mem_def
        c_str_no_nul show_int_no_nul t copy_out_def int_bytes_def attribute_ok_def getIntValue_def
        getValueAsString_def)
next
  assume r: "- (2 ^ 63) \<le> i \<and> i < 2 ^ 63"
  have t: "clamp64 (atoi (show_int i)) = i" using r by (simp add: clamp64_def atoi_show_int)
  have b: "to_signed 64 (le_nat (int_bytes 64 i)) = i" using int_bytes_inverse [of 64 i] r by simp
  have s: "c_str (bytes_str (str_bytes (show_int i) @ 0 # rest)) = show_int i"
    using c_str_nul [OF show_int_no_nul [of i]] bytes_str_inverse [of "show_int i"]
    by (simp add: bytes_str_def char_of_def)
  show "\<exists>a'. setValue fp name (Some (str_bytes (show_int i) @ 0 # rest)) n
             ESP_DataType_LONG ESP_DataCode_STRING a = Some a'
        \<and> attribute_ok a' \<and> getLongValue a' = Some i \<and> getValueAsString fp a' = Some (show_int i)"
    using b by (simp add: setValue_def convert_value_def text_code_def bare_text_def read_mem_def
        s t copy_out_def int_bytes_def attribute_ok_def getLongValue_def getValueAsString_def)
qed

theorem attribute_text_roundtrip_witness:
  "\<forall>fp. \<exists>a'. setValue fp ''t'' (Some (str_bytes ''-27'' @ [])) 3 ESP_DataType_INT ESP_DataCode_STRING
          new_ESP_Attribute = Some a'
     \<and> attribute_ok a' \<and> getIntValue a' = Some (- 27) \<and> getValueAsString fp a' = Some ''-27''"
proof -
  have "show_int (- 27) = ''-27''" by code_simp
  then show ?thesis using attribute_text_roundtrip [of "- 27" _ "''t''" "[]" new_ESP_Attribute] by simp
qed

lemma bare_text_nul:
  "CHR 0x00 \<notin> set t \<Longrightarrow> bare_text (str_bytes t @ 0 # rest) = Some t"
  using c_str_nul [of t "bytes_str rest"] bytes_str_inverse [of t]
  by (simp add: bare_text_def bytes_str_def char_of_def)

text \<open>A textual \<open>long\<close> field is not limited to its data size: the conversion reads on to the
  next NUL, so the characters that follow the field in the frame become part of the number.\<close>

theorem long_text_reads_past_field:
  assumes "CHR 0x00 \<notin> set (field @ following)"
    and "- (2 ^ 63) \<le> atoi (field @ following)" "atoi (field @ following) < 2 ^ 63"
  shows "\<exists>a'. setValue fp name (Some (str_bytes (field @ following) @ 0 # rest)) (int (length field))
             ESP_DataType_LONG ESP_DataCode_STRING a = Some a'
        \<and> getLongValue a' = Some (atoi (field @ following))"
proof -
  let ?i = "atoi (field @ following)"
  have c: "clamp64 ?i = ?i" using assms(2,3) by (simp add: clamp64_def)
  have b: "to_signed 64 (le_nat (int_bytes 64 ?i)) = ?i"
    using int_bytes_inverse [of 64 ?i] assms(2,3) by simp
  show ?thesis
    using b by (simp add: setValue_def convert_value_def text_code_def bare_text_nul [OF assms(1)] c
        copy_out_def int_bytes_def getLongValue_def read_mem_def)
qed

theorem long_text_reads_past_field_witness:
  "\<forall>fp. \<exists>a'. setValue fp ''n'' (Some (str_bytes (''12'' @ ''34'') @ 0 # [])) (int (length ''12''))
             ESP_DataType_LONG ESP_DataCode_STRING new_ESP_Attribute = Some a'
        \<and> getLongValue a' = Some 1234"
proof -
  have a: "atoi (''12'' @ ''34'') = 1234" by code_simp
  show ?thesis
    by (intro allI, rule long_text_reads_past_field [of "''12''" "''34''" _ "''n''" "[]" new_ESP_Attribute,
          unfolded a]) simp_all
qed

lemma getBitN_iff: "getBitN r q = (if bit r q then 1 else 0)"
proof -
  have "r AND push_bit q 1 = 0 \<longleftrightarrow> \<not> bit r q"
    using and_exp_eq_0_iff_not_bit [of r q] by (simp add: push_bit_eq_mult)
  then show ?thesis by (simp add: getBitN_def)
qed

lemma getBitN_setBitN:
  assumes "p < 32" "q < 32"
  shows "getBitN (setBitN r p v) q = (if q = p then if v \<noteq> 0 then 1 else 0 else getBitN r q)"
  using assms
  by (auto simp: getBitN_iff setBitN_def Let_def bit_simps)

lemma three_way_antisym:
  "three_way (\<lambda>x y. x < y) x y = - three_way (\<lambda>x y. x < y) y (x :: 'a :: linorder)"
  by (auto simp: three_way_def)

lemma compareValue_antisym:
  assumes "attribute_ok a" "attribute_ok b" "at_datatype a = at_datatype b"
    "at_datatype a \<in> {ESP_DataType_INT, ESP_DataType_LONG, ESP_DataType_STRING}"
  shows "\<exists>c. compareValue fp (Some a) (Some b) = Some c \<and> compareValue fp (Some b) (Some a) = Some (- c)"
  using getters_defined(2-4) [OF assms(1)] getters_defined(2-4) [OF assms(2)] assms(3,4)
  by (auto simp: compareValue_def intro: three_way_antisym) (rule three_way_antisym)+

lemma compareValue_eq_string:
  assumes "attribute_ok a" "attribute_ok b" "at_datatype a = ESP_DataType_STRING" "at_datatype b = ESP_DataType_STRING"
  shows "compareValue fp (Some a) (Some b) = Some 0 \<longleftrightarrow> getStringValue a = getStringValue b"
proof -
  obtain x y where "getStringValue a = Some x" "getStringValue b = Some y"
    using getters_defined(2) [OF assms(1)] getters_defined(2) [OF assms(2)] by auto
  then show ?thesis using assms(3,4) by (auto simp: compareValue_def three_way_def)
qed

end
