(* ===== verification/Esp_Context.thy ===== *)
theory Esp_Context
  imports Esp_Attribute
begin

text \<open>
  The context a parser runs on, \<open>ESP_Context\<close> of \<^verbatim>\<open>src/src/esp/source/TDA.cpp\<close>: the input buffer with
  its read position, the output buffer, the attributes read so far (\<open>temp\<close>) and the results.  The
  two buffers are allocated with exactly \<open>input_size\<close> and \<open>output_size\<close> bytes, so the sizes are the
  lengths of the lists.  An access outside a buffer is \<open>None\<close>.
\<close>

record ESP_Context =
  cx_input :: mem
  cx_index_start :: int
  cx_index_end :: int
  cx_index_end_saved :: int
  cx_output :: mem
  cx_close :: bool
  cx_temp :: CC_AttributesType
  cx_results :: "CC_AttributesType list"

definition new_ESP_Context :: ESP_Context where
  "new_ESP_Context =
     \<lparr> cx_input = [], cx_index_start = 0, cx_index_end = 0, cx_index_end_saved = 0, cx_output = [],
       cx_close = False, cx_temp = [], cx_results = [] \<rparr>"

definition context_clear :: "ESP_Context \<Rightarrow> ESP_Context" where
  "context_clear c = c\<lparr>cx_input := [], cx_output := [], cx_index_start := 0, cx_index_end := 0\<rparr>"

definition getInputSize :: "ESP_Context \<Rightarrow> int" where
  "getInputSize c = int (length (cx_input c))"

definition getAvailableInputData :: "ESP_Context \<Rightarrow> int" where
  "getAvailableInputData c = getInputSize c - cx_index_end c"

definition inputDataIsAvailable :: "ESP_Context \<Rightarrow> int \<Rightarrow> bool" where
  "inputDataIsAvailable c bytes = (getAvailableInputData c \<ge> bytes)"

fun addParams :: "fp_ops \<Rightarrow> (string \<times> string) list \<Rightarrow> ESP_Context \<Rightarrow> ESP_Context option" where
  "addParams fp [] c = Some c"
| "addParams fp ((k, v) # params) c = do {
     attribute \<leftarrow> setValue fp k (Some (str_bytes v @ [0])) (int (length v))
       ESP_DataType_STRING ESP_DataCode_STRING new_ESP_Attribute;
     copied \<leftarrow> copy_ESP_Attribute attribute;
     addParams fp params (c\<lparr>cx_temp := map_insert k copied (cx_temp c)\<rparr>) }"

definition addInputData :: "mem \<Rightarrow> int \<Rightarrow> ESP_Context \<Rightarrow> ESP_Context option" where
  "addInputData data len c =
     (if len > 0 then map_option (\<lambda>b. c\<lparr>cx_input := cx_input c @ b\<rparr>) (read_mem data len) else Some c)"

text \<open>The returned pointer is the rest of the buffer from the read position.\<close>

definition readPInputData :: "int \<Rightarrow> ESP_Context \<Rightarrow> bool \<times> mem option \<times> ESP_Context" where
  "readPInputData bytes c =
     (if bytes > 0 \<and> inputDataIsAvailable c bytes
      then (True, Some (drop (nat (cx_index_end c)) (cx_input c)), c\<lparr>cx_index_end := cx_index_end c + bytes\<rparr>)
      else (False, None, c))"

definition validateInputData :: "int \<Rightarrow> ESP_Context \<Rightarrow> ESP_Context option" where
  "validateInputData offset c =
     (let index_end = (if offset \<noteq> 0 then offset else cx_index_end c) in
      if 0 \<le> index_end \<and> index_end \<le> getInputSize c
      then Some (c\<lparr>cx_input := drop (nat index_end) (cx_input c), cx_index_end := cx_index_start c\<rparr>)
      else None)"

definition addResultData :: "ESP_Context \<Rightarrow> bool \<times> ESP_Context" where
  "addResultData c =
     (let finalValues = filter (\<lambda>(k, a). \<not> startsWith (at_name a) ''_'') (cx_temp c) in
      if finalValues \<noteq> [] then (True, c\<lparr>cx_results := cx_results c @ [finalValues]\<rparr>) else (False, c))"

definition saveIndex :: "ESP_Context \<Rightarrow> ESP_Context" where
  "saveIndex c = c\<lparr>cx_index_end_saved := cx_index_end c\<rparr>"

definition restoreIndex :: "ESP_Context \<Rightarrow> ESP_Context" where
  "restoreIndex c = c\<lparr>cx_index_end := cx_index_end_saved c\<rparr>"

definition value_bytes :: "ESP_Attribute \<Rightarrow> mem" where
  "value_bytes a = (case at_value a of None \<Rightarrow> [] | Some v \<Rightarrow> v)"

definition memcmp_at :: "ESP_Context \<Rightarrow> ESP_Attribute \<Rightarrow> int \<Rightarrow> bool" where
  "memcmp_at c a i \<longleftrightarrow>
     i \<ge> 0 \<and> getInputSize c - i \<ge> at_datasize a
     \<and> take (nat (at_datasize a)) (drop (nat i) (cx_input c)) = take (nat (at_datasize a)) (value_bytes a)"

definition searchAttributeValueInRange :: "ESP_Attribute \<Rightarrow> int \<Rightarrow> int \<Rightarrow> ESP_Context \<Rightarrow> int" where
  "searchAttributeValueInRange a offset sz c =
     (case List.find (memcmp_at c a) [cx_index_end c + offset..cx_index_end c + sz - 1] of
        Some i \<Rightarrow> i
      | None \<Rightarrow> - 1)"

definition searchAttributeValue :: "ESP_Attribute \<Rightarrow> ESP_Context \<Rightarrow> int" where
  "searchAttributeValue a c = searchAttributeValueInRange a 0 (getInputSize c - cx_index_end c) c"

definition getSizeFromIndex :: "int \<Rightarrow> ESP_Context \<Rightarrow> int" where
  "getSizeFromIndex i c = i - cx_index_end c"

definition addOutputData :: "mem option \<Rightarrow> int \<Rightarrow> ESP_Context \<Rightarrow> ESP_Context option" where
  "addOutputData data len c =
     (if len = 0 then Some c
      else case data of
             None \<Rightarrow> None
           | Some d \<Rightarrow> map_option (\<lambda>b. c\<lparr>cx_output := cx_output c @ b\<rparr>) (read_mem d len))"

definition removeOutputData :: "int \<Rightarrow> ESP_Context \<Rightarrow> ESP_Context option" where
  "removeOutputData nbytes c =
     (if 0 \<le> nbytes \<and> nbytes \<le> int (length (cx_output c))
      then Some (c\<lparr>cx_output := drop (nat nbytes) (cx_output c)\<rparr>) else None)"

text \<open>Looking an attribute up in the results (\<open>ESP_Result\<close>); with \<open>remove\<close> the whole result the
  attribute was found in is erased.\<close>

fun findInputAttributeAsString ::
  "fp_ops \<Rightarrow> CC_AttributesType list \<Rightarrow> string \<Rightarrow> bool \<Rightarrow> (string \<times> CC_AttributesType list) option" where
  "findInputAttributeAsString fp [] name remove = Some ([], [])"
| "findInputAttributeAsString fp (m # ms) name remove =
     (case map_find m name of
        Some a \<Rightarrow> map_option (\<lambda>s. (s, if remove then ms else m # ms)) (getValueAsString fp a)
      | None \<Rightarrow> map_option (\<lambda>(s, ms'). (s, m # ms')) (findInputAttributeAsString fp ms name remove))"

section \<open>Invariant\<close>

definition attributes_ok :: "CC_AttributesType \<Rightarrow> bool" where
  "attributes_ok m \<longleftrightarrow> map_ok m \<and> list_all (\<lambda>(k, a). attribute_ok a) m"

definition context_ok :: "ESP_Context \<Rightarrow> bool" where
  "context_ok c \<longleftrightarrow> cx_index_start c = 0 \<and> 0 \<le> cx_index_end c \<and> cx_index_end c \<le> getInputSize c
     \<and> attributes_ok (cx_temp c)"

lemma context_ok_new [inv_intros]: "context_ok new_ESP_Context"
  by (simp add: context_ok_def new_ESP_Context_def attributes_ok_def getInputSize_def)

lemma attributes_ok_find: "attributes_ok m \<Longrightarrow> map_find m k = Some a \<Longrightarrow> attribute_ok a"
  by (auto simp: attributes_ok_def map_find_def list_all_iff dest: map_of_SomeD)

lemma attributes_ok_assign [inv_intros]:
  "attributes_ok m \<Longrightarrow> attribute_ok a \<Longrightarrow> attributes_ok (map_assign k a m)"
  unfolding attributes_ok_def list_all_iff using set_map_assign [of k a m] by fastforce

lemma attributes_ok_insert [inv_intros]:
  "attributes_ok m \<Longrightarrow> attribute_ok a \<Longrightarrow> attributes_ok (map_insert k a m)"
  unfolding attributes_ok_def list_all_iff using set_map_insert [of k a m] by fastforce

lemma copied_ok: "attribute_ok a \<Longrightarrow> copy_ESP_Attribute a = Some a' \<Longrightarrow> attribute_ok a'"
  using copy_ok [of a] by (auto simp: attribute_ok_def split: option.splits)

lemma addParams_ok [inv_intros]:
  "context_ok c \<Longrightarrow> addParams fp params c = Some c' \<Longrightarrow> context_ok c'"
proof (induction fp params c rule: addParams.induct)
  case (2 fp k v params c)
  then obtain a a' where a: "setValue fp k (Some (str_bytes v @ [0])) (int (length v)) 5 3 new_ESP_Attribute = Some a"
    "copy_ESP_Attribute a = Some a'"
    "addParams fp params (c\<lparr>cx_temp := map_insert k a' (cx_temp c)\<rparr>) = Some c'"
    by (auto split: Option.bind_splits)
  then have "attribute_ok a'"
    using setValue_ok [OF new_attribute_ok a(1)] copied_ok [OF _ a(2)] by blast
  then have "context_ok (c\<lparr>cx_temp := map_insert k a' (cx_temp c)\<rparr>)"
    using "2.prems"(1) attributes_ok_insert by (simp add: context_ok_def getInputSize_def)
  then show ?case using 2(1) a by blast
qed simp

lemma addInputData_ok [inv_intros]: "context_ok c \<Longrightarrow> addInputData data len c = Some c' \<Longrightarrow> context_ok c'"
  by (auto simp: addInputData_def context_ok_def getInputSize_def split: if_splits)

lemma readPInputData_ok [inv_intros]:
  "context_ok c \<Longrightarrow> readPInputData n c = (r, p, c') \<Longrightarrow> context_ok c'"
  by (auto simp: readPInputData_def context_ok_def inputDataIsAvailable_def getAvailableInputData_def
      getInputSize_def split: if_splits)

lemma validateInputData_ok [inv_intros]:
  "context_ok c \<Longrightarrow> validateInputData n c = Some c' \<Longrightarrow> context_ok c'"
  by (auto simp: validateInputData_def context_ok_def getInputSize_def Let_def split: if_splits)

lemma addResultData_ok [inv_intros]: "context_ok c \<Longrightarrow> context_ok (snd (addResultData c))"
  by (simp add: addResultData_def context_ok_def getInputSize_def Let_def)

lemma addOutputData_ok [inv_intros]: "context_ok c \<Longrightarrow> addOutputData d n c = Some c' \<Longrightarrow> context_ok c'"
  by (auto simp: addOutputData_def context_ok_def getInputSize_def split: if_splits option.splits)

text \<open>Under the invariant, what a successful read returns is inside the buffer, and an accepted
  frame can always be validated.\<close>

lemma readPInputData_inside:
  "context_ok c \<Longrightarrow> readPInputData n c = (True, p, c') \<Longrightarrow>
     \<exists>v. p = Some v \<and> 0 < n \<and> nat n \<le> length v \<and> cx_index_end c' = cx_index_end c + n"
  by (auto simp: readPInputData_def context_ok_def inputDataIsAvailable_def getAvailableInputData_def
      getInputSize_def split: if_splits)

lemma validateInputData_defined: "context_ok c \<Longrightarrow> validateInputData 0 c \<noteq> None"
  by (simp add: validateInputData_def context_ok_def)

text \<open>The search returns the first place of the value, and only places inside the buffer.\<close>

lemma search_in_range:
  "searchAttributeValueInRange a off n c = i \<Longrightarrow> 0 \<le> i \<Longrightarrow>
     cx_index_end c + off \<le> i \<and> i < cx_index_end c + n \<and> memcmp_at c a i"
  by (auto simp: searchAttributeValueInRange_def find_Some_iff split: option.splits dest: nth_mem)

end
