(* ===== verification/Esp_Parser.thy ===== *)
theory Esp_Parser
  imports Esp_Context
begin

text \<open>
  The tag machine of the ESP engine: the tree of tags a sensor description builds
  (\<open>ESP_Tag_Base\<close> in \<^verbatim>\<open>src/src/esp/source/TDA.cpp\<close>, the basic tags in
  \<^verbatim>\<open>src/src/esp/plugins/parser_basic/ESP_Plugin_Parser_Basic.cpp\<close>) and the command that runs it.

  A tag is the record of its fields with the list of its children.  A child reaches its ancestors
  through the parent pointer in three ways only: a value reads the round counter of the nearest
  enclosing loop, a break stops that loop, an option reads and sets the flag of the switch it stands
  in.  The record \<open>ancestors\<close> carries these fields down to a child and its changes back up.

  The walk over the tree is defined with fuel, one unit for each call and each round of a loop:
  \<open>None\<close> stands for fuel that ran out and for behaviour the C++ standard leaves undefined.
\<close>

section \<open>Tags\<close>

datatype tag_kind =
    Tag_Header
  | Tag_Body
  | Tag_Footer
  | Tag_Read
  | Tag_Write
  | Tag_Close
  | Tag_Constraint
  | Tag_Value (nameref: string) (resetend: bool)
  | Tag_Condition (operation: string)
  | Tag_Switch (evaluated: bool)
  | Tag_Option
  | Tag_Loop (breakonempty: bool) (iterations: int) (iter: int) (niter: int)
  | Tag_Break
  | Tag_CompoundValue
  | Tag_Clear
  | Tag_Result (nodata: bool)

record tag_data =
  tg_kind :: tag_kind
  tg_parsed :: bool
  tg_repeat :: bool
  tg_name :: string
  tg_byteoffset :: int
  tg_datasize :: int
  tg_datatype :: int
  tg_datacode :: int
  tg_value :: ESP_Attribute
  tg_loop :: bool
  tg_valueref :: string

datatype ESP_Tag = Tag (tag_data: tag_data) (subtags: "ESP_Tag list")

definition new_tag :: "tag_kind \<Rightarrow> tag_data" where
  "new_tag k =
     \<lparr> tg_kind = k, tg_parsed = False, tg_repeat = False, tg_name = [], tg_byteoffset = 0,
       tg_datasize = 0, tg_datatype = 0, tg_datacode = 0, tg_value = new_ESP_Attribute,
       tg_loop = False, tg_valueref = [] \<rparr>"

text \<open>\<open>reset\<close> with the overriding methods of the switch and the loop.\<close>

definition reset_kind :: "tag_kind \<Rightarrow> tag_kind" where
  "reset_kind k =
     (case k of
        Tag_Switch _ \<Rightarrow> Tag_Switch False
      | Tag_Loop b n _ _ \<Rightarrow> Tag_Loop b n n 0
      | _ \<Rightarrow> k)"

primrec tag_reset :: "ESP_Tag \<Rightarrow> ESP_Tag" where
  "tag_reset (Tag d ts) =
     Tag (d\<lparr>tg_parsed := False, tg_repeat := False, tg_kind := reset_kind (tg_kind d)\<rparr>) (map tag_reset ts)"

primrec setAllParsed :: "bool \<Rightarrow> ESP_Tag \<Rightarrow> ESP_Tag" where
  "setAllParsed status (Tag d ts) = Tag (d\<lparr>tg_parsed := status\<rparr>) (map (setAllParsed status) ts)"

definition setChildrenParsed :: "bool \<Rightarrow> bool \<Rightarrow> ESP_Tag \<Rightarrow> ESP_Tag" where
  "setChildrenParsed parent status t =
     Tag (if parent then (tag_data t)\<lparr>tg_parsed := status\<rparr> else tag_data t)
       (map (setAllParsed status) (subtags t))"

fun first_unparsed :: "ESP_Tag list \<Rightarrow> nat option" where
  "first_unparsed [] = None"
| "first_unparsed (t # ts) =
     (if \<not> tg_parsed (tag_data t) then Some 0 else map_option Suc (first_unparsed ts))"

definition getNextTag :: "ESP_Tag \<Rightarrow> nat option" where
  "getNextTag t = first_unparsed (subtags t)"

section \<open>Ancestors\<close>

record ancestors =
  an_niter :: "int option"
  an_break :: bool
  an_switch :: "(string \<times> bool) option"

definition no_ancestors :: ancestors where
  "no_ancestors = \<lparr> an_niter = None, an_break = False, an_switch = None \<rparr>"

definition child_ancestors :: "ancestors \<Rightarrow> tag_data \<Rightarrow> ancestors" where
  "child_ancestors an d =
     \<lparr> an_niter = (case tg_kind d of Tag_Loop _ _ _ k \<Rightarrow> Some k | _ \<Rightarrow> an_niter an),
       an_break = False,
       an_switch = (case tg_kind d of Tag_Switch e \<Rightarrow> Some (tg_valueref d, e) | _ \<Rightarrow> None) \<rparr>"

text \<open>What a child changed: \<open>iter\<close> of the nearest loop and \<open>_evaluated\<close> of the parent switch.\<close>

definition absorb_kind :: "ancestors \<Rightarrow> tag_kind \<Rightarrow> tag_kind" where
  "absorb_kind ca k =
     (case k of
        Tag_Loop b n i m \<Rightarrow> if an_break ca then Tag_Loop b n 0 m else k
      | Tag_Switch e \<Rightarrow> (case an_switch ca of Some (_, e') \<Rightarrow> Tag_Switch e' | None \<Rightarrow> k)
      | _ \<Rightarrow> k)"

definition is_loop :: "tag_data \<Rightarrow> bool" where
  "is_loop d = (case tg_kind d of Tag_Loop _ _ _ _ \<Rightarrow> True | _ \<Rightarrow> False)"

definition absorb_ancestors :: "ancestors \<Rightarrow> ancestors \<Rightarrow> tag_data \<Rightarrow> ancestors" where
  "absorb_ancestors ca an d =
     (if is_loop d then an else an\<lparr>an_break := an_break an \<or> an_break ca\<rparr>)"

section \<open>Execution of the tags\<close>

datatype exec_result =
    EXECUTE_RESULT_ERROR
  | EXECUTE_RESULT_IDLE
  | EXECUTE_RESULT_OK
  | EXECUTE_RESULT_OK_RETURN

type_synonym outcome = "(exec_result \<times> ancestors \<times> ESP_Tag \<times> ESP_Context) option"

definition execute_read :: "ancestors \<Rightarrow> ESP_Tag \<Rightarrow> ESP_Context \<Rightarrow> outcome" where
  "execute_read an t c =
     (case readPInputData (tg_datasize (tag_data t)) c of
        (ok, result, c') \<Rightarrow> Some (if ok then EXECUTE_RESULT_OK else EXECUTE_RESULT_IDLE, an, t, c'))"

text \<open>The update of \<open>_value\<close> from \<open>_valueref\<close> that write and switch share.\<close>

definition update_ref :: "tag_data \<Rightarrow> ESP_Context \<Rightarrow> tag_data option" where
  "update_ref d c =
     (if tg_valueref d \<noteq> [] then
        case searchAttributeRefByName (cx_temp c) (tg_valueref d) of
          Some attrtemp \<Rightarrow> map_option (\<lambda>v. d\<lparr>tg_value := v\<rparr>) (assign_ESP_Attribute (tg_value d) attrtemp)
        | None \<Rightarrow> Some d
      else Some d)"

definition execute_write :: "ancestors \<Rightarrow> ESP_Tag \<Rightarrow> ESP_Context \<Rightarrow> outcome" where
  "execute_write an t c = do {
     d \<leftarrow> update_ref (tag_data t) c;
     c' \<leftarrow> addOutputData (at_value (tg_value d)) (at_datasize (tg_value d)) c;
     Some (EXECUTE_RESULT_OK, an, Tag d (subtags t), c') }"

definition execute_close :: "ancestors \<Rightarrow> ESP_Tag \<Rightarrow> ESP_Context \<Rightarrow> outcome" where
  "execute_close an t c = Some (EXECUTE_RESULT_OK, an, t, c\<lparr>cx_close := True\<rparr>)"

definition execute_constraint :: "fp_ops \<Rightarrow> ancestors \<Rightarrow> ESP_Tag \<Rightarrow> ESP_Context \<Rightarrow> outcome" where
  "execute_constraint fp an t c =
     (let d = tag_data t in
      case readPInputData (tg_datasize d) c of
        (True, result, c') \<Rightarrow> do {
          atri_result \<leftarrow> setValue fp (tg_name d) result (tg_datasize d) (tg_datatype d) (tg_datacode d)
            new_ESP_Attribute;
          cmp \<leftarrow> compareValue fp (Some (tg_value d)) (Some atri_result);
          Some (if cmp = 0 then EXECUTE_RESULT_OK else EXECUTE_RESULT_ERROR, an, t, c') }
      | (False, _, c') \<Rightarrow> Some (EXECUTE_RESULT_IDLE, an, t, c'))"

text \<open>The three ways a value finds its bytes: the pointer \<open>result\<close>, \<open>finalsize\<close> and \<open>dataread\<close>,
  where \<open>dataread\<close> of a read is the \<open>bool\<close> it returned, as an \<open>int\<close>.\<close>

definition value_source ::
  "fp_ops \<Rightarrow> string \<Rightarrow> tag_data \<Rightarrow> ESP_Context
     \<Rightarrow> (mem option \<times> int \<times> int \<times> tag_data \<times> ESP_Context) option" where
  "value_source fp nref d c =
     (if tg_valueref d \<noteq> [] then do {
        name \<leftarrow> (if nref \<noteq> []
                 then Option.bind (searchAttributeRefByName (cx_temp c) nref) (getValueAsString fp)
                 else Some (tg_name d));
        let d1 = d\<lparr>tg_name := name\<rparr>;
        case searchAttributeRefByName (cx_temp c) (tg_valueref d) of
          Some v \<Rightarrow>
            if name \<noteq> [] then
              Some (at_value v, at_datasize v, at_datasize v,
                d1\<lparr>tg_datatype := (if tg_datatype d1 = 0 then at_datatype v else tg_datatype d1),
                   tg_datacode := (if tg_datacode d1 = 0 then at_datacode v else tg_datacode d1)\<rparr>, c)
            else Some (None, 0, 0, d1, c)
        | None \<Rightarrow> Some (None, 0, 0, d1, c) }
      else if tg_datacode d = ESP_DataCode_STRINGDELIM then
        let idx = searchAttributeValue (tg_value d) c in
        if idx \<ge> 0 then
          let finalsize = (if at_datasize (tg_value d) = 0 then getAvailableInputData c
                           else getSizeFromIndex idx c);
              (ok, result, c1) = readPInputData finalsize c;
              (_, _, c2) = readPInputData (at_datasize (tg_value d)) c1 in
          Some (result, finalsize, of_bool ok, d, c2)
        else
          let finalsize = getAvailableInputData c;
              (ok, result, c1) = readPInputData finalsize c in
          Some (result, finalsize, of_bool ok, d, c1)
      else
        let finalsize = tg_datasize d;
            (ok, result, c1) = readPInputData finalsize c in
        Some (result, finalsize, of_bool ok, d, c1))"

text \<open>The dollar sign of a name becomes the round of the enclosing loop.\<close>

definition loop_name :: "ancestors \<Rightarrow> string \<Rightarrow> string option" where
  "loop_name an name =
     (if str_find name ''$'' 0 \<noteq> None then
        case an_niter an of
          Some k \<Rightarrow> replaceString name ''$'' (intToString k)
        | None \<Rightarrow> Some name
      else Some name)"

definition execute_value :: "fp_ops \<Rightarrow> string \<Rightarrow> bool \<Rightarrow> ancestors \<Rightarrow> ESP_Tag \<Rightarrow> ESP_Context \<Rightarrow> outcome" where
  "execute_value fp nref rend an t c = do {
     (result, finalsize, dataread, d, c1) \<leftarrow> value_source fp nref (tag_data t) (saveIndex c);
     let c2 = (if rend then restoreIndex c1 else c1);
     if dataread \<ge> 0 then do {
       finalname \<leftarrow> loop_name an (tg_name d);
       atri_result \<leftarrow> setValue fp finalname result finalsize (tg_datatype d) (tg_datacode d) new_ESP_Attribute;
       let old = (case map_find (cx_temp c2) finalname of Some a \<Rightarrow> a | None \<Rightarrow> new_ESP_Attribute);
       stored \<leftarrow> assign_ESP_Attribute old atri_result;
       Some (EXECUTE_RESULT_OK, an, Tag d (subtags t),
             c2\<lparr>cx_temp := map_assign finalname stored (cx_temp c2)\<rparr>) }
     else Some (EXECUTE_RESULT_IDLE, an, Tag d (subtags t), c2) }"

text \<open>Whether the condition holds; otherwise its children are cancelled.\<close>

definition condition_holds :: "fp_ops \<Rightarrow> string \<Rightarrow> tag_data \<Rightarrow> ESP_Context \<Rightarrow> bool option" where
  "condition_holds fp op d c =
     (case searchAttributeRefByName (cx_temp c) (tg_valueref d) of
        Some v \<Rightarrow> do {
          cmp \<leftarrow> compareValue fp (Some v) (Some (tg_value d));
          if (op = [] \<or> op = ''equal'') \<and> cmp = 0 then Some True
          else if op = ''notequal'' \<and> cmp \<noteq> 0 then Some True
          else if op = ''notcontains'' \<or> op = ''contains'' then do {
            s \<leftarrow> getValueAsString fp v;
            pat \<leftarrow> getValueAsString fp (tg_value d);
            Some (if op = ''notcontains'' then str_find s pat 0 = None else str_find s pat 0 \<noteq> None) }
          else Some (op = ''default'') }
      | None \<Rightarrow>
          Some (searchAttributeValueInRange (tg_value d) (tg_byteoffset d) (tg_datasize d) c \<ge> 0))"

definition execute_condition :: "fp_ops \<Rightarrow> string \<Rightarrow> ancestors \<Rightarrow> ESP_Tag \<Rightarrow> ESP_Context \<Rightarrow> outcome" where
  "execute_condition fp op an t c =
     map_option (\<lambda>b. (EXECUTE_RESULT_OK, an, if b then t else setChildrenParsed True True t, c))
       (condition_holds fp op (tag_data t) c)"

definition execute_switch :: "ancestors \<Rightarrow> ESP_Tag \<Rightarrow> ESP_Context \<Rightarrow> outcome" where
  "execute_switch an t c =
     map_option (\<lambda>d. (EXECUTE_RESULT_OK, an, Tag d (subtags t), c)) (update_ref (tag_data t) c)"

definition execute_option :: "fp_ops \<Rightarrow> ancestors \<Rightarrow> ESP_Tag \<Rightarrow> ESP_Context \<Rightarrow> outcome" where
  "execute_option fp an t c =
     (case an_switch an of
        Some (ref, ev) \<Rightarrow> do {
          cmp \<leftarrow> compareValue fp (searchAttributeRefByName (cx_temp c) ref) (Some (tg_value (tag_data t)));
          Some (if (cmp = 0 \<or> at_datasize (tg_value (tag_data t)) = 0) \<and> \<not> ev
                then (EXECUTE_RESULT_OK, an\<lparr>an_switch := Some (ref, True)\<rparr>, t, c)
                else (EXECUTE_RESULT_OK, an, setChildrenParsed True True t, c)) }
      | None \<Rightarrow> Some (EXECUTE_RESULT_ERROR, an, t, c))"

definition execute_loop ::
  "bool \<Rightarrow> int \<Rightarrow> int \<Rightarrow> int \<Rightarrow> ancestors \<Rightarrow> ESP_Tag \<Rightarrow> ESP_Context \<Rightarrow> outcome" where
  "execute_loop b n i k an t c =
     (if i \<noteq> 0 \<and> (\<not> b \<or> getAvailableInputData c > 0) then
        let t1 = tag_reset t;
            i1 = iter (tg_kind (tag_data t1));
            i2 = (if i1 > 0 then i1 - 1 else i1) in
        Some (EXECUTE_RESULT_OK, an,
          Tag ((tag_data t1)\<lparr>tg_repeat := True, tg_kind := Tag_Loop b n i2 (k + 1)\<rparr>) (subtags t1), c)
      else
        Some (EXECUTE_RESULT_OK, an,
          setChildrenParsed True True
            (Tag ((tag_data t)\<lparr>tg_repeat := False, tg_kind := Tag_Loop b n 0 k\<rparr>) (subtags t)), c))"

definition execute_break :: "ancestors \<Rightarrow> ESP_Tag \<Rightarrow> ESP_Context \<Rightarrow> outcome" where
  "execute_break an t c = Some (EXECUTE_RESULT_OK, an\<lparr>an_break := True\<rparr>, t, c)"

definition execute_clear :: "ancestors \<Rightarrow> ESP_Tag \<Rightarrow> ESP_Context \<Rightarrow> outcome" where
  "execute_clear an t c = Some (EXECUTE_RESULT_OK, an, t, c\<lparr>cx_temp := []\<rparr>)"

definition execute_result :: "bool \<Rightarrow> ancestors \<Rightarrow> ESP_Tag \<Rightarrow> ESP_Context \<Rightarrow> outcome" where
  "execute_result nd an t c =
     Some (EXECUTE_RESULT_OK, an, t,
       if \<not> nd \<or> getAvailableInputData c = 0 then snd (addResultData c) else c)"

definition execute :: "fp_ops \<Rightarrow> ancestors \<Rightarrow> ESP_Tag \<Rightarrow> ESP_Context \<Rightarrow> outcome" where
  "execute fp an t c =
     (case tg_kind (tag_data t) of
        Tag_Header \<Rightarrow> Some (EXECUTE_RESULT_OK, an, t, c)
      | Tag_Body \<Rightarrow> Some (EXECUTE_RESULT_OK, an, t, c)
      | Tag_Footer \<Rightarrow> Some (EXECUTE_RESULT_OK, an, t, c)
      | Tag_Read \<Rightarrow> execute_read an t c
      | Tag_Write \<Rightarrow> execute_write an t c
      | Tag_Close \<Rightarrow> execute_close an t c
      | Tag_Constraint \<Rightarrow> execute_constraint fp an t c
      | Tag_Value nref rend \<Rightarrow> execute_value fp nref rend an t c
      | Tag_Condition op \<Rightarrow> execute_condition fp op an t c
      | Tag_Switch _ \<Rightarrow> execute_switch an t c
      | Tag_Option \<Rightarrow> execute_option fp an t c
      | Tag_Loop b n i k \<Rightarrow> execute_loop b n i k an t c
      | Tag_Break \<Rightarrow> execute_break an t c
      | Tag_CompoundValue \<Rightarrow> Some (EXECUTE_RESULT_OK, an, t, c)
      | Tag_Clear \<Rightarrow> execute_clear an t c
      | Tag_Result nd \<Rightarrow> execute_result nd an t c)"

section \<open>The walk over the tree\<close>

text \<open>\<open>run\<close>: \<open>run_next\<close> is the loop \<open>while (getNextTag())\<close> of a tag just executed, \<open>run_children\<close>
  the loop over the children of a tag that is already parsed.\<close>

fun tag_run :: "nat \<Rightarrow> fp_ops \<Rightarrow> ancestors \<Rightarrow> ESP_Tag \<Rightarrow> ESP_Context \<Rightarrow> outcome"
  and run_next :: "nat \<Rightarrow> fp_ops \<Rightarrow> ancestors \<Rightarrow> ESP_Tag \<Rightarrow> ESP_Context \<Rightarrow> outcome"
  and run_children :: "nat \<Rightarrow> fp_ops \<Rightarrow> ancestors \<Rightarrow> exec_result \<Rightarrow> ESP_Tag \<Rightarrow> ESP_Context \<Rightarrow> outcome" where
  "tag_run 0 fp an t c = None"
| "tag_run (Suc n) fp an t c =
     (if \<not> tg_parsed (tag_data t) then do {
        (r, an1, t1, c1) \<leftarrow> execute fp an t c;
        if r = EXECUTE_RESULT_OK then do {
          (r2, an2, t2, c2) \<leftarrow> run_next n fp an1 (Tag ((tag_data t1)\<lparr>tg_parsed := True\<rparr>) (subtags t1)) c1;
          Some (r2, an2, if tg_repeat (tag_data t2) then setChildrenParsed True False t2 else t2, c2) }
        else Some (r, an1, t1, c1) }
      else run_children n fp an EXECUTE_RESULT_OK t c)"
| "run_next 0 fp an t c = None"
| "run_next (Suc n) fp an t c =
     (case getNextTag t of
        None \<Rightarrow> Some (EXECUTE_RESULT_OK, an, t, c)
      | Some _ \<Rightarrow> do {
          (r, an1, t1, c1) \<leftarrow> tag_run n fp an t c;
          if r \<noteq> EXECUTE_RESULT_OK then Some (r, an1, t1, c1) else run_next n fp an1 t1 c1 })"
| "run_children 0 fp an r t c = None"
| "run_children (Suc n) fp an r t c =
     (case getNextTag t of
        None \<Rightarrow> Some (r, an, t, c)
      | Some i \<Rightarrow>
          if r = EXECUTE_RESULT_OK then do {
            (r1, ca, child, c1) \<leftarrow> tag_run n fp (child_ancestors an (tag_data t)) (subtags t ! i) c;
            let d = (tag_data t)\<lparr>tg_kind := absorb_kind ca (tg_kind (tag_data t))\<rparr>;
            run_children n fp (absorb_ancestors ca an (tag_data t)) r1 (Tag d ((subtags t)[i := child])) c1 }
          else Some (r, an, t, c))"

section \<open>Commands\<close>

record ESP_Command =
  cm_index :: nat
  cm_header :: ESP_Tag
  cm_body :: ESP_Tag
  cm_footer :: ESP_Tag

definition command_reset :: "ESP_Command \<Rightarrow> ESP_Command" where
  "command_reset cmd = cmd\<lparr>cm_index := 0, cm_header := tag_reset (cm_header cmd),
     cm_body := tag_reset (cm_body cmd), cm_footer := tag_reset (cm_footer cmd)\<rparr>"

text \<open>The first \<open>switch\<close>: the section that runs, and the flag that a new result returns at once.\<close>

definition command_section ::
  "nat \<Rightarrow> fp_ops \<Rightarrow> ESP_Command \<Rightarrow> ESP_Context \<Rightarrow> (exec_result \<times> bool \<times> ESP_Command \<times> ESP_Context) option" where
  "command_section n fp cmd c =
     (if cm_index cmd = 0 then do {
        (r, _, t, c1) \<leftarrow> tag_run n fp no_ancestors (cm_header cmd) c;
        Some (r, False, cmd\<lparr>cm_header := t\<rparr>, c1) }
      else if cm_index cmd = 1 then do {
        (r, _, t, c1) \<leftarrow> tag_run n fp no_ancestors (cm_body cmd) c;
        if r = EXECUTE_RESULT_OK then do {
          let cmd1 = (if tg_loop (tag_data t) then cmd\<lparr>cm_body := tag_reset t\<rparr>
                      else cmd\<lparr>cm_index := 2, cm_body := t\<rparr>);
          c2 \<leftarrow> validateInputData 0 c1;
          let c3 = snd (addResultData c2);
          Some (r, True, cmd1, c3\<lparr>cx_temp := []\<rparr>) }
        else Some (r, False, cmd\<lparr>cm_body := t\<rparr>, c1) }
      else if cm_index cmd = 2 then do {
        (r, _, t, c1) \<leftarrow> tag_run n fp no_ancestors (cm_footer cmd) c;
        Some (r, False, cmd\<lparr>cm_footer := t\<rparr>, c1) }
      else Some (EXECUTE_RESULT_IDLE, False, cmd, c))"

fun command_run ::
  "nat \<Rightarrow> fp_ops \<Rightarrow> ESP_Command \<Rightarrow> ESP_Context \<Rightarrow> (exec_result \<times> ESP_Command \<times> ESP_Context) option" where
  "command_run 0 fp cmd c = None"
| "command_run (Suc n) fp cmd c = do {
     (r, ret, cmd1, c1) \<leftarrow> command_section n fp cmd c;
     if ret then Some (r, cmd1, c1)
     else case r of
       EXECUTE_RESULT_OK \<Rightarrow> command_run n fp (cmd1\<lparr>cm_index := cm_index cmd1 + 1\<rparr>) c1
     | EXECUTE_RESULT_ERROR \<Rightarrow> do {
         c2 \<leftarrow> validateInputData 1 c1;
         command_run n fp ((command_reset cmd1)\<lparr>cm_index := 1\<rparr>) (c2\<lparr>cx_temp := []\<rparr>) }
     | _ \<Rightarrow> Some (r, cmd1, c1) }"

end
