(* ===== verification/Esp_Run.thy ===== *)
theory Esp_Run
  imports Esp_Parser
begin

text \<open>
  Proofs about the tag machine of \<open>Esp_Parser\<close>: the walk stays inside the input buffer and keeps
  the invariants, loop-free descriptions always come to an end with a defined result, and what
  values, loops and constraints do to a frame.
\<close>

section \<open>Safety\<close>

text \<open>A well-formed tree: the values of the tags satisfy their invariant, and options stand in a
  switch.\<close>

definition is_switch :: "ESP_Tag \<Rightarrow> bool" where
  "is_switch t = (case tg_kind (tag_data t) of Tag_Switch _ \<Rightarrow> True | _ \<Rightarrow> False)"

fun wf_tag :: "bool \<Rightarrow> ESP_Tag \<Rightarrow> bool" where
  "wf_tag sw (Tag d ts) \<longleftrightarrow>
     attribute_ok (tg_value d) \<and> (tg_kind d = Tag_Option \<longrightarrow> sw)
     \<and> (\<forall>t \<in> set ts. wf_tag (is_switch (Tag d [])) t)"

lemma wf_tag_iff:
  "wf_tag sw t \<longleftrightarrow> attribute_ok (tg_value (tag_data t)) \<and> (tg_kind (tag_data t) = Tag_Option \<longrightarrow> sw)
     \<and> (\<forall>u \<in> set (subtags t). wf_tag (is_switch t) u)"
  by (cases t) (simp add: is_switch_def)

lemma is_switch_cong: "tg_kind (tag_data t) = tg_kind (tag_data u) \<Longrightarrow> is_switch t = is_switch u"
  by (simp add: is_switch_def)

lemma reset_kind_shape [simp]:
  "reset_kind k = Tag_Option \<longleftrightarrow> k = Tag_Option"
  "(case reset_kind k of Tag_Switch _ \<Rightarrow> True | _ \<Rightarrow> False) = (case k of Tag_Switch _ \<Rightarrow> True | _ \<Rightarrow> False)"
  by (cases k; simp add: reset_kind_def)+

lemma absorb_kind_shape [simp]:
  "absorb_kind ca k = Tag_Option \<longleftrightarrow> k = Tag_Option"
  "(case absorb_kind ca k of Tag_Switch _ \<Rightarrow> True | _ \<Rightarrow> False) = (case k of Tag_Switch _ \<Rightarrow> True | _ \<Rightarrow> False)"
  by (cases k; simp add: absorb_kind_def split: option.split)+

lemma wf_reset [simp]: "wf_tag sw (tag_reset t) = wf_tag sw t"
  by (induction t arbitrary: sw) (auto simp: is_switch_def)

lemma wf_setAllParsed [simp]: "wf_tag sw (setAllParsed b t) = wf_tag sw t"
  by (induction t arbitrary: sw) (auto simp: is_switch_def)

lemma is_switch_setChildrenParsed [simp]: "is_switch (setChildrenParsed p b t) = is_switch t"
  by (simp add: setChildrenParsed_def is_switch_def)

lemma wf_setChildrenParsed [simp]: "wf_tag sw (setChildrenParsed p b t) = wf_tag sw t"
  by (subst (1 2) wf_tag_iff) (auto simp: setChildrenParsed_def is_switch_def)

lemma is_switch_reset [simp]: "is_switch (tag_reset t) = is_switch t"
  by (cases t) (simp add: is_switch_def)

declare wf_tag.simps [simp del]

text \<open>What every outcome keeps.  An error always consumed input, so that the command can drop a byte.\<close>

definition in_switch :: "ancestors \<Rightarrow> bool" where
  "in_switch an \<longleftrightarrow> an_switch an \<noteq> None"

definition safe_outcome :: "ancestors \<Rightarrow> ESP_Tag \<Rightarrow> ESP_Context \<Rightarrow> outcome \<Rightarrow> bool" where
  "safe_outcome an t c out \<longleftrightarrow>
     (\<forall>r an' t' c'. out = Some (r, an', t', c') \<longrightarrow>
        context_ok c' \<and> cx_input c' = cx_input c \<and> wf_tag (in_switch an) t'
        \<and> is_switch t' = is_switch t \<and> in_switch an' = in_switch an
        \<and> (r = EXECUTE_RESULT_ERROR \<longrightarrow> cx_input c \<noteq> []))"

lemma safe_outcomeI:
  assumes "\<And>r an' t' c'. out = Some (r, an', t', c') \<Longrightarrow>
        context_ok c' \<and> cx_input c' = cx_input c \<and> wf_tag (in_switch an) t'
        \<and> is_switch t' = is_switch t \<and> in_switch an' = in_switch an
        \<and> (r = EXECUTE_RESULT_ERROR \<longrightarrow> cx_input c \<noteq> [])"
  shows "safe_outcome an t c out"
  unfolding safe_outcome_def using assms by blast

lemma safe_outcome_Some:
  "safe_outcome an t c (Some (r, an', t', c')) \<longleftrightarrow>
     context_ok c' \<and> cx_input c' = cx_input c \<and> wf_tag (in_switch an) t'
        \<and> is_switch t' = is_switch t \<and> in_switch an' = in_switch an
        \<and> (r = EXECUTE_RESULT_ERROR \<longrightarrow> cx_input c \<noteq> [])"
  by (simp add: safe_outcome_def)

lemma safe_outcome_None [simp]: "safe_outcome an t c None"
  by (simp add: safe_outcome_def)

lemma update_ref_wf:
  assumes "update_ref d c = Some d'" "context_ok c" "attribute_ok (tg_value d)"
  shows "attribute_ok (tg_value d')" "tg_kind d' = tg_kind d"
proof -
  have "attribute_ok v'" if "searchAttributeRefByName (cx_temp c) k = Some v"
    "assign_ESP_Attribute this v = Some v'" for k v v' this
    using that assms(2) attributes_ok_find [of "cx_temp c" k v] assign_ok [of v this] copied_ok [of v v']
    by (simp add: searchAttributeRefByName_def context_ok_def)
  then show "attribute_ok (tg_value d')" "tg_kind d' = tg_kind d"
    using assms(1,3) by (auto simp: update_ref_def split: if_splits option.splits)
qed

lemma read_frame [simp]:
  "cx_input (snd (snd (readPInputData n c))) = cx_input c"
  "cx_temp (snd (snd (readPInputData n c))) = cx_temp c"
  "cx_index_end_saved (snd (snd (readPInputData n c))) = cx_index_end_saved c"
  by (simp_all add: readPInputData_def)

lemma read_context_ok [simp]: "context_ok c \<Longrightarrow> context_ok (snd (snd (readPInputData n c)))"
  by (metis prod.collapse readPInputData_ok)

lemma value_source_ok:
  assumes "value_source fp nref d c = Some (p, n, m, d', c')" "context_ok c"
  shows "context_ok c'" "cx_input c' = cx_input c" "tg_value d' = tg_value d" "tg_kind d' = tg_kind d"
    "cx_temp c' = cx_temp c" "cx_index_end_saved c' = cx_index_end_saved c" "0 \<le> m"
proof -
  have size: "0 \<le> at_datasize v" if "map_find (cx_temp c) k = Some v" for k v
    using attributes_ok_find [OF _ that] assms(2)
    by (auto simp: context_ok_def attribute_ok_def split: option.splits)
  have "context_ok c' \<and> cx_input c' = cx_input c \<and> tg_value d' = tg_value d \<and> tg_kind d' = tg_kind d
    \<and> cx_temp c' = cx_temp c \<and> cx_index_end_saved c' = cx_index_end_saved c \<and> 0 \<le> m"
  proof (cases "tg_valueref d = []")
    case True
    then show ?thesis
      using assms
      by (auto simp: value_source_def Let_def split_beta split: if_splits)
  next
    case False
    then show ?thesis
      using assms size
      by (auto simp: value_source_def Let_def searchAttributeRefByName_def
          split: if_splits option.splits Option.bind_splits)
  qed
  then show "context_ok c'" "cx_input c' = cx_input c" "tg_value d' = tg_value d" "tg_kind d' = tg_kind d"
    "cx_temp c' = cx_temp c" "cx_index_end_saved c' = cx_index_end_saved c" "0 \<le> m"
    by simp_all
qed

lemma context_ok_updates [simp]:
  "context_ok (c\<lparr>cx_temp := m\<rparr>) \<longleftrightarrow> cx_index_start c = 0 \<and> 0 \<le> cx_index_end c
     \<and> cx_index_end c \<le> getInputSize c \<and> attributes_ok m"
  "context_ok (c\<lparr>cx_close := b\<rparr>) = context_ok c"
  "context_ok (saveIndex c) = context_ok c"
  by (simp_all add: context_ok_def getInputSize_def saveIndex_def)

lemma attributes_ok_Nil [simp]: "attributes_ok []"
  by (simp add: attributes_ok_def)

lemma execute_read_safe: "context_ok c \<Longrightarrow> wf_tag (in_switch an) t \<Longrightarrow> safe_outcome an t c (execute_read an t c)"
  by (simp add: execute_read_def safe_outcome_Some split_beta)

lemma wf_value: "wf_tag sw t \<Longrightarrow> attribute_ok (tg_value (tag_data t))"
  using wf_tag_iff by blast

lemma wf_tag_update:
  assumes "wf_tag sw t" "attribute_ok (tg_value d)" "tg_kind d = tg_kind (tag_data t)"
  shows "wf_tag sw (Tag d (subtags t))" "is_switch (Tag d (subtags t)) = is_switch t"
  using assms by (auto simp: wf_tag_iff [of _ t] wf_tag.simps is_switch_def)

lemma execute_write_safe:
  assumes "context_ok c" "wf_tag (in_switch an) t"
  shows "safe_outcome an t c (execute_write an t c)"
proof (rule safe_outcomeI)
  fix r an' t' c'
  assume "execute_write an t c = Some (r, an', t', c')"
  then obtain d where d: "update_ref (tag_data t) c = Some d" "r = EXECUTE_RESULT_OK" "an' = an"
    "addOutputData (at_value (tg_value d)) (at_datasize (tg_value d)) c = Some c'" "t' = Tag d (subtags t)"
    by (auto simp: execute_write_def bind_eq_Some_conv)
  have "cx_input c' = cx_input c"
    using d(4) by (auto simp: addOutputData_def split: if_splits option.splits)
  then show "context_ok c' \<and> cx_input c' = cx_input c \<and> wf_tag (in_switch an) t'
        \<and> is_switch t' = is_switch t \<and> in_switch an' = in_switch an
        \<and> (r = EXECUTE_RESULT_ERROR \<longrightarrow> cx_input c \<noteq> [])"
    using d addOutputData_ok [OF assms(1) d(4)] update_ref_wf [OF d(1) assms(1) wf_value [OF assms(2)]]
      wf_tag_update [OF assms(2)] by simp
qed

lemma execute_switch_safe:
  assumes "context_ok c" "wf_tag (in_switch an) t"
  shows "safe_outcome an t c (execute_switch an t c)"
proof (cases "update_ref (tag_data t) c")
  case None
  then show ?thesis by (simp add: execute_switch_def)
next
  case (Some d)
  then show ?thesis
    using assms(1) update_ref_wf [OF Some assms(1) wf_value [OF assms(2)]] wf_tag_update [OF assms(2)]
    by (simp add: execute_switch_def safe_outcome_Some)
qed

lemma read_consumes:
  "fst (readPInputData n c) \<Longrightarrow> context_ok c \<Longrightarrow> cx_input c \<noteq> []"
  by (auto simp: readPInputData_def inputDataIsAvailable_def getAvailableInputData_def getInputSize_def
      context_ok_def split: if_splits)

lemma execute_constraint_safe:
  assumes "context_ok c" "wf_tag (in_switch an) t"
  shows "safe_outcome an t c (execute_constraint fp an t c)"
proof -
  let ?n = "tg_datasize (tag_data t)"
  obtain ok p c' where r: "readPInputData ?n c = (ok, p, c')"
    by (metis prod.collapse)
  then have c': "context_ok c'" "cx_input c' = cx_input c"
    using read_context_ok [OF assms(1), of ?n] read_frame(1) [of ?n c] by simp_all
  have "ok \<Longrightarrow> cx_input c \<noteq> []" using read_consumes [of ?n c] r assms(1) by simp
  then show ?thesis using r c' assms(2)
    by (cases ok) (auto simp: execute_constraint_def safe_outcome_def bind_eq_Some_conv Let_def)
qed

lemma stored_ok:
  assumes "setValue fp k p n ty co new_ESP_Attribute = Some a" "assign_ESP_Attribute old a = Some stored"
  shows "attribute_ok stored"
  using setValue_ok [OF new_attribute_ok assms(1)] assms(2) assign_ok copied_ok by metis

lemma execute_value_safe:
  assumes "context_ok c" "wf_tag (in_switch an) t"
  shows "safe_outcome an t c (execute_value fp nref rend an t c)"
proof (cases "value_source fp nref (tag_data t) (saveIndex c)")
  case None
  then show ?thesis by (simp add: execute_value_def)
next
  case (Some x)
  then obtain p n m d c1 where src: "value_source fp nref (tag_data t) (saveIndex c) = Some (p, n, m, d, c1)"
    by (cases x) auto
  have sc: "context_ok (saveIndex c)" using assms(1) by simp
  note vs = value_source_ok [OF src sc]
  have d: "wf_tag (in_switch an) (Tag d (subtags t))" "is_switch (Tag d (subtags t)) = is_switch t"
    using wf_tag_update [OF assms(2), of d] vs(3,4) wf_value [OF assms(2)] by simp_all
  define c2 where "c2 = (if rend then restoreIndex c1 else c1)"
  have c2: "context_ok c2" "cx_input c2 = cx_input c"
    using vs assms(1) by (auto simp: c2_def restoreIndex_def saveIndex_def context_ok_def getInputSize_def)
  show ?thesis
  proof (rule safe_outcomeI)
    fix r an' t' c'
    assume "execute_value fp nref rend an t c = Some (r, an', t', c')"
    then obtain k a stored old where st: "setValue fp k p n (tg_datatype d) (tg_datacode d) new_ESP_Attribute = Some a"
      "assign_ESP_Attribute old a = Some stored" "r = EXECUTE_RESULT_OK" "an' = an" "t' = Tag d (subtags t)"
      "c' = c2\<lparr>cx_temp := map_assign k stored (cx_temp c2)\<rparr>"
      using src vs(7) by (auto simp: execute_value_def bind_eq_Some_conv Let_def c2_def)
    have "context_ok c'"
      using st(6) c2(1) attributes_ok_assign [OF _ stored_ok [OF st(1,2)]] by (simp add: context_ok_def getInputSize_def)
    then show "context_ok c' \<and> cx_input c' = cx_input c \<and> wf_tag (in_switch an) t'
        \<and> is_switch t' = is_switch t \<and> in_switch an' = in_switch an
        \<and> (r = EXECUTE_RESULT_ERROR \<longrightarrow> cx_input c \<noteq> [])"
      using st d c2(2) by simp
  qed
qed

lemma execute_condition_safe:
  "context_ok c \<Longrightarrow> wf_tag (in_switch an) t \<Longrightarrow> safe_outcome an t c (execute_condition fp op an t c)"
  by (auto simp: execute_condition_def safe_outcome_def)

lemma execute_option_safe:
  assumes "context_ok c" "wf_tag (in_switch an) t" "tg_kind (tag_data t) = Tag_Option"
  shows "safe_outcome an t c (execute_option fp an t c)"
proof -
  have "in_switch an" using assms(2,3) wf_tag_iff by blast
  then obtain ref ev where sw: "an_switch an = Some (ref, ev)" by (auto simp: in_switch_def)
  show ?thesis
    using assms(1,2) sw
    by (cases "compareValue fp (searchAttributeRefByName (cx_temp c) ref) (Some (tg_value (tag_data t)))")
       (simp_all add: execute_option_def safe_outcome_Some in_switch_def)
qed

lemma wf_loop:
  assumes "wf_tag sw t" "tg_kind (tag_data t) = Tag_Loop b n i k"
  shows "wf_tag sw (Tag ((tag_data t)\<lparr>tg_repeat := q, tg_kind := Tag_Loop b' n' i' k'\<rparr>) (subtags t))"
    "\<not> is_switch (Tag ((tag_data t)\<lparr>tg_repeat := q, tg_kind := Tag_Loop b' n' i' k'\<rparr>) (subtags t))"
  using assms by (auto simp: wf_tag_iff [of _ t] wf_tag.simps is_switch_def)

lemma execute_loop_safe:
  assumes "context_ok c" "wf_tag (in_switch an) t" "tg_kind (tag_data t) = Tag_Loop b n i k"
  shows "safe_outcome an t c (execute_loop b n i k an t c)"
proof -
  have "tg_kind (tag_data (tag_reset t)) = Tag_Loop b n n 0"
    using assms(3) by (cases t) (simp add: reset_kind_def)
  then show ?thesis
    using assms wf_loop [OF assms(2,3)] wf_loop [of "in_switch an" "tag_reset t" b n n 0]
    by (simp add: execute_loop_def safe_outcome_Some Let_def is_switch_def [of t])
qed

lemma execute_safe:
  assumes "context_ok c" "wf_tag (in_switch an) t"
  shows "safe_outcome an t c (execute fp an t c)"
proof (cases "tg_kind (tag_data t)")
  case (Tag_Result nd)
  then show ?thesis
    using assms addResultData_ok [OF assms(1)]
    by (simp add: execute_def execute_result_def safe_outcome_Some addResultData_def Let_def)
next
  case Tag_Clear
  then show ?thesis using assms
    by (simp add: execute_def execute_clear_def safe_outcome_Some) (simp add: context_ok_def)
qed (use assms in \<open>simp_all add: execute_def execute_read_safe execute_write_safe execute_switch_safe
    execute_constraint_safe execute_value_safe execute_condition_safe execute_option_safe execute_loop_safe\<close>,
  simp_all add: execute_close_def execute_break_def safe_outcome_Some in_switch_def)

lemma first_unparsed_Some: "first_unparsed ts = Some i \<Longrightarrow> i < length ts \<and> \<not> tg_parsed (tag_data (ts ! i))"
  by (induction ts arbitrary: i) (auto split: if_splits)

lemma in_switch_child [simp]: "in_switch (child_ancestors an (tag_data t)) = is_switch t"
  by (auto simp: in_switch_def child_ancestors_def is_switch_def split: tag_kind.splits)

lemma in_switch_absorb [simp]: "in_switch (absorb_ancestors ca an d) = in_switch an"
  by (simp add: in_switch_def absorb_ancestors_def)

lemma wf_child_update:
  assumes "wf_tag sw t" "wf_tag (is_switch t) u" "i < length (subtags t)"
  shows "wf_tag sw (Tag ((tag_data t)\<lparr>tg_kind := absorb_kind ca (tg_kind (tag_data t))\<rparr>) ((subtags t)[i := u]))"
    "is_switch (Tag ((tag_data t)\<lparr>tg_kind := absorb_kind ca (tg_kind (tag_data t))\<rparr>) ((subtags t)[i := u])) = is_switch t"
  using assms by (auto simp: wf_tag_iff [of _ t] wf_tag.simps is_switch_def dest!: subsetD [OF set_update_subset_insert])

lemma wf_parsed:
  "wf_tag sw (Tag ((tag_data t)\<lparr>tg_parsed := b\<rparr>) (subtags t)) = wf_tag sw t"
  "is_switch (Tag ((tag_data t)\<lparr>tg_parsed := b\<rparr>) (subtags t)) = is_switch t"
  by (auto simp: wf_tag_iff [of _ t] wf_tag.simps is_switch_def)

lemma safe_outcome_cong:
  assumes "cx_input c1 = cx_input c" "is_switch t1 = is_switch t" "in_switch an1 = in_switch an"
  shows "safe_outcome an1 t1 c1 out = safe_outcome an t c out"
  unfolding safe_outcome_def assms ..

lemma safe_outcome_trans:
  assumes "safe_outcome an t c (Some (r, an1, t1, c1))" "safe_outcome an1 t1' c1 out"
    "is_switch t1' = is_switch t1"
  shows "safe_outcome an t c out"
  using assms(2) safe_outcome_cong [of c1 c t1' t an1 an out] assms(1,3) unfolding safe_outcome_Some by blast

lemma option_prod_cases:
  obtains "x = None" | r an t c where "x = Some (r, an, t, c)"
  by (cases x) auto

lemma run_safe:
  "context_ok c \<Longrightarrow> wf_tag (in_switch an) t \<Longrightarrow> safe_outcome an t c (tag_run n fp an t c)"
  "context_ok c \<Longrightarrow> wf_tag (in_switch an) t \<Longrightarrow> safe_outcome an t c (run_next n fp an t c)"
  "context_ok c \<Longrightarrow> wf_tag (in_switch an) t \<Longrightarrow> r \<noteq> EXECUTE_RESULT_ERROR \<or> cx_input c \<noteq> [] \<Longrightarrow>
     safe_outcome an t c (run_children n fp an r t c)"
proof (induction n fp an t c and n fp an t c and n fp an r t c rule: tag_run_run_next_run_children.induct)
  case (2 n fp an t c)
  show ?case
  proof (cases "tg_parsed (tag_data t)")
    case True
    then show ?thesis using 2 by simp
  next
    case False
    have ex: "safe_outcome an t c (execute fp an t c)" using execute_safe 2 by blast
    show ?thesis
    proof (cases "execute fp an t c")
      case (Some x)
      then obtain r1 an1 t1 c1 where e: "execute fp an t c = Some (r1, an1, t1, c1)" by (cases x) auto
      let ?t2 = "Tag ((tag_data t1)\<lparr>tg_parsed := True\<rparr>) (subtags t1)"
      show ?thesis
      proof (cases "r1 = EXECUTE_RESULT_OK")
        case ok: True
        have s: "safe_outcome an1 ?t2 c1 (run_next n fp an1 ?t2 c1)"
          using 2(1) [OF _ e refl refl refl ok] False ex e by (simp add: safe_outcome_Some wf_parsed)
        have "safe_outcome an t c (run_next n fp an1 ?t2 c1)"
          using safe_outcome_trans [of an t c r1 an1 t1 c1 ?t2] ex e ok s wf_parsed(2) by simp
        then show ?thesis
          using e ok False
          by (cases "run_next n fp an1 ?t2 c1" rule: option_prod_cases)
             (simp_all add: safe_outcome_Some)
      next
        case False
        then show ?thesis using e ex \<open>\<not> tg_parsed (tag_data t)\<close> by simp
      qed
    qed (use False in simp)
  qed
next
  case (4 n fp an t c)
  show ?case
  proof (cases "getNextTag t")
    case None
    then show ?thesis using 4 by (simp add: safe_outcome_Some)
  next
    case (Some i)
    have tr: "safe_outcome an t c (tag_run n fp an t c)" using 4(1) [OF Some] 4 by blast
    show ?thesis
    proof (cases "tag_run n fp an t c")
      case Some2: (Some x)
      then obtain r1 an1 t1 c1 where e: "tag_run n fp an t c = Some (r1, an1, t1, c1)" by (cases x) auto
      show ?thesis
      proof (cases "r1 = EXECUTE_RESULT_OK")
        case ok: True
        have "safe_outcome an1 t1 c1 (run_next n fp an1 t1 c1)"
          using 4(2) [OF Some e refl refl refl] ok tr e by (simp add: safe_outcome_Some)
        then show ?thesis
          using safe_outcome_trans [of an t c r1 an1 t1 c1 t1] tr e ok Some by simp
      qed (use Some e tr in simp)
    qed (use Some in simp)
  qed
next
  case (6 n fp an r t c)
  show ?case
  proof (cases "getNextTag t")
    case None
    then show ?thesis using 6 by (auto simp: safe_outcome_Some)
  next
    case (Some i)
    show ?thesis
    proof (cases "r = EXECUTE_RESULT_OK")
      case ok: True
      let ?ca = "child_ancestors an (tag_data t)" and ?u = "subtags t ! i"
      have i: "i < length (subtags t)" using first_unparsed_Some Some by (simp add: getNextTag_def)
      then have "wf_tag (is_switch t) ?u" using 6(4) wf_tag_iff [of _ t] by (metis nth_mem)
      then have tr: "safe_outcome ?ca ?u c (tag_run n fp ?ca ?u c)"
        using 6(1) [OF Some ok] 6(3) by simp
      show ?thesis
      proof (cases "tag_run n fp ?ca ?u c")
        case Some2: (Some x)
        then obtain r1 ca child c1 where e: "tag_run n fp ?ca ?u c = Some (r1, ca, child, c1)" by (cases x) auto
        let ?t' = "Tag ((tag_data t)\<lparr>tg_kind := absorb_kind ca (tg_kind (tag_data t))\<rparr>) ((subtags t)[i := child])"
        have ch: "context_ok c1" "cx_input c1 = cx_input c" "wf_tag (is_switch t) child"
          "r1 = EXECUTE_RESULT_ERROR \<longrightarrow> cx_input c \<noteq> []"
          using tr by (auto simp: e safe_outcome_Some)
        note w = wf_child_update [OF 6(4) ch(3) i, of ca]
        have "safe_outcome (absorb_ancestors ca an (tag_data t)) ?t' c1
           (run_children n fp (absorb_ancestors ca an (tag_data t)) r1 ?t' c1)"
          by (rule 6(2) [OF Some ok e refl refl refl refl]) (simp_all add: ch w)
        then have "safe_outcome an t c (run_children n fp (absorb_ancestors ca an (tag_data t)) r1 ?t' c1)"
          using safe_outcome_cong [OF ch(2) w(2) in_switch_absorb] by blast
        then show ?thesis using Some ok e by (simp add: Let_def)
      qed (use Some ok in simp)
    qed (use Some 6 in \<open>auto simp: safe_outcome_Some\<close>)
  qed
qed simp_all

subsection \<open>Commands\<close>

definition command_ok :: "ESP_Command \<Rightarrow> bool" where
  "command_ok cmd \<longleftrightarrow>
     wf_tag False (cm_header cmd) \<and> wf_tag False (cm_body cmd) \<and> wf_tag False (cm_footer cmd)"

lemma in_switch_none [simp]: "\<not> in_switch no_ancestors"
  by (simp add: in_switch_def no_ancestors_def)

lemma tag_run_ok:
  assumes "tag_run n fp no_ancestors t c = Some (r, an', t', c')" "context_ok c" "wf_tag False t"
  shows "context_ok c'" "cx_input c' = cx_input c" "wf_tag False t'"
    "r = EXECUTE_RESULT_ERROR \<Longrightarrow> cx_input c \<noteq> []"
  using run_safe(1) [of c no_ancestors t n fp] assms by (auto simp: safe_outcome_Some)

lemma validate_drop:
  "validateInputData n c = Some c' \<Longrightarrow> \<exists>k. cx_input c' = drop k (cx_input c)"
  by (auto simp: validateInputData_def Let_def split: if_splits)

lemma command_section_ok:
  assumes "command_section n fp cmd c = Some (r, ret, cmd', c')" "context_ok c" "command_ok cmd"
  shows "context_ok c' \<and> command_ok cmd' \<and> (\<exists>k. cx_input c' = drop k (cx_input c))
    \<and> (\<not> ret \<longrightarrow> cx_input c' = cx_input c) \<and> (ret \<longrightarrow> r = EXECUTE_RESULT_OK)
    \<and> (r = EXECUTE_RESULT_ERROR \<longrightarrow> cx_input c' \<noteq> [])"
proof -
  consider "cm_index cmd = 0" | "cm_index cmd = 1" | "cm_index cmd = 2" | "2 < cm_index cmd" by linarith
  then show ?thesis
  proof cases
    case 1
    then obtain an t where t: "tag_run n fp no_ancestors (cm_header cmd) c = Some (r, an, t, c')"
      "cmd' = cmd\<lparr>cm_header := t\<rparr>" "\<not> ret"
      using assms(1) by (auto simp: command_section_def bind_eq_Some_conv)
    then show ?thesis
      using tag_run_ok [OF t(1) assms(2)] assms(3) by (auto simp: command_ok_def intro: exI [of _ 0])
  next
    case 2
    then obtain an t c1 where t: "tag_run n fp no_ancestors (cm_body cmd) c = Some (r, an, t, c1)"
      and rest: "if r = EXECUTE_RESULT_OK then
        \<exists>c2. validateInputData 0 c1 = Some c2 \<and> ret \<and> c' = (snd (addResultData c2))\<lparr>cx_temp := []\<rparr>
          \<and> cmd' = (if tg_loop (tag_data t) then cmd\<lparr>cm_body := tag_reset t\<rparr> else cmd\<lparr>cm_index := 2, cm_body := t\<rparr>)
       else \<not> ret \<and> cmd' = cmd\<lparr>cm_body := t\<rparr> \<and> c' = c1"
      using assms(1) by (auto simp: command_section_def bind_eq_Some_conv Let_def split: if_splits)
    have b: "context_ok c1" "cx_input c1 = cx_input c" "wf_tag False t" "r = EXECUTE_RESULT_ERROR \<Longrightarrow> cx_input c \<noteq> []"
      using tag_run_ok [OF t assms(2)] assms(3) by (auto simp: command_ok_def)
    show ?thesis
    proof (cases "r = EXECUTE_RESULT_OK")
      case True
      then obtain c2 where c2: "validateInputData 0 c1 = Some c2" "ret" "c' = (snd (addResultData c2))\<lparr>cx_temp := []\<rparr>"
        "cmd' = (if tg_loop (tag_data t) then cmd\<lparr>cm_body := tag_reset t\<rparr> else cmd\<lparr>cm_index := 2, cm_body := t\<rparr>)"
        using rest by auto
      have "context_ok (snd (addResultData c2))"
        using addResultData_ok validateInputData_ok [OF b(1) c2(1)] by blast
      then have "context_ok c'" using c2(3) by (simp add: context_ok_def getInputSize_def)
      moreover have "cx_input c' = cx_input c2"
        using c2(3) by (simp add: addResultData_def Let_def)
      ultimately show ?thesis
        using validate_drop [OF c2(1)] b c2 True assms(3) by (auto simp: command_ok_def)
    next
      case False
      then show ?thesis using rest b assms(3) by (auto simp: command_ok_def intro: exI [of _ 0])
    qed
  next
    case 3
    then obtain an t where t: "tag_run n fp no_ancestors (cm_footer cmd) c = Some (r, an, t, c')"
      "cmd' = cmd\<lparr>cm_footer := t\<rparr>" "\<not> ret"
      using assms(1) by (auto simp: command_section_def bind_eq_Some_conv)
    then show ?thesis
      using tag_run_ok [OF t(1) assms(2)] assms(3) by (auto simp: command_ok_def intro: exI [of _ 0])
  next
    case 4
    then show ?thesis using assms by (auto simp: command_section_def intro: exI [of _ 0])
  qed
qed

lemma command_run_safe:
  "command_run n fp cmd c = Some (r, cmd', c') \<Longrightarrow> context_ok c \<Longrightarrow> command_ok cmd \<Longrightarrow>
     context_ok c' \<and> command_ok cmd' \<and> (\<exists>k. cx_input c' = drop k (cx_input c)) \<and> r \<noteq> EXECUTE_RESULT_ERROR"
proof (induction n arbitrary: cmd c)
  case (Suc n)
  then obtain r1 ret cmd1 c1 where s: "command_section n fp cmd c = Some (r1, ret, cmd1, c1)"
    and run: "(if ret then Some (r1, cmd1, c1)
     else case r1 of
       EXECUTE_RESULT_OK \<Rightarrow> command_run n fp (cmd1\<lparr>cm_index := cm_index cmd1 + 1\<rparr>) c1
     | EXECUTE_RESULT_ERROR \<Rightarrow> do {
         c2 \<leftarrow> validateInputData 1 c1;
         command_run n fp ((command_reset cmd1)\<lparr>cm_index := 1\<rparr>) (c2\<lparr>cx_temp := []\<rparr>) }
     | _ \<Rightarrow> Some (r1, cmd1, c1)) = Some (r, cmd', c')"
    by (auto simp: bind_eq_Some_conv)
  note sec = command_section_ok [OF s Suc.prems(2,3)]
  then obtain k where k: "cx_input c1 = drop k (cx_input c)" by blast
  show ?case
  proof (cases ret)
    case True
    then show ?thesis using run sec by auto
  next
    case False
    show ?thesis
    proof (cases r1)
      case EXECUTE_RESULT_ERROR
      then obtain c2 where c2: "validateInputData 1 c1 = Some c2"
        "command_run n fp ((command_reset cmd1)\<lparr>cm_index := 1\<rparr>) (c2\<lparr>cx_temp := []\<rparr>) = Some (r, cmd', c')"
        using run False by (auto simp: bind_eq_Some_conv)
      have "context_ok c2" using validateInputData_ok [OF _ c2(1)] sec by blast
      then have ctx: "context_ok (c2\<lparr>cx_temp := []\<rparr>)" by (simp add: context_ok_def getInputSize_def)
      have cmd: "command_ok ((command_reset cmd1)\<lparr>cm_index := 1\<rparr>)"
        using sec by (simp add: command_ok_def command_reset_def)
      obtain j where "cx_input c2 = drop j (cx_input c1)" using validate_drop [OF c2(1)] by blast
      moreover obtain j' where "cx_input c' = drop j' (cx_input (c2\<lparr>cx_temp := []\<rparr>))"
        using Suc.IH [OF c2(2) ctx cmd] by blast
      ultimately have "cx_input c' = drop (j' + j + k) (cx_input c)"
        using k by (simp add: add.assoc)
      then show ?thesis using Suc.IH [OF c2(2) ctx cmd] by blast
    next
      case EXECUTE_RESULT_OK
      then have rec: "command_run n fp (cmd1\<lparr>cm_index := cm_index cmd1 + 1\<rparr>) c1 = Some (r, cmd', c')"
        using run False by simp
      have cmd: "command_ok (cmd1\<lparr>cm_index := cm_index cmd1 + 1\<rparr>)" using sec by (simp add: command_ok_def)
      show ?thesis using Suc.IH [OF rec _ cmd] sec k by (metis drop_drop)
    qed (use run False sec in \<open>auto intro: exI [of _ 0]\<close>)
  qed
qed simp

section \<open>Termination\<close>

text \<open>Loop-free descriptions whose values are not textual \<open>long\<close>s and do not refer to other values.\<close>

definition is_value :: "tag_data \<Rightarrow> bool" where
  "is_value d = (case tg_kind d of Tag_Value _ _ \<Rightarrow> True | _ \<Rightarrow> False)"

definition total_data :: "tag_data \<Rightarrow> bool" where
  "total_data d \<longleftrightarrow> \<not> is_loop d \<and> \<not> tg_repeat d
     \<and> \<not> (tg_datatype d = ESP_DataType_LONG \<and> text_code (tg_datacode d))
     \<and> (is_value d \<longrightarrow> tg_valueref d = [])"

fun total_tag :: "ESP_Tag \<Rightarrow> bool" where
  "total_tag (Tag d ts) \<longleftrightarrow> total_data d \<and> (\<forall>t \<in> set ts. total_tag t)"

lemma total_tag_iff: "total_tag t \<longleftrightarrow> total_data (tag_data t) \<and> (\<forall>u \<in> set (subtags t). total_tag u)"
  by (cases t) simp

lemma total_data_of: "total_tag t \<Longrightarrow> total_data (tag_data t)"
  by (cases t) simp

fun fuel_tag :: "ESP_Tag \<Rightarrow> nat" where
  "fuel_tag (Tag d ts) = length ts + 4 + sum_list (map fuel_tag ts)"

lemma fuel_tag_eq: "fuel_tag t = length (subtags t) + 4 + sum_list (map fuel_tag (subtags t))"
  by (cases t) simp

lemma total_setAllParsed [simp]: "total_tag (setAllParsed b t) = total_tag t"
  by (induction t) (auto simp: total_data_def is_loop_def is_value_def)

lemma fuel_setAllParsed [simp]: "fuel_tag (setAllParsed b t) = fuel_tag t"
  by (induction t) (simp add: comp_def cong: map_cong)

lemma total_setChildrenParsed [simp]: "total_tag (setChildrenParsed p b t) = total_tag t"
  by (subst (1 2) total_tag_iff) (auto simp: setChildrenParsed_def total_data_def is_loop_def is_value_def)

lemma fuel_setChildrenParsed [simp]: "fuel_tag (setChildrenParsed p b t) = fuel_tag t"
  by (subst (1 2) fuel_tag_eq) (simp add: setChildrenParsed_def comp_def)

lemma total_reset [simp]: "total_tag t \<Longrightarrow> total_tag (tag_reset t)"
proof (induction t)
  case (Tag d ts)
  have "is_loop (d\<lparr>tg_kind := reset_kind (tg_kind d)\<rparr>) = is_loop d"
    "is_value (d\<lparr>tg_kind := reset_kind (tg_kind d)\<rparr>) = is_value d"
    by (cases "tg_kind d"; simp add: is_loop_def is_value_def reset_kind_def)+
  then show ?case using Tag by (auto simp: total_data_def is_loop_def is_value_def)
qed

lemma fuel_reset [simp]: "fuel_tag (tag_reset t) = fuel_tag t"
  by (induction t) (simp add: comp_def cong: map_cong)

lemma number_getters_defined:
  "attribute_ok a \<Longrightarrow> at_datatype a = 1 \<or> at_datatype a = 2 \<Longrightarrow>
     (\<exists>i. getIntValue a = Some i) \<and> (\<exists>x. getFloatValue a = Some x)"
  "attribute_ok a \<Longrightarrow> at_datatype a = 3 \<or> at_datatype a = 4 \<Longrightarrow>
     (\<exists>i. getLongValue a = Some i) \<and> (\<exists>x. getDoubleValue a = Some x)"
  by (cases "at_value a"; auto simp: attribute_ok_def getIntValue_def getFloatValue_def getLongValue_def
      getDoubleValue_def read_mem_def)+

lemma compareValue_defined:
  "attribute_ok a \<Longrightarrow> attribute_ok b \<Longrightarrow> compareValue fp (Some a) (Some b) \<noteq> None"
  using number_getters_defined [of a] number_getters_defined [of b] getters_defined(2) [of a] getters_defined(2) [of b]
  by (auto simp: compareValue_def)

lemma compareValue_None [simp]: "compareValue fp None b = Some (- 1)"
  by (simp add: compareValue_def)

lemma assign_defined: "attribute_ok a \<Longrightarrow> assign_ESP_Attribute this a \<noteq> None"
  using assign_ok [of a this] copy_ok [of a] by auto

lemma update_ref_defined:
  assumes "context_ok c"
  obtains v where "update_ref d c = Some (d\<lparr>tg_value := v\<rparr>)"
proof (cases "searchAttributeRefByName (cx_temp c) (tg_valueref d)")
  case (Some a)
  then have "attribute_ok a"
    using assms attributes_ok_find by (auto simp: searchAttributeRefByName_def context_ok_def)
  then obtain v where v: "assign_ESP_Attribute (tg_value d) a = Some v"
    using assign_defined by blast
  have "update_ref d c = Some (d\<lparr>tg_value := if tg_valueref d = [] then tg_value d else v\<rparr>)"
    using Some v by (simp add: update_ref_def)
  then show thesis by (rule that)
qed (use that [of "tg_value d"] in \<open>simp add: update_ref_def\<close>)

definition defined_outcome :: "ESP_Tag \<Rightarrow> outcome \<Rightarrow> bool" where
  "defined_outcome t out \<longleftrightarrow>
     (\<exists>r an' t' c'. out = Some (r, an', t', c') \<and> total_tag t' \<and> fuel_tag t' = fuel_tag t)"

lemma defined_SomeI: "total_tag t' \<Longrightarrow> fuel_tag t' = fuel_tag t \<Longrightarrow> defined_outcome t (Some (r, an', t', c'))"
  by (simp add: defined_outcome_def)

lemma total_update:
  assumes "total_tag t" "tg_kind d = tg_kind (tag_data t)" "tg_repeat d = tg_repeat (tag_data t)"
    "tg_datatype d = tg_datatype (tag_data t)" "tg_datacode d = tg_datacode (tag_data t)"
    "tg_valueref d = tg_valueref (tag_data t)"
  shows "total_tag (Tag d (subtags t))" "fuel_tag (Tag d (subtags t)) = fuel_tag t"
  using assms by (auto simp: total_tag_iff [of t] fuel_tag_eq [of t] total_data_def is_loop_def is_value_def)

text \<open>A successful read lies in the buffer, so it is never larger than the buffer.\<close>

lemma read_bounds:
  assumes "context_ok c" "length (cx_input c) \<le> 102400" "readPInputData n c = (ok, p, c')"
  shows "p = None \<and> \<not> ok \<or> (\<exists>v. p = Some v \<and> ok \<and> 0 < n \<and> n \<le> ESP_PARSER_MAX_VALUE_SIZE \<and> nat n \<le> length v)"
  using assms by (auto simp: readPInputData_def context_ok_def inputDataIsAvailable_def getAvailableInputData_def
      getInputSize_def split: if_splits)

lemma value_source_defined:
  assumes "context_ok c" "length (cx_input c) \<le> 102400" "tg_valueref d = []"
  obtains p n m c' where "value_source fp nref d c = Some (p, n, m, d, c')"
    "p = None \<or> (\<exists>v. p = Some v \<and> 0 < n \<and> n \<le> ESP_PARSER_MAX_VALUE_SIZE \<and> nat n \<le> length v)"
proof -
  let ?n = "if tg_datacode d = ESP_DataCode_STRINGDELIM then
      if searchAttributeValue (tg_value d) c \<ge> 0 \<and> at_datasize (tg_value d) \<noteq> 0
      then getSizeFromIndex (searchAttributeValue (tg_value d) c) c else getAvailableInputData c
    else tg_datasize d"
  obtain ok p c1 where r: "readPInputData ?n c = (ok, p, c1)" by (metis prod.collapse)
  have "\<exists>m c'. value_source fp nref d c = Some (p, ?n, m, d, c')"
    using r assms(3) by (auto simp: value_source_def Let_def split_beta split: if_splits)
  then show thesis using that read_bounds [OF assms(1,2) r] by blast
qed

lemma loop_name_defined: "loop_name an s \<noteq> None"
  by (auto simp: loop_name_def replaceString_eq split: option.split)

lemma setValue_pointer_defined:
  assumes "p = None \<or> (\<exists>v. p = Some v \<and> 0 < n \<and> n \<le> ESP_PARSER_MAX_VALUE_SIZE \<and> nat n \<le> length v)"
    "\<not> (ty = ESP_DataType_LONG \<and> text_code co)"
  obtains a' where "setValue fp k p n ty co new_ESP_Attribute = Some a'"
proof (cases p)
  case None
  then show thesis using that by (simp add: setValue_def)
next
  case (Some v)
  then have "setValue fp k (Some v) n ty co new_ESP_Attribute \<noteq> None"
    using assms by (intro setValue_defined) auto
  then show thesis using that Some by blast
qed

lemma execute_value_defined:
  assumes "context_ok c" "length (cx_input c) \<le> 102400" "total_tag t" "is_value (tag_data t)"
  shows "defined_outcome t (execute_value fp nref rend an t c)"
proof -
  let ?d = "tag_data t"
  have d: "tg_valueref ?d = []" "\<not> (tg_datatype ?d = ESP_DataType_LONG \<and> text_code (tg_datacode ?d))"
    using total_data_of [OF assms(3)] assms(4) by (auto simp: total_data_def)
  have "context_ok (saveIndex c)" "length (cx_input (saveIndex c)) \<le> 102400"
    using assms(1,2) by (simp_all add: saveIndex_def context_ok_def getInputSize_def)
  then obtain p n m c1 where src: "value_source fp nref ?d (saveIndex c) = Some (p, n, m, ?d, c1)"
    and p: "p = None \<or> (\<exists>v. p = Some v \<and> 0 < n \<and> n \<le> ESP_PARSER_MAX_VALUE_SIZE \<and> nat n \<le> length v)"
    using value_source_defined d(1) by metis
  obtain k where k: "loop_name an (tg_name ?d) = Some k" using loop_name_defined by blast
  obtain a where a: "setValue fp k p n (tg_datatype ?d) (tg_datacode ?d) new_ESP_Attribute = Some a"
    using setValue_pointer_defined [OF p d(2)] .
  let ?c2 = "if rend then restoreIndex c1 else c1"
  obtain stored where st:
    "assign_ESP_Attribute (case map_find (cx_temp ?c2) k of Some a \<Rightarrow> a | None \<Rightarrow> new_ESP_Attribute) a = Some stored"
    using assign_defined [OF setValue_ok [OF new_attribute_ok a]] by blast
  have "\<exists>r c'. execute_value fp nref rend an t c = Some (r, an, t, c')"
    using st by (simp add: execute_value_def src k a Let_def)
  then show ?thesis using assms(3) by (auto intro: defined_SomeI)
qed

lemma execute_defined:
  assumes "context_ok c" "length (cx_input c) \<le> 102400" "total_tag t" "wf_tag (in_switch an) t"
  shows "defined_outcome t (execute fp an t c)"
proof (cases "tg_kind (tag_data t)")
  case Tag_Write
  obtain v where u: "update_ref (tag_data t) c = Some ((tag_data t)\<lparr>tg_value := v\<rparr>)"
    using update_ref_defined [OF assms(1)] .
  then have "attribute_ok v" using update_ref_wf(1) [OF u assms(1) wf_value [OF assms(4)]] by simp
  then have "\<exists>c'. addOutputData (at_value v) (at_datasize v) c = Some c'"
    by (auto simp: attribute_ok_def addOutputData_def split: option.splits)
  then show ?thesis
    using Tag_Write u total_update [OF assms(3)]
    by (auto simp: execute_def execute_write_def intro!: defined_SomeI)
next
  case (Tag_Switch e)
  obtain v where "update_ref (tag_data t) c = Some ((tag_data t)\<lparr>tg_value := v\<rparr>)"
    using update_ref_defined [OF assms(1)] .
  then show ?thesis
    using Tag_Switch total_update [OF assms(3)]
    by (auto simp: execute_def execute_switch_def intro!: defined_SomeI)
next
  case Tag_Constraint
  let ?d = "tag_data t"
  obtain ok p c' where r: "readPInputData (tg_datasize ?d) c = (ok, p, c')" by (metis prod.collapse)
  show ?thesis
  proof (cases ok)
    case True
    have "\<not> (tg_datatype ?d = ESP_DataType_LONG \<and> text_code (tg_datacode ?d))"
      using total_data_of [OF assms(3)] by (auto simp: total_data_def)
    moreover have "p = None \<or> (\<exists>v. p = Some v \<and> 0 < tg_datasize ?d \<and> tg_datasize ?d \<le> ESP_PARSER_MAX_VALUE_SIZE
        \<and> nat (tg_datasize ?d) \<le> length v)"
      using read_bounds [OF assms(1,2) r] by blast
    ultimately obtain a where a: "setValue fp (tg_name ?d) p (tg_datasize ?d) (tg_datatype ?d) (tg_datacode ?d) new_ESP_Attribute = Some a"
      using setValue_pointer_defined by blast
    obtain k where "compareValue fp (Some (tg_value ?d)) (Some a) = Some k"
      using compareValue_defined [OF wf_value [OF assms(4)] setValue_ok [OF new_attribute_ok a]] by blast
    then show ?thesis
      using Tag_Constraint r True a assms(3) by (simp add: execute_def execute_constraint_def defined_SomeI Let_def)
  next
    case False
    then show ?thesis
      using Tag_Constraint r assms(3) by (simp add: execute_def execute_constraint_def defined_SomeI Let_def)
  qed
next
  case (Tag_Value nref rend)
  then show ?thesis
    using execute_value_defined [OF assms(1-3)] by (simp add: execute_def is_value_def)
next
  case (Tag_Condition op)
  have ok: "attribute_ok v" if "searchAttributeRefByName (cx_temp c) k = Some v" for k v
    using that assms(1) attributes_ok_find by (auto simp: searchAttributeRefByName_def context_ok_def)
  have "\<exists>b. condition_holds fp op (tag_data t) c = Some b"
  proof (cases "searchAttributeRefByName (cx_temp c) (tg_valueref (tag_data t))")
    case (Some v)
    obtain x y z where "compareValue fp (Some v) (Some (tg_value (tag_data t))) = Some x"
      "getValueAsString fp v = Some y" "getValueAsString fp (tg_value (tag_data t)) = Some z"
      using compareValue_defined [OF ok [OF Some] wf_value [OF assms(4)]] getters_defined(1) [OF ok [OF Some]]
        getters_defined(1) [OF wf_value [OF assms(4)]] by blast
    then have "condition_holds fp op (tag_data t) c \<noteq> None"
      using Some by (simp add: condition_holds_def) blast
    then show ?thesis by blast
  qed (simp add: condition_holds_def)
  then show ?thesis
    using Tag_Condition assms(3) by (auto simp: execute_def execute_condition_def intro!: defined_SomeI)
next
  case Tag_Option
  have ok: "attribute_ok v" if "searchAttributeRefByName (cx_temp c) k = Some v" for k v
    using that assms(1) attributes_ok_find by (auto simp: searchAttributeRefByName_def context_ok_def)
  have cmp: "\<exists>k. compareValue fp (searchAttributeRefByName (cx_temp c) ref) (Some (tg_value (tag_data t))) = Some k" for ref
    using compareValue_defined [OF ok wf_value [OF assms(4)]]
    by (cases "searchAttributeRefByName (cx_temp c) ref") (auto simp: not_None_eq)
  show ?thesis
  proof (cases "an_switch an")
    case None
    then show ?thesis using Tag_Option assms(3) by (simp add: execute_def execute_option_def defined_SomeI)
  next
    case (Some sw)
    obtain k where "compareValue fp (searchAttributeRefByName (cx_temp c) (fst sw)) (Some (tg_value (tag_data t))) = Some k"
      using cmp by blast
    then show ?thesis
      using Tag_Option Some assms(3) by (simp add: execute_def execute_option_def defined_SomeI split_beta)
  qed
next
  case (Tag_Loop b n i k)
  then show ?thesis using total_data_of [OF assms(3)] by (simp add: total_data_def is_loop_def)
qed (use assms(3) in \<open>simp_all add: execute_def execute_read_def execute_close_def execute_break_def
    execute_clear_def execute_result_def split_beta defined_SomeI\<close>)

text \<open>The walk: a tag that succeeds has parsed all its children.\<close>

definition unparsed :: "ESP_Tag list \<Rightarrow> nat" where
  "unparsed ts = length (filter (\<lambda>t. \<not> tg_parsed (tag_data t)) ts)"

definition done_outcome :: "ESP_Tag \<Rightarrow> outcome \<Rightarrow> bool" where
  "done_outcome t out \<longleftrightarrow>
     (\<exists>r an' t' c'. out = Some (r, an', t', c') \<and> total_tag t' \<and> fuel_tag t' = fuel_tag t
        \<and> (r = EXECUTE_RESULT_OK \<longrightarrow> tg_parsed (tag_data t') \<and> getNextTag t' = None))"

lemma done_SomeI:
  "total_tag t' \<Longrightarrow> fuel_tag t' = fuel_tag t \<Longrightarrow>
   (r = EXECUTE_RESULT_OK \<Longrightarrow> tg_parsed (tag_data t') \<and> getNextTag t' = None) \<Longrightarrow>
   done_outcome t (Some (r, an', t', c'))"
  by (simp add: done_outcome_def)

lemma done_outcomeE:
  assumes "done_outcome t out"
  obtains r an' t' c' where "out = Some (r, an', t', c')" "total_tag t'" "fuel_tag t' = fuel_tag t"
    "r = EXECUTE_RESULT_OK \<Longrightarrow> tg_parsed (tag_data t') \<and> getNextTag t' = None"
  using assms by (auto simp: done_outcome_def)

lemma unparsed_le: "unparsed ts \<le> length ts"
  by (simp add: unparsed_def)

lemma unparsed_pos: "first_unparsed ts = Some i \<Longrightarrow> 0 < unparsed ts"
  by (induction ts arbitrary: i) (auto simp: unparsed_def split: if_splits)

lemma unparsed_update:
  "first_unparsed ts = Some i \<Longrightarrow> tg_parsed (tag_data u) \<Longrightarrow> unparsed (ts[i := u]) < unparsed ts"
  by (induction ts arbitrary: i) (auto simp: unparsed_def split: if_splits)

lemma sum_fuel_update:
  "i < length ts \<Longrightarrow> fuel_tag u = fuel_tag (ts ! i) \<Longrightarrow> map fuel_tag (ts[i := u]) = map fuel_tag ts"
  by (metis list_update_id map_update)

lemma total_child_update:
  assumes "total_tag t" "total_tag u" "i < length (subtags t)" "fuel_tag u = fuel_tag (subtags t ! i)"
  shows "total_tag (Tag ((tag_data t)\<lparr>tg_kind := absorb_kind ca (tg_kind (tag_data t))\<rparr>) ((subtags t)[i := u]))"
    "fuel_tag (Tag ((tag_data t)\<lparr>tg_kind := absorb_kind ca (tg_kind (tag_data t))\<rparr>) ((subtags t)[i := u])) = fuel_tag t"
proof -
  let ?d = "(tag_data t)\<lparr>tg_kind := absorb_kind ca (tg_kind (tag_data t))\<rparr>"
  have "is_loop ?d = is_loop (tag_data t)" "is_value ?d = is_value (tag_data t)"
    by (cases "tg_kind (tag_data t)"; simp add: is_loop_def is_value_def absorb_kind_def split: option.split)+
  then have "total_data ?d" using total_data_of [OF assms(1)] by (simp add: total_data_def)
  moreover have "total_tag v" if "v \<in> set ((subtags t)[i := u])" for v
    using that assms(1,2) set_update_subset_insert [of "subtags t" i u] total_tag_iff [of t] by auto
  ultimately show "total_tag (Tag ?d ((subtags t)[i := u]))" by simp
  show "fuel_tag (Tag ?d ((subtags t)[i := u])) = fuel_tag t"
    using sum_fuel_update [OF assms(3,4)] fuel_tag_eq [of t] by simp
qed

lemma run_done:
  "context_ok c \<Longrightarrow> wf_tag (in_switch an) t \<Longrightarrow> length (cx_input c) \<le> 102400 \<Longrightarrow> total_tag t \<Longrightarrow>
     (if tg_parsed (tag_data t) then fuel_tag t \<le> n + 2 else fuel_tag t \<le> n) \<Longrightarrow>
     done_outcome t (tag_run n fp an t c)"
  "context_ok c \<Longrightarrow> wf_tag (in_switch an) t \<Longrightarrow> length (cx_input c) \<le> 102400 \<Longrightarrow> total_tag t \<Longrightarrow>
     tg_parsed (tag_data t) \<Longrightarrow> (if getNextTag t = None then 1 \<le> n else fuel_tag t \<le> n + 1) \<Longrightarrow>
     done_outcome t (run_next n fp an t c)"
  "context_ok c \<Longrightarrow> wf_tag (in_switch an) t \<Longrightarrow> length (cx_input c) \<le> 102400 \<Longrightarrow> total_tag t \<Longrightarrow>
     tg_parsed (tag_data t) \<Longrightarrow>
     (if r = EXECUTE_RESULT_OK then unparsed (subtags t) + 1 + sum_list (map fuel_tag (subtags t)) \<le> n else 1 \<le> n) \<Longrightarrow>
     done_outcome t (run_children n fp an r t c)"
proof (induction n fp an t c and n fp an t c and n fp an r t c rule: tag_run_run_next_run_children.induct)
  case (1 fp an t c)
  then show ?case using fuel_tag_eq [of t] by (auto split: if_splits)
next
  case (2 n fp an t c)
  show ?case
  proof (cases "tg_parsed (tag_data t)")
    case True
    have "unparsed (subtags t) + 1 + sum_list (map fuel_tag (subtags t)) \<le> n"
      using 2(7) True fuel_tag_eq [of t] unparsed_le [of "subtags t"] by simp
    then show ?thesis using 2(2) True 2(3-6) by simp
  next
    case False
    obtain r1 an1 t1 c1 where e: "execute fp an t c = Some (r1, an1, t1, c1)" "total_tag t1" "fuel_tag t1 = fuel_tag t"
      using execute_defined [OF 2(3) 2(5) 2(6) 2(4)] unfolding defined_outcome_def by blast
    have ex: "context_ok c1" "cx_input c1 = cx_input c" "wf_tag (in_switch an1) t1"
      using execute_safe [OF 2(3,4), of fp] e(1) by (auto simp: safe_outcome_Some)
    let ?t2 = "Tag ((tag_data t1)\<lparr>tg_parsed := True\<rparr>) (subtags t1)"
    have t2: "total_tag ?t2" "fuel_tag ?t2 = fuel_tag t" "wf_tag (in_switch an1) ?t2"
      using total_update [OF e(2), of "(tag_data t1)\<lparr>tg_parsed := True\<rparr>"] e(3) ex(3) wf_parsed(1) by simp_all
    show ?thesis
    proof (cases "r1 = EXECUTE_RESULT_OK")
      case ok: True
      have "fuel_tag ?t2 \<le> n + 1" "1 \<le> n" using 2(7) False t2(2) fuel_tag_eq [of t] by auto
      then have "done_outcome ?t2 (run_next n fp an1 ?t2 c1)"
        using 2(1) [OF False e(1) refl refl refl ok] ex t2 2(5) by simp
      then obtain r2 an2 t3 c2 where d: "run_next n fp an1 ?t2 c1 = Some (r2, an2, t3, c2)" "total_tag t3"
        "fuel_tag t3 = fuel_tag t" "r2 = EXECUTE_RESULT_OK \<Longrightarrow> tg_parsed (tag_data t3) \<and> getNextTag t3 = None"
        using t2(2) by (elim done_outcomeE) simp
      moreover have "\<not> tg_repeat (tag_data t3)" using total_data_of [OF d(2)] by (simp add: total_data_def)
      ultimately show ?thesis using False e(1) ok by (simp add: done_SomeI)
    next
      case notok: False
      then show ?thesis using False e by (simp add: done_outcome_def)
    qed
  qed
next
  case (3 fp an t c)
  then show ?case using fuel_tag_eq [of t] by (auto split: if_splits)
next
  case (4 n fp an t c)
  show ?case
  proof (cases "getNextTag t")
    case None
    then show ?thesis using 4 by (simp add: done_SomeI)
  next
    case (Some i)
    then have "done_outcome t (tag_run n fp an t c)" using 4(1) [OF Some] 4(3-8) by simp
    then obtain r1 an1 t1 c1 where e: "tag_run n fp an t c = Some (r1, an1, t1, c1)" "total_tag t1"
      "fuel_tag t1 = fuel_tag t" "r1 = EXECUTE_RESULT_OK \<Longrightarrow> tg_parsed (tag_data t1) \<and> getNextTag t1 = None"
      by (rule done_outcomeE) blast
    have s: "context_ok c1" "cx_input c1 = cx_input c" "wf_tag (in_switch an1) t1"
      using run_safe(1) [OF 4(3,4), of n fp] by (simp_all add: e(1) safe_outcome_Some)
    show ?thesis
    proof (cases "r1 = EXECUTE_RESULT_OK")
      case True
      have "1 \<le> n" using 4(8) Some fuel_tag_eq [of t] by simp
      then have "done_outcome t1 (run_next n fp an1 t1 c1)"
        using 4(2) [OF Some e(1) refl refl refl] True s e 4(5) by simp
      then show ?thesis using Some e True by (simp add: done_outcome_def)
    qed (use Some e in \<open>simp add: done_outcome_def\<close>)
  qed
next
  case (6 n fp an r t c)
  show ?case
  proof (cases "getNextTag t")
    case None
    then show ?thesis using 6 by (simp add: done_SomeI)
  next
    case (Some i)
    then have fu: "first_unparsed (subtags t) = Some i" by (simp add: getNextTag_def)
    show ?thesis
    proof (cases "r = EXECUTE_RESULT_OK")
      case ok: True
      let ?ca = "child_ancestors an (tag_data t)" and ?u = "subtags t ! i"
      have i: "i < length (subtags t)" "\<not> tg_parsed (tag_data ?u)" using first_unparsed_Some [OF fu] by simp_all
      have u: "wf_tag (is_switch t) ?u" "total_tag ?u"
        using 6(4,6) wf_tag_iff [of _ t] total_tag_iff [of t] i(1) nth_mem by metis+
      have le: "fuel_tag ?u \<le> sum_list (map fuel_tag (subtags t))"
        using i(1) member_le_sum_list [of "fuel_tag ?u" "map fuel_tag (subtags t)"] by simp
      have bound: "unparsed (subtags t) + sum_list (map fuel_tag (subtags t)) \<le> n" using 6(8) ok by simp
      have "done_outcome ?u (tag_run n fp ?ca ?u c)"
        using 6(1) [OF Some ok] 6(3,5) u i(2) le bound by simp
      then obtain r1 ca child c1 where e: "tag_run n fp ?ca ?u c = Some (r1, ca, child, c1)" "total_tag child"
        "fuel_tag child = fuel_tag ?u" "r1 = EXECUTE_RESULT_OK \<Longrightarrow> tg_parsed (tag_data child) \<and> getNextTag child = None"
        by (rule done_outcomeE) blast
      have s: "context_ok c1" "cx_input c1 = cx_input c" "wf_tag (is_switch t) child"
        using run_safe(1) [OF 6(3), of ?ca ?u n fp] u(1) by (simp_all add: e(1) safe_outcome_Some)
      let ?t' = "Tag ((tag_data t)\<lparr>tg_kind := absorb_kind ca (tg_kind (tag_data t))\<rparr>) ((subtags t)[i := child])"
      have t': "total_tag ?t'" "fuel_tag ?t' = fuel_tag t"
        using total_child_update [OF 6(6) e(2) i(1) e(3)] by simp_all
      have w: "wf_tag (in_switch (absorb_ancestors ca an (tag_data t))) ?t'"
        using wf_child_update(1) [OF 6(4) s(3) i(1)] by simp
      have fuel: "if r1 = EXECUTE_RESULT_OK then unparsed (subtags ?t') + 1 + sum_list (map fuel_tag (subtags ?t')) \<le> n
          else 1 \<le> n"
        using bound unparsed_pos [OF fu] unparsed_update [OF fu, of child] e(4) sum_fuel_update [OF i(1) e(3)]
        by auto
      have "done_outcome ?t' (run_children n fp (absorb_ancestors ca an (tag_data t)) r1 ?t' c1)"
        by (rule 6(2) [OF Some ok e(1) refl refl refl refl]) (use s t' w fuel 6(5,7) in simp_all)
      then show ?thesis using Some ok e(1) t'(2) by (simp add: done_outcome_def Let_def)
    qed (use Some 6 in \<open>simp add: done_outcome_def\<close>)
  qed
qed (auto split: if_splits)

end
