(* ===== verification/Esp_Command.thy ===== *)
theory Esp_Command
  imports Esp_Run
begin

text \<open>
  What the lemmas of \<open>Esp_Run\<close> say about whole commands (\<open>ESP_Command::run\<close>) and about single tags:
  a loop-free command always returns and stays inside its buffer, fixed-size values cut a frame into
  its fields, a constraint makes the command look for its mark byte by byte, and three ways in which
  values and loops depart from what they are meant to do.
\<close>

section \<open>Loop-free commands return\<close>

definition command_total :: "ESP_Command \<Rightarrow> bool" where
  "command_total cmd \<longleftrightarrow> total_tag (cm_header cmd) \<and> total_tag (cm_body cmd) \<and> total_tag (cm_footer cmd)"

definition command_fuel :: "ESP_Command \<Rightarrow> nat" where
  "command_fuel cmd = fuel_tag (cm_header cmd) + fuel_tag (cm_body cmd) + fuel_tag (cm_footer cmd)"

definition command_rounds :: "ESP_Command \<Rightarrow> ESP_Context \<Rightarrow> nat" where
  "command_rounds cmd c = length (cx_input c) + (if cm_index cmd = 0 \<or> cm_index cmd = 2 then 2 else 1)"

lemma tag_run_done:
  assumes "context_ok c" "wf_tag False t" "length (cx_input c) \<le> 102400" "total_tag t" "fuel_tag t \<le> n"
  obtains r an' t' c' where "tag_run n fp no_ancestors t c = Some (r, an', t', c')" "total_tag t'" "fuel_tag t' = fuel_tag t"
proof -
  have "done_outcome t (tag_run n fp no_ancestors t c)"
    by (rule run_done(1)) (use assms in simp_all)
  then show thesis using that by (rule done_outcomeE)
qed

lemma command_section_defined:
  assumes "context_ok c" "command_ok cmd" "command_total cmd" "length (cx_input c) \<le> 102400" "command_fuel cmd \<le> n"
  obtains r ret cmd' c' where "command_section n fp cmd c = Some (r, ret, cmd', c')" "command_total cmd'"
    "command_fuel cmd' = command_fuel cmd" "ret \<or> cm_index cmd' = cm_index cmd"
    "2 < cm_index cmd \<longrightarrow> r = EXECUTE_RESULT_IDLE" "cm_index cmd = 1 \<longrightarrow> r = EXECUTE_RESULT_OK \<longrightarrow> ret"
proof -
  have wf: "wf_tag False (cm_header cmd)" "wf_tag False (cm_body cmd)" "wf_tag False (cm_footer cmd)"
    using assms(2) by (simp_all add: command_ok_def)
  have tt: "total_tag (cm_header cmd)" "total_tag (cm_body cmd)" "total_tag (cm_footer cmd)"
    using assms(3) by (simp_all add: command_total_def)
  have fu: "fuel_tag (cm_header cmd) \<le> n" "fuel_tag (cm_body cmd) \<le> n" "fuel_tag (cm_footer cmd) \<le> n"
    using assms(5) by (simp_all add: command_fuel_def)
  consider "cm_index cmd = 0" | "cm_index cmd = 1" | "cm_index cmd = 2" | "2 < cm_index cmd" by linarith
  then show thesis
  proof cases
    case 1
    obtain r an t c1 where t: "tag_run n fp no_ancestors (cm_header cmd) c = Some (r, an, t, c1)"
      "total_tag t" "fuel_tag t = fuel_tag (cm_header cmd)"
      using tag_run_done [OF assms(1) wf(1) assms(4) tt(1) fu(1)] .
    show thesis
      by (rule that [of r False "cmd\<lparr>cm_header := t\<rparr>" c1])
         (use 1 t tt in \<open>simp_all add: command_section_def command_total_def command_fuel_def\<close>)
  next
    case 2
    obtain r an t c1 where t: "tag_run n fp no_ancestors (cm_body cmd) c = Some (r, an, t, c1)"
      "total_tag t" "fuel_tag t = fuel_tag (cm_body cmd)"
      using tag_run_done [OF assms(1) wf(2) assms(4) tt(2) fu(2)] .
    show thesis
    proof (cases "r = EXECUTE_RESULT_OK")
      case True
      obtain c2 where c2: "validateInputData 0 c1 = Some c2"
        using validateInputData_defined tag_run_ok(1) [OF t(1) assms(1) wf(2)] by blast
      let ?cmd = "if tg_loop (tag_data t) then cmd\<lparr>cm_body := tag_reset t\<rparr> else cmd\<lparr>cm_index := 2, cm_body := t\<rparr>"
      show thesis
        by (rule that [of r True ?cmd "(snd (addResultData c2))\<lparr>cx_temp := []\<rparr>"])
           (use 2 t tt c2 True in \<open>simp_all add: command_section_def command_total_def command_fuel_def\<close>)
    next
      case False
      show thesis
        by (rule that [of r False "cmd\<lparr>cm_body := t\<rparr>" c1])
           (use 2 t tt False in \<open>simp_all add: command_section_def command_total_def command_fuel_def\<close>)
    qed
  next
    case 3
    obtain r an t c1 where t: "tag_run n fp no_ancestors (cm_footer cmd) c = Some (r, an, t, c1)"
      "total_tag t" "fuel_tag t = fuel_tag (cm_footer cmd)"
      using tag_run_done [OF assms(1) wf(3) assms(4) tt(3) fu(3)] .
    show thesis
      by (rule that [of r False "cmd\<lparr>cm_footer := t\<rparr>" c1])
         (use 3 t tt in \<open>simp_all add: command_section_def command_total_def command_fuel_def\<close>)
  next
    case 4
    then show thesis
      by (intro that [of EXECUTE_RESULT_IDLE False cmd c]) (use assms in \<open>simp_all add: command_section_def\<close>)
  qed
qed

lemma validate_one:
  assumes "context_ok c" "cx_input c \<noteq> []"
  shows "validateInputData 1 c = Some (c\<lparr>cx_input := tl (cx_input c), cx_index_end := 0\<rparr>)"
  using assms by (cases "cx_input c") (simp_all add: validateInputData_def getInputSize_def context_ok_def)

lemma command_run_defined:
  "context_ok c \<Longrightarrow> command_ok cmd \<Longrightarrow> command_total cmd \<Longrightarrow> length (cx_input c) \<le> 102400 \<Longrightarrow>
     command_rounds cmd c + command_fuel cmd \<le> n \<Longrightarrow> command_run n fp cmd c \<noteq> None"
proof (induction n arbitrary: cmd c)
  case 0
  then show ?case by (simp add: command_rounds_def split: if_splits)
next
  case (Suc n)
  have fuel: "command_fuel cmd \<le> n" using Suc.prems(5) by (simp add: command_rounds_def split: if_splits)
  obtain r ret cmd1 c1 where s: "command_section n fp cmd c = Some (r, ret, cmd1, c1)"
    and cmd1: "command_total cmd1" "command_fuel cmd1 = command_fuel cmd" "ret \<or> cm_index cmd1 = cm_index cmd"
      "2 < cm_index cmd \<longrightarrow> r = EXECUTE_RESULT_IDLE" "cm_index cmd = 1 \<longrightarrow> r = EXECUTE_RESULT_OK \<longrightarrow> ret"
    using command_section_defined [OF Suc.prems(1-4) fuel, of fp] .
  note sec = command_section_ok [OF s Suc.prems(1,2)]
  show ?case
  proof (cases ret)
    case True
    then show ?thesis using s by simp
  next
    case False
    then have same: "cx_input c1 = cx_input c" "cm_index cmd1 = cm_index cmd" using sec cmd1(3) by auto
    show ?thesis
    proof (cases r)
      case EXECUTE_RESULT_ERROR
      let ?c2 = "c1\<lparr>cx_input := tl (cx_input c1), cx_index_end := 0, cx_temp := []\<rparr>"
      let ?cmd2 = "(command_reset cmd1)\<lparr>cm_index := 1\<rparr>"
      have ne: "cx_input c1 \<noteq> []" using sec EXECUTE_RESULT_ERROR by auto
      have "context_ok ?c2" using sec by (simp add: context_ok_def getInputSize_def)
      moreover have "command_ok ?cmd2" "command_total ?cmd2"
        using sec cmd1(1) by (simp_all add: command_ok_def command_total_def command_reset_def)
      moreover have "command_rounds ?cmd2 ?c2 + command_fuel ?cmd2 \<le> n"
        using Suc.prems(5) ne same cmd1(2) by (cases "cx_input c1")
          (simp_all add: command_rounds_def command_fuel_def command_reset_def split: if_splits)
      ultimately have "command_run n fp ?cmd2 ?c2 \<noteq> None"
        using Suc.IH Suc.prems(4) same(1) by simp
      then show ?thesis
        using s False EXECUTE_RESULT_ERROR validate_one ne sec by simp
    next
      case EXECUTE_RESULT_OK
      let ?cmd2 = "cmd1\<lparr>cm_index := cm_index cmd1 + 1\<rparr>"
      have i: "cm_index cmd = 0 \<or> cm_index cmd = 2"
        using cmd1(4,5) EXECUTE_RESULT_OK False by (cases "cm_index cmd = 1") (auto simp: not_less le_Suc_eq numeral_2_eq_2)
      have "command_ok ?cmd2" "command_total ?cmd2" "command_fuel ?cmd2 = command_fuel cmd"
        using sec cmd1 by (simp_all add: command_ok_def command_total_def command_fuel_def)
      moreover have "command_rounds ?cmd2 c1 + 1 = command_rounds cmd c"
        using i same by (auto simp: command_rounds_def)
      ultimately have "command_run n fp ?cmd2 c1 \<noteq> None"
        using Suc.IH [of c1 ?cmd2] Suc.prems(4,5) same(1) sec by simp
      then show ?thesis using s False EXECUTE_RESULT_OK by simp
    qed (use s False in simp_all)
  qed
qed
text \<open>C19: A command without loops, whose options stand in switches and whose fields are neither
  textual longs nor references, always returns with a defined result on a buffer of up to 102400
  bytes: no byte outside the input buffer is read and no error is reported, because the command drops
  a byte and tries again; what it leaves in the buffer is a tail of what was there.\<close>

theorem command_returns_in_buffer:
  assumes "context_ok c" "command_ok cmd" "command_total cmd" "length (cx_input c) \<le> 102400"
    and "length (cx_input c) + 2 + command_fuel cmd \<le> n"
  shows "\<exists>r cmd' c'. command_run n fp cmd c = Some (r, cmd', c') \<and> r \<noteq> EXECUTE_RESULT_ERROR
     \<and> context_ok c' \<and> command_ok cmd' \<and> (\<exists>k. cx_input c' = drop k (cx_input c))"
proof -
  have "command_rounds cmd c + command_fuel cmd \<le> n"
    using assms(5) by (simp add: command_rounds_def)
  then obtain r cmd' c' where run: "command_run n fp cmd c = Some (r, cmd', c')"
    using command_run_defined [OF assms(1-4), of n fp] by (cases "command_run n fp cmd c") auto
  then show ?thesis using command_run_safe [OF run assms(1,2)] by blast
qed

definition sample_command :: ESP_Command where
  "sample_command =
     \<lparr> cm_index = 1, cm_header = Tag (new_tag Tag_Header) [],
       cm_body = Tag (new_tag Tag_Body)
         [Tag ((new_tag (Tag_Value [] False))\<lparr>tg_name := ''id'', tg_datasize := 2, tg_datatype := 5\<rparr>) []],
       cm_footer = Tag (new_tag Tag_Footer) [] \<rparr>"

theorem command_returns_in_buffer_witness:
  "\<forall>fp. \<exists>r cmd' c'. command_run 23 fp sample_command (new_ESP_Context\<lparr>cx_input := [65, 66, 67]\<rparr>)
       = Some (r, cmd', c') \<and> r \<noteq> EXECUTE_RESULT_ERROR
     \<and> context_ok c' \<and> command_ok cmd' \<and> (\<exists>k. cx_input c' = drop k (cx_input (new_ESP_Context\<lparr>cx_input := [65, 66, 67]\<rparr>)))"
proof
  fix fp
  let ?c = "new_ESP_Context\<lparr>cx_input := [65, 66, 67]\<rparr>"
  have "context_ok ?c"
    by (simp add: context_ok_def new_ESP_Context_def attributes_ok_def getInputSize_def)
  moreover have "command_ok sample_command" "command_total sample_command" "command_fuel sample_command = 17"
    by (simp_all add: sample_command_def command_ok_def command_total_def command_fuel_def new_tag_def
        wf_tag.simps new_attribute_ok total_data_def is_loop_def is_value_def text_code_def)
  moreover have "length (cx_input ?c) = 3" by simp
  ultimately show "\<exists>r cmd' c'. command_run 23 fp sample_command ?c = Some (r, cmd', c')
     \<and> r \<noteq> EXECUTE_RESULT_ERROR \<and> context_ok c' \<and> command_ok cmd' \<and> (\<exists>k. cx_input c' = drop k (cx_input ?c))"
    by (intro command_returns_in_buffer) simp_all
qed

section \<open>Values\<close>

text \<open>A value that finds no data stores an attribute without a value.\<close>

definition absent :: "string \<Rightarrow> ESP_Attribute" where
  "absent name = new_ESP_Attribute\<lparr>at_name := name\<rparr>"

lemma setValue_null: "setValue fp name None n ty co new_ESP_Attribute = Some (absent name)"
  by (simp add: setValue_def absent_def)

lemma assign_absent: "assign_ESP_Attribute old (absent name) = Some (absent name)"
proof -
  have "attribute_ok (absent name)" by (simp add: absent_def attribute_ok_def new_ESP_Attribute_def)
  then show ?thesis
    using assign_ok [of "absent name" old]
    by (simp add: copy_ESP_Attribute_def copy_block_def absent_def new_ESP_Attribute_def)
qed

lemma loop_name_plain: "CHR ''$'' \<notin> set name \<Longrightarrow> loop_name an name = Some name"
  by (simp add: loop_name_def str_find_def find_sub_char_None)

lemma execute_value_absent:
  assumes "tg_valueref (tag_data t) = []" "tg_datacode (tag_data t) \<noteq> ESP_DataCode_STRINGDELIM"
    and "getAvailableInputData c < tg_datasize (tag_data t)" "CHR ''$'' \<notin> set (tg_name (tag_data t))"
  shows "execute_value fp nref False an t c = Some (EXECUTE_RESULT_OK, an, t,
     (saveIndex c)\<lparr>cx_temp := map_assign (tg_name (tag_data t)) (absent (tg_name (tag_data t))) (cx_temp c)\<rparr>)"
proof -
  have "readPInputData (tg_datasize (tag_data t)) (saveIndex c) = (False, None, saveIndex c)"
    using assms(3) by (simp add: readPInputData_def inputDataIsAvailable_def getAvailableInputData_def
        getInputSize_def saveIndex_def)
  then have "value_source fp nref (tag_data t) (saveIndex c)
      = Some (None, tg_datasize (tag_data t), 0, tag_data t, saveIndex c)"
    using assms(1,2) by (simp add: value_source_def)
  then show ?thesis
    using assms(4) by (simp add: execute_value_def loop_name_plain setValue_null assign_absent)
      (simp add: saveIndex_def)
qed

text \<open>A value that needs more bytes than have arrived does not wait for them: it reports
  success, consumes nothing and stores its attribute without a value, because the test that should
  detect a failed read compares a truth value with zero from above.\<close>

theorem value_never_waits:
  assumes "tg_kind (tag_data t) = Tag_Value nref False" "\<not> tg_parsed (tag_data t)" "subtags t = []"
    and "tg_valueref (tag_data t) = []" "tg_datacode (tag_data t) \<noteq> ESP_DataCode_STRINGDELIM"
    and "getAvailableInputData c < tg_datasize (tag_data t)" "CHR ''$'' \<notin> set (tg_name (tag_data t))"
    and "\<not> tg_repeat (tag_data t)"
  shows "\<exists>t' c'. tag_run (Suc (Suc n)) fp an t c = Some (EXECUTE_RESULT_OK, an, t', c')
     \<and> cx_index_end c' = cx_index_end c
     \<and> cx_temp c' = map_assign (tg_name (tag_data t)) (absent (tg_name (tag_data t))) (cx_temp c)"
  using assms execute_value_absent [OF assms(4-7), of fp nref an]
  by (simp add: execute_def getNextTag_def saveIndex_def)

theorem value_never_waits_witness:
  "\<forall>fp. \<exists>t' c'. tag_run 2 fp no_ancestors (hd (subtags (cm_body sample_command))) new_ESP_Context
      = Some (EXECUTE_RESULT_OK, no_ancestors, t', c') \<and> cx_index_end c' = 0
     \<and> cx_temp c' = [(''id'', absent ''id'')]"
proof
  fix fp
  show "\<exists>t' c'. tag_run 2 fp no_ancestors (hd (subtags (cm_body sample_command))) new_ESP_Context
      = Some (EXECUTE_RESULT_OK, no_ancestors, t', c') \<and> cx_index_end c' = 0
     \<and> cx_temp c' = [(''id'', absent ''id'')]"
    using value_never_waits [of "hd (subtags (cm_body sample_command))" "[]" new_ESP_Context 0 fp no_ancestors]
    by (simp add: sample_command_def new_tag_def new_ESP_Context_def getAvailableInputData_def getInputSize_def
        numeral_2_eq_2)
qed

section \<open>Loops\<close>

text \<open>A child that comes back unparsed each time it is run keeps its parent busy for ever.\<close>

lemma child_ancestors_body: "tg_kind d = Tag_Body \<Longrightarrow> child_ancestors no_ancestors d = no_ancestors"
  by (simp add: child_ancestors_def no_ancestors_def)

lemma absorb_body:
  "tg_kind d = Tag_Body \<Longrightarrow> absorb_ancestors no_ancestors no_ancestors d = no_ancestors"
  "tg_kind d = Tag_Body \<Longrightarrow> absorb_kind no_ancestors (tg_kind d) = Tag_Body"
  by (simp_all add: absorb_ancestors_def is_loop_def no_ancestors_def absorb_kind_def)

lemma run_children_diverges:
  assumes inv: "\<And>t c. P t c \<Longrightarrow> \<not> tg_parsed (tag_data t)"
    and step: "\<And>t c n x. P t c \<Longrightarrow> tag_run n fp no_ancestors t c = Some x \<Longrightarrow>
      \<exists>t' c'. x = (EXECUTE_RESULT_OK, no_ancestors, t', c') \<and> P t' c'"
  shows "tg_kind d = Tag_Body \<Longrightarrow> P t c \<Longrightarrow>
    run_children n fp no_ancestors EXECUTE_RESULT_OK (Tag d [t]) c = None"
proof (induction n arbitrary: d t c)
  case (Suc n)
  have nxt: "getNextTag (Tag d [t]) = Some 0" using inv [OF Suc.prems(2)] by (simp add: getNextTag_def)
  show ?case
  proof (cases "tag_run n fp no_ancestors t c")
    case None
    then show ?thesis using nxt child_ancestors_body [OF Suc.prems(1)] by simp
  next
    case (Some x)
    then obtain t' c' where x: "x = (EXECUTE_RESULT_OK, no_ancestors, t', c')" "P t' c'"
      using step [OF Suc.prems(2)] by blast
    have "run_children n fp no_ancestors EXECUTE_RESULT_OK (Tag (d\<lparr>tg_kind := Tag_Body\<rparr>) [t']) c' = None"
      using Suc.IH x(2) by simp
    then show ?thesis
      using nxt Some x(1) child_ancestors_body [OF Suc.prems(1)] absorb_body [OF Suc.prems(1)]
      by (simp add: Let_def)
  qed
qed simp

lemma body_diverges:
  assumes inv: "\<And>t c. P t c \<Longrightarrow> \<not> tg_parsed (tag_data t)"
    and step: "\<And>t c n x. P t c \<Longrightarrow> tag_run n fp no_ancestors t c = Some x \<Longrightarrow>
      \<exists>t' c'. x = (EXECUTE_RESULT_OK, no_ancestors, t', c') \<and> P t' c'"
    and d: "tg_kind d = Tag_Body" and p: "P t c"
  shows "tag_run n fp no_ancestors (Tag d [t]) c = None"
proof -
  have ch: "run_children n fp no_ancestors EXECUTE_RESULT_OK (Tag d' [t]) c = None"
    if "tg_kind d' = Tag_Body" for n d'
    by (rule run_children_diverges [where P = P, OF inv step that p])
  have run: "tag_run n fp no_ancestors (Tag d' [t]) c = None"
    if "tg_kind d' = Tag_Body" "tg_parsed d'" for n d'
    using ch [OF that(1)] that(2) by (cases n) simp_all
  have nxt: "run_next n fp no_ancestors (Tag d' [t]) c = None"
    if "tg_kind d' = Tag_Body" "tg_parsed d'" for n d'
    using run [OF that] inv [OF p] by (cases n) (simp_all add: getNextTag_def)
  show ?thesis
    using d nxt [of "d\<lparr>tg_parsed := True\<rparr>"] ch [OF d] by (cases n) (simp_all add: execute_def)
qed

text \<open>The rounds of a loop without children: the counter starts again from the configured number.\<close>

definition counting_loop :: "int \<Rightarrow> ESP_Tag \<Rightarrow> ESP_Context \<Rightarrow> bool" where
  "counting_loop m t c \<longleftrightarrow> \<not> tg_parsed (tag_data t) \<and> subtags t = []
     \<and> (\<exists>i k. tg_kind (tag_data t) = Tag_Loop False m i k \<and> i \<noteq> 0)"

lemma counting_loop_step:
  assumes "2 \<le> m" "counting_loop m t c" "tag_run n fp no_ancestors t c = Some x"
  shows "\<exists>t' c'. x = (EXECUTE_RESULT_OK, no_ancestors, t', c') \<and> counting_loop m t' c'"
proof -
  obtain i k where t: "tg_kind (tag_data t) = Tag_Loop False m i k" "i \<noteq> 0" "\<not> tg_parsed (tag_data t)" "subtags t = []"
    using assms(2) by (auto simp: counting_loop_def)
  obtain d where d: "t = Tag d []" using t(4) by (cases t) simp
  obtain n' where n: "n = Suc n'" using assms(3) by (cases n) simp_all
  then obtain n'' where n': "n' = Suc n''"
    using assms(3) t d by (cases n') (simp_all add: execute_def execute_loop_def Let_def reset_kind_def)
  show ?thesis
    using assms(1,3) t d n n'
    by (auto simp: execute_def execute_loop_def Let_def reset_kind_def getNextTag_def setChildrenParsed_def
        counting_loop_def)
qed

text \<open>The number of iterations of a loop is not honoured: every round starts by resetting the
  loop, which sets the counter back to the configured number, so a loop that asks for two or more
  rounds and is not stopped otherwise never ends, whatever fuel the walk is given.\<close>

theorem loop_count_never_ends:
  assumes "tg_kind d = Tag_Body" "tg_kind l = Tag_Loop False m m 0" "2 \<le> m"
    and "\<not> tg_parsed l"
  shows "tag_run n fp no_ancestors (Tag d [Tag l []]) c = None"
proof (rule body_diverges [where P = "counting_loop m"])
  show "counting_loop m (Tag l []) c"
    using assms by (auto simp: counting_loop_def)
qed (use assms counting_loop_step [OF assms(3)] in \<open>auto simp: counting_loop_def\<close>)

theorem loop_count_never_ends_witness:
  "\<forall>n fp. tag_run n fp no_ancestors (Tag (new_tag Tag_Body) [Tag (new_tag (Tag_Loop False 2 2 0)) []]) new_ESP_Context = None"
  using loop_count_never_ends [of "new_tag Tag_Body" "new_tag (Tag_Loop False 2 2 0)" 2 _ _ new_ESP_Context]
  by (simp add: new_tag_def)

text \<open>A loop until the buffer is empty over one fixed-size value, with a rest too short for it.\<close>

definition short_value :: "int \<Rightarrow> ESP_Tag \<Rightarrow> bool" where
  "short_value sz t \<longleftrightarrow> subtags t = [] \<and> tg_valueref (tag_data t) = [] \<and> \<not> tg_repeat (tag_data t)
     \<and> tg_datacode (tag_data t) \<noteq> ESP_DataCode_STRINGDELIM \<and> tg_datasize (tag_data t) = sz
     \<and> (\<exists>nref. tg_kind (tag_data t) = Tag_Value nref False)"

definition starving_loop :: "int \<Rightarrow> ESP_Tag \<Rightarrow> ESP_Context \<Rightarrow> bool" where
  "starving_loop sz t c \<longleftrightarrow> \<not> tg_parsed (tag_data t)
     \<and> 0 < getAvailableInputData c \<and> getAvailableInputData c < sz
     \<and> (\<exists>u. subtags t = [u] \<and> short_value sz u)
     \<and> (\<exists>m i k. tg_kind (tag_data t) = Tag_Loop True m i k \<and> i < 0 \<and> m < 0)"

lemma execute_short_value:
  assumes "short_value sz t" "getAvailableInputData c < sz"
  shows "\<exists>c'. execute fp an t c = Some (EXECUTE_RESULT_OK, an, t, c') \<and> getAvailableInputData c' = getAvailableInputData c"
proof -
  obtain nref where t: "tg_valueref (tag_data t) = []" "tg_datacode (tag_data t) \<noteq> 4" "tg_datasize (tag_data t) = sz"
    "tg_kind (tag_data t) = Tag_Value nref False"
    using assms(1) by (auto simp: short_value_def)
  have "readPInputData sz (saveIndex c) = (False, None, saveIndex c)"
    using assms(2) by (simp add: readPInputData_def inputDataIsAvailable_def getAvailableInputData_def
        getInputSize_def saveIndex_def)
  then have src: "value_source fp nref (tag_data t) (saveIndex c) = Some (None, sz, 0, tag_data t, saveIndex c)"
    using t by (simp add: value_source_def)
  obtain k where "loop_name an (tg_name (tag_data t)) = Some k" using loop_name_defined by blast
  then have "execute_value fp nref False an t c
      = Some (EXECUTE_RESULT_OK, an, t, (saveIndex c)\<lparr>cx_temp := map_assign k (absent k) (cx_temp (saveIndex c))\<rparr>)"
    using src by (simp add: execute_value_def setValue_null assign_absent)
  then show ?thesis
    using t(4) by (simp add: execute_def getAvailableInputData_def getInputSize_def saveIndex_def)
qed

lemma run_short_value:
  assumes "short_value sz t" "getAvailableInputData c < sz" "\<not> tg_parsed (tag_data t)"
    and "tag_run n fp an t c = Some x"
  shows "\<exists>t' c'. x = (EXECUTE_RESULT_OK, an, t', c') \<and> short_value sz t' \<and> tg_parsed (tag_data t')
     \<and> getAvailableInputData c' = getAvailableInputData c"
proof -
  obtain c' where e: "execute fp an t c = Some (EXECUTE_RESULT_OK, an, t, c')" "getAvailableInputData c' = getAvailableInputData c"
    using execute_short_value [OF assms(1,2)] by blast
  obtain n' where n: "n = Suc n'" using assms(4) by (cases n) simp_all
  then obtain n'' where n': "n' = Suc n''"
    using assms(3,4) e(1) by (cases n') simp_all
  show ?thesis
    using assms e n n' by (auto simp: getNextTag_def short_value_def)
qed

lemma starving_loop_step:
  assumes "starving_loop sz t c" "tag_run n fp no_ancestors t c = Some x"
  shows "\<exists>t' c'. x = (EXECUTE_RESULT_OK, no_ancestors, t', c') \<and> starving_loop sz t' c'"
proof -
  obtain d u m i k where t: "t = Tag d [u]" "tg_kind d = Tag_Loop True m i k" "i < 0" "m < 0" "\<not> tg_parsed d"
    "short_value sz u" "0 < getAvailableInputData c" "getAvailableInputData c < sz"
    using assms(1) by (cases t) (auto simp: starving_loop_def)
  obtain du where u: "u = Tag du []" using t(6) by (cases u) (simp add: short_value_def)
  define u1 where "u1 = tag_reset u"
  have u1: "short_value sz u1" "\<not> tg_parsed (tag_data u1)"
    using t(6) u by (auto simp: u1_def short_value_def reset_kind_def)
  define d1 where "d1 = d\<lparr>tg_repeat := True, tg_kind := Tag_Loop True m m (k + 1), tg_parsed := True\<rparr>"
  have ex: "execute fp no_ancestors t c = Some (EXECUTE_RESULT_OK, no_ancestors,
      Tag (d\<lparr>tg_parsed := False, tg_repeat := True, tg_kind := Tag_Loop True m m (k + 1)\<rparr>) [u1], c)"
    using t by (simp add: execute_def execute_loop_def Let_def reset_kind_def u1_def)
  obtain n1 where n1: "n = Suc n1" using assms(2) by (cases n) simp_all
  have nx: "run_next n1 fp no_ancestors (Tag d1 [u1]) c \<noteq> None"
    using assms(2) ex t(1,5) n1 by (auto simp: d1_def split: Option.bind_splits)
  then obtain n2 where n2: "n1 = Suc n2" by (cases n1) simp_all
  have g: "getNextTag (Tag d1 [u1]) = Some 0" using u1(2) by (simp add: getNextTag_def)
  have tr: "tag_run n2 fp no_ancestors (Tag d1 [u1]) c \<noteq> None"
    using nx n2 g by (cases "tag_run n2 fp no_ancestors (Tag d1 [u1]) c") simp_all
  then obtain n3 where n3: "n2 = Suc n3" by (cases n2) simp_all
  have rc: "run_children n3 fp no_ancestors EXECUTE_RESULT_OK (Tag d1 [u1]) c \<noteq> None"
    using tr n3 by (simp add: d1_def)
  then obtain n4 where n4: "n3 = Suc n4" by (cases n3) simp_all
  let ?ca = "child_ancestors no_ancestors d1"
  have "tag_run n4 fp ?ca u1 c \<noteq> None"
    using rc n4 g by (cases "tag_run n4 fp ?ca u1 c") simp_all
  then obtain u2 c2 where u2: "tag_run n4 fp ?ca u1 c = Some (EXECUTE_RESULT_OK, ?ca, u2, c2)" "short_value sz u2"
    "tg_parsed (tag_data u2)" "getAvailableInputData c2 = getAvailableInputData c"
    using run_short_value [OF u1(1) t(8) u1(2)] by blast
  have ab: "absorb_kind ?ca (tg_kind d1) = tg_kind d1" "absorb_ancestors ?ca no_ancestors d1 = no_ancestors"
    by (simp_all add: d1_def absorb_kind_def child_ancestors_def absorb_ancestors_def is_loop_def)
  have g2: "getNextTag (Tag d1 [u2]) = None" using u2(3) by (simp add: getNextTag_def)
  have rest: "run_children n4 fp no_ancestors EXECUTE_RESULT_OK (Tag d1 [u2]) c2 \<noteq> None"
    using rc n4 g u2(1) ab by (simp add: Let_def)
  then obtain n5 where n5: "n4 = Suc n5" by (cases n4) simp_all
  have d1: "tg_parsed d1" "tg_repeat d1" by (simp_all add: d1_def)
  have "run_children n4 fp no_ancestors EXECUTE_RESULT_OK (Tag d1 [u2]) c2
      = Some (EXECUTE_RESULT_OK, no_ancestors, Tag d1 [u2], c2)" using n5 g2 by simp
  then have "run_children n3 fp no_ancestors EXECUTE_RESULT_OK (Tag d1 [u1]) c
      = Some (EXECUTE_RESULT_OK, no_ancestors, Tag d1 [u2], c2)" using n4 g u2(1) ab by (simp add: Let_def)
  then have "tag_run n2 fp no_ancestors (Tag d1 [u1]) c
      = Some (EXECUTE_RESULT_OK, no_ancestors, Tag d1 [u2], c2)" using n3 d1 by simp
  moreover have "run_next n2 fp no_ancestors (Tag d1 [u2]) c2
      = Some (EXECUTE_RESULT_OK, no_ancestors, Tag d1 [u2], c2)" using n3 g2 by simp
  ultimately have "run_next n1 fp no_ancestors (Tag d1 [u1]) c
      = Some (EXECUTE_RESULT_OK, no_ancestors, Tag d1 [u2], c2)" using n2 g by simp
  then have "x = (EXECUTE_RESULT_OK, no_ancestors, setChildrenParsed True False (Tag d1 [u2]), c2)"
    using assms(2) ex t(1,5) n1 d1 by (simp add: d1_def)
  moreover have "starving_loop sz (setChildrenParsed True False (Tag d1 [u2])) c2"
    using u2 t u by (cases u2) (auto simp: starving_loop_def setChildrenParsed_def short_value_def d1_def)
  ultimately show ?thesis by blast
qed

text \<open>A loop that runs until the buffer is empty over a value of fixed size never ends when the
  bytes that are left are fewer than the value needs: the value succeeds without consuming them.\<close>

theorem loop_starves_on_short_rest:
  assumes "tg_kind d = Tag_Body" "starving_loop sz t c"
  shows "tag_run n fp no_ancestors (Tag d [t]) c = None"
  by (rule body_diverges [where P = "starving_loop sz"])
     (use assms starving_loop_step in \<open>auto simp: starving_loop_def\<close>)

definition starving_sample :: ESP_Tag where
  "starving_sample = Tag (new_tag (Tag_Loop True (- 1) (- 1) 0))
     [Tag ((new_tag (Tag_Value [] False))\<lparr>tg_name := ''v$'', tg_datasize := 4, tg_datatype := 1\<rparr>) []]"

theorem loop_starves_on_short_rest_witness:
  "\<forall>n fp. tag_run n fp no_ancestors (Tag (new_tag Tag_Body) [starving_sample])
     (new_ESP_Context\<lparr>cx_input := [1, 2, 3]\<rparr>) = None"
proof -
  have "starving_loop 4 starving_sample (new_ESP_Context\<lparr>cx_input := [1, 2, 3]\<rparr>)"
    by (simp add: starving_loop_def starving_sample_def short_value_def new_tag_def new_ESP_Context_def
        getAvailableInputData_def getInputSize_def)
  then show ?thesis
    using loop_starves_on_short_rest [of "new_tag Tag_Body"] by (simp add: new_tag_def)
qed

section \<open>Frames of fixed fields\<close>

text \<open>The tag of a text field of fixed size, the attribute it reads and the context it leaves.\<close>

definition field_data :: "string \<times> nat \<Rightarrow> tag_data" where
  "field_data f = (new_tag (Tag_Value [] False))\<lparr>tg_name := fst f, tg_datasize := int (snd f), tg_datatype := ESP_DataType_STRING\<rparr>"

definition field_tag :: "string \<times> nat \<Rightarrow> ESP_Tag" where
  "field_tag f = Tag (field_data f) []"

definition field_done :: "string \<times> nat \<Rightarrow> ESP_Tag" where
  "field_done f = Tag ((field_data f)\<lparr>tg_parsed := True\<rparr>) []"

definition field_attr :: "string \<Rightarrow> mem \<Rightarrow> ESP_Attribute" where
  "field_attr name b = \<lparr> at_name = name, at_value = Some b, at_datasize = int (length b),
     at_datatype = ESP_DataType_STRING, at_datacode = ESP_DataCode_UNKNOWN \<rparr>"

definition read_field :: "string \<times> nat \<Rightarrow> ESP_Context \<Rightarrow> ESP_Context" where
  "read_field f c = c\<lparr>cx_index_end := cx_index_end c + int (snd f), cx_index_end_saved := cx_index_end c,
     cx_temp := map_assign (fst f)
       (field_attr (fst f) (take (snd f) (drop (nat (cx_index_end c)) (cx_input c)))) (cx_temp c)\<rparr>"

definition field_ok :: "string \<times> nat \<Rightarrow> bool" where
  "field_ok f \<longleftrightarrow> 0 < snd f \<and> snd f \<le> 102400 \<and> CHR ''$'' \<notin> set (fst f) \<and> \<not> startsWith (fst f) ''_''"

lemma assign_field_attr: "0 < length b \<Longrightarrow> assign_ESP_Attribute old (field_attr name b) = Some (field_attr name b)"
proof -
  assume "0 < length b"
  then have "copy_ESP_Attribute (field_attr name b) = Some (field_attr name b)"
    by (simp add: copy_ESP_Attribute_def copy_block_def field_attr_def)
  moreover have "attribute_ok (field_attr name b)" by (simp add: attribute_ok_def field_attr_def)
  ultimately show ?thesis using assign_ok by metis
qed

lemma setValue_field:
  assumes "0 < sz" "sz \<le> 102400" "sz \<le> length v"
  shows "setValue fp name (Some v) (int sz) 5 0 a = Some (field_attr name (take sz v))"
  using assms by (simp add: setValue_def convert_value_def copy_in_def read_mem_def copy_out_def field_attr_def)

lemma run_field:
  assumes "field_ok f" "context_ok c" "int (snd f) \<le> getAvailableInputData c"
    and "2 \<le> n"
  shows "tag_run n fp an (field_tag f) c = Some (EXECUTE_RESULT_OK, an, field_done f, read_field f c)"
proof -
  let ?v = "drop (nat (cx_index_end c)) (cx_input c)"
  have len: "snd f \<le> length ?v"
    using assms(2,3) by (auto simp: getAvailableInputData_def getInputSize_def context_ok_def)
  have "readPInputData (int (snd f)) (saveIndex c)
      = (True, Some ?v, (saveIndex c)\<lparr>cx_index_end := cx_index_end c + int (snd f)\<rparr>)"
    using assms by (simp add: readPInputData_def inputDataIsAvailable_def getAvailableInputData_def
        getInputSize_def saveIndex_def field_ok_def)
  then have "value_source fp [] (field_data f) (saveIndex c) = Some (Some ?v, int (snd f), 1, field_data f,
      (saveIndex c)\<lparr>cx_index_end := cx_index_end c + int (snd f)\<rparr>)"
    by (simp add: value_source_def field_data_def new_tag_def Let_def)
  moreover have "setValue fp (fst f) (Some ?v) (int (snd f)) 5 0 new_ESP_Attribute = Some (field_attr (fst f) (take (snd f) ?v))"
    using assms(1) len by (intro setValue_field) (simp_all add: field_ok_def)
  moreover have "0 < length (take (snd f) ?v)" using assms(1) len by (simp add: field_ok_def)
  ultimately have "execute_value fp [] False an (field_tag f) c
      = Some (EXECUTE_RESULT_OK, an, field_tag f, read_field f c)"
    using assms(1)
    by (simp add: execute_value_def field_tag_def read_field_def field_ok_def loop_name_plain assign_field_attr)
       (simp add: field_data_def new_tag_def loop_name_plain assign_field_attr saveIndex_def)
  moreover obtain n' where "n = Suc (Suc n')" using assms(4) by (metis Suc_le_D numeral_2_eq_2 Suc_le_mono)
  ultimately show ?thesis
    by (simp add: field_tag_def field_done_def execute_def getNextTag_def) (simp add: field_data_def new_tag_def getNextTag_def)
qed

text \<open>Cutting the bytes of a frame into consecutive pieces.\<close>

fun cut :: "nat list \<Rightarrow> 'a list \<Rightarrow> 'a list list" where
  "cut [] b = []"
| "cut (n # ns) b = take n b # cut ns (drop n b)"

definition store_fields :: "(string \<times> mem) list \<Rightarrow> CC_AttributesType \<Rightarrow> CC_AttributesType" where
  "store_fields fs m = fold (\<lambda>(name, b). map_assign name (field_attr name b)) fs m"

lemma read_field_ok:
  assumes "field_ok f" "context_ok c" "int (snd f) \<le> getAvailableInputData c"
  shows "context_ok (read_field f c)" "getAvailableInputData (read_field f c) = getAvailableInputData c - int (snd f)"
proof -
  have "attribute_ok (field_attr name b)" for name b by (simp add: attribute_ok_def field_attr_def)
  then show "context_ok (read_field f c)"
    using assms attributes_ok_assign
    by (auto simp: read_field_def context_ok_def getInputSize_def getAvailableInputData_def)
  show "getAvailableInputData (read_field f c) = getAvailableInputData c - int (snd f)"
    by (simp add: read_field_def getAvailableInputData_def getInputSize_def)
qed

lemma fold_read_field:
  "0 \<le> cx_index_end c \<Longrightarrow>
    cx_input (fold read_field fs c) = cx_input c
    \<and> cx_results (fold read_field fs c) = cx_results c
    \<and> cx_index_end (fold read_field fs c) = cx_index_end c + int (sum_list (map snd fs))
    \<and> cx_temp (fold read_field fs c) = store_fields
      (zip (map fst fs) (cut (map snd fs) (drop (nat (cx_index_end c)) (cx_input c)))) (cx_temp c)"
proof (induction fs arbitrary: c)
  case (Cons f fs)
  have "0 \<le> cx_index_end (read_field f c)" using Cons.prems by (simp add: read_field_def)
  from Cons.IH [OF this] show ?case
    using Cons.prems by (simp add: store_fields_def) (simp add: read_field_def nat_add_distrib add.commute)
qed (simp add: store_fields_def)

lemma fold_read_field_ok:
  "list_all field_ok fs \<Longrightarrow> context_ok c \<Longrightarrow> int (sum_list (map snd fs)) \<le> getAvailableInputData c \<Longrightarrow>
     context_ok (fold read_field fs c)"
proof (induction fs arbitrary: c)
  case (Cons f fs)
  then show ?case using read_field_ok [of f c] by simp
qed simp

lemma first_unparsed_done: "first_unparsed (map field_done ps @ ts) = map_option (\<lambda>i. length ps + i) (first_unparsed ts)"
  by (induction ps) (auto simp: field_done_def option.map_comp comp_def option.map_ident)

lemma run_children_fields:
  assumes "tg_kind d = Tag_Body" "list_all field_ok fs" "context_ok c"
    "int (sum_list (map snd fs)) \<le> getAvailableInputData c" "length fs + 2 < n"
  shows "run_children n fp no_ancestors EXECUTE_RESULT_OK (Tag d (map field_done ps @ map field_tag fs)) c
     = Some (EXECUTE_RESULT_OK, no_ancestors, Tag d (map field_done (ps @ fs)), fold read_field fs c)"
  using assms(2-)
proof (induction fs arbitrary: n ps c)
  case Nil
  then obtain n' where "n = Suc n'" by (cases n) simp_all
  then show ?case using first_unparsed_done [of ps "[]"] by (simp add: getNextTag_def)
next
  case (Cons f fs)
  obtain m where n: "n = Suc m" "2 \<le> m" using Cons.prems(4) by (cases n) simp_all
  have f: "field_ok f" "int (snd f) \<le> getAvailableInputData c" "list_all field_ok fs"
    using Cons.prems by simp_all
  note r = read_field_ok [OF f(1) Cons.prems(2) f(2)]
  have nx: "getNextTag (Tag d (map field_done ps @ map field_tag (f # fs))) = Some (length ps)"
    using first_unparsed_done [of ps "map field_tag (f # fs)"]
    by (simp add: getNextTag_def field_tag_def field_data_def new_tag_def)
  have "run_children m fp no_ancestors EXECUTE_RESULT_OK
      (Tag d (map field_done (ps @ [f]) @ map field_tag fs)) (read_field f c)
     = Some (EXECUTE_RESULT_OK, no_ancestors, Tag d (map field_done ((ps @ [f]) @ fs)), fold read_field fs (read_field f c))"
    using r(2) Cons.prems(3,4) n(1) by (intro Cons.IH [OF f(3) r(1)]) simp_all
  moreover have same: "d\<lparr>tg_kind := Tag_Body\<rparr> = d" using assms(1) by (cases d) simp
  ultimately show ?case
    using nx n(1) run_field [OF f(1) Cons.prems(2) f(2) n(2)] child_ancestors_body [OF assms(1)]
      absorb_body [OF assms(1)] assms(1)
    by (simp add: Let_def nth_append list_update_append same)
qed

lemma find_store_fields_other:
  "map_ok m \<Longrightarrow> k \<notin> fst ` set fs \<Longrightarrow> map_find (store_fields fs m) k = map_find m k"
  by (induction fs arbitrary: m) (auto simp: store_fields_def map_find_assign)

lemma map_ok_store_fields: "map_ok m \<Longrightarrow> map_ok (store_fields fs m)"
  by (induction fs arbitrary: m) (auto simp: store_fields_def)

lemma find_store_fields:
  "map_ok m \<Longrightarrow> distinct (map fst fs) \<Longrightarrow> (k, b) \<in> set fs \<Longrightarrow> map_find (store_fields fs m) k = Some (field_attr k b)"
proof (induction fs arbitrary: m)
  case (Cons f fs)
  have step: "store_fields (f # fs) m = store_fields fs (map_assign (fst f) (field_attr (fst f) (snd f)) m)"
    by (simp add: store_fields_def split_beta)
  show ?case
  proof (cases "f = (k, b)")
    case True
    then have "k \<notin> fst ` set fs" using Cons.prems(2) by auto
    then show ?thesis using True Cons.prems(1) step find_store_fields_other by (simp add: map_find_assign)
  next
    case False
    then show ?thesis using Cons step by simp
  qed
qed simp

lemma ball_subset: "A \<subseteq> B \<Longrightarrow> \<forall>a \<in> B. P a \<Longrightarrow> \<forall>a \<in> A. P a"
  by blast

lemma store_fields_names:
  "\<forall>a \<in> snd ` set m. \<not> startsWith (at_name a) ''_'' \<Longrightarrow> \<forall>k \<in> fst ` set fs. \<not> startsWith k ''_'' \<Longrightarrow>
     \<forall>a \<in> snd ` set (store_fields fs m). \<not> startsWith (at_name a) ''_''"
proof (induction fs arbitrary: m)
  case (Cons f fs)
  have "snd ` set (map_assign (fst f) (field_attr (fst f) (snd f)) m) \<subseteq> insert (field_attr (fst f) (snd f)) (snd ` set m)"
    using image_mono [OF set_map_assign [of "fst f" "field_attr (fst f) (snd f)" m], of snd] by simp
  moreover have "\<forall>a \<in> insert (field_attr (fst f) (snd f)) (snd ` set m). \<not> startsWith (at_name a) ''_''"
    using Cons.prems by (simp add: field_attr_def)
  ultimately have "\<forall>a \<in> snd ` set (map_assign (fst f) (field_attr (fst f) (snd f)) m). \<not> startsWith (at_name a) ''_''"
    by (rule ball_subset)
  moreover have "\<forall>k \<in> fst ` set fs. \<not> startsWith k ''_''" using Cons.prems(2) by simp
  ultimately have "\<forall>a \<in> snd ` set (store_fields fs (map_assign (fst f) (field_attr (fst f) (snd f)) m)). \<not> startsWith (at_name a) ''_''"
    by (rule Cons.IH)
  then show ?case by (simp only: store_fields_def split_beta fold.simps comp_def)
qed (simp add: store_fields_def)

lemma length_cut [simp]: "length (cut ns b) = length ns"
  by (induction ns b rule: cut.induct) auto

lemma tag_run_fields:
  assumes "tg_kind d = Tag_Body" "\<not> tg_parsed d" "\<not> tg_repeat d" "list_all field_ok fs" "context_ok c"
    "int (sum_list (map snd fs)) \<le> getAvailableInputData c" "length fs + 5 < n"
  shows "tag_run n fp no_ancestors (Tag d (map field_tag fs)) c
     = Some (EXECUTE_RESULT_OK, no_ancestors, Tag (d\<lparr>tg_parsed := True\<rparr>) (map field_done fs), fold read_field fs c)"
proof (cases "fs = []")
  case True
  obtain m where "n = Suc (Suc m)" using assms(7) by (cases n; cases "n - 1") simp_all
  then show ?thesis using True assms(1-3) by (simp add: execute_def getNextTag_def)
next
  case False
  let ?d = "d\<lparr>tg_parsed := True\<rparr>"
  let ?t = "Tag ?d (map field_tag fs)" and ?t' = "Tag ?d (map field_done fs)" and ?c' = "fold read_field fs c"
  have m: "n = Suc (Suc (Suc (n - 3)))" "length fs + 2 < n - 3" using assms(7) by simp_all
  have "run_children (n - 3) fp no_ancestors EXECUTE_RESULT_OK ?t c = Some (EXECUTE_RESULT_OK, no_ancestors, ?t', ?c')"
    using run_children_fields [of ?d fs c "n - 3" fp "[]"] assms m(2) by simp
  then have tr: "tag_run (Suc (n - 3)) fp no_ancestors ?t c = Some (EXECUTE_RESULT_OK, no_ancestors, ?t', ?c')"
    by simp
  have g: "getNextTag ?t = Some 0"
    using False by (cases fs) (simp_all add: getNextTag_def field_tag_def field_data_def new_tag_def)
  have "getNextTag ?t' = None"
    using first_unparsed_done [of fs "[]"] by (simp add: getNextTag_def)
  then have "run_next (Suc (Suc (n - 3))) fp no_ancestors ?t c = Some (EXECUTE_RESULT_OK, no_ancestors, ?t', ?c')"
    using tr g by simp
  then show ?thesis
    using assms(1-3) by (subst m(1)) (simp add: execute_def del: run_next.simps)
qed

text \<open>C18: A command whose body lists text fields of fixed sizes cuts a frame into them: when all bytes
  have arrived it reports one new result, in which every field is bound to its own bytes, in the
  order of the description, and removes exactly these bytes from the buffer.\<close>

theorem command_cuts_frame:
  assumes "cm_index cmd = 1" "cm_body cmd = Tag d (map field_tag fs)" "tg_kind d = Tag_Body"
    "\<not> tg_parsed d" "\<not> tg_repeat d" "fs \<noteq> []" "list_all field_ok fs" "distinct (map fst fs)"
    and "context_ok c" "cx_index_end c = 0" "cx_temp c = []"
    "sum_list (map snd fs) \<le> length (cx_input c)" "length fs + 6 < n"
  shows "\<exists>cmd' c' m. command_run n fp cmd c = Some (EXECUTE_RESULT_OK, cmd', c')
     \<and> cx_input c' = drop (sum_list (map snd fs)) (cx_input c) \<and> cx_temp c' = []
     \<and> cx_results c' = cx_results c @ [m]
     \<and> list_all (\<lambda>(name, b). map_find m name = Some (field_attr name b))
          (zip (map fst fs) (cut (map snd fs) (cx_input c)))"
proof -
  let ?k = "sum_list (map snd fs)" and ?c1 = "fold read_field fs c"
  let ?zs = "zip (map fst fs) (cut (map snd fs) (cx_input c))"
  have avail: "int ?k \<le> getAvailableInputData c"
    using assms(10,12) by (simp add: getAvailableInputData_def getInputSize_def)
  obtain n' where n: "n = Suc n'" "length fs + 5 < n'" using assms(13) by (cases n) simp_all
  note run = tag_run_fields [OF assms(3-5,7,9) avail n(2), of fp]
  have c1: "cx_input ?c1 = cx_input c" "cx_results ?c1 = cx_results c" "cx_index_end ?c1 = int ?k"
    "cx_temp ?c1 = store_fields ?zs []" "context_ok ?c1"
    using fold_read_field [of c fs] fold_read_field_ok [OF assms(7,9) avail] assms(10,11) by simp_all
  have val: "validateInputData 0 ?c1 = Some (?c1\<lparr>cx_input := drop ?k (cx_input c), cx_index_end := 0\<rparr>)"
    using c1 assms(12) by (simp add: validateInputData_def getInputSize_def context_ok_def)
  have find: "map_find (store_fields ?zs []) k = Some (field_attr k b)" if "(k, b) \<in> set ?zs" for k b
    using find_store_fields [of "[]" ?zs k b] that assms(8) by simp
  have "\<forall>k \<in> fst ` set ?zs. \<not> startsWith k ''_''"
    using assms(7) by (auto simp: list_all_iff field_ok_def dest!: set_zip_leftD)
  then have "\<forall>a \<in> snd ` set (store_fields ?zs []). \<not> startsWith (at_name a) ''_''"
    using store_fields_names [of "[]" ?zs] by simp
  then have vis: "filter (\<lambda>(k, a). \<not> startsWith (at_name a) ''_'') (store_fields ?zs []) = store_fields ?zs []"
    by (auto simp: filter_id_conv)
  have ne: "store_fields ?zs [] \<noteq> []"
  proof
    assume e: "store_fields ?zs [] = []"
    obtain f fs' where "fs = f # fs'" using assms(6) by (cases fs) simp_all
    then have "(fst f, take (snd f) (cx_input c)) \<in> set ?zs" by simp
    from find [OF this] e show False by simp
  qed
  have "\<exists>cmd' c'. command_run n fp cmd c = Some (EXECUTE_RESULT_OK, cmd', c')
     \<and> cx_input c' = drop ?k (cx_input c) \<and> cx_temp c' = [] \<and> cx_results c' = cx_results c @ [store_fields ?zs []]"
    using run val c1 vis ne n(1) assms(1,2)
    by (auto simp: command_section_def addResultData_def Let_def)
  then show ?thesis
    using find by (fastforce simp: list_all_iff)
qed

theorem command_cuts_frame_witness:
  "\<forall>fp. \<exists>cmd' c' m. command_run 9 fp (sample_command\<lparr>cm_body := Tag (new_tag Tag_Body) (map field_tag [(''id'', 2), (''t'', 1)])\<rparr>)
       (new_ESP_Context\<lparr>cx_input := [65, 66, 67, 68]\<rparr>) = Some (EXECUTE_RESULT_OK, cmd', c')
     \<and> cx_input c' = [68] \<and> cx_temp c' = [] \<and> cx_results c' = [m]
     \<and> map_find m ''id'' = Some (field_attr ''id'' [65, 66]) \<and> map_find m ''t'' = Some (field_attr ''t'' [67])"
proof
  fix fp
  let ?c = "new_ESP_Context\<lparr>cx_input := [65, 66, 67, 68]\<rparr>"
  have "context_ok ?c"
    by (simp add: context_ok_def new_ESP_Context_def getInputSize_def)
  then show "\<exists>cmd' c' m. command_run 9 fp (sample_command\<lparr>cm_body := Tag (new_tag Tag_Body) (map field_tag [(''id'', 2), (''t'', 1)])\<rparr>)
       ?c = Some (EXECUTE_RESULT_OK, cmd', c') \<and> cx_input c' = [68] \<and> cx_temp c' = [] \<and> cx_results c' = [m]
     \<and> map_find m ''id'' = Some (field_attr ''id'' [65, 66]) \<and> map_find m ''t'' = Some (field_attr ''t'' [67])"
    using command_cuts_frame [of "sample_command\<lparr>cm_body := Tag (new_tag Tag_Body) (map field_tag [(''id'', 2), (''t'', 1)])\<rparr>"
        "new_tag Tag_Body" "[(''id'', 2), (''t'', 1)]" ?c 9 fp]
    by (simp add: sample_command_def new_tag_def field_ok_def startsWith_def new_ESP_Context_def)
qed

section \<open>Synchronisation\<close>

text \<open>A constraint on a text of fixed size.\<close>

definition mark_tag :: "mem \<Rightarrow> ESP_Tag" where
  "mark_tag v = Tag ((new_tag Tag_Constraint)\<lparr>tg_datasize := int (length v), tg_datatype := ESP_DataType_STRING,
     tg_value := field_attr [] v\<rparr>) []"

lemma bytes_str_inject [simp]: "bytes_str a = bytes_str b \<longleftrightarrow> a = b"
proof -
  have "inj (\<lambda>x :: u8. char_of (unat x))"
  proof (rule injI)
    fix x y :: u8
    assume "char_of (unat x) = (char_of (unat y) :: char)"
    then have "(of_char (char_of (unat x) :: char) :: nat) = of_char (char_of (unat y) :: char)" by simp
    then have "unat x mod 256 = unat y mod 256" by simp
    then have "unat x = unat y"
      using unsigned_less [of x, where 'a = nat] unsigned_less [of y, where 'a = nat] by simp
    then show "x = y" by (rule unsigned_word_eqI)
  qed
  then show ?thesis by (simp add: bytes_str_def inj_map_eq_map)
qed

lemma compare_marks:
  "\<exists>k. compareValue fp (Some (field_attr m v)) (Some (field_attr m' w)) = Some k \<and> (k = 0 \<longleftrightarrow> v = w)"
proof -
  have ok: "attribute_ok (field_attr m v)" "attribute_ok (field_attr m' w)"
    by (simp_all add: attribute_ok_def field_attr_def)
  obtain k where k: "compareValue fp (Some (field_attr m v)) (Some (field_attr m' w)) = Some k"
    using compareValue_defined [OF ok] by blast
  have "compareValue fp (Some (field_attr m v)) (Some (field_attr m' w)) = Some 0 \<longleftrightarrow> v = w"
    using compareValue_eq_string [OF ok] by (simp add: field_attr_def getStringValue_def)
  then show ?thesis using k by simp
qed

lemma run_mark:
  assumes "context_ok c" "cx_index_end c = 0" "0 < length v" "length v \<le> 102400" "length v \<le> length (cx_input c)"
    and "take (length v) (cx_input c) \<noteq> v"
  shows "tag_run (Suc n) fp an (mark_tag v) c
     = Some (EXECUTE_RESULT_ERROR, an, mark_tag v, c\<lparr>cx_index_end := int (length v)\<rparr>)"
proof -
  have r: "readPInputData (int (length v)) c = (True, Some (cx_input c), c\<lparr>cx_index_end := int (length v)\<rparr>)"
    using assms(2,3,5) by (auto simp: readPInputData_def inputDataIsAvailable_def getAvailableInputData_def getInputSize_def)
  have s: "setValue fp [] (Some (cx_input c)) (int (length v)) 5 0 new_ESP_Attribute
      = Some (field_attr [] (take (length v) (cx_input c)))"
    using assms by (intro setValue_field) simp_all
  obtain k where k: "compareValue fp (Some (field_attr [] v)) (Some (field_attr [] (take (length v) (cx_input c)))) = Some k"
    "k \<noteq> 0"
    using compare_marks [of fp "[]" v "[]"] assms(6) by metis
  have "execute fp an (mark_tag v) c
      = Some (EXECUTE_RESULT_ERROR, an, mark_tag v, c\<lparr>cx_index_end := int (length v)\<rparr>)"
    using r s k by (simp add: execute_def execute_constraint_def mark_tag_def new_tag_def Let_def)
  then show ?thesis by (simp add: mark_tag_def new_tag_def)
qed

lemma run_body_mark:
  assumes "context_ok c" "cx_index_end c = 0" "0 < length v" "length v \<le> 102400" "length v \<le> length (cx_input c)"
    and "take (length v) (cx_input c) \<noteq> v" "tg_kind d = Tag_Body" "\<not> tg_parsed d" "\<not> tg_repeat d"
  shows "tag_run (Suc (Suc (Suc (Suc (Suc n))))) fp no_ancestors (Tag d (mark_tag v # ts)) c
     = Some (EXECUTE_RESULT_ERROR, no_ancestors, Tag (d\<lparr>tg_parsed := True\<rparr>) (mark_tag v # ts),
         c\<lparr>cx_index_end := int (length v)\<rparr>)"
proof -
  let ?d = "d\<lparr>tg_parsed := True\<rparr>"
  let ?t = "Tag ?d (mark_tag v # ts)" and ?c = "c\<lparr>cx_index_end := int (length v)\<rparr>"
  have g: "getNextTag ?t = Some 0" by (simp add: getNextTag_def mark_tag_def new_tag_def)
  have kd: "tg_kind ?d = Tag_Body" using assms(7) by simp
  have same: "?d\<lparr>tg_kind := Tag_Body\<rparr> = ?d" using assms(7) by (cases d) simp
  have "run_children (Suc n) fp no_ancestors EXECUTE_RESULT_ERROR ?t ?c = Some (EXECUTE_RESULT_ERROR, no_ancestors, ?t, ?c)"
    using g by simp
  then have "run_children (Suc (Suc n)) fp no_ancestors EXECUTE_RESULT_OK ?t c = Some (EXECUTE_RESULT_ERROR, no_ancestors, ?t, ?c)"
    using g run_mark [OF assms(1-6)] child_ancestors_body [OF kd] absorb_body [OF kd] assms(7)
    by (subst run_children.simps) (simp add: Let_def same del: run_children.simps tag_run.simps)
  then have "tag_run (Suc (Suc (Suc n))) fp no_ancestors ?t c = Some (EXECUTE_RESULT_ERROR, no_ancestors, ?t, ?c)"
    by (subst tag_run.simps) (simp del: run_children.simps)
  then have "run_next (Suc (Suc (Suc (Suc n)))) fp no_ancestors ?t c = Some (EXECUTE_RESULT_ERROR, no_ancestors, ?t, ?c)"
    using g by (subst run_next.simps) (simp del: tag_run.simps)
  then show ?thesis
    using assms(7-9) by (subst tag_run.simps) (simp add: execute_def del: run_next.simps)
qed

lemma command_skips_byte:
  assumes "context_ok c" "cx_index_end c = 0" "cx_temp c = []" "0 < length v" "length v \<le> 102400"
    and "length v \<le> length (cx_input c)" "take (length v) (cx_input c) \<noteq> v"
    and "cm_index cmd = 1" "cm_body cmd = Tag d (mark_tag v # ts)" "tg_kind d = Tag_Body" "\<not> tg_parsed d" "\<not> tg_repeat d"
    and "command_reset cmd = cmd\<lparr>cm_index := 0\<rparr>" "5 \<le> n"
  shows "command_run (Suc n) fp cmd c = command_run n fp cmd (c\<lparr>cx_input := tl (cx_input c)\<rparr>)"
proof -
  have n: "n = Suc (Suc (Suc (Suc (Suc (n - 5)))))" using assms(14) by simp
  let ?t = "Tag (d\<lparr>tg_parsed := True\<rparr>) (mark_tag v # ts)"
  let ?c = "c\<lparr>cx_index_end := int (length v)\<rparr>"
  have run: "tag_run n fp no_ancestors (cm_body cmd) c = Some (EXECUTE_RESULT_ERROR, no_ancestors, ?t, ?c)"
    using run_body_mark [OF assms(1,2,4-7,10-12), of "n - 5" fp ts] assms(9) n by simp
  have sec: "command_section n fp cmd c = Some (EXECUTE_RESULT_ERROR, False, cmd\<lparr>cm_body := ?t\<rparr>, ?c)"
    using run assms(8) by (simp add: command_section_def)
  have "context_ok ?c" "cx_input ?c \<noteq> []" using assms(1,4,6) by (auto simp: context_ok_def getInputSize_def)
  note val = validate_one [OF this]
  have "tag_reset ?t = tag_reset (cm_body cmd)" using assms(9) by simp
  then have "(command_reset (cmd\<lparr>cm_body := ?t\<rparr>))\<lparr>cm_index := 1\<rparr> = (command_reset cmd)\<lparr>cm_index := 1\<rparr>"
    by (simp add: command_reset_def)
  also have "\<dots> = cmd" using assms(8,13) by (cases cmd) simp
  finally have cmd: "(command_reset (cmd\<lparr>cm_body := ?t\<rparr>))\<lparr>cm_index := 1\<rparr> = cmd" .
  have ctx: "?c\<lparr>cx_input := tl (cx_input ?c), cx_index_end := 0, cx_temp := []\<rparr> = c\<lparr>cx_input := tl (cx_input c)\<rparr>"
    using assms(2,3) by (cases c) simp
  show ?thesis
    using sec val cmd ctx by (subst command_run.simps) simp
qed

text \<open>A command whose body starts with a constraint looks for its mark: as long as the mark does
  not stand at the front of the buffer it drops one byte and starts the body again, so the bytes before
  the first place of the mark are skipped and none of them changes the result.\<close>

theorem command_finds_mark:
  assumes "context_ok c" "cx_index_end c = 0" "cx_temp c = []" "0 < length v" "length v \<le> 102400"
    and "length g + length v \<le> length (cx_input c)"
    and "\<forall>i < length g. take (length v) (drop i (cx_input c)) \<noteq> v"
    and "cm_index cmd = 1" "cm_body cmd = Tag d (mark_tag v # ts)" "tg_kind d = Tag_Body" "\<not> tg_parsed d" "\<not> tg_repeat d"
    and "command_reset cmd = cmd\<lparr>cm_index := 0\<rparr>" "5 \<le> n"
  shows "command_run (length g + n) fp cmd c = command_run n fp cmd (c\<lparr>cx_input := drop (length g) (cx_input c)\<rparr>)"
  using assms(1-3,6,7)
proof (induction g arbitrary: c)
  case (Cons x g)
  let ?c = "c\<lparr>cx_input := tl (cx_input c)\<rparr>"
  have "take (length v) (cx_input c) \<noteq> v" using Cons.prems(5) by (metis drop_0 length_greater_0_conv list.discI)
  then have step: "command_run (Suc (length g + n)) fp cmd c = command_run (length g + n) fp cmd ?c"
    using Cons.prems(1-4) assms(4,5,8-14) by (intro command_skips_byte) simp_all
  have shift: "\<forall>i < length g. take (length v) (drop i (cx_input ?c)) \<noteq> v"
    using Cons.prems(5) by (auto simp: drop_Suc [symmetric])
  have "command_run (length g + n) fp cmd ?c = command_run n fp cmd (?c\<lparr>cx_input := drop (length g) (cx_input ?c)\<rparr>)"
    by (rule Cons.IH) (use Cons.prems shift in \<open>auto simp: context_ok_def getInputSize_def\<close>)
  then show ?case using step by (simp add: drop_Suc)
qed simp

theorem command_finds_mark_witness:
  "\<forall>fp. command_run (length [1, 2 :: u8] + 9) fp
      (sample_command\<lparr>cm_body := Tag (new_tag Tag_Body) (mark_tag [83] # [])\<rparr>) (new_ESP_Context\<lparr>cx_input := [1, 2, 83, 4]\<rparr>)
    = command_run 9 fp (sample_command\<lparr>cm_body := Tag (new_tag Tag_Body) (mark_tag [83] # [])\<rparr>)
      (new_ESP_Context\<lparr>cx_input := [83, 4]\<rparr>)"
proof
  fix fp
  let ?c = "new_ESP_Context\<lparr>cx_input := [1, 2, 83, 4]\<rparr>"
  let ?cmd = "sample_command\<lparr>cm_body := Tag (new_tag Tag_Body) (mark_tag [83] # [])\<rparr>"
  have ok: "context_ok ?c" by (simp add: context_ok_def new_ESP_Context_def getInputSize_def)
  have "\<forall>i < length [1, 2 :: u8]. take (length [83 :: u8]) (drop i (cx_input ?c)) \<noteq> [83]"
    by (auto simp: less_Suc_eq)
  moreover have "command_reset ?cmd = ?cmd\<lparr>cm_index := 0\<rparr>"
    by (simp add: command_reset_def sample_command_def mark_tag_def new_tag_def reset_kind_def)
  ultimately show "command_run (length [1, 2 :: u8] + 9) fp ?cmd ?c = command_run 9 fp ?cmd (new_ESP_Context\<lparr>cx_input := [83, 4]\<rparr>)"
    using command_finds_mark [OF ok, of "[83]" "[1, 2]" ?cmd "new_tag Tag_Body" "[]" 9 fp]
    by (simp add: new_ESP_Context_def sample_command_def new_tag_def del: command_run.simps)
qed

end
