(* ===== verification/Esp_Description.thy ===== *)
theory Esp_Description
  imports Esp_Run
begin

text \<open>
  How a sensor description becomes a tree of tags: the queries of \<^verbatim>\<open>src/src/esp/source/ESP_XmlUtils.cpp\<close>,
  \<open>parseElement\<close> and \<open>parseCustomElement\<close> of the tags, the factory of the basic parser plugin and
  \<open>ESP_Sensor::createCommand\<close>.  An XML element is its attributes and its child elements, as TinyXML
  hands them out.
\<close>

datatype TiXmlElement =
  Element (el_value: string) (el_attributes: "(string \<times> string) list") (el_children: "TiXmlElement list")

definition el_attribute :: "TiXmlElement \<Rightarrow> string \<Rightarrow> string option" where
  "el_attribute e a = map_of (el_attributes e) a"

definition queryIntValue :: "TiXmlElement \<Rightarrow> string \<Rightarrow> int" where
  "queryIntValue e a = (case el_attribute e a of Some v \<Rightarrow> c_atoi (c_str v) | None \<Rightarrow> 0)"

definition queryStringValue :: "TiXmlElement \<Rightarrow> string \<Rightarrow> string" where
  "queryStringValue e a = (case el_attribute e a of Some v \<Rightarrow> v | None \<Rightarrow> [])"

definition queryBoolValue :: "TiXmlElement \<Rightarrow> string \<Rightarrow> bool" where
  "queryBoolValue e a = (case el_attribute e a of Some v \<Rightarrow> strToLower v = ''true'' | None \<Rightarrow> False)"

definition parseString :: "string \<Rightarrow> string option" where
  "parseString str = do {
     s \<leftarrow> replaceString str [CHR 0x5C, CHR ''n'', CHR '' ''] [CHR 0x0A];
     replaceString s [CHR 0x5C, CHR ''n''] [CHR 0x0A] }"

text \<open>The factory: the kind of tag, with the fields its constructor sets.\<close>

definition createParser :: "TiXmlElement \<Rightarrow> tag_kind option" where
  "createParser e =
     (let type = queryStringValue e ''type'' in
      if type = ''read'' then Some Tag_Read
      else if type = ''write'' then Some Tag_Write
      else if type = ''value'' then Some (Tag_Value [] False)
      else if type = ''constraint'' then Some Tag_Constraint
      else if type = ''close'' then Some Tag_Close
      else if type = ''condition'' then Some (Tag_Condition [])
      else if type = ''loop'' then Some (Tag_Loop False 0 0 0)
      else if type = ''clear'' then Some Tag_Clear
      else if type = ''result'' then Some (Tag_Result False)
      else if type = ''switch'' then Some (Tag_Switch False)
      else if type = ''option'' then Some Tag_Option
      else if type = ''break'' then Some Tag_Break
      else None)"

definition parseCustomElement :: "TiXmlElement \<Rightarrow> tag_kind \<Rightarrow> tag_kind" where
  "parseCustomElement e k =
     (case k of
        Tag_Value _ _ \<Rightarrow> Tag_Value (queryStringValue e ''nameref'') (queryBoolValue e ''resetend'')
      | Tag_Condition _ \<Rightarrow> Tag_Condition (queryStringValue e ''operation'')
      | Tag_Switch _ \<Rightarrow> Tag_Switch False
      | Tag_Loop _ _ _ m \<Rightarrow>
          Tag_Loop (queryBoolValue e ''breakonempty'') (queryIntValue e ''iterations'') (queryIntValue e ''iterations'') m
      | Tag_Result _ \<Rightarrow> Tag_Result (queryBoolValue e ''nodata'')
      | _ \<Rightarrow> k)"

text \<open>The constant of a tag.  A \<open>const char*\<close> attribute is its characters and a NUL.  In the last
  branch the code measures and reads \<open>valuestring\<close>, which is \<open>NULL\<close> there.\<close>

definition tag_constant :: "fp_ops \<Rightarrow> TiXmlElement \<Rightarrow> tag_data \<Rightarrow> tag_data option" where
  "tag_constant fp e d =
     (let set = (\<lambda>text n ty. map_option (\<lambda>a. d\<lparr>tg_value := a, tg_datasize := at_datasize a\<rparr>)
            (setValue fp (tg_name d) (Some (str_bytes text @ [0])) n ty ESP_DataCode_STRING (tg_value d))) in
      case el_attribute e ''valueint'' of
        Some v \<Rightarrow> set v 4 ESP_DataType_INT
      | None \<Rightarrow> (case el_attribute e ''valuefloat'' of
          Some v \<Rightarrow> set v 4 ESP_DataType_FLOAT
        | None \<Rightarrow> (case el_attribute e ''valuestring'' of
            Some v \<Rightarrow> set v (int (length v)) ESP_DataType_STRING
          | None \<Rightarrow> (case el_attribute e ''valuehex'' of
              Some _ \<Rightarrow> None
            | None \<Rightarrow> Some d))))"

definition parseElement :: "fp_ops \<Rightarrow> TiXmlElement \<Rightarrow> tag_data \<Rightarrow> tag_data option" where
  "parseElement fp e d =
     (let d1 = d\<lparr>tg_name := queryStringValue e ''name'',
                 tg_byteoffset := queryIntValue e ''byteoffset'',
                 tg_datasize := queryIntValue e ''datasize'',
                 tg_datatype := getDataTypeFromString (queryStringValue e ''datatype''),
                 tg_datacode := getDataCodeFromString (queryStringValue e ''datacode''),
                 tg_loop := queryBoolValue e ''loop'',
                 tg_valueref := queryStringValue e ''valueref''\<rparr>;
          d2 = (if tg_datasize d1 = 0 then d1\<lparr>tg_datasize := tg_byteoffset d1\<rparr> else d1) in
      map_option (\<lambda>d3. d3\<lparr>tg_kind := parseCustomElement e (tg_kind d3)\<rparr>) (tag_constant fp e d2))"

text \<open>The children of an element that are tags, each with its own children.\<close>

fun create_tag :: "fp_ops \<Rightarrow> tag_kind \<Rightarrow> TiXmlElement \<Rightarrow> ESP_Tag option"
  and create_children :: "fp_ops \<Rightarrow> TiXmlElement list \<Rightarrow> ESP_Tag list option" where
  "create_tag fp k (Element v as es) = do {
     d \<leftarrow> parseElement fp (Element v as es) (new_tag k);
     ts \<leftarrow> create_children fp es;
     Some (Tag d ts) }"
| "create_children fp [] = Some []"
| "create_children fp (e # es) =
     (case createParser e of
        Some k \<Rightarrow> do { t \<leftarrow> create_tag fp k e; ts \<leftarrow> create_children fp es; Some (t # ts) }
      | None \<Rightarrow> create_children fp es)"

definition createCommandDetails :: "fp_ops \<Rightarrow> TiXmlElement \<Rightarrow> ESP_Tag \<Rightarrow> ESP_Tag option" where
  "createCommandDetails fp e t = do {
     d \<leftarrow> parseElement fp e (tag_data t);
     ts \<leftarrow> create_children fp (el_children e);
     Some (Tag d (subtags t @ ts)) }"

fun create_sections :: "fp_ops \<Rightarrow> TiXmlElement list \<Rightarrow> ESP_Command \<Rightarrow> ESP_Command option" where
  "create_sections fp [] cmd = Some cmd"
| "create_sections fp (e # es) cmd = do {
     cmd1 \<leftarrow> (let type = queryStringValue e ''type'' in
       if type = ''header'' then map_option (\<lambda>t. cmd\<lparr>cm_header := t\<rparr>) (createCommandDetails fp e (cm_header cmd))
       else if type = ''body'' then map_option (\<lambda>t. cmd\<lparr>cm_body := t\<rparr>) (createCommandDetails fp e (cm_body cmd))
       else if type = ''footer'' then map_option (\<lambda>t. cmd\<lparr>cm_footer := t\<rparr>) (createCommandDetails fp e (cm_footer cmd))
       else Some cmd);
     create_sections fp es cmd1 }"

definition first_child :: "TiXmlElement \<Rightarrow> string \<Rightarrow> TiXmlElement option" where
  "first_child e v = List.find (\<lambda>i. el_value i = v) (el_children e)"

definition new_ESP_Command :: ESP_Command where
  "new_ESP_Command = \<lparr> cm_index = 0, cm_header = Tag (new_tag Tag_Header) [],
     cm_body = Tag (new_tag Tag_Body) [], cm_footer = Tag (new_tag Tag_Footer) [] \<rparr>"

definition default_params :: "TiXmlElement \<Rightarrow> (string, string) std_map" where
  "default_params e =
     (case first_child e ''params'' of
        Some ps \<Rightarrow> fold (\<lambda>i m. map_insert (queryStringValue i ''name'') (queryStringValue i ''value'') m) (el_children ps) []
      | None \<Rightarrow> [])"

text \<open>\<open>None\<close> outside is undefined behaviour, \<open>None\<close> inside the \<open>NULL\<close> for an unknown command.\<close>

definition createCommand ::
  "fp_ops \<Rightarrow> (string, TiXmlElement) std_map \<Rightarrow> string
     \<Rightarrow> (ESP_Command \<times> (string, string) std_map) option option" where
  "createCommand fp commands name =
     (case map_find commands name of
        None \<Rightarrow> Some None
      | Some e \<Rightarrow>
          map_option (\<lambda>cmd. Some (cmd, default_params e))
            (case first_child e ''parser'' of
               Some p \<Rightarrow> create_sections fp (el_children p) new_ESP_Command
             | None \<Rightarrow> Some new_ESP_Command))"

definition parseCommands :: "TiXmlElement list \<Rightarrow> (string, TiXmlElement) std_map" where
  "parseCommands es = fold (\<lambda>i m. map_insert (queryStringValue i ''name'') i m) es []"

section \<open>What a description builds\<close>

lemma parseCustomElement_shape [simp]:
  "parseCustomElement e k = Tag_Option \<longleftrightarrow> k = Tag_Option"
  "(case parseCustomElement e k of Tag_Switch _ \<Rightarrow> True | _ \<Rightarrow> False) = (case k of Tag_Switch _ \<Rightarrow> True | _ \<Rightarrow> False)"
  by (cases k; simp add: parseCustomElement_def)+

lemma tag_constant_ok:
  assumes "tag_constant fp e d = Some d'" "attribute_ok (tg_value d)"
  shows "attribute_ok (tg_value d')" "tg_kind d' = tg_kind d" "tg_parsed d' = tg_parsed d" "tg_repeat d' = tg_repeat d"
  using assms setValue_ok [OF assms(2)]
  by (auto simp: tag_constant_def Let_def split: option.splits)

lemma parseElement_ok:
  assumes "parseElement fp e d = Some d'" "attribute_ok (tg_value d)"
  shows "attribute_ok (tg_value d')" "tg_kind d' = parseCustomElement e (tg_kind d)"
    "tg_parsed d' = tg_parsed d" "tg_repeat d' = tg_repeat d"
proof -
  obtain d2 d3 where d: "tag_constant fp e d2 = Some d3" "d' = d3\<lparr>tg_kind := parseCustomElement e (tg_kind d3)\<rparr>"
    and same: "tg_value d2 = tg_value d" "tg_kind d2 = tg_kind d" "tg_parsed d2 = tg_parsed d" "tg_repeat d2 = tg_repeat d"
    using assms(1) unfolding parseElement_def Let_def by (auto split: if_splits)
  have "attribute_ok (tg_value d2)" using assms(2) same by simp
  note c = tag_constant_ok [OF d(1) this]
  show "attribute_ok (tg_value d')" "tg_kind d' = parseCustomElement e (tg_kind d)"
    "tg_parsed d' = tg_parsed d" "tg_repeat d' = tg_repeat d"
    using c d(2) same by simp_all
qed

text \<open>Options may only stand in a switch.\<close>

fun options_placed :: "bool \<Rightarrow> TiXmlElement \<Rightarrow> bool" where
  "options_placed sw (Element v as es) \<longleftrightarrow>
     (createParser (Element v as es) = Some Tag_Option \<longrightarrow> sw)
     \<and> (\<forall>e \<in> set es. options_placed (\<exists>b. createParser (Element v as es) = Some (Tag_Switch b)) e)"

definition switch_kind :: "tag_kind \<Rightarrow> bool" where
  "switch_kind k = (case k of Tag_Switch _ \<Rightarrow> True | _ \<Rightarrow> False)"

lemma is_switch_kind: "is_switch t = switch_kind (tg_kind (tag_data t))"
  by (simp add: is_switch_def switch_kind_def)

lemma switch_kind_iff: "switch_kind k \<longleftrightarrow> (\<exists>b. k = Tag_Switch b)"
  by (cases k) (simp_all add: switch_kind_def)

lemma create_wf:
  "create_tag fp k e = Some t \<Longrightarrow> (k = Tag_Option \<Longrightarrow> sw) \<Longrightarrow> list_all (options_placed (switch_kind k)) (el_children e) \<Longrightarrow>
     wf_tag sw t"
  "create_children fp es = Some ts \<Longrightarrow> list_all (options_placed sw') es \<Longrightarrow> (\<forall>t \<in> set ts. wf_tag sw' t)"
proof (induction fp k e and fp es arbitrary: t sw and ts sw' rule: create_tag_create_children.induct)
  case (1 fp k v as es)
  then obtain d ts where d: "parseElement fp (Element v as es) (new_tag k) = Some d" "create_children fp es = Some ts"
    "t = Tag d ts"
    by (auto simp: bind_eq_Some_conv)
  have "attribute_ok (tg_value (new_tag k))" by (simp add: new_tag_def new_attribute_ok)
  note p = parseElement_ok [OF d(1) this]
  have kind: "tg_kind d = parseCustomElement (Element v as es) k" using p(2) by (simp add: new_tag_def)
  have "switch_kind (tg_kind d) = switch_kind k" using kind by (simp add: switch_kind_def)
  then have "\<forall>u \<in> set ts. wf_tag (switch_kind (tg_kind d)) u"
    using 1(1) [OF d(1,2)] 1(4) by simp
  then show ?case
    using d(3) p(1) kind 1(3) by (simp add: wf_tag.simps is_switch_kind)
next
  case (3 fp e es)
  show ?case
  proof (cases "createParser e")
    case None
    then show ?thesis using 3 by simp
  next
    case (Some k)
    then obtain t us where t: "create_tag fp k e = Some t" "create_children fp es = Some us" "ts = t # us"
      using 3(4) by (auto simp: bind_eq_Some_conv)
    obtain v as cs where e: "e = Element v as cs" by (cases e)
    have "list_all (options_placed (switch_kind k)) (el_children e)" "k = Tag_Option \<Longrightarrow> sw'"
      using 3(5) Some e by (auto simp: list_all_iff switch_kind_iff)
    then have "wf_tag sw' t" using 3(2) [OF Some t(1)] by blast
    then show ?thesis using 3(3) [OF Some t(1) t(2)] 3(5) t(3) by simp
  qed
qed simp

lemma createCommandDetails_wf:
  assumes "createCommandDetails fp e t = Some t'" "wf_tag False t" "\<not> is_switch t"
    "list_all (options_placed False) (el_children e)"
  shows "wf_tag False t' \<and> \<not> is_switch t'"
proof -
  obtain d ts where d: "parseElement fp e (tag_data t) = Some d" "create_children fp (el_children e) = Some ts"
    "t' = Tag d (subtags t @ ts)"
    using assms(1) by (auto simp: createCommandDetails_def bind_eq_Some_conv)
  note p = parseElement_ok [OF d(1) wf_value [OF assms(2)]]
  have sw: "\<not> is_switch t'" using d(3) p(2) assms(3) by (simp add: is_switch_def)
  moreover have "\<forall>u \<in> set ts. wf_tag False u" using create_wf(2) [OF d(2) assms(4)] .
  ultimately show ?thesis
    using d(3) p(1,2) assms(2,3) wf_tag_iff [of False t'] wf_tag_iff [of False t] by auto
qed

lemma create_sections_ok:
  "create_sections fp es cmd = Some cmd' \<Longrightarrow> command_ok cmd \<Longrightarrow>
     \<not> is_switch (cm_header cmd) \<Longrightarrow> \<not> is_switch (cm_body cmd) \<Longrightarrow> \<not> is_switch (cm_footer cmd) \<Longrightarrow>
     list_all (\<lambda>s. list_all (options_placed False) (el_children s)) es \<Longrightarrow> command_ok cmd' \<and> cm_index cmd' = cm_index cmd"
proof (induction fp es cmd rule: create_sections.induct)
  case (2 fp e es cmd)
  let ?type = "queryStringValue e ''type''"
  obtain cmd1 where c: "create_sections fp es cmd1 = Some cmd'"
    "(if ?type = ''header'' then map_option (\<lambda>t. cmd\<lparr>cm_header := t\<rparr>) (createCommandDetails fp e (cm_header cmd))
       else if ?type = ''body'' then map_option (\<lambda>t. cmd\<lparr>cm_body := t\<rparr>) (createCommandDetails fp e (cm_body cmd))
       else if ?type = ''footer'' then map_option (\<lambda>t. cmd\<lparr>cm_footer := t\<rparr>) (createCommandDetails fp e (cm_footer cmd))
       else Some cmd) = Some cmd1"
    using "2.prems"(1) by (auto simp: bind_eq_Some_conv Let_def)
  have ch: "list_all (options_placed False) (el_children e)" using "2.prems"(6) by simp
  have wf: "wf_tag False (cm_header cmd)" "wf_tag False (cm_body cmd)" "wf_tag False (cm_footer cmd)"
    using "2.prems"(2) by (simp_all add: command_ok_def)
  note det = createCommandDetails_wf [OF _ wf(1) "2.prems"(3) ch] createCommandDetails_wf [OF _ wf(2) "2.prems"(4) ch]
    createCommandDetails_wf [OF _ wf(3) "2.prems"(5) ch]
  have "command_ok cmd1 \<and> \<not> is_switch (cm_header cmd1) \<and> \<not> is_switch (cm_body cmd1) \<and> \<not> is_switch (cm_footer cmd1)
     \<and> cm_index cmd1 = cm_index cmd"
    using c(2) det "2.prems"(2-5) by (auto simp: command_ok_def split: if_splits)
  then show ?case using "2.IH" [of cmd1] c "2.prems"(6) by (simp add: Let_def)
qed simp


definition sample_element :: TiXmlElement where
  "sample_element = Element ''command'' [(''name'', ''measure'')]
     [Element ''parser'' []
        [Element ''tag'' [(''type'', ''body'')]
           [Element ''tag'' [(''type'', ''switch''), (''valueref'', ''k'')]
              [Element ''tag'' [(''type'', ''option''), (''valuestring'', ''a'')] []]]]]"


section \<open>Constants in descriptions\<close>

lemma bytes_str_take: "bytes_str (take n (str_bytes s)) = take n s"
  by (metis bytes_str_def bytes_str_inverse take_map)

text \<open>The text of four bytes the conversion of an integer constant looks at.\<close>

lemma sized_text_four:
  assumes "3 \<le> length v" "CHR 0x00 \<notin> set v"
  shows "sized_text (str_bytes v @ [0]) 4 = Some (take 4 v)"
proof (cases "length v = 3")
  case True
  then have "take 4 (str_bytes v @ [0]) = str_bytes v @ [0]" by simp
  moreover have "bytes_str (str_bytes v @ [0]) = v @ [CHR 0x00]"
    using bytes_str_inverse [of v] by (simp add: bytes_str_def char_of_def)
  moreover have "c_str (v @ [CHR 0x00]) = v" using c_str_nul [OF assms(2)] by simp
  ultimately show ?thesis using True by (simp add: sized_text_def read_mem_def)
next
  case False
  then have "take 4 (str_bytes v @ [0]) = take 4 (str_bytes v)" using assms(1) by simp
  moreover have "CHR 0x00 \<notin> set (take 4 v)" using assms(2) by (meson in_set_takeD)
  ultimately show ?thesis
    using False assms(1) by (simp add: sized_text_def read_mem_def bytes_str_take c_str_no_nul)
qed

text \<open>An integer constant of a description is read from exactly four bytes of its text: longer
  numbers are cut to their first four characters, for texts of fewer than three characters the
  conversion reads past their end, and a hexadecimal constant always dereferences a null pointer.\<close>

theorem valueint_reads_four_bytes:
  assumes "el_attribute e ''valueint'' = Some v" "CHR 0x00 \<notin> set v"
    and "- (2 ^ 31) \<le> atoi (take 4 v)" "atoi (take 4 v) < 2 ^ 31"
  shows "(3 \<le> length v \<longrightarrow> (\<exists>d'. parseElement fp e d = Some d' \<and> getIntValue (tg_value d') = Some (atoi (take 4 v))))
     \<and> (length v < 3 \<longrightarrow> parseElement fp e d = None)
     \<and> (el_attribute h ''valueint'' = None \<and> el_attribute h ''valuefloat'' = None
          \<and> el_attribute h ''valuestring'' = None \<and> el_attribute h ''valuehex'' \<noteq> None \<longrightarrow> parseElement fp h d = None)"
proof (intro conjI impI)
  assume l: "3 \<le> length v"
  let ?i = "atoi (take 4 v)"
  have b: "to_signed 32 (le_nat (int_bytes 32 ?i)) = ?i" using int_bytes_inverse [of 32 ?i] assms(3,4) by simp
  have len: "length (int_bytes 32 ?i) = 4" by (simp add: int_bytes_def)
  have "\<exists>a'. setValue fp k (Some (str_bytes v @ [0])) 4 1 3 a = Some a' \<and> getIntValue a' = Some ?i" for k a
    using sized_text_four [OF l assms(2)] c_atoi_small [OF assms(3,4)] b len
    by (simp add: setValue_def convert_value_def text_code_def copy_out_def getIntValue_def read_mem_def)
  then obtain a' where "setValue fp (queryStringValue e ''name'') (Some (str_bytes v @ [0])) 4 1 3 (tg_value d) = Some a'"
    "getIntValue a' = Some ?i" by blast
  then show "\<exists>d'. parseElement fp e d = Some d' \<and> getIntValue (tg_value d') = Some ?i"
    using assms(1) by (simp add: parseElement_def tag_constant_def Let_def)
next
  assume "length v < 3"
  then have "sized_text (str_bytes v @ [0]) 4 = None" by (simp add: sized_text_def read_mem_def)
  then show "parseElement fp e d = None"
    using assms(1) by (simp add: parseElement_def tag_constant_def Let_def setValue_def convert_value_def text_code_def)
next
  assume "el_attribute h ''valueint'' = None \<and> el_attribute h ''valuefloat'' = None
          \<and> el_attribute h ''valuestring'' = None \<and> el_attribute h ''valuehex'' \<noteq> None"
  then show "parseElement fp h d = None"
    by (auto simp: parseElement_def tag_constant_def Let_def)
qed

theorem valueint_reads_four_bytes_witness:
  "\<forall>fp. \<exists>d'. parseElement fp (Element ''tag'' [(''valueint'', ''12345'')] []) (new_tag Tag_Constraint) = Some d'
     \<and> getIntValue (tg_value d') = Some 1234"
proof -
  have a: "atoi (take 4 ''12345'') = 1234" by code_simp
  show ?thesis
    using valueint_reads_four_bytes [of "Element ''tag'' [(''valueint'', ''12345'')] []" "''12345''" _ "new_tag Tag_Constraint"
        "Element ''tag'' [] []"] a
    by (simp add: el_attribute_def)
qed

end
