(* ===== verification/Ngsi_Json.thy ===== *)
theory Ngsi_Json
  imports Func_Util
begin

text \<open>
  JSON as the agent handles it: the values of the JSON library with the accessors the agent calls
  (a failed assertion of the library is an exception value), the calls the \<open>Serialize\<close> templates make
  on a writer and the document these calls denote, the conversions of
  \<^verbatim>\<open>src/util/json_util.cc\<close>, and the writer for property trees of \<^verbatim>\<open>src/util/json_parser_write.hpp\<close>.
  The text parser, the text printer and the printing of numbers belong to libraries and are fields of
  a parameter.
\<close>

section \<open>Values\<close>

datatype json =
    JNull
  | JBool bool
  | JInt int
  | JDouble "64 word"
  | JString string
  | JArray "json list"
  | JObject "(string \<times> json) list"

definition IsString :: "json \<Rightarrow> bool" where
  "IsString j = (case j of JString _ \<Rightarrow> True | _ \<Rightarrow> False)"

definition IsArray :: "json \<Rightarrow> bool" where
  "IsArray j = (case j of JArray _ \<Rightarrow> True | _ \<Rightarrow> False)"

definition IsObject :: "json \<Rightarrow> bool" where
  "IsObject j = (case j of JObject _ \<Rightarrow> True | _ \<Rightarrow> False)"

text \<open>\<open>FindMember\<close> and what rests on it; the subscript of an absent member is a null value.\<close>

definition FindMember :: "json \<Rightarrow> string \<Rightarrow> json option result" where
  "FindMember j name =
     (case j of JObject ms \<Rightarrow> Inr (map_of ms name) | _ \<Rightarrow> Inl (assertion_failure ''IsObject''))"

definition HasMember :: "json \<Rightarrow> string \<Rightarrow> bool result" where
  "HasMember j name = bind_exn (FindMember j name) (\<lambda>m. Inr (m \<noteq> None))"

definition member :: "json \<Rightarrow> string \<Rightarrow> json result" where
  "member j name = bind_exn (FindMember j name) (\<lambda>m. Inr (case m of Some v \<Rightarrow> v | None \<Rightarrow> JNull))"

definition GetString :: "json \<Rightarrow> string result" where
  "GetString j = (case j of JString s \<Rightarrow> Inr (c_str s) | _ \<Rightarrow> Inl (assertion_failure ''IsString''))"

text \<open>The elements a loop up to \<open>Size()\<close> visits.\<close>

definition elements :: "json \<Rightarrow> json list result" where
  "elements j = (case j of JArray vs \<Rightarrow> Inr vs | _ \<Rightarrow> Inl (assertion_failure ''IsArray''))"

definition member_string :: "json \<Rightarrow> string \<Rightarrow> string result" where
  "member_string j name = bind_exn (member j name) GetString"

text \<open>The two ways the constructors read an optional field: only when it is a string, or whenever it
  is there.\<close>

definition string_field :: "json \<Rightarrow> string \<Rightarrow> string \<Rightarrow> string result" where
  "string_field j name dflt =
     bind_exn (FindMember j name) (\<lambda>m.
       case m of Some v \<Rightarrow> if IsString v then GetString v else Inr dflt | None \<Rightarrow> Inr dflt)"

definition any_field :: "json \<Rightarrow> string \<Rightarrow> string \<Rightarrow> string result" where
  "any_field j name dflt =
     bind_exn (HasMember j name) (\<lambda>h. if h then member_string j name else Inr dflt)"

fun map_exn :: "('a \<Rightarrow> 'b result) \<Rightarrow> 'a list \<Rightarrow> 'b list result" where
  "map_exn f [] = Inr []"
| "map_exn f (x # xs) = bind_exn (f x) (\<lambda>y. bind_exn (map_exn f xs) (\<lambda>ys. Inr (y # ys)))"

text \<open>Whether a member is present and an array: the guard of several constructors.\<close>

definition has_array :: "json \<Rightarrow> string \<Rightarrow> bool result" where
  "has_array j name = bind_exn (FindMember j name) (\<lambda>m. Inr (case m of Some v \<Rightarrow> IsArray v | None \<Rightarrow> False))"

definition missing_field :: "string \<Rightarrow> string \<Rightarrow> string \<Rightarrow> cxx_exn" where
  "missing_field cls text name = runtime_error (cls @ '': '' @ text @ '' ['' @ name @ '']'')"

section \<open>Writing\<close>

datatype jevent = StartObject | EndObject | StartArray | EndArray | WString string | WAtom json

fun events_of :: "json \<Rightarrow> jevent list" where
  "events_of (JString s) = [WString s]"
| "events_of (JArray vs) = [StartArray] @ concat (map events_of vs) @ [EndArray]"
| "events_of (JObject ms) = [StartObject] @ concat (map (\<lambda>m. WString (fst m) # events_of (snd m)) ms) @ [EndObject]"
| "events_of j = [WAtom j]"

text \<open>The document written so far: the open arrays and objects, the latter with the name that waits
  for its value.  A value where a name is due, a scalar at the root, and an end that does not match
  are refused, as the writer's assertions do.\<close>

datatype frame = Root "json option" | Arr "json list" | Obj "(string \<times> json) list" "string option"

fun put :: "json \<Rightarrow> frame list \<Rightarrow> frame list option" where
  "put v [Root None] = (if IsObject v \<or> IsArray v then Some [Root (Some v)] else None)"
| "put v (Arr vs # st) = Some (Arr (vs @ [v]) # st)"
| "put v (Obj ms (Some k) # st) = Some (Obj (ms @ [(k, v)]) None # st)"
| "put (JString k) (Obj ms None # st) = Some (Obj ms (Some k) # st)"
| "put v st = None"

fun write_event :: "jevent \<Rightarrow> frame list \<Rightarrow> frame list option" where
  "write_event StartObject st = Some (Obj [] None # st)"
| "write_event StartArray st = Some (Arr [] # st)"
| "write_event EndObject (Obj ms None # st) = put (JObject ms) st"
| "write_event EndArray (Arr vs # st) = put (JArray vs) st"
| "write_event (WString s) st = put (JString s) st"
| "write_event (WAtom j) st = put j st"
| "write_event e st = None"

fun write_events :: "jevent list \<Rightarrow> frame list \<Rightarrow> frame list option" where
  "write_events [] st = Some st"
| "write_events (e # es) st = Option.bind (write_event e st) (write_events es)"

definition written :: "jevent list \<Rightarrow> json option" where
  "written es = (case write_events es [Root None] of Some [Root d] \<Rightarrow> d | _ \<Rightarrow> None)"

section \<open>The libraries\<close>

text \<open>\<open>jl_parse\<close> gives the message of the error or the document; \<open>jl_number\<close> is \<open>lexical_cast<std::string>\<close> of the number as \<open>double\<close>, \<open>jl_stream\<close> its output by a stream.\<close>

record json_lib =
  jl_parse :: "string \<Rightarrow> string + json"
  jl_print :: "jevent list \<Rightarrow> string"
  jl_number :: "json \<Rightarrow> string"
  jl_stream :: "json \<Rightarrow> string"

definition RESPONSE_MESSAGE_INVALID_PARAMETER :: string where
  "RESPONSE_MESSAGE_INVALID_PARAMETER = ''A parameter of the request is invalid/not allowed''"

text \<open>\<open>get_str_value\<close>: numbers are printed by way of \<open>double\<close>, arrays joined by bars, objects dropped.\<close>

fun get_str_value :: "json_lib \<Rightarrow> json \<Rightarrow> string" where
  "get_str_value lib JNull = []"
| "get_str_value lib (JBool b) = (if b then ''1'' else ''0'')"
| "get_str_value lib (JInt i) = jl_number lib (JInt i)"
| "get_str_value lib (JDouble d) = jl_number lib (JDouble d)"
| "get_str_value lib (JString s) = c_str s"
| "get_str_value lib (JArray vs) = join_with ''|'' (map (get_str_value lib) vs)"
| "get_str_value lib (JObject ms) = []"

definition get_value_from_rapidjson :: "json_lib \<Rightarrow> json \<Rightarrow> string result" where
  "get_value_from_rapidjson lib j =
     (case j of
        JBool b \<Rightarrow> Inr (if b then ''1'' else ''0'')
      | JInt i \<Rightarrow> if - (2 ^ 63) \<le> i \<and> i < 2 ^ 63 then Inr (show_int i) else Inl (assertion_failure ''kInt64Flag'')
      | JString s \<Rightarrow> Inr (c_str s)
      | JDouble d \<Rightarrow> Inr (jl_stream lib (JDouble d))
      | _ \<Rightarrow> Inl (IotaException RESPONSE_MESSAGE_INVALID_PARAMETER
               (''Value '' @ (case j of JNull \<Rightarrow> ''0'' | JArray _ \<Rightarrow> ''4'' | _ \<Rightarrow> ''3'')
                @ '' unknown for conversion [boolean, number, string] are valid types'') 400))"

definition get_map_from_rapidjson ::
  "json_lib \<Rightarrow> json \<Rightarrow> (string, string) std_map \<Rightarrow> (string, string) std_map result" where
  "get_map_from_rapidjson lib j to_map =
     (case j of
        JObject ms \<Rightarrow>
          foldl (\<lambda>r m. bind_exn r (\<lambda>t. bind_exn (get_value_from_rapidjson lib (snd m)) (\<lambda>v.
            Inr (map_insert (c_str (fst m)) v t)))) (Inr to_map) ms
      | _ \<Rightarrow> Inr to_map)"

section \<open>Property trees as text\<close>

definition escape_char :: "char \<Rightarrow> string" where
  "escape_char b =
     (if b = CHR 0x08 then [CHR 0x5C, CHR ''b'']
      else if b = CHR 0x0C then [CHR 0x5C, CHR ''f'']
      else if b = CHR 0x0A then [CHR 0x5C, CHR ''n'']
      else if b = CHR 0x0D then [CHR 0x5C, CHR ''r'']
      else if b = CHR 0x09 then [CHR 0x5C, CHR ''t'']
      else if b = CHR 0x22 then [CHR 0x5C, CHR 0x22]
      else if b = CHR 0x5C then [CHR 0x5C, CHR 0x5C]
      else [b])"

definition create_escapes :: "string \<Rightarrow> string" where
  "create_escapes s = concat (map escape_char s)"

definition blanks :: "nat \<Rightarrow> string" where
  "blanks n = replicate n (CHR '' '')"

definition newline_if :: "bool \<Rightarrow> string" where
  "newline_if pretty = (if pretty then [CHR 0x0A] else [])"

text \<open>One item of an array or object: the separator follows every item but the last.\<close>

fun items_text :: "bool \<Rightarrow> string list \<Rightarrow> string" where
  "items_text pretty [] = []"
| "items_text pretty [t] = t @ newline_if pretty"
| "items_text pretty (t # u # ts) = t @ '','' @ newline_if pretty @ items_text pretty (u # ts)"

fun write_json_helper :: "ptree \<Rightarrow> nat \<Rightarrow> bool \<Rightarrow> string" where
  "write_json_helper (PTree data ch) indent pretty =
     (let margin = (if pretty then blanks (4 * (indent + 1)) else []) in
      if indent > 0 \<and> ch = [] then [CHR 0x22] @ create_escapes data @ [CHR 0x22]
      else if indent > 0 \<and> list_all (\<lambda>c. fst c = []) ch then
        ''['' @ newline_if pretty
        @ items_text pretty (map (\<lambda>c. margin @ write_json_helper (snd c) (indent + 1) pretty) ch)
        @ blanks (4 * indent) @ '']''
      else
        ''{'' @ newline_if pretty
        @ items_text pretty (map (\<lambda>c. margin @ [CHR 0x22] @ create_escapes (fst c) @ [CHR 0x22] @ '':''
            @ (if pretty then if pt_children (snd c) = [] then '' ''
               else [CHR 0x0A] @ blanks (4 * (indent + 1)) else [])
            @ write_json_helper (snd c) (indent + 1) pretty) ch)
        @ (if pretty then blanks (4 * indent) else []) @ ''}'')"

fun verify_json :: "ptree \<Rightarrow> nat \<Rightarrow> bool" where
  "verify_json (PTree data ch) depth \<longleftrightarrow>
     \<not> (depth = 0 \<and> data \<noteq> []) \<and> \<not> (data \<noteq> [] \<and> ch \<noteq> [])
     \<and> list_all (\<lambda>c. verify_json (snd c) (depth + 1)) ch"

definition write_json :: "ptree \<Rightarrow> bool \<Rightarrow> string result" where
  "write_json pt pretty =
     (if verify_json pt 0 then Inr (write_json_helper pt 0 pretty @ [CHR 0x0A])
      else Inl (runtime_error ''ptree contains data that cannot be represented in JSON format''))"

section \<open>Lemmas\<close>

lemma write_events_append: "write_events (es @ fs) st = Option.bind (write_events es st) (write_events fs)"
  by (induction es arbitrary: st) (auto split: Option.bind_splits)

lemma bind_write_nil [simp]: "Option.bind r (write_events []) = r"
  by (cases r) simp_all

lemma write_events_of: "write_events (events_of j) st = put j st"
proof (induction j arbitrary: st)
  case (JArray vs)
  have "write_events (concat (map events_of ws)) (Arr us # st) = Some (Arr (us @ ws) # st)"
    if "set ws \<subseteq> set vs" for us ws
    using that by (induction ws arbitrary: us) (simp_all add: write_events_append JArray)
  from this [of vs "[]"] show ?case by (simp add: write_events_append)
next
  case (JObject ms)
  have "write_events (concat (map (\<lambda>m. WString (fst m) # events_of (snd m)) ws)) (Obj us None # st)
      = Some (Obj (us @ ws) None # st)" if "set ws \<subseteq> set ms" for us ws
    using that
  proof (induction ws arbitrary: us)
    case (Cons m ws)
    have "write_events (events_of (snd m)) st' = put (snd m) st'" for st'
      using JObject [of m "snd m"] Cons.prems by (cases m) auto
    then show ?case using Cons by (simp add: write_events_append)
  qed simp
  from this [of ms "[]"] show ?case by (simp add: write_events_append)
qed simp_all

text \<open>The calls made for a document denote that document.\<close>

lemma written_events_of: "IsObject j \<or> IsArray j \<Longrightarrow> written (events_of j) = Some j"
  by (simp add: written_def write_events_of)

lemma FindMember_object [simp]: "FindMember (JObject ms) name = Inr (map_of ms name)"
  by (simp add: FindMember_def)

lemma HasMember_object [simp]: "HasMember (JObject ms) name = Inr (map_of ms name \<noteq> None)"
  by (simp add: HasMember_def)

lemma has_array_object [simp]:
  "has_array (JObject ms) name = Inr (case map_of ms name of Some v \<Rightarrow> IsArray v | None \<Rightarrow> False)"
  by (simp add: has_array_def)

lemma member_object [simp]:
  "member (JObject ms) name = Inr (case map_of ms name of Some v \<Rightarrow> v | None \<Rightarrow> JNull)"
  by (simp add: member_def)

lemma json_kinds [simp]:
  "IsObject (JObject ms)" "IsArray (JArray vs)" "IsString (JString s)"
  "\<not> IsObject (JArray vs)" "\<not> IsObject (JString s)" "\<not> IsArray (JObject ms)" "\<not> IsArray (JString s)"
  "\<not> IsString (JObject ms)" "\<not> IsString (JArray vs)"
  "elements (JArray vs) = Inr vs" "GetString (JString s) = Inr (c_str s)"
  by (simp_all add: IsObject_def IsArray_def IsString_def elements_def GetString_def)

text \<open>Strings that survive the passage through C strings, and through \<open>render_identifier\<close>.\<close>

definition nul_free :: "string \<Rightarrow> bool" where
  "nul_free s \<longleftrightarrow> CHR 0x00 \<notin> set s"

lemma c_str_nul_free [simp]: "nul_free s \<Longrightarrow> c_str s = s"
  by (simp add: nul_free_def c_str_no_nul)

definition identifier_ok :: "string \<Rightarrow> bool" where
  "identifier_ok s \<longleftrightarrow> nul_free s \<and> render_identifier s = s"

lemma identifier_okD [simp]:
  "identifier_ok s \<Longrightarrow> c_str s = s" "identifier_ok s \<Longrightarrow> render_identifier s = s"
  by (simp_all add: identifier_ok_def)

lemma map_exn_map:
  "(\<And>x. x \<in> set xs \<Longrightarrow> f (g x) = Inr x) \<Longrightarrow> map_exn f (map g xs) = Inr xs"
  by (induction xs) auto

text \<open>Reading a quoted string back, as any JSON reader does for these escapes.\<close>

fun read_quoted :: "string \<Rightarrow> (string \<times> string) option" where
  "read_quoted [] = None"
| "read_quoted (c # cs) =
     (if c = CHR 0x22 then Some ([], cs)
      else if c = CHR 0x5C then
        (case cs of
           [] \<Rightarrow> None
         | e # r \<Rightarrow>
             Option.bind
               (if e = CHR ''b'' then Some (CHR 0x08) else if e = CHR ''f'' then Some (CHR 0x0C)
                else if e = CHR ''n'' then Some (CHR 0x0A) else if e = CHR ''r'' then Some (CHR 0x0D)
                else if e = CHR ''t'' then Some (CHR 0x09) else if e = CHR 0x22 then Some e
                else if e = CHR 0x5C then Some e else None)
               (\<lambda>x. map_option (apfst (Cons x)) (read_quoted r)))
      else map_option (apfst (Cons c)) (read_quoted cs))"

lemma read_quoted_escape:
  "read_quoted (escape_char c @ r) = map_option (apfst (Cons c)) (read_quoted r)"
  by (simp add: escape_char_def)

lemma read_quoted_escapes: "read_quoted (create_escapes s @ CHR 0x22 # r) = Some (s, r)"
  by (induction s) (simp_all add: create_escapes_def read_quoted_escape)

section \<open>Objects with a JSON form\<close>

text \<open>
  What the NGSI classes share: \<open>enc\<close> is the \<open>Serialize\<close> of a class, \<open>dec\<close> its constructor from a JSON
  value, \<open>ok\<close> describes the objects that can be represented and \<open>doc\<close> is their document.
\<close>

locale json_codec =
  fixes enc :: "'a \<Rightarrow> jevent list" and dec :: "json \<Rightarrow> 'a result"
    and ok :: "'a \<Rightarrow> bool" and doc :: "'a \<Rightarrow> json"
  assumes enc_doc: "ok x \<Longrightarrow> enc x = events_of (doc x)"
    and doc_object: "IsObject (doc x)"
    and dec_doc: "ok x \<Longrightarrow> dec (doc x) = Inr x"
begin

lemma written_enc: "ok x \<Longrightarrow> written (enc x) = Some (doc x)"
  by (simp add: enc_doc written_events_of doc_object)

lemma roundtrip: "ok x \<Longrightarrow> \<exists>j. written (enc x) = Some j \<and> dec j = Inr x"
  by (simp add: written_enc dec_doc)

lemma enc_list: "list_all ok xs \<Longrightarrow> concat (map enc xs) = concat (map events_of (map doc xs))"
  by (induction xs) (simp_all add: enc_doc)

lemma dec_list: "list_all ok xs \<Longrightarrow> map_exn dec (map doc xs) = Inr xs"
  by (induction xs) (simp_all add: dec_doc)

end

end
