(* ===== verification/Ngsi_Attribute.thy ===== *)
theory Ngsi_Attribute
  imports Ngsi_Json
begin

text \<open>
  The small NGSI objects (\<^verbatim>\<open>src/ngsi/Attribute.cc\<close>, \<^verbatim>\<open>AttributeRegister.cc\<close>, \<^verbatim>\<open>Entity.cc\<close>,
  \<^verbatim>\<open>NotifyCondition.cc\<close>): construction from fields, from a JSON value and from text, and the calls
  their \<open>Serialize\<close> makes on a writer.  The constructors from text copy it to a buffer as a C string,
  so they see it up to its first NUL.
\<close>

section \<open>Attributes\<close>

datatype Attribute =
  Attribute (a_name: string) (a_type: string) (a_value: string) (a_metadata: "Attribute list")
    (a_value_compound: "Attribute list") (a_compound_as_object: bool)

definition EMPTY_VALUE :: string where
  "EMPTY_VALUE = '' ''"

definition new_Attribute :: "string \<Rightarrow> string \<Rightarrow> string \<Rightarrow> Attribute" where
  "new_Attribute name type val =
     Attribute (if name = [] then EMPTY_VALUE else render_identifier name) (render_identifier type)
       (if val = [] then EMPTY_VALUE else val) [] [] False"

definition new_Attribute_compound :: "string \<Rightarrow> string \<Rightarrow> Attribute" where
  "new_Attribute_compound name type =
     Attribute (if name = [] then EMPTY_VALUE else render_identifier name) (render_identifier type) [] [] [] False"

definition set_value :: "string \<Rightarrow> Attribute \<Rightarrow> Attribute" where
  "set_value v a = Attribute (a_name a) (a_type a) v (a_metadata a) (a_value_compound a) (a_compound_as_object a)"

definition set_name :: "string \<Rightarrow> Attribute \<Rightarrow> Attribute" where
  "set_name n a =
     Attribute (render_identifier n) (a_type a) (a_value a) (a_metadata a) (a_value_compound a) (a_compound_as_object a)"

definition set_type :: "string \<Rightarrow> Attribute \<Rightarrow> Attribute" where
  "set_type t a =
     Attribute (a_name a) (render_identifier t) (a_value a) (a_metadata a) (a_value_compound a) (a_compound_as_object a)"

definition add_metadata :: "Attribute \<Rightarrow> Attribute \<Rightarrow> Attribute" where
  "add_metadata m a =
     Attribute (a_name a) (a_type a) (a_value a) (a_metadata a @ [m]) (a_value_compound a) (a_compound_as_object a)"

definition add_value_compound :: "Attribute \<Rightarrow> bool \<Rightarrow> Attribute \<Rightarrow> Attribute" where
  "add_value_compound v compound_object a =
     (if \<not> compound_object
      then Attribute (a_name a) (a_type a) (a_value a) (a_metadata a) (a_value_compound a @ [v]) (a_compound_as_object a)
      else Attribute (a_name a) (a_type a) (a_value v) (a_metadata a) (a_value_compound a) True)"

text \<open>An element of a compound value or of the metadata: three strings.\<close>

definition named_value :: "json \<Rightarrow> Attribute result" where
  "named_value j =
     bind_exn (member_string j ''name'') (\<lambda>n.
     bind_exn (member_string j ''type'') (\<lambda>t.
     bind_exn (member_string j ''value'') (\<lambda>v. Inr (new_Attribute n t v))))"

text \<open>The field \<open>value\<close>, as value text, compound values and the flag.  The constructors differ in how
  they read a plain value.\<close>

definition read_value ::
  "json_lib \<Rightarrow> (json \<Rightarrow> string result) \<Rightarrow> string \<Rightarrow> json \<Rightarrow> (string \<times> Attribute list \<times> bool) result" where
  "read_value lib plain type data =
     (if type = ''compound'' then
        (case data of
           JArray vs \<Rightarrow> bind_exn (map_exn named_value vs) (\<lambda>cs. Inr ([], cs, False))
         | _ \<Rightarrow> Inr (c_str (jl_print lib (events_of data)), [], True))
      else if type = ''command'' \<and> IsObject data then Inr (c_str (jl_print lib (events_of data)), [], False)
      else bind_exn (plain data) (\<lambda>s. Inr (if s = [] then EMPTY_VALUE else s, [], False)))"

definition read_metadatas :: "json \<Rightarrow> Attribute list result" where
  "read_metadatas j =
     bind_exn (HasMember j ''metadatas'') (\<lambda>h.
       if h then
         bind_exn (member j ''metadatas'') (\<lambda>m.
           case m of JArray vs \<Rightarrow> map_exn named_value vs
           | _ \<Rightarrow> Inl (missing_field ''Attribute'' ''invalid type field'' ''metadatas''))
       else Inr [])"

definition Attribute_value :: "json_lib \<Rightarrow> json \<Rightarrow> Attribute result" where
  "Attribute_value lib j =
     (if \<not> IsObject j then Inl (runtime_error ''Invalid Object'')
      else bind_exn (HasMember j ''name'') (\<lambda>h.
        if \<not> h then Inl (missing_field ''Attribute'' ''missing field'' ''name'')
        else bind_exn (member_string j ''name'') (\<lambda>n.
             bind_exn (any_field j ''type'' []) (\<lambda>t0.
             let t = render_identifier t0 in
             bind_exn (HasMember j ''value'') (\<lambda>hv.
             bind_exn (if hv then bind_exn (member j ''value'') (read_value lib (\<lambda>d. Inr (get_str_value lib d)) t)
                       else Inr ([], [], False)) (\<lambda>(v, cs, ob).
             bind_exn (read_metadatas j) (\<lambda>ms.
             Inr (Attribute (render_identifier n) t v ms cs ob))))))))"

definition parse_document :: "json_lib \<Rightarrow> string \<Rightarrow> string \<Rightarrow> json result" where
  "parse_document lib cls s =
     (case jl_parse lib (c_str s) of Inl e \<Rightarrow> Inl (runtime_error (cls @ '': '' @ e)) | Inr j \<Rightarrow> Inr j)"

definition Attribute_text :: "json_lib \<Rightarrow> string \<Rightarrow> Attribute result" where
  "Attribute_text lib s =
     bind_exn (parse_document lib ''Attribute'' s) (\<lambda>j.
     bind_exn (HasMember j ''name'') (\<lambda>h.
       if \<not> h then Inl (missing_field ''Attribute'' ''missing field'' ''name'')
       else bind_exn (member_string j ''name'') (\<lambda>n.
            bind_exn (any_field j ''type'' []) (\<lambda>t0.
            let t = render_identifier t0; n' = render_identifier n in
            bind_exn (HasMember j ''value'') (\<lambda>hv.
            bind_exn (if hv then bind_exn (member j ''value'') (read_value lib GetString t)
                      else Inr (EMPTY_VALUE, [], False)) (\<lambda>(v, cs, ob).
            bind_exn (read_metadatas j) (\<lambda>ms.
            Inr (Attribute (if n' = [] then EMPTY_VALUE else n') t v ms cs ob))))))))"

text \<open>A compound value without parts is parsed again from its text; if that fails, nothing is written
  for it.\<close>

fun Serialize_attribute :: "json_lib \<Rightarrow> Attribute \<Rightarrow> jevent list" where
  "Serialize_attribute lib (Attribute n t v ms cs ob) =
     [StartObject, WString ''name'', WString n, WString ''type'', WString t, WString ''value'']
     @ (if t \<noteq> ''compound'' then [WString v]
        else if cs \<noteq> [] then [StartArray] @ concat (map (Serialize_attribute lib) cs) @ [EndArray]
        else case jl_parse lib (c_str (if v = [] then ''{}'' else v)) of Inr d \<Rightarrow> events_of d | Inl _ \<Rightarrow> [])
     @ (if ms \<noteq> [] then [WString ''metadatas'', StartArray] @ concat (map (Serialize_attribute lib) ms) @ [EndArray]
        else [])
     @ [EndObject]"

section \<open>Registered attributes\<close>

record AttributeRegister =
  ar_name :: string
  ar_type :: string
  ar_is_domain :: string

definition AttributeRegister_value :: "json \<Rightarrow> AttributeRegister result" where
  "AttributeRegister_value j =
     (if \<not> IsObject j then Inl (runtime_error ''Invalid Object'')
      else bind_exn (HasMember j ''name'') (\<lambda>h.
        if \<not> h then Inl (missing_field ''AttributeRegister'' '' missing field'' ''name'')
        else bind_exn (member_string j ''name'') (\<lambda>n.
             bind_exn (any_field j ''type'' []) (\<lambda>t.
             bind_exn (any_field j ''isDomain'' []) (\<lambda>d.
             Inr \<lparr> ar_name = n, ar_type = t, ar_is_domain = d \<rparr>)))))"

definition AttributeRegister_text :: "json_lib \<Rightarrow> string \<Rightarrow> AttributeRegister result" where
  "AttributeRegister_text lib s =
     bind_exn (parse_document lib ''AttributeRegister'' s) (\<lambda>j.
     bind_exn (HasMember j ''name'') (\<lambda>h.
       if \<not> h then Inl (missing_field ''AttributeRegister'' '' missing field'' ''name'')
       else bind_exn (member_string j ''name'') (\<lambda>n.
            bind_exn (string_field j ''type'' []) (\<lambda>t.
            bind_exn (string_field j ''isDomain'' []) (\<lambda>d.
            Inr \<lparr> ar_name = n, ar_type = t, ar_is_domain = d \<rparr>)))))"

definition Serialize_register :: "AttributeRegister \<Rightarrow> jevent list" where
  "Serialize_register a =
     [StartObject, WString ''name'', WString (ar_name a), WString ''type'', WString (ar_type a),
      WString ''isDomain'', WString (ar_is_domain a), EndObject]"

section \<open>Entities\<close>

record Entity =
  en_id :: string
  en_type :: string
  en_is_pattern :: string

definition is_string_member :: "json \<Rightarrow> string \<Rightarrow> bool result" where
  "is_string_member j name =
     bind_exn (FindMember j name) (\<lambda>m. Inr (case m of Some v \<Rightarrow> IsString v | None \<Rightarrow> False))"

definition entity_fields :: "json \<Rightarrow> Entity result" where
  "entity_fields j =
     bind_exn (is_string_member j ''id'') (\<lambda>h.
       if \<not> h then Inl (missing_field ''Entity'' ''missing field'' ''id'')
       else bind_exn (member_string j ''id'') (\<lambda>i.
            bind_exn (string_field j ''type'' []) (\<lambda>t.
            bind_exn (string_field j ''isPattern'' []) (\<lambda>p.
            Inr \<lparr> en_id = i, en_type = t, en_is_pattern = p \<rparr>))))"

definition Entity_value :: "json \<Rightarrow> Entity result" where
  "Entity_value j =
     (if \<not> IsObject j then Inl (missing_field ''Entity'' ''missing field'' ''id'') else entity_fields j)"

definition Entity_text :: "json_lib \<Rightarrow> string \<Rightarrow> Entity result" where
  "Entity_text lib s = bind_exn (parse_document lib ''Entity'' s) entity_fields"

definition Serialize_entity :: "Entity \<Rightarrow> jevent list" where
  "Serialize_entity e =
     [StartObject, WString ''id'', WString (en_id e), WString ''type'', WString (en_type e),
      WString ''isPattern'', WString (en_is_pattern e), EndObject]"

section \<open>Notification conditions\<close>

record NotifyCondition =
  nc_type :: string
  nc_values :: "string list"

definition condition_fields :: "json \<Rightarrow> NotifyCondition result" where
  "condition_fields j =
     bind_exn (is_string_member j ''type'') (\<lambda>ht.
     bind_exn (has_array j ''condValues'') (\<lambda>hv.
       if \<not> ht \<or> \<not> hv
       then Inl (missing_field ''NotifyCondition'' ''invalid or missing field'' ''type/condValues'')
       else bind_exn (member_string j ''type'') (\<lambda>t.
            bind_exn (bind_exn (member j ''condValues'') elements) (\<lambda>vs.
            bind_exn (map_exn GetString vs) (\<lambda>ss.
            Inr \<lparr> nc_type = t, nc_values = ss \<rparr>)))))"

definition NotifyCondition_value :: "json \<Rightarrow> NotifyCondition result" where
  "NotifyCondition_value j =
     (if \<not> IsObject j
      then Inl (missing_field ''NotifyCondition'' ''invalid or missing field'' ''type/condValues'')
      else condition_fields j)"

definition NotifyCondition_text :: "json_lib \<Rightarrow> string \<Rightarrow> NotifyCondition result" where
  "NotifyCondition_text lib s = bind_exn (parse_document lib ''NotifyCondition'' s) condition_fields"

definition Serialize_condition :: "NotifyCondition \<Rightarrow> jevent list" where
  "Serialize_condition c =
     [StartObject, WString ''type'', WString (nc_type c), WString ''condValues'', StartArray]
     @ map WString (nc_values c) @ [EndArray, EndObject]"

section \<open>Round trips\<close>

lemmas field_simps_json = member_string_def string_field_def any_field_def is_string_member_def

text \<open>The parts of attributes: no parts of their own, and nothing the constructors would change.\<close>

definition leaf_ok :: "Attribute \<Rightarrow> bool" where
  "leaf_ok a \<longleftrightarrow> identifier_ok (a_name a) \<and> a_name a \<noteq> [] \<and> identifier_ok (a_type a) \<and> a_type a \<noteq> ''compound''
     \<and> nul_free (a_value a) \<and> a_value a \<noteq> [] \<and> a_metadata a = [] \<and> a_value_compound a = []
     \<and> \<not> a_compound_as_object a"

definition leaf_doc :: "Attribute \<Rightarrow> json" where
  "leaf_doc a = JObject [(''name'', JString (a_name a)), (''type'', JString (a_type a)), (''value'', JString (a_value a))]"

lemma leaf_ok_new: "leaf_ok a \<Longrightarrow> new_Attribute (a_name a) (a_type a) (a_value a) = a"
  by (cases a) (simp add: leaf_ok_def new_Attribute_def)

interpretation leaf: json_codec "Serialize_attribute lib" named_value leaf_ok leaf_doc
  for lib
proof
  fix x assume "leaf_ok x"
  then show "Serialize_attribute lib x = events_of (leaf_doc x)"
    by (cases x) (simp add: leaf_ok_def leaf_doc_def)
next
  fix x assume "leaf_ok x"
  then show "named_value (leaf_doc x) = Inr x"
    using leaf_ok_new [of x]
    by (simp add: leaf_ok_def leaf_doc_def named_value_def field_simps_json)
qed (simp add: leaf_doc_def)

text \<open>A compound attribute has parts, or is an object whose text is the one the printer gives.\<close>

definition attr_ok :: "json_lib \<Rightarrow> Attribute \<Rightarrow> bool" where
  "attr_ok lib a \<longleftrightarrow> identifier_ok (a_name a) \<and> identifier_ok (a_type a) \<and> list_all leaf_ok (a_metadata a)
     \<and> (if a_type a \<noteq> ''compound''
        then nul_free (a_value a) \<and> a_value a \<noteq> [] \<and> a_value_compound a = [] \<and> \<not> a_compound_as_object a
        else if a_value_compound a \<noteq> []
        then a_value a = [] \<and> list_all leaf_ok (a_value_compound a) \<and> \<not> a_compound_as_object a
        else a_value a \<noteq> [] \<and> nul_free (a_value a) \<and> a_compound_as_object a
             \<and> (case jl_parse lib (a_value a) of Inr d \<Rightarrow> jl_print lib (events_of d) = a_value a \<and> \<not> IsArray d
                | Inl _ \<Rightarrow> False))"

definition value_doc :: "json_lib \<Rightarrow> Attribute \<Rightarrow> json" where
  "value_doc lib a =
     (if a_type a \<noteq> ''compound'' then JString (a_value a)
      else if a_value_compound a \<noteq> [] then JArray (map leaf_doc (a_value_compound a))
      else case jl_parse lib (a_value a) of Inr d \<Rightarrow> d | Inl _ \<Rightarrow> JNull)"

definition attribute_doc :: "json_lib \<Rightarrow> Attribute \<Rightarrow> json" where
  "attribute_doc lib a =
     JObject ([(''name'', JString (a_name a)), (''type'', JString (a_type a)), (''value'', value_doc lib a)]
       @ (if a_metadata a \<noteq> [] then [(''metadatas'', JArray (map leaf_doc (a_metadata a)))] else []))"

lemma attr_value_codec:
  assumes "attr_ok lib a"
  shows "read_value lib (\<lambda>d. Inr (get_str_value lib d)) (a_type a) (value_doc lib a)
       = Inr (a_value a, a_value_compound a, a_compound_as_object a)"
    and "read_value lib GetString (a_type a) (value_doc lib a) = Inr (a_value a, a_value_compound a, a_compound_as_object a)"
proof -
  have "read_value lib p (a_type a) (value_doc lib a) = Inr (a_value a, a_value_compound a, a_compound_as_object a)"
    if p: "\<And>s. nul_free s \<Longrightarrow> p (JString s) = Inr s" for p
  proof (cases "a_type a = ''compound''")
    case False
    then show ?thesis using assms(1) p by (simp add: attr_ok_def read_value_def value_doc_def)
  next
    case comp: True
    show ?thesis
    proof (cases "a_value_compound a = []")
      case False
      then show ?thesis using comp assms(1) leaf.dec_list [of "a_value_compound a"]
        by (simp add: attr_ok_def read_value_def value_doc_def)
    next
      case True
      then obtain d where d: "jl_parse lib (a_value a) = Inr d" "jl_print lib (events_of d) = a_value a" "\<not> IsArray d"
        using comp assms(1) by (auto simp: attr_ok_def split: sum.splits)
      then have "\<And>vs. d \<noteq> JArray vs" by auto
      then show ?thesis using comp True assms(1) d
        by (auto simp: attr_ok_def read_value_def value_doc_def split: json.split)
    qed
  qed
  from this [of "\<lambda>d. Inr (get_str_value lib d)"] this [of GetString]
  show "read_value lib (\<lambda>d. Inr (get_str_value lib d)) (a_type a) (value_doc lib a)
       = Inr (a_value a, a_value_compound a, a_compound_as_object a)"
    "read_value lib GetString (a_type a) (value_doc lib a) = Inr (a_value a, a_value_compound a, a_compound_as_object a)"
    by simp_all
qed

lemma read_metadatas_doc:
  assumes "list_all leaf_ok (a_metadata a)"
  shows "read_metadatas (attribute_doc lib a) = Inr (a_metadata a)"
  using leaf.dec_list [OF assms] by (simp add: read_metadatas_def attribute_doc_def)

lemma attribute_doc_fields [simp]:
  "IsObject (attribute_doc lib a)" "HasMember (attribute_doc lib a) ''name'' = Inr True"
  "HasMember (attribute_doc lib a) ''value'' = Inr True"
  "member_string (attribute_doc lib a) ''name'' = Inr (c_str (a_name a))"
  "any_field (attribute_doc lib a) ''type'' [] = Inr (c_str (a_type a))"
  "member (attribute_doc lib a) ''value'' = Inr (value_doc lib a)"
  by (simp_all add: attribute_doc_def field_simps_json)

interpretation attr: json_codec "Serialize_attribute lib" "Attribute_value lib" "attr_ok lib" "attribute_doc lib"
  for lib
proof
  fix x assume ok: "attr_ok lib x"
  have "concat (map (Serialize_attribute lib) (a_metadata x)) = concat (map events_of (map leaf_doc (a_metadata x)))"
    using ok by (intro leaf.enc_list) (simp add: attr_ok_def)
  moreover have "concat (map (Serialize_attribute lib) (a_value_compound x))
      = concat (map events_of (map leaf_doc (a_value_compound x)))"
    using ok by (intro leaf.enc_list) (auto simp: attr_ok_def split: if_splits)
  ultimately show "Serialize_attribute lib x = events_of (attribute_doc lib x)"
    using ok by (cases x) (auto simp: attr_ok_def attribute_doc_def value_doc_def split: sum.splits if_splits)
next
  fix x assume ok: "attr_ok lib x"
  then have "identifier_ok (a_name x)" "identifier_ok (a_type x)" "list_all leaf_ok (a_metadata x)"
    by (simp_all add: attr_ok_def)
  then show "Attribute_value lib (attribute_doc lib x) = Inr x"
    using attr_value_codec(1) [OF ok]
    by (simp add: Attribute_value_def read_metadatas_doc)
qed simp

definition register_ok :: "AttributeRegister \<Rightarrow> bool" where
  "register_ok a \<longleftrightarrow> nul_free (ar_name a) \<and> nul_free (ar_type a) \<and> nul_free (ar_is_domain a)"

definition register_doc :: "AttributeRegister \<Rightarrow> json" where
  "register_doc a = JObject [(''name'', JString (ar_name a)), (''type'', JString (ar_type a)), (''isDomain'', JString (ar_is_domain a))]"

interpretation register: json_codec Serialize_register AttributeRegister_value register_ok register_doc
  by unfold_locales
     (simp_all add: register_ok_def register_doc_def Serialize_register_def AttributeRegister_value_def field_simps_json)

definition entity_ok :: "Entity \<Rightarrow> bool" where
  "entity_ok e \<longleftrightarrow> nul_free (en_id e) \<and> nul_free (en_type e) \<and> nul_free (en_is_pattern e)"

definition entity_doc :: "Entity \<Rightarrow> json" where
  "entity_doc e = JObject [(''id'', JString (en_id e)), (''type'', JString (en_type e)), (''isPattern'', JString (en_is_pattern e))]"

interpretation entity: json_codec Serialize_entity Entity_value entity_ok entity_doc
  by unfold_locales
     (simp_all add: entity_ok_def entity_doc_def Serialize_entity_def Entity_value_def entity_fields_def field_simps_json)

definition condition_ok :: "NotifyCondition \<Rightarrow> bool" where
  "condition_ok c \<longleftrightarrow> nul_free (nc_type c) \<and> list_all nul_free (nc_values c)"

definition condition_doc :: "NotifyCondition \<Rightarrow> json" where
  "condition_doc c = JObject [(''type'', JString (nc_type c)), (''condValues'', JArray (map JString (nc_values c)))]"

lemma events_of_strings: "concat (map events_of (map JString ss)) = map WString ss"
  by (induction ss) simp_all

lemma GetString_strings: "list_all nul_free ss \<Longrightarrow> map_exn GetString (map JString ss) = Inr ss"
  by (induction ss) simp_all

interpretation condition: json_codec Serialize_condition NotifyCondition_value condition_ok condition_doc
  by unfold_locales
     (simp_all add: condition_ok_def condition_doc_def Serialize_condition_def NotifyCondition_value_def
       condition_fields_def field_simps_json GetString_strings events_of_strings [unfolded map_map])

end
