(* ===== verification/Ngsi_Element.thy ===== *)
theory Ngsi_Element
  imports Ngsi_Attribute Device_Cache
begin

text \<open>
  Context elements (\<^verbatim>\<open>src/ngsi/ContextElement.cc\<close>): the identity of an entity derived from device and
  service, attributes renamed by the mappings of the device or the service, and static attributes.
  \<open>add_attribute\<close> calls itself on the renamed attribute; it is a partial function, so a call that does
  not return is \<open>None\<close>.  The device is shared with its cache: what the lookup of a mapping changes in
  it is part of the result.  The current time is a parameter.
\<close>

section \<open>The code\<close>

record ContextElement =
  ce_id :: string
  ce_type :: string
  ce_is_pattern :: string
  ce_attributes :: "Attribute list"
  ce_service_info :: ptree
  ce_device_info :: "Device option"

definition blank_element :: ContextElement where
  "blank_element =
     \<lparr> ce_id = [], ce_type = [], ce_is_pattern = [], ce_attributes = [],
       ce_service_info = PTree [] [], ce_device_info = None \<rparr>"

definition new_ContextElement :: "string \<Rightarrow> string \<Rightarrow> string \<Rightarrow> ContextElement" where
  "new_ContextElement i t p =
     blank_element\<lparr> ce_id := render_identifier i, ce_type := render_identifier t, ce_is_pattern := p \<rparr>"

text \<open>Type and identifier of the entity.\<close>

definition format_element :: "ContextElement \<Rightarrow> ContextElement" where
  "format_element el =
     (let service_entity_type = pt_get (ce_service_info el) ''entity_type'' [];
          fallback = (if ce_type el \<noteq> [] then ce_type el
                      else if service_entity_type \<noteq> [] then service_entity_type else ''thing'')
      in case ce_device_info el of
           Some d \<Rightarrow>
             let etype = (if entity_type d \<noteq> [] \<and> entity_type d \<noteq> ''default'' then entity_type d else fallback);
                 eid = (if entity_name d \<noteq> [] \<and> entity_name d \<noteq> ''default'' then entity_name d
                        else if ce_type el = [] then etype @ '':'' @ dev_name d else ce_id el)
             in el\<lparr> ce_type := etype, ce_id := eid \<rparr>
         | None \<Rightarrow>
             el\<lparr> ce_type := fallback,
                 ce_id := (if ce_type el = [] then fallback @ '':'' @ ce_id el else ce_id el) \<rparr>)"

text \<open>The mapping the service configures for an attribute, as the text of its subtree.\<close>

fun service_mapping :: "string \<Rightarrow> (string \<times> ptree) list \<Rightarrow> string result" where
  "service_mapping name [] = Inr []"
| "service_mapping name (c # cs) =
     (if pt_get (snd c) ''object_id'' [] = name then write_json (snd c) True else service_mapping name cs)"

definition attr_mapping :: "string \<Rightarrow> ContextElement \<Rightarrow> (string \<times> ContextElement) result" where
  "attr_mapping name el =
     (let (m, el1) = (case ce_device_info el of
                        Some d \<Rightarrow> let (m, d') = get_attribute name d in (m, el\<lparr> ce_device_info := Some d' \<rparr>)
                      | None \<Rightarrow> ([], el))
      in if m \<noteq> [] then Inr (m, el1)
         else case map_of (pt_children (ce_service_info el)) ''attributes'' of
                None \<Rightarrow> Inr ([], el1)
              | Some t \<Rightarrow> bind_exn (service_mapping name (pt_children t)) (\<lambda>s. Inr (s, el1)))"

definition mapped_attribute :: "Attribute \<Rightarrow> Attribute \<Rightarrow> Attribute" where
  "mapped_attribute att attribute =
     (let type0 = (if a_type att = [] \<or> a_type attribute = ''compound'' then a_type attribute else a_type att);
          type = (if type0 = [] then ''string'' else type0);
          m0 = new_Attribute (a_name att) type [];
          m1 = (if type = ''compound'' then
                  if \<not> a_compound_as_object attribute
                  then fold (\<lambda>v. add_value_compound v False) (a_value_compound attribute) m0
                  else set_value (a_value attribute) m0
                else if type = ''coords'' then
                  add_metadata (new_Attribute ''location'' ''string'' ''WGS84'')
                    (set_value (map (\<lambda>c. if c = CHR ''/'' then CHR '','' else c) (a_value attribute)) m0)
                else set_value (a_value attribute) m0)
      in fold add_metadata (a_metadata att) (fold add_metadata (a_metadata attribute) m1))"

definition empty_value :: "Attribute \<Rightarrow> bool" where
  "empty_value a =
     (if a_type a = ''compound'' \<and> \<not> a_compound_as_object a then a_value_compound a = [] else a_value a = [])"

text \<open>One activation of \<open>add_attribute\<close>, up to the recursive call.\<close>

datatype add_next = Finished ContextElement | Again Attribute ContextElement

definition add_step :: "json_lib \<Rightarrow> Attribute \<Rightarrow> ContextElement \<Rightarrow> add_next result" where
  "add_step lib attribute el =
     (let a = (if a_type attribute = [] then set_type ''string'' attribute else attribute) in
      if empty_value a then Inr (Finished el)
      else bind_exn (attr_mapping (a_name a) el) (\<lambda>(m, el1).
        if m = [] then Inr (Finished (el1\<lparr> ce_attributes := ce_attributes el1 @ [a] \<rparr>))
        else case jl_parse lib (c_str m) of
               Inl _ \<Rightarrow> Inr (Finished el1)
             | Inr d \<Rightarrow> bind_exn (Attribute_value lib d) (\<lambda>att. Inr (Again (mapped_attribute att a) el1))))"

partial_function (option) add_attribute ::
  "json_lib \<Rightarrow> Attribute \<Rightarrow> ContextElement \<Rightarrow> ContextElement result option" where
  "add_attribute lib a el =
     (case add_step lib a el of
        Inl e \<Rightarrow> Some (Inl e)
      | Inr r \<Rightarrow> (case r of Finished el' \<Rightarrow> Some (Inr el') | Again a' el' \<Rightarrow> add_attribute lib a' el'))"

definition bind_run :: "'a result option \<Rightarrow> ('a \<Rightarrow> 'b result option) \<Rightarrow> 'b result option" where
  "bind_run r f = (case r of None \<Rightarrow> None | Some (Inl e) \<Rightarrow> Some (Inl e) | Some (Inr x) \<Rightarrow> f x)"

definition ce_exists :: "string \<Rightarrow> ContextElement \<Rightarrow> bool" where
  "ce_exists name el = list_ex (\<lambda>a. a_name a = name) (ce_attributes el)"

definition stamp :: "string \<Rightarrow> Attribute" where
  "stamp now = new_Attribute ''TimeInstant'' ''ISO8601'' now"

text \<open>A static attribute given as text: an unreadable one is skipped, one that is not an attribute throws.\<close>

definition add_static :: "json_lib \<Rightarrow> string \<Rightarrow> string \<Rightarrow> ContextElement \<Rightarrow> ContextElement result option" where
  "add_static lib now text el =
     (case jl_parse lib (c_str text) of
        Inl _ \<Rightarrow> Some (Inr el)
      | Inr d \<Rightarrow> bind_run (Some (Attribute_value lib d)) (\<lambda>att. add_attribute lib (add_metadata (stamp now) att) el))"

fun device_statics ::
  "json_lib \<Rightarrow> string \<Rightarrow> (string \<times> string) list \<Rightarrow> ContextElement \<Rightarrow> ContextElement result option" where
  "device_statics lib now [] el = Some (Inr el)"
| "device_statics lib now (s # ss) el = bind_run (add_static lib now (snd s) el) (device_statics lib now ss)"

fun service_statics ::
  "json_lib \<Rightarrow> string \<Rightarrow> (string \<times> ptree) list \<Rightarrow> ContextElement \<Rightarrow> ContextElement result option" where
  "service_statics lib now [] el = Some (Inr el)"
| "service_statics lib now (v # vs) el =
     (let name = pt_get (snd v) ''name'' [] in
      if name \<noteq> [] \<and> \<not> ce_exists name el \<and> pt_get (snd v) ''value'' [] \<noteq> []
      then bind_run (Some (write_json (snd v) True)) (\<lambda>text.
           bind_run (add_static lib now text el) (service_statics lib now vs))
      else service_statics lib now vs el)"

definition set_env_info ::
  "json_lib \<Rightarrow> string \<Rightarrow> ptree \<Rightarrow> Device option \<Rightarrow> ContextElement \<Rightarrow> ContextElement result option" where
  "set_env_info lib now service_info device el =
     (let el1 = format_element (el\<lparr> ce_service_info := service_info, ce_device_info := device \<rparr>) in
      bind_run (case device of Some d \<Rightarrow> device_statics lib now (static_attributes d) el1 | None \<Rightarrow> Some (Inr el1))
        (\<lambda>el2. case map_of (pt_children service_info) ''static_attributes'' of
                 None \<Rightarrow> Some (Inr el2)
               | Some t \<Rightarrow> service_statics lib now (pt_children t) el2))"

fun add_attributes :: "json_lib \<Rightarrow> json list \<Rightarrow> ContextElement \<Rightarrow> ContextElement result option" where
  "add_attributes lib [] el = Some (Inr el)"
| "add_attributes lib (j # js) el =
     bind_run (Some (Attribute_value lib j)) (\<lambda>a. bind_run (add_attribute lib a el) (add_attributes lib js))"

definition element_fields :: "json_lib \<Rightarrow> json \<Rightarrow> ContextElement result option" where
  "element_fields lib j =
     bind_run (Some (HasMember j ''id'')) (\<lambda>h.
       if \<not> h then Some (Inl (missing_field ''ContextElement'' ''missing field'' ''id''))
       else bind_run (Some (string_field j ''id'' [])) (\<lambda>i.
            bind_run (Some (string_field j ''type'' [])) (\<lambda>t.
            bind_run (Some (string_field j ''isPattern'' [])) (\<lambda>p.
            bind_run (Some (has_array j ''attributes'')) (\<lambda>ha.
            let el = blank_element\<lparr> ce_id := render_identifier i, ce_type := render_identifier t, ce_is_pattern := p \<rparr> in
            if ha then bind_run (Some (bind_exn (member j ''attributes'') elements)) (\<lambda>vs. add_attributes lib vs el)
            else Some (Inr el))))))"

definition ContextElement_value :: "json_lib \<Rightarrow> json \<Rightarrow> ContextElement result option" where
  "ContextElement_value lib j =
     (if \<not> IsObject j then Some (Inl (runtime_error ''Invalid Object'')) else element_fields lib j)"

definition ContextElement_text :: "json_lib \<Rightarrow> string \<Rightarrow> ContextElement result option" where
  "ContextElement_text lib s =
     bind_run (Some (parse_document lib ''ContextElement'' s)) (element_fields lib)"

definition Serialize_element :: "json_lib \<Rightarrow> ContextElement \<Rightarrow> jevent list" where
  "Serialize_element lib el =
     [StartObject, WString ''id'', WString (ce_id el), WString ''type'', WString (ce_type el),
      WString ''isPattern'', WString (ce_is_pattern el)]
     @ (if ce_attributes el \<noteq> []
        then [WString ''attributes'', StartArray] @ concat (map (Serialize_attribute lib) (ce_attributes el)) @ [EndArray]
        else [])
     @ [EndObject]"

section \<open>Identity\<close>

text \<open>The identifier a context element gets from its device is the one the device itself
  computes, so measures, commands and registrations of a device meet in one entity.  Its type is the
  one of the device, else the one of the service, else \<open>thing\<close>.\<close>

theorem element_identity_is_device_identity:
  fixes el :: ContextElement
  defines "service_type \<equiv> pt_get (ce_service_info el) ''entity_type'' []"
  assumes "ce_device_info el = Some d" "ce_type el = []"
  shows "ce_id (format_element el) = get_real_name d service_type
     \<and> ce_type (format_element el)
         = (if entity_type d \<noteq> [] \<and> entity_type d \<noteq> ''default'' then entity_type d
            else if service_type \<noteq> [] then service_type else ''thing'')"
  using assms by (simp add: format_element_def get_real_name_def Let_def)

theorem element_identity_is_device_identity_witness:
  "ce_id (format_element (blank_element\<lparr> ce_device_info := Some (Device_named ''d1'' ''s'') \<rparr>)) = ''thing:d1''"
  using element_identity_is_device_identity
    [of "blank_element\<lparr> ce_device_info := Some (Device_named ''d1'' ''s'') \<rparr>" "Device_named ''d1'' ''s''"]
  by (simp add: blank_element_def get_real_name_def Device_named_def blank_device_def pt_get_def)

section \<open>Mappings\<close>

lemma bind_run_simps [simp]:
  "bind_run None f = None" "bind_run (Some (Inl e)) f = Some (Inl e)" "bind_run (Some (Inr x)) f = f x"
  by (simp_all add: bind_run_def)

text \<open>A lookup splits into the text it finds and the empty entry it may leave in the device.\<close>

definition lookup_attribute :: "Device \<Rightarrow> string \<Rightarrow> string" where
  "lookup_attribute d name = (case map_find (attributes d) name of Some v \<Rightarrow> v | None \<Rightarrow> [])"

definition mapping_text :: "string \<Rightarrow> ContextElement \<Rightarrow> string result" where
  "mapping_text name el =
     (let m = (case ce_device_info el of Some d \<Rightarrow> lookup_attribute d name | None \<Rightarrow> []) in
      if m \<noteq> [] then Inr m
      else case map_of (pt_children (ce_service_info el)) ''attributes'' of
             None \<Rightarrow> Inr []
           | Some t \<Rightarrow> service_mapping name (pt_children t))"

definition touched :: "string \<Rightarrow> ContextElement \<Rightarrow> ContextElement" where
  "touched name el = el\<lparr> ce_device_info := map_option (\<lambda>d. snd (get_attribute name d)) (ce_device_info el) \<rparr>"

lemma map_find_insert_new:
  "map_find m k = None \<Longrightarrow> map_find (map_insert k v m) k' = (if k = k' then Some v else map_find m k')"
  by (induction k v m rule: map_insert.induct) (auto simp: map_find_def split: if_splits)

lemma get_attribute_lookup:
  "fst (get_attribute name d) = lookup_attribute d name"
  "lookup_attribute (snd (get_attribute name d)) k = lookup_attribute d k"
  by (auto simp: get_attribute_def lookup_attribute_def map_find_insert_new split: option.split)

lemma attr_mapping_eq: "attr_mapping name el = bind_exn (mapping_text name el) (\<lambda>m. Inr (m, touched name el))"
proof (cases "ce_device_info el")
  case None
  then have "touched name el = el" by (simp add: touched_def)
  then show ?thesis using None by (simp add: attr_mapping_def mapping_text_def Let_def split: option.split)
next
  case (Some d)
  then show ?thesis
    by (auto simp: attr_mapping_def mapping_text_def touched_def get_attribute_lookup(1) [symmetric] Let_def
        split: option.split prod.split)
qed

lemma touched_simps [simp]:
  "ce_attributes (touched name el) = ce_attributes el" "ce_service_info (touched name el) = ce_service_info el"
  "ce_id (touched name el) = ce_id el" "ce_type (touched name el) = ce_type el"
  "ce_device_info el = None \<Longrightarrow> touched name el = el"
  by (simp_all add: touched_def)

lemma mapping_text_touched [simp]: "mapping_text k (touched name el) = mapping_text k el"
  by (simp add: mapping_text_def touched_def get_attribute_lookup(2) split: option.split)

text \<open>The attribute a name is mapped to: what the lookup finds, read as an attribute.\<close>

definition mapping_of :: "json_lib \<Rightarrow> ContextElement \<Rightarrow> string \<Rightarrow> Attribute option" where
  "mapping_of lib el name =
     (case mapping_text name el of
        Inl _ \<Rightarrow> None
      | Inr m \<Rightarrow>
          if m = [] then None
          else case jl_parse lib (c_str m) of
                 Inl _ \<Rightarrow> None
               | Inr d \<Rightarrow> (case Attribute_value lib d of Inl _ \<Rightarrow> None | Inr att \<Rightarrow> Some att))"

lemma mapping_of_touched [simp]: "mapping_of lib (touched name el) k = mapping_of lib el k"
  by (simp add: mapping_of_def)

definition typed :: "Attribute \<Rightarrow> Attribute" where
  "typed a = (if a_type a = [] then set_type ''string'' a else a)"

lemma typed_simps [simp]:
  "a_name (typed a) = a_name a" "a_value (typed a) = a_value a" "a_metadata (typed a) = a_metadata a"
  "a_type a \<noteq> [] \<Longrightarrow> typed a = a"
  by (simp_all add: typed_def set_type_def)

lemma add_step_Again:
  "add_step lib a el = Inr (Again a' el') \<longleftrightarrow>
     \<not> empty_value (typed a) \<and> el' = touched (a_name a) el
     \<and> (\<exists>att. mapping_of lib el (a_name a) = Some att \<and> a' = mapped_attribute att (typed a))"
  unfolding add_step_def attr_mapping_eq mapping_of_def typed_def [symmetric] Let_def
  by (cases "mapping_text (a_name a) el") (auto simp: bind_exn_eq_Inr_iff split: if_splits sum.splits)

lemma fold_metadata_simps [simp]:
  "a_name (fold add_metadata ms a) = a_name a" "a_type (fold add_metadata ms a) = a_type a"
  "a_value (fold add_metadata ms a) = a_value a" "a_value_compound (fold add_metadata ms a) = a_value_compound a"
  "a_compound_as_object (fold add_metadata ms a) = a_compound_as_object a"
  "a_metadata (fold add_metadata ms a) = a_metadata a @ ms"
  by (induction ms arbitrary: a) (simp_all add: add_metadata_def)

lemma fold_compound_simps [simp]:
  "a_name (fold (\<lambda>v. add_value_compound v False) vs a) = a_name a"
  "a_type (fold (\<lambda>v. add_value_compound v False) vs a) = a_type a"
  "a_value_compound (fold (\<lambda>v. add_value_compound v False) vs a) = a_value_compound a @ vs"
  "a_compound_as_object (fold (\<lambda>v. add_value_compound v False) vs a) = a_compound_as_object a"
  "a_metadata (fold (\<lambda>v. add_value_compound v False) vs a) = a_metadata a"
  by (induction vs arbitrary: a) (simp_all add: add_value_compound_def)

definition mapped_name :: "Attribute \<Rightarrow> string" where
  "mapped_name att = (if a_name att = [] then EMPTY_VALUE else render_identifier (a_name att))"

lemma mapped_attribute_name [simp]: "a_name (mapped_attribute att a) = mapped_name att"
  by (simp add: mapped_attribute_def Let_def new_Attribute_def set_value_def add_metadata_def mapped_name_def)

text \<open>Adding an attribute returns when the mappings have no cycle: there is a rank of the names
  that every mapping decreases.\<close>

theorem add_attribute_returns:
  assumes "\<forall>k att. mapping_of lib el k = Some att \<longrightarrow> rank (mapped_name att) < (rank k :: nat)"
  shows "\<exists>r. add_attribute lib a el = Some r"
  using assms
proof (induction "rank (a_name a)" arbitrary: a el rule: less_induct)
  case less
  show ?case
  proof (cases "add_step lib a el")
    case (Inr r)
    then show ?thesis
    proof (cases r)
      case (Again a' el')
      with Inr have "\<exists>att. mapping_of lib el (a_name a) = Some att \<and> a_name a' = mapped_name att"
        "el' = touched (a_name a) el"
        using add_step_Again by auto
      then have "\<exists>r. add_attribute lib a' el' = Some r"
        using less by (intro less.hyps) auto
      then show ?thesis using Inr Again by (subst add_attribute.simps) simp
    qed (subst add_attribute.simps, simp add: Inr)
  qed (subst add_attribute.simps, simp)
qed

definition plain_type :: "string \<Rightarrow> bool" where
  "plain_type t \<longleftrightarrow> t \<noteq> ''compound'' \<and> render_identifier t \<noteq> ''compound''"

lemma render_identifier_idem [simp]: "render_identifier (render_identifier s) = render_identifier s"
proof -
  have "filter (\<lambda>c. c \<notin> set REGEX_IDENTIFIER_FORBIDDEN) (render_identifier s) = render_identifier s"
    unfolding render_identifier_def filter_id_conv by (auto dest: in_set_takeD)
  then show ?thesis
    by (subst render_identifier_def) (simp add: render_identifier_def)
qed

lemma plain_string: "render_identifier ''string'' = ''string''" "plain_type ''string''"
  by code_simp+

lemma plain_render: "plain_type t \<Longrightarrow> plain_type (render_identifier t)"
  by (simp add: plain_type_def)

lemma typed_plain:
  assumes "plain_type (a_type a)"
  shows "plain_type (a_type (typed a))" "a_type (typed a) \<noteq> []"
    "a_type (typed a) = (if a_type a = [] then ''string'' else a_type a)"
  using assms by (simp_all add: typed_def set_type_def plain_string)

text \<open>What a mapping makes of an attribute that is not compound.\<close>

lemma mapped_plain:
  fixes att a :: Attribute
  defines "t \<equiv> (if a_type att = [] then a_type a else a_type att)"
  assumes "plain_type (a_type att)" "plain_type (a_type a)" "a_type a \<noteq> []"
  shows "mapped_attribute att a =
     Attribute (mapped_name att) (render_identifier t)
       (if t = ''coords'' then map (\<lambda>c. if c = CHR ''/'' then CHR '','' else c) (a_value a) else a_value a)
       ((if t = ''coords'' then [new_Attribute ''location'' ''string'' ''WGS84''] else [])
        @ a_metadata a @ a_metadata att) [] False"
proof -
  have "t \<noteq> ''compound''" "t \<noteq> []" "a_type a \<noteq> ''compound''"
    using assms by (auto simp: plain_type_def)
  then show ?thesis
    by (intro Attribute.expand)
       (simp add: mapped_attribute_def Let_def t_def [symmetric] new_Attribute_def set_value_def
          add_metadata_def mapped_name_def)
qed

definition self_mapped :: "json_lib \<Rightarrow> Attribute \<Rightarrow> ContextElement \<Rightarrow> bool" where
  "self_mapped lib a el \<longleftrightarrow> a_value a \<noteq> [] \<and> plain_type (a_type a) \<and>
     (\<exists>att. mapping_of lib el (a_name a) = Some att \<and> mapped_name att = a_name a \<and> plain_type (a_type att))"

lemma empty_value_plain: "plain_type (a_type a) \<Longrightarrow> empty_value (typed a) \<longleftrightarrow> a_value a = []"
  using typed_plain [of a] by (simp add: empty_value_def plain_type_def)

lemma self_mapped_step:
  assumes "self_mapped lib a el" "add_step lib a el = Inr r"
  shows "\<exists>a' el'. r = Again a' el' \<and> self_mapped lib a' el'"
proof -
  obtain att where att: "mapping_of lib el (a_name a) = Some att" "mapped_name att = a_name a" "plain_type (a_type att)"
    and v: "a_value a \<noteq> []" "plain_type (a_type a)"
    using assms(1) by (auto simp: self_mapped_def)
  let ?a = "mapped_attribute att (typed a)"
  have "add_step lib a el = Inr (Again ?a (touched (a_name a) el))"
    using att(1) v by (simp add: add_step_Again empty_value_plain)
  moreover have "self_mapped lib ?a (touched (a_name a) el)"
    using att v typed_plain [OF v(2)] plain_render
    by (auto simp: self_mapped_def mapped_plain)
  ultimately show ?thesis using assms(2) by auto
qed

lemma self_mapped_diverges: "add_attribute lib a el = Some r \<Longrightarrow> \<not> self_mapped lib a el"
proof (rule add_attribute.raw_induct [where P = "\<lambda>lib a el r. \<not> self_mapped lib a el"])
  fix f :: "json_lib \<Rightarrow> Attribute \<Rightarrow> ContextElement \<Rightarrow> ContextElement result option" and lib a el y
  assume ih: "\<And>lib a el y. f lib a el = Some y \<Longrightarrow> \<not> self_mapped lib a el"
    and body: "(case add_step lib a el of Inl e \<Rightarrow> Some (Inl e)
       | Inr r \<Rightarrow> (case r of Finished el' \<Rightarrow> Some (Inr el') | Again a' el' \<Rightarrow> f lib a' el')) = Some y"
  show "\<not> self_mapped lib a el"
  proof
    assume sm: "self_mapped lib a el"
    then obtain att where "mapping_of lib el (a_name a) = Some att" "a_value a \<noteq> []" "plain_type (a_type a)"
      by (auto simp: self_mapped_def)
    then obtain a' el' where step: "add_step lib a el = Inr (Again a' el')"
      using add_step_Again empty_value_plain by blast
    then have "self_mapped lib a' el'" using self_mapped_step [OF sm] by auto
    then show False using ih body step by auto
  qed
qed

text \<open>An attribute that is mapped to its own name, as when a device is provisioned with equal
  identifier and name, makes \<open>add_attribute\<close> call itself for ever.\<close>

theorem self_mapping_never_ends:
  assumes "mapping_of lib el (a_name a) = Some att" "mapped_name att = a_name a"
    and "plain_type (a_type att)" "plain_type (a_type a)" "a_value a \<noteq> []"
  shows "add_attribute lib a el = None"
  using self_mapped_diverges [of lib a el] assms
  by (cases "add_attribute lib a el") (auto simp: self_mapped_def)

text \<open>A device that maps \<open>t\<close> to the given name, and a parser that reads this mapping only.\<close>

definition sample_lib :: "string \<Rightarrow> json_lib" where
  "sample_lib name =
     \<lparr> jl_parse = (\<lambda>s. if s = ''M'' then Inr (JObject [(''name'', JString name), (''type'', JString ''number'')]) else Inl ''error''),
       jl_print = (\<lambda>es. []), jl_number = (\<lambda>j. []), jl_stream = (\<lambda>j. []) \<rparr>"

definition sample_element :: ContextElement where
  "sample_element =
     blank_element\<lparr> ce_device_info := Some ((Device_named ''d1'' ''s'')\<lparr> attributes := [(''t'', ''M'')] \<rparr>) \<rparr>"

lemma sample_mapping:
  "mapping_of (sample_lib ''t'') sample_element ''t'' = Some (Attribute ''t'' ''number'' [] [] [] False)"
  "mapping_of (sample_lib ''temp'') sample_element ''t'' = Some (Attribute ''temp'' ''number'' [] [] [] False)"
  "k \<noteq> ''t'' \<Longrightarrow> mapping_text k sample_element = Inr []"
  "k \<noteq> ''t'' \<Longrightarrow> mapping_of lib sample_element k = None"
proof -
  have r: "render_identifier ''t'' = ''t''" "render_identifier ''temp'' = ''temp''" "render_identifier ''number'' = ''number''"
    by code_simp+
  have d: "lookup_attribute ((Device_named ''d1'' ''s'')\<lparr> attributes := [(''t'', ''M'')] \<rparr>) k = (if k = ''t'' then ''M'' else [])" for k
    by (simp add: lookup_attribute_def map_find_def)
  have c: "c_str s = takeWhile (\<lambda>c. c \<noteq> CHR 0x00) s" for s by (simp add: c_str_def)
  show "mapping_of (sample_lib ''t'') sample_element ''t'' = Some (Attribute ''t'' ''number'' [] [] [] False)"
    "mapping_of (sample_lib ''temp'') sample_element ''t'' = Some (Attribute ''temp'' ''number'' [] [] [] False)"
    by (simp_all add: mapping_of_def mapping_text_def sample_element_def blank_element_def d sample_lib_def c
        Attribute_value_def field_simps_json read_metadatas_def r)
  show t: "k \<noteq> ''t'' \<Longrightarrow> mapping_text k sample_element = Inr []"
    by (simp add: mapping_text_def sample_element_def blank_element_def d)
  then show "k \<noteq> ''t'' \<Longrightarrow> mapping_of lib sample_element k = None"
    by (simp add: mapping_of_def)
qed

lemma plain_number: "plain_type ''number''" "plain_type []"
  by code_simp+

theorem self_mapping_never_ends_witness:
  "add_attribute (sample_lib ''t'') (new_Attribute ''t'' [] ''21'') sample_element = None"
proof -
  have "render_identifier ''t'' = ''t''" "render_identifier [] = []" by code_simp+
  then show ?thesis
    using self_mapping_never_ends [of "sample_lib ''t''" sample_element "new_Attribute ''t'' [] ''21''"]
      sample_mapping(1) plain_number
    by (simp add: new_Attribute_def mapped_name_def)
qed

theorem add_attribute_returns_witness:
  "\<exists>r. add_attribute (sample_lib ''temp'') (new_Attribute ''t'' [] ''21'') sample_element = Some r"
proof (rule add_attribute_returns [where rank = "\<lambda>k. if k = ''t'' then 1 else 0"], intro allI impI)
  fix k att assume "mapping_of (sample_lib ''temp'') sample_element k = Some att"
  then have "k = ''t'' \<and> att = Attribute ''temp'' ''number'' [] [] [] False"
    using sample_mapping(2) sample_mapping(4) [of k] by (cases "k = ''t''") auto
  moreover have "render_identifier ''temp'' = ''temp''" by code_simp
  ultimately show "(if mapped_name att = ''t'' then 1 else 0) < (if k = ''t'' then 1 else 0 :: nat)"
    by (simp add: mapped_name_def)
qed

lemma add_attribute_publishes:
  assumes "mapping_text (a_name a) el = Inr []" "\<not> empty_value (typed a)"
  shows "add_attribute lib a el
       = Some (Inr ((touched (a_name a) el)\<lparr> ce_attributes := ce_attributes el @ [typed a] \<rparr>))"
  using assms by (subst add_attribute.simps) (simp add: add_step_def attr_mapping_eq typed_def [symmetric] Let_def)

text \<open>A mapped attribute is published once, under the name and with the type of its mapping and
  with the metadata of both; the value is kept, but for coordinates, whose separator is changed and
  which are marked as a location.\<close>

theorem mapping_renames_attribute:
  fixes att a :: Attribute
  defines "t \<equiv> (if a_type att = [] then if a_type a = [] then ''string'' else a_type a else a_type att)"
  assumes "mapping_of lib el (a_name a) = Some att" "mapping_text (mapped_name att) el = Inr []"
    and "plain_type (a_type att)" "plain_type (a_type a)" "render_identifier t \<noteq> []" "a_value a \<noteq> []"
  shows "\<exists>el'. add_attribute lib a el = Some (Inr el')
     \<and> ce_attributes el' = ce_attributes el @
         [Attribute (mapped_name att) (render_identifier t)
            (if t = ''coords'' then map (\<lambda>c. if c = CHR ''/'' then CHR '','' else c) (a_value a) else a_value a)
            ((if t = ''coords'' then [new_Attribute ''location'' ''string'' ''WGS84''] else [])
             @ a_metadata a @ a_metadata att) [] False]"
proof -
  let ?b = "mapped_attribute att (typed a)" and ?el = "touched (a_name a) el"
  note b = mapped_plain [OF assms(4) typed_plain(1,2) [OF assms(5)]]
  have t: "(if a_type att = [] then a_type (typed a) else a_type att) = t"
    using typed_plain(3) [OF assms(5)] by (simp add: t_def)
  have "plain_type t" using assms(4,5) plain_string by (simp add: t_def)
  moreover have "a_type ?b = render_identifier t" "a_value ?b \<noteq> []"
    using assms(7) by (simp_all add: b t)
  ultimately have "typed ?b = ?b" "\<not> empty_value ?b"
    using assms(6) by (simp_all add: empty_value_def plain_type_def)
  then have "add_attribute lib ?b ?el
      = Some (Inr ((touched (mapped_name att) ?el)\<lparr> ce_attributes := ce_attributes el @ [?b] \<rparr>))"
    using assms(3) add_attribute_publishes [of ?b ?el lib] by simp
  moreover have "add_step lib a el = Inr (Again ?b ?el)"
    using assms(2,5,7) by (simp add: add_step_Again empty_value_plain)
  ultimately have "add_attribute lib a el
      = Some (Inr ((touched (mapped_name att) ?el)\<lparr> ce_attributes := ce_attributes el @ [?b] \<rparr>))"
    by (subst add_attribute.simps) simp
  then show ?thesis by (simp add: b t)
qed

theorem mapping_renames_attribute_witness:
  "\<exists>el'. add_attribute (sample_lib ''temp'') (new_Attribute ''t'' [] ''21'') sample_element = Some (Inr el')
     \<and> ce_attributes el' = [Attribute ''temp'' ''number'' ''21'' [] [] False]"
proof -
  have r: "render_identifier ''t'' = ''t''" "render_identifier [] = []" "render_identifier ''temp'' = ''temp''"
    "render_identifier ''number'' = ''number''"
    by code_simp+
  show ?thesis
    using mapping_renames_attribute [of "sample_lib ''temp''" sample_element "new_Attribute ''t'' [] ''21''"
        "Attribute ''temp'' ''number'' [] [] [] False"] sample_mapping(2) sample_mapping(3) [of "''temp''"] plain_number
    by (simp add: new_Attribute_def mapped_name_def r sample_element_def blank_element_def)
qed

text \<open>A compound object that has a mapping is lost: the mapped attribute is no longer marked as an object.\<close>

lemma mapped_object_lost:
  assumes "mapping_of lib el (a_name a) = Some att" "a_type a = ''compound''" "a_compound_as_object a" "a_value a \<noteq> []"
  shows "add_attribute lib a el = Some (Inr (touched (a_name a) el))"
proof -
  let ?b = "mapped_attribute att a"
  have "render_identifier ''compound'' = ''compound''" by code_simp
  then have "a_type ?b = ''compound''" "\<not> a_compound_as_object ?b" "a_value_compound ?b = []"
    using assms by (simp_all add: mapped_attribute_def new_Attribute_def set_value_def Let_def)
  then have "add_attribute lib ?b (touched (a_name a) el) = Some (Inr (touched (a_name a) el))"
    by (subst add_attribute.simps) (simp add: add_step_def empty_value_def Let_def)
  moreover have "add_step lib a el = Inr (Again ?b (touched (a_name a) el))"
    using assms by (simp add: add_step_Again empty_value_def)
  ultimately show ?thesis by (subst add_attribute.simps) simp
qed

section \<open>Devices without mappings\<close>

definition plain_device :: "Device \<Rightarrow> bool" where
  "plain_device d \<longleftrightarrow> list_all (\<lambda>a. snd a = []) (attributes d) \<and> static_attributes d = []"

definition plain_service :: "ptree \<Rightarrow> bool" where
  "plain_service t \<longleftrightarrow> map_of (pt_children t) ''attributes'' = None \<and> map_of (pt_children t) ''static_attributes'' = None"

lemma plain_lookup: "plain_device d \<Longrightarrow> lookup_attribute d k = []"
  by (auto simp: plain_device_def lookup_attribute_def map_find_def list_all_iff dest!: map_of_SomeD split: option.split)

lemma set_env_info_plain:
  "plain_service t \<Longrightarrow> plain_device d \<Longrightarrow> set_env_info lib now t (Some d) el
     = Some (Inr (format_element (el\<lparr> ce_service_info := t, ce_device_info := Some d \<rparr>)))"
  by (simp add: set_env_info_def plain_service_def plain_device_def Let_def)

section \<open>Elements as JSON\<close>

text \<open>An element under construction has neither device nor service, so nothing is mapped.\<close>

definition detached :: "ContextElement \<Rightarrow> bool" where
  "detached el \<longleftrightarrow> ce_device_info el = None \<and> ce_service_info el = PTree [] []"

lemma detached_mapping: "detached el \<Longrightarrow> mapping_text k el = Inr [] \<and> touched k el = el"
  by (simp add: detached_def mapping_text_def)

lemma add_attribute_detached:
  assumes "detached el"
  shows "add_attribute lib a el
       = Some (Inr (if empty_value (typed a) then el else el\<lparr> ce_attributes := ce_attributes el @ [typed a] \<rparr>))"
proof (cases "empty_value (typed a)")
  case True
  then show ?thesis by (subst add_attribute.simps) (simp add: add_step_def typed_def [symmetric] Let_def)
next
  case False
  then show ?thesis using add_attribute_publishes [of a el lib] detached_mapping [OF assms] by simp
qed

lemma add_attributes_total: "detached el \<Longrightarrow> \<exists>r. add_attributes lib js el = Some r"
proof (induction js arbitrary: el)
  case (Cons j js)
  then show ?case
    by (cases "Attribute_value lib j") (simp_all add: add_attribute_detached detached_def)
qed simp

lemma blank_detached: "detached (blank_element\<lparr> ce_id := i, ce_type := t, ce_is_pattern := p \<rparr>)"
  by (simp add: detached_def blank_element_def)

text \<open>The constructor from a JSON value returns for every value.\<close>

lemma ContextElement_value_total: "\<exists>r. ContextElement_value lib j = Some r"
proof -
  have "\<exists>y. bind_run (Some r) f = Some y" if "\<And>x. \<exists>y. f x = Some y" for r :: "'a result" and f :: "'a \<Rightarrow> 'b result option"
    using that by (cases r) simp_all
  note total = this
  show ?thesis
    unfolding ContextElement_value_def element_fields_def Let_def
    by (auto intro!: total add_attributes_total blank_detached)
qed

definition ContextElement_json :: "json_lib \<Rightarrow> json \<Rightarrow> ContextElement result" where
  "ContextElement_json lib j = the (ContextElement_value lib j)"

lemma ContextElement_value_eq: "ContextElement_value lib j = Some (ContextElement_json lib j)"
  using ContextElement_value_total [of lib j] by (auto simp: ContextElement_json_def)

definition element_ok :: "json_lib \<Rightarrow> ContextElement \<Rightarrow> bool" where
  "element_ok lib el \<longleftrightarrow> identifier_ok (ce_id el) \<and> identifier_ok (ce_type el) \<and> nul_free (ce_is_pattern el)
     \<and> detached el \<and> list_all (\<lambda>a. attr_ok lib a \<and> a_type a \<noteq> []) (ce_attributes el)"

definition element_doc :: "json_lib \<Rightarrow> ContextElement \<Rightarrow> json" where
  "element_doc lib el =
     JObject ([(''id'', JString (ce_id el)), (''type'', JString (ce_type el)), (''isPattern'', JString (ce_is_pattern el))]
       @ (if ce_attributes el \<noteq> [] then [(''attributes'', JArray (map (attribute_doc lib) (ce_attributes el)))] else []))"

lemma attr_ok_published: "attr_ok lib a \<Longrightarrow> a_type a \<noteq> [] \<Longrightarrow> typed a = a \<and> \<not> empty_value a"
  by (auto simp: attr_ok_def empty_value_def split: if_splits)

lemma add_attributes_doc:
  assumes "detached el" "list_all (\<lambda>a. attr_ok lib a \<and> a_type a \<noteq> []) as"
  shows "add_attributes lib (map (attribute_doc lib) as) el
       = Some (Inr (el\<lparr> ce_attributes := ce_attributes el @ as \<rparr>))"
  using assms
proof (induction "as" arbitrary: el)
  case (Cons a as)
  then have "add_attribute lib a el = Some (Inr (el\<lparr> ce_attributes := ce_attributes el @ [a] \<rparr>))"
    using attr_ok_published [of lib a] by (simp add: add_attribute_detached)
  moreover have "detached (el\<lparr> ce_attributes := ce_attributes el @ [a] \<rparr>)"
    using Cons.prems by (simp add: detached_def)
  ultimately show ?case using Cons by (simp add: attr.dec_doc)
qed simp

interpretation element: json_codec "Serialize_element lib" "ContextElement_json lib" "element_ok lib" "element_doc lib"
  for lib
proof
  fix x assume ok: "element_ok lib x"
  then have "list_all (attr_ok lib) (ce_attributes x)" by (simp add: element_ok_def list_all_iff)
  then show "Serialize_element lib x = events_of (element_doc lib x)"
    using attr.enc_list [of lib "ce_attributes x"] by (simp add: Serialize_element_def element_doc_def)
next
  fix x assume ok: "element_ok lib x"
  have "ContextElement_value lib (element_doc lib x)
      = add_attributes lib (map (attribute_doc lib) (ce_attributes x))
          (blank_element\<lparr> ce_id := ce_id x, ce_type := ce_type x, ce_is_pattern := ce_is_pattern x \<rparr>)"
    using ok by (simp add: ContextElement_value_def element_fields_def element_doc_def field_simps_json element_ok_def Let_def)
  also have "\<dots> = Some (Inr x)"
    using ok add_attributes_doc [OF blank_detached, of lib "ce_attributes x" "ce_is_pattern x" "ce_type x" "ce_id x"]
    by (cases x) (simp add: element_ok_def detached_def blank_element_def)
  finally show "ContextElement_json lib (element_doc lib x) = Inr x"
    by (simp add: ContextElement_json_def)
qed (simp add: element_doc_def)

end
