(* ===== verification/Ngsi_Message.thy ===== *)
theory Ngsi_Message
  imports Ngsi_Element
begin

text \<open>
  The NGSI messages (\<^verbatim>\<open>src/ngsi/UpdateContext.cc\<close>, \<^verbatim>\<open>QueryContext.cc\<close>, \<^verbatim>\<open>SubscribeContext.cc\<close>,
  \<^verbatim>\<open>ContextRegistration.cc\<close>, \<^verbatim>\<open>RegisterContext.cc\<close>, \<^verbatim>\<open>ContextResponse.cc\<close>, \<^verbatim>\<open>ContextResponses.cc\<close>,
  \<^verbatim>\<open>RegisterResponse.cc\<close>, \<^verbatim>\<open>SubscribeResponse.cc\<close>): construction from JSON values and texts, and
  serialization.  Elements are read with \<open>ContextElement_json\<close>, which the constructor always returns.
  The constructor of \<open>ContextResponses\<close> from a value is left out: it initialises a reference with itself.
\<close>

section \<open>Updates\<close>

record UpdateContext =
  uc_action :: string
  uc_elements :: "ContextElement list"

definition update_fields :: "json_lib \<Rightarrow> json \<Rightarrow> UpdateContext result" where
  "update_fields lib j =
     bind_exn (HasMember j ''updateAction'') (\<lambda>h.
       if \<not> h then Inl (missing_field ''UpdateContext'' ''missing field'' ''updateAction'')
       else bind_exn (member_string j ''updateAction'') (\<lambda>act.
            bind_exn (HasMember j ''contextElements'') (\<lambda>he.
              if \<not> he then Inl (missing_field ''UpdateContext'' ''missing field'' ''contextElements'')
              else bind_exn (member j ''contextElements'') (\<lambda>es.
                if IsArray es
                then bind_exn (elements es) (\<lambda>vs. bind_exn (map_exn (ContextElement_json lib) vs) (\<lambda>els.
                       Inr \<lparr> uc_action = act, uc_elements = els \<rparr>))
                else Inl (missing_field ''UpdateContext'' ''invalid type field'' ''contextElements'')))))"

definition UpdateContext_value :: "json_lib \<Rightarrow> json \<Rightarrow> UpdateContext result" where
  "UpdateContext_value lib j = (if \<not> IsObject j then Inl (runtime_error ''Invalid object'') else update_fields lib j)"

definition UpdateContext_text :: "json_lib \<Rightarrow> string \<Rightarrow> UpdateContext result" where
  "UpdateContext_text lib s = bind_exn (parse_document lib ''UpdateContext'' s) (update_fields lib)"

definition add_context_element :: "ContextElement \<Rightarrow> UpdateContext \<Rightarrow> UpdateContext" where
  "add_context_element el u = u\<lparr> uc_elements := uc_elements u @ [el] \<rparr>"

definition Serialize_update :: "json_lib \<Rightarrow> UpdateContext \<Rightarrow> jevent list" where
  "Serialize_update lib u =
     [StartObject, WString ''updateAction'', WString (uc_action u), WString ''contextElements'', StartArray]
     @ concat (map (Serialize_element lib) (uc_elements u)) @ [EndArray, EndObject]"

section \<open>Queries\<close>

record QueryContext =
  qc_entities :: "Entity list"
  qc_attributes :: "string list"

definition query_lists :: "json \<Rightarrow> QueryContext result" where
  "query_lists j =
     bind_exn (bind_exn (member j ''entities'') elements) (\<lambda>es.
     bind_exn (map_exn Entity_value es) (\<lambda>ents.
     bind_exn (bind_exn (member j ''attributes'') elements) (\<lambda>ats.
     bind_exn (map_exn GetString ats) (\<lambda>names.
     Inr \<lparr> qc_entities = ents, qc_attributes = names \<rparr>))))"

definition QueryContext_value :: "json \<Rightarrow> QueryContext result" where
  "QueryContext_value j =
     (if \<not> IsObject j then Inl (missing_field ''QueryContext'' ''invalid or missing field'' ''entities'')
      else bind_exn (has_array j ''entities'') (\<lambda>he.
        if \<not> he then Inl (missing_field ''QueryContext'' ''invalid or missing field'' ''entities'')
        else bind_exn (has_array j ''attributes'') (\<lambda>ha.
          if \<not> ha then Inl (missing_field ''QueryContext'' ''invalid or missing field'' ''attributes'')
          else query_lists j)))"

text \<open>The text constructor refuses attributes that are not an array, but then reads them even when
  they are absent.\<close>

definition QueryContext_text :: "json_lib \<Rightarrow> string \<Rightarrow> QueryContext result" where
  "QueryContext_text lib s =
     bind_exn (parse_document lib ''QueryContext'' s) (\<lambda>j.
     bind_exn (has_array j ''entities'') (\<lambda>he.
       if \<not> he then Inl (missing_field ''QueryContext'' ''invalid or missing field'' ''entities'')
       else bind_exn (bind_exn (member j ''entities'') elements) (\<lambda>es.
            bind_exn (map_exn Entity_value es) (\<lambda>ents.
            bind_exn (FindMember j ''attributes'') (\<lambda>m.
              if m \<noteq> None \<and> \<not> IsArray (the m)
              then Inl (missing_field ''QueryContext'' ''invalid or missing field'' ''attributes'')
              else query_lists j)))))"

definition query_add_entity :: "Entity \<Rightarrow> QueryContext \<Rightarrow> QueryContext" where
  "query_add_entity e q = q\<lparr> qc_entities := qc_entities q @ [e] \<rparr>"

definition query_add_attribute :: "string \<Rightarrow> QueryContext \<Rightarrow> QueryContext" where
  "query_add_attribute a q = q\<lparr> qc_attributes := qc_attributes q @ [a] \<rparr>"

definition Serialize_query :: "QueryContext \<Rightarrow> jevent list" where
  "Serialize_query q =
     [StartObject, WString ''entities'', StartArray] @ concat (map Serialize_entity (qc_entities q)) @ [EndArray]
     @ (if qc_attributes q \<noteq> []
        then [WString ''attributes'', StartArray] @ map WString (qc_attributes q) @ [EndArray] else [])
     @ [EndObject]"

section \<open>Subscriptions\<close>

record SubscribeContext =
  sc_entities :: "Entity list"
  sc_attributes :: "string list"
  sc_reference :: string
  sc_duration :: string
  sc_throttling :: string
  sc_conditions :: "NotifyCondition list"

text \<open>A list that is read when it is there and is an array.\<close>

definition optional_list :: "(json \<Rightarrow> 'a result) \<Rightarrow> json \<Rightarrow> string \<Rightarrow> 'a list result" where
  "optional_list dec j name =
     bind_exn (has_array j name) (\<lambda>h.
       if h then bind_exn (bind_exn (member j name) elements) (map_exn dec) else Inr [])"

definition SubscribeContext_text :: "json_lib \<Rightarrow> string \<Rightarrow> SubscribeContext result" where
  "SubscribeContext_text lib s =
     bind_exn (parse_document lib ''SubscribeContext'' s) (\<lambda>j.
     bind_exn (FindMember j ''entities'') (\<lambda>m.
       case m of
         None \<Rightarrow> Inl (runtime_error ''SubscribeContext: [entities] Missing field'')
       | Some v \<Rightarrow>
           if \<not> IsArray v then Inl (runtime_error ''SubscribeContext: [entities] Malformed field'')
           else bind_exn (optional_list Entity_value j ''entities'') (\<lambda>es.
                bind_exn (optional_list GetString j ''attributes'') (\<lambda>ats.
                bind_exn (any_field j ''throttling'' []) (\<lambda>th.
                bind_exn (any_field j ''duration'' []) (\<lambda>du.
                bind_exn (any_field j ''reference'' []) (\<lambda>re.
                bind_exn (optional_list NotifyCondition_value j ''notifyConditions'') (\<lambda>cs.
                Inr \<lparr> sc_entities = es, sc_attributes = ats, sc_reference = re, sc_duration = du,
                       sc_throttling = th, sc_conditions = cs \<rparr>))))))))"

text \<open>The value constructor takes the duration from the field of the reference.\<close>

definition SubscribeContext_value :: "json \<Rightarrow> SubscribeContext result" where
  "SubscribeContext_value j =
     (if \<not> IsObject j then Inl (runtime_error ''SubscribeContext: [entities] Missing field'')
      else bind_exn (optional_list Entity_value j ''entities'') (\<lambda>es.
           bind_exn (optional_list GetString j ''attributes'') (\<lambda>ats.
           bind_exn (any_field j ''reference'' []) (\<lambda>re.
           bind_exn (HasMember j ''duration'') (\<lambda>hd.
           bind_exn (if hd then member_string j ''reference'' else Inr []) (\<lambda>du.
           bind_exn (any_field j ''throttling'' []) (\<lambda>th.
           bind_exn (optional_list NotifyCondition_value j ''notifyConditions'') (\<lambda>cs.
           Inr \<lparr> sc_entities = es, sc_attributes = ats, sc_reference = re, sc_duration = du,
                  sc_throttling = th, sc_conditions = cs \<rparr>))))))))"

definition Serialize_subscribe :: "SubscribeContext \<Rightarrow> jevent list" where
  "Serialize_subscribe c =
     [StartObject, WString ''entities'', StartArray] @ concat (map Serialize_entity (sc_entities c))
     @ [EndArray, WString ''attributes'', StartArray] @ map WString (sc_attributes c)
     @ [EndArray, WString ''reference'', WString (sc_reference c), WString ''duration'', WString (sc_duration c),
        WString ''throttling'', WString (sc_throttling c), WString ''notifyConditions'', StartArray]
     @ concat (map Serialize_condition (sc_conditions c)) @ [EndArray, EndObject]"

section \<open>Registrations\<close>

record ContextRegistration =
  cr_entities :: "Entity list"
  cr_attributes :: "AttributeRegister list"
  cr_provider :: string

definition registration_fields :: "json \<Rightarrow> ContextRegistration result" where
  "registration_fields j =
     bind_exn (has_array j ''entities'') (\<lambda>he.
       if \<not> he then Inl (missing_field ''ContextRegistration'' ''invalid or missing field'' ''entities'')
       else bind_exn (bind_exn (bind_exn (member j ''entities'') elements) (map_exn Entity_value)) (\<lambda>es.
            bind_exn (has_array j ''attributes'') (\<lambda>ha.
              if \<not> ha then Inl (missing_field ''ContextRegistration'' ''invalid or missing field'' ''attributes'')
              else bind_exn (bind_exn (bind_exn (member j ''attributes'') elements) (map_exn AttributeRegister_value)) (\<lambda>ats.
                   bind_exn (string_field j ''providingApplication'' []) (\<lambda>p.
                   Inr \<lparr> cr_entities = es, cr_attributes = ats, cr_provider = p \<rparr>)))))"

definition ContextRegistration_value :: "json \<Rightarrow> ContextRegistration result" where
  "ContextRegistration_value j =
     (if \<not> IsObject j then Inl (missing_field ''ContextRegistration'' ''invalid or missing field'' ''entities'')
      else registration_fields j)"

definition ContextRegistration_text :: "json_lib \<Rightarrow> string \<Rightarrow> ContextRegistration result" where
  "ContextRegistration_text lib s = bind_exn (parse_document lib ''ContextRegistration'' s) registration_fields"

definition Serialize_registration :: "ContextRegistration \<Rightarrow> jevent list" where
  "Serialize_registration r =
     [StartObject, WString ''entities'', StartArray] @ concat (map Serialize_entity (cr_entities r))
     @ [EndArray, WString ''attributes'', StartArray] @ concat (map Serialize_register (cr_attributes r))
     @ [EndArray, WString ''providingApplication'', WString (cr_provider r), EndObject]"

text \<open>The entity of a device is added to the registration, and written back to the device.\<close>

definition registration_entity :: "ptree \<Rightarrow> Device \<Rightarrow> Entity" where
  "registration_entity service_info d =
     (let service_entity_type = pt_get service_info ''entity_type'' [];
          etype = (if entity_type d \<noteq> [] \<and> entity_type d \<noteq> ''default'' then entity_type d
                   else if service_entity_type \<noteq> [] then service_entity_type
                   else if entity_type d \<noteq> [] then entity_type d
                   else ''thing'');
          eid = (if entity_name d \<noteq> [] \<and> entity_name d \<noteq> ''default'' then entity_name d
                 else if entity_type d = [] then etype @ '':'' @ dev_name d
                 else entity_name d)
      in \<lparr> en_id = eid, en_type = etype, en_is_pattern = ''false'' \<rparr>)"

definition registration_set_env_info ::
  "ptree \<Rightarrow> Device option \<Rightarrow> ContextRegistration \<Rightarrow> ContextRegistration \<times> Device option" where
  "registration_set_env_info service_info device r =
     (case device of
        None \<Rightarrow> (r, None)
      | Some d \<Rightarrow>
          let ent = registration_entity service_info d in
          (r\<lparr> cr_entities := cr_entities r @ [ent] \<rparr>,
           Some (d\<lparr> entity_type := en_type ent, entity_name := en_id ent \<rparr>)))"

record RegisterContext =
  rc_registrations :: "ContextRegistration list"
  rc_duration :: string
  rc_registrationId :: string

definition register_fields :: "json \<Rightarrow> string \<Rightarrow> RegisterContext result" where
  "register_fields j text =
     bind_exn (has_array j ''contextRegistrations'') (\<lambda>h.
       if \<not> h then Inl (missing_field ''RegisterContext'' text ''contextRegistrations'')
       else bind_exn (bind_exn (bind_exn (member j ''contextRegistrations'') elements) (map_exn ContextRegistration_value)) (\<lambda>rs.
            bind_exn (string_field j ''duration'' []) (\<lambda>du.
            bind_exn (string_field j ''registrationId'' []) (\<lambda>i.
            Inr \<lparr> rc_registrations = rs, rc_duration = du, rc_registrationId = i \<rparr>))))"

definition RegisterContext_value :: "json \<Rightarrow> RegisterContext result" where
  "RegisterContext_value j =
     (if \<not> IsObject j then Inl (missing_field ''RegisterContext'' ''invalid or missing field'' ''contextRegistrations'')
      else register_fields j ''invalid or missing field'')"

definition RegisterContext_text :: "json_lib \<Rightarrow> string \<Rightarrow> RegisterContext result" where
  "RegisterContext_text lib s =
     bind_exn (parse_document lib ''RegisterContext'' s) (\<lambda>j. register_fields j ''invalid or missing  field'')"

definition Serialize_register_context :: "RegisterContext \<Rightarrow> jevent list" where
  "Serialize_register_context r =
     [StartObject, WString ''contextRegistrations'', StartArray]
     @ concat (map Serialize_registration (rc_registrations r)) @ [EndArray]
     @ (if rc_duration r \<noteq> [] then [WString ''duration'', WString (rc_duration r)] else [])
     @ (if rc_registrationId r \<noteq> [] then [WString ''registrationId'', WString (rc_registrationId r)] else [])
     @ [EndObject]"

section \<open>Responses\<close>

record ContextResponse =
  rs_code :: string
  rs_reason :: string
  rs_details :: string
  rs_element :: ContextElement

definition new_ContextResponse :: ContextResponse where
  "new_ContextResponse = \<lparr> rs_code = ''200'', rs_reason = ''OK'', rs_details = [], rs_element = blank_element \<rparr>"

definition set_reason :: "string \<Rightarrow> ContextResponse \<Rightarrow> ContextResponse" where
  "set_reason s r = r\<lparr> rs_reason := erase_all (CHR 0x22) s \<rparr>"

definition set_details :: "string \<Rightarrow> ContextResponse \<Rightarrow> ContextResponse" where
  "set_details s r = r\<lparr> rs_details := erase_all (CHR 0x22) s \<rparr>"

definition ContextResponse_value :: "json_lib \<Rightarrow> json \<Rightarrow> ContextResponse result" where
  "ContextResponse_value lib j =
     bind_exn (FindMember j ''statusCode'') (\<lambda>m.
       let st = (case m of Some v \<Rightarrow> v | None \<Rightarrow> JNull) in
       if \<not> IsObject st \<or> is_string_member st ''code'' \<noteq> Inr True
       then Inl (missing_field ''ContextResponse'' ''invalid or missing field'' ''statusCode'')
       else bind_exn (member_string st ''code'') (\<lambda>c.
            bind_exn (string_field st ''reasonPhrase'' []) (\<lambda>r.
            bind_exn (string_field st ''details'' []) (\<lambda>d.
            bind_exn (FindMember j ''contextElement'') (\<lambda>ce.
            bind_exn (case ce of Some v \<Rightarrow> if IsObject v then ContextElement_json lib v else Inr blank_element
                      | None \<Rightarrow> Inr blank_element) (\<lambda>el.
            Inr \<lparr> rs_code = c, rs_reason = r, rs_details = d, rs_element = el \<rparr>))))))"

definition ContextResponse_text :: "json_lib \<Rightarrow> string \<Rightarrow> ContextResponse result" where
  "ContextResponse_text lib s = bind_exn (parse_document lib ''ContextResponse'' s) (ContextResponse_value lib)"

definition Serialize_response :: "json_lib \<Rightarrow> ContextResponse \<Rightarrow> jevent list" where
  "Serialize_response lib r =
     [StartObject, WString ''statusCode'', StartObject, WString ''code'', WString (rs_code r),
      WString ''reasonPhrase'', WString (rs_reason r), WString ''details'', WString (rs_details r), EndObject,
      WString ''contextElement''] @ Serialize_element lib (rs_element r) @ [EndObject]"

type_synonym ContextResponses = "ContextResponse list"

definition ContextResponses_text :: "json_lib \<Rightarrow> string \<Rightarrow> ContextResponses result" where
  "ContextResponses_text lib s =
     bind_exn (parse_document lib ''Operation'' s) (\<lambda>j. optional_list (ContextResponse_value lib) j ''contextResponses'')"

definition Serialize_responses :: "json_lib \<Rightarrow> ContextResponses \<Rightarrow> jevent list" where
  "Serialize_responses lib rs =
     [StartObject, WString ''contextResponses'', StartArray] @ concat (map (Serialize_response lib) rs) @ [EndArray, EndObject]"

definition get_message_response :: "ContextResponses \<Rightarrow> string" where
  "get_message_response rs = join_with '' '' (map rs_reason rs)"

record RegisterResponse =
  rr_registrationId :: string
  rr_duration :: string

definition RegisterResponse_text :: "json_lib \<Rightarrow> string \<Rightarrow> RegisterResponse result" where
  "RegisterResponse_text lib s =
     bind_exn (parse_document lib ''RegisterResponse'' s) (\<lambda>j.
     bind_exn (FindMember j ''registerResponse'') (\<lambda>m.
     let src = (case m of Some v \<Rightarrow> v | None \<Rightarrow> j) in
     bind_exn (string_field src ''registrationId'' []) (\<lambda>i.
     bind_exn (string_field src ''duration'' []) (\<lambda>d.
       if i = [] then Inl (runtime_error ''RegisterResponse: [registrationId]Missing field'')
       else if d = [] then Inl (runtime_error ''RegisterResponse: [duration]Missing field'')
       else Inr \<lparr> rr_registrationId = i, rr_duration = d \<rparr>))))"

definition RegisterResponse_value :: "json \<Rightarrow> RegisterResponse result" where
  "RegisterResponse_value j =
     bind_exn (member j ''registerResponse'') (\<lambda>r.
     bind_exn (any_field r ''registrationId'' []) (\<lambda>i.
     bind_exn (any_field r ''duration'' []) (\<lambda>d. Inr \<lparr> rr_registrationId = i, rr_duration = d \<rparr>)))"

definition Serialize_register_response :: "RegisterResponse \<Rightarrow> jevent list" where
  "Serialize_register_response r =
     [StartObject, WString ''registerResponse'',
      StartObject, WString ''registrationId'', WString (rr_registrationId r), EndObject,
      StartObject, WString ''duration'', WString (rr_duration r), EndObject, EndObject]"

definition SubscribeResponse_text :: "json_lib \<Rightarrow> string \<Rightarrow> string result" where
  "SubscribeResponse_text lib s =
     bind_exn (parse_document lib ''SubscribeResponse'' s) (\<lambda>j.
     bind_exn (FindMember j ''subscribeResponse'') (\<lambda>m.
     bind_exn (case m of Some v \<Rightarrow> string_field v ''subscriptionId'' [] | None \<Rightarrow> Inr []) (\<lambda>i.
       if i = [] then Inl (runtime_error ''SubscribeResponse: [subscriptionId]Missing field'') else Inr i)))"

definition SubscribeResponse_value :: "json \<Rightarrow> string result" where
  "SubscribeResponse_value j =
     bind_exn (member j ''subscribeResponse'') (\<lambda>r. any_field r ''subscriptionId'' [])"

definition Serialize_subscribe_response :: "string \<Rightarrow> jevent list" where
  "Serialize_subscribe_response i =
     [StartObject, WString ''subscribeResponse'', StartObject, WString ''subscriptionId'', WString i, EndObject, EndObject]"

section \<open>Round trips\<close>

lemma written_object: "written (events_of (JObject ms)) = Some (JObject ms)"
  by (rule written_events_of) simp

lemma parse_document_eq: "jl_parse lib (c_str s) = Inr j \<Longrightarrow> parse_document lib cls s = Inr j"
  by (simp add: parse_document_def)

definition update_ok :: "json_lib \<Rightarrow> UpdateContext \<Rightarrow> bool" where
  "update_ok lib u \<longleftrightarrow> nul_free (uc_action u) \<and> list_all (element_ok lib) (uc_elements u)"

definition update_doc :: "json_lib \<Rightarrow> UpdateContext \<Rightarrow> json" where
  "update_doc lib u = JObject [(''updateAction'', JString (uc_action u)), (''contextElements'', JArray (map (element_doc lib) (uc_elements u)))]"

interpretation update: json_codec "Serialize_update lib" "UpdateContext_value lib" "update_ok lib" "update_doc lib"
  for lib
proof
  fix x assume ok: "update_ok lib x"
  then show "Serialize_update lib x = events_of (update_doc lib x)"
    using element.enc_list [of lib "uc_elements x"] by (simp add: update_ok_def Serialize_update_def update_doc_def)
  show "UpdateContext_value lib (update_doc lib x) = Inr x"
    using ok element.dec_list [of lib "uc_elements x"]
    by (simp add: update_ok_def UpdateContext_value_def update_fields_def update_doc_def field_simps_json)
qed (simp add: update_doc_def)

text \<open>C10: An update survives the way over JSON: what \<open>Serialize\<close> writes is a document, from which both
  constructors rebuild the update with all its elements, attributes, compound values and metadata.\<close>

theorem update_context_roundtrip:
  assumes "update_ok lib u"
  shows "\<exists>j. written (Serialize_update lib u) = Some j \<and> UpdateContext_value lib j = Inr u
     \<and> (\<forall>s. jl_parse lib (c_str s) = Inr j \<longrightarrow> UpdateContext_text lib s = Inr u)"
proof (intro exI conjI allI impI)
  show "written (Serialize_update lib u) = Some (update_doc lib u)" "UpdateContext_value lib (update_doc lib u) = Inr u"
    using assms by (simp_all add: update.written_enc update.dec_doc)
  fix s assume "jl_parse lib (c_str s) = Inr (update_doc lib u)"
  then show "UpdateContext_text lib s = Inr u"
    using update.dec_doc [OF assms] update.doc_object [of lib u]
    by (simp add: UpdateContext_text_def parse_document_eq UpdateContext_value_def)
qed

definition sample_update :: UpdateContext where
  "sample_update =
     \<lparr> uc_action = ''APPEND'',
       uc_elements = [blank_element\<lparr> ce_id := ''thing:d1'', ce_type := ''thing'', ce_is_pattern := ''false'',
         ce_attributes := [Attribute ''t'' ''string'' ''21'' [Attribute ''TimeInstant'' ''ISO8601'' ''now'' [] [] False] [] False] \<rparr>] \<rparr>"

lemma sample_update_ok: "update_ok lib sample_update"
proof -
  have "identifier_ok ''thing:d1''" "identifier_ok ''thing''" "identifier_ok ''t''" "identifier_ok ''string''"
    "identifier_ok ''TimeInstant''" "identifier_ok ''ISO8601''"
    by code_simp+
  moreover have "nul_free ''21''" "nul_free ''now''" "nul_free ''false''" "nul_free ''APPEND''" by code_simp+
  ultimately show ?thesis
    by (simp add: update_ok_def sample_update_def element_ok_def attr_ok_def leaf_ok_def detached_def blank_element_def)
qed

theorem update_context_roundtrip_witness:
  "\<forall>lib. \<exists>j. written (Serialize_update lib sample_update) = Some j \<and> UpdateContext_value lib j = Inr sample_update"
  using update_context_roundtrip [OF sample_update_ok] by blast

definition registration_ok :: "ContextRegistration \<Rightarrow> bool" where
  "registration_ok r \<longleftrightarrow> list_all entity_ok (cr_entities r) \<and> list_all register_ok (cr_attributes r) \<and> nul_free (cr_provider r)"

definition registration_doc :: "ContextRegistration \<Rightarrow> json" where
  "registration_doc r = JObject [(''entities'', JArray (map entity_doc (cr_entities r))),
     (''attributes'', JArray (map register_doc (cr_attributes r))), (''providingApplication'', JString (cr_provider r))]"

interpretation registration: json_codec Serialize_registration ContextRegistration_value registration_ok registration_doc
proof
  fix x assume ok: "registration_ok x"
  then show "Serialize_registration x = events_of (registration_doc x)"
    using entity.enc_list [of "cr_entities x"] register.enc_list [of "cr_attributes x"]
    by (simp add: registration_ok_def Serialize_registration_def registration_doc_def)
  show "ContextRegistration_value (registration_doc x) = Inr x"
    using ok entity.dec_list [of "cr_entities x"] register.dec_list [of "cr_attributes x"]
    by (simp add: registration_ok_def ContextRegistration_value_def registration_fields_def registration_doc_def field_simps_json)
qed (simp add: registration_doc_def)

definition register_context_ok :: "RegisterContext \<Rightarrow> bool" where
  "register_context_ok r \<longleftrightarrow> list_all registration_ok (rc_registrations r) \<and> nul_free (rc_duration r)
     \<and> nul_free (rc_registrationId r)"

definition register_context_doc :: "RegisterContext \<Rightarrow> json" where
  "register_context_doc r =
     JObject ([(''contextRegistrations'', JArray (map registration_doc (rc_registrations r)))]
       @ (if rc_duration r \<noteq> [] then [(''duration'', JString (rc_duration r))] else [])
       @ (if rc_registrationId r \<noteq> [] then [(''registrationId'', JString (rc_registrationId r))] else []))"

interpretation register_context: json_codec Serialize_register_context RegisterContext_value
  register_context_ok register_context_doc
proof
  fix x assume ok: "register_context_ok x"
  then show "Serialize_register_context x = events_of (register_context_doc x)"
    using registration.enc_list [of "rc_registrations x"]
    by (simp add: register_context_ok_def Serialize_register_context_def register_context_doc_def)
  show "RegisterContext_value (register_context_doc x) = Inr x"
    using ok registration.dec_list [of "rc_registrations x"]
    by (simp add: register_context_ok_def RegisterContext_value_def register_fields_def register_context_doc_def field_simps_json)
qed (simp add: register_context_doc_def)

definition response_ok :: "json_lib \<Rightarrow> ContextResponse \<Rightarrow> bool" where
  "response_ok lib r \<longleftrightarrow> nul_free (rs_code r) \<and> nul_free (rs_reason r) \<and> nul_free (rs_details r)
     \<and> element_ok lib (rs_element r)"

definition response_doc :: "json_lib \<Rightarrow> ContextResponse \<Rightarrow> json" where
  "response_doc lib r = JObject [(''statusCode'', JObject [(''code'', JString (rs_code r)),
     (''reasonPhrase'', JString (rs_reason r)), (''details'', JString (rs_details r))]),
     (''contextElement'', element_doc lib (rs_element r))]"

interpretation response: json_codec "Serialize_response lib" "ContextResponse_value lib" "response_ok lib" "response_doc lib"
  for lib
proof
  fix x assume ok: "response_ok lib x"
  then show "Serialize_response lib x = events_of (response_doc lib x)"
    using element.enc_doc [of lib "rs_element x"] by (simp add: response_ok_def Serialize_response_def response_doc_def)
  show "ContextResponse_value lib (response_doc lib x) = Inr x"
    using ok element.dec_doc [of lib "rs_element x"] element.doc_object [of lib "rs_element x"]
    by (simp add: response_ok_def ContextResponse_value_def response_doc_def field_simps_json)
qed (simp add: response_doc_def)

text \<open>A registration request survives the way over JSON, with or without duration and identifier;
  so does a list of context responses.\<close>

theorem registrations_and_responses_roundtrip:
  assumes "register_context_ok r" "list_all (response_ok lib) rs"
  shows "(\<exists>j. written (Serialize_register_context r) = Some j \<and> RegisterContext_value j = Inr r)
     \<and> (\<exists>j. written (Serialize_responses lib rs) = Some j
          \<and> (\<forall>s. jl_parse lib (c_str s) = Inr j \<longrightarrow> ContextResponses_text lib s = Inr rs))"
proof
  show "\<exists>j. written (Serialize_register_context r) = Some j \<and> RegisterContext_value j = Inr r"
    by (rule register_context.roundtrip [OF assms(1)])
  let ?j = "JObject [(''contextResponses'', JArray (map (response_doc lib) rs))]"
  have "Serialize_responses lib rs = events_of ?j"
    using response.enc_list [OF assms(2)] by (simp add: Serialize_responses_def)
  then have "written (Serialize_responses lib rs) = Some ?j" by (simp only: written_object)
  moreover have "ContextResponses_text lib s = Inr rs" if "jl_parse lib (c_str s) = Inr ?j" for s
    using that response.dec_list [OF assms(2)]
    by (simp add: ContextResponses_text_def parse_document_eq optional_list_def)
  ultimately show "\<exists>j. written (Serialize_responses lib rs) = Some j
      \<and> (\<forall>s. jl_parse lib (c_str s) = Inr j \<longrightarrow> ContextResponses_text lib s = Inr rs)"
    by blast
qed

definition sample_registration :: RegisterContext where
  "sample_registration =
     \<lparr> rc_registrations = [\<lparr> cr_entities = [\<lparr> en_id = ''thing:d1'', en_type = ''thing'', en_is_pattern = ''false'' \<rparr>],
         cr_attributes = [\<lparr> ar_name = ''ping'', ar_type = ''command'', ar_is_domain = ''false'' \<rparr>],
         cr_provider = ''http://agent/ngsi'' \<rparr>],
       rc_duration = ''PT24H'', rc_registrationId = [] \<rparr>"

theorem registrations_and_responses_roundtrip_witness:
  "\<exists>j. written (Serialize_register_context sample_registration) = Some j \<and> RegisterContext_value j = Inr sample_registration"
proof -
  have "register_context_ok sample_registration"
    by code_simp
  then show ?thesis
    using registrations_and_responses_roundtrip [of sample_registration undefined "[]"] by simp
qed

text \<open>A query without attributes cannot be read back: \<open>Serialize\<close> leaves the field out, the
  constructor from a value then refuses the document and the one from text runs into a failed
  assertion.  With at least one attribute both rebuild the query.\<close>

theorem query_roundtrip_needs_attributes:
  assumes "list_all entity_ok (qc_entities q)" "list_all nul_free (qc_attributes q)"
  shows "\<exists>j. written (Serialize_query q) = Some j
     \<and> (QueryContext_value j = Inr q \<longleftrightarrow> qc_attributes q \<noteq> [])
     \<and> (jl_parse lib (c_str s) = Inr j \<longrightarrow>
          QueryContext_text lib s = (if qc_attributes q \<noteq> [] then Inr q else Inl (assertion_failure ''IsArray'')))"
proof -
  let ?j = "JObject ([(''entities'', JArray (map entity_doc (qc_entities q)))]
    @ (if qc_attributes q \<noteq> [] then [(''attributes'', JArray (map JString (qc_attributes q)))] else []))"
  have "Serialize_query q = events_of ?j"
    using entity.enc_list [OF assms(1)] events_of_strings [of "qc_attributes q"]
    by (simp add: Serialize_query_def comp_def)
  then have w: "written (Serialize_query q) = Some ?j" by (simp only: written_object)
  note defs = entity.dec_list [OF assms(1)] GetString_strings [OF assms(2)] query_lists_def
  have "elements JNull = Inl (assertion_failure ''IsArray'')" by (simp add: elements_def)
  then have "jl_parse lib (c_str s) = Inr ?j \<longrightarrow>
      QueryContext_text lib s = (if qc_attributes q \<noteq> [] then Inr q else Inl (assertion_failure ''IsArray''))"
    by (auto simp: QueryContext_text_def parse_document_eq defs)
  moreover have "QueryContext_value ?j = Inr q \<longleftrightarrow> qc_attributes q \<noteq> []"
    by (auto simp: QueryContext_value_def defs)
  ultimately show ?thesis using w by blast
qed

theorem query_roundtrip_needs_attributes_witness:
  "\<exists>j. written (Serialize_query \<lparr> qc_entities = [], qc_attributes = [] \<rparr>) = Some j
     \<and> QueryContext_value j \<noteq> Inr \<lparr> qc_entities = [], qc_attributes = [] \<rparr>"
  using query_roundtrip_needs_attributes [of "\<lparr> qc_entities = [], qc_attributes = [] \<rparr>"] by auto

text \<open>A registration response is never a document: an object stands where a name is due.\<close>

lemma register_response_malformed: "written (Serialize_register_response r) = None"
  by (simp add: Serialize_register_response_def written_def)

text \<open>Read from a value, a subscription with a duration gets its reference as duration.\<close>

lemma subscription_duration_is_reference:
  assumes "map_of ms ''duration'' \<noteq> None" "SubscribeContext_value (JObject ms) = Inr c"
  shows "sc_duration c = sc_reference c"
  using assms
  by (auto simp: SubscribeContext_value_def bind_exn_eq_Inr_iff any_field_def member_string_def GetString_def
      split: if_splits json.splits option.splits)

section \<open>The entity of a registration\<close>

text \<open>The entity that is registered for a device is the entity its measures update when the device
  has an entity name, or neither name nor type.  A device with an entity type of its own and no name
  is registered without an identifier, while its measures go to the type followed by its name.\<close>

theorem registered_entity_is_measured_entity:
  assumes "ce_service_info el = service_info" "ce_device_info el = Some d" "ce_type el = []"
    and "entity_type d \<noteq> ''default''"
  shows "(entity_name d \<noteq> [] \<and> entity_name d \<noteq> ''default'' \<or> entity_type d = [] \<longrightarrow>
       en_id (registration_entity service_info d) = ce_id (format_element el)
       \<and> en_type (registration_entity service_info d) = ce_type (format_element el))
     \<and> (entity_name d = [] \<and> entity_type d \<noteq> [] \<longrightarrow>
       en_id (registration_entity service_info d) = []
       \<and> ce_id (format_element el) = entity_type d @ '':'' @ dev_name d)"
  using assms by (auto simp: registration_entity_def format_element_def Let_def)

theorem registered_entity_is_measured_entity_witness:
  "en_id (registration_entity (PTree [] []) ((Device_named ''d1'' ''s'')\<lparr> entity_type := ''car'' \<rparr>)) = []
   \<and> ce_id (format_element (blank_element\<lparr> ce_device_info := Some ((Device_named ''d1'' ''s'')\<lparr> entity_type := ''car'' \<rparr>) \<rparr>)) = ''car:d1''"
  using registered_entity_is_measured_entity
    [of "blank_element\<lparr> ce_device_info := Some ((Device_named ''d1'' ''s'')\<lparr> entity_type := ''car'' \<rparr>) \<rparr>" "PTree [] []"
      "(Device_named ''d1'' ''s'')\<lparr> entity_type := ''car'' \<rparr>"]
  by (simp add: blank_element_def Device_named_def blank_device_def)

end
