(* ===== verification/Riot_Time.thy ===== *)
theory Riot_Time
  imports Ngsi_Json
begin

text \<open>
  Time stamps (\<^verbatim>\<open>src/util/RiotISO8601.cc\<close>).  A point in time and a duration of the date library are
  microseconds; its readers and printers are fields of a parameter.  A subscript outside a string is
  undefined behaviour and an exception value of its own here.
\<close>

section \<open>The code\<close>

text \<open>\<open>tl_from_iso\<close> is \<open>from_iso_string\<close>, with the message of its exception, \<open>tl_to_iso\<close> is
  \<open>to_iso_extended_string\<close>, \<open>tl_duration\<close> is \<open>duration_from_string\<close>, and \<open>tl_number\<close> is
  \<open>numeric_cast<long>(lexical_cast<double>(s))\<close>.\<close>

record time_lib =
  tl_from_iso :: "string \<Rightarrow> string + int"
  tl_to_iso :: "int \<Rightarrow> string"
  tl_duration :: "string \<Rightarrow> int option"
  tl_number :: "string \<Rightarrow> int result"

record RiotISO8601 =
  t_ptime :: int
  t_dUTC :: int
  t_local :: bool

definition hours :: "int \<Rightarrow> int" where
  "hours d = sgn d * (\<bar>d\<bar> div 3600000000)"

definition minutes :: "int \<Rightarrow> int" where
  "minutes d = sgn d * (\<bar>d\<bar> div 60000000 mod 60)"

text \<open>The format \<open>%0wd\<close>: zeros up to the width, which counts the sign.\<close>

definition pad0 :: "nat \<Rightarrow> string \<Rightarrow> string" where
  "pad0 w s = replicate (w - length s) (CHR ''0'') @ s"

definition format0 :: "nat \<Rightarrow> int \<Rightarrow> string" where
  "format0 w i = (if i < 0 then ''-'' @ pad0 (w - 1) (show_nat (nat (- i))) else pad0 w (show_nat (nat i)))"

definition local_time :: "int \<Rightarrow> int \<Rightarrow> RiotISO8601" where
  "local_time clock gmtoff =
     \<lparr> t_ptime = clock,
       t_dUTC = sgn gmtoff * (\<bar>gmtoff\<bar> div 3600) * 3600000000 + sgn gmtoff * (\<bar>gmtoff\<bar> mod 3600 div 60) * 60000000,
       t_local = True \<rparr>"

definition epoch_time :: "int \<Rightarrow> RiotISO8601" where
  "epoch_time t = \<lparr> t_ptime = t * 1000000, t_dUTC = 0, t_local = False \<rparr>"

definition strip_marks :: "string \<Rightarrow> string" where
  "strip_marks s = filter (\<lambda>c. c \<noteq> CHR '':'' \<and> c \<noteq> CHR ''-'') s"

text \<open>The difference to UTC at the end of the text: its value, the rest of the text, and whether the
  time is local.\<close>

definition split_zone :: "time_lib \<Rightarrow> string \<Rightarrow> (int \<times> string \<times> bool) result" where
  "split_zone lib isot =
     (let n = length isot in
      if n = 0 then Inl (undefined_behaviour ''iso[-1]'')
      else if last isot = CHR ''Z'' then Inr (0, butlast isot, False)
      else if n < 6 then Inl (undefined_behaviour ''iso[length - 6]'')
      else if isot ! (n - 6) = CHR ''+'' \<or> isot ! (n - 6) = CHR ''-'' then
        (case tl_duration lib (drop (n - 6) isot) of
           None \<Rightarrow> Inl (bad_cast ''duration'')
         | Some d \<Rightarrow> Inr (d, take (n - 6) isot, True))
      else Inr (0, isot, True))"

definition parse_time :: "time_lib \<Rightarrow> string \<Rightarrow> RiotISO8601 result" where
  "parse_time lib isot =
     bind_exn (split_zone lib isot) (\<lambda>(d, body, loc).
       case tl_from_iso lib (strip_marks body) of
         Inl w \<Rightarrow> Inl (IotaException (RESPONSE_MESSAGE_INVALID_PARAMETER @ '' ['' @ isot @ '']'') w 400)
       | Inr p \<Rightarrow> Inr \<lparr> t_ptime = p, t_dUTC = d, t_local = loc \<rparr>)"

definition time_of_parts ::
  "time_lib \<Rightarrow> string \<Rightarrow> string \<Rightarrow> string \<Rightarrow> string \<Rightarrow> string \<Rightarrow> string \<Rightarrow> RiotISO8601 result" where
  "time_of_parts lib a m d hh mm ss =
     (case tl_from_iso lib (a @ m @ d @ ''T'' @ hh @ mm @ ss) of
        Inl w \<Rightarrow> Inl (bad_cast w)
      | Inr p \<Rightarrow> Inr \<lparr> t_ptime = p, t_dUTC = 0, t_local = True \<rparr>)"

definition time_string :: "time_lib \<Rightarrow> RiotISO8601 \<Rightarrow> string" where
  "time_string lib t =
     tl_to_iso lib (t_ptime t)
     @ (if hours (t_dUTC t) = 0 \<and> \<not> t_local t then ''Z''
        else if t_local t \<and> hours (t_dUTC t) \<noteq> 0 then
          (if hours (t_dUTC t) > 0 then ''+'' @ format0 2 (hours (t_dUTC t)) else format0 3 (hours (t_dUTC t)))
          @ '':'' @ format0 2 (minutes (t_dUTC t))
        else [])"

definition toUTC :: "time_lib \<Rightarrow> RiotISO8601 \<Rightarrow> RiotISO8601 result" where
  "toUTC lib t =
     (if \<not> t_local t \<or> hours (t_dUTC t) \<noteq> 0 then parse_time lib (tl_to_iso lib (t_ptime t - t_dUTC t) @ ''Z'')
      else Inr t)"

text \<open>The comparisons: both sides in UTC, the argument first.\<close>

definition compare_times :: "time_lib \<Rightarrow> (int \<Rightarrow> int \<Rightarrow> bool) \<Rightarrow> RiotISO8601 \<Rightarrow> RiotISO8601 \<Rightarrow> bool result" where
  "compare_times lib cmp t isot =
     bind_exn (toUTC lib t) (\<lambda>u. bind_exn (toUTC lib isot) (\<lambda>v. Inr (cmp (t_ptime v) (t_ptime u))))"

definition time_less :: "time_lib \<Rightarrow> RiotISO8601 \<Rightarrow> RiotISO8601 \<Rightarrow> bool result" where
  "time_less lib = compare_times lib (<)"

definition time_greater :: "time_lib \<Rightarrow> RiotISO8601 \<Rightarrow> RiotISO8601 \<Rightarrow> bool result" where
  "time_greater lib = compare_times lib (>)"

definition time_equal :: "time_lib \<Rightarrow> RiotISO8601 \<Rightarrow> RiotISO8601 \<Rightarrow> bool result" where
  "time_equal lib = compare_times lib (=)"

definition time_differs :: "time_lib \<Rightarrow> RiotISO8601 \<Rightarrow> RiotISO8601 \<Rightarrow> bool result" where
  "time_differs lib t isot = bind_exn (time_equal lib t isot) (\<lambda>b. Inr (\<not> b))"

section \<open>Properties\<close>

text \<open>The library reads back what it prints, once the marks are removed.\<close>

definition reads_back :: "time_lib \<Rightarrow> int \<Rightarrow> bool" where
  "reads_back lib p \<longleftrightarrow> tl_from_iso lib (strip_marks (tl_to_iso lib p)) = Inr p"

lemma parse_time_Z:
  "reads_back lib p \<Longrightarrow> parse_time lib (tl_to_iso lib p @ ''Z'') = Inr \<lparr> t_ptime = p, t_dUTC = 0, t_local = False \<rparr>"
  by (simp add: parse_time_def split_zone_def reads_back_def)

definition utc_of :: "RiotISO8601 \<Rightarrow> int" where
  "utc_of t = (if \<not> t_local t \<or> hours (t_dUTC t) \<noteq> 0 then t_ptime t - t_dUTC t else t_ptime t)"

lemma toUTC_eq:
  assumes "reads_back lib (utc_of t)"
  shows "\<exists>u. toUTC lib t = Inr u \<and> t_ptime u = utc_of t"
  using assms parse_time_Z [of lib "t_ptime t - t_dUTC t"] 
  by (cases "\<not> t_local t \<or> hours (t_dUTC t) \<noteq> 0") (auto simp: toUTC_def utc_of_def)

text \<open>The order of time stamps is turned round: \<open>a < b\<close> holds exactly when \<open>a\<close> is later than \<open>b\<close>
  and \<open>a > b\<close> when it is earlier; equality compares the instants.\<close>

theorem time_order_inverted:
  assumes "reads_back lib (utc_of a)" "reads_back lib (utc_of b)"
  shows "time_less lib a b = Inr (utc_of b < utc_of a) \<and> time_greater lib a b = Inr (utc_of a < utc_of b)
     \<and> time_equal lib a b = Inr (utc_of a = utc_of b)"
  using toUTC_eq [OF assms(1)] toUTC_eq [OF assms(2)]
  by (auto simp: time_less_def time_greater_def time_equal_def compare_times_def)

definition sample_time_lib :: time_lib where
  "sample_time_lib =
     \<lparr> tl_from_iso = (\<lambda>s. Inr (atoi s)), tl_to_iso = show_int, tl_duration = (\<lambda>s. None),
       tl_number = (\<lambda>s. Inr (atoi s)) \<rparr>"

definition sample_time :: "int \<Rightarrow> RiotISO8601" where
  "sample_time p = \<lparr> t_ptime = p, t_dUTC = 0, t_local = False \<rparr>"

theorem time_order_inverted_witness:
  "time_less sample_time_lib (sample_time 0) (sample_time 5) = Inr False
   \<and> time_less sample_time_lib (sample_time 5) (sample_time 0) = Inr True"
proof -
  have "reads_back sample_time_lib 0" "reads_back sample_time_lib 5" by code_simp+
  moreover have "utc_of (sample_time p) = p" for p
    by (simp add: utc_of_def sample_time_def)
  ultimately show ?thesis
    using time_order_inverted [of sample_time_lib "sample_time 0" "sample_time 5"]
      time_order_inverted [of sample_time_lib "sample_time 5" "sample_time 0"] by simp
qed

text \<open>A difference to UTC of half an hour to the west prints with a second sign.\<close>

lemma negative_minutes: "time_string lib \<lparr> t_ptime = p, t_dUTC = - 12600000000, t_local = True \<rparr> = tl_to_iso lib p @ ''-03:-30''"
proof -
  have "hours (- 12600000000) = - 3" "minutes (- 12600000000) = - 30" by code_simp+
  moreover have "format0 3 (- 3) = ''-03''" "format0 2 (- 30) = ''-30''" by code_simp+
  ultimately show ?thesis by (simp add: time_string_def)
qed

end
