(* ===== verification/Ul_Observation.thy ===== *)
theory Ul_Observation
  imports Ngsi_Element Riot_Time
begin

text \<open>
  Measures in the UltraLight 2.0 protocol (\<^verbatim>\<open>src/ultra_light/ULInsertObservation.cc\<close>): from the text of
  a message to context elements.  What the code computes for its log only (concentrator, procedure and
  sensor identifiers) is left out.  The libraries and the current time are a parameter; a subscript
  outside the tokens is an exception value.  \<open>None\<close> means that a mapping never ends.
\<close>

section \<open>The code\<close>

record ul_env =
  ue_json :: json_lib
  ue_time :: time_lib
  ue_now :: string

definition find_last_of :: "char \<Rightarrow> string \<Rightarrow> nat option" where
  "find_last_of c s = map_option (\<lambda>i. length s - 1 - i) (find_sub [c] (rev s))"

definition contentForSBCProtocol :: "string \<Rightarrow> string \<Rightarrow> string \<Rightarrow> string" where
  "contentForSBCProtocol io a_sampling_time a_res_query =
     (let (alias, data, time) =
        (case (find_sub ''|'' io, find_last_of CHR ''|'' io) of
           (Some p, Some q) \<Rightarrow>
             if p = q then (take p io, io, a_sampling_time)
             else let d = drop (p + 1) io in
                  (case find_sub ''|'' d of Some a \<Rightarrow> take a d | None \<Rightarrow> [], d, take p io)
         | _ \<Rightarrow> ([], [], []))
      in ''|'' @ a_res_query @ ''|'' @ time @ ''|'' @ alias @ ''||'' @ data)"

definition protocol_error :: "string \<Rightarrow> cxx_exn" where
  "protocol_error what = IotaException RESPONSE_MESSAGE_INVALID_PARAMETER what 400"

text \<open>\<open>catch (std::runtime_error& e)\<close> and what is thrown instead.\<close>

definition is_runtime_error :: "cxx_exn \<Rightarrow> bool" where
  "is_runtime_error e = (case e of runtime_error _ \<Rightarrow> True | IotaException _ _ _ \<Rightarrow> True | _ \<Rightarrow> False)"

definition rethrown :: "cxx_exn \<Rightarrow> cxx_exn" where
  "rethrown e = (case e of runtime_error w \<Rightarrow> protocol_error w | IotaException _ w _ \<Rightarrow> protocol_error w | _ \<Rightarrow> e)"

definition rethrow :: "'a result option \<Rightarrow> 'a result option" where
  "rethrow r = map_option (case_sum (\<lambda>e. Inl (rethrown e)) Inr) r"

text \<open>The sampling time: none, an instant (the current time when it cannot be read), or a period, of
  which the start counts.\<close>

definition sampling_date :: "ul_env \<Rightarrow> string \<Rightarrow> string result" where
  "sampling_date env time =
     (case riot_tokenizer time '' '' of
        [] \<Rightarrow> Inr (ue_now env)
      | [t] \<Rightarrow> (case parse_time (ue_time env) t of
                  Inr x \<Rightarrow> Inr (time_string (ue_time env) x)
                | Inl e \<Rightarrow> if is_runtime_error e then Inr (ue_now env) else Inl e)
      | t # u # _ \<Rightarrow>
          (case bind_exn (tl_number (ue_time env) t) (\<lambda>b. bind_exn (tl_number (ue_time env) u) (\<lambda>_. Inr b)) of
             Inr b \<Rightarrow> Inr (time_string (ue_time env) (epoch_time b))
           | Inl e \<Rightarrow> if e = bad_cast ''bad_lexical_cast'' then Inr t else Inl e))"

definition make_element ::
  "ul_env \<Rightarrow> ptree \<Rightarrow> Device option \<Rightarrow> string \<Rightarrow> string \<Rightarrow> string \<Rightarrow> string \<Rightarrow> ContextElement result option" where
  "make_element env service_ptree dev device_name date attr_name val =
     (let att = add_metadata (stamp date) (new_Attribute attr_name [] val) in
      bind_run (set_env_info (ue_json env) (ue_now env) service_ptree dev (new_ContextElement device_name [] ''false''))
        (\<lambda>el. bind_run (add_attribute (ue_json env) att el) (add_attribute (ue_json env) (stamp date))))"

text \<open>The names and values of a measure.  An empty name is skipped once; name and value are read
  without a test of the bounds.\<close>

type_synonym ul_state = "Device option \<times> ContextElement list"

function measure_values ::
  "ul_env \<Rightarrow> ptree \<Rightarrow> string \<Rightarrow> string \<Rightarrow> string list \<Rightarrow> ul_state \<Rightarrow> ul_state result option" where
  "measure_values env service_ptree device_name date toks st =
     (if toks = [] then Some (Inr st)
      else let ts = (if hd toks = [] then tl toks else toks) in
           if length ts < 2 then Some (Inl (undefined_behaviour ''tokens_io[j + 1]''))
           else if ts ! 1 = [] then Some (Inl (protocol_error ''Protocol error, Empty values is not allowed ''))
           else bind_run (make_element env service_ptree (fst st) device_name date (ts ! 0) (ts ! 1)) (\<lambda>el.
             measure_values env service_ptree device_name date (drop 2 ts) (ce_device_info el, snd st @ [el])))"
  by pat_completeness auto
termination
  by (relation "measure (\<lambda>(e, s, n, d, toks, st). length toks)") (auto split: if_splits)

declare measure_values.simps [simp del]

definition translate_measure ::
  "ul_env \<Rightarrow> ptree \<Rightarrow> string \<Rightarrow> string \<Rightarrow> nat \<Rightarrow> string \<Rightarrow> ul_state \<Rightarrow> ul_state result option" where
  "translate_measure env service_ptree samplingTime device_name prot msg st =
     (let m = (if prot = 0 then contentForSBCProtocol msg samplingTime device_name else msg);
          tokens_io = riot_tokenizer m ''|'' in
      if length tokens_io < 4 then Some (Inl (protocol_error ''Protocol error, a measure is not complete ''))
      else let res = (if tokens_io ! 1 = [] then device_name
                      else if device_name \<noteq> [] then device_name @ ''.'' @ tokens_io ! 1 else tokens_io ! 1) in
           if res = [] \<or> tokens_io ! 3 = []
           then Some (Inl (protocol_error ''Protocol error, measurement has not got property or idResource ''))
           else rethrow (bind_run (Some (sampling_date env (tokens_io ! 2))) (\<lambda>date.
                  measure_values env service_ptree device_name date (drop 4 tokens_io) st)))"

fun translate_measures ::
  "ul_env \<Rightarrow> ptree \<Rightarrow> string \<Rightarrow> string \<Rightarrow> nat \<Rightarrow> string list \<Rightarrow> ul_state \<Rightarrow> ul_state result option" where
  "translate_measures env service_ptree samplingTime device_name prot [] st = Some (Inr st)"
| "translate_measures env service_ptree samplingTime device_name prot (m # ms) st =
     bind_run (translate_measure env service_ptree samplingTime device_name prot m st)
       (translate_measures env service_ptree samplingTime device_name prot ms)"

text \<open>The last occurrence of a parameter counts.\<close>

definition query_value :: "KVP list \<Rightarrow> string \<Rightarrow> string" where
  "query_value query key = (case map_of (rev query) key of Some v \<Rightarrow> v | None \<Rightarrow> [])"

definition translate ::
  "ul_env \<Rightarrow> string \<Rightarrow> Device option \<Rightarrow> ptree \<Rightarrow> KVP list \<Rightarrow> ContextElement list \<Rightarrow> nat \<Rightarrow>
   ul_state result option" where
  "translate env str_io dev service_ptree query cb_eltos prot =
     (let io = erase_all (CHR 0x0D) (erase_all (CHR 0x0A) (boost_trim str_io));
          device_name = (case dev of
                           Some d \<Rightarrow> get_real_name d (pt_get service_ptree ''entity_type'' [])
                         | None \<Rightarrow> query_value query ''ID'');
          tokens_msgs = riot_tokenizer io ''#'' in
      if tokens_msgs = [] then Some (Inl (protocol_error ''Protocol error, no measurements''))
      else bind_run (translate_measures env service_ptree (query_value query ''t'') device_name prot tokens_msgs (dev, cb_eltos))
        (\<lambda>st. if length tokens_msgs \<noteq> length (snd st) then Some (Inl (protocol_error ''Protocol error, ''))
              else Some (Inr st)))"

section \<open>Tokens\<close>

lemma find_last_of_eq: "c \<notin> set v \<Longrightarrow> find_last_of c (a @ c # v) = Some (length a)"
  using find_sub_char [of c "rev v" "rev a"] by (simp add: find_last_of_def)

text \<open>A bare measure gets resource, sampling time and property in front.\<close>

lemma content_bare:
  assumes "CHR ''|'' \<notin> set a" "CHR ''|'' \<notin> set v"
  shows "contentForSBCProtocol (a @ ''|'' @ v) t n = join_with ''|'' [[], n, t, a, [], a, v]"
proof -
  have "find_sub ''|'' (a @ CHR ''|'' # v) = Some (length a)" using find_sub_char [OF assms(1)] by simp
  then show ?thesis
    using find_last_of_eq [OF assms(2), of a] by (simp add: contentForSBCProtocol_def)
qed

lemma riot_tokenizer_join:
  assumes "ts \<noteq> []" "join_with [c] ts \<noteq> []" "\<forall>t \<in> set ts. c \<notin> set t"
  shows "riot_tokenizer (join_with [c] ts) [c] = ts"
  using assms split_join [of "\<lambda>x. x \<in> set [c]" c ts] by (auto simp: riot_tokenizer_def)

section \<open>Elements without mappings\<close>

lemma plain_get_attribute: "plain_device d \<Longrightarrow> plain_device (snd (get_attribute k d))"
  using set_map_insert [of k "[]" "attributes d"]
  by (auto simp: plain_device_def get_attribute_def list_all_iff split: option.split)

lemma plain_mapping:
  assumes "plain_service (ce_service_info el)" "ce_device_info el = Some d" "plain_device d"
  shows "mapping_text k el = Inr []"
  using assms plain_lookup [OF assms(3)] by (simp add: mapping_text_def plain_service_def)

text \<open>The same device but for empty entries among its attributes.\<close>

definition same_device :: "Device \<Rightarrow> Device \<Rightarrow> bool" where
  "same_device d d' \<longleftrightarrow> plain_device d' \<and> entity_type d' = entity_type d \<and> entity_name d' = entity_name d
     \<and> dev_name d' = dev_name d"

lemma same_device_get: "same_device d d' \<Longrightarrow> same_device d (snd (get_attribute k d'))"
  using plain_get_attribute [of d' k] by (auto simp: same_device_def get_attribute_def split: option.splits)

definition measured :: "ptree \<Rightarrow> Device \<Rightarrow> string \<Rightarrow> string \<times> string \<Rightarrow> ContextElement \<Rightarrow> bool" where
  "measured service_ptree d date m el \<longleftrightarrow>
     ce_id el = get_real_name d (pt_get service_ptree ''entity_type'' [])
     \<and> ce_attributes el = [Attribute (render_identifier (fst m)) ''string'' (snd m) [stamp date] [] False, stamp date]"

lemma add_plain:
  assumes "plain_service (ce_service_info el)" "ce_device_info el = Some d'" "same_device d d'" "\<not> empty_value (typed a)"
  shows "\<exists>el'. add_attribute lib a el = Some (Inr el') \<and> ce_attributes el' = ce_attributes el @ [typed a]
     \<and> ce_id el' = ce_id el \<and> ce_service_info el' = ce_service_info el
     \<and> (\<exists>d''. ce_device_info el' = Some d'' \<and> same_device d d'')"
proof -
  have "mapping_text (a_name a) el = Inr []"
    using plain_mapping assms(1-3) by (auto simp: same_device_def)
  then show ?thesis
    using add_attribute_publishes [of a el lib] assms same_device_get by (simp add: touched_def)
qed

lemma typed_stamp: "typed (stamp date) = stamp date" "\<not> empty_value (stamp date)"
proof -
  have "render_identifier ''ISO8601'' = ''ISO8601''" by code_simp
  then show "typed (stamp date) = stamp date" "\<not> empty_value (stamp date)"
    by (simp_all add: stamp_def new_Attribute_def empty_value_def EMPTY_VALUE_def)
qed

lemma make_element_plain:
  assumes "plain_service service_ptree" "same_device d d'" "fst m \<noteq> []" "snd m \<noteq> []"
  shows "\<exists>el d''. make_element env service_ptree (Some d') name date (fst m) (snd m) = Some (Inr el)
     \<and> measured service_ptree d date m el \<and> ce_device_info el = Some d'' \<and> same_device d d''"
proof -
  let ?el = "format_element ((new_ContextElement name [] ''false'')\<lparr> ce_service_info := service_ptree, ce_device_info := Some d' \<rparr>)"
  let ?a = "add_metadata (stamp date) (new_Attribute (fst m) [] (snd m))"
  have r: "render_identifier [] = []" by (simp add: render_identifier_def)
  have env: "set_env_info (ue_json env) (ue_now env) service_ptree (Some d') (new_ContextElement name [] ''false'') = Some (Inr ?el)"
    using assms(1,2) by (simp add: set_env_info_def plain_service_def same_device_def plain_device_def)
  have el: "ce_id ?el = get_real_name d (pt_get service_ptree ''entity_type'' [])" "ce_attributes ?el = []"
    "ce_service_info ?el = service_ptree" "ce_device_info ?el = Some d'"
    using assms(2) r
    by (simp_all add: format_element_def get_real_name_def same_device_def new_ContextElement_def blank_element_def Let_def)
  have a: "typed ?a = Attribute (render_identifier (fst m)) ''string'' (snd m) [stamp date] [] False"
    using assms(3,4) r plain_string(1) by (simp add: typed_def set_type_def add_metadata_def new_Attribute_def)
  then have ne: "\<not> empty_value (typed ?a)" using assms(4) by (simp add: empty_value_def)
  obtain el1 d1 where el1: "add_attribute (ue_json env) ?a ?el = Some (Inr el1)" "ce_attributes el1 = [typed ?a]"
    "ce_id el1 = ce_id ?el" "ce_service_info el1 = service_ptree" "ce_device_info el1 = Some d1" "same_device d d1"
    using add_plain [OF _ el(4) assms(2) ne, of "ue_json env"] assms(1) el by auto
  obtain el2 d2 where el2: "add_attribute (ue_json env) (stamp date) el1 = Some (Inr el2)"
    "ce_attributes el2 = [typed ?a, stamp date]" "ce_id el2 = ce_id ?el" "ce_device_info el2 = Some d2" "same_device d d2"
    using add_plain [of el1 d1 d "stamp date" "ue_json env"] assms(1) el1 typed_stamp by auto
  show ?thesis
    using env el1(1) el2 el(1) a by (auto simp: make_element_def measured_def Let_def)
qed

section \<open>Whole messages\<close>

definition measure_ok :: "string \<times> string \<Rightarrow> bool" where
  "measure_ok m \<longleftrightarrow> fst m \<noteq> [] \<and> snd m \<noteq> [] \<and> set (fst m @ snd m) \<inter> {CHR ''|'', CHR ''#'', CHR 0x0A, CHR 0x0D} = {}"

definition measure_text :: "string \<times> string \<Rightarrow> string" where
  "measure_text m = fst m @ ''|'' @ snd m"

lemma measure_tokens:
  assumes "CHR ''|'' \<notin> set (fst m) \<union> set (snd m)" "CHR ''|'' \<notin> set n" "CHR ''|'' \<notin> set t"
  shows "riot_tokenizer (contentForSBCProtocol (measure_text m) t n) ''|'' = [[], n, t, fst m, [], fst m, snd m]"
proof -
  have "contentForSBCProtocol (measure_text m) t n = join_with ''|'' [[], n, t, fst m, [], fst m, snd m]"
    using content_bare [of "fst m" "snd m" t n] assms(1) by (simp add: measure_text_def)
  then show ?thesis
    using riot_tokenizer_join [of "[[], n, t, fst m, [], fst m, snd m]" "CHR ''|''"] assms by auto
qed

lemma translate_measure_plain:
  assumes "measure_ok m" "plain_service service_ptree" "same_device d d'"
    and "name \<noteq> []" "CHR ''|'' \<notin> set name" "CHR ''|'' \<notin> set t" "sampling_date env t = Inr date"
  shows "\<exists>el d''. translate_measure env service_ptree t name 0 (measure_text m) (Some d', els) = Some (Inr (Some d'', els @ [el]))
     \<and> measured service_ptree d date m el \<and> same_device d d''"
proof -
  have m: "fst m \<noteq> []" "snd m \<noteq> []" "CHR ''|'' \<notin> set (fst m) \<union> set (snd m)"
    using assms(1) by (auto simp: measure_ok_def)
  obtain el d'' where el: "make_element env service_ptree (Some d') name date (fst m) (snd m) = Some (Inr el)"
    "measured service_ptree d date m el" "ce_device_info el = Some d''" "same_device d d''"
    using make_element_plain [OF assms(2,3) m(1,2)] by blast
  have "measure_values env service_ptree name date [[], fst m, snd m] (Some d', els) = Some (Inr (Some d'', els @ [el]))"
    using el m by (subst measure_values.simps, simp) (subst measure_values.simps, simp)
  then show ?thesis
    using measure_tokens [OF m(3) assms(5,6)] assms(4,7) m(1) el(2,4)
    by (auto simp: translate_measure_def Let_def rethrow_def)
qed

lemma translate_measures_plain:
  assumes "list_all measure_ok ms" "plain_service service_ptree" "same_device d d'"
    and "name \<noteq> []" "CHR ''|'' \<notin> set name" "CHR ''|'' \<notin> set t" "sampling_date env t = Inr date"
  shows "\<exists>els' d''. translate_measures env service_ptree t name 0 (map measure_text ms) (Some d', els) = Some (Inr (Some d'', els @ els'))
     \<and> list_all2 (measured service_ptree d date) ms els'"
  using assms(1,3)
proof (induction ms arbitrary: d' els)
  case (Cons m ms)
  have "measure_ok m" using Cons.prems(1) by simp
  then obtain el d1 where el: "translate_measure env service_ptree t name 0 (measure_text m) (Some d', els) = Some (Inr (Some d1, els @ [el]))"
    "measured service_ptree d date m el" "same_device d d1"
    using translate_measure_plain [OF _ assms(2) Cons.prems(2) assms(4-7)] by blast
  then show ?case using Cons.IH [OF _ el(3), of "els @ [el]"] Cons.prems(1) by auto
qed simp

lemma message_tokens:
  assumes "ms \<noteq> []" "list_all measure_ok ms"
  shows "erase_all (CHR 0x0D) (erase_all (CHR 0x0A) (join_with ''#'' (map measure_text ms))) = join_with ''#'' (map measure_text ms)"
    "riot_tokenizer (join_with ''#'' (map measure_text ms)) ''#'' = map measure_text ms"
proof -
  have ok: "\<forall>t \<in> set (map measure_text ms). CHR ''#'' \<notin> set t \<and> CHR 0x0A \<notin> set t \<and> CHR 0x0D \<notin> set t"
    using assms(2) by (auto simp: list_all_iff measure_ok_def measure_text_def)
  have "set (join_with ''#'' ts) \<subseteq> \<Union> (set ` set ts) \<union> {CHR ''#''}" for ts
    by (induction "''#''" ts rule: join_with.induct) auto
  from this [of "map measure_text ms"] ok
  have "CHR 0x0A \<notin> set (join_with ''#'' (map measure_text ms))" "CHR 0x0D \<notin> set (join_with ''#'' (map measure_text ms))"
    by auto
  then show "erase_all (CHR 0x0D) (erase_all (CHR 0x0A) (join_with ''#'' (map measure_text ms))) = join_with ''#'' (map measure_text ms)"
    by (simp add: erase_all_def filter_id_conv) (metis filter_id_conv)
  obtain m ms' where "ms = m # ms'" using assms(1) by (cases ms) auto
  then have "join_with ''#'' (map measure_text ms) \<noteq> []"
    using assms(2) by (cases ms') (simp_all add: measure_text_def)
  then show "riot_tokenizer (join_with ''#'' (map measure_text ms)) ''#'' = map measure_text ms"
    using assms(1) ok by (intro riot_tokenizer_join) auto
qed

text \<open>C7: A message of measures \<open>alias|value\<close> separated by \<open>#\<close> gives one context element per measure, in
  order.  Each carries the identity of the device and its measure as an attribute that is stamped with
  the sampling time, and the sampling time as an attribute of its own.\<close>

theorem ul_message_one_element_per_measure:
  fixes service_ptree :: ptree and d :: Device and ms :: "(string \<times> string) list"
  defines "name \<equiv> get_real_name d (pt_get service_ptree ''entity_type'' [])"
    and "text \<equiv> join_with ''#'' (map measure_text ms)"
  assumes "ms \<noteq> []" "list_all measure_ok ms" "boost_trim text = text"
    and "plain_service service_ptree" "plain_device d" "name \<noteq> []" "CHR ''|'' \<notin> set name"
    and "CHR ''|'' \<notin> set (query_value query ''t'')" "sampling_date env (query_value query ''t'') = Inr date"
  shows "\<exists>els d'. translate env text (Some d) service_ptree query [] 0 = Some (Inr (d', els))
     \<and> list_all2 (measured service_ptree d date) ms els"
proof -
  have "same_device d d" using assms(7) by (simp add: same_device_def)
  then obtain els d'' where "translate_measures env service_ptree (query_value query ''t'') name 0 (map measure_text ms) (Some d, [])
      = Some (Inr (Some d'', els))" "list_all2 (measured service_ptree d date) ms els"
    using translate_measures_plain [OF assms(4,6) _ assms(8-11), of d d "[]"] by auto
  then show ?thesis
    using message_tokens [OF assms(3,4)] assms(3,5) list_all2_lengthD
    by (fastforce simp: translate_def name_def text_def Let_def)
qed

theorem ul_message_one_element_per_measure_witness:
  "\<forall>env. \<exists>els d'. translate env ''t|21#h|60'' (Some (Device_named ''d1'' ''s'')) (PTree [] []) [] [] 0 = Some (Inr (d', els))
     \<and> list_all2 (measured (PTree [] []) (Device_named ''d1'' ''s'') (ue_now env)) [(''t'', ''21''), (''h'', ''60'')] els"
proof
  fix env
  have n: "get_real_name (Device_named ''d1'' ''s'') (pt_get (PTree [] []) ''entity_type'' []) = ''thing:d1''"
    by (simp add: get_real_name_def Device_named_def blank_device_def pt_get_def)
  have q: "query_value [] ''t'' = []" by (simp add: query_value_def)
  have s: "sampling_date env [] = Inr (ue_now env)" by (simp add: sampling_date_def riot_tokenizer_def)
  have p: "plain_service (PTree [] [])" "plain_device (Device_named ''d1'' ''s'')"
    by (simp_all add: plain_service_def plain_device_def Device_named_def blank_device_def)
  have t: "boost_trim ''t|21#h|60'' = ''t|21#h|60''" by code_simp
  show "\<exists>els d'. translate env ''t|21#h|60'' (Some (Device_named ''d1'' ''s'')) (PTree [] []) [] [] 0 = Some (Inr (d', els))
     \<and> list_all2 (measured (PTree [] []) (Device_named ''d1'' ''s'') (ue_now env)) [(''t'', ''21''), (''h'', ''60'')] els"
    using ul_message_one_element_per_measure [of "[(''t'', ''21''), (''h'', ''60'')]" "PTree [] []" "Device_named ''d1'' ''s''" "[]" env "ue_now env"]
      n q s p t by (simp add: measure_ok_def measure_text_def)
qed

text \<open>Two measures joined by the field separator instead of \<open>#\<close> make the translation read past the
  end of its tokens, unless the sampling time taken from the first name throws before.\<close>

theorem ul_two_pairs_read_past_tokens:
  assumes "list_all (\<lambda>s. s \<noteq> [] \<and> CHR ''|'' \<notin> set s) [a, v, b, w]" "name \<noteq> []" "CHR ''|'' \<notin> set name"
    and "sampling_date env a = Inr date" "plain_service service_ptree" "plain_device d"
  shows "translate_measure env service_ptree t name 0 (a @ ''|'' @ v @ ''|'' @ b @ ''|'' @ w) (Some d, els)
       = Some (Inl (undefined_behaviour ''tokens_io[j + 1]''))"
proof -
  let ?io = "a @ ''|'' @ v @ ''|'' @ b @ ''|'' @ w" and ?ts = "[[], name, a, v, [], v, b, w]"
  have bars: "CHR ''|'' \<notin> set a" "CHR ''|'' \<notin> set v" "CHR ''|'' \<notin> set b" "CHR ''|'' \<notin> set w" and
    ne: "a \<noteq> []" "v \<noteq> []" "b \<noteq> []" "w \<noteq> []"
    using assms(1) by simp_all
  have "find_sub ''|'' ?io = Some (length a)" "find_sub ''|'' (v @ ''|'' @ b @ ''|'' @ w) = Some (length v)"
    using find_sub_char [OF bars(1)] find_sub_char [OF bars(2)] by simp_all
  moreover have "find_last_of CHR ''|'' ?io = Some (length (a @ ''|'' @ v @ ''|'' @ b))"
    using find_last_of_eq [OF bars(4), of "a @ ''|'' @ v @ ''|'' @ b"] by simp
  ultimately have "contentForSBCProtocol ?io t name = join_with ''|'' ?ts"
    by (simp add: contentForSBCProtocol_def)
  then have toks: "riot_tokenizer (contentForSBCProtocol ?io t name) ''|'' = ?ts"
    using riot_tokenizer_join [of ?ts "CHR ''|''"] bars assms(3) by auto
  have "same_device d d" using assms(6) by (simp add: same_device_def)
  then obtain el where "make_element env service_ptree (Some d) name date v b = Some (Inr el)"
    using make_element_plain [of service_ptree d d "(v, b)" env name date] assms(5) ne by auto
  then have "measure_values env service_ptree name date [[], v, b, w] (Some d, els)
      = Some (Inl (undefined_behaviour ''tokens_io[j + 1]''))"
    using ne by (subst measure_values.simps, simp) (subst measure_values.simps, simp)
  then show ?thesis
    using toks assms(2,4) ne by (simp add: translate_measure_def Let_def rethrow_def rethrown_def)
qed

theorem ul_two_pairs_read_past_tokens_witness:
  "\<forall>env. translate_measure env (PTree [] []) [] ''thing:d1'' 0 ''Z|21|h|60'' (Some (Device_named ''d1'' ''s''), [])
     = Some (Inl (undefined_behaviour ''tokens_io[j + 1]''))"
proof
  fix env
  have "\<exists>date. sampling_date env ''Z'' = Inr date"
    by (cases "tl_from_iso (ue_time env) []")
       (simp_all add: sampling_date_def riot_tokenizer_def parse_time_def split_zone_def strip_marks_def is_runtime_error_def)
  then obtain date where "sampling_date env ''Z'' = Inr date" ..
  moreover have "plain_service (PTree [] [])" "plain_device (Device_named ''d1'' ''s'')"
    by (simp_all add: plain_service_def plain_device_def Device_named_def blank_device_def)
  ultimately show "translate_measure env (PTree [] []) [] ''thing:d1'' 0 ''Z|21|h|60'' (Some (Device_named ''d1'' ''s''), [])
     = Some (Inl (undefined_behaviour ''tokens_io[j + 1]''))"
    using ul_two_pairs_read_past_tokens [of "''Z''" "''21''" "''h''" "''60''" "''thing:d1''" env date "PTree [] []"
        "Device_named ''d1'' ''s''" "[]" "[]"] by simp
qed

text \<open>A time of fewer than six characters that is not in UTC is read outside its bounds.\<close>

lemma short_time_undefined:
  assumes "t \<noteq> []" "length t < 6" "last t \<noteq> CHR ''Z''" "CHR '' '' \<notin> set t"
  shows "sampling_date env t = Inl (undefined_behaviour ''iso[length - 6]'')"
proof -
  have "riot_tokenizer t '' '' = [t]"
    using riot_tokenizer_join [of "[t]" "CHR '' ''"] assms by simp
  then show ?thesis
    using assms by (simp add: sampling_date_def parse_time_def split_zone_def is_runtime_error_def)
qed

end
