(* ===== verification/Command_Text.thy ===== *)
theory Command_Text
  imports Ngsi_Json
begin

text \<open>
  The texts of commands (\<^verbatim>\<open>src/rest/command_handle.cc\<close>, \<^verbatim>\<open>src/ultra_light/ul20_service.cc\<close>): the command
  line that is built from the template a device was provisioned with and from the parameters of an
  update, the identifier by which a later response is matched, and the durations of registrations.
\<close>

section \<open>Templates\<close>

text \<open>\<open>ptree::put\<close> for a key without dots: the first child with the key, else a new one.\<close>

fun put_child :: "string \<Rightarrow> string \<Rightarrow> (string \<times> ptree) list \<Rightarrow> (string \<times> ptree) list" where
  "put_child key val [] = [(key, PTree val [])]"
| "put_child key val ((k, c) # cs) =
     (if k = key then (k, PTree val (pt_children c)) # cs else (k, c) # put_child key val cs)"

definition pt_put :: "string \<Rightarrow> string \<Rightarrow> ptree \<Rightarrow> ptree" where
  "pt_put key val t = PTree (pt_data t) (put_child key val (pt_children t))"

definition RAW :: string where
  "RAW = ''@@RAW@@''"

definition BODY :: string where
  "BODY = ''body''"

text \<open>The loop that puts the parameters into the places of \<open>%s\<close>; \<open>params[i++]\<close> is not checked.\<close>

function fill_template :: "string \<Rightarrow> string list \<Rightarrow> nat \<Rightarrow> string result" where
  "fill_template rest params i =
     (case find_sub ''%s'' rest of
        None \<Rightarrow> Inr rest
      | Some p \<Rightarrow>
          if i < length params
          then bind_exn (fill_template (drop (p + 2) rest) params (i + 1))
                 (\<lambda>r. Inr (take p rest @ params ! i @ r))
          else Inl (undefined_behaviour ''params[i++]''))"
  by pat_completeness auto
termination
  by (relation "measure (\<lambda>(rest, params, i). length rest)") (auto dest: find_sub_bound)

declare fill_template.simps [simp del]

text \<open>\<open>CommandHandle::transform_command\<close>: identifier and command line.  \<open>uuid\<close> is the random one the
  function draws when there is no sequence.\<close>

definition handle_transform_command ::
  "string \<Rightarrow> string \<Rightarrow> string \<Rightarrow> string \<Rightarrow> ptree \<Rightarrow> (string \<times> ptree) result" where
  "handle_transform_command command_value updateCommand_value sequence_id uuid command_line =
     (let command_id = (if sequence_id = [] then uuid else sequence_id);
          params = split_on (\<lambda>c. c = CHR ''|'') updateCommand_value;
          places = length (filter (\<lambda>c. c = CHR ''%'') command_value)
      in bind_exn
           (if command_value = [] \<or> command_value = RAW then Inr updateCommand_value
            else if places = 0 then Inr command_value
            else if places > length params
            then Inl (IotaException RESPONSE_MESSAGE_INVALID_PARAMETER
                   (''malformed command '' @ command_value @ '' in relation with '' @ updateCommand_value
                    @ ''.%s is replaced with  | value'') 400)
            else fill_template command_value params 0)
           (\<lambda>body. Inr (command_id, pt_put BODY body command_line)))"

section \<open>UltraLight commands\<close>

definition RESPONSE_MESSAGE_COMMAND_BAD :: string where
  "RESPONSE_MESSAGE_COMMAND_BAD = ''this is not a valid command''"

definition get_id_command :: "string \<Rightarrow> string" where
  "get_id_command str_command =
     (let id_comando = (case find_sub ''|'' str_command of Some p \<Rightarrow> take p str_command | None \<Rightarrow> str_command)
      in if CHR ''@'' \<notin> set id_comando then [] else id_comando)"

text \<open>The code, the response and the identifier; \<open>-1\<close> when the text is not a response.\<close>

definition isCommandResp :: "string \<Rightarrow> int \<times> string \<times> string" where
  "isCommandResp str_command_resp =
     (let id_command = get_id_command str_command_resp
      in if id_command \<noteq> [] then (200, str_command_resp, id_command) else (-1, [], id_command))"

fun ul_members :: "string \<Rightarrow> (string \<times> json) list \<Rightarrow> string result" where
  "ul_members json_value [] = Inr []"
| "ul_members json_value ((n, v) # ms) =
     (case v of
        JString s \<Rightarrow> bind_exn (ul_members json_value ms)
          (\<lambda>r. Inr (c_str n @ ''='' @ c_str s @ (if ms = [] then [] else ''|'') @ r))
      | _ \<Rightarrow> Inl (IotaException RESPONSE_MESSAGE_COMMAND_BAD json_value 400))"

definition json_value_to_ul :: "json_lib \<Rightarrow> string \<Rightarrow> string result" where
  "json_value_to_ul lib json_value =
     (if json_value = [] then Inr []
      else case jl_parse lib (c_str json_value) of
             Inl _ \<Rightarrow> Inr json_value
           | Inr (JObject ms) \<Rightarrow> ul_members json_value ms
           | Inr _ \<Rightarrow> Inl (assertion_failure ''IsObject''))"

text \<open>\<open>UL20Service::transform_command\<close>.  The identifier is the one of the command line.\<close>

definition transform_command ::
  "json_lib \<Rightarrow> string \<Rightarrow> string \<Rightarrow> string \<Rightarrow> string \<Rightarrow> string \<Rightarrow> string \<Rightarrow> ptree \<Rightarrow> (string \<times> ptree) result" where
  "transform_command lib command_name a_command_value a_updateCommand_value sequence_id uuid device_name command_line =
     (let command_value = boost_trim a_command_value in
      bind_exn (json_value_to_ul lib (boost_trim a_updateCommand_value)) (\<lambda>updateCommand_value.
      bind_exn
        (if command_value = RAW then Inr (pt_put BODY updateCommand_value command_line)
         else if command_value \<noteq> []
         then bind_exn (handle_transform_command command_value updateCommand_value sequence_id uuid command_line)
                (\<lambda>r. Inr (snd r))
         else Inr (pt_put BODY
                (device_name @ ''@'' @ command_name
                 @ (if updateCommand_value \<noteq> []
                    then (if \<not> prefix updateCommand_value ''|'' then ''|'' else []) @ updateCommand_value
                    else [])) command_line))
        (\<lambda>line. let body = pt_get line BODY [] in
           case isCommandResp body of (resp, _, command_id) \<Rightarrow>
             if resp = -1
             then Inl (IotaException RESPONSE_MESSAGE_COMMAND_BAD
                    (''UL20 Command is not correct, it must be  name_device@command_name, but it is '' @ body) 400)
             else Inr (command_id, line))))"

text \<open>\<open>UL20Service::transform_response\<close>: what the device answered to a pushed command.\<close>

definition transform_response :: "string \<Rightarrow> int \<times> string \<times> string" where
  "transform_response str_command_resp =
     (let response = erase_all (CHR 0x0D) (erase_all (CHR 0x0A) (boost_trim (url_decode str_command_resp)))
      in case isCommandResp response of (resp, command_response, id_command) \<Rightarrow>
           if resp < 0 then (resp, ''no ul20 response command:'' @ response, id_command)
           else (resp, command_response, id_command))"

section \<open>Durations\<close>

definition DEFAULT_REG_TIMEOUT :: int where
  "DEFAULT_REG_TIMEOUT = 1"

text \<open>The number before the first of the given unit letters that occurs, with its seconds.\<close>

fun duration_part :: "(char \<times> int) list \<Rightarrow> string \<Rightarrow> string \<times> int" where
  "duration_part [] saux = ([], 3600)"
| "duration_part ((u, tseg) # us) saux =
     (case find_sub [u] saux of Some p \<Rightarrow> (take p saux, tseg) | None \<Rightarrow> duration_part us saux)"

definition get_duration_seconds :: "string \<Rightarrow> int result" where
  "get_duration_seconds data =
     (let (sresu, tseg) =
        (case find_sub ''PT'' data of
           Some p \<Rightarrow> duration_part [(CHR ''H'', 3600), (CHR ''M'', 60), (CHR ''S'', 1)] (drop (p + 2) data)
         | None \<Rightarrow>
             (case find_sub ''P'' data of
                Some p \<Rightarrow> duration_part [(CHR ''Y'', 365 * 24 * 3600), (CHR ''M'', 30 * 24 * 3600),
                             (CHR ''W'', 7 * 24 * 3600), (CHR ''D'', 24 * 3600)] (drop (p + 1) data)
              | None \<Rightarrow> ([], 3600)));
          naux = c_atoi (c_str sresu)
      in if sresu \<noteq> [] \<and> naux > 0
         then if naux * tseg < 2 ^ 31 then Inr (naux * tseg) else Inl (undefined_behaviour ''naux * tseg'')
         else Inr DEFAULT_REG_TIMEOUT)"

section \<open>What the templates give\<close>

lemma pt_get_put [simp]: "pt_get (pt_put key val t) key dflt = val"
proof -
  have "\<exists>c. map_of (put_child key val cs) key = Some c \<and> pt_data c = val" for cs
    by (induction cs) auto
  from this [of "pt_children t"] show ?thesis by (auto simp: pt_get_def pt_put_def)
qed

definition places_in :: "string \<Rightarrow> nat" where
  "places_in s = length (filter (\<lambda>c. c = CHR ''%'') s)"

lemma places_after_hit:
  assumes "find_sub ''%s'' s = Some p"
  shows "Suc (places_in (drop (p + 2) s)) \<le> places_in s"
proof -
  have "places_in s = places_in (take p s @ ''%s'' @ drop (p + 2) s)"
    using find_sub_Some [OF assms] by simp
  then show ?thesis by (simp add: places_in_def)
qed

lemma fill_template_in_bounds:
  "places_in rest + i \<le> length params \<Longrightarrow> \<exists>r. fill_template rest params i = Inr r"
proof (induction rest params i rule: fill_template.induct)
  case (1 rest params i)
  show ?case
  proof (cases "find_sub ''%s'' rest")
    case None
    then show ?thesis by (subst fill_template.simps) simp
  next
    case (Some p)
    then have "places_in (drop (p + 2) rest) + (i + 1) \<le> length params" "i < length params"
      using places_after_hit [OF Some] 1(2) by linarith+
    with 1(1) Some obtain r where "fill_template (drop (p + 2) rest) params (i + 1) = Inr r" by blast
    then show ?thesis using Some \<open>i < length params\<close> by (subst fill_template.simps) simp
  qed
qed

fun interleave :: "string list \<Rightarrow> string list \<Rightarrow> string" where
  "interleave [] qs = []"
| "interleave [p] qs = p"
| "interleave (p # ps) [] = join_with ''%s'' (p # ps)"
| "interleave (p # ps) (q # qs) = p @ q @ interleave ps qs"

lemma no_place: "CHR ''%'' \<notin> set s \<Longrightarrow> find_sub ''%s'' s = None"
  by (induction s) (auto simp: prefix_def)

lemma fill_template_pieces:
  assumes "ps \<noteq> []" "\<forall>p \<in> set ps. CHR ''%'' \<notin> set p" "length ps + i \<le> Suc (length params)"
  shows "fill_template (join_with ''%s'' ps) params i = Inr (interleave ps (drop i params))"
  using assms
proof (induction ps arbitrary: i)
  case (Cons p ps)
  show ?case
  proof (cases ps)
    case Nil
    then show ?thesis using Cons by (subst fill_template.simps) (simp add: no_place)
  next
    case (Cons p' ps')
    then have hit: "find_sub ''%s'' (join_with ''%s'' (p # ps)) = Some (length p)"
      using Cons.prems find_sub_hd [of "CHR ''%''" p "''s''" "join_with ''%s'' ps"] by simp
    have i: "i < length params" using Cons.prems Cons by simp
    then have "drop i params = params ! i # drop (Suc i) params" by (simp add: Cons_nth_drop_Suc)
    moreover have "fill_template (join_with ''%s'' ps) params (Suc i) = Inr (interleave ps (drop (Suc i) params))"
      using Cons.IH [of "Suc i"] Cons.prems Cons by simp
    ultimately show ?thesis
      using hit i Cons by (subst fill_template.simps) simp
  qed
qed simp

lemma places_in_pieces:
  assumes "\<forall>p \<in> set ps. CHR ''%'' \<notin> set p"
  shows "places_in (join_with ''%s'' ps) = length ps - 1"
proof -
  have none: "CHR ''%'' \<notin> set p \<Longrightarrow> filter (\<lambda>c. c = CHR ''%'') p = []" for p
    by (auto simp: filter_empty_conv)
  show ?thesis
    using assms
  proof (induction ps)
    case (Cons p ps)
    then show ?case by (cases ps) (auto simp: places_in_def none)
  qed (simp add: places_in_def)
qed

text \<open>A template with places \<open>%s\<close> is filled with the parameters of the update in their order.  An
  update with too few parameters is refused with a bad request.\<close>

theorem command_template_filled:
  assumes "2 \<le> length pieces" "list_all (\<lambda>p. CHR ''%'' \<notin> set p) pieces"
    and "params \<noteq> []" "list_all (\<lambda>q. CHR ''|'' \<notin> set q) params"
  shows "if length pieces \<le> Suc (length params)
     then handle_transform_command (join_with ''%s'' pieces) (join_with ''|'' params) sequence uuid line
        = Inr (if sequence = [] then uuid else sequence, pt_put BODY (interleave pieces params) line)
     else \<exists>what. handle_transform_command (join_with ''%s'' pieces) (join_with ''|'' params) sequence uuid line
        = Inl (IotaException RESPONSE_MESSAGE_INVALID_PARAMETER what 400)"
proof -
  let ?t = "join_with ''%s'' pieces"
  have ps: "\<forall>p \<in> set pieces. CHR ''%'' \<notin> set p" using assms(2) by (simp add: list_all_iff)
  have n: "length (filter (\<lambda>c. c = CHR ''%'') ?t) = length pieces - 1"
    using places_in_pieces [OF ps] by (simp add: places_in_def)
  then have "?t \<noteq> []" "?t \<noteq> RAW" using assms(1) by (auto simp: RAW_def)
  moreover have "split_on (\<lambda>c. c = CHR ''|'') (join_with ''|'' params) = params"
    using assms(3,4) split_join [of "\<lambda>c. c = CHR ''|''" "CHR ''|''" params] by (auto simp: list_all_iff)
  moreover have "fill_template ?t params 0 = Inr (interleave pieces params)" if "length pieces \<le> Suc (length params)"
    using fill_template_pieces [of pieces 0 params] ps that assms(1) by (cases pieces) auto
  ultimately show ?thesis
    using n assms(1) by (auto simp: handle_transform_command_def Let_def)
qed

theorem command_template_filled_witness:
  "handle_transform_command ''set %s to %s'' ''a|b'' ''7'' [] (PTree [] []) = Inr (''7'', pt_put BODY ''set a to b'' (PTree [] []))
   \<and> (\<exists>what. handle_transform_command ''set %s to %s'' ''a'' ''7'' [] (PTree [] [])
         = Inl (IotaException RESPONSE_MESSAGE_INVALID_PARAMETER what 400))"
  using command_template_filled [of "[''set '', '' to '', []]" "[''a'', ''b'']" "''7''" "[]" "PTree [] []"]
    command_template_filled [of "[''set '', '' to '', []]" "[''a'']" "''7''" "[]" "PTree [] []"]
  by simp

text \<open>Whatever the template and the parameters are, building the command line never reads past the
  end of the parameters: places are counted by \<open>%\<close>, of which there are at least as many as \<open>%s\<close>.\<close>

theorem command_template_in_bounds:
  "handle_transform_command command_value updateCommand_value sequence uuid line \<noteq> Inl (undefined_behaviour what)"
proof -
  let ?ps = "split_on (\<lambda>c. c = CHR ''|'') updateCommand_value"
  have "\<exists>r. fill_template command_value ?ps 0 = Inr r"
    if "\<not> length (filter (\<lambda>c. c = CHR ''%'') command_value) > length ?ps"
    using fill_template_in_bounds [of command_value 0 ?ps] that by (simp add: places_in_def)
  then show ?thesis by (auto simp: handle_transform_command_def Let_def)
qed

section \<open>Responses meet their commands\<close>

definition bar_free :: "string \<Rightarrow> string" where
  "bar_free s = takeWhile (\<lambda>c. c \<noteq> CHR ''|'') s"

lemma bar_free_simps [simp]:
  "CHR ''|'' \<notin> set a \<Longrightarrow> bar_free (a @ CHR ''|'' # b) = a"
  "CHR ''|'' \<notin> set a \<Longrightarrow> bar_free a = a"
  "CHR ''|'' \<notin> set (bar_free s)"
  by (induction a) (auto simp: bar_free_def dest: set_takeWhileD)

lemma get_id_command_eq:
  "get_id_command s = (if CHR ''@'' \<in> set (bar_free s) then bar_free s else [])"
proof -
  have "(case find_sub ''|'' s of Some p \<Rightarrow> take p s | None \<Rightarrow> s) = bar_free s"
  proof (cases "find_sub ''|'' s")
    case None
    then have "CHR ''|'' \<notin> set s"
      using find_sub_None [OF None] by (auto simp: in_set_conv_decomp)
    then show ?thesis using None by simp
  next
    case (Some p)
    have "\<exists>a b. s = a @ CHR ''|'' # b \<and> CHR ''|'' \<notin> set a"
      using find_sub_Some [OF Some] split_list_first [of "CHR ''|''" s] by (metis append_Cons in_set_conv_decomp)
    then obtain a b where s: "s = a @ CHR ''|'' # b" "CHR ''|'' \<notin> set a" by blast
    then have "p = length a" using Some find_sub_char [of "CHR ''|''" a b] by simp
    then show ?thesis using Some s by simp
  qed
  then show ?thesis by (simp add: get_id_command_def Let_def)
qed

lemma id_command_clean: "get_id_command s = i \<Longrightarrow> i \<noteq> [] \<Longrightarrow> CHR ''@'' \<in> set i \<and> CHR ''|'' \<notin> set i"
  by (auto simp: get_id_command_eq split: if_splits)

lemma id_of_response: "CHR ''@'' \<in> set i \<Longrightarrow> CHR ''|'' \<notin> set i \<Longrightarrow> get_id_command (i @ CHR ''|'' # r) = i"
  by (simp add: get_id_command_eq)

lemma transform_command_id:
  assumes "transform_command lib name val upd sequence uuid dev line = Inr (i, line')"
  shows "CHR ''@'' \<in> set i \<and> CHR ''|'' \<notin> set i \<and> i = get_id_command (pt_get line' BODY [])"
proof -
  have "i = get_id_command (pt_get line' BODY []) \<and> i \<noteq> []"
    using assms unfolding transform_command_def
    by (auto simp: Let_def bind_exn_eq_Inr_iff isCommandResp_def split: if_splits prod.splits)
  then show ?thesis using id_command_clean by blast
qed

text \<open>A response reaches the command it answers.  Every UltraLight command that is accepted gets the
  text of its line up to the first bar as its identifier, and a device that answers with this
  identifier, a bar and any result is understood as responding to that command.\<close>

theorem ul_response_finds_command:
  assumes "transform_command lib name val upd sequence uuid dev line = Inr (i, line')"
  shows "isCommandResp (i @ ''|'' @ result) = (200, i @ ''|'' @ result, i)
     \<and> isCommandResp (pt_get line' BODY []) = (200, pt_get line' BODY [], i)"
  using transform_command_id [OF assms] id_of_response [of i result]
  by (auto simp: isCommandResp_def Let_def)

text \<open>The line of a command without template: the device, the command and its parameters.\<close>

lemma transform_command_plain:
  assumes "json_value_to_ul lib (boost_trim upd) = Inr u" "boost_trim val = []"
    and "CHR ''|'' \<notin> set dev" "CHR ''|'' \<notin> set name"
  shows "transform_command lib name val upd sequence uuid dev line
     = Inr (dev @ ''@'' @ name,
            pt_put BODY (dev @ ''@'' @ name @ (if u = [] then [] else (if u = ''|'' then [] else ''|'') @ u)) line)"
proof -
  let ?i = "dev @ ''@'' @ name"
  have "get_id_command (?i @ (if u = [] then [] else (if u = ''|'' then [] else ''|'') @ u)) = ?i"
  proof (cases "u = []")
    case True
    then show ?thesis using assms(3,4) by (simp add: get_id_command_eq)
  next
    case False
    then show ?thesis
      using assms(3,4) id_of_response [of ?i "if u = ''|'' then [] else u"] by (cases "u = ''|''") simp_all
  qed
  moreover have "prefix u ''|'' \<longleftrightarrow> u = [] \<or> u = ''|''" by (cases u) auto
  ultimately show ?thesis
    using assms(1,2) by (auto simp: transform_command_def RAW_def isCommandResp_def Let_def split: if_splits)
qed

text \<open>\<open>starts_with\<close> is called with its arguments exchanged, so parameters that start with a bar get a
  second one.\<close>

lemma leading_bar_doubled:
  assumes "json_value_to_ul lib (boost_trim upd) = Inr (CHR ''|'' # r)" "r \<noteq> []"
    and "CHR ''|'' \<notin> set dev" "CHR ''|'' \<notin> set name"
  shows "\<exists>line'. transform_command lib name [] upd sequence uuid dev line = Inr (dev @ ''@'' @ name, line')
     \<and> pt_get line' BODY [] = dev @ ''@'' @ name @ ''||'' @ r"
  using transform_command_plain [OF assms(1) _ assms(3,4), of "[]"] assms(2) by (simp add: boost_trim_def)

text \<open>A parser that reads nothing.\<close>

definition text_lib :: json_lib where
  "text_lib = \<lparr> jl_parse = (\<lambda>s. Inl ''error''), jl_print = (\<lambda>es. []), jl_number = (\<lambda>j. []), jl_stream = (\<lambda>j. []) \<rparr>"

theorem ul_response_finds_command_witness:
  "isCommandResp ''d1@led|done'' = (200, ''d1@led|done'', ''d1@led'')"
proof -
  let ?lib = text_lib
  have "json_value_to_ul ?lib (boost_trim ''on'') = Inr ''on''"
    by (simp add: json_value_to_ul_def boost_trim_def is_space_def c_str_def text_lib_def)
  then have "transform_command ?lib ''led'' [] ''on'' [] [] ''d1'' (PTree [] []) = Inr (''d1@led'', pt_put BODY ''d1@led|on'' (PTree [] []))"
    using transform_command_plain [of ?lib "''on''" "''on''" "[]" "''d1''" "''led''" "[]" "[]" "PTree [] []"]
    by (simp add: boost_trim_def)
  from ul_response_finds_command [OF this, of "''done''"]
  show "isCommandResp ''d1@led|done'' = (200, ''d1@led|done'', ''d1@led'')" by simp
qed

section \<open>Reading durations\<close>

lemma show_nat_no_unit: "\<not> is_digit u \<Longrightarrow> u \<notin> set (show_nat n)"
  using show_nat_digits by blast

lemma c_atoi_show_nat: "n < 2 ^ 31 \<Longrightarrow> c_atoi (c_str (show_nat n)) = int n"
proof -
  assume n: "n < 2 ^ 31"
  have "c_str (show_nat n) = show_nat n"
    by (rule c_str_no_nul) (auto dest: show_nat_digits simp: is_digit_def)
  then show ?thesis using c_atoi_small [of "show_nat n"] n by (simp add: atoi_show_nat)
qed

lemma duration_part_hit:
  "\<not> is_digit u \<Longrightarrow> duration_part ((u, t) # us) (show_nat n @ u # r) = (show_nat n, t)"
  using find_sub_char [OF show_nat_no_unit, of u n r] by simp

lemma duration_part_miss:
  "u \<notin> set s \<Longrightarrow> duration_part ((u, t) # us) s = duration_part us s"
  using find_sub_char_None [of u s] by simp

lemma no_time_part: "CHR ''T'' \<notin> set s \<Longrightarrow> find_sub ''PT'' s = None"
  by (induction s) (auto simp: prefix_def)

lemma duration_prefixes:
  "find_sub ''PT'' (''PT'' @ s) = Some 0" "find_sub ''P'' (''P'' @ s) = Some 0"
  by (simp_all add: prefix_def)

text \<open>The units of a duration, with their seconds.\<close>

definition time_units :: "(char \<times> int) list" where
  "time_units = [(CHR ''H'', 3600), (CHR ''M'', 60), (CHR ''S'', 1)]"

definition date_units :: "(char \<times> int) list" where
  "date_units = [(CHR ''Y'', 31536000), (CHR ''M'', 2592000), (CHR ''W'', 604800), (CHR ''D'', 86400)]"

lemma duration_part_unit:
  assumes "(u, t) \<in> set us" "distinct (map fst us)" "\<forall>x \<in> set us. \<not> is_digit (fst x)"
  shows "duration_part us (show_nat n @ [u]) = (show_nat n, t)"
  using assms
proof (induction us)
  case (Cons a us)
  obtain v s where a: "a = (v, s)" by force
  show ?case
  proof (cases "v = u")
    case True
    then have "s = t" using Cons.prems(1,2) a by (force simp: image_iff)
    then show ?thesis using duration_part_hit [of u t us n "[]"] True Cons.prems a by simp
  next
    case False
    then have "v \<notin> set (show_nat n @ [u])" using Cons.prems show_nat_no_unit [of v n] a by simp
    then have "duration_part (a # us) (show_nat n @ [u]) = duration_part us (show_nat n @ [u])"
      unfolding a by (rule duration_part_miss)
    then show ?thesis using Cons False a by auto
  qed
qed simp

text \<open>A duration of one part is read as its number of seconds: hours, minutes and seconds after
  \<open>PT\<close>, years, months, weeks and days after \<open>P\<close>.  A number of seconds that does not fit an \<open>int\<close>
  overflows, and a duration of zero counts as one second.\<close>

theorem duration_of_one_part:
  assumes "pre = ''PT'' \<and> (u, t) \<in> set time_units \<or> pre = ''P'' \<and> (u, t) \<in> set date_units" "n < 2 ^ 31"
  shows "get_duration_seconds (pre @ show_nat n @ [u]) =
     (if n = 0 then Inr 1 else if int n * t < 2 ^ 31 then Inr (int n * t) else Inl (undefined_behaviour ''naux * tseg''))"
proof -
  have dt: "duration_part time_units (show_nat n @ [u]) = (show_nat n, t)" if "(u, t) \<in> set time_units"
    using that by (rule duration_part_unit) (simp_all add: time_units_def is_digit_def)
  have dd: "duration_part date_units (show_nat n @ [u]) = (show_nat n, t)" if "(u, t) \<in> set date_units"
    using that by (rule duration_part_unit) (simp_all add: date_units_def is_digit_def)
  have noT: "find_sub ''PT'' (''P'' @ show_nat n @ [u]) = None" if "(u, t) \<in> set date_units"
    using that show_nat_no_unit [of "CHR ''T''" n]
    by (intro no_time_part) (auto simp: date_units_def is_digit_def)
  show ?thesis
    using assms(1)
  proof (elim disjE conjE)
    assume "pre = ''PT''" "(u, t) \<in> set time_units"
    then show ?thesis
      using dt duration_prefixes(1) [of "show_nat n @ [u]"] c_atoi_show_nat [OF assms(2)]
      by (simp add: get_duration_seconds_def time_units_def [symmetric] DEFAULT_REG_TIMEOUT_def)
  next
    assume "pre = ''P''" "(u, t) \<in> set date_units"
    then show ?thesis
      using dd noT duration_prefixes(2) [of "show_nat n @ [u]"] c_atoi_show_nat [OF assms(2)]
      by (simp add: get_duration_seconds_def date_units_def [symmetric] DEFAULT_REG_TIMEOUT_def)
  qed
qed

theorem duration_of_one_part_witness:
  "get_duration_seconds ''PT24H'' = Inr 86400 \<and> get_duration_seconds ''P100Y'' = Inl (undefined_behaviour ''naux * tseg'')"
proof -
  have "show_nat 24 = ''24''" "show_nat 100 = ''100''" by code_simp+
  then show ?thesis
    using duration_of_one_part [of "''PT''" "CHR ''H''" 3600 24] duration_of_one_part [of "''P''" "CHR ''Y''" 31536000 100]
    by (simp add: time_units_def date_units_def)
qed

text \<open>A date with minutes is taken for months: a day and thirty minutes count as thirty days.\<close>

lemma minutes_taken_for_months: "get_duration_seconds ''P1DT30M'' = Inr (30 * 24 * 3600)"
proof -
  have "atoi ''1DT30'' = 1" "c_str ''1DT30'' = ''1DT30''" by code_simp+
  then have "c_atoi (c_str ''1DT30'') = 1" using c_atoi_small [of "''1DT30''"] by simp
  then show ?thesis by (simp add: get_duration_seconds_def prefix_def)
qed

end
