(* ===== verification/Action.thy ===== *)
theory Action
  imports Prelude
begin

text \<open>
  Code that works on a state, may throw after having changed it, and may not return: an action gives a
  result or an exception and the new state, or \<open>None\<close>.  The components that keep their state in an
  object or in the database are written with these combinators.
\<close>

section \<open>Actions\<close>

type_synonym ('t, 'a) action = "'t \<Rightarrow> ('a result \<times> 't) option"

definition ret :: "'a \<Rightarrow> ('t, 'a) action" where
  "ret x st = Some (Inr x, st)"

definition lift :: "'a result \<Rightarrow> ('t, 'a) action" where
  "lift r st = Some (r, st)"

definition lift_run :: "'a result option \<Rightarrow> ('t, 'a) action" where
  "lift_run r st = map_option (\<lambda>x. (x, st)) r"

definition bind_act :: "('t, 'a) action \<Rightarrow> ('a \<Rightarrow> ('t, 'b) action) \<Rightarrow> ('t, 'b) action" where
  "bind_act m f st =
     (case m st of
        None \<Rightarrow> None
      | Some (Inl e, st') \<Rightarrow> Some (Inl e, st')
      | Some (Inr x, st') \<Rightarrow> f x st')"

definition get_state :: "('t, 't) action" where
  "get_state st = Some (Inr st, st)"

definition update_state :: "('t \<Rightarrow> 't) \<Rightarrow> ('t, unit) action" where
  "update_state f st = Some (Inr (), f st)"

text \<open>\<open>try\<close> and \<open>catch\<close>: the handler gets what it catches; undefined behaviour and failed
  assertions are not exceptions.\<close>

definition catchable :: "cxx_exn \<Rightarrow> bool" where
  "catchable e = (case e of assertion_failure _ \<Rightarrow> False | undefined_behaviour _ \<Rightarrow> False | _ \<Rightarrow> True)"

definition try_act :: "(cxx_exn \<Rightarrow> bool) \<Rightarrow> ('t, 'a) action \<Rightarrow> (cxx_exn \<Rightarrow> ('t, 'a) action) \<Rightarrow> ('t, 'a) action" where
  "try_act caught m handler st =
     (case m st of
        None \<Rightarrow> None
      | Some (Inl e, st') \<Rightarrow> if catchable e \<and> caught e then handler e st' else Some (Inl e, st')
      | Some (Inr x, st') \<Rightarrow> Some (Inr x, st'))"

fun for_each :: "('a \<Rightarrow> ('t, 'b) action) \<Rightarrow> 'a list \<Rightarrow> ('t, 'b list) action" where
  "for_each f [] = ret []"
| "for_each f (x # xs) = bind_act (f x) (\<lambda>y. bind_act (for_each f xs) (\<lambda>ys. ret (y # ys)))"

definition is_IotaException :: "cxx_exn \<Rightarrow> bool" where
  "is_IotaException e = (case e of IotaException _ _ _ \<Rightarrow> True | _ \<Rightarrow> False)"

text \<open>\<open>std::runtime_error\<close> and what derives from it here.\<close>

definition is_runtime :: "cxx_exn \<Rightarrow> bool" where
  "is_runtime e = (case e of runtime_error _ \<Rightarrow> True | IotaException _ _ _ \<Rightarrow> True | _ \<Rightarrow> False)"

definition exn_what :: "cxx_exn \<Rightarrow> string" where
  "exn_what e = (case e of
      runtime_error w \<Rightarrow> c_str w | IotaException _ w _ \<Rightarrow> c_str w | bad_cast w \<Rightarrow> w | out_of_range \<Rightarrow> ''out_of_range''
    | assertion_failure w \<Rightarrow> w | undefined_behaviour w \<Rightarrow> w)"

section \<open>Reasoning about actions\<close>

lemma act_simps [simp]:
  "bind_act (ret x) f = f x"
  "bind_act (lift (Inr x)) f = f x"
  "bind_act (lift (Inl e)) f = lift (Inl e)"
  "bind_act (lift_run (Some (Inr x))) f = f x"
  "bind_act (update_state g) f1 st = f1 () (g st)"
  "bind_act get_state f2 st = f2 st st"
  "try_act c (ret x) h = ret x"
  by (simp_all add: bind_act_def ret_def lift_def lift_run_def update_state_def get_state_def try_act_def fun_eq_iff)

lemma bind_act_eq_Some:
  "bind_act m f st = Some (r, st'') \<longleftrightarrow>
     (\<exists>e. m st = Some (Inl e, st'') \<and> r = Inl e) \<or> (\<exists>x st'. m st = Some (Inr x, st') \<and> f x st' = Some (r, st''))"
  by (auto simp: bind_act_def split: option.splits prod.splits sum.splits)

lemma try_act_eq_Some:
  "try_act c m h st = Some (r, st'') \<longleftrightarrow>
     (\<exists>e st'. m st = Some (Inl e, st') \<and> (if catchable e \<and> c e then h e st' = Some (r, st'') else st'' = st' \<and> r = Inl e))
     \<or> (\<exists>x. m st = Some (Inr x, st'') \<and> r = Inr x)"
  by (auto simp: try_act_def split: option.splits prod.splits sum.splits if_splits)

text \<open>A property of the state that an action keeps, whether it returns or throws.\<close>

definition keeps :: "('t \<Rightarrow> bool) \<Rightarrow> ('t, 'a) action \<Rightarrow> bool" where
  "keeps P m \<longleftrightarrow> (\<forall>st r st'. P st \<longrightarrow> m st = Some (r, st') \<longrightarrow> P st')"

lemma keeps_at: "keeps P m \<Longrightarrow> m st = Some (r, st') \<Longrightarrow> P st \<Longrightarrow> P st'"
  by (simp add: keeps_def)

named_theorems keeps_intros \<open>actions that keep a property of the state\<close>

lemma keeps_basic [keeps_intros]:
  "keeps P (ret x)" "keeps P (lift r)" "keeps P (lift_run q)" "keeps P get_state"
  by (auto simp: keeps_def ret_def lift_def lift_run_def get_state_def)

lemma keeps_bind [keeps_intros]: "keeps P m \<Longrightarrow> (\<And>x. keeps P (f x)) \<Longrightarrow> keeps P (bind_act m f)"
  unfolding keeps_def bind_act_eq_Some by blast

lemma keeps_try [keeps_intros]: "keeps P m \<Longrightarrow> (\<And>e. keeps P (h e)) \<Longrightarrow> keeps P (try_act c m h)"
  unfolding keeps_def try_act_eq_Some by (metis (full_types))

lemma keeps_update: "(\<And>st. P st \<Longrightarrow> P (g st)) \<Longrightarrow> keeps P (update_state g)"
  by (auto simp: keeps_def update_state_def)

lemma keeps_for_each [keeps_intros]: "(\<And>x. keeps P (f x)) \<Longrightarrow> keeps P (for_each f xs)"
  by (induction xs) (auto intro!: keeps_intros)

lemma keeps_cases [keeps_intros]:
  "(b \<Longrightarrow> keeps P m) \<Longrightarrow> (\<not> b \<Longrightarrow> keeps P m') \<Longrightarrow> keeps P (if b then m else m')"
  "(x = None \<Longrightarrow> keeps P m) \<Longrightarrow> (\<And>y. x = Some y \<Longrightarrow> keeps P (k y)) \<Longrightarrow> keeps P (case x of None \<Rightarrow> m | Some y \<Rightarrow> k y)"
  "(\<And>a b. p = (a, b) \<Longrightarrow> keeps P (g a b)) \<Longrightarrow> keeps P (case p of (a, b) \<Rightarrow> g a b)"
  by (simp_all split: option.split prod.split)

end
