(* ===== verification/Command_Handle.thy ===== *)
theory Command_Handle
  imports Action Ngsi_Message Command_Cache Command_Text
begin

text \<open>
  The life of a command (\<^verbatim>\<open>src/rest/command_handle.cc\<close>, with the device lookup of
  \<^verbatim>\<open>src/rest/rest_handle.cc\<close> and \<^verbatim>\<open>add_updateContext\<close> of \<^verbatim>\<open>src/rest/iot_cb_comm.cc\<close>): an update of the
  context broker becomes a command line for a device, the command waits in the cache, is pushed or
  polled, answered or timed out, and the broker is told about every change of its status.

  The operations are actions on the state of a handle: they may throw (after having changed the
  state) and, because of the recursive mappings of context elements, may not return.  The database is
  a parameter with its own type of states, as are configuration, clock, identifiers, the hashed
  indices of the caches, and the two virtual functions a protocol provides.
\<close>

section \<open>Actions\<close>

record 's handle =
  h_commands :: command_cache
  h_devices :: cache
  h_store :: 's
  h_sent :: "(string \<times> UpdateContext) list"

type_synonym ('s, 'a) act = "('s handle, 'a) action"

section \<open>The environment\<close>

text \<open>\<open>he_find\<close> to \<open>he_update\<close> are the operations on the command table: the first command that matches,
  insertion, removal with the number of removed commands, and setting the status of the commands with
  an identifier (and, when given, service and path) with the number of changed ones.\<close>

record 's handle_env =
  he_json :: json_lib
  he_now :: string
  he_uuid :: string
  he_debug :: bool
  he_storage_type :: string
  he_callback :: bool
  he_timeout :: "int result"
  he_ngsi_url :: "json option"
  he_protocol :: string
  he_service :: "string \<Rightarrow> string \<Rightarrow> ptree result"
  he_dev :: "Device finder"
  he_dev_entity :: "Device finder"
  he_cmd :: "Command finder"
  he_cmd_entity :: "Command finder"
  he_cmd_id :: "Command finder"
  he_order :: "Command list \<Rightarrow> Command list"
  he_find :: "'s \<Rightarrow> Command \<Rightarrow> Command option"
  he_insert :: "Command \<Rightarrow> 's \<Rightarrow> 's"
  he_remove :: "Command \<Rightarrow> 's \<Rightarrow> int \<times> 's"
  he_update :: "string \<Rightarrow> (string \<times> string) option \<Rightarrow> int \<Rightarrow> 's \<Rightarrow> int \<times> 's"
  he_transform :: "string \<Rightarrow> string \<Rightarrow> string \<Rightarrow> string \<Rightarrow> string \<Rightarrow> string \<Rightarrow> ptree \<Rightarrow> (string \<times> ptree) result"
  he_execute :: "string \<Rightarrow> string \<Rightarrow> ptree \<Rightarrow> int \<Rightarrow> (int \<times> string) result"

definition mongodb :: "'s handle_env \<Rightarrow> bool" where
  "mongodb env \<longleftrightarrow> he_storage_type env = ''mongodb''"

text \<open>The command cache with the lookup functions the constructor installs (\<open>command_from_mongo\<close>).\<close>

definition async_commands :: "'s handle_env \<Rightarrow> 's handle \<Rightarrow> command_cache" where
  "async_commands env st =
     (let f = (if mongodb env then Some (he_find env (h_store st)) else None) in
      (h_commands st)\<lparr> cc_get_function := f, cc_get_entity_function := f, cc_get_id_function := f \<rparr>)"

definition READY_FOR_READ :: int where
  "READY_FOR_READ = 0"

definition DELIVERED :: int where
  "DELIVERED = 2"

section \<open>Telling the broker\<close>

definition get_ngsi_operation :: "'s handle_env \<Rightarrow> string \<Rightarrow> string result" where
  "get_ngsi_operation env operation =
     (case he_ngsi_url env of
        None \<Rightarrow> Inr (''/NGSI10/'' @ operation)
      | Some ngsi_url \<Rightarrow> bind_exn (HasMember ngsi_url operation) (\<lambda>h.
          if h then member_string ngsi_url operation else Inr (''/NGSI10/'' @ operation)))"

definition cb_url :: "'s handle_env \<Rightarrow> ptree \<Rightarrow> string result" where
  "cb_url env t =
     (let cbrokerURL = pt_get t ''cbroker'' [] in
      if cbrokerURL \<noteq> [] then bind_exn (get_ngsi_operation env ''updateContext'') (\<lambda>u. Inr (cbrokerURL @ u)) else Inr [])"

definition add_updateContext ::
  "'s handle_env \<Rightarrow> string \<Rightarrow> string \<Rightarrow> string \<Rightarrow> string \<Rightarrow> ContextElement \<Rightarrow> ContextElement result option" where
  "add_updateContext env command_name command_att type val el =
     add_attribute (he_json env)
       (add_metadata (stamp (he_now env)) (new_Attribute (command_name @ ''_'' @ command_att) type val)) el"

definition send_to_cb :: "'s handle_env \<Rightarrow> ContextElement \<Rightarrow> string \<Rightarrow> ptree \<Rightarrow> ('s, unit) act" where
  "send_to_cb env el opSTR service_ptree =
     bind_act (lift (cb_url env service_ptree)) (\<lambda>url.
     update_state (\<lambda>st. st\<lparr> h_sent := h_sent st
       @ [(url, add_context_element el \<lparr> uc_action = opSTR, uc_elements = [] \<rparr>)] \<rparr>))"

definition send_updateContext ::
  "'s handle_env \<Rightarrow> string \<Rightarrow> string \<Rightarrow> string \<Rightarrow> string \<Rightarrow> Device option \<Rightarrow> ptree \<Rightarrow> string \<Rightarrow> ('s, unit) act" where
  "send_updateContext env command_name command_att type val item_dev service_ptree opSTR =
     bind_act (lift_run (bind_run
        (if command_name \<noteq> [] then add_updateContext env command_name command_att type val blank_element
         else Some (Inr (blank_element\<lparr> ce_is_pattern := ''false'' \<rparr>)))
        (add_attribute (he_json env) (stamp (he_now env))))) (\<lambda>el.
     case item_dev of
       None \<Rightarrow> ret ()
     | Some d \<Rightarrow> bind_act (lift_run (set_env_info (he_json env) (he_now env) service_ptree (Some d) el)) (\<lambda>el'.
         send_to_cb env el' opSTR service_ptree))"

definition send_updateContext2 ::
  "'s handle_env \<Rightarrow> string \<Rightarrow> string \<times> string \<times> string \<Rightarrow> string \<times> string \<times> string \<Rightarrow> Device option \<Rightarrow> ptree \<Rightarrow> string \<Rightarrow> ('s, unit) act" where
  "send_updateContext2 env command_name a1 a2 item_dev service_ptree opSTR =
     bind_act (lift_run
       (bind_run (add_updateContext env command_name (fst a1) (fst (snd a1)) (snd (snd a1)) blank_element) (\<lambda>el1.
        bind_run (add_updateContext env command_name (fst a2) (fst (snd a2)) (snd (snd a2)) el1) (\<lambda>el2.
        bind_run (add_attribute (he_json env) (stamp (he_now env)) el2)
          (set_env_info (he_json env) (he_now env) service_ptree item_dev))))) (\<lambda>el.
     send_to_cb env el opSTR service_ptree)"

text \<open>The status of a command as the broker sees it.\<close>

definition send_status :: "'s handle_env \<Rightarrow> string \<Rightarrow> string \<Rightarrow> Device option \<Rightarrow> ptree \<Rightarrow> ('s, unit) act" where
  "send_status env command_name val item_dev service_ptree =
     send_updateContext env command_name ''status'' ''string'' val item_dev service_ptree ''APPEND''"

definition send_status_info :: "'s handle_env \<Rightarrow> string \<Rightarrow> string \<Rightarrow> string \<Rightarrow> Device option \<Rightarrow> ptree \<Rightarrow> ('s, unit) act" where
  "send_status_info env command_name val info item_dev service_ptree =
     send_updateContext2 env command_name (''status'', ''string'', val) (''info'', ''string'', info) item_dev service_ptree ''APPEND''"

section \<open>The commands of a handle\<close>

definition store_command :: "'s handle_env \<Rightarrow> Command \<Rightarrow> 's handle \<Rightarrow> 's handle" where
  "store_command env item st =
     st\<lparr> h_commands := cc_insert (he_cmd env) item (h_commands st),
         h_store := (if mongodb env then he_insert env item (h_store st) else h_store st) \<rparr>"

definition save_command ::
  "'s handle_env \<Rightarrow> string \<Rightarrow> string \<Rightarrow> int \<Rightarrow> ptree \<Rightarrow> Device \<Rightarrow> string \<Rightarrow> string \<Rightarrow> ptree \<Rightarrow> string \<Rightarrow> int \<Rightarrow> ('s, unit) act" where
  "save_command env command_name command_id timeout command_to_send item_dev e_type endp service_ptree sequence status =
     (if command_id = []
      then lift (Inl (IotaException RESPONSE_MESSAGE_INVALID_PARAMETER
             (''command is is empty '' @ command_name @ '' of device '' @ dev_name item_dev) 400))
      else let item = set_status status
             (Command_stored command_id command_name (pt_get service_ptree ''service'' []) (pt_get service_ptree ''service_path'' [])
                sequence (get_real_name item_dev (pt_get service_ptree ''entity_type'' [])) e_type endp timeout None command_to_send)
           in update_state (store_command env item))"

definition command_key :: "string \<Rightarrow> string \<Rightarrow> string \<Rightarrow> Command" where
  "command_key command_id serv path = (Command_entity [] serv path)\<lparr> cmd_id := command_id \<rparr>"

definition remove_command :: "'s handle_env \<Rightarrow> string \<Rightarrow> string \<Rightarrow> string \<Rightarrow> ('s, int) act" where
  "remove_command env command_id serv path =
     (let item = command_key command_id serv path in
      bind_act (update_state (\<lambda>st. st\<lparr> h_commands := cc_remove (he_cmd_id env) item (h_commands st) \<rparr>)) (\<lambda>_.
      bind_act get_state (\<lambda>st.
      if mongodb env then
        let (n, s) = he_remove env item (h_store st)
        in bind_act (update_state (\<lambda>st. st\<lparr> h_store := s \<rparr>)) (\<lambda>_. ret n)
      else ret 1)))"

text \<open>An operation on the cache that gives a result.\<close>

definition with_commands :: "'s handle_env \<Rightarrow> (command_cache \<Rightarrow> ('a \<times> command_cache) result) \<Rightarrow> ('s, 'a) act" where
  "with_commands env op =
     bind_act get_state (\<lambda>st. bind_act (lift (op (async_commands env st))) (\<lambda>(r, c).
     bind_act (update_state (\<lambda>st. st\<lparr> h_commands := c \<rparr>)) (\<lambda>_. ret r)))"

definition get_command :: "'s handle_env \<Rightarrow> string \<Rightarrow> string \<Rightarrow> string \<Rightarrow> ('s, Command option) act" where
  "get_command env command_id serv path =
     with_commands env (cc_get_by_id (he_cmd env) (he_cmd_id env) (command_key command_id serv path))"

definition get_command_from_mongo :: "'s handle_env \<Rightarrow> string \<Rightarrow> string \<Rightarrow> string \<Rightarrow> ('s, Command option) act" where
  "get_command_from_mongo env command_id serv path =
     bind_act get_state (\<lambda>st. lift (get_by_id_from_mongo (command_key command_id serv path) (async_commands env st)))"

text \<open>Setting the status through the shared pointer changes the cached command.\<close>

definition mark_command :: "Command \<Rightarrow> int \<Rightarrow> ('s, unit) act" where
  "mark_command d status =
     update_state (\<lambda>st. st\<lparr> h_commands := (h_commands st)\<lparr> cc_items :=
       map (\<lambda>x. if x = d then set_status status x else x) (cc_items (h_commands st)) \<rparr> \<rparr>)"

text \<open>\<open>get_all_command\<close> for a known device.\<close>

definition deliver_command :: "'s handle_env \<Rightarrow> Device \<Rightarrow> ptree \<Rightarrow> Command \<Rightarrow> ('s, unit) act" where
  "deliver_command env dev service_ptree prt =
     bind_act (if mongodb env
               then update_state (\<lambda>st. st\<lparr> h_store :=
                      snd (he_update env (cmd_id prt) (Some (cmd_service prt, cmd_service_path prt)) DELIVERED (h_store st)) \<rparr>)
               else ret ()) (\<lambda>_.
     send_status env (cmd_name prt) ''delivered'' (Some dev) service_ptree)"

definition get_all_command :: "'s handle_env \<Rightarrow> Device option \<Rightarrow> ptree \<Rightarrow> ('s, Command list) act" where
  "get_all_command env dev service_ptree =
     (if \<not> mongodb env then ret []
      else case dev of
             None \<Rightarrow> ret []
           | Some d \<Rightarrow>
               let key = set_status READY_FOR_READ
                     (Command_entity (get_real_name d (pt_get service_ptree ''entity_type'' []))
                        (pt_get service_ptree ''service'' []) (pt_get service_ptree ''service_path'' []))
               in bind_act (with_commands env (get_by_entityV (he_cmd env) (he_cmd_entity env) (he_order env) key DELIVERED)) (\<lambda>res.
                  bind_act (for_each (deliver_command env d service_ptree) res) (\<lambda>_. ret res)))"

definition response_command :: "'s handle_env \<Rightarrow> string \<Rightarrow> string \<Rightarrow> Device option \<Rightarrow> ptree \<Rightarrow> ('s, unit) act" where
  "response_command env id_command response device service_ptree =
     send_status_info env id_command ''OK'' response device service_ptree"

record CommandData =
  cd_name :: string
  cd_id :: string
  cd_to_send :: ptree
  cd_sequence :: string
  cd_timeout :: int
  cd_item_dev :: Device
  cd_entity_type :: string
  cd_service :: ptree

definition process_command_response :: "'s handle_env \<Rightarrow> CommandData \<Rightarrow> int \<Rightarrow> string \<Rightarrow> ('s, unit) act" where
  "process_command_response env cmd_data res_code resp_cmd =
     (let serv = pt_get (cd_service cmd_data) ''service'' [];
          path = pt_get (cd_service cmd_data) ''service_path'' [];
          dev = Some (cd_item_dev cmd_data)
      in if res_code = 200 then
           bind_act (remove_command env (cd_id cmd_data) serv path) (\<lambda>_.
             if resp_cmd \<noteq> [] then send_status_info env (cd_name cmd_data) ''OK'' resp_cmd dev (cd_service cmd_data)
             else send_status env (cd_name cmd_data) ''OK'' dev (cd_service cmd_data))
         else if res_code = 202 then
           bind_act get_state (\<lambda>st.
           let (n, s) = (if mongodb env then he_update env (cd_id cmd_data) None DELIVERED (h_store st) else (1, h_store st)) in
           bind_act (update_state (\<lambda>st. st\<lparr> h_store := s \<rparr>)) (\<lambda>_.
           bind_act (get_command env (cd_id cmd_data) serv path) (\<lambda>pt.
           bind_act (case pt of Some d \<Rightarrow> mark_command d DELIVERED | None \<Rightarrow> ret ()) (\<lambda>_.
             if n > 0 then send_status env (cd_name cmd_data) ''delivered'' dev (cd_service cmd_data) else ret ()))))
         else
           bind_act (remove_command env (cd_id cmd_data) serv path) (\<lambda>_.
             send_status_info env (cd_name cmd_data) ''error'' resp_cmd dev (cd_service cmd_data)))"

text \<open>When the timer of a command runs out.  \<open>itemBBDD\<close> is dereferenced in a debug message before it is
  compared with null.\<close>

definition expiry_message :: "int \<Rightarrow> string" where
  "expiry_message status =
     (if status = READY_FOR_READ then ''expired read''
      else if status = DELIVERED then ''delivered but no respond'' else ''error'')"

definition timeout_f :: "'s handle_env \<Rightarrow> Command \<Rightarrow> ('s, unit) act" where
  "timeout_f env item =
     try_act (\<lambda>_. True)
       (let dev = (Device_named [] (cmd_service item))\<lparr> entity_type := cmd_entity_type item, entity_name := cmd_entity item \<rparr> in
        bind_act (lift (he_service env (cmd_service item) (cmd_service_path item))) (\<lambda>service_ptree.
        bind_act (get_command_from_mongo env (cmd_id item) (cmd_service item) (cmd_service_path item)) (\<lambda>itemBBDD.
          case itemBBDD of
            None \<Rightarrow> if he_debug env then lift (Inl (undefined_behaviour ''itemBBDD->get_status()'')) else ret ()
          | Some b \<Rightarrow>
              if cmd_status item < cmd_status b then ret ()
              else bind_act (remove_command env (cmd_id item) (cmd_service item) (cmd_service_path item)) (\<lambda>c.
                   if c > 0 then send_status env (cmd_name item) (expiry_message (cmd_status item)) (Some dev) service_ptree
                   else ret ()))))
       (\<lambda>_. ret ())"

section \<open>Updates from the broker\<close>

definition FIWARE_SERVICEPATH_DEFAULT :: string where
  "FIWARE_SERVICEPATH_DEFAULT = ''/''"

definition RESPONSE_MESSAGE_NO_DEVICE :: string where
  "RESPONSE_MESSAGE_NO_DEVICE = ''The device does not exist''"

definition RESPONSE_MESSAGE_DEVICE_NO_ACTIVE :: string where
  "RESPONSE_MESSAGE_DEVICE_NO_ACTIVE = ''The device is not active''"

definition RESPONSE_MESSAGE_NO_DEVICE_NO_COMMAND :: string where
  "RESPONSE_MESSAGE_NO_DEVICE_NO_COMMAND = ''the device does not have implemented this command''"

definition RESPONSE_MESSAGE_NO_COMMAND :: string where
  "RESPONSE_MESSAGE_NO_COMMAND = ''The attribute must be of type command''"

definition RESPONSE_MESSAGE_INTERNAL_ERROR :: string where
  "RESPONSE_MESSAGE_INTERNAL_ERROR = ''Conctact with your administrator, there was an internal error''"

definition RESPONSE_MESSAGE_BAD_REQUEST :: string where
  "RESPONSE_MESSAGE_BAD_REQUEST = ''The request is not well formed''"

definition lookup_device ::
  "(cache \<Rightarrow> (Device option \<times> cache) result) \<Rightarrow> ('s, Device option) act" where
  "lookup_device op =
     bind_act get_state (\<lambda>st. bind_act (lift (op (h_devices st))) (\<lambda>(r, c).
     bind_act (update_state (\<lambda>st. st\<lparr> h_devices := c \<rparr>)) (\<lambda>_. ret r)))"

text \<open>The second search is for a device without entity name, by the part after the colon; its service
  path stays empty when one was asked for, the default path going to the first query instead.\<close>

definition get_device_by_entity ::
  "'s handle_env \<Rightarrow> string \<Rightarrow> string \<Rightarrow> string \<Rightarrow> string \<Rightarrow> ('s, Device) act" where
  "get_device_by_entity env name e_type serv path =
     (let itemQ = (Device_named [] serv)\<lparr> entity_name := name, entity_type := e_type,
            service_path := (if path = [] then FIWARE_SERVICEPATH_DEFAULT else path),
            protocol := he_protocol env \<rparr>
      in bind_act (lookup_device (get_by_entity (he_dev env) (he_dev_entity env) itemQ)) (\<lambda>r1.
         bind_act (case r1 of
            Some d \<Rightarrow> ret (Some d)
          | None \<Rightarrow>
              (case find_sub '':'' name of
                 Some p \<Rightarrow> lookup_device (cache_get (he_dev env) (Device_named (drop (p + 1) name) serv))
               | None \<Rightarrow> lookup_device (get_by_entity (he_dev env) (he_dev_entity env) (itemQ\<lparr> entity_type := [] \<rparr>)))) (\<lambda>r.
         case r of
           None \<Rightarrow> lift (Inl (IotaException RESPONSE_MESSAGE_NO_DEVICE
             (''RestHandle::get_device_by_entity no exists device '' @ name @ serv @ '' '' @ path @ '' entity type: '' @ e_type) 404))
         | Some d \<Rightarrow>
             if active d = 0
             then lift (Inl (IotaException RESPONSE_MESSAGE_DEVICE_NO_ACTIVE
               (''iota::Device '' @ name @ '' is not active. Service '' @ serv @ '' '' @ path @ '' entity type: '' @ e_type) 409))
             else ret d)))"

definition getCommandLine ::
  "'s handle_env \<Rightarrow> string \<Rightarrow> string \<Rightarrow> string \<Rightarrow> Device \<Rightarrow> (string \<times> ptree) result" where
  "getCommandLine env command_name updateCommand_value sequence_id item_dev =
     (if command_name = []
      then Inl (IotaException RESPONSE_MESSAGE_INVALID_PARAMETER ''need specify a command '' 400)
      else case map_find (commands item_dev) command_name of
             None \<Rightarrow> Inl (IotaException RESPONSE_MESSAGE_NO_DEVICE_NO_COMMAND
               (''Device '' @ dev_name item_dev @ '' has not a command called '' @ command_name) 404)
           | Some strValueCommand \<Rightarrow>
               he_transform env command_name strValueCommand updateCommand_value sequence_id (he_uuid env) (dev_name item_dev) (PTree [] []))"

definition is_push_type_of_command :: "Device \<Rightarrow> bool" where
  "is_push_type_of_command d \<longleftrightarrow> endpoint d \<noteq> []"

text \<open>With a callback the answer of the device comes later, through \<open>receive_command_response\<close>.\<close>

definition updateCommand ::
  "'s handle_env \<Rightarrow> string \<Rightarrow> string \<Rightarrow> Device \<Rightarrow> string \<Rightarrow> string \<Rightarrow> ptree \<Rightarrow> ('s, unit) act" where
  "updateCommand env command_name parameters item_dev e_type sequence service_ptree =
     bind_act (lift (getCommandLine env command_name parameters sequence item_dev)) (\<lambda>(command_id, command_to_send).
     bind_act (lift (he_timeout env)) (\<lambda>timeout.
     let cmd_data = \<lparr> cd_name = command_name, cd_id = command_id, cd_to_send = command_to_send, cd_sequence = sequence,
           cd_timeout = timeout, cd_item_dev = item_dev, cd_entity_type = e_type, cd_service = service_ptree \<rparr>
     in if is_push_type_of_command item_dev then
          bind_act (send_status env command_name ''pending'' (Some item_dev) service_ptree) (\<lambda>_.
          bind_act (save_command env command_name command_id timeout command_to_send item_dev e_type (endpoint item_dev)
                      service_ptree sequence READY_FOR_READ) (\<lambda>_.
          try_act is_runtime
            (bind_act (lift (he_execute env (endpoint item_dev) command_id command_to_send timeout)) (\<lambda>(res_code, resp_cmd).
               if he_callback env then ret () else process_command_response env cmd_data res_code resp_cmd))
            (\<lambda>_. ret ())))
        else
          bind_act (send_status env command_name ''pending'' (Some item_dev) service_ptree) (\<lambda>_.
          save_command env command_name command_id timeout command_to_send item_dev e_type (endpoint item_dev)
            service_ptree sequence READY_FOR_READ)))"

text \<open>The answer of a device to a pushed command: none (with the description of the connection error),
  or status code and content.\<close>

definition receive_command_response ::
  "'s handle_env \<Rightarrow> (string \<Rightarrow> int \<times> string \<times> string) \<Rightarrow> CommandData \<Rightarrow> string + int \<times> string \<Rightarrow> ('s, unit) act" where
  "receive_command_response env transform cmd_data answer =
     (case answer of
        Inl failure \<Rightarrow> process_command_response env cmd_data 500 failure
      | Inr (res_code, resp_cmd) \<Rightarrow>
          (case transform resp_cmd of (_, command_response, _) \<Rightarrow>
             process_command_response env cmd_data res_code command_response))"

text \<open>What an exception leaves in the response of an element, and the code the operation returns.\<close>

definition fail_response :: "string \<Rightarrow> string \<Rightarrow> string \<Rightarrow> ContextResponse \<Rightarrow> ContextResponse" where
  "fail_response c reason details res = set_details details (set_reason reason (res\<lparr> rs_code := c \<rparr>))"

definition exn_response :: "ContextResponse \<Rightarrow> cxx_exn \<Rightarrow> ContextResponse \<times> int" where
  "exn_response res e =
     (case e of
        IotaException reason _ status \<Rightarrow> (fail_response (show_nat status) reason (exn_what e) res, int status)
      | _ \<Rightarrow> (fail_response ''500'' RESPONSE_MESSAGE_INTERNAL_ERROR (exn_what e) res, 500))"

fun update_attributes ::
  "'s handle_env \<Rightarrow> Device \<Rightarrow> string \<Rightarrow> string \<Rightarrow> ptree \<Rightarrow> Attribute list \<Rightarrow> ContextResponse \<times> int \<Rightarrow> ('s, ContextResponse \<times> int) act" where
  "update_attributes env d e_type sequence service_ptree [] acc = ret acc"
| "update_attributes env d e_type sequence service_ptree (att # atts) acc =
     bind_act
       (if a_type att = ''command''
        then try_act is_IotaException
               (bind_act (updateCommand env (a_name att) (a_value att) d e_type sequence service_ptree) (\<lambda>_. ret acc))
               (\<lambda>e. ret (exn_response (fst acc) e))
        else ret (fail_response ''400'' RESPONSE_MESSAGE_NO_COMMAND (a_name att) (fst acc), 400))
       (update_attributes env d e_type sequence service_ptree atts)"

definition update_element ::
  "'s handle_env \<Rightarrow> ptree \<Rightarrow> string \<Rightarrow> ContextElement \<Rightarrow> int \<Rightarrow> ('s, ContextResponse \<times> int) act" where
  "update_element env service_ptree sequence el iresponse =
     (let res = new_ContextResponse\<lparr> rs_element := el \<rparr> in
      try_act (\<lambda>_. True)
        (bind_act (get_device_by_entity env (ce_id el) (ce_type el) (pt_get service_ptree ''service'' [])
             (pt_get service_ptree ''service_path'' [])) (\<lambda>d.
         update_attributes env d (if entity_type d = [] then pt_get service_ptree ''entity_type'' [] else entity_type d)
           sequence service_ptree (ce_attributes el) (res, iresponse)))
        (\<lambda>e. ret (exn_response res e)))"

fun update_elements ::
  "'s handle_env \<Rightarrow> ptree \<Rightarrow> string \<Rightarrow> ContextElement list \<Rightarrow> ContextResponses \<times> int \<Rightarrow> ('s, ContextResponses \<times> int) act" where
  "update_elements env service_ptree sequence [] acc = ret acc"
| "update_elements env service_ptree sequence (el # els) acc =
     bind_act (update_element env service_ptree sequence el (snd acc)) (\<lambda>(res, iresponse).
     update_elements env service_ptree sequence els (fst acc @ [res], iresponse))"

definition updateContext ::
  "'s handle_env \<Rightarrow> UpdateContext \<Rightarrow> ptree \<Rightarrow> string \<Rightarrow> ('s, ContextResponses \<times> int) act" where
  "updateContext env u service_ptree sequence = update_elements env service_ptree sequence (uc_elements u) ([], 200)"

section \<open>Queries\<close>

fun populate_command_attributes ::
  "'s handle_env \<Rightarrow> (string \<times> string) list \<Rightarrow> ContextElement \<Rightarrow> ContextElement result option" where
  "populate_command_attributes env [] el = Some (Inr el)"
| "populate_command_attributes env (c # cs) el =
     bind_run (add_attribute (he_json env) (new_Attribute (fst c) ''command'' (if snd c = [] then '' '' else snd c)) el)
       (populate_command_attributes env cs)"

definition query_entity :: "'s handle_env \<Rightarrow> string \<Rightarrow> string \<Rightarrow> Entity \<Rightarrow> int \<Rightarrow> ('s, ContextResponse \<times> int) act" where
  "query_entity env serv path en iresponse =
     try_act (\<lambda>_. True)
       (bind_act (get_device_by_entity env (en_id en) (en_type en) serv path) (\<lambda>d.
        bind_act (lift_run (populate_command_attributes env (commands d)
                    (new_ContextElement (en_id en) (en_type en) (en_is_pattern en)))) (\<lambda>el.
        ret (new_ContextResponse\<lparr> rs_element := el \<rparr>, iresponse))))
       (\<lambda>e. ret (exn_response new_ContextResponse e))"

fun query_entities ::
  "'s handle_env \<Rightarrow> string \<Rightarrow> string \<Rightarrow> Entity list \<Rightarrow> ContextResponses \<times> int \<Rightarrow> ('s, ContextResponses \<times> int) act" where
  "query_entities env serv path [] acc = ret acc"
| "query_entities env serv path (en # ens) acc =
     bind_act (query_entity env serv path en (snd acc)) (\<lambda>(res, iresponse).
     query_entities env serv path ens (fst acc @ [res], iresponse))"

definition queryContext :: "'s handle_env \<Rightarrow> QueryContext \<Rightarrow> ptree \<Rightarrow> ('s, ContextResponses \<times> int) act" where
  "queryContext env q service_ptree =
     (let serv = pt_get service_ptree ''service'' []; path = pt_get service_ptree ''service_path'' [] in
      if serv = [] \<or> path = []
      then lift (Inl (IotaException RESPONSE_MESSAGE_BAD_REQUEST ''Service or Sub_service are missing'' 400))
      else query_entities env serv path (qc_entities q) ([], 200))"

section \<open>The operations of the agent\<close>

definition quoted :: "string \<Rightarrow> string" where
  "quoted s = CHR 0x22 # s @ [CHR 0x22]"

definition create_ngsi_response :: "int \<Rightarrow> string \<Rightarrow> string" where
  "create_ngsi_response c reason =
     ''{ '' @ quoted (if c = 200 then ''statusCode'' else ''errorCode'') @ '' : { '' @ quoted ''code'' @ '':'' @ show_int c
     @ '', '' @ quoted ''reasonPhrase'' @ '':'' @ quoted reason @ ''}}''"

text \<open>\<open>erase_all\<close> of an escaped quote.\<close>

fun erase_escaped_quotes :: "string \<Rightarrow> string" where
  "erase_escaped_quotes (a # b # r) =
     (if a = CHR 0x5C \<and> b = CHR 0x22 then erase_escaped_quotes r else a # erase_escaped_quotes (b # r))"
| "erase_escaped_quotes s = s"

definition ngsi_error :: "cxx_exn \<Rightarrow> string" where
  "ngsi_error e =
     (case e of IotaException reason _ status \<Rightarrow> create_ngsi_response (int status) reason
      | _ \<Rightarrow> create_ngsi_response 500 (exn_what e))"

text \<open>The response text of the two operations; their HTTP status is always 200.  \<open>headers\<close> are the
  service and the service path of the request, if it has a header for the service.\<close>

definition default_op_ngsi :: "'s handle_env \<Rightarrow> (string \<times> string) option \<Rightarrow> string \<Rightarrow> ('s, string) act" where
  "default_op_ngsi env headers content =
     try_act (\<lambda>_. True)
       (case headers of
          None \<Rightarrow> ret (create_ngsi_response 400 ''you need a header with Fiware-Service'')
        | Some (serv, path) \<Rightarrow>
            bind_act (lift (he_service env serv path)) (\<lambda>service_ptree.
            bind_act (lift (UpdateContext_text (he_json env) content)) (\<lambda>op_updateContext.
            bind_act (updateContext env op_updateContext service_ptree (he_uuid env)) (\<lambda>(rs, _).
            ret (erase_escaped_quotes (c_str (jl_print (he_json env) (Serialize_responses (he_json env) rs))))))))
       (\<lambda>e. ret (ngsi_error e))"

definition default_queryContext_ngsi :: "'s handle_env \<Rightarrow> (string \<times> string) option \<Rightarrow> string \<Rightarrow> ('s, string) act" where
  "default_queryContext_ngsi env headers content =
     try_act (\<lambda>_. True)
       (case headers of
          None \<Rightarrow> ret (create_ngsi_response 400 ''you need a header with Fiware-Service'')
        | Some (serv, path) \<Rightarrow>
            bind_act (lift (he_service env serv path)) (\<lambda>service_ptree.
            bind_act (lift (QueryContext_text (he_json env) content)) (\<lambda>op_queryContext.
            bind_act (queryContext env op_queryContext service_ptree) (\<lambda>(rs, _).
            ret (c_str (jl_print (he_json env) (Serialize_responses (he_json env) rs)))))))
       (\<lambda>e. ret (ngsi_error e))"

end
