(* ===== verification/Command_Life.thy ===== *)
theory Command_Life
  imports Command_Handle "HOL-Library.Multiset"
begin

text \<open>
  What holds of the commands of an agent: its caches keep their invariants and nothing that was sent to
  the broker is revoked, whatever happens; what the broker is told about a command; how updates are
  answered; and what the shared sequence of an update and the missing database cost.
\<close>

section \<open>Invariants of a handle\<close>

definition handle_invar :: "'s handle \<Rightarrow> bool" where
  "handle_invar st \<longleftrightarrow> cc_invar (h_commands st) \<and> cache_invar (h_devices st)"

definition env_ok :: "'s handle_env \<Rightarrow> bool" where
  "env_ok env \<longleftrightarrow> dev_find_ok (he_dev env) \<and> cmd_find_ok (he_cmd env)"

text \<open>The state stays well-formed, the caches keep their capacities and what was sent stays sent.\<close>

definition commands_ok :: "nat \<Rightarrow> command_cache \<Rightarrow> bool" where
  "commands_ok n c \<longleftrightarrow> cc_invar c \<and> cc_max_num_items c = n"

definition devices_ok :: "nat \<Rightarrow> cache \<Rightarrow> bool" where
  "devices_ok n c \<longleftrightarrow> cache_invar c \<and> max_num_items c = n"

definition continues :: "'s handle \<Rightarrow> 's handle \<Rightarrow> bool" where
  "continues st0 st \<longleftrightarrow> commands_ok (cc_max_num_items (h_commands st0)) (h_commands st)
     \<and> devices_ok (max_num_items (h_devices st0)) (h_devices st) \<and> prefix (h_sent st0) (h_sent st)"

lemma revisit_capacity: "cc_max_num_items (snd (revisit fnd upd ds c)) = cc_max_num_items c"
  by (induction ds arbitrary: c) (simp_all add: Let_def case_prod_beta)

lemma commands_ok_ops [inv_intros]:
  assumes "cmd_find_ok fnd" "commands_ok n c"
  shows "commands_ok n (cc_insert fnd d c)"
    "cc_lookup_with fnd idx g key c = Inr (x, c') \<Longrightarrow> commands_ok n c'"
    "get_by_entityV fnd idx ord key status c = Inr (y, c') \<Longrightarrow> commands_ok n c'"
proof -
  show "commands_ok n (cc_insert fnd d c)" using assms by (simp add: commands_ok_def cc_insert_invar)
  show "commands_ok n c'" if "cc_lookup_with fnd idx g key c = Inr (x, c')"
    using that assms cc_lookup_with_invar [OF assms(1) _ that]
    by (auto simp: commands_ok_def cc_lookup_with_def bind_exn_eq_Inr_iff split: option.splits)
  show "commands_ok n c'" if "get_by_entityV fnd idx ord key status c = Inr (y, c')"
    using that assms get_by_entityV_invar [OF assms(1) _ that]
      revisit_capacity [of fnd "set_status status" "dropWhile (\<lambda>x. x \<noteq> the (idx key (cc_items c))) (ord (cc_items c))" c]
    by (auto simp: commands_ok_def get_by_entityV_def bind_exn_eq_Inr_iff split: option.splits)
qed

lemma commands_ok_remove [inv_intros]:
  "commands_ok n c \<Longrightarrow> commands_ok n (cc_remove idx d c)"
  "commands_ok n c \<Longrightarrow> commands_ok n (cc_item_timeout idx d aborted c)"
  using cc_remove_invar [of c]
  by (auto simp: commands_ok_def cc_remove_def cc_item_timeout_def cc_cancel_def split: option.split)

lemma commands_ok_mark:
  assumes "commands_ok n c"
  shows "commands_ok n (c\<lparr> cc_items := map (\<lambda>x. if x = d then set_status s x else x) (cc_items c) \<rparr>)"
proof -
  have "cc_invar (c\<lparr> cc_items := map (\<lambda>x. if x = d then set_status s d else x) (cc_items c) \<rparr>)"
    using assms by (intro update_in_place_invar) (simp_all add: commands_ok_def)
  then show ?thesis using assms by (simp add: commands_ok_def cong: if_cong)
qed

lemma commands_ok_async: "commands_ok n (h_commands st) \<Longrightarrow> commands_ok n (async_commands env st)"
  by (simp add: async_commands_def Let_def commands_ok_def cc_invar_def cc_size_def)

lemma devices_ok_lookup [inv_intros]:
  assumes "dev_find_ok fnd" "devices_ok n c" "lookup_with fnd idx g key c = Inr (x, c')"
  shows "devices_ok n c'"
  using assms lookup_with_invar [OF assms(1) _ assms(3)]
  by (auto simp: devices_ok_def lookup_with_def split: option.splits)

lemma keeps_send [keeps_intros]: "keeps (continues st0) (send_to_cb env el op t)"
  unfolding send_to_cb_def Let_def
  by (intro keeps_intros keeps_update) (auto simp: continues_def prefix_def)

lemma keeps_status [keeps_intros]:
  "keeps (continues st0) (send_status env n v d t)" "keeps (continues st0) (send_status_info env n v i d t)"
  unfolding send_status_def send_status_info_def send_updateContext_def send_updateContext2_def
  by (intro keeps_intros)+

lemma keeps_store [keeps_intros]: "keeps (continues st0) (update_state (\<lambda>st. st\<lparr> h_store := f st \<rparr>))"
  by (rule keeps_update) (simp add: continues_def)

lemma keeps_save [keeps_intros]:
  assumes "env_ok env"
  shows "keeps (continues st0) (save_command env n i t l d et ep sp seq s)"
  unfolding save_command_def Let_def
  using assms
  by (intro keeps_intros keeps_update)
    (auto simp: store_command_def continues_def env_ok_def intro: inv_intros)

lemma keeps_remove [keeps_intros]: "keeps (continues st0) (remove_command env i s p)"
  unfolding remove_command_def Let_def
  by (intro keeps_intros keeps_update) (auto simp: continues_def intro: inv_intros)

lemma keeps_with_commands:
  assumes "\<And>n c r c'. commands_ok n c \<Longrightarrow> op c = Inr (r, c') \<Longrightarrow> commands_ok n c'"
  shows "keeps (continues st0) (with_commands env op)"
  using assms [OF commands_ok_async] unfolding keeps_def with_commands_def
  by (fastforce simp: bind_act_eq_Some get_state_def lift_def update_state_def ret_def continues_def)

lemma keeps_lookup_device:
  assumes "\<And>n c r c'. devices_ok n c \<Longrightarrow> op c = Inr (r, c') \<Longrightarrow> devices_ok n c'"
  shows "keeps (continues st0) (lookup_device op)"
  using assms unfolding keeps_def lookup_device_def
  by (fastforce simp: bind_act_eq_Some get_state_def lift_def update_state_def ret_def continues_def)

lemma keeps_get_command [keeps_intros]: "env_ok env \<Longrightarrow> keeps (continues st0) (get_command env i s p)"
  unfolding get_command_def cc_get_by_id_def
  by (rule keeps_with_commands) (auto simp: env_ok_def intro: inv_intros)

lemma keeps_mark [keeps_intros]: "keeps (continues st0) (mark_command d s)"
  unfolding mark_command_def
  by (rule keeps_update) (simp add: continues_def commands_ok_mark)

lemma keeps_get_all [keeps_intros]: "env_ok env \<Longrightarrow> keeps (continues st0) (get_all_command env d t)"
  unfolding get_all_command_def deliver_command_def Let_def
  by (intro keeps_intros keeps_with_commands) (auto simp: env_ok_def intro: inv_intros)

lemma keeps_response [keeps_intros]:
  assumes "env_ok env"
  shows "keeps (continues st0) (process_command_response env cd c r)"
    "keeps (continues st0) (receive_command_response env tr cd a)"
    "keeps (continues st0) (timeout_f env item)"
proof -
  show p: "keeps (continues st0) (process_command_response env cd c r)" for cd c r
    unfolding process_command_response_def Let_def by (intro keeps_intros assms)
  show "keeps (continues st0) (receive_command_response env tr cd a)"
    unfolding receive_command_response_def by (auto intro: p split: sum.split prod.split)
  show "keeps (continues st0) (timeout_f env item)"
    unfolding timeout_f_def get_command_from_mongo_def Let_def by (intro keeps_intros assms)
qed

lemma keeps_get_device [keeps_intros]:
  assumes "env_ok env"
  shows "keeps (continues st0) (get_device_by_entity env n e s p)"
proof -
  have "dev_find_ok (he_dev env)" using assms by (simp add: env_ok_def)
  then have "keeps (continues st0) (lookup_device (get_by_entity (he_dev env) (he_dev_entity env) q))"
    "keeps (continues st0) (lookup_device (cache_get (he_dev env) q))" for q
    unfolding get_by_entity_def cache_get_def
    by (intro keeps_lookup_device; auto intro: inv_intros)+
  note lookups = this
  show ?thesis
    unfolding get_device_by_entity_def Let_def by (intro keeps_intros lookups)
qed

lemma keeps_updateCommand [keeps_intros]:
  "env_ok env \<Longrightarrow> keeps (continues st0) (updateCommand env n p d e s t)"
  unfolding updateCommand_def Let_def by (intro keeps_intros)

lemma keeps_update_attributes [keeps_intros]:
  "env_ok env \<Longrightarrow> keeps (continues st0) (update_attributes env d e s t atts acc)"
  by (induction atts arbitrary: acc) (auto intro!: keeps_intros)

lemma keeps_update_elements [keeps_intros]:
  assumes "env_ok env"
  shows "keeps (continues st0) (update_elements env t s els acc)"
proof -
  have "keeps (continues st0) (update_element env t s el c)" for el c
    unfolding update_element_def Let_def by (intro keeps_intros assms)
  then show ?thesis
    by (induction els arbitrary: acc) (auto intro!: keeps_bind keeps_basic split: prod.split)
qed

lemma keeps_updateContext [keeps_intros]: "env_ok env \<Longrightarrow> keeps (continues st0) (updateContext env u t s)"
  unfolding updateContext_def by (intro keeps_intros)

lemma keeps_query_entities [keeps_intros]:
  assumes "env_ok env"
  shows "keeps (continues st0) (query_entities env s p ens acc)"
proof -
  have "keeps (continues st0) (query_entity env s p en c)" for en c
    unfolding query_entity_def by (intro keeps_intros assms)
  then show ?thesis
    by (induction ens arbitrary: acc) (auto intro!: keeps_bind keeps_basic split: prod.split)
qed

lemma keeps_ngsi [keeps_intros]:
  assumes "env_ok env"
  shows "keeps (continues st0) (default_op_ngsi env h c)" "keeps (continues st0) (default_queryContext_ngsi env h c)"
  unfolding default_op_ngsi_def default_queryContext_ngsi_def queryContext_def Let_def
  by (intro keeps_intros assms)+

text \<open>The timer of a command: the handler of the agent, then the removal from the cache.\<close>

definition command_timeout :: "'s handle_env \<Rightarrow> Command \<Rightarrow> ('s, unit) act" where
  "command_timeout env item =
     bind_act (timeout_f env item) (\<lambda>_.
       update_state (\<lambda>st. st\<lparr> h_commands := cc_item_timeout (he_cmd_id env) item False (h_commands st) \<rparr>))"

lemma keeps_timeout [keeps_intros]: "env_ok env \<Longrightarrow> keeps (continues st0) (command_timeout env item)"
  unfolding command_timeout_def
  by (intro keeps_intros keeps_update)
    (auto simp: continues_def intro: inv_intros)

section \<open>The agent at work\<close>

text \<open>What can happen to a handle, each time in any environment whose hashed indices find what they
  hold: updates and queries of the broker, devices that answer, poll or respond, timers that run out.\<close>

inductive agent_step :: "'s handle \<Rightarrow> 's handle \<Rightarrow> bool" where
  step_update: "env_ok env \<Longrightarrow> default_op_ngsi env h c st = Some (r, st') \<Longrightarrow> agent_step st st'"
| step_query: "env_ok env \<Longrightarrow> default_queryContext_ngsi env h c st = Some (r, st') \<Longrightarrow> agent_step st st'"
| step_answer: "env_ok env \<Longrightarrow> receive_command_response env tr cd a st = Some (ra, st') \<Longrightarrow> agent_step st st'"
| step_poll: "env_ok env \<Longrightarrow> get_all_command env d t st = Some (rp, st') \<Longrightarrow> agent_step st st'"
| step_response: "env_ok env \<Longrightarrow>
    bind_act (remove_command env i s p) (\<lambda>_. response_command env n resp d t) st = Some (rr, st') \<Longrightarrow> agent_step st st'"
| step_timeout: "env_ok env \<Longrightarrow> command_timeout env item st = Some (rt, st') \<Longrightarrow> agent_step st st'"

inductive_cases agent_stepE: "agent_step st st'"

lemma keepsD: "m st = Some (r, st') \<Longrightarrow> keeps (continues st0) m \<Longrightarrow> continues st0 st \<Longrightarrow> continues st0 st'"
  by (auto simp: keeps_def)

lemma keeps_device_response:
  "keeps (continues st0) (bind_act (remove_command env i s p) (\<lambda>_. response_command env n resp d t))"
  unfolding response_command_def by (intro keeps_intros)

lemma agent_step_continues: "agent_step st st' \<Longrightarrow> continues st0 st \<Longrightarrow> continues st0 st'"
  by (erule agent_stepE; erule keepsD) (simp_all add: keeps_intros keeps_device_response)

text \<open>C11: Whatever the agent goes through - updates, queries, polls, answers, responses and timeouts in
  any order, some of them ending in exceptions - its command cache stays within its capacity and holds
  no two commands with the same sequence, service and path, its device cache likewise, and the messages
  that went to the broker are only ever added to.\<close>

theorem agent_caches_bounded:
  assumes "agent_step\<^sup>*\<^sup>* st st'" "handle_invar st"
  shows "cc_size (h_commands st') \<le> cc_max_num_items (h_commands st)
     \<and> distinct (map cmd_hash_key (cc_items (h_commands st')))
     \<and> cache_size (h_devices st') \<le> max_num_items (h_devices st)
     \<and> distinct (map dev_hash_key (items (h_devices st')))
     \<and> prefix (h_sent st) (h_sent st')"
proof -
  have "continues st st" using assms(2) by (simp add: continues_def handle_invar_def commands_ok_def devices_ok_def)
  with assms(1) have "continues st st'"
    by (induction rule: rtranclp_induct) (auto dest: agent_step_continues)
  then show ?thesis
    by (simp add: continues_def commands_ok_def devices_ok_def cc_invar_def cache_invar_def)
qed

definition empty_handle :: "nat \<Rightarrow> 's \<Rightarrow> 's handle" where
  "empty_handle n s = \<lparr> h_commands = new_command_cache n False, h_devices = new_cache n True 0, h_store = s, h_sent = [] \<rparr>"

lemma empty_handle_invar: "handle_invar (empty_handle n s)"
  by (simp add: handle_invar_def empty_handle_def cc_invar_def cc_size_def new_command_cache_def
      cache_invar_def cache_size_def new_cache_def)

text \<open>An environment for examples: UltraLight commands, no database, commands time out after a minute,
  and devices answer \<open>d1@led|done\<close>.\<close>

definition sample_env :: "string \<Rightarrow> int \<Rightarrow> unit handle_env" where
  "sample_env storage answer =
     \<lparr> he_json = text_lib, he_now = ''now'', he_uuid = ''u'', he_debug = False, he_storage_type = storage,
       he_callback = False, he_timeout = Inr 60, he_ngsi_url = None, he_protocol = [],
       he_service = (\<lambda>s p. Inr (PTree [] [])), he_dev = scan dev_hash_key, he_dev_entity = scan unique_entity,
       he_cmd = scan cmd_hash_key, he_cmd_entity = scan cmd_unique_entity, he_cmd_id = scan cmd_unique_id,
       he_order = (\<lambda>l. l), he_find = (\<lambda>s c. None), he_insert = (\<lambda>c s. s), he_remove = (\<lambda>c s. (1, s)),
       he_update = (\<lambda>i p n s. (1, s)), he_transform = transform_command text_lib,
       he_execute = (\<lambda>e i l t. Inr (answer, ''d1@led|done'')) \<rparr>"

lemma sample_env_ok: "env_ok (sample_env storage answer)"
  by (simp add: env_ok_def sample_env_def dev.scan_find_ok cmd.scan_find_ok)

section \<open>What the broker is told\<close>

definition status_attribute :: "'s handle_env \<Rightarrow> string \<times> string \<Rightarrow> Attribute" where
  "status_attribute env nv = typed (add_metadata (stamp (he_now env)) (new_Attribute (fst nv) ''string'' (snd nv)))"

text \<open>The update about a device with the given attributes and a time stamp.\<close>

definition status_update :: "'s handle_env \<Rightarrow> Device \<Rightarrow> ptree \<Rightarrow> (string \<times> string) list \<Rightarrow> UpdateContext" where
  "status_update env d t nvs =
     \<lparr> uc_action = ''APPEND'',
       uc_elements = [format_element (blank_element\<lparr> ce_attributes := map (status_attribute env) nvs @ [stamp (he_now env)],
         ce_service_info := t, ce_device_info := Some d \<rparr>)] \<rparr>"

lemma stamp_published: "typed (stamp now) = stamp now" "\<not> empty_value (stamp now)"
proof -
  have "render_identifier ''ISO8601'' = ''ISO8601''" by code_simp
  then show "typed (stamp now) = stamp now" "\<not> empty_value (stamp now)"
    by (simp_all add: stamp_def new_Attribute_def typed_def empty_value_def EMPTY_VALUE_def)
qed

lemma status_published:
  "typed (add_metadata (stamp (he_now env)) (new_Attribute n ''string'' v)) = status_attribute env (n, v)"
  "\<not> empty_value (status_attribute env nv)"
proof -
  have "render_identifier ''string'' = ''string''" by code_simp
  then show "typed (add_metadata (stamp (he_now env)) (new_Attribute n ''string'' v)) = status_attribute env (n, v)"
    "\<not> empty_value (status_attribute env nv)"
    by (simp_all add: status_attribute_def new_Attribute_def typed_def empty_value_def EMPTY_VALUE_def add_metadata_def)
qed

lemma add_updateContext_detached:
  "detached el \<Longrightarrow> add_updateContext env n att ''string'' v el
     = Some (Inr (el\<lparr> ce_attributes := ce_attributes el @ [status_attribute env (n @ ''_'' @ att, v)] \<rparr>))"
  by (simp add: add_updateContext_def add_attribute_detached status_published)

lemma detached_simps [simp]:
  "detached blank_element" "detached (el\<lparr> ce_attributes := as \<rparr>) = detached el" "ce_attributes blank_element = []"
  by (simp_all add: detached_def blank_element_def)

lemma send_plain:
  assumes "plain_service t" "plain_device d" "cb_url env t = Inr url" "n \<noteq> []"
  shows "send_status env n v (Some d) t st
       = Some (Inr (), st\<lparr> h_sent := h_sent st @ [(url, status_update env d t [(n @ ''_status'', v)])] \<rparr>)"
    "send_status_info env n v i (Some d) t st
       = Some (Inr (), st\<lparr> h_sent := h_sent st @ [(url, status_update env d t [(n @ ''_status'', v), (n @ ''_info'', i)])] \<rparr>)"
proof -
  note simps = add_updateContext_detached add_attribute_detached stamp_published set_env_info_plain [OF assms(1,2)]
    send_to_cb_def assms(3,4) status_update_def add_context_element_def update_state_def
  show "send_status env n v (Some d) t st
       = Some (Inr (), st\<lparr> h_sent := h_sent st @ [(url, status_update env d t [(n @ ''_status'', v)])] \<rparr>)"
    by (simp add: send_status_def send_updateContext_def simps)
  show "send_status_info env n v i (Some d) t st
       = Some (Inr (), st\<lparr> h_sent := h_sent st @ [(url, status_update env d t [(n @ ''_status'', v), (n @ ''_info'', i)])] \<rparr>)"
    by (simp add: send_status_info_def send_updateContext2_def simps)
qed

section \<open>A command from update to answer\<close>

text \<open>The command as it is cached.\<close>

definition cached_command :: "string \<Rightarrow> string \<Rightarrow> int \<Rightarrow> ptree \<Rightarrow> Device \<Rightarrow> string \<Rightarrow> string \<Rightarrow> ptree \<Rightarrow> Command" where
  "cached_command n i timeout line d et seq t =
     set_status READY_FOR_READ
       (Command_stored i n (pt_get t ''service'' []) (pt_get t ''service_path'' []) seq
          (get_real_name d (pt_get t ''entity_type'' [])) et (endpoint d) timeout None line)"

lemma cached_command_keys [simp]:
  "cmd_unique_id (cached_command n i timeout line d et seq t) = cmd_unique_id (command_key i (pt_get t ''service'' []) (pt_get t ''service_path'' []))"
  "cmd_hash_key (cached_command n i timeout line d et seq t) = (seq, pt_get t ''service'' [], pt_get t ''service_path'' [])"
  "cmd_status (cached_command n i timeout line d et seq t) = READY_FOR_READ"
  by (auto simp: cached_command_def set_status_def Command_stored_def blank_command_def cmd_unique_id_def command_key_def
      Command_entity_def cmd_hash_key_def Let_def)

lemma save_command_eq:
  "i \<noteq> [] \<Longrightarrow> save_command env n i timeout line d et (endpoint d) t seq READY_FOR_READ
     = update_state (store_command env (cached_command n i timeout line d et seq t))"
  by (simp add: save_command_def cached_command_def Let_def)

text \<open>What the insertion and the removal of a command leave of the commands with its identifier.\<close>

lemma filter_relocate:
  assumes "y \<in> set l"
  shows "length (filter P (relocate_end y l)) = length (filter P l)"
    "length (filter P (relocate_begin y l)) = length (filter P l)"
  using assms filter_remove1_length [of y l P]
  by (auto simp: relocate_end_def relocate_begin_def filter_remove1)

lemma filter_butlast_le: "length (filter P (butlast l)) \<le> length (filter P l)"
  by (induction l) auto

lemma id_count_insert:
  assumes "cmd_find_ok fnd"
  shows "id_count u (cc_insert fnd item c) \<le> id_count u c + (if cmd_unique_id item = u then 1 else 0)"
proof (cases "cc_lru c")
  case True
  from assms show ?thesis
  proof (cases rule: cmd.lru_insert_cases [where n = "cc_max_num_items c" and x = item and l = "cc_items c"])
    case (hit y)
    then show ?thesis using True by (simp add: id_count_def items_cc_insert filter_relocate)
  next
    case miss
    then show ?thesis
      using True filter_butlast_le [of "\<lambda>x. cmd_unique_id x = u" "cc_items c"]
      by (auto simp: id_count_def items_cc_insert)
  qed
next
  case False
  show ?thesis
  proof (cases "length (cc_items c) < cc_max_num_items c")
    case True
    with assms show ?thesis
      using False
      by (cases rule: cmd.mru_insert_cases [where n = "cc_max_num_items c" and x = item and l = "cc_items c"])
        (auto simp: id_count_def items_cc_insert filter_relocate)
  qed (use False in \<open>simp add: id_count_def items_cc_insert mru_insert_def\<close>)
qed

lemma id_count_remove:
  assumes "key_find_ok cmd_unique_id idx"
  shows "id_count (cmd_unique_id key) (cc_remove idx key c) = id_count (cmd_unique_id key) c - 1"
proof (cases "idx key (cc_items c)")
  case None
  then have "\<forall>d \<in> set (cc_items c). cmd_unique_id d \<noteq> cmd_unique_id key"
    using key_find_ok_None [OF assms None] by blast
  then show ?thesis using None by (simp add: id_count_def cc_remove_def filter_empty_conv)
next
  case (Some d)
  then have "d \<in> set (cc_items c)" "cmd_unique_id d = cmd_unique_id key"
    using key_find_ok_Some [OF assms Some] by blast+
  from filter_remove1_length [OF this(1), of "\<lambda>x. cmd_unique_id x = cmd_unique_id key", OF this(2)]
  show ?thesis using Some by (simp add: id_count_def cc_remove_def)
qed

text \<open>What the broker is told about a pushed command once the device answered.\<close>

definition outcome :: "string \<Rightarrow> int \<Rightarrow> string \<Rightarrow> (string \<times> string) list" where
  "outcome n answer resp =
     (if answer = 200 then (n @ ''_status'', ''OK'') # (if resp \<noteq> [] then [(n @ ''_info'', resp)] else [])
      else if answer = 202 then [(n @ ''_status'', ''delivered'')]
      else [(n @ ''_status'', ''error''), (n @ ''_info'', resp)])"

lemma bind_act_run: "m st = Some (Inr x, st') \<Longrightarrow> bind_act m f st = f x st'"
  by (simp add: bind_act_def)

lemma get_command_run:
  "cc_get_by_id (he_cmd env) (he_cmd_id env) (command_key i s p) (async_commands env st) = Inr (r, c) \<Longrightarrow>
   bind_act (get_command env i s p) f st = f r (st\<lparr> h_commands := c \<rparr>)"
  by (rule bind_act_run) (simp add: get_command_def with_commands_def ret_def)

text \<open>Inserting a cached command again moves it at most.\<close>

lemma reinsert:
  assumes "cmd_find_ok fnd" "d \<in> set (cc_items c)"
  shows "mset (cc_items (cc_insert fnd d c)) = mset (cc_items c)"
proof -
  have hit: "\<exists>y. fnd d (cc_items c) = Some y \<and> y \<in> set (cc_items c)"
    using find_ok_None [OF assms(1) _ assms(2), of d] find_ok_Some [OF assms(1), of d "cc_items c"]
    by (cases "fnd d (cc_items c)") (auto simp: cmd_eq_def)
  then show ?thesis
    by (auto simp: items_cc_insert lru_insert_def mru_insert_def push_front_def push_back_def
        relocate_begin_def relocate_end_def)
qed

lemma remove_command_file:
  "\<not> mongodb env \<Longrightarrow> remove_command env i s p st
     = Some (Inr 1, st\<lparr> h_commands := cc_remove (he_cmd_id env) (command_key i s p) (h_commands st) \<rparr>)"
  by (simp add: remove_command_def Let_def ret_def)

lemma id_count_0: "id_count u c = 0 \<longleftrightarrow> (\<forall>x \<in> set (cc_items c). cmd_unique_id x \<noteq> u)"
  by (auto simp: id_count_def filter_empty_conv)

text \<open>A look-up by identifier without database: the found command is marked, and if it was the only one
  with its identifier then all of them are.\<close>

lemma deliver_by_id:
  assumes "\<not> mongodb env" "env_ok env" "key_find_ok cmd_unique_id (he_cmd_id env)"
    and "id_count (cmd_unique_id (command_key i s p)) (h_commands st) \<le> 1"
  shows "\<exists>st'. bind_act (get_command env i s p) (\<lambda>pt. case pt of Some d \<Rightarrow> mark_command d DELIVERED | None \<Rightarrow> ret ()) st
        = Some (Inr (), st') \<and> h_sent st' = h_sent st \<and> h_store st' = h_store st
     \<and> (\<forall>x \<in> set (cc_items (h_commands st')). cmd_unique_id x = cmd_unique_id (command_key i s p) \<longrightarrow> cmd_status x = DELIVERED)"
proof -
  let ?u = "cmd_unique_id (command_key i s p)" and ?l = "cc_items (h_commands st)"
  let ?c = "async_commands env st"
  have c: "cc_items ?c = ?l" "cc_get_function ?c = None"
    using assms(1) by (simp_all add: async_commands_def Let_def)
  show ?thesis
  proof (cases "he_cmd_id env (command_key i s p) ?l")
    case None
    then have get: "cc_get_by_id (he_cmd env) (he_cmd_id env) (command_key i s p) ?c = Inr (None, ?c)"
      using c by (simp add: cc_get_by_id_def cc_lookup_with_def cc_fetch_def)
    have "\<forall>x \<in> set ?l. cmd_unique_id x \<noteq> ?u"
      using key_find_ok_None [OF assms(3) None] by blast
    then show ?thesis
      using c by (simp add: get_command_run [OF get, of "\<lambda>pt. case pt of Some d \<Rightarrow> mark_command d DELIVERED | None \<Rightarrow> ret ()"] ret_def)
  next
    case (Some d)
    then have d: "d \<in> set ?l" "cmd_unique_id d = ?u" using key_find_ok_Some [OF assms(3) Some] by blast+
    let ?c' = "cc_insert (he_cmd env) d ?c"
    have get: "cc_get_by_id (he_cmd env) (he_cmd_id env) (command_key i s p) ?c = Inr (Some d, ?c')"
      using Some c by (simp add: cc_get_by_id_def cc_lookup_with_def)
    have "mset (cc_items ?c') = mset ?l"
      using reinsert [of "he_cmd env" d ?c] assms(2) d(1) c by (simp add: env_ok_def)
    then have set: "set (cc_items ?c') = set ?l" by (metis set_mset_mset)
    have only: "x = d" if "x \<in> set ?l" "cmd_unique_id x = ?u" for x
    proof -
      let ?f = "filter (\<lambda>x. cmd_unique_id x = ?u) ?l"
      have "x \<in> set ?f" "d \<in> set ?f" "length ?f \<le> 1"
        using that d assms(4) by (simp_all add: id_count_def)
      then show ?thesis by (cases ?f) auto
    qed
    show ?thesis
      using set only
      by (auto simp: get_command_run [OF get, of "\<lambda>pt. case pt of Some d \<Rightarrow> mark_command d DELIVERED | None \<Rightarrow> ret ()"] mark_command_def update_state_def set_status_def)
  qed
qed

lemma bind_act_assoc: "bind_act (bind_act m f) g = bind_act m (\<lambda>x. bind_act (f x) g)"
  by (auto simp: bind_act_def fun_eq_iff split: option.splits sum.splits)

text \<open>The answer of a device to a command of which at most one is cached.\<close>

lemma process_answer:
  fixes cd :: CommandData and t :: ptree
  defines "t \<equiv> cd_service cd" and "d \<equiv> cd_item_dev cd"
  defines "key \<equiv> command_key (cd_id cd) (pt_get t ''service'' []) (pt_get t ''service_path'' [])"
  assumes "\<not> mongodb env" "env_ok env" "key_find_ok cmd_unique_id (he_cmd_id env)"
    and "plain_service t" "plain_device d" "cb_url env t = Inr url" "cd_name cd \<noteq> []"
    and "id_count (cmd_unique_id key) (h_commands st) \<le> 1"
  shows "\<exists>st'. process_command_response env cd answer resp st = Some (Inr (), st')
     \<and> h_sent st' = h_sent st @ [(url, status_update env d t (outcome (cd_name cd) answer resp))]
     \<and> (\<forall>x \<in> set (cc_items (h_commands st')). cmd_unique_id x = cmd_unique_id key \<longrightarrow> answer = 202 \<and> cmd_status x = DELIVERED)"
proof -
  note send = send_plain [OF assms(7,8,9,10)]
  have rm: "bind_act (remove_command env (cd_id cd) (pt_get t ''service'' []) (pt_get t ''service_path'' [])) f st
      = f 1 (st\<lparr> h_commands := cc_remove (he_cmd_id env) key (h_commands st) \<rparr>)" for f :: "int \<Rightarrow> ('a, unit) act"
    unfolding key_def by (rule bind_act_run [OF remove_command_file]) (rule assms(4))
  have "id_count (cmd_unique_id key) (cc_remove (he_cmd_id env) key (h_commands st)) = 0"
    using id_count_remove [OF assms(6), of key "h_commands st"] assms(11) by simp
  then have gone: "\<forall>x \<in> set (cc_items (cc_remove (he_cmd_id env) key (h_commands st))). cmd_unique_id x \<noteq> cmd_unique_id key"
    by (simp add: id_count_0)
  consider "answer = 200" | "answer = 202" | "answer \<noteq> 200" "answer \<noteq> 202" by blast
  then show ?thesis
  proof cases
    case 1
    then show ?thesis
      using rm gone send
      by (simp add: process_command_response_def outcome_def Let_def t_def [symmetric] d_def [symmetric])
  next
    case 2
    let ?m = "bind_act (get_command env (cd_id cd) (pt_get t ''service'' []) (pt_get t ''service_path'' []))
        (\<lambda>pt. case pt of Some d \<Rightarrow> mark_command d DELIVERED | None \<Rightarrow> ret ())"
    obtain st' where st': "?m st = Some (Inr (), st')"
      "h_sent st' = h_sent st" "\<forall>x \<in> set (cc_items (h_commands st')). cmd_unique_id x = cmd_unique_id key \<longrightarrow> cmd_status x = DELIVERED"
      using deliver_by_id [OF assms(4-6), of "cd_id cd" "pt_get t ''service'' []" "pt_get t ''service_path'' []" st] assms(11)
      unfolding key_def by blast
    have run: "bind_act (get_command env (cd_id cd) (pt_get t ''service'' []) (pt_get t ''service_path'' []))
        (\<lambda>pt. bind_act (case pt of Some d \<Rightarrow> mark_command d DELIVERED | None \<Rightarrow> ret ()) (\<lambda>_. g)) st = g st'"
      for g :: "('a, unit) act"
      unfolding bind_act_assoc [symmetric] by (rule bind_act_run [where m = ?m]) (rule st'(1))
    show ?thesis
      using 2 send assms(4) st'(2,3)
      by (simp add: process_command_response_def outcome_def Let_def t_def [symmetric] d_def [symmetric] run)
  next
    case 3
    then show ?thesis
      using rm gone send
      by (simp add: process_command_response_def outcome_def Let_def t_def [symmetric] d_def [symmetric])
  qed
qed

theorem agent_caches_bounded_witness:
  "\<exists>st'. agent_step (empty_handle 2 ()) st' \<and> length (h_sent st') = 1 \<and> cc_size (h_commands st') \<le> 2"
proof -
  let ?e = "sample_env ''file'' 200"
  let ?cd = "\<lparr> cd_name = ''led'', cd_id = ''d1@led'', cd_to_send = PTree [] [], cd_sequence = ''u'', cd_timeout = 60,
    cd_item_dev = Device_named ''d1'' ''s'', cd_entity_type = [], cd_service = PTree [] [] \<rparr>"
  have e: "\<not> mongodb ?e" "key_find_ok cmd_unique_id (he_cmd_id ?e)" "cb_url ?e (PTree [] []) = Inr []"
    by (simp_all add: mongodb_def sample_env_def cb_url_def pt_get_def scan_key_find_ok)
  have p: "plain_service (cd_service ?cd)" "plain_device (cd_item_dev ?cd)"
    by (simp_all add: plain_service_def plain_device_def Device_named_def blank_device_def)
  have s: "h_sent (empty_handle 2 ()) = []" "cc_max_num_items (h_commands (empty_handle 2 ())) = 2" "id_count u (h_commands (empty_handle 2 ())) \<le> 1" for u
    by (simp_all add: empty_handle_def id_count_def new_command_cache_def)
  obtain st' where st': "process_command_response ?e ?cd 200 [] (empty_handle 2 ()) = Some (Inr (), st')" "length (h_sent st') = 1"
    using process_answer [OF e(1) sample_env_ok e(2) p _ _ s(3), of "[]" 200 "[]"] e(3) by (auto simp: s(1))
  then have step: "agent_step (empty_handle 2 ()) st'"
    by (intro step_answer [OF sample_env_ok [of "''file''" 200], of "\<lambda>r. (0, r, [])" ?cd "Inr (200, [])"])
      (simp add: receive_command_response_def)
  have "cc_size (h_commands st') \<le> 2"
    using agent_caches_bounded [OF r_into_rtranclp [of agent_step, OF step] empty_handle_invar] by (simp add: s(2))
  then show ?thesis using step st'(2) by blast
qed

lemma send_plain_run:
  assumes "plain_service t" "plain_device d" "cb_url env t = Inr url" "n \<noteq> []"
  shows "bind_act (send_status env n v (Some d) t) f st
     = f () (st\<lparr> h_sent := h_sent st @ [(url, status_update env d t [(n @ ''_status'', v)])] \<rparr>)"
  by (rule bind_act_run) (rule send_plain(1) [OF assms])


text \<open>A device that polls: the command is pending and waits, if the cache has room and the sequence is new.\<close>

lemma polled_command_waits:
  assumes "\<not> mongodb env" "plain_service t" "plain_device d" "endpoint d = []" "cb_url env t = Inr url"
    and "getCommandLine env n par seq d = Inr (i, line)" "i \<noteq> []" "he_timeout env = Inr timeout"
  shows "updateCommand env n par d et seq t st
     = Some (Inr (), st\<lparr> h_sent := h_sent st @ [(url, status_update env d t [(n @ ''_status'', ''pending'')])],
                          h_commands := cc_insert (he_cmd env) (cached_command n i timeout line d et seq t) (h_commands st) \<rparr>)"
proof -
  have n: "n \<noteq> []" using assms(6) by (auto simp: getCommandLine_def)
  show ?thesis
    using assms save_command_eq [OF assms(7), of env n timeout line d et t seq]
    by (simp add: send_plain_run [OF assms(2,3,5) n] updateCommand_def is_push_type_of_command_def update_state_def store_command_def Let_def)
qed

definition sample_device :: "string \<Rightarrow> Device" where
  "sample_device ep = (Device_named ''d1'' ''s'')\<lparr> endpoint := ep, commands := [(''fan'', []), (''led'', [])] \<rparr>"

lemma sample_device_plain: "plain_device (sample_device ep)" "plain_service (PTree [] [])"
  by (simp_all add: plain_device_def plain_service_def sample_device_def Device_named_def blank_device_def)

lemma sample_line:
  assumes "c \<in> {''led'', ''fan''}" "dev_name d = ''d1''" "commands d = [(''fan'', []), (''led'', [])]"
  shows "getCommandLine (sample_env storage answer) c ''on'' seq d
     = Inr (''d1@'' @ c, pt_put BODY (''d1@'' @ c @ ''|on'') (PTree [] []))"
proof -
  have on: "json_value_to_ul text_lib (boost_trim ''on'') = Inr ''on''"
    by (simp add: json_value_to_ul_def boost_trim_def is_space_def c_str_def text_lib_def)
  show ?thesis
    using assms transform_command_plain [OF on, of "[]" "''d1''" c seq "''u''" "PTree [] []"]
    by (auto simp: getCommandLine_def sample_env_def map_find_def boost_trim_def)
qed


section \<open>One sequence per update\<close>

text \<open>Of all the commands that one update of the broker carries, at most one stays in the cache.  The
  identity of a cached command is its sequence with service and path, and all the commands of an update
  get the same sequence, so each command but one is dropped although it was reported as pending.\<close>

theorem one_command_per_update:
  assumes "env_ok env" "handle_invar st" "updateContext env upd t seq st = Some (r, st')"
  shows "length (filter (\<lambda>c. cmd_sequence c = seq \<and> cmd_service c = pt_get t ''service'' [] \<and> cmd_service_path c = pt_get t ''service_path'' [])
     (cc_items (h_commands st'))) \<le> 1"
proof -
  let ?key = "(seq, pt_get t ''service'' [], pt_get t ''service_path'' [])"
  have "continues st st'"
    using keepsD [OF assms(3) keeps_updateContext [OF assms(1)], of st] assms(2)
    by (simp add: continues_def handle_invar_def commands_ok_def devices_ok_def)
  then have d: "distinct (map cmd_hash_key (cc_items (h_commands st')))"
    by (simp add: continues_def commands_ok_def cc_invar_def)
  have "length (filter (\<lambda>c. cmd_hash_key c = k) l) \<le> 1" if "distinct (map cmd_hash_key l)" for l k
    using that by (induction l) (force simp: filter_empty_conv image_iff)+
  from this [OF d, of ?key] show ?thesis by (simp add: cmd_hash_key_def)
qed

text \<open>Two commands in one update to a polling device: both are pending, one is cached.\<close>

lemma two_commands_of_one_update:
  assumes "\<not> mongodb env" "env_ok env" "plain_service t" "plain_device d" "endpoint d = []" "cb_url env t = Inr url"
    and "getCommandLine env n par seq d = Inr (i, line)" "i \<noteq> []" "he_timeout env = Inr timeout"
    and "getCommandLine env n' par' seq d = Inr (i', line')" "i' \<noteq> []"
    and "cc_items (h_commands st) = []" "0 < cc_max_num_items (h_commands st)" "\<not> cc_lru (h_commands st)"
  shows "\<exists>st'. bind_act (updateCommand env n par d et seq t) (\<lambda>_. updateCommand env n' par' d et seq t) st = Some (Inr (), st')
     \<and> h_sent st' = h_sent st @ map (\<lambda>m. (url, status_update env d t [(m @ ''_status'', ''pending'')])) [n, n']
     \<and> cc_items (h_commands st') = [cached_command n i timeout line d et seq t]"
proof -
  let ?x = "cached_command n i timeout line d et seq t" and ?y = "cached_command n' i' timeout line' d et seq t"
  have fnd: "cmd_find_ok (he_cmd env)" using assms(2) by (simp add: env_ok_def)
  have none: "he_cmd env ?x [] = None"
    using find_ok_Some [OF fnd, of ?x "[]"] by (cases "he_cmd env ?x []") auto
  have "he_cmd env ?y [?x] \<noteq> None"
    using find_ok_None [OF fnd, of ?y "[?x]" ?x] cmd.hkey_eq [of ?x ?y] by auto
  then have some: "he_cmd env ?y [?x] = Some ?x"
    using find_ok_Some [OF fnd, of ?y "[?x]"] by auto
  show ?thesis
    using polled_command_waits [OF assms(1,3-6,10,11,9), of et] assms(12-14) none some
    by (simp add: bind_act_run [OF polled_command_waits [OF assms(1,3-9)]] items_cc_insert mru_insert_def push_back_def relocate_end_def)
qed

text \<open>A handle that knows one device, and an update with two commands for it.\<close>

definition sample_handle :: "unit handle" where
  "sample_handle = (empty_handle 2 ())\<lparr> h_devices := (new_cache 2 True 0)\<lparr> items :=
     [(sample_device [])\<lparr> entity_name := ''e'', service_path := ''/'' \<rparr>] \<rparr> \<rparr>"

definition sample_service :: ptree where
  "sample_service = PTree [] [(''service'', PTree ''s'' []), (''service_path'', PTree ''/'' [])]"

lemma sample_handle_ok: "handle_invar sample_handle"
  by (simp add: sample_handle_def empty_handle_def handle_invar_def cc_invar_def cc_size_def new_command_cache_def
      cache_invar_def cache_size_def new_cache_def)

abbreviation known_device :: Device where
  "known_device \<equiv> (sample_device [])\<lparr> entity_name := ''e'', service_path := ''/'' \<rparr>"

lemma sample_lookup:
  "get_device_by_entity (sample_env ''file'' 200) ''e'' [] ''s'' ''/'' sample_handle
     = Some (Inr known_device, sample_handle)"
  by (simp add: Let_def bind_act_assoc INT_MIN_def ret_def get_device_by_entity_def lookup_device_def get_by_entity_def lookup_with_def sample_handle_def
      sample_env_def sample_device_def scan_def unique_entity_def Device_named_def blank_device_def new_cache_def
      cache_insert_def push_front_def relocate_begin_def start_timer_def empty_handle_def)

definition two_commands :: UpdateContext where
  "two_commands = \<lparr> uc_action = ''UPDATE'', uc_elements = [blank_element\<lparr> ce_id := ''e'',
     ce_attributes := [Attribute ''led'' ''command'' ''on'' [] [] False, Attribute ''fan'' ''command'' ''on'' [] [] False] \<rparr>] \<rparr>"

lemma sample_update_run:
  "\<exists>st r. updateContext (sample_env ''file'' 200) two_commands sample_service ''u'' sample_handle = Some (Inr r, st) \<and> length (h_sent st) = 2"
proof -
  let ?e = "sample_env ''file'' 200" and ?d = known_device and ?t = sample_service
  have e: "\<not> mongodb ?e" "cb_url ?e ?t = Inr []" "he_timeout ?e = Inr 60" "plain_service ?t" "plain_device ?d" "endpoint ?d = []"
    "pt_get ?t ''service'' [] = ''s''" "pt_get ?t ''service_path'' [] = ''/''" "pt_get ?t ''entity_type'' [] = []" "entity_type ?d = []"
    by (simp_all add: mongodb_def sample_env_def cb_url_def pt_get_def sample_service_def plain_service_def plain_device_def
        sample_device_def Device_named_def blank_device_def)
  have l: "getCommandLine ?e c ''on'' ''u'' ?d = Inr (''d1@'' @ c, pt_put BODY (''d1@'' @ c @ ''|on'') (PTree [] []))" if "c \<in> {''led'', ''fan''}" for c
    using sample_line [OF that, of ?d] by (simp add: sample_device_def Device_named_def)
  have s: "cc_items (h_commands sample_handle) = []" "0 < cc_max_num_items (h_commands sample_handle)" "\<not> cc_lru (h_commands sample_handle)"
    "h_sent sample_handle = []"
    by (simp_all add: sample_handle_def empty_handle_def new_command_cache_def)
  have run: "updateCommand ?e c ''on'' ?d et ''u'' ?t st
      = Some (Inr (), st\<lparr> h_sent := h_sent st @ [([], status_update ?e ?d ?t [(c @ ''_status'', ''pending'')])],
          h_commands := cc_insert (he_cmd ?e) (cached_command c (''d1@'' @ c) 60
            (pt_put BODY (''d1@'' @ c @ ''|on'') (PTree [] [])) ?d et ''u'' ?t) (h_commands st) \<rparr>)"
    if "c \<in> {''led'', ''fan''}" for c et st
    by (rule polled_command_waits [OF e(1,4,5,6,2) l [OF that] _ e(3)]) simp
  show ?thesis
    by (simp add: updateContext_def two_commands_def update_element_def Let_def e sample_lookup bind_act_def
        run ret_def s try_act_def blank_element_def)
qed

theorem one_command_per_update_witness:
  "\<exists>st r. updateContext (sample_env ''file'' 200) two_commands sample_service ''u'' sample_handle = Some (r, st)
     \<and> length (h_sent st) = 2
     \<and> length (filter (\<lambda>c. cmd_sequence c = ''u'' \<and> cmd_service c = ''s'' \<and> cmd_service_path c = ''/'') (cc_items (h_commands st))) \<le> 1"
proof -
  obtain st r where u: "updateContext (sample_env ''file'' 200) two_commands sample_service ''u'' sample_handle = Some (r, st)" "length (h_sent st) = 2"
    using sample_update_run by blast
  then show ?thesis
    using one_command_per_update [OF sample_env_ok sample_handle_ok u(1)] by (auto simp: sample_service_def pt_get_def)
qed

section \<open>Timeouts\<close>

text \<open>Without a database no command ever expires towards the broker: the handler asks the database for
  the stored command, finds none, and leaves everything as it is (or dereferences the null pointer, when
  debug messages are on).\<close>

theorem file_storage_never_expires:
  assumes "\<not> mongodb env" "he_service env (cmd_service item) (cmd_service_path item) = Inr t"
  shows "timeout_f env item st
     = Some (if he_debug env then Inl (undefined_behaviour ''itemBBDD->get_status()'') else Inr (), st)"
  using assms
  by (simp add: timeout_f_def get_command_from_mongo_def get_by_id_from_mongo_def async_commands_def cc_fetch_def
      bind_act_assoc try_act_def catchable_def lift_def ret_def Let_def)

theorem file_storage_never_expires_witness:
  "timeout_f (sample_env ''file'' 200) blank_command (empty_handle 2 ()) = Some (Inr (), empty_handle 2 ())"
  using file_storage_never_expires [of "sample_env ''file'' 200" blank_command "PTree [] []" "empty_handle 2 ()"]
  by (simp add: mongodb_def sample_env_def)

text \<open>With a database, the expiry of a command is reported exactly when no other agent has moved the
  stored command on and it was still there to be removed; the message tells a command that was never
  fetched from one that was delivered but not answered.\<close>

theorem expiry_reported_by_one_agent:
  fixes item :: Command
  defines "d \<equiv> (Device_named [] (cmd_service item))\<lparr> entity_type := cmd_entity_type item, entity_name := cmd_entity item \<rparr>"
    and "key \<equiv> command_key (cmd_id item) (cmd_service item) (cmd_service_path item)"
  assumes "mongodb env" "he_service env (cmd_service item) (cmd_service_path item) = Inr t"
    and "he_find env (h_store st) key = Some stored" "plain_service t" "cb_url env t = Inr url" "cmd_name item \<noteq> []"
  shows "\<exists>st'. timeout_f env item st = Some (Inr (), st')
     \<and> h_sent st' = h_sent st @
         (if cmd_status stored \<le> cmd_status item \<and> fst (he_remove env key (h_store st)) > 0
          then [(url, status_update env d t [(cmd_name item @ ''_status'', expiry_message (cmd_status item))])] else [])"
proof -
  have pd: "plain_device d" by (simp add: d_def plain_device_def Device_named_def blank_device_def)
  note send = send_plain(1) [OF assms(6) pd assms(7,8)]
  have stored: "get_by_id_from_mongo key (async_commands env st) = Inr (Some stored)"
    using assms(3,5) by (simp add: get_by_id_from_mongo_def async_commands_def cc_fetch_def Let_def)
  show ?thesis
    using assms(3,4) stored send
    by (auto simp: timeout_f_def get_command_from_mongo_def bind_act_assoc try_act_def remove_command_def
        d_def [symmetric] key_def [symmetric] ret_def Let_def split: prod.split)
qed

theorem expiry_reported_by_one_agent_witness:
  "\<exists>st'. timeout_f ((sample_env ''mongodb'' 200)\<lparr> he_find := \<lambda>s k. Some (set_status 0 k) \<rparr>) (set_status 0 (blank_command\<lparr> cmd_name := ''led'' \<rparr>)) (empty_handle 2 ())
     = Some (Inr (), st') \<and> length (h_sent st') = 1"
proof -
  let ?e = "(sample_env ''mongodb'' 200)\<lparr> he_find := \<lambda>s k. Some (set_status 0 k) \<rparr>"
  let ?c = "set_status 0 (blank_command\<lparr> cmd_name := ''led'' \<rparr>)"
  have "mongodb ?e" "he_service ?e (cmd_service ?c) (cmd_service_path ?c) = Inr (PTree [] [])" "plain_service (PTree [] [])"
    "cb_url ?e (PTree [] []) = Inr []" "cmd_name ?c \<noteq> []"
    by (simp_all add: mongodb_def sample_env_def plain_service_def cb_url_def pt_get_def set_status_def)
  from expiry_reported_by_one_agent [OF this(1,2) _ this(3,4,5), of "empty_handle 2 ()"]
  show ?thesis by (auto simp: sample_env_def set_status_def empty_handle_def)
qed

section \<open>Answering updates\<close>

definition answers :: "ContextElement \<Rightarrow> int \<Rightarrow> ContextResponse \<times> int \<Rightarrow> bool" where
  "answers el c0 a \<longleftrightarrow> rs_element (fst a) = el \<and> (rs_code (fst a) = ''200'' \<longrightarrow> snd a = c0 \<or> snd a = 200)"

lemma fail_response_simps [simp]:
  "rs_element (fail_response c r d res) = rs_element res" "rs_code (fail_response c r d res) = c"
  by (simp_all add: fail_response_def set_reason_def set_details_def)

lemma exn_response_answers: "rs_element res = el \<Longrightarrow> answers el c0 (exn_response res e)"
proof -
  have "show_nat 200 = ''200''" by code_simp
  then have "show_nat n = ''200'' \<Longrightarrow> n = 200" for n using show_nat_inject [of n 200] by simp
  then show "rs_element res = el \<Longrightarrow> answers el c0 (exn_response res e)"
    by (auto simp: answers_def exn_response_def split: cxx_exn.split)
qed

lemma update_attributes_answers:
  "update_attributes env d et seq t atts a st = Some (Inr a', st') \<Longrightarrow> answers el c0 a \<Longrightarrow> answers el c0 a'"
proof (induction atts arbitrary: a st)
  case (Cons att atts)
  from Cons.prems(1) obtain b st1 where b: "(if a_type att = ''command''
      then try_act is_IotaException (bind_act (updateCommand env (a_name att) (a_value att) d et seq t) (\<lambda>_. ret a)) (\<lambda>e. ret (exn_response (fst a) e))
      else ret (fail_response ''400'' RESPONSE_MESSAGE_NO_COMMAND (a_name att) (fst a), 400)) st = Some (Inr b, st1)"
    "update_attributes env d et seq t atts b st1 = Some (Inr a', st')"
    by (auto simp: bind_act_eq_Some)
  have "answers el c0 b"
    using b(1) Cons.prems(2) exn_response_answers
    by (auto simp: try_act_eq_Some bind_act_eq_Some ret_def answers_def split: if_splits)
  with Cons.IH [OF b(2)] show ?case by simp
qed (simp add: ret_def)

lemma update_element_answers:
  "update_element env t seq el c st = Some (r, st') \<Longrightarrow> (case r of Inl e \<Rightarrow> \<not> catchable e | Inr a \<Rightarrow> answers el c a)"
proof -
  assume u: "update_element env t seq el c st = Some (r, st')"
  have "answers el c (new_ContextResponse\<lparr> rs_element := el \<rparr>, c)" by (simp add: answers_def)
  then show ?thesis
    using u exn_response_answers [of "new_ContextResponse\<lparr> rs_element := el \<rparr>" el c] update_attributes_answers
    by (fastforce simp: update_element_def try_act_eq_Some bind_act_eq_Some ret_def Let_def split: if_splits)
qed

lemma update_elements_answers:
  assumes "update_elements env t seq els (rs, c) st = Some (r, st')"
  shows "case r of Inl e \<Rightarrow> \<not> catchable e
     | Inr (rs', c') \<Rightarrow> \<exists>new. rs' = rs @ new \<and> map rs_element new = els \<and> (list_all (\<lambda>x. rs_code x = ''200'') new \<longrightarrow> c' = c \<or> c' = 200)"
  using assms
proof (induction els arbitrary: rs c st)
  case (Cons el els)
  from Cons.prems consider (thrown) e where "update_element env t seq el c st = Some (Inl e, st')" "r = Inl e"
    | (answered) x c1 st1 where "update_element env t seq el c st = Some (Inr (x, c1), st1)"
        "update_elements env t seq els (rs @ [x], c1) st1 = Some (r, st')"
    by (auto simp: bind_act_eq_Some)
  then show ?case
  proof cases
    case thrown
    then show ?thesis using update_element_answers [OF thrown(1)] by simp
  next
    case answered
    then show ?thesis
      using Cons.IH [OF answered(2)] update_element_answers [OF answered(1)]
      by (fastforce simp: answers_def split: sum.splits)
  qed
qed (auto simp: ret_def)



end
