(* ===== verification/Ul_Service.thy ===== *)
theory Ul_Service
  imports Command_Life Ul_Observation Iot_Url Alarm
begin

text \<open>
  The UltraLight service (\<^verbatim>\<open>src/ultra_light/ul20_service.cc\<close>, with \<open>get_device\<close> of
  \<^verbatim>\<open>src/rest/rest_handle.cc\<close>): a request of a device carries measures or the response to a command,
  may move the endpoint of the device and fetches the commands that wait for it.  What the service adds
  to the environment of a handle is the search of a service by the key of the device, the service paths
  a configuration file lists, and the update of the device table.
\<close>

section \<open>Requests\<close>

record ul_request =
  rq_method :: string
  rq_query_string :: string
  rq_content :: string
  rq_content_encoding :: string

record 's ul_service_env =
  us_env :: "'s handle_env"
  us_time :: time_lib
  us_apikey :: "string \<Rightarrow> ptree result"
  us_all_paths :: "string \<Rightarrow> string list result"
  us_update_endpoint :: "Device \<Rightarrow> string \<Rightarrow> 's \<Rightarrow> 's"
  us_mongo_endpoint :: string

text \<open>What the loop over the query collects.\<close>

record ul_query =
  uq_sbc :: "KVP list"
  uq_device :: string
  uq_new_endpoint :: string
  uq_url_update :: bool
  uq_apikey :: string
  uq_content :: string
  uq_get_cmd :: bool

definition ul_query_step :: "string \<Rightarrow> KVP \<Rightarrow> ul_query \<Rightarrow> ul_query" where
  "ul_query_step meth kv q =
     (let (k, v) = kv in
      if k = ''i'' then q\<lparr> uq_sbc := uq_sbc q @ [(''ID'', v)], uq_device := v \<rparr>
      else if k = ''ip'' then
        (if v \<noteq> [] then q\<lparr> uq_new_endpoint := v, uq_sbc := uq_sbc q @ [(''URL'', v)], uq_url_update := True \<rparr>
         else q\<lparr> uq_new_endpoint := v \<rparr>)
      else if k = ''k'' then q\<lparr> uq_sbc := uq_sbc q @ [(''apikey'', v)], uq_apikey := uq_apikey q @ v \<rparr>
      else if k = ''d'' \<and> meth = ''GET'' then
        q\<lparr> uq_content := (if uq_content q \<noteq> [] then uq_content q @ ''#'' else []) @ v \<rparr>
      else if k = ''getCmd'' then q\<lparr> uq_get_cmd := True \<rparr>
      else q\<lparr> uq_sbc := uq_sbc q @ [(k, v)] \<rparr>)"

definition ul_query_of :: "ul_request \<Rightarrow> ul_query" where
  "ul_query_of rq =
     fold (ul_query_step (rq_method rq)) (snd (riot_getQueryParams (rq_query_string rq) []))
       \<lparr> uq_sbc = [], uq_device = [], uq_new_endpoint = [], uq_url_update = False, uq_apikey = [], uq_content = [], uq_get_cmd = False \<rparr>"

text \<open>A body replaces the measures of the query; a compressed one by nothing.\<close>

definition ul_content :: "ul_request \<Rightarrow> ul_query \<Rightarrow> string" where
  "ul_content rq q =
     (if rq_content rq = [] then uq_content q
      else if isEqualString False ''gzip'' (rq_content_encoding rq) \<or> isEqualString False ''deflate'' (rq_content_encoding rq) then []
      else rq_content rq)"

section \<open>Devices\<close>

fun first_on_path :: "'s handle_env \<Rightarrow> Device \<Rightarrow> string list \<Rightarrow> ('s, Device option) act" where
  "first_on_path env itemQ [] = ret None"
| "first_on_path env itemQ (p # ps) =
     bind_act (lookup_device (cache_get (he_dev env) (itemQ\<lparr> service_path := p \<rparr>))) (\<lambda>r.
       case r of Some d \<Rightarrow> ret (Some d) | None \<Rightarrow> first_on_path env itemQ ps)"

definition get_device :: "'s ul_service_env \<Rightarrow> Device finder \<Rightarrow> string \<Rightarrow> string \<Rightarrow> string \<Rightarrow> ('s, Device option) act" where
  "get_device ue by_name name serv path =
     (let env = us_env ue;
          itemQ = (Device_named name serv)\<lparr> service_path := path \<rparr>
      in bind_act
           (if he_storage_type env = ''file'' \<and> path = [] \<and> serv \<noteq> []
            then bind_act (lift (us_all_paths ue serv)) (first_on_path env itemQ)
            else if serv = [] then lookup_device (get_by_name (he_dev env) by_name itemQ)
            else lookup_device (cache_get (he_dev env) itemQ)) (\<lambda>r.
         case r of
           None \<Rightarrow> ret None
         | Some d \<Rightarrow>
             if active d = 0
             then lift (Inl (IotaException RESPONSE_MESSAGE_DEVICE_NO_ACTIVE
               ('' iota::Device '' @ name @ '' is not active. Service '' @ serv @ '' '' @ path) 409))
             else ret (Some d)))"

text \<open>The endpoint of a known device that has one is replaced; the device is shared with the cache.\<close>

definition update_endpoint :: "'s ul_service_env \<Rightarrow> Device \<Rightarrow> string \<Rightarrow> ('s, Device) act" where
  "update_endpoint ue d new_endpoint =
     (if check_forbidden_characters IOTA_FORBIDDEN_CHARACTERS new_endpoint
      then lift (Inl (IotaException RESPONSE_MESSAGE_BAD_REQUEST ''Invalid Characters'' 400))
      else bind_act (lift (new_IoTUrl new_endpoint)) (\<lambda>u.
        if url_host u = [] \<or> url_protocol u = []
        then lift (Inl (IotaException RESPONSE_MESSAGE_BAD_REQUEST ''Not a valid IP'' 400))
        else if endpoint d \<noteq> [] \<and> endpoint d \<noteq> new_endpoint then
          let d' = d\<lparr> endpoint := new_endpoint \<rparr> in
          bind_act (update_state (\<lambda>st. st\<lparr>
            h_devices := (h_devices st)\<lparr> items := map (\<lambda>x. if x = d then d' else x) (items (h_devices st)) \<rparr>,
            h_store := (if mongodb (us_env ue) then us_update_endpoint ue d' new_endpoint (h_store st) else h_store st) \<rparr>)) (\<lambda>_.
          ret d')
        else ret d))"

section \<open>The request\<close>

definition ul_measures :: "'s ul_service_env \<Rightarrow> Device \<Rightarrow> ptree \<Rightarrow> KVP list \<Rightarrow> string \<Rightarrow> ('s, unit) act" where
  "ul_measures ue dev service_ptree querySBC content =
     bind_act (lift_run (translate \<lparr> ue_json = he_json (us_env ue), ue_time = us_time ue, ue_now = he_now (us_env ue) \<rparr>
                 content (Some dev) service_ptree querySBC [] 0)) (\<lambda>(_, cb_eltos).
     bind_act (for_each (\<lambda>el. send_to_cb (us_env ue) el ''APPEND'' service_ptree) cb_eltos) (\<lambda>_. ret ()))"

definition cancel_command :: "Command \<Rightarrow> ('s, unit) act" where
  "cancel_command d = update_state (\<lambda>st. st\<lparr> h_commands := cc_cancel d (h_commands st) \<rparr>)"

text \<open>\<open>id_command\<close> and \<open>response\<close> are what \<open>isCommandResp\<close> found in the content.\<close>

definition ul_response :: "'s ul_service_env \<Rightarrow> Device \<Rightarrow> ptree \<Rightarrow> string \<Rightarrow> string \<Rightarrow> ('s, unit) act" where
  "ul_response ue dev service_ptree id_command response =
     (let srv = pt_get service_ptree ''service'' []; srv_path = pt_get service_ptree ''service_path'' [] in
      bind_act (get_command (us_env ue) id_command srv srv_path) (\<lambda>commandPtr.
        case commandPtr of
          None \<Rightarrow> ret ()
        | Some c \<Rightarrow>
            bind_act (cancel_command c) (\<lambda>_.
            bind_act (remove_command (us_env ue) id_command srv srv_path) (\<lambda>_.
            response_command (us_env ue) (cmd_name c) response (Some dev) service_ptree))))"

definition ul_receive :: "'s ul_service_env \<Rightarrow> Device \<Rightarrow> ptree \<Rightarrow> KVP list \<Rightarrow> string \<Rightarrow> ('s, unit) act" where
  "ul_receive ue dev service_ptree querySBC content =
     (if content = [] then ret ()
      else case isCommandResp content of (resp, response, id_command) \<Rightarrow>
             if resp = -1 then ul_measures ue dev service_ptree querySBC content
             else ul_response ue dev service_ptree id_command response)"

text \<open>The local variables the request has set when it ends or throws: service and device.\<close>

record ul_locals =
  lo_service :: ptree
  lo_device :: "Device option"
  lo_code :: nat
  lo_alarms :: "alarm_event list"

definition ALARM_CODE_NO_CB :: int where
  "ALARM_CODE_NO_CB = 200"

definition ul_failed :: "'s ul_service_env \<Rightarrow> ul_query \<Rightarrow> ptree \<Rightarrow> Device option \<Rightarrow> cxx_exn \<Rightarrow> ul_locals" where
  "ul_failed ue q t d e =
     \<lparr> lo_service = t, lo_device = d, lo_code = 400,
       lo_alarms = (case e of IotaException reason _ _ \<Rightarrow>
           if reason = ''Database error''
           then [Raise_info ALARM_CODE_NO_CB (us_mongo_endpoint ue)
                  (''{'' @ quoted ''apikey'' @ '':'' @ quoted (uq_apikey q) @ '','' @ quoted ''device'' @ '':'' @ quoted (uq_device q) @ ''}'')
                  (PTree [] []) ''error'' reason]
           else []
         | _ \<Rightarrow> []) \<rparr>"

definition ul_try :: "'s ul_service_env \<Rightarrow> Device finder \<Rightarrow> ul_request \<Rightarrow> ul_query \<Rightarrow> ('s, ul_locals) act" where
  "ul_try ue by_name rq q =
     (let caught = (\<lambda>t d. \<lambda>e. ret (ul_failed ue q t d e)) in
      bind_act (try_act (\<lambda>_. True) (bind_act (lift (us_apikey ue (uq_apikey q))) (\<lambda>t. ret (Inr t)))
                 (\<lambda>e. ret (Inl (ul_failed ue q (PTree [] []) None e)))) (\<lambda>s.
      case s of
        Inl lo \<Rightarrow> ret lo
      | Inr t \<Rightarrow>
          let serv = pt_get t ''service'' [] in
          bind_act (try_act (\<lambda>_. True)
                      (bind_act (get_device ue by_name (uq_device q) serv (pt_get t ''service_path'' FIWARE_SERVICEPATH_DEFAULT)) (\<lambda>d. ret (Inr d)))
                      (\<lambda>e. ret (Inl (ul_failed ue q t None e)))) (\<lambda>r.
          case r of
            Inl lo \<Rightarrow> ret lo
          | Inr found \<Rightarrow>
              let known = (case found of Some d \<Rightarrow> d
                    | None \<Rightarrow> (Device_named (uq_device q) serv)\<lparr> service_path := pt_get t ''service_path'' [] \<rparr>) in
              bind_act (try_act (\<lambda>_. True)
                          (bind_act (if found \<noteq> None \<and> uq_url_update q then update_endpoint ue known (uq_new_endpoint q) else ret known)
                             (\<lambda>d. ret (Inr d)))
                          (\<lambda>e. ret (Inl (ul_failed ue q t (Some known) e)))) (\<lambda>x.
              case x of
                Inl lo \<Rightarrow> ret lo
              | Inr dev \<Rightarrow>
                  try_act (\<lambda>_. True)
                    (bind_act (ul_receive ue dev t (uq_sbc q) (ul_content rq q)) (\<lambda>_.
                       ret \<lparr> lo_service = t, lo_device = Some dev, lo_code = 200, lo_alarms = [] \<rparr>))
                    (caught t (Some dev))))))"

text \<open>The whole request: status code, response text and alarms.\<close>

definition ul_service :: "'s ul_service_env \<Rightarrow> Device finder \<Rightarrow> ul_request \<Rightarrow> ('s, nat \<times> string \<times> alarm_event list) act" where
  "ul_service ue by_name rq =
     (let q = ul_query_of rq in
      bind_act (ul_try ue by_name rq q) (\<lambda>lo.
      bind_act (if rq_method rq = ''GET'' \<or> uq_get_cmd q then get_all_command (us_env ue) (lo_device lo) (lo_service lo) else ret []) (\<lambda>cmdPtes.
      ret (lo_code lo, join_with ''#'' (map (\<lambda>c. pt_get (cmd_command c) BODY []) cmdPtes), lo_alarms lo))))"

section \<open>Responses to commands\<close>

lemma only_one:
  assumes "id_count u c \<le> 1" "x \<in> set (cc_items c)" "cmd_unique_id x = u" "y \<in> set (cc_items c)" "cmd_unique_id y = u"
  shows "x = y"
proof -
  let ?f = "filter (\<lambda>x. cmd_unique_id x = u) (cc_items c)"
  have "x \<in> set ?f" "y \<in> set ?f" "length ?f \<le> 1" using assms by (simp_all add: id_count_def)
  then show ?thesis by (cases ?f) auto
qed

text \<open>A response to a cached command: the broker learns of its execution and its result, the whole
  text of the response, and the command is gone.\<close>

lemma ul_response_completes:
  fixes ue :: "'s ul_service_env" and t :: ptree and i :: string
  defines "env \<equiv> us_env ue" and "u \<equiv> cmd_unique_id (command_key i (pt_get t ''service'' []) (pt_get t ''service_path'' []))"
  assumes "\<not> mongodb env" "env_ok env" "key_find_ok cmd_unique_id (he_cmd_id env)"
    and "plain_service t" "plain_device d" "cb_url env t = Inr url"
    and "c \<in> set (cc_items (h_commands st))" "cmd_unique_id c = u" "id_count u (h_commands st) \<le> 1" "cmd_name c \<noteq> []"
    and "CHR ''@'' \<in> set i" "CHR ''|'' \<notin> set i"
  shows "\<exists>st'. ul_receive ue d t sbc (i @ ''|'' @ result) st = Some (Inr (), st')
     \<and> h_sent st' = h_sent st @ [(url, status_update env d t [(cmd_name c @ ''_status'', ''OK''), (cmd_name c @ ''_info'', i @ ''|'' @ result)])]
     \<and> (\<forall>x \<in> set (cc_items (h_commands st')). cmd_unique_id x \<noteq> u)"
proof -
  let ?key = "command_key i (pt_get t ''service'' []) (pt_get t ''service_path'' [])"
  let ?c = "async_commands env st"
  have l: "cc_items ?c = cc_items (h_commands st)" using assms(3) by (simp add: async_commands_def Let_def)
  have "he_cmd_id env ?key (cc_items ?c) = Some c"
  proof (cases "he_cmd_id env ?key (cc_items ?c)")
    case None
    then show ?thesis using key_find_ok_None [OF assms(5) None, of c] assms(9,10) l by (simp add: u_def)
  next
    case (Some y)
    then show ?thesis
      using key_find_ok_Some [OF assms(5) Some] only_one [OF assms(11) _ _ assms(9,10)] l by (simp add: u_def)
  qed
  then have get: "cc_get_by_id (he_cmd env) (he_cmd_id env) ?key ?c = Inr (Some c, cc_insert (he_cmd env) c ?c)"
    by (simp add: cc_get_by_id_def cc_lookup_with_def)
  let ?c1 = "cc_cancel c (cc_insert (he_cmd env) c ?c)"
  have "mset (cc_items ?c1) = mset (cc_items (h_commands st))"
    using reinsert [of "he_cmd env" c ?c] assms(4,9) l by (simp add: env_ok_def cc_cancel_def)
  then have "id_count u ?c1 \<le> 1"
    using assms(11) unfolding id_count_def by (metis mset_filter size_mset)
  then have "id_count u (cc_remove (he_cmd_id env) ?key ?c1) = 0"
    using id_count_remove [OF assms(5), of ?key ?c1] by (simp add: u_def)
  then have gone: "\<forall>x \<in> set (cc_items (cc_remove (he_cmd_id env) ?key ?c1)). cmd_unique_id x \<noteq> u"
    by (simp add: id_count_0)
  have rm: "bind_act (remove_command env i (pt_get t ''service'' []) (pt_get t ''service_path'' [])) f st2
      = f 1 (st2\<lparr> h_commands := cc_remove (he_cmd_id env) ?key (h_commands st2) \<rparr>)" for f :: "int \<Rightarrow> ('s, unit) act" and st2
    by (rule bind_act_run [OF remove_command_file]) (rule assms(3))
  have "isCommandResp (i @ ''|'' @ result) = (200, i @ ''|'' @ result, i)"
    using id_of_response [OF assms(13,14), of result] assms(13) by (auto simp: isCommandResp_def Let_def)
  then show ?thesis
    using gone assms(13)
    by (simp add: ul_receive_def ul_response_def env_def [symmetric] get_command_run [OF get] cancel_command_def rm
        response_command_def send_plain(2) [OF assms(6,7,8,12)] Let_def)
qed


definition sample_ul :: "unit ul_service_env" where
  "sample_ul = \<lparr> us_env = sample_env ''file'' 200, us_time = sample_time_lib, us_apikey = (\<lambda>k. Inr (PTree [] [])),
     us_all_paths = (\<lambda>s. Inr []), us_update_endpoint = (\<lambda>d e s. s), us_mongo_endpoint = [] \<rparr>"


end
