(* ===== verification/Oauth.thy ===== *)
theory Oauth
  imports Command_Text Iot_Url Alarm
begin

text \<open>
  The dialogue with the identity manager and with the access control (\<^verbatim>\<open>src/util/oauth_comm.cc\<close>,
  \<^verbatim>\<open>src/util/access_control.cc\<close>).  Every operation sends at most one request, and the next one is sent
  when the response arrives: an operation returns its result, the object and the effects it had.  The
  readers and writers of JSON and XML are parameters, and so is the network of the synchronous mode.
\<close>

section \<open>Requests and responses\<close>

text \<open>A response has the value of a header, empty when it is absent.\<close>

record http_response =
  hp_status :: nat
  hp_content :: string
  hp_header :: "string \<Rightarrow> string"

record http_request =
  hq_host :: string
  hq_port :: int
  hq_method :: string
  hq_resource :: string
  hq_content :: string
  hq_query :: string
  hq_headers :: "(string \<times> string) list"

text \<open>\<open>HttpClient::getRemoteEndpoint\<close>; the port is unsigned.\<close>

definition getRemoteEndpoint :: "http_request \<Rightarrow> string" where
  "getRemoteEndpoint q =
     ''http://'' @ hq_host q @ '':'' @ show_int (hq_port q mod 2 ^ 32) @ hq_resource q @ '' '' @ hq_query q"

definition compound_server :: "IoTUrl \<Rightarrow> string" where
  "compound_server dest = url_host dest @ '':'' @ show_int (url_port dest)"

definition CONTENT_TYPE_JSON :: string where
  "CONTENT_TYPE_JSON = ''application/json''"

definition HTTP_HEADER_AUTH :: string where
  "HTTP_HEADER_AUTH = ''X-Auth-Token''"

definition HTTP_HEADER_TOKEN :: string where
  "HTTP_HEADER_TOKEN = ''X-Subject-Token''"

definition OAUTH_ON_BEHALF_TRUST :: string where
  "OAUTH_ON_BEHALF_TRUST = ''OS-TRUST:trust''"

definition ALARM_CODE_BAD_CONFIGURATION :: int where
  "ALARM_CODE_BAD_CONFIGURATION = 999"

definition RESPONSE_MESSAGE_BAD_CONFIG :: string where
  "RESPONSE_MESSAGE_BAD_CONFIG = ''The config file for iotagent is not correct''"

definition create_request :: "IoTUrl \<Rightarrow> string \<Rightarrow> string \<Rightarrow> string \<Rightarrow> (string \<times> string) list \<Rightarrow> http_request" where
  "create_request dest meth content query headers =
     \<lparr> hq_host = url_host dest, hq_port = url_port dest, hq_method = meth, hq_resource = url_path dest,
       hq_content = content, hq_query = query,
       hq_headers = (if content \<noteq> [] then [(''Content-Type'', CONTENT_TYPE_JSON)] else [])
         @ [(''Accept'', CONTENT_TYPE_JSON), (''Host'', compound_server dest)] @ headers \<rparr>"

section \<open>Trees\<close>

text \<open>\<open>get\<close> along a path of keys: at every level the first child with the key.\<close>

fun pt_descend :: "string list \<Rightarrow> ptree \<Rightarrow> ptree option" where
  "pt_descend [] t = Some t"
| "pt_descend (k # ks) t = (case map_of (pt_children t) k of None \<Rightarrow> None | Some c \<Rightarrow> pt_descend ks c)"

definition pt_path :: "ptree \<Rightarrow> string list \<Rightarrow> string \<Rightarrow> string" where
  "pt_path t ks dflt = (case pt_descend ks t of Some c \<Rightarrow> pt_data c | None \<Rightarrow> dflt)"

abbreviation leaf :: "string \<Rightarrow> ptree" where
  "leaf s \<equiv> PTree s []"

section \<open>The identity manager\<close>

record OAuth =
  oa_trust_token :: string
  oa_user_token :: string
  oa_domain :: string
  oa_project :: string
  oa_user_id :: string
  oa_subservice_id :: string
  oa_service_id :: string
  oa_user_roles :: ptree
  oa_subject_token :: string
  oa_validate :: string
  oa_roles :: string
  oa_projects :: string
  oa_trust :: string
  oa_auth :: ptree
  oa_sync :: bool
  oa_callback :: bool

definition new_OAuth :: OAuth where
  "new_OAuth = \<lparr> oa_trust_token = [], oa_user_token = [], oa_domain = [], oa_project = [], oa_user_id = [],
     oa_subservice_id = [], oa_service_id = [], oa_user_roles = leaf [], oa_subject_token = [], oa_validate = [],
     oa_roles = [], oa_projects = [], oa_trust = [], oa_auth = leaf [], oa_sync = False, oa_callback = False \<rparr>"

record oauth_env =
  oe_read_json :: "string \<Rightarrow> ptree option"
  oe_write_json :: "ptree \<Rightarrow> string result"
  oe_send :: "http_request \<Rightarrow> http_response option"

datatype oauth_handler = On_renew_token | On_get_user | On_get_subservice | On_user_roles

datatype oauth_effect =
    Alarm_event alarm_event
  | Send http_request oauth_handler
  | Call_back

type_synonym 'a oauth_result = "('a \<times> OAuth \<times> oauth_effect list) result"

text \<open>\<open>set_identity\<close>: the body of the request for a token.\<close>

definition set_identity :: "string \<Rightarrow> string \<Rightarrow> string \<Rightarrow> OAuth \<Rightarrow> OAuth" where
  "set_identity scope_type username password o1 =
     (let trust = (scope_type = OAUTH_ON_BEHALF_TRUST);
          domain = PTree [] [(''name'', leaf (if trust then ''Default'' else scope_type))];
          scope = PTree [] [if trust then (scope_type, PTree [] [(''id'', leaf (oa_trust_token o1))]) else (''domain'', domain)];
          user = PTree [] [(''domain'', domain), (''name'', leaf username), (''password'', leaf password)];
          identity = PTree [] [(''methods'', PTree [] [([], leaf ''password'')]), (''password'', PTree [] [(''user'', user)])]
      in o1\<lparr> oa_auth := PTree [] [(''auth'', PTree [] [(''identity'', identity), (''scope'', scope)])] \<rparr>)"

definition is_pep :: "OAuth \<Rightarrow> bool" where
  "is_pep o1 \<longleftrightarrow> pt_path (oa_auth o1) [''auth'', ''scope'', ''OS-TRUST:trust'', ''id''] [] = []"

definition get_ptree :: "oauth_env \<Rightarrow> string \<Rightarrow> ptree" where
  "get_ptree env data = (case oe_read_json env data of Some t \<Rightarrow> t | None \<Rightarrow> leaf [])"

definition finish :: "OAuth \<Rightarrow> oauth_effect list" where
  "finish o1 = (if oa_callback o1 then [Call_back] else [])"

text \<open>\<open>send_request\<close>: the query of the configured address is not used.\<close>

definition send_request ::
  "oauth_env \<Rightarrow> OAuth \<Rightarrow> string \<Rightarrow> string \<Rightarrow> string \<Rightarrow> string \<Rightarrow> (string \<times> string) list \<Rightarrow> oauth_handler
   \<Rightarrow> (OAuth \<Rightarrow> http_response option \<Rightarrow> string oauth_result) \<Rightarrow> string oauth_result" where
  "send_request env o1 endpoint meth content query headers h handler =
     bind_exn (new_IoTUrl endpoint) (\<lambda>dest.
       let request = create_request dest meth content query headers
       in if oa_sync o1 then handler o1 (oe_send env request) else Inr ([], o1, [Send request h]))"

definition receive_event_get_user_roles :: "oauth_env \<Rightarrow> OAuth \<Rightarrow> http_response option \<Rightarrow> string oauth_result" where
  "receive_event_get_user_roles env o1 response =
     (let str_response = (case response of Some r \<Rightarrow> hp_content r | None \<Rightarrow> []) in
      if is_pep o1 \<and> \<not> oa_sync o1 then
        let o2 = (if str_response \<noteq> [] then o1\<lparr> oa_user_roles := get_ptree env str_response \<rparr> else o1)
        in Inr (str_response, o2, finish o2)
      else Inr (str_response, o1, []))"

definition get_user_roles :: "oauth_env \<Rightarrow> string \<Rightarrow> OAuth \<Rightarrow> ptree oauth_result" where
  "get_user_roles env user_id o1 =
     (if \<not> is_pep o1 then Inr (leaf [], o1, [])
      else bind_exn (send_request env o1 (oa_roles o1) ''GET'' [] (''user.id='' @ user_id @ ''&effective'')
                       [(HTTP_HEADER_AUTH, oa_subject_token o1)] On_user_roles (receive_event_get_user_roles env))
             (\<lambda>(str_response, o2, eff).
                Inr (if str_response \<noteq> [] \<and> oa_sync o2 then get_ptree env str_response else leaf [], o2, eff)))"

text \<open>One project of the list: the identifier of the one that is asked for is kept, and the status is
  that of a failure as long as none was found.\<close>

record project_search =
  ps_subservice :: string
  ps_id :: string
  ps_found :: bool
  ps_status :: nat

definition project_step :: "string \<Rightarrow> ptree \<Rightarrow> project_search \<Rightarrow> project_search" where
  "project_step project v s =
     (if project = ''/'' then s
      else if pt_get v ''name'' [] = project then
        s\<lparr> ps_subservice := pt_get v ''id'' [], ps_id := pt_get v ''id'' [], ps_found := True, ps_status := 200 \<rparr>
      else if \<not> ps_found s then s\<lparr> ps_status := 400 \<rparr> else s)"

definition find_project :: "string \<Rightarrow> ptree \<Rightarrow> project_search \<Rightarrow> project_search" where
  "find_project project json_projects s =
     (case map_of (pt_children json_projects) ''projects'' of
        None \<Rightarrow> s
      | Some ps \<Rightarrow> fold (project_step project) (map snd (pt_children ps)) s)"

definition receive_event_get_subservice :: "oauth_env \<Rightarrow> OAuth \<Rightarrow> http_response option \<Rightarrow> string oauth_result" where
  "receive_event_get_subservice env o1 response =
     (let (str_response, status_code) = (case response of Some r \<Rightarrow> (hp_content r, hp_status r) | None \<Rightarrow> ([], 400));
          s0 = \<lparr> ps_subservice = [], ps_id = oa_subservice_id o1, ps_found = False, ps_status = status_code \<rparr>;
          s = (if str_response \<noteq> [] \<and> status_code = 200
               then find_project (oa_project o1) (get_ptree env str_response) s0 else s0);
          o2 = o1\<lparr> oa_subservice_id := ps_id s \<rparr>
      in if is_pep o2 \<and> \<not> oa_sync o2 then
           if ps_status s = 400 then Inr (ps_subservice s, o2, finish o2)
           else bind_exn (get_user_roles env (oa_user_id o2) o2) (\<lambda>(_, o3, eff). Inr (ps_subservice s, o3, eff))
         else Inr (ps_subservice s, o2, []))"

definition get_subservice :: "oauth_env \<Rightarrow> OAuth \<Rightarrow> string oauth_result" where
  "get_subservice env o1 =
     send_request env o1 (oa_projects o1) ''GET'' [] (''domain_id='' @ oa_service_id o1)
       [(HTTP_HEADER_AUTH, oa_subject_token o1)] On_get_subservice (receive_event_get_subservice env)"

definition receive_event_get_user :: "oauth_env \<Rightarrow> OAuth \<Rightarrow> http_response option \<Rightarrow> string oauth_result" where
  "receive_event_get_user env o1 response =
     (let str_response = (case response of Some r \<Rightarrow> hp_content r | None \<Rightarrow> []);
          ptree_user = get_ptree env str_response;
          user_id = pt_path ptree_user [''token'', ''user'', ''id''] [];
          domain = pt_path ptree_user [''token'', ''user'', ''domain'', ''name''] []
      in bind_exn
           (if pt_children ptree_user = [] then Inr o1
            else case response of
                   None \<Rightarrow> Inl (undefined_behaviour ''response->get_status_code()'')
                 | Some r \<Rightarrow>
                     Inr (if hp_status r = 200 \<and> user_id \<noteq> [] \<and> domain \<noteq> [] \<and> domain = oa_domain o1
                          then o1\<lparr> oa_user_id := user_id,
                                   oa_service_id := pt_path ptree_user [''token'', ''user'', ''domain'', ''id''] [] \<rparr>
                          else o1))
           (\<lambda>o2. if is_pep o2 \<and> \<not> oa_sync o2 then
                    if oa_user_id o2 = [] then Inr (str_response, o2, finish o2)
                    else bind_exn (get_subservice env o2) (\<lambda>(_, o3, eff). Inr (str_response, o3, eff))
                  else Inr (str_response, o2, [])))"

definition get_user :: "oauth_env \<Rightarrow> string \<Rightarrow> string \<Rightarrow> OAuth \<Rightarrow> string oauth_result" where
  "get_user env token token_pep o1 =
     send_request env (o1\<lparr> oa_user_id := [] \<rparr>) (oa_validate o1) ''GET'' [] []
       [(HTTP_HEADER_AUTH, token_pep), (HTTP_HEADER_TOKEN, token)] On_get_user (receive_event_get_user env)"

definition receive_event_renew_token :: "oauth_env \<Rightarrow> string \<Rightarrow> OAuth \<Rightarrow> http_response option \<Rightarrow> unit oauth_result" where
  "receive_event_renew_token env remote o1 response =
     (let token = (case response of
                     Some r \<Rightarrow> if hp_status r = 200 \<or> hp_status r = 202 \<or> hp_status r = 201
                               then hp_header r HTTP_HEADER_TOKEN else []
                   | None \<Rightarrow> []);
          o2 = o1\<lparr> oa_subject_token := token \<rparr>;
          eff = (if is_pep o2 \<and> token = []
                 then [Alarm_event (Raise ALARM_CODE_BAD_CONFIGURATION remote RESPONSE_MESSAGE_BAD_CONFIG ''No token as PEP user'')]
                 else [])
      in if is_pep o2 \<and> \<not> oa_sync o2 then
           if token = [] then Inr ((), o2, eff @ finish o2)
           else bind_exn (get_user env (oa_user_token o2) token o2) (\<lambda>(_, o3, eff'). Inr ((), o3, eff @ eff'))
         else Inr ((), o2, eff))"

definition renew_token :: "oauth_env \<Rightarrow> string \<Rightarrow> OAuth \<Rightarrow> unit oauth_result" where
  "renew_token env scope o1 =
     (let o2 = o1\<lparr> oa_subject_token := [] \<rparr> in
      bind_exn (new_IoTUrl scope) (\<lambda>dest.
      bind_exn (oe_write_json env (oa_auth o2)) (\<lambda>c.
      let request = create_request dest ''POST'' c (url_query dest) []
      in if oa_sync o2 then receive_event_renew_token env (getRemoteEndpoint request) o2 (oe_send env request)
         else Inr ((), o2, [Send request On_renew_token]))))"

definition get_token :: "oauth_env \<Rightarrow> nat \<Rightarrow> OAuth \<Rightarrow> string oauth_result" where
  "get_token env status_code o1 =
     (let renew = (\<lambda>scope. bind_exn (renew_token env scope o1) (\<lambda>(_, o2, eff). Inr (oa_subject_token o2, o2, eff))) in
      if \<not> is_pep o1 then
        if status_code = 401 \<or> oa_subject_token o1 = [] then renew (oa_trust o1) else Inr (oa_subject_token o1, o1, [])
      else renew (oa_validate o1))"

definition validate_user_token :: "oauth_env \<Rightarrow> string \<Rightarrow> OAuth \<Rightarrow> ptree oauth_result" where
  "validate_user_token env token o1 =
     (let o2 = o1\<lparr> oa_callback := True \<rparr> in
      if token = [] \<or> \<not> is_pep o2 then Inr (leaf [], o2, [])
      else if oa_sync o2 then
        bind_exn (get_token env 200 o2) (\<lambda>(pep_token, o3, eff).
        bind_exn (get_user env token pep_token o3) (\<lambda>(str_response, o4, eff').
        Inr (get_ptree env str_response, o4, eff @ eff')))
      else
        bind_exn (get_token env 200 (o2\<lparr> oa_user_token := token \<rparr>)) (\<lambda>(_, o3, eff). Inr (leaf [], o3, eff)))"

text \<open>The response to a pending request.\<close>

definition oauth_receive :: "oauth_env \<Rightarrow> http_request \<Rightarrow> oauth_handler \<Rightarrow> OAuth \<Rightarrow> http_response option \<Rightarrow> (OAuth \<times> oauth_effect list) result" where
  "oauth_receive env request h o1 response =
     (case h of
        On_renew_token \<Rightarrow> bind_exn (receive_event_renew_token env (getRemoteEndpoint request) o1 response) (\<lambda>(_, r). Inr r)
      | On_get_user \<Rightarrow> bind_exn (receive_event_get_user env o1 response) (\<lambda>(_, r). Inr r)
      | On_get_subservice \<Rightarrow> bind_exn (receive_event_get_subservice env o1 response) (\<lambda>(_, r). Inr r)
      | On_user_roles \<Rightarrow> bind_exn (receive_event_get_user_roles env o1 response) (\<lambda>(_, r). Inr r))"

section \<open>Access control\<close>

definition xml_node :: "(string \<times> string) list \<Rightarrow> string \<Rightarrow> (string \<times> ptree) list \<Rightarrow> ptree" where
  "xml_node attrs data children =
     PTree data ((''<xmlattr>'', PTree [] (map (\<lambda>(k, v). (k, leaf v)) attrs)) # children)"

text \<open>One attribute of the request: resource, action or role.\<close>

definition xacml_attribute :: "string \<Rightarrow> string \<Rightarrow> string \<times> ptree" where
  "xacml_attribute i val =
     (''Attribute'', xml_node [(''IncludeInResult'', ''false''), (''AttributeId'', i)] []
        [(''AttributeValue'', xml_node [(''DataType'', ''http://www.w3.org/2001/XMLSchema#string'')] val [])])"

definition xacml_category :: "string \<Rightarrow> (string \<times> ptree) list \<Rightarrow> string \<times> ptree" where
  "xacml_category c attrs = (''Attributes'', xml_node [(''Category'', c)] [] attrs)"

definition xml_access_control :: "string list \<Rightarrow> string \<Rightarrow> string \<Rightarrow> ptree" where
  "xml_access_control roles resource_id action =
     PTree [] [(''Request'', xml_node
       [(''xmlns'', ''urn:oasis:names:tc:xacml:3.0:core:schema:wd-17''),
        (''xmlns:xsi'', ''http://www.w3.org/2001/XMLSchema-instance''),
        (''xsi:schemaLocation'', ''urn:oasis:names:tc:xacml:3.0:core:schema:wd-17 http://docs.oasis-open.org/xacml/3.0/xacml-core-v3-schema-wd-17.xsd''),
        (''ReturnPolicyIdList'', ''false''), (''CombinedDecision'', ''false'')] []
       [xacml_category ''urn:oasis:names:tc:xacml:3.0:attribute-category:resource''
          [xacml_attribute ''urn:oasis:names:tc:xacml:1.0:resource:resource-id'' resource_id],
        xacml_category ''urn:oasis:names:tc:xacml:3.0:attribute-category:action''
          [xacml_attribute ''urn:oasis:names:tc:xacml:1.0:action:action-id'' action],
        xacml_category ''urn:oasis:names:tc:xacml:1.0:subject-category:access-subject''
          (map (xacml_attribute ''urn:oasis:names:tc:xacml:1.0:subject:subject-id'') roles)])]"

definition ac_create_request :: "IoTUrl \<Rightarrow> string \<Rightarrow> (string \<times> string) list \<Rightarrow> http_request" where
  "ac_create_request dest content headers =
     \<lparr> hq_host = url_host dest, hq_port = url_port dest, hq_method = ''POST'', hq_resource = url_path dest,
       hq_content = content, hq_query = url_query dest,
       hq_headers = [(''Content-Type'', ''text/xml''), (''Host'', compound_server dest)] @ headers \<rparr>"

definition ac_authorize ::
  "(ptree \<Rightarrow> string) \<Rightarrow> string \<Rightarrow> string list \<Rightarrow> string \<Rightarrow> string \<Rightarrow> (string \<times> string) list \<Rightarrow> http_request result" where
  "ac_authorize write_xml endpoint_ac roles resource_id action headers =
     bind_exn (new_IoTUrl endpoint_ac) (\<lambda>dest.
       Inr (ac_create_request dest (write_xml (xml_access_control roles resource_id action)) headers))"

text \<open>The access control permits when its answer contains the word.\<close>

definition ac_receive_event :: "http_response option \<Rightarrow> bool" where
  "ac_receive_event response =
     (case response of Some r \<Rightarrow> hp_status r = 200 \<and> find_sub ''Permit'' (hp_content r) \<noteq> None | None \<Rightarrow> False)"

end
