(* ===== verification/Rest_Route.thy ===== *)
theory Rest_Route
  imports Func_Util
begin

text \<open>
  Routes (\<^verbatim>\<open>src/rest/rest_functions.cc\<close>, and the search for a handler in \<^verbatim>\<open>src/rest/rest_handle.cc\<close>):
  the template of a URL becomes a regular expression with a group for every placeholder, and a request
  goes to the first route whose expression matches.  The matching of regular expressions is a
  parameter: the groups of a match of the whole text, or an exception for a malformed expression.
\<close>

section \<open>The code\<close>

type_synonym regex_lib = "string \<Rightarrow> string \<Rightarrow> string list option result"

fun bind_groups :: "string list \<Rightarrow> nat \<Rightarrow> string list \<Rightarrow> (string, string) std_map \<Rightarrow> (string, string) std_map result" where
  "bind_groups url_placeholders i [] resources = Inr resources"
| "bind_groups url_placeholders i (g # gs) resources =
     (if url_placeholders = [] then bind_groups url_placeholders (i + 1) gs resources
      else bind_exn (vec_at url_placeholders i) (\<lambda>n.
        bind_groups url_placeholders (i + 1) gs (map_insert n (url_decode g) resources)))"

definition restResourceParse ::
  "regex_lib \<Rightarrow> string \<Rightarrow> string list \<Rightarrow> string \<Rightarrow> (string, string) std_map \<Rightarrow> (bool \<times> (string, string) std_map) result" where
  "restResourceParse rx regex url_placeholders url_resource resources =
     bind_exn (rx regex url_resource) (\<lambda>m.
       case m of
         None \<Rightarrow> Inr (False, resources)
       | Some gs \<Rightarrow> bind_exn (bind_groups url_placeholders 0 gs resources) (\<lambda>r. Inr (True, r)))"

text \<open>The search for \<open><([a-zA-Z0-9_-]+)>\<close>: what stands before the first placeholder, its name and
  what follows.\<close>

definition name_char :: "char \<Rightarrow> bool" where
  "name_char c \<longleftrightarrow> is_alnum c \<or> c = CHR ''_'' \<or> c = CHR ''-''"

definition placeholder_at :: "string \<Rightarrow> (string \<times> string) option" where
  "placeholder_at s =
     (let n = takeWhile name_char (tl s); r = dropWhile name_char (tl s) in
      if s \<noteq> [] \<and> hd s = CHR ''<'' \<and> n \<noteq> [] \<and> r \<noteq> [] \<and> hd r = CHR ''>'' then Some (n, tl r) else None)"

fun find_placeholder :: "string \<Rightarrow> (string \<times> string \<times> string) option" where
  "find_placeholder [] = None"
| "find_placeholder (c # s) =
     (case placeholder_at (c # s) of
        Some (n, r) \<Rightarrow> Some ([], n, r)
      | None \<Rightarrow> map_option (\<lambda>(p, n, r). (c # p, n, r)) (find_placeholder s))"

lemma length_dropWhile_tl: "length (tl (dropWhile P (tl s))) \<le> length s"
  using length_dropWhile_le [of P "tl s"] by (cases s) auto

lemma find_placeholder_shorter: "find_placeholder s = Some (p, n, r) \<Longrightarrow> length r < length s"
proof (induction s arbitrary: p)
  case (Cons c s)
  show ?case
  proof (cases "placeholder_at (c # s)")
    case None
    then show ?thesis using Cons by auto
  next
    case (Some x)
    then have "r = tl (dropWhile name_char s)" "dropWhile name_char s \<noteq> []"
      using Cons.prems by (auto simp: placeholder_at_def Let_def split: if_splits)
    then show ?thesis
      using length_dropWhile_le [of name_char s] by (cases "dropWhile name_char s") auto
  qed
qed simp

text \<open>The loop of \<open>format_pattern\<close>.  The map of seen texts never holds a valid position, as the test
  \<open>tmp_placeholders[..]\<close> creates the entry that \<open>insert\<close> then leaves alone: all tests succeed.\<close>

function format_loop :: "string \<Rightarrow> string \<Rightarrow> string list \<Rightarrow> string \<Rightarrow> string \<times> string list" where
  "format_loop url url_regex url_args tmp_suffix =
     (case find_placeholder url of
        None \<Rightarrow> (url_regex @ tmp_suffix, url_args)
      | Some (p, n, r) \<Rightarrow> format_loop r (url_regex @ p @ ''([^/]+)'') (url_args @ [n]) r)"
  by pat_completeness auto
termination
  by (relation "measure (\<lambda>(url, _). length url)") (auto dest: find_placeholder_shorter)

declare format_loop.simps [simp del]

definition format_pattern :: "string \<Rightarrow> string \<Rightarrow> string \<times> string list" where
  "format_pattern url meth =
     (let (url_regex, url_args) = format_loop url [] [] [] in
      ((if meth = [] then ''.+'' else meth) @ ''[[:space:]]+'' @ (if url_regex = [] then url else url_regex), url_args))"

text \<open>The handlers of a service in the order of their keys.\<close>

record 'h resource_handler =
  url_regex :: string
  url_placeholders :: "string list"
  rest_function :: 'h

fun find_handler ::
  "regex_lib \<Rightarrow> string \<Rightarrow> (string \<times> 'h resource_handler) list \<Rightarrow> (string, string) std_map \<Rightarrow> ('h \<times> (string, string) std_map) option result" where
  "find_handler rx operation [] url_args = Inr None"
| "find_handler rx operation ((k, h) # hs) url_args =
     bind_exn (restResourceParse rx (url_regex h) (url_placeholders h) operation url_args) (\<lambda>(found, args).
       if found then Inr (Some (rest_function h, args)) else find_handler rx operation hs args)"

definition remove_url_base :: "string \<Rightarrow> string \<Rightarrow> string" where
  "remove_url_base base url = (if take (length base) url = base then drop (length base) url else url)"

text \<open>\<open>add_url\<close>: a second handler for the same URL is not added.\<close>

definition add_url ::
  "string \<Rightarrow> string \<Rightarrow> string \<Rightarrow> string \<Rightarrow> 'h \<Rightarrow> (string, 'h resource_handler) std_map \<Rightarrow> string \<times> (string, 'h resource_handler) std_map" where
  "add_url base res url meth h handlers =
     (let url_trimmed = remove_url_base base url;
          full = res @ (if url_trimmed \<noteq> [] \<and> hd url_trimmed \<noteq> CHR ''/'' then ''/'' else []) @ url_trimmed;
          (re, args) = format_pattern full meth
      in (full, map_insert url \<lparr> url_regex = re, url_placeholders = args, rest_function = h \<rparr> handlers))"

section \<open>Templates\<close>

text \<open>A template is a list of literal texts, each but the last followed by a placeholder.\<close>

fun template_text :: "(string \<times> string) list \<Rightarrow> string \<Rightarrow> string" where
  "template_text [] lst = lst"
| "template_text ((p, n) # ts) lst = p @ ''<'' @ n @ ''>'' @ template_text ts lst"

fun template_regex :: "(string \<times> string) list \<Rightarrow> string \<Rightarrow> string" where
  "template_regex [] lst = lst"
| "template_regex ((p, n) # ts) lst = p @ ''([^/]+)'' @ template_regex ts lst"

definition template_ok :: "(string \<times> string) list \<Rightarrow> string \<Rightarrow> bool" where
  "template_ok ts lst \<longleftrightarrow> list_all (\<lambda>(p, n). CHR ''<'' \<notin> set p \<and> n \<noteq> [] \<and> list_all name_char n) ts \<and> CHR ''<'' \<notin> set lst"

lemma no_placeholder: "CHR ''<'' \<notin> set s \<Longrightarrow> find_placeholder s = None"
  by (induction s) (auto simp: placeholder_at_def)

lemma name_char_gt: "\<not> name_char CHR ''>''"
  by code_simp

lemma find_placeholder_template:
  assumes "CHR ''<'' \<notin> set p" "n \<noteq> []" "list_all name_char n"
  shows "find_placeholder (p @ ''<'' @ n @ ''>'' @ r) = Some (p, n, r)"
  using assms(1)
proof (induction p)
  case Nil
  have "takeWhile name_char (n @ CHR ''>'' # r) = n" "dropWhile name_char (n @ CHR ''>'' # r) = CHR ''>'' # r"
    using assms(3) name_char_gt by (auto simp: list_all_iff)
  then show ?case using assms(2) by (simp add: placeholder_at_def)
next
  case (Cons c p)
  then have "placeholder_at ((c # p) @ ''<'' @ n @ ''>'' @ r) = None" by (auto simp: placeholder_at_def Let_def)
  then show ?case using Cons by simp
qed

lemma format_loop_template:
  "template_ok ts lst \<Longrightarrow> sfx = template_text ts lst \<or> ts \<noteq> [] \<Longrightarrow>
   format_loop (template_text ts lst) re args sfx = (re @ template_regex ts lst, args @ map snd ts)"
proof (induction ts arbitrary: re args sfx)
  case Nil
  then show ?case by (simp add: format_loop.simps template_ok_def no_placeholder)
next
  case (Cons t ts)
  obtain p n where t: "t = (p, n)" by (cases t)
  have "find_placeholder (template_text (t # ts) lst) = Some (p, n, template_text ts lst)"
    using Cons.prems(1) find_placeholder_template [of p n "template_text ts lst"] by (simp add: t template_ok_def)
  moreover have "template_ok ts lst" using Cons.prems(1) by (simp add: template_ok_def)
  ultimately show ?case
    using Cons.IH [of "template_text ts lst" "re @ p @ ''([^/]+)''" "args @ [n]"]
    by (subst format_loop.simps) (simp add: t)
qed

text \<open>The route of a URL template.  Every placeholder becomes a group for one path segment and is
  listed in order; the rest of the template stands in the expression as it is, behind the method and
  white space (any text for a route without method).\<close>

theorem route_of_template:
  assumes "template_ok ts lst"
  shows "format_pattern (template_text ts lst) meth
     = ((if meth = [] then ''.+'' else meth) @ ''[[:space:]]+'' @ template_regex ts lst, map snd ts)"
proof (cases ts)
  case Nil
  then show ?thesis
    using assms by (simp add: format_pattern_def format_loop.simps template_ok_def no_placeholder)
next
  case (Cons t ts')
  have "template_regex ts lst \<noteq> []" by (cases t) (simp add: Cons)
  then show ?thesis
    using format_loop_template [OF assms, of "[]" "[]" "[]"] Cons by (simp add: format_pattern_def)
qed

theorem route_of_template_witness:
  "format_pattern ''/iot/devices/<device>/x/<id>'' ''GET''
     = (''GET[[:space:]]+/iot/devices/([^/]+)/x/([^/]+)'', [''device'', ''id''])"
  using route_of_template [of "[(''/iot/devices/'', ''device''), (''/x/'', ''id'')]" "[]" "''GET''"]
  by (simp add: template_ok_def name_char_def is_alnum_def is_alpha_def is_digit_def is_lower_def is_upper_def)

end
