(* ===== verification/Rest_Filter.thy ===== *)
theory Rest_Filter
  imports Oauth Rest_Route
begin

text \<open>
  The filters in front of a service (\<^verbatim>\<open>src/rest/media_filter.cc\<close>, \<^verbatim>\<open>src/rest/oauth_filter.cc\<close>): one
  checks headers and characters at once, the other asks identity manager and access control and
  decides when the last answer has come.
\<close>

section \<open>Incoming requests\<close>

text \<open>\<open>in_header\<close> is the value of a header when the request has it.\<close>

record request =
  in_method :: string
  in_resource :: string
  in_original_resource :: string
  in_query_string :: string
  in_content :: string
  in_header :: "string \<Rightarrow> string option"

definition get_header :: "request \<Rightarrow> string \<Rightarrow> string" where
  "get_header q n = (case in_header q n of Some v \<Rightarrow> v | None \<Rightarrow> [])"

definition ADMIN_SERVICE_ABOUT :: string where
  "ADMIN_SERVICE_ABOUT = ''/about''"

definition ADMIN_SERVICE_PROTOCOLS :: string where
  "ADMIN_SERVICE_PROTOCOLS = ''/protocols''"

text \<open>The two addresses that need neither service nor authorisation.\<close>

definition open_resource :: "string \<Rightarrow> request \<Rightarrow> bool" where
  "open_resource url_base q \<longleftrightarrow>
     in_resource q = url_base @ ADMIN_SERVICE_ABOUT \<or> in_resource q = url_base @ ADMIN_SERVICE_PROTOCOLS"

section \<open>The media filter\<close>

definition IOT_CONTENT_SUBTYPE_JSON :: string where
  "IOT_CONTENT_SUBTYPE_JSON = ''/json''"

definition media_filter :: "string \<Rightarrow> request \<Rightarrow> nat" where
  "media_filter url_base q =
     (let serv = get_header q ''Fiware-Service''; path = get_header q ''Fiware-ServicePath'' in
      if \<not> open_resource url_base q \<and> \<not> check_fiware_service_name serv then 1000
      else if \<not> open_resource url_base q \<and> \<not> check_fiware_service_path_name path then 1001
      else
        let forbidden = check_forbidden_characters IOTA_FORBIDDEN_CHARACTERS serv
              \<or> check_forbidden_characters IOTA_FORBIDDEN_CHARACTERS path
              \<or> check_forbidden_characters IOTA_FORBIDDEN_CHARACTERS (in_resource q);
            resu = (if forbidden then 1002
                    else case in_header q ''Accept'' of
                           None \<Rightarrow> 200
                         | Some rec_accept \<Rightarrow>
                             if find_sub IOT_CONTENT_SUBTYPE_JSON rec_accept = None \<and> find_sub ''/*'' rec_accept = None
                             then 406 else 200)
        in if resu = 200 \<and> in_content q \<noteq> [] then
             case in_header q ''Content-Type'' of
               None \<Rightarrow> resu
             | Some rec_content_type \<Rightarrow> if find_sub IOT_CONTENT_SUBTYPE_JSON rec_content_type = None then 415 else resu
           else resu)"

section \<open>The authorisation filter\<close>

record oauth_conf =
  cf_validate :: string
  cf_roles :: string
  cf_projects :: string
  cf_ac :: string
  cf_user :: string
  cf_password :: string
  cf_domain :: string
  cf_pep_rules :: "(string \<times> string) list"
  cf_filter_url :: string

definition actions :: "string \<Rightarrow> string" where
  "actions verb =
     (if verb = ''GET'' then ''read'' else if verb = ''POST'' then ''create'' else if verb = ''PUT'' then ''update''
      else if verb = ''DELETE'' then ''delete'' else [])"

text \<open>The rules the constructor adds, in the order of their actions.\<close>

definition uri_actions :: "(string \<times> string) list" where
  "uri_actions =
     [(''create'', ''POST[[:space:]]+/ngsi/([^/]+)/updateContext''), (''read'', ''POST[[:space:]]+/ngsi/([^/]+)/queryContext'')]"

text \<open>Insertion into a \<open>multimap\<close>: behind the entries with the same key.\<close>

definition multimap_insert :: "'k::linorder \<Rightarrow> 'v \<Rightarrow> ('k \<times> 'v) list \<Rightarrow> ('k \<times> 'v) list" where
  "multimap_insert k v m = takeWhile (\<lambda>e. fst e \<le> k) m @ (k, v) # dropWhile (\<lambda>e. fst e \<le> k) m"

text \<open>\<open>set_pep_rules\<close>: action, verb and address of every rule.\<close>

definition set_pep_rules :: "(string \<times> string \<times> string) list \<Rightarrow> oauth_conf \<Rightarrow> oauth_conf" where
  "set_pep_rules pep_rules conf =
     conf\<lparr> cf_pep_rules := fold (\<lambda>(action, verb, uri). multimap_insert action (fst (format_pattern uri verb)))
       pep_rules (cf_pep_rules conf) \<rparr>"

definition get_relative_resource :: "oauth_conf \<Rightarrow> string \<Rightarrow> string" where
  "get_relative_resource conf resource =
     (if take (length (cf_filter_url conf)) resource = cf_filter_url conf
      then drop (length (cf_filter_url conf)) resource else resource)"

definition get_resource :: "string \<Rightarrow> string \<Rightarrow> string \<Rightarrow> string" where
  "get_resource serv subservice path = ''fiware:iotagent:'' @ serv @ '':'' @ subservice @ '':'' @ path"

text \<open>The first rule that matches and has an action.\<close>

fun rule_action :: "regex_lib \<Rightarrow> (string \<times> string) list \<Rightarrow> string \<Rightarrow> string result" where
  "rule_action rx [] uri_regex = Inr []"
| "rule_action rx ((action, re) # rules) uri_regex =
     bind_exn (restResourceParse rx re [] uri_regex []) (\<lambda>(res, _).
       if res \<and> action \<noteq> [] then Inr action else rule_action rx rules uri_regex)"

definition get_action :: "regex_lib \<Rightarrow> oauth_conf \<Rightarrow> string \<Rightarrow> string \<Rightarrow> string result" where
  "get_action rx conf verb uri =
     (let uri_regex = verb @ '' '' @ uri in
      bind_exn (rule_action rx (cf_pep_rules conf) uri_regex) (\<lambda>a1.
      bind_exn (if a1 = [] then rule_action rx uri_actions uri_regex else Inr a1) (\<lambda>a2.
      Inr (if a2 = [] then actions verb else a2))))"

text \<open>The roles of the user for the project, or for the whole service when the project is \<open>/\<close>.\<close>

definition role_for :: "OAuth \<Rightarrow> ptree \<Rightarrow> bool" where
  "role_for o1 v \<longleftrightarrow>
     (if oa_project o1 = ''/'' then pt_path v [''scope'', ''domain'', ''id''] [] = oa_service_id o1
      else pt_path v [''scope'', ''project'', ''id''] [] = oa_subservice_id o1)"

definition user_subservice_roles :: "OAuth \<Rightarrow> string list" where
  "user_subservice_roles o1 =
     (case map_of (pt_children (oa_user_roles o1)) ''role_assignments'' of
        None \<Rightarrow> []
      | Some ra \<Rightarrow> map (\<lambda>v. pt_path v [''role'', ''id''] []) (filter (role_for o1) (map snd (pt_children ra))))"

record filter_env =
  fe_oauth :: oauth_env
  fe_regex :: regex_lib
  fe_write_xml :: "ptree \<Rightarrow> string"
  fe_url_base :: string

text \<open>Where the filter is with a request: it waits for an answer, has given its status, or has dropped
  the request without one.\<close>

datatype filter_phase =
    Ask http_request oauth_handler OAuth
  | Ask_ac http_request
  | Answered nat
  | Lost

definition authorize :: "filter_env \<Rightarrow> oauth_conf \<Rightarrow> request \<Rightarrow> OAuth \<Rightarrow> filter_phase result" where
  "authorize env conf q o1 =
     (let resource_id = get_resource (oa_domain o1) (oa_project o1) (get_relative_resource conf (in_resource q)) in
      bind_exn (get_action (fe_regex env) conf (in_method q) (get_relative_resource conf (in_resource q))) (\<lambda>action.
      if oa_user_id o1 = [] \<or> pt_children (oa_user_roles o1) = [] \<or> resource_id = [] \<or> action = [] \<or> cf_ac conf = []
      then Inr (Answered 401)
      else bind_exn (ac_authorize (fe_write_xml env) (cf_ac conf) (user_subservice_roles o1) resource_id action
             [(''X-Trace-Message'', get_header q ''X-Trace-Message''), (''Fiware-Service'', get_header q ''Fiware-Service''),
              (''Fiware-ServicePath'', get_header q ''Fiware-ServicePath''), (HTTP_HEADER_AUTH, get_header q HTTP_HEADER_AUTH)])
           (\<lambda>r. Inr (Ask_ac r))))"

text \<open>What the effects of an operation of the dialogue lead to.\<close>

fun filter_next :: "filter_env \<Rightarrow> oauth_conf \<Rightarrow> request \<Rightarrow> OAuth \<Rightarrow> oauth_effect list \<Rightarrow> filter_phase result" where
  "filter_next env conf q o1 [] = Inr Lost"
| "filter_next env conf q o1 (Alarm_event a # es) = filter_next env conf q o1 es"
| "filter_next env conf q o1 (Send r h # es) = Inr (Ask r h o1)"
| "filter_next env conf q o1 (Call_back # es) = authorize env conf q o1"

definition filter_oauth :: "oauth_conf \<Rightarrow> string \<Rightarrow> string \<Rightarrow> OAuth" where
  "filter_oauth conf fiware_service fiware_servicepath =
     (set_identity (cf_domain conf) (cf_user conf) (cf_password conf)
        (new_OAuth\<lparr> oa_validate := cf_validate conf, oa_roles := cf_roles conf, oa_projects := cf_projects conf \<rparr>))
       \<lparr> oa_domain := fiware_service, oa_project := fiware_servicepath \<rparr>"

definition oauth_handle_request :: "filter_env \<Rightarrow> oauth_conf \<Rightarrow> request \<Rightarrow> filter_phase result" where
  "oauth_handle_request env conf q =
     (if open_resource (fe_url_base env) q then Inr (Answered 200)
      else
        let fiware_service = get_header q ''Fiware-Service'';
            path = get_header q ''Fiware-ServicePath'';
            fiware_servicepath = (if path = [] then ''/'' else path);
            x_auth_token = get_header q HTTP_HEADER_AUTH
        in if fiware_service = [] \<or> fiware_servicepath = [] \<or> x_auth_token = [] \<or> cf_validate conf = []
             \<or> cf_roles conf = [] \<or> cf_projects conf = [] \<or> cf_user conf = [] \<or> cf_password conf = []
             \<or> cf_domain conf = [] \<or> cf_ac conf = []
           then Inr (Answered 401)
           else bind_exn (validate_user_token (fe_oauth env) x_auth_token (filter_oauth conf fiware_service fiware_servicepath))
                  (\<lambda>(_, o1, eff). filter_next env conf q o1 eff))"

text \<open>The next answer from the network, or none after a failure.\<close>

definition filter_receive :: "filter_env \<Rightarrow> oauth_conf \<Rightarrow> request \<Rightarrow> filter_phase \<Rightarrow> http_response option \<Rightarrow> filter_phase result" where
  "filter_receive env conf q ph response =
     (case ph of
        Ask r h o1 \<Rightarrow> bind_exn (oauth_receive (fe_oauth env) r h o1 response) (\<lambda>(o2, eff). filter_next env conf q o2 eff)
      | Ask_ac r \<Rightarrow> Inr (Answered (if ac_receive_event response then 200 else 403))
      | _ \<Rightarrow> Inr ph)"

fun filter_run :: "filter_env \<Rightarrow> oauth_conf \<Rightarrow> request \<Rightarrow> filter_phase \<Rightarrow> http_response option list \<Rightarrow> filter_phase result" where
  "filter_run env conf q ph [] = Inr ph"
| "filter_run env conf q ph (r # rs) = bind_exn (filter_receive env conf q ph r) (\<lambda>ph'. filter_run env conf q ph' rs)"

definition oauth_filter :: "filter_env \<Rightarrow> oauth_conf \<Rightarrow> request \<Rightarrow> http_response option list \<Rightarrow> filter_phase result" where
  "oauth_filter env conf q responses =
     bind_exn (oauth_handle_request env conf q) (\<lambda>ph. filter_run env conf q ph responses)"

end
