(* ===== verification/Rest_Admission.thy ===== *)
theory Rest_Admission
  imports Rest_Filter
begin

text \<open>
  What the authorisation filter guarantees: the dialogue as equations, one per answer; every request is
  decided after at most five answers, and a request is let in only after the answers that justify it.
\<close>

section \<open>The dialogue step by step\<close>

definition live :: "OAuth \<Rightarrow> bool" where
  "live o1 \<longleftrightarrow> is_pep o1 \<and> \<not> oa_sync o1 \<and> oa_callback o1"

lemma live_update [simp]:
  "live (o1\<lparr> oa_subject_token := a \<rparr>) = live o1" "live (o1\<lparr> oa_user_id := a \<rparr>) = live o1"
  "live (o1\<lparr> oa_service_id := a \<rparr>) = live o1" "live (o1\<lparr> oa_subservice_id := a \<rparr>) = live o1"
  "live (o1\<lparr> oa_user_roles := t \<rparr>) = live o1"
  by (simp_all add: live_def is_pep_def)

lemma is_pep_update [simp]:
  "is_pep (o1\<lparr> oa_subject_token := a \<rparr>) = is_pep o1" "is_pep (o1\<lparr> oa_user_id := a \<rparr>) = is_pep o1"
  "is_pep (o1\<lparr> oa_service_id := a \<rparr>) = is_pep o1" "is_pep (o1\<lparr> oa_subservice_id := a \<rparr>) = is_pep o1"
  "is_pep (o1\<lparr> oa_user_roles := t \<rparr>) = is_pep o1" "is_pep (o1\<lparr> oa_callback := b \<rparr>) = is_pep o1"
  "is_pep (o1\<lparr> oa_user_token := a \<rparr>) = is_pep o1"
  by (simp_all add: is_pep_def)

text \<open>A request to an address that parses.\<close>

definition ask :: "string \<Rightarrow> (IoTUrl \<Rightarrow> http_request) \<Rightarrow> oauth_handler \<Rightarrow> OAuth \<Rightarrow> filter_phase result" where
  "ask endp mk h o1 = bind_exn (new_IoTUrl endp) (\<lambda>dest. Inr (Ask (mk dest) h o1))"

definition pep_token :: "http_response option \<Rightarrow> string" where
  "pep_token response =
     (case response of
        Some r \<Rightarrow> if hp_status r = 200 \<or> hp_status r = 202 \<or> hp_status r = 201 then hp_header r HTTP_HEADER_TOKEN else []
      | None \<Rightarrow> [])"

lemma receive_renew_token:
  assumes "live o1"
  shows "filter_receive env conf q (Ask r On_renew_token o1) response =
     (let o2 = o1\<lparr> oa_subject_token := pep_token response \<rparr> in
      if pep_token response = [] then authorize env conf q o2
      else ask (oa_validate o1) (\<lambda>dest. create_request dest ''GET'' [] []
             [(HTTP_HEADER_AUTH, pep_token response), (HTTP_HEADER_TOKEN, oa_user_token o1)]) On_get_user (o2\<lparr> oa_user_id := [] \<rparr>))"
proof -
  have l: "is_pep o1" "\<not> oa_sync o1" "oa_callback o1" using assms by (simp_all add: live_def)
  show ?thesis
    by (cases "new_IoTUrl (oa_validate o1)")
      (simp_all add: filter_receive_def oauth_receive_def receive_event_renew_token_def pep_token_def [symmetric] Let_def l
        finish_def get_user_def send_request_def ask_def)
qed

text \<open>The user a positive answer names.\<close>

definition named_user :: "oauth_env \<Rightarrow> OAuth \<Rightarrow> http_response \<Rightarrow> OAuth" where
  "named_user env o1 r =
     (let t = get_ptree env (hp_content r);
          user_id = pt_path t [''token'', ''user'', ''id''] [];
          domain = pt_path t [''token'', ''user'', ''domain'', ''name''] []
      in if pt_children t \<noteq> [] \<and> hp_status r = 200 \<and> user_id \<noteq> [] \<and> domain \<noteq> [] \<and> domain = oa_domain o1
         then o1\<lparr> oa_user_id := user_id, oa_service_id := pt_path t [''token'', ''user'', ''domain'', ''id''] [] \<rparr> else o1)"

definition no_json :: "oauth_env \<Rightarrow> bool" where
  "no_json env \<longleftrightarrow> oe_read_json env [] = None"

lemma receive_get_user:
  assumes "live o1" "no_json (fe_oauth env)"
  shows "filter_receive env conf q (Ask r On_get_user o1) response =
     (let o2 = (case response of Some r \<Rightarrow> named_user (fe_oauth env) o1 r | None \<Rightarrow> o1) in
      if oa_user_id o2 = [] then authorize env conf q o2
      else ask (oa_projects o2) (\<lambda>dest. create_request dest ''GET'' [] (''domain_id='' @ oa_service_id o2)
             [(HTTP_HEADER_AUTH, oa_subject_token o2)]) On_get_subservice o2)"
proof -
  have l: "is_pep o1" "\<not> oa_sync o1" "oa_callback o1" using assms by (simp_all add: live_def)
  have e: "pt_children (get_ptree (fe_oauth env) []) = []" using assms by (simp add: get_ptree_def no_json_def)
  show ?thesis
    by (cases response; cases "new_IoTUrl (oa_projects o1)")
      (simp_all add: filter_receive_def oauth_receive_def receive_event_get_user_def named_user_def Let_def l e
        finish_def get_subservice_def send_request_def ask_def)
qed

definition project_found :: "oauth_env \<Rightarrow> OAuth \<Rightarrow> http_response option \<Rightarrow> project_search" where
  "project_found env o1 response =
     (let (str_response, status_code) = (case response of Some r \<Rightarrow> (hp_content r, hp_status r) | None \<Rightarrow> ([], 400));
          s0 = \<lparr> ps_subservice = [], ps_id = oa_subservice_id o1, ps_found = False, ps_status = status_code \<rparr>
      in if str_response \<noteq> [] \<and> status_code = 200 then find_project (oa_project o1) (get_ptree env str_response) s0 else s0)"

lemma receive_get_subservice:
  assumes "live o1"
  shows "filter_receive env conf q (Ask r On_get_subservice o1) response =
     (let s = project_found (fe_oauth env) o1 response; o2 = o1\<lparr> oa_subservice_id := ps_id s \<rparr> in
      if ps_status s = 400 then authorize env conf q o2
      else ask (oa_roles o2) (\<lambda>dest. create_request dest ''GET'' [] (''user.id='' @ oa_user_id o2 @ ''&effective'')
             [(HTTP_HEADER_AUTH, oa_subject_token o2)]) On_user_roles o2)"
proof -
  have l: "is_pep o1" "\<not> oa_sync o1" "oa_callback o1" using assms by (simp_all add: live_def)
  show ?thesis
    by (cases response; cases "new_IoTUrl (oa_roles o1)")
      (simp_all add: filter_receive_def oauth_receive_def receive_event_get_subservice_def project_found_def Let_def l
        finish_def get_user_roles_def send_request_def ask_def)
qed

lemma receive_user_roles:
  assumes "live o1"
  shows "filter_receive env conf q (Ask r On_user_roles o1) response =
     authorize env conf q (case response of
        Some r \<Rightarrow> if hp_content r \<noteq> [] then o1\<lparr> oa_user_roles := get_ptree (fe_oauth env) (hp_content r) \<rparr> else o1
      | None \<Rightarrow> o1)"
proof -
  have l: "is_pep o1" "\<not> oa_sync o1" "oa_callback o1" using assms by (simp_all add: live_def)
  show ?thesis
    by (cases response)
      (simp_all add: filter_receive_def oauth_receive_def receive_event_get_user_roles_def Let_def l finish_def)
qed

lemma receive_ac:
  "filter_receive env conf q (Ask_ac r) response = Inr (Answered (if ac_receive_event response then 200 else 403))"
  "filter_receive env conf q (Answered s) response = Inr (Answered s)"
  by (simp_all add: filter_receive_def)

lemma run_answered [simp]: "filter_run env conf q (Answered s) rs = Inr (Answered s)"
  by (induction rs) (simp_all add: receive_ac)

text \<open>Without a user or roles, authorisation ends with a refusal.\<close>

lemma authorize_refuses:
  "oa_user_id o1 = [] \<or> pt_children (oa_user_roles o1) = [] \<Longrightarrow> authorize env conf q o1 = Inr ph \<Longrightarrow> ph = Answered 401"
  by (auto simp: authorize_def Let_def bind_exn_eq_Inr_iff)

section \<open>Every request is decided\<close>

definition service_path_of :: "request \<Rightarrow> string" where
  "service_path_of q = (if get_header q ''Fiware-ServicePath'' = [] then ''/'' else get_header q ''Fiware-ServicePath'')"

text \<open>The dialogue is about this request, and no roles are known yet.\<close>

definition about :: "oauth_conf \<Rightarrow> request \<Rightarrow> OAuth \<Rightarrow> bool" where
  "about conf q o1 \<longleftrightarrow> live o1 \<and> oa_domain o1 = get_header q ''Fiware-Service'' \<and> oa_project o1 = service_path_of q
     \<and> pt_children (oa_user_roles o1) = [] \<and> oa_validate o1 = cf_validate conf \<and> oa_roles o1 = cf_roles conf
     \<and> oa_projects o1 = cf_projects conf \<and> cf_validate conf \<noteq> [] \<and> cf_roles conf \<noteq> [] \<and> cf_projects conf \<noteq> []"

lemma about_update [simp]:
  "about conf q (o1\<lparr> oa_subject_token := a \<rparr>) = about conf q o1" "about conf q (o1\<lparr> oa_user_id := a \<rparr>) = about conf q o1"
  "about conf q (o1\<lparr> oa_service_id := a \<rparr>) = about conf q o1" "about conf q (o1\<lparr> oa_subservice_id := a \<rparr>) = about conf q o1"
  by (simp_all add: about_def)

lemma about_named_user [simp]: "about conf q (named_user env o1 r) = about conf q o1"
  by (simp add: named_user_def Let_def about_def)

fun stage_ok :: "oauth_conf \<Rightarrow> request \<Rightarrow> filter_phase \<Rightarrow> bool" where
  "stage_ok conf q (Ask r h o1) \<longleftrightarrow> about conf q o1 \<and> (h = On_renew_token \<longrightarrow> oa_user_id o1 = [])"
| "stage_ok conf q (Ask_ac r) \<longleftrightarrow> True"
| "stage_ok conf q (Answered s) \<longleftrightarrow> s \<in> {200, 401, 403}"
| "stage_ok conf q Lost \<longleftrightarrow> False"

text \<open>The number of answers that are still to come at most.\<close>

fun answers_left :: "filter_phase \<Rightarrow> nat" where
  "answers_left (Ask r On_renew_token o1) = 5"
| "answers_left (Ask r On_get_user o1) = 4"
| "answers_left (Ask r On_get_subservice o1) = 3"
| "answers_left (Ask r On_user_roles o1) = 2"
| "answers_left (Ask_ac r) = 1"
| "answers_left _ = 0"

lemma filter_oauth_about:
  "cf_validate conf \<noteq> [] \<Longrightarrow> cf_roles conf \<noteq> [] \<Longrightarrow> cf_projects conf \<noteq> [] \<Longrightarrow>
   about conf q ((filter_oauth conf (get_header q ''Fiware-Service'') (service_path_of q))\<lparr> oa_callback := True, oa_user_token := tk \<rparr>)"
  by (simp add: about_def live_def filter_oauth_def set_identity_def new_OAuth_def is_pep_def pt_path_def OAUTH_ON_BEHALF_TRUST_def Let_def)

lemma handle_request_open: "open_resource (fe_url_base env) q \<Longrightarrow> oauth_handle_request env conf q = Inr (Answered 200)"
  by (simp add: oauth_handle_request_def)

lemma handle_request_closed:
  assumes "\<not> open_resource (fe_url_base env) q"
  shows "oauth_handle_request env conf q = Inr (Answered 401)
    \<or> (\<exists>o1. about conf q o1 \<and> oa_user_id o1 = [] \<and> oa_user_token o1 = get_header q HTTP_HEADER_AUTH
         \<and> oauth_handle_request env conf q
           = bind_exn (new_IoTUrl (cf_validate conf)) (\<lambda>dest. bind_exn (oe_write_json (fe_oauth env) (oa_auth o1)) (\<lambda>c.
               Inr (Ask (create_request dest ''POST'' c (url_query dest) []) On_renew_token o1))))"
proof -
  let ?o = "filter_oauth conf (get_header q ''Fiware-Service'') (service_path_of q)"
  let ?o1 = "?o\<lparr> oa_callback := True, oa_user_token := get_header q HTTP_HEADER_AUTH, oa_subject_token := [] \<rparr>"
  have "is_pep (?o\<lparr> oa_callback := True \<rparr>) \<and> \<not> oa_sync ?o \<and> oa_user_id ?o = [] \<and> oa_validate ?o = cf_validate conf"
    by (simp add: filter_oauth_def set_identity_def new_OAuth_def is_pep_def pt_path_def OAUTH_ON_BEHALF_TRUST_def Let_def)
  then have l: "is_pep ?o" "\<not> oa_sync ?o" "oa_user_id ?o = []" "oa_validate ?o = cf_validate conf" by simp_all
  show ?thesis
  proof (cases "oauth_handle_request env conf q = Inr (Answered 401)")
    case False
    then have c: "cf_validate conf \<noteq> []" "cf_roles conf \<noteq> []" "cf_projects conf \<noteq> []"
      using assms by (auto simp: oauth_handle_request_def Let_def)
    have "about conf q ?o1" using filter_oauth_about [OF c] by simp
    moreover have "oauth_handle_request env conf q
      = bind_exn (new_IoTUrl (cf_validate conf)) (\<lambda>dest. bind_exn (oe_write_json (fe_oauth env) (oa_auth ?o1)) (\<lambda>c.
          Inr (Ask (create_request dest ''POST'' c (url_query dest) []) On_renew_token ?o1)))"
      using False assms l
      by (cases "new_IoTUrl (cf_validate conf)"; cases "oe_write_json (fe_oauth env) (oa_auth ?o1)")
        (auto simp: oauth_handle_request_def service_path_of_def [symmetric] Let_def validate_user_token_def get_token_def
          renew_token_def split: if_splits)
    ultimately show ?thesis using l by (intro disjI2 exI [of _ ?o1]) simp
  qed simp
qed

text \<open>What the code relies on: the configured addresses parse, the token request can be written, the
  expressions of the rules are well-formed, and the empty text is no JSON.\<close>

definition filter_env_ok :: "filter_env \<Rightarrow> oauth_conf \<Rightarrow> bool" where
  "filter_env_ok env conf \<longleftrightarrow> no_json (fe_oauth env)
     \<and> list_all (\<lambda>u. u = [] \<or> (\<exists>d. new_IoTUrl u = Inr d)) [cf_validate conf, cf_roles conf, cf_projects conf, cf_ac conf]
     \<and> (\<forall>t. \<exists>s. oe_write_json (fe_oauth env) t = Inr s) \<and> (\<forall>re s. \<exists>m. fe_regex env re s = Inr m)"

lemma filter_env_okD:
  assumes "filter_env_ok env conf"
  shows "no_json (fe_oauth env)" "\<exists>s. oe_write_json (fe_oauth env) t = Inr s" "\<exists>m. fe_regex env re u = Inr m"
    and "cf_validate conf = [] \<or> (\<exists>d. new_IoTUrl (cf_validate conf) = Inr d)" "cf_roles conf = [] \<or> (\<exists>d. new_IoTUrl (cf_roles conf) = Inr d)"
    and "cf_projects conf = [] \<or> (\<exists>d. new_IoTUrl (cf_projects conf) = Inr d)" "cf_ac conf = [] \<or> (\<exists>d. new_IoTUrl (cf_ac conf) = Inr d)"
  using assms by (simp_all add: filter_env_ok_def)

lemma rule_action_total: "filter_env_ok env conf \<Longrightarrow> \<exists>a. rule_action (fe_regex env) rules u = Inr a"
proof (induction rules)
  case (Cons r rules)
  obtain a re where r: "r = (a, re)" by (cases r)
  obtain m where m: "fe_regex env re u = Inr m" using filter_env_okD(3) [OF Cons.prems] by blast
  have "bind_groups [] i gs res = Inr res" for i gs and res :: "(string, string) std_map"
    by (induction gs arbitrary: i) simp_all
  then show ?case using Cons m by (auto simp: r restResourceParse_def split: option.splits)
qed simp

lemma get_action_total:
  assumes "filter_env_ok env conf"
  shows "\<exists>a. get_action (fe_regex env) conf verb uri = Inr a"
proof -
  have "\<exists>a. rule_action (fe_regex env) rules u = Inr a" for rules u using rule_action_total [OF assms] .
  then obtain a1 a2 where "rule_action (fe_regex env) (cf_pep_rules conf) (verb @ '' '' @ uri) = Inr a1"
    "rule_action (fe_regex env) uri_actions (verb @ '' '' @ uri) = Inr a2"
    by blast
  then show ?thesis by (simp add: get_action_def Let_def)
qed

lemma authorize_stage:
  assumes "filter_env_ok env conf"
  shows "\<exists>ph. authorize env conf q o1 = Inr ph \<and> stage_ok conf q ph \<and> answers_left ph \<le> 1"
proof -
  obtain a where a: "get_action (fe_regex env) conf (in_method q) (get_relative_resource conf (in_resource q)) = Inr a"
    using get_action_total [OF assms] by blast
  show ?thesis using filter_env_okD(7) [OF assms] by (auto simp: authorize_def Let_def a ac_authorize_def)
qed

lemma ask_stage:
  assumes "u = [] \<or> (\<exists>d. new_IoTUrl u = Inr d)" "u \<noteq> []" "about conf q ob" "h \<noteq> On_renew_token"
  shows "\<exists>ph r. ask u mk h ob = Inr ph \<and> ph = Ask r h ob \<and> stage_ok conf q ph"
  using assms by (auto simp: ask_def)

lemma receive_stage:
  assumes env: "filter_env_ok env conf" and st: "stage_ok conf q ph"
  shows "\<exists>ph'. filter_receive env conf q ph response = Inr ph' \<and> stage_ok conf q ph' \<and> answers_left ph' \<le> answers_left ph - 1"
proof (cases ph)
  case (Ask r h o1)
  then have ab: "about conf q o1" using st by simp
  then have l: "live o1" and e: "oa_validate o1 = cf_validate conf" "oa_roles o1 = cf_roles conf" "oa_projects o1 = cf_projects conf"
    "cf_validate conf \<noteq> []" "cf_roles conf \<noteq> []" "cf_projects conf \<noteq> []" by (simp_all add: about_def)
  note step = authorize_stage [OF env, of q] filter_env_okD [OF env]
  show ?thesis
  proof (cases h)
    case On_renew_token
    show ?thesis
      using step ask_stage [OF step(5) e(4), where conf = conf and q = q and ob = "o1\<lparr> oa_subject_token := pep_token response, oa_user_id := [] \<rparr>" and h = On_get_user] ab
      unfolding Ask On_renew_token receive_renew_token [OF l] Let_def e by fastforce
  next
    case On_get_user
    let ?o = "case response of Some r \<Rightarrow> named_user (fe_oauth env) o1 r | None \<Rightarrow> o1"
    have "about conf q ?o" using ab by (simp split: option.split)
    then have "oa_projects ?o = cf_projects conf" "about conf q ?o" by (simp_all add: about_def)
    then show ?thesis
      using step ask_stage [OF step(7) e(6), where conf = conf and q = q and ob = ?o and h = On_get_subservice]
      unfolding Ask On_get_user receive_get_user [OF l step(2)] Let_def by fastforce
  next
    case On_get_subservice
    let ?o = "o1\<lparr> oa_subservice_id := ps_id (project_found (fe_oauth env) o1 response) \<rparr>"
    show ?thesis
      using step ask_stage [OF step(6) e(5), where conf = conf and q = q and ob = ?o and h = On_user_roles] ab e(2)
      unfolding Ask On_get_subservice receive_get_subservice [OF l] Let_def by fastforce
  next
    case On_user_roles
    show ?thesis using step unfolding Ask On_user_roles receive_user_roles [OF l] by fastforce
  qed
qed (use st in \<open>auto simp: receive_ac\<close>)

lemma run_stage:
  assumes "filter_env_ok env conf" "stage_ok conf q ph"
  shows "\<exists>ph'. filter_run env conf q ph rs = Inr ph' \<and> stage_ok conf q ph' \<and> answers_left ph' \<le> answers_left ph - length rs"
  using assms(2)
proof (induction rs arbitrary: ph)
  case (Cons r rs)
  obtain ph1 where 1: "filter_receive env conf q ph r = Inr ph1" "stage_ok conf q ph1" "answers_left ph1 \<le> answers_left ph - 1"
    using receive_stage [OF assms(1) Cons.prems] by blast
  then show ?case using Cons.IH [OF 1(2)] by fastforce
qed simp

lemma handle_request_stage:
  assumes "filter_env_ok env conf"
  shows "\<exists>ph. oauth_handle_request env conf q = Inr ph \<and> stage_ok conf q ph \<and> answers_left ph \<le> 5"
proof (cases "open_resource (fe_url_base env) q \<or> oauth_handle_request env conf q = Inr (Answered 401)")
  case True
  then show ?thesis using handle_request_open [of env q conf] by auto
next
  case False
  then obtain o1 where o1: "about conf q o1" "oa_user_id o1 = []"
    "oauth_handle_request env conf q
      = bind_exn (new_IoTUrl (cf_validate conf)) (\<lambda>dest. bind_exn (oe_write_json (fe_oauth env) (oa_auth o1)) (\<lambda>c.
          Inr (Ask (create_request dest ''POST'' c (url_query dest) []) On_renew_token o1)))"
    using handle_request_closed by blast
  moreover obtain d c where "new_IoTUrl (cf_validate conf) = Inr d" "oe_write_json (fe_oauth env) (oa_auth o1) = Inr c"
    using filter_env_okD [OF assms] o1(1) by (metis about_def)
  ultimately show ?thesis by simp
qed

lemma no_answers_left: "stage_ok conf q ph \<Longrightarrow> answers_left ph = 0 \<Longrightarrow> \<exists>s. ph = Answered s \<and> s \<in> {200, 401, 403}"
  by (cases "(ph :: filter_phase)" rule: answers_left.cases) auto


section \<open>What admission rests on\<close>

lemma run_admitted:
  assumes "filter_run env conf q (Ask r h o1) rs = Inr (Answered 200)"
  obtains resp rs' ph where "rs = resp # rs'" "filter_receive env conf q (Ask r h o1) resp = Inr ph"
    "filter_run env conf q ph rs' = Inr (Answered 200)" "ph \<noteq> Answered 401"
proof (cases rs)
  case (Cons resp rs')
  then obtain ph where "filter_receive env conf q (Ask r h o1) resp = Inr ph" "filter_run env conf q ph rs' = Inr (Answered 200)"
    using assms by (auto simp: bind_exn_eq_Inr_iff)
  then show ?thesis using that [OF Cons] by (cases "ph = Answered 401") auto
qed (use assms in simp)

lemma Inr_eq_bind: "Inr y = bind_exn r f \<longleftrightarrow> (\<exists>x. r = Inr x \<and> Inr y = f x)"
  by (cases r) auto

lemma authorize_refused:
  assumes "authorize env conf q o1 = Inr ph" "ph \<noteq> Answered 401"
  shows "oa_user_id o1 \<noteq> []" "pt_children (oa_user_roles o1) \<noteq> []"
  using authorize_refuses [OF _ assms(1)] assms(2) by blast+

lemma ask_Inr: "ask u mk h ob = Inr ph \<longleftrightarrow> (\<exists>d. new_IoTUrl u = Inr d \<and> ph = Ask (mk d) h ob)"
  by (auto simp: ask_def bind_exn_eq_Inr_iff)

lemma admitted_renew_token:
  assumes "about conf q o1" "oa_user_id o1 = []" "filter_receive env conf q (Ask r On_renew_token o1) resp = Inr ph" "ph \<noteq> Answered 401"
  shows "\<exists>r1 rq ob. resp = Some r1 \<and> hp_status r1 \<in> {200, 201, 202} \<and> hp_header r1 HTTP_HEADER_TOKEN \<noteq> []
     \<and> ph = Ask rq On_get_user ob \<and> about conf q ob \<and> oa_user_id ob = []"
proof -
  have l: "live o1" using assms(1) by (simp add: about_def)
  have "pep_token resp \<noteq> []"
    using assms authorize_refused [of env conf q "o1\<lparr> oa_subject_token := [] \<rparr>" ph]
    by (auto simp: receive_renew_token [OF l] Let_def)
  then show ?thesis
    using assms(1,3) by (auto simp: receive_renew_token [OF l] Let_def ask_Inr pep_token_def split: option.splits if_splits)
qed

lemma admitted_get_user:
  assumes "about conf q o1" "oa_user_id o1 = []" "no_json (fe_oauth env)"
    "filter_receive env conf q (Ask r On_get_user o1) resp = Inr ph" "ph \<noteq> Answered 401"
  shows "\<exists>r2 rq ob. resp = Some r2 \<and> hp_status r2 = 200
     \<and> pt_path (get_ptree (fe_oauth env) (hp_content r2)) [''token'', ''user'', ''domain'', ''name''] [] = get_header q ''Fiware-Service''
     \<and> ph = Ask rq On_get_subservice ob \<and> about conf q ob
     \<and> oa_user_id ob = pt_path (get_ptree (fe_oauth env) (hp_content r2)) [''token'', ''user'', ''id''] [] \<and> oa_user_id ob \<noteq> []"
proof -
  have l: "live o1" "oa_domain o1 = get_header q ''Fiware-Service''" using assms(1) by (simp_all add: about_def)
  let ?o = "case resp of Some r \<Rightarrow> named_user (fe_oauth env) o1 r | None \<Rightarrow> o1"
  have u: "oa_user_id ?o \<noteq> []"
    using assms(4,5) authorize_refused(1) [of env conf q ?o ph] by (auto simp: receive_get_user [OF l(1) assms(3)] Let_def)
  then obtain r2 where r2: "resp = Some r2" using assms(2) by (cases resp) auto
  then have n: "oa_user_id (named_user (fe_oauth env) o1 r2) \<noteq> []" using u by simp
  then have "hp_status r2 = 200
     \<and> pt_path (get_ptree (fe_oauth env) (hp_content r2)) [''token'', ''user'', ''domain'', ''name''] [] = oa_domain o1
     \<and> oa_user_id (named_user (fe_oauth env) o1 r2) = pt_path (get_ptree (fe_oauth env) (hp_content r2)) [''token'', ''user'', ''id''] []"
    using assms(2) by (auto simp: named_user_def Let_def split: if_splits)
  moreover have "\<exists>rq. ph = Ask rq On_get_subservice (named_user (fe_oauth env) o1 r2)"
    using assms(4) n by (auto simp: receive_get_user [OF l(1) assms(3)] Let_def r2 ask_Inr)
  ultimately show ?thesis using r2 n l(2) assms(1) by (metis about_named_user)
qed

lemma admitted_get_subservice:
  assumes "about conf q o1"
    "filter_receive env conf q (Ask r On_get_subservice o1) resp = Inr ph" "ph \<noteq> Answered 401"
  shows "\<exists>r3 rq ob. resp = Some r3 \<and> hp_status r3 \<noteq> 400 \<and> ps_status (project_found (fe_oauth env) o1 resp) \<noteq> 400
     \<and> ph = Ask rq On_user_roles ob \<and> about conf q ob \<and> oa_user_id ob = oa_user_id o1"
proof -
  have l: "live o1" "pt_children (oa_user_roles o1) = []" using assms(1) by (simp_all add: about_def)
  let ?s = "project_found (fe_oauth env) o1 resp"
  have s: "ps_status ?s \<noteq> 400"
    using assms(2,3) authorize_refused(2) [of env conf q "o1\<lparr> oa_subservice_id := ps_id ?s \<rparr>" ph] l(2)
    by (auto simp: receive_get_subservice [OF l(1)] Let_def)
  then obtain r3 where "resp = Some r3" "hp_status r3 \<noteq> 400"
    by (cases resp) (auto simp: project_found_def Let_def split: if_splits)
  then show ?thesis
    using assms(1,2) s by (auto simp: receive_get_subservice [OF l(1)] Let_def ask_Inr)
qed

lemma admitted_user_roles:
  assumes "about conf q o1" "no_json (fe_oauth env)"
    "filter_receive env conf q (Ask r On_user_roles o1) resp = Inr ph" "ph \<noteq> Answered 401"
  shows "\<exists>r4 ob action a. resp = Some r4 \<and> oa_domain ob = get_header q ''Fiware-Service'' \<and> oa_project ob = service_path_of q
     \<and> oa_user_roles ob = get_ptree (fe_oauth env) (hp_content r4)
     \<and> get_action (fe_regex env) conf (in_method q) (get_relative_resource conf (in_resource q)) = Inr action
     \<and> ph = Ask_ac a \<and> hq_content a = fe_write_xml env (xml_access_control (user_subservice_roles ob)
          (get_resource (get_header q ''Fiware-Service'') (service_path_of q) (get_relative_resource conf (in_resource q))) action)"
proof -
  have l: "live o1" "pt_children (oa_user_roles o1) = []" "oa_domain o1 = get_header q ''Fiware-Service''" "oa_project o1 = service_path_of q"
    using assms(1) by (simp_all add: about_def)
  let ?o = "case resp of Some r \<Rightarrow> if hp_content r \<noteq> [] then o1\<lparr> oa_user_roles := get_ptree (fe_oauth env) (hp_content r) \<rparr> else o1 | None \<Rightarrow> o1"
  have a: "authorize env conf q ?o = Inr ph" using assms(3) by (simp add: receive_user_roles [OF l(1)])
  have "pt_children (oa_user_roles ?o) \<noteq> []" using authorize_refused(2) [OF a assms(4)] .
  then obtain r4 where r4: "resp = Some r4" "hp_content r4 \<noteq> []"
    using l(2) by (cases resp) (auto split: if_splits)
  let ?ob = "o1\<lparr> oa_user_roles := get_ptree (fe_oauth env) (hp_content r4) \<rparr>"
  have "authorize env conf q ?ob = Inr ph" using a r4 by simp
  then obtain action d where "get_action (fe_regex env) conf (in_method q) (get_relative_resource conf (in_resource q)) = Inr action"
    "ph = Ask_ac (ac_create_request d (fe_write_xml env (xml_access_control (user_subservice_roles ?ob)
       (get_resource (oa_domain o1) (oa_project o1) (get_relative_resource conf (in_resource q))) action))
       [(''X-Trace-Message'', get_header q ''X-Trace-Message''), (''Fiware-Service'', get_header q ''Fiware-Service''),
        (''Fiware-ServicePath'', get_header q ''Fiware-ServicePath''), (HTTP_HEADER_AUTH, get_header q HTTP_HEADER_AUTH)])"
    using assms(4) by (auto simp: authorize_def Let_def bind_exn_eq_Inr_iff ac_authorize_def split: if_splits)
  then show ?thesis
    using r4 l by (intro exI [of _ r4] exI [of _ ?ob] exI [of _ action]) (simp add: ac_create_request_def)
qed

text \<open>C3: Nobody is let in without the answers that justify it.  A request to an address that is not
  open passes the authorisation filter only if the identity manager issued a token to the agent, named
  for the token of the request a user of the service in its header, did not refuse the list of
  projects, and listed roles, and if the access control, asked with exactly these roles about this
  resource and action, answered with code 200 and a text that contains Permit.\<close>

theorem oauth_admits_only_permitted:
  assumes "oauth_filter env conf q rs = Inr (Answered 200)" "\<not> open_resource (fe_url_base env) q" "no_json (fe_oauth env)"
  shows "\<exists>r1 r2 r3 r4 r5 rest ob action a.
      rs = [Some r1, Some r2, Some r3, Some r4, Some r5] @ rest
    \<and> hp_status r1 \<in> {200, 201, 202} \<and> hp_header r1 HTTP_HEADER_TOKEN \<noteq> []
    \<and> hp_status r2 = 200
    \<and> pt_path (get_ptree (fe_oauth env) (hp_content r2)) [''token'', ''user'', ''domain'', ''name''] [] = get_header q ''Fiware-Service''
    \<and> pt_path (get_ptree (fe_oauth env) (hp_content r2)) [''token'', ''user'', ''id''] [] \<noteq> []
    \<and> hp_status r3 \<noteq> 400
    \<and> oauth_filter env conf q [Some r1, Some r2, Some r3, Some r4] = Inr (Ask_ac a)
    \<and> oa_domain ob = get_header q ''Fiware-Service'' \<and> oa_project ob = service_path_of q
    \<and> oa_user_roles ob = get_ptree (fe_oauth env) (hp_content r4)
    \<and> get_action (fe_regex env) conf (in_method q) (get_relative_resource conf (in_resource q)) = Inr action
    \<and> hq_content a = fe_write_xml env (xml_access_control (user_subservice_roles ob)
         (get_resource (get_header q ''Fiware-Service'') (service_path_of q) (get_relative_resource conf (in_resource q))) action)
    \<and> hp_status r5 = 200 \<and> find_sub ''Permit'' (hp_content r5) \<noteq> None"
proof -
  obtain ph0 where h: "oauth_handle_request env conf q = Inr ph0" "filter_run env conf q ph0 rs = Inr (Answered 200)"
    using assms(1) by (auto simp: oauth_filter_def bind_exn_eq_Inr_iff)
  then obtain rq0 o1 where p0: "ph0 = Ask rq0 On_renew_token o1" "about conf q o1" "oa_user_id o1 = []"
    using handle_request_closed [OF assms(2), of conf] by (auto simp: Inr_eq_bind)
  obtain s1 rs1 ph1 where 1: "rs = s1 # rs1" "filter_receive env conf q ph0 s1 = Inr ph1"
    "filter_run env conf q ph1 rs1 = Inr (Answered 200)" "ph1 \<noteq> Answered 401"
    using h(2) unfolding p0(1) by (rule run_admitted)
  obtain r1 rq1 o2 where r1: "s1 = Some r1" "hp_status r1 \<in> {200, 201, 202}" "hp_header r1 HTTP_HEADER_TOKEN \<noteq> []"
    "ph1 = Ask rq1 On_get_user o2" "about conf q o2" "oa_user_id o2 = []"
    using admitted_renew_token [OF p0(2,3) 1(2) [unfolded p0(1)] 1(4)] by (elim exE conjE)
  obtain s2 rs2 ph2 where 2: "rs1 = s2 # rs2" "filter_receive env conf q ph1 s2 = Inr ph2"
    "filter_run env conf q ph2 rs2 = Inr (Answered 200)" "ph2 \<noteq> Answered 401"
    using 1(3) unfolding r1(4) by (rule run_admitted)
  obtain r2 rq2 o3 where r2: "s2 = Some r2" "hp_status r2 = 200"
    "pt_path (get_ptree (fe_oauth env) (hp_content r2)) [''token'', ''user'', ''domain'', ''name''] [] = get_header q ''Fiware-Service''"
    "ph2 = Ask rq2 On_get_subservice o3" "about conf q o3"
    "pt_path (get_ptree (fe_oauth env) (hp_content r2)) [''token'', ''user'', ''id''] [] \<noteq> []"
    using admitted_get_user [OF r1(5,6) assms(3) 2(2) [unfolded r1(4)] 2(4)] by (elim exE conjE) simp
  obtain s3 rs3 ph3 where 3: "rs2 = s3 # rs3" "filter_receive env conf q ph2 s3 = Inr ph3"
    "filter_run env conf q ph3 rs3 = Inr (Answered 200)" "ph3 \<noteq> Answered 401"
    using 2(3) unfolding r2(4) by (rule run_admitted)
  obtain r3 rq3 o4 where r3: "s3 = Some r3" "hp_status r3 \<noteq> 400" "ph3 = Ask rq3 On_user_roles o4" "about conf q o4"
    using admitted_get_subservice [OF r2(5) 3(2) [unfolded r2(4)] 3(4)] by (elim exE conjE)
  obtain s4 rs4 ph4 where 4: "rs3 = s4 # rs4" "filter_receive env conf q ph3 s4 = Inr ph4"
    "filter_run env conf q ph4 rs4 = Inr (Answered 200)" "ph4 \<noteq> Answered 401"
    using 3(3) unfolding r3(3) by (rule run_admitted)
  obtain r4 ob action a where r4: "s4 = Some r4" "oa_domain ob = get_header q ''Fiware-Service''" "oa_project ob = service_path_of q"
    "oa_user_roles ob = get_ptree (fe_oauth env) (hp_content r4)"
    "get_action (fe_regex env) conf (in_method q) (get_relative_resource conf (in_resource q)) = Inr action" "ph4 = Ask_ac a"
    "hq_content a = fe_write_xml env (xml_access_control (user_subservice_roles ob)
       (get_resource (get_header q ''Fiware-Service'') (service_path_of q) (get_relative_resource conf (in_resource q))) action)"
    using admitted_user_roles [OF r3(4) assms(3) 4(2) [unfolded r3(3)] 4(4)] by (elim exE conjE)
  obtain r5 rest where r5: "rs4 = Some r5 # rest" "hp_status r5 = 200" "find_sub ''Permit'' (hp_content r5) \<noteq> None"
    using 4(3) unfolding r4(6)
    by (cases rs4) (auto simp: receive_ac ac_receive_event_def split: option.splits if_splits)
  have "oauth_filter env conf q [Some r1, Some r2, Some r3, Some r4] = Inr (Ask_ac a)"
    using h(1) 1(2) 2(2) 3(2) 4(2) r1(1) r2(1) r3(1) r4(1,6) by (simp add: oauth_filter_def)
  moreover have "rs = [Some r1, Some r2, Some r3, Some r4, Some r5] @ rest"
    using 1(1) 2(1) 3(1) 4(1) r1(1) r2(1) r3(1) r4(1) r5(1) by simp
  ultimately show ?thesis
    using r1(2,3) r2(2,3,6) r3(2) r4(2-5,7) r5(2,3)
    by - (rule exI [of _ r1], rule exI [of _ r2], rule exI [of _ r3], rule exI [of _ r4], rule exI [of _ r5],
      rule exI [of _ rest], rule exI [of _ ob], rule exI [of _ action], rule exI [of _ a], intro conjI)
qed

text \<open>An exchange that ends with the admission of a request: token, user, projects, roles, permission.\<close>

definition sample_json :: "string \<Rightarrow> ptree option" where
  "sample_json s =
     (let t = (\<lambda>k c. PTree [] [(k, c)]) in
      if s = ''U'' then Some (t ''token'' (t ''user'' (PTree [] [(''id'', leaf ''u1''),
           (''domain'', PTree [] [(''id'', leaf ''d1''), (''name'', leaf ''farm'')])])))
      else if s = ''P'' then Some (t ''projects'' (PTree [] [([], PTree [] [(''name'', leaf ''/north''), (''id'', leaf ''p1'')])]))
      else if s = ''R'' then Some (t ''role_assignments'' (PTree []
         [([], PTree [] [(''role'', t ''id'' (leaf ''admin'')), (''scope'', t ''domain'' (t ''id'' (leaf ''d1'')))]),
          ([], PTree [] [(''role'', t ''id'' (leaf ''reader'')), (''scope'', t ''project'' (t ''id'' (leaf ''p1'')))])]))
      else None)"

definition sample_filter_env :: filter_env where
  "sample_filter_env =
     \<lparr> fe_oauth = \<lparr> oe_read_json = sample_json, oe_write_json = (\<lambda>t. Inr ''{}''), oe_send = (\<lambda>r. None) \<rparr>,
       fe_regex = (\<lambda>re s. Inr None), fe_write_xml = (\<lambda>t. ''<Request/>''), fe_url_base = ''/iot'' \<rparr>"

definition sample_conf :: oauth_conf where
  "sample_conf = \<lparr> cf_validate = ''http://idm/v3/auth'', cf_roles = ''http://idm/v3/roles'', cf_projects = ''http://idm/v3/projects'',
     cf_ac = ''http://ac/pdp'', cf_user = ''pep'', cf_password = ''pep'', cf_domain = ''admin_domain'', cf_pep_rules = [],
     cf_filter_url = ''/iot'' \<rparr>"

definition sample_request :: request where
  "sample_request = \<lparr> in_method = ''GET'', in_resource = ''/iot/devices'', in_original_resource = ''/iot/devices'', in_query_string = [],
     in_content = [], in_header = map_of [(''Fiware-Service'', ''farm''), (''Fiware-ServicePath'', ''/north''), (''X-Auth-Token'', ''tk'')] \<rparr>"

definition answer :: "nat \<Rightarrow> string \<Rightarrow> http_response" where
  "answer status content = \<lparr> hp_status = status, hp_content = content, hp_header = (\<lambda>n. if n = HTTP_HEADER_TOKEN then ''pep'' else []) \<rparr>"

definition sample_answers :: "http_response option list" where
  "sample_answers = map Some [answer 201 [], answer 200 ''U'', answer 200 ''P'', answer 200 ''R'', answer 200 ''<Decision>Permit</Decision>'']"

lemma sample_urls:
  "new_IoTUrl ''http://idm/v3/auth'' = Inr \<lparr> url_protocol = ''http'', url_host = ''idm'', url_port = 80, url_path = ''/v3/auth'', url_query = [] \<rparr>"
  "new_IoTUrl ''http://idm/v3/roles'' = Inr \<lparr> url_protocol = ''http'', url_host = ''idm'', url_port = 80, url_path = ''/v3/roles'', url_query = [] \<rparr>"
  "new_IoTUrl ''http://idm/v3/projects'' = Inr \<lparr> url_protocol = ''http'', url_host = ''idm'', url_port = 80, url_path = ''/v3/projects'', url_query = [] \<rparr>"
  "new_IoTUrl ''http://ac/pdp'' = Inr \<lparr> url_protocol = ''http'', url_host = ''ac'', url_port = 80, url_path = ''/pdp'', url_query = [] \<rparr>"
  by code_simp+

lemma sample_rest_env_ok: "filter_env_ok sample_filter_env sample_conf"
  by (simp add: filter_env_ok_def no_json_def sample_filter_env_def sample_conf_def sample_urls sample_json_def)

lemma sample_admitted: "oauth_filter sample_filter_env sample_conf sample_request sample_answers = Inr (Answered 200)"
  by code_simp


theorem oauth_admits_only_permitted_witness:
  "\<exists>r1 r2 r3 r4 r5 rest. sample_answers = [Some r1, Some r2, Some r3, Some r4, Some r5] @ rest
     \<and> hp_status r5 = 200 \<and> find_sub ''Permit'' (hp_content r5) \<noteq> None"
proof -
  have "\<not> open_resource (fe_url_base sample_filter_env) sample_request" by code_simp
  moreover have "no_json (fe_oauth sample_filter_env)" using sample_rest_env_ok by (simp add: filter_env_ok_def)
  ultimately show ?thesis using oauth_admits_only_permitted [OF sample_admitted] by blast
qed

section \<open>When the list of projects is missing\<close>

lemma user_roles_run:
  assumes "live o1" "hp_content r4 \<noteq> []"
  shows "filter_run env conf q (Ask rq On_user_roles o1) [Some r4]
    = authorize env conf q (o1\<lparr> oa_user_roles := get_ptree (fe_oauth env) (hp_content r4) \<rparr>)"
  by (simp add: receive_user_roles [OF assms(1)] assms(2)) (cases "authorize env conf q (o1\<lparr> oa_user_roles := get_ptree (fe_oauth env) (hp_content r4) \<rparr>)"; simp)

text \<open>A failed look-up of the project widens the authorisation.  When the identity manager answers the
  request for the projects with an error other than 400, the dialogue goes on without the identifier of
  the project, and the access control is asked with the roles that are assigned outside any project,
  for example on the whole domain, as if they were roles of the project in the request.\<close>

theorem missing_project_takes_unscoped_roles:
  assumes "about conf q o1" "oa_subservice_id o1 = []" "service_path_of q \<noteq> ''/''"
    and "hp_status r3 \<noteq> 200" "hp_status r3 \<noteq> 400" "hp_content r4 \<noteq> []" "new_IoTUrl (cf_roles conf) = Inr d"
    and "map_of (pt_children (get_ptree (fe_oauth env) (hp_content r4))) ''role_assignments'' = Some ra"
  shows "\<exists>ob. filter_run env conf q (Ask rq On_get_subservice o1) [Some r3, Some r4] = authorize env conf q ob
    \<and> user_subservice_roles ob = map (\<lambda>v. pt_path v [''role'', ''id''] [])
         (filter (\<lambda>v. pt_path v [''scope'', ''project'', ''id''] [] = []) (map snd (pt_children ra)))"
proof -
  have l: "live o1" "oa_project o1 \<noteq> ''/''" "oa_roles o1 = cf_roles conf" using assms(1,3) by (simp_all add: about_def)
  have s: "project_found (fe_oauth env) o1 (Some r3) = \<lparr> ps_subservice = [], ps_id = [], ps_found = False, ps_status = hp_status r3 \<rparr>"
    using assms(2,4) by (simp add: project_found_def)
  define o2 where "o2 = o1\<lparr> oa_subservice_id := [] \<rparr>"
  obtain rq' where "filter_receive env conf q (Ask rq On_get_subservice o1) (Some r3) = Inr (Ask rq' On_user_roles o2)"
    using assms(5,7) l(3) by (simp add: receive_get_subservice [OF l(1)] s ask_def o2_def)
  then have "filter_run env conf q (Ask rq On_get_subservice o1) [Some r3, Some r4]
    = authorize env conf q (o2\<lparr> oa_user_roles := get_ptree (fe_oauth env) (hp_content r4) \<rparr>)"
    using user_roles_run [of o2 r4 env conf q rq'] l(1) assms(6) by (simp add: o2_def)
  moreover have "role_for (o2\<lparr> oa_user_roles := t \<rparr>) = (\<lambda>v. pt_path v [''scope'', ''project'', ''id''] [] = [])" for t
    using l(2) by (auto simp: role_for_def o2_def)
  ultimately show ?thesis
    using assms(8) by (intro exI conjI) (assumption, simp add: user_subservice_roles_def)
qed

theorem missing_project_takes_unscoped_roles_witness:
  "\<exists>rq o1 ob. filter_run sample_filter_env sample_conf sample_request (Ask rq On_get_subservice o1)
       [Some (answer 404 []), Some (answer 200 ''R'')] = authorize sample_filter_env sample_conf sample_request ob
     \<and> user_subservice_roles ob = [''admin'']"
proof -
  let ?o = "(filter_oauth sample_conf (get_header sample_request ''Fiware-Service'') (service_path_of sample_request))
    \<lparr> oa_callback := True, oa_user_token := ''tk'' \<rparr>"
  let ?ra = "PTree [] [([], PTree [] [(''role'', PTree [] [(''id'', leaf ''admin'')]), (''scope'', PTree [] [(''domain'', PTree [] [(''id'', leaf ''d1'')])])]),
     ([], PTree [] [(''role'', PTree [] [(''id'', leaf ''reader'')]), (''scope'', PTree [] [(''project'', PTree [] [(''id'', leaf ''p1'')])])])]"
  have a: "about sample_conf sample_request ?o" by (rule filter_oauth_about) (simp_all add: sample_conf_def)
  have i: "oa_subservice_id ?o = []" by (simp add: filter_oauth_def set_identity_def new_OAuth_def Let_def)
  have p: "service_path_of sample_request \<noteq> ''/''" by (simp add: service_path_of_def sample_request_def get_header_def)
  have r: "map_of (pt_children (get_ptree (fe_oauth sample_filter_env) (hp_content (answer 200 ''R'')))) ''role_assignments'' = Some ?ra"
    by (simp add: sample_filter_env_def get_ptree_def answer_def sample_json_def)
  have u: "new_IoTUrl (cf_roles sample_conf) = Inr \<lparr> url_protocol = ''http'', url_host = ''idm'', url_port = 80, url_path = ''/v3/roles'', url_query = [] \<rparr>"
    by (simp add: sample_conf_def sample_urls)
  have roles: "map (\<lambda>v. pt_path v [''role'', ''id''] [])
      (filter (\<lambda>v. pt_path v [''scope'', ''project'', ''id''] [] = []) (map snd (pt_children ?ra))) = [''admin'']"
    by (simp add: pt_path_def)
  have "\<exists>ob. filter_run sample_filter_env sample_conf sample_request (Ask rq On_get_subservice ?o)
       [Some (answer 404 []), Some (answer 200 ''R'')] = authorize sample_filter_env sample_conf sample_request ob
     \<and> user_subservice_roles ob = [''admin'']" for rq
    using missing_project_takes_unscoped_roles [OF a i p _ _ _ u r, of "answer 404 []" rq] unfolding roles by (simp add: answer_def)
  then show ?thesis by blast
qed

end
