(* ===== verification/Rest_Pipeline.thy ===== *)
theory Rest_Pipeline
  imports Rest_Admission
begin

text \<open>
  The way of a request through a service (\<^verbatim>\<open>src/rest/rest_handle.cc\<close>, \<^verbatim>\<open>src/rest/http_filter.h\<close>): the
  filters one after the other, each calling back when it has decided, then the handler.  Several
  requests are on their way at a time; a filter finds the callback of a request by its trace
  identifier.
\<close>

section \<open>Filters and callbacks\<close>

text \<open>A callback belongs to a request; the filter it is registered at tells what comes next.  \<open>working\<close>
  lists the filters that have been started on a request and have not called back.\<close>

datatype rest_outcome = Handled | Refused nat

record server =
  sv_callbacks :: "(nat \<times> (string, nat) std_map) list"
  sv_working :: "(nat \<times> nat) list"
  sv_log :: "(nat \<times> rest_outcome) list"

definition new_server :: server where
  "new_server = \<lparr> sv_callbacks = [], sv_working = [], sv_log = [] \<rparr>"

definition callbacks :: "server \<Rightarrow> nat \<Rightarrow> (string, nat) std_map" where
  "callbacks sv k = (case map_of (sv_callbacks sv) k of Some m \<Rightarrow> m | None \<Rightarrow> [])"

definition set_callbacks :: "nat \<Rightarrow> (string, nat) std_map \<Rightarrow> server \<Rightarrow> server" where
  "set_callbacks k m sv = sv\<lparr> sv_callbacks := (k, m) # sv_callbacks sv \<rparr>"

definition set_async_filter :: "nat \<Rightarrow> string \<Rightarrow> nat \<Rightarrow> server \<Rightarrow> server" where
  "set_async_filter k uuid_request i sv = set_callbacks k (map_insert uuid_request i (callbacks sv k)) sv"

definition log_outcome :: "nat \<Rightarrow> rest_outcome \<Rightarrow> server \<Rightarrow> server" where
  "log_outcome i r sv = sv\<lparr> sv_log := sv_log sv @ [(i, r)] \<rparr>"

definition handle_end_filters :: "nat \<Rightarrow> nat \<Rightarrow> server \<Rightarrow> server" where
  "handle_end_filters i status sv = log_outcome i (if status \<noteq> 200 then Refused status else Handled) sv"

text \<open>\<open>trace i\<close> is the trace identifier of request \<open>i\<close>, \<open>n\<close> the number of filters.\<close>

definition execute_filters :: "(nat \<Rightarrow> string) \<Rightarrow> nat \<Rightarrow> nat \<Rightarrow> nat \<Rightarrow> server \<Rightarrow> server" where
  "execute_filters trace i num_filter status sv =
     (if status \<noteq> 200 then handle_end_filters i status sv
      else (set_async_filter num_filter (trace i) i sv)\<lparr> sv_working := (num_filter, i) # sv_working sv \<rparr>)"

definition receive_request :: "nat \<Rightarrow> (nat \<Rightarrow> string) \<Rightarrow> nat \<Rightarrow> server \<Rightarrow> server" where
  "receive_request n trace i sv = (if n > 0 then execute_filters trace i 0 200 sv else log_outcome i Handled sv)"

text \<open>\<open>call_to_callback\<close>: without a callback the empty function is called, which throws.\<close>

definition call_to_callback :: "nat \<Rightarrow> (nat \<Rightarrow> string) \<Rightarrow> nat \<Rightarrow> string \<Rightarrow> nat \<Rightarrow> server \<Rightarrow> server result" where
  "call_to_callback n trace k id_request s sv =
     (case map_find (callbacks sv k) id_request of
        None \<Rightarrow> Inl (runtime_error ''call to empty boost::function'')
      | Some j \<Rightarrow>
          let sv1 = set_callbacks k (map_erase id_request (callbacks sv k)) sv
          in Inr (if k + 1 = n then handle_end_filters j s sv1 else execute_filters trace j (k + 1) s sv1))"

datatype rest_event = Arrive nat | Answer nat nat nat

text \<open>A request arrives, or filter \<open>k\<close> has decided about request \<open>i\<close>.  The exception ends the task that
  called back.\<close>

fun rest_step :: "nat \<Rightarrow> (nat \<Rightarrow> string) \<Rightarrow> rest_event \<Rightarrow> server \<Rightarrow> server" where
  "rest_step n trace (Arrive i) sv = receive_request n trace i sv"
| "rest_step n trace (Answer k i s) sv =
     (if (k, i) \<in> set (sv_working sv) then
        let sv1 = sv\<lparr> sv_working := remove1 (k, i) (sv_working sv) \<rparr>
        in case call_to_callback n trace k (trace i) s sv1 of Inr sv2 \<Rightarrow> sv2 | Inl e \<Rightarrow> sv1
      else sv)"

definition rest_run :: "nat \<Rightarrow> (nat \<Rightarrow> string) \<Rightarrow> rest_event list \<Rightarrow> server" where
  "rest_run n trace evs = fold (rest_step n trace) evs new_server"

section \<open>The response\<close>

definition error_response :: "string \<Rightarrow> string \<Rightarrow> string \<Rightarrow> nat \<Rightarrow> nat \<times> string" where
  "error_response reason details buffer status_code =
     (if status_code \<noteq> 0 then status_code else 404,
      if reason \<noteq> [] then
        ''{'' @ [CHR 0x22] @ ''reason'' @ [CHR 0x22] @ '': '' @ [CHR 0x22] @ erase_all CHR 0x22 reason
        @ (if details \<noteq> []
           then [CHR 0x22] @ '','' @ [CHR 0x22] @ ''details'' @ [CHR 0x22] @ '': '' @ [CHR 0x22] @ erase_all CHR 0x22 details
           else [])
        @ [CHR 0x22] @ ''}''
      else buffer)"

definition REASON_BAD_REQUEST :: string where
  "REASON_BAD_REQUEST = ''The request is not well formed''"

definition REASON_MALFORMED_HEADER :: string where
  "REASON_MALFORMED_HEADER = ''Malformed header''"

text \<open>What a refused request gets: texts for the details of headers are arguments.\<close>

definition refused_response :: "string \<Rightarrow> string \<Rightarrow> nat \<Rightarrow> nat \<times> string" where
  "refused_response details_service details_path status =
     (if status = 406 then error_response REASON_BAD_REQUEST ''The Accept header in the request is not supported'' [] 406
      else if status = 415 then error_response REASON_BAD_REQUEST ''Unsupported Media Type (only support application/json)'' [] 415
      else if status = 1000 then error_response REASON_MALFORMED_HEADER details_service [] 400
      else if status = 1001 then error_response REASON_MALFORMED_HEADER details_path [] 400
      else if status = 1002 then error_response REASON_MALFORMED_HEADER ''Forbidden characters'' [] 400
      else error_response REASON_BAD_REQUEST [] [] status)"

text \<open>\<open>e.what()\<close> of an exception is a parameter, \<open>what\<close>.\<close>

definition handle_request ::
  "regex_lib \<Rightarrow> (cxx_exn \<Rightarrow> string) \<Rightarrow> ('h \<Rightarrow> request \<Rightarrow> (string, string) std_map \<Rightarrow> (nat \<times> string) result)
   \<Rightarrow> (string, 'h resource_handler) std_map \<Rightarrow> request \<Rightarrow> nat \<times> string" where
  "handle_request rx what run handlers q =
     (case bind_exn (find_handler rx (in_method q @ '' '' @ in_original_resource q) handlers []) (\<lambda>h.
             case h of None \<Rightarrow> Inr (error_response REASON_BAD_REQUEST [] [] 0) | Some (f, url_args) \<Rightarrow> run f q url_args) of
        Inr r \<Rightarrow> r
      | Inl e \<Rightarrow> error_response REASON_BAD_REQUEST (what e) [] 0)"

section \<open>Only requests that all filters accept are handled\<close>

lemma callbacks_set [simp]: "callbacks (set_callbacks k m sv) k' = (if k' = k then m else callbacks sv k')"
  by (simp add: callbacks_def set_callbacks_def)

lemma callbacks_update [simp]:
  "callbacks (sv\<lparr> sv_working := w \<rparr>) k = callbacks sv k" "callbacks (sv\<lparr> sv_log := l \<rparr>) k = callbacks sv k"
  "callbacks new_server k = []"
  by (simp_all add: callbacks_def new_server_def)

lemma sv_fields [simp]:
  "sv_log (set_callbacks k m sv) = sv_log sv" "sv_working (set_callbacks k m sv) = sv_working sv"
  "sv_log (sv\<lparr> sv_working := w \<rparr>) = sv_log sv"
  by (simp_all add: set_callbacks_def)

text \<open>A registered callback is that of the request with its trace identifier, and the filters before
  have accepted that request; so have all filters for a handled request.\<close>

definition accepted_upto :: "rest_event list \<Rightarrow> nat \<Rightarrow> nat \<Rightarrow> bool" where
  "accepted_upto evs k i \<longleftrightarrow> (\<forall>k' < k. Answer k' i 200 \<in> set evs)"

definition server_ok :: "nat \<Rightarrow> (nat \<Rightarrow> string) \<Rightarrow> rest_event list \<Rightarrow> server \<Rightarrow> bool" where
  "server_ok n trace evs sv \<longleftrightarrow>
     (\<forall>k t j. map_find (callbacks sv k) t = Some j \<longrightarrow> trace j = t \<and> accepted_upto evs k j)
     \<and> (\<forall>k. map_ok (callbacks sv k)) \<and> (\<forall>i. (i, Handled) \<in> set (sv_log sv) \<longrightarrow> accepted_upto evs n i)"

lemma server_okD:
  assumes "server_ok n trace evs sv"
  shows "map_find (callbacks sv k) t = Some j \<Longrightarrow> trace j = t \<and> accepted_upto evs k j" "map_ok (callbacks sv k)"
    "(i, Handled) \<in> set (sv_log sv) \<Longrightarrow> accepted_upto evs n i"
  using assms unfolding server_ok_def by blast+

lemma server_okI:
  assumes "\<And>k t j. map_find (callbacks sv k) t = Some j \<Longrightarrow> trace j = t \<and> accepted_upto evs k j" "\<And>k. map_ok (callbacks sv k)"
    "\<And>i. (i, Handled) \<in> set (sv_log sv) \<Longrightarrow> accepted_upto evs n i"
  shows "server_ok n trace evs sv"
  using assms unfolding server_ok_def by blast

lemma accepted_mono: "accepted_upto evs k i \<Longrightarrow> set evs \<subseteq> set evs' \<Longrightarrow> accepted_upto evs' k i"
  by (auto simp: accepted_upto_def)

lemma accepted_Suc: "accepted_upto evs (Suc k) i \<longleftrightarrow> accepted_upto evs k i \<and> Answer k i 200 \<in> set evs"
  by (auto simp: accepted_upto_def less_Suc_eq)

lemma server_ok_mono: "server_ok n trace evs sv \<Longrightarrow> set evs \<subseteq> set evs' \<Longrightarrow> server_ok n trace evs' sv"
  unfolding server_ok_def by (meson accepted_mono)

lemma server_ok_working [simp]: "server_ok n trace evs (sv\<lparr> sv_working := w \<rparr>) = server_ok n trace evs sv"
  by (simp add: server_ok_def)

lemma set_async_filter_ok:
  assumes "server_ok n trace evs sv" "accepted_upto evs k i"
  shows "server_ok n trace evs (set_async_filter k (trace i) i sv)"
proof (rule server_okI)
  have cb: "callbacks (set_async_filter k (trace i) i sv) k' = (if k' = k then map_insert (trace i) i (callbacks sv k) else callbacks sv k')" for k'
    by (simp add: set_async_filter_def)
  show "map_ok (callbacks (set_async_filter k (trace i) i sv) k')" for k'
    using server_okD(2) [OF assms(1)] by (simp add: cb)
  show "accepted_upto evs n i'" if "(i', Handled) \<in> set (sv_log (set_async_filter k (trace i) i sv))" for i'
    using that server_okD(3) [OF assms(1)] by (simp add: set_async_filter_def)
  show "trace j = t \<and> accepted_upto evs k' j" if f: "map_find (callbacks (set_async_filter k (trace i) i sv) k') t = Some j" for k' t j
  proof (cases "map_find (callbacks sv k') t = Some j")
    case True
    then show ?thesis by (rule server_okD(1) [OF assms(1)])
  next
    case False
    then have "k' = k \<and> t = trace i \<and> j = i"
      using f server_okD(2) [OF assms(1), of k] by (auto simp: cb omap.find_insert split: if_splits option.splits)
    then show ?thesis using assms(2) by simp
  qed
qed

lemma log_ok:
  assumes "server_ok n trace evs sv" "r = Handled \<Longrightarrow> accepted_upto evs n i"
  shows "server_ok n trace evs (log_outcome i r sv)"
  by (rule server_okI) (use assms(2) server_okD [OF assms(1)] in \<open>auto simp: log_outcome_def\<close>)

lemma erase_ok:
  assumes "server_ok n trace evs sv"
  shows "server_ok n trace evs (set_callbacks k (map_erase t (callbacks sv k)) sv)"
proof (rule server_okI)
  show "trace j = t' \<and> accepted_upto evs k' j"
    if "map_find (callbacks (set_callbacks k (map_erase t (callbacks sv k)) sv) k') t' = Some j" for k' t' j
    using that server_okD(1) [OF assms, of k' t' j] server_okD(2) [OF assms, of k]
    by (auto simp: omap.find_erase split: if_splits)
qed (use server_okD [OF assms] in auto)

lemma execute_filters_ok:
  assumes "server_ok n trace evs sv" "status = 200 \<Longrightarrow> accepted_upto evs k i"
  shows "server_ok n trace evs (execute_filters trace i k status sv)"
  using set_async_filter_ok [OF assms] log_ok [OF assms(1), of "Refused status"]
  by (cases "status = 200") (simp_all add: execute_filters_def handle_end_filters_def)

lemma rest_step_ok:
  assumes "inj trace" "server_ok n trace evs sv"
  shows "server_ok n trace (evs @ [ev]) (rest_step n trace ev sv)"
proof (cases ev)
  case (Arrive i)
  have ok: "server_ok n trace (evs @ [ev]) sv" using assms(2) by (rule server_ok_mono) auto
  show ?thesis
    using execute_filters_ok [OF ok, of 200 0 i] log_ok [OF ok, of Handled i]
    by (cases "n = 0") (simp_all add: Arrive receive_request_def accepted_upto_def)
next
  case (Answer k i s)
  let ?evs = "evs @ [ev]"
  let ?sv1 = "sv\<lparr> sv_working := remove1 (k, i) (sv_working sv) \<rparr>"
  have ok: "server_ok n trace ?evs sv" using server_ok_mono [OF assms(2), of ?evs] by auto
  then have ok1: "server_ok n trace ?evs ?sv1" by simp
  show ?thesis
  proof (cases "map_find (callbacks sv k) (trace i)")
    case None
    then show ?thesis using ok ok1 by (simp add: Answer call_to_callback_def)
  next
    case (Some j)
    then have j: "trace j = trace i" "accepted_upto ?evs k j" using server_okD(1) [OF ok] by blast+
    then have ji: "j = i" using assms(1) by (simp add: inj_eq)
    have acc: "s = 200 \<Longrightarrow> accepted_upto ?evs (k + 1) i" using j(2) ji by (simp add: accepted_Suc Answer)
    let ?sv2 = "set_callbacks k (map_erase (trace i) (callbacks ?sv1 k)) ?sv1"
    have ok2: "server_ok n trace ?evs ?sv2" by (rule erase_ok [OF ok1])
    have h: "server_ok n trace ?evs (handle_end_filters i s ?sv2)" if "k + 1 = n"
      using log_ok [OF ok2, of "if s \<noteq> 200 then Refused s else Handled" i] acc that
      by (cases "s = 200") (simp_all add: handle_end_filters_def)
    have "server_ok n trace ?evs (if k + 1 = n then handle_end_filters i s ?sv2 else execute_filters trace i (k + 1) s ?sv2)"
      using h execute_filters_ok [OF ok2 acc] by simp
    then show ?thesis
      using Some ji ok by (cases "Suc k = n") (simp_all add: Answer call_to_callback_def Let_def)
  qed
qed

lemma rest_run_ok:
  assumes "inj trace"
  shows "server_ok n trace evs (rest_run n trace evs)"
proof (induction evs rule: rev_induct)
  case Nil
  then show ?case by (simp add: rest_run_def server_ok_def) (simp add: new_server_def)
next
  case (snoc ev evs)
  then show ?case using rest_step_ok [OF assms snoc.IH, of ev] by (simp add: rest_run_def)
qed

text \<open>C13: Admission through all filters.  In the NGSI service, whose filters are authorisation and media
  types, take requests with different trace identifiers, any interleaving of arrivals and decisions, and
  decisions that are those of the two filters.  A request that is handled has passed the authorisation
  dialogue with status 200 and the media filter with 200; unless its address is open its service is
  well-formed, and its address has no forbidden character.\<close>

theorem handled_request_was_admitted:
  assumes "inj trace" "(i, Handled) \<in> set (sv_log (rest_run 2 trace evs))"
    and "list_all (\<lambda>ev. case ev of
           Answer k j s \<Rightarrow> if k = 0 then \<exists>rs. oauth_filter env conf (req j) rs = Inr (Answered s) else s = media_filter base (req j)
         | Arrive j \<Rightarrow> True) evs"
  shows "(\<exists>rs. oauth_filter env conf (req i) rs = Inr (Answered 200)) \<and> media_filter base (req i) = 200
    \<and> (open_resource base (req i) \<or> check_fiware_service_name (get_header (req i) ''Fiware-Service''))
    \<and> \<not> check_forbidden_characters IOTA_FORBIDDEN_CHARACTERS (in_resource (req i))"
proof -
  have "accepted_upto evs 2 i" using server_okD(3) [OF rest_run_ok [OF assms(1)] assms(2)] .
  then have e: "Answer 0 i 200 \<in> set evs" "Answer 1 i 200 \<in> set evs" by (simp_all add: accepted_upto_def)
  have o: "\<exists>rs. oauth_filter env conf (req i) rs = Inr (Answered 200)"
    using assms(3) e(1) unfolding list_all_iff by fastforce
  have m: "media_filter base (req i) = 200"
    using assms(3) e(2) unfolding list_all_iff by fastforce
  have "open_resource base (req i) \<or> check_fiware_service_name (get_header (req i) ''Fiware-Service'')"
    using m by (auto simp: media_filter_def Let_def split: if_splits)
  moreover have "\<not> check_forbidden_characters IOTA_FORBIDDEN_CHARACTERS (in_resource (req i))"
    using m by (auto simp: media_filter_def Let_def split: if_splits option.splits)
  ultimately show ?thesis using o m by blast
qed

theorem handled_request_was_admitted_witness:
  "(0, Handled) \<in> set (sv_log (rest_run 2 (\<lambda>i. replicate i CHR ''t'') [Arrive 0, Arrive 1, Answer 0 1 401, Answer 0 0 200, Answer 1 0 200]))
   \<and> media_filter ''/iot'' sample_request = 200"
proof -
  let ?tr = "\<lambda>i::nat. replicate i CHR ''t''" and ?evs = "[Arrive 0, Arrive 1, Answer 0 1 401, Answer 0 0 200, Answer 1 0 200]"
  have tr: "inj ?tr" by (rule injI) (metis length_replicate)
  have h: "(0, Handled) \<in> set (sv_log (rest_run 2 ?tr ?evs))" by code_simp
  have m: "media_filter ''/iot'' sample_request = 200" by code_simp
  have "oauth_filter sample_filter_env sample_conf sample_request [None] = Inr (Answered 401)" by code_simp
  then have o: "\<exists>rs. oauth_filter sample_filter_env sample_conf sample_request rs = Inr (Answered 401)"
    "\<exists>rs. oauth_filter sample_filter_env sample_conf sample_request rs = Inr (Answered 200)"
    using sample_admitted by blast+
  have "list_all (\<lambda>ev. case ev of
       Answer k j s \<Rightarrow> if k = 0 then \<exists>rs. oauth_filter sample_filter_env sample_conf sample_request rs = Inr (Answered s)
                       else s = media_filter ''/iot'' sample_request
     | Arrive j \<Rightarrow> True) ?evs"
    using o m by simp
  then have "media_filter ''/iot'' sample_request = 200"
    using handled_request_was_admitted [OF tr h, of sample_filter_env sample_conf "\<lambda>j. sample_request" "''/iot''"] by blast
  then show ?thesis using h by (rule conjI [rotated])
qed

text \<open>A shared trace identifier admits a request that was not authorised.  If two requests have the
  same identifier, which a client can achieve when the header it sends itself is the one that is found,
  the permission of the second is given to the first, which is then handled although the authorisation
  filter never decided about it.\<close>

theorem shared_trace_admits_other_request:
  assumes "trace i = trace j" "i \<noteq> j"
  shows "(i, Handled) \<in> set (sv_log (rest_run 2 trace [Arrive i, Arrive j, Answer 0 j 200, Answer 1 i 200]))"
  using assms
  by (simp add: rest_run_def receive_request_def execute_filters_def set_async_filter_def call_to_callback_def
      handle_end_filters_def log_outcome_def)

theorem shared_trace_admits_other_request_witness:
  "(0, Handled) \<in> set (sv_log (rest_run 2 (\<lambda>i. ''T'') [Arrive 0, Arrive 1, Answer 0 1 200, Answer 1 0 200]))"
  using shared_trace_admits_other_request [of "\<lambda>i. ''T''" 0 1] by simp

end
