(* ===== verification/Riot_Conf.thy ===== *)
theory Riot_Conf
  imports Rest_Filter Ngsi_Json "HOL-Library.Multiset"
begin

text \<open>
  The configuration (\<^verbatim>\<open>src/rest/riot_conf.cc\<close>): a JSON document with fields of the agent and an array of
  resources, each with fields and an array of services.  The document is kept in parts, which the
  lookups search; it can be replaced as a whole and resource by resource.  Reading and printing of JSON
  are parameters, and the file is a part of the state.
\<close>

section \<open>The code\<close>

subsection \<open>Resources\<close>

record Resource =
  re_fields :: "(string \<times> json) list"
  re_services :: "(string, json) std_map"
  re_doc :: json

definition new_Resource :: Resource where
  "new_Resource = \<lparr> re_fields = [], re_services = [], re_doc = JNull \<rparr>"

record Configurator =
  cg_document :: json
  cg_root :: "(string \<times> json) list option"
  cg_resources :: "(string, Resource) std_map"
  cg_pep_rules :: "(string \<times> string \<times> string) list"
  cg_identifier :: string
  cg_error :: string
  cg_file :: "string option"

definition new_Configurator :: "string option \<Rightarrow> Configurator" where
  "new_Configurator file = \<lparr> cg_document = JNull, cg_root = None, cg_resources = [], cg_pep_rules = [],
     cg_identifier = [], cg_error = ''error, no config file was initializated'', cg_file = file \<rparr>"

text \<open>\<open>ce_pretty\<close> is the output of the pretty writer, \<open>ce_offset\<close> the printed offset of a parse error, and
  \<open>ce_writable\<close> tells whether the file can be opened for writing.\<close>

record conf_env =
  ce_json :: json_lib
  ce_pretty :: "json \<Rightarrow> string"
  ce_offset :: "string \<Rightarrow> string"
  ce_writable :: bool

text \<open>A part of a document is printed and read again.\<close>

definition reparse :: "conf_env \<Rightarrow> json \<Rightarrow> string + json" where
  "reparse env j = jl_parse (ce_json env) (c_str (ce_pretty env j))"

definition CONF_FILE_ERROR :: string where
  "CONF_FILE_ERROR = ''Configuration file with errors''"

definition RESPONSE_MESSAGE_NO_SERVICE :: string where
  "RESPONSE_MESSAGE_NO_SERVICE = ''The service does not exist''"

definition RESPONSE_MESSAGE_MORE_ONE_SERVICE :: string where
  "RESPONSE_MESSAGE_MORE_ONE_SERVICE = ''There are conflicts in provisioned service''"

definition RESPONSE_MESSAGE_DATA_NOT_FOUND :: string where
  "RESPONSE_MESSAGE_DATA_NOT_FOUND = ''Field or data not found''"

definition conf_error :: "string \<Rightarrow> string" where
  "conf_error what = CONF_FILE_ERROR @ '' ['' @ what @ '']''"

text \<open>A member that is present and a string.\<close>

definition string_member :: "json \<Rightarrow> string \<Rightarrow> string option result" where
  "string_member j name =
     bind_exn (HasMember j name) (\<lambda>h.
       if \<not> h then Inr None
       else bind_exn (member j name) (\<lambda>v.
         if IsString v then bind_exn (GetString v) (\<lambda>s. Inr (Some s)) else Inr None))"

fun check_service_fields :: "json \<Rightarrow> string list \<Rightarrow> string result" where
  "check_service_fields j [] = Inr []"
| "check_service_fields j (f # fs) =
     bind_exn (string_member j f) (\<lambda>m. if m = None then Inr (conf_error f) else check_service_fields j fs)"

definition check_service :: "json \<Rightarrow> string result" where
  "check_service service_obj =
     check_service_fields service_obj [''apikey'', ''service'', ''entity_type'', ''service_path'', ''cbroker'', ''token'']"

definition service_key :: "string \<Rightarrow> string \<Rightarrow> string" where
  "service_key service service_path = service @ '':'' @ service_path"

definition add_service :: "json \<Rightarrow> Resource \<Rightarrow> Resource result" where
  "add_service service res =
     bind_exn (member_string service ''service'') (\<lambda>s.
     bind_exn (member_string service ''service_path'') (\<lambda>p.
     Inr (res\<lparr> re_services := map_insert (service_key s p) service (re_services res) \<rparr>)))"

text \<open>A member that is present and an array.\<close>

definition array_member :: "(string \<times> json) list \<Rightarrow> string \<Rightarrow> json list option" where
  "array_member ms name = (case map_of ms name of Some (JArray vs) \<Rightarrow> Some vs | _ \<Rightarrow> None)"

definition members_but :: "string \<Rightarrow> (string \<times> json) list \<Rightarrow> (string \<times> json) list" where
  "members_but name ms = filter (\<lambda>m. c_str (fst m) \<noteq> name) ms"

fun check_services :: "conf_env \<Rightarrow> json list \<Rightarrow> Resource \<times> string \<Rightarrow> (Resource \<times> string) result" where
  "check_services env [] acc = Inr acc"
| "check_services env (v # vs) (res, err) =
     (case reparse env v of
        Inl e \<Rightarrow> check_services env vs (res, conf_error e)
      | Inr service_d \<Rightarrow>
          bind_exn (check_service service_d) (\<lambda>local_error.
            if local_error = []
            then bind_exn (add_service service_d res) (\<lambda>res'. check_services env vs (res', err))
            else check_services env vs (res, local_error)))"

definition check_resource :: "conf_env \<Rightarrow> json \<Rightarrow> (Resource \<times> string) result" where
  "check_resource env resource_obj =
     bind_exn (HasMember resource_obj ''resource'') (\<lambda>h.
       if \<not> h then Inr (new_Resource, conf_error ''resource field not found'')
       else case resource_obj of
              JObject ms \<Rightarrow>
                let res = new_Resource\<lparr> re_fields := members_but ''services'' ms \<rparr>
                in (case array_member ms ''services'' of
                      Some vs \<Rightarrow> check_services env vs (res, [])
                    | None \<Rightarrow> Inr (res, []))
            | _ \<Rightarrow> Inl (assertion_failure ''IsObject''))"

subsection \<open>The document\<close>

text \<open>\<open>insert\<close> keeps a resource that is already there.\<close>

definition add_resource :: "Resource \<Rightarrow> Configurator \<Rightarrow> Configurator result" where
  "add_resource res cf =
     bind_exn (member_string (JObject (re_fields res)) ''resource'') (\<lambda>name.
     Inr (cf\<lparr> cg_resources := map_insert name res (cg_resources cf) \<rparr>))"

definition remove_resource :: "string \<Rightarrow> Configurator \<Rightarrow> Configurator" where
  "remove_resource name cf = cf\<lparr> cg_resources := map_erase name (cg_resources cf) \<rparr>"

fun check_resources :: "conf_env \<Rightarrow> json list \<Rightarrow> string \<times> Configurator \<Rightarrow> (string \<times> Configurator) result" where
  "check_resources env [] acc = Inr acc"
| "check_resources env (v # vs) (err, cf) =
     (if \<not> IsObject v then check_resources env vs (conf_error ''resource is not a JSON object'', cf)
      else case reparse env v of
             Inl e \<Rightarrow> check_resources env vs (conf_error e, cf)
           | Inr resource_d \<Rightarrow>
               bind_exn (check_resource env resource_d) (\<lambda>(res, local_error).
                 if local_error = []
                 then bind_exn (add_resource res cf) (\<lambda>cf'. check_resources env vs (err, cf'))
                 else check_resources env vs (local_error, cf)))"

text \<open>A rule needs action, verb and address, examined in this order.\<close>

definition pep_rule_of :: "json \<Rightarrow> (string \<times> string \<times> string) option result" where
  "pep_rule_of r =
     bind_exn (string_member r ''action'') (\<lambda>a. case a of None \<Rightarrow> Inr None | Some action \<Rightarrow>
     bind_exn (string_member r ''verb'') (\<lambda>v. case v of None \<Rightarrow> Inr None | Some verb \<Rightarrow>
     bind_exn (string_member r ''uri'') (\<lambda>u. case u of None \<Rightarrow> Inr None | Some uri \<Rightarrow>
     Inr (Some (action, verb, uri)))))"

fun read_pep_rules :: "json list \<Rightarrow> (string \<times> string \<times> string) list \<Rightarrow> (string \<times> string \<times> string) list result" where
  "read_pep_rules [] rules = Inr rules"
| "read_pep_rules (r # rs) rules =
     bind_exn (pep_rule_of r) (\<lambda>p.
       read_pep_rules rs (case p of None \<Rightarrow> rules | Some (action, verb, uri) \<Rightarrow> multimap_insert action (verb, uri) rules))"

definition check_configuration_json :: "conf_env \<Rightarrow> json \<Rightarrow> Configurator \<Rightarrow> (string \<times> Configurator) result" where
  "check_configuration_json env config_doc cf =
     (case config_doc of
        JObject ms \<Rightarrow>
          let root = members_but ''resources'' ms;
              cf1 = cf\<lparr> cg_root := Some root \<rparr>
          in (case array_member ms ''resources'' of
                Some vs \<Rightarrow>
                  bind_exn (check_resources env vs ([], cf1)) (\<lambda>(err, cf2).
                    case array_member root ''pep_rules'' of
                      Some rs \<Rightarrow>
                        bind_exn (read_pep_rules rs (cg_pep_rules cf2)) (\<lambda>rules.
                        Inr (err, cf2\<lparr> cg_pep_rules := rules \<rparr>))
                    | None \<Rightarrow> Inr (err, cf2))
              | None \<Rightarrow> Inr (conf_error ''resources is not a JSON array'', cf1))
      | _ \<Rightarrow> Inr (conf_error ''No JSON object'', cf))"

definition read_file :: "conf_env \<Rightarrow> string \<Rightarrow> Configurator \<Rightarrow> (string \<times> Configurator) result" where
  "read_file env text cf =
     (case jl_parse (ce_json env) (c_str text) of
        Inl e \<Rightarrow> let err = ''Configurator: '' @ e @ ''['' @ ce_offset env text @ '']'' in Inr (err, cf\<lparr> cg_error := err \<rparr>)
      | Inr tmp_doc \<Rightarrow>
          bind_exn (check_configuration_json env tmp_doc cf) (\<lambda>(err, cf').
          Inr (err, cf'\<lparr> cg_error := err, cg_document := (if err = [] then tmp_doc else JNull) \<rparr>)))"

definition reload :: "conf_env \<Rightarrow> Configurator \<Rightarrow> Configurator result" where
  "reload env cf =
     (case cg_file cf of
        Some text \<Rightarrow> bind_exn (read_file env text cf) (\<lambda>(_, cf'). Inr cf')
      | None \<Rightarrow> Inr cf)"

definition init_conf :: "conf_env \<Rightarrow> string \<Rightarrow> Configurator \<Rightarrow> Configurator result" where
  "init_conf env filename cf =
     (case cg_file cf of
        Some text \<Rightarrow> bind_exn (read_file env text cf) (\<lambda>(_, cf'). Inr cf')
      | None \<Rightarrow> Inr (cf\<lparr> cg_error := ''File does not exists: '' @ c_str filename \<rparr>))"

definition write_conf :: "conf_env \<Rightarrow> Configurator \<Rightarrow> Configurator result" where
  "write_conf env cf =
     (if ce_writable env then Inr (cf\<lparr> cg_file := Some (ce_pretty env (cg_document cf)) \<rparr>)
      else Inl (undefined_behaviour ''fopen''))"

text \<open>Nothing in \<open>read_file\<close> throws, so the handler of \<open>update_conf\<close> is not reached.\<close>

definition update_conf :: "conf_env \<Rightarrow> string \<Rightarrow> Configurator \<Rightarrow> (string \<times> Configurator) result" where
  "update_conf env text cf =
     bind_exn (read_file env text cf) (\<lambda>(err, cf').
       if err = [] then bind_exn (write_conf env cf') (\<lambda>cf''. Inr (err, cf''))
       else bind_exn (reload env cf') (\<lambda>cf''. Inr (err, cf'')))"

subsection \<open>Back to text\<close>

definition object_of :: "string + json \<Rightarrow> (string \<times> json) list result" where
  "object_of r = (case r of Inr (JObject ms) \<Rightarrow> Inr ms | _ \<Rightarrow> Inl (assertion_failure ''IsObject''))"

definition resource_get_value :: "conf_env \<Rightarrow> Resource \<Rightarrow> (json \<times> Resource) result" where
  "resource_get_value env res =
     (if re_doc res \<noteq> JNull then Inr (re_doc res, res)
      else bind_exn (object_of (reparse env (JObject (re_fields res)))) (\<lambda>ms.
           bind_exn (map_exn (\<lambda>s. bind_exn (object_of (reparse env s)) (\<lambda>o1. Inr (JObject o1)))
                      (map snd (re_services res))) (\<lambda>services.
           let doc = JObject (ms @ [(''services'', JArray services)])
           in Inr (doc, res\<lparr> re_doc := doc \<rparr>))))"

definition resource_get_string :: "conf_env \<Rightarrow> Resource \<Rightarrow> (string \<times> Resource) result" where
  "resource_get_string env res =
     bind_exn (resource_get_value env res) (\<lambda>(v, res'). Inr (c_str (ce_pretty env v), res'))"

fun all_resources :: "conf_env \<Rightarrow> (string, Resource) std_map \<Rightarrow> (json list \<times> (string, Resource) std_map) result" where
  "all_resources env [] = Inr ([], [])"
| "all_resources env ((name, res) # m) =
     bind_exn (resource_get_string env res) (\<lambda>(text, res').
     bind_exn (object_of (jl_parse (ce_json env) (c_str text))) (\<lambda>ms.
     bind_exn (all_resources env m) (\<lambda>(vs, m').
     Inr (JObject ms # vs, (name, res') # m'))))"

definition getAll :: "conf_env \<Rightarrow> Configurator \<Rightarrow> (string \<times> Configurator) result" where
  "getAll env cf =
     (if cg_document cf \<noteq> JNull then Inr (c_str (ce_pretty env (cg_document cf)), cf)
      else bind_exn (case cg_root cf of None \<Rightarrow> Inr [] | Some ms \<Rightarrow> object_of (reparse env (JObject ms))) (\<lambda>root.
           bind_exn (all_resources env (cg_resources cf)) (\<lambda>(vs, rs).
           let doc = JObject (root @ [(''resources'', JArray vs)])
           in Inr (c_str (ce_pretty env doc), cf\<lparr> cg_document := doc, cg_resources := rs \<rparr>))))"

definition add_resource_text :: "conf_env \<Rightarrow> string \<Rightarrow> string \<Rightarrow> Configurator \<Rightarrow> (string \<times> Configurator) result" where
  "add_resource_text env resource_name json cf =
     (case jl_parse (ce_json env) (c_str json) of
        Inl e \<Rightarrow> Inr (e, cf)
      | Inr d \<Rightarrow>
          bind_exn (HasMember d ''resource'') (\<lambda>h.
          bind_exn (check_resource env
             (case d of JObject ms \<Rightarrow> if h then d else JObject (ms @ [(''resource'', JString resource_name)]) | _ \<Rightarrow> d))
             (\<lambda>(res, err).
                if err \<noteq> [] then Inr (err, cf)
                else bind_exn (add_resource res (remove_resource resource_name cf)) (\<lambda>cf1.
                     bind_exn (getAll env (cf1\<lparr> cg_document := JNull \<rparr>)) (\<lambda>(text, cf2).
                     bind_exn (update_conf env text cf2) (\<lambda>(_, cf3). Inr ([], cf3)))))))"

subsection \<open>Lookups\<close>

definition no_service :: "string \<Rightarrow> cxx_exn" where
  "no_service text = IotaException RESPONSE_MESSAGE_NO_SERVICE text 404"

fun scan_apikey :: "string \<Rightarrow> (string, json) std_map \<Rightarrow> json option result" where
  "scan_apikey apikey [] = Inr None"
| "scan_apikey apikey ((k, d) # m) =
     bind_exn (string_member d ''apikey'') (\<lambda>a. if a = Some apikey then Inr (Some d) else scan_apikey apikey m)"

definition get_service_by_apikey :: "string \<Rightarrow> Resource \<Rightarrow> json result" where
  "get_service_by_apikey apikey res =
     bind_exn (scan_apikey apikey (re_services res)) (\<lambda>r.
       case r of Some d \<Rightarrow> Inr d | None \<Rightarrow> Inl (no_service (''Service by ApiKey: not found['' @ apikey @ '']'')))"

text \<open>The services whose key starts with the name and a colon.\<close>

fun scan_service :: "string \<Rightarrow> json option \<Rightarrow> (string, json) std_map \<Rightarrow> json option result" where
  "scan_service service found [] = Inr found"
| "scan_service service found ((k, d) # m) =
     (if prefix (service @ '':'') k
      then if found \<noteq> None
           then Inl (IotaException RESPONSE_MESSAGE_MORE_ONE_SERVICE (''Service : more than one '' @ service @ '' '') 409)
           else scan_service service (Some d) m
      else scan_service service found m)"

definition get_service :: "string \<Rightarrow> string \<Rightarrow> Resource \<Rightarrow> json result" where
  "get_service service service_path res =
     (if service_path = [] then
        bind_exn (scan_service service None (re_services res)) (\<lambda>r.
          case r of Some d \<Rightarrow> Inr d | None \<Rightarrow> Inl (no_service ('' '' @ service @ '' /# '')))
      else case map_find (re_services res) (service_key service service_path) of
             Some d \<Rightarrow> Inr d
           | None \<Rightarrow> Inl (no_service (''Service not found[service:'' @ service @ '' service_path:'' @ service_path @ '']'')))"

definition get_all_servicepath :: "string \<Rightarrow> Resource \<Rightarrow> string list result" where
  "get_all_servicepath service res =
     map_exn (\<lambda>e. member_string (snd e) ''service_path'')
       (filter (\<lambda>e. prefix (service @ '':'') (fst e)) (re_services res))"

definition getServicebyApiKey :: "string \<Rightarrow> string \<Rightarrow> Configurator \<Rightarrow> json result" where
  "getServicebyApiKey resource apiKey cf =
     (case map_find (cg_resources cf) resource of
        Some res \<Rightarrow> get_service_by_apikey apiKey res
      | None \<Rightarrow> Inl (no_service (''Service by ApiKey: not found['' @ resource @ '','' @ apiKey @ '']'')))"

definition getService :: "string \<Rightarrow> string \<Rightarrow> string \<Rightarrow> Configurator \<Rightarrow> json result" where
  "getService resource service service_path cf =
     (case map_find (cg_resources cf) resource of
        Some res \<Rightarrow> get_service service service_path res
      | None \<Rightarrow> Inl (no_service (''Service by Service: not found['' @ resource @ '','' @ service @ '']'')))"

definition getAllServicePath :: "string \<Rightarrow> string \<Rightarrow> Configurator \<Rightarrow> string list result" where
  "getAllServicePath resource service cf =
     (case map_find (cg_resources cf) resource of
        Some res \<Rightarrow> get_all_servicepath service res
      | None \<Rightarrow> Inl (IotaException ''service_path''
          (''Service get all Service Path: not found['' @ resource @ '','' @ service @ '']'') 500))"

definition getResource :: "conf_env \<Rightarrow> string \<Rightarrow> Configurator \<Rightarrow> string result" where
  "getResource env resource cf =
     (case map_find (cg_resources cf) resource of
        Some res \<Rightarrow> bind_exn (resource_get_string env res) (\<lambda>(s, _). Inr s)
      | None \<Rightarrow> Inl (no_service (''Resource: not found['' @ resource @ '']'')))"

definition getResourceObject :: "conf_env \<Rightarrow> string \<Rightarrow> Configurator \<Rightarrow> json result" where
  "getResourceObject env resource cf =
     (case map_find (cg_resources cf) resource of
        Some res \<Rightarrow> bind_exn (resource_get_value env res) (\<lambda>(v, _). Inr v)
      | None \<Rightarrow> Inl (no_service (''Resource: not found['' @ resource @ '']'')))"

definition root_member :: "string \<Rightarrow> Configurator \<Rightarrow> json option" where
  "root_member field cf = (case cg_root cf of Some ms \<Rightarrow> map_of ms field | None \<Rightarrow> None)"

definition conf_get :: "string \<Rightarrow> Configurator \<Rightarrow> json result" where
  "conf_get field cf =
     (case root_member field cf of
        Some v \<Rightarrow> Inr v
      | None \<Rightarrow>
          bind_exn (if field = ''resources'' then HasMember (cg_document cf) field else Inr False) (\<lambda>h.
            if h then member (cg_document cf) field
            else Inl (runtime_error (''Not found['' @ field @ '']''))))"

definition conf_get_map :: "conf_env \<Rightarrow> string \<Rightarrow> Configurator \<Rightarrow> (string, string) std_map result" where
  "conf_get_map env field cf =
     (case root_member field cf of
        Some v \<Rightarrow> get_map_from_rapidjson (ce_json env) v []
      | None \<Rightarrow> Inl (IotaException RESPONSE_MESSAGE_DATA_NOT_FOUND (''Not found['' @ field @ '']'') 404))"

definition get_iotagent_identifier :: "Configurator \<Rightarrow> (string \<times> Configurator) result" where
  "get_iotagent_identifier cf =
     (if cg_identifier cf \<noteq> [] then Inr (cg_identifier cf, cf)
      else case conf_get ''identifier'' cf of
             Inr v \<Rightarrow> if IsString v then bind_exn (GetString v) (\<lambda>s. Inr (s, cf\<lparr> cg_identifier := s \<rparr>)) else Inr ([], cf)
           | Inl _ \<Rightarrow> Inr ([], cf))"


section \<open>What a configuration keeps\<close>

definition conf_ok :: "Configurator \<Rightarrow> bool" where
  "conf_ok cf \<longleftrightarrow> map_ok (cg_resources cf) \<and> list_all (\<lambda>e. map_ok (re_services (snd e))) (cg_resources cf)"

definition conf_extends :: "Configurator \<Rightarrow> Configurator \<Rightarrow> bool" where
  "conf_extends cf cf' \<longleftrightarrow> conf_ok cf'
     \<and> (\<forall>r res. map_find (cg_resources cf) r = Some res \<longrightarrow> map_find (cg_resources cf') r = Some res)
     \<and> mset (cg_pep_rules cf) \<subseteq># mset (cg_pep_rules cf')"

lemma conf_extends_refl [intro]: "conf_ok cf \<Longrightarrow> conf_extends cf cf"
  by (simp add: conf_extends_def)

lemma conf_extends_trans [trans]: "conf_extends a b \<Longrightarrow> conf_extends b c \<Longrightarrow> conf_extends a c"
  unfolding conf_extends_def by (meson subset_mset.order_trans)

lemma conf_extends_update:
  "cg_resources b = cg_resources a \<Longrightarrow> cg_pep_rules b = cg_pep_rules a \<Longrightarrow> conf_ok a \<Longrightarrow> conf_extends a b"
  by (simp add: conf_extends_def conf_ok_def)

lemma check_services_map_ok:
  "check_services env vs (res, err) = Inr (res', err') \<Longrightarrow> map_ok (re_services res) \<Longrightarrow> map_ok (re_services res')"
proof (induction vs arbitrary: res err)
  case (Cons v vs)
  show ?case
  proof (cases "reparse env v")
    case (Inl e)
    then show ?thesis using Cons by auto
  next
    case (Inr d)
    then obtain l where l: "check_service d = Inr l" using Cons.prems by (auto simp: bind_exn_eq_Inr_iff)
    show ?thesis
    proof (cases "l = []")
      case True
      then obtain res1 where a: "add_service d res = Inr res1" "check_services env vs (res1, err) = Inr (res', err')"
        using Cons.prems Inr l by (auto simp: bind_exn_eq_Inr_iff)
      from a(1) have "map_ok (re_services res1)"
        using Cons.prems(2) by (auto simp: add_service_def bind_exn_eq_Inr_iff)
      then show ?thesis using Cons.IH a(2) by blast
    qed (use Cons Inr l in auto)
  qed
qed simp

lemma check_resource_map_ok: "check_resource env d = Inr (res, err) \<Longrightarrow> map_ok (re_services res)"
  by (auto simp: check_resource_def bind_exn_eq_Inr_iff new_Resource_def Let_def
      split: if_splits json.splits option.splits dest!: check_services_map_ok)

lemma set_map_insert_ok: "list_all P m \<Longrightarrow> P (k, v) \<Longrightarrow> list_all P (map_insert k v m)"
  using set_map_insert [of k v m] by (auto simp: list_all_iff)

lemma add_resource_extends:
  assumes "add_resource res cf = Inr cf'" "conf_ok cf" "map_ok (re_services res)"
  shows "conf_extends cf cf'"
proof -
  obtain name where n: "cf' = cf\<lparr> cg_resources := map_insert name res (cg_resources cf) \<rparr>"
    using assms(1) by (auto simp: add_resource_def bind_exn_eq_Inr_iff)
  show ?thesis
    using assms(2,3) unfolding n conf_extends_def conf_ok_def
    by (auto simp: omap.find_insert intro: set_map_insert_ok)
qed

lemma check_resources_extends:
  "check_resources env vs (err, cf) = Inr (err', cf') \<Longrightarrow> conf_ok cf \<Longrightarrow> conf_extends cf cf'"
proof (induction vs arbitrary: cf err)
  case (Cons v vs)
  show ?case
  proof (cases "IsObject v \<and> (\<exists>d. reparse env v = Inr d)")
    case True
    then obtain d where d: "reparse env v = Inr d" by blast
    obtain res l where c: "check_resource env d = Inr (res, l)"
      using Cons.prems True d by (auto simp: bind_exn_eq_Inr_iff)
    show ?thesis
    proof (cases "l = []")
      case True
      then obtain cf1 where a: "add_resource res cf = Inr cf1" "check_resources env vs (err, cf1) = Inr (err', cf')"
        using Cons.prems \<open>IsObject v \<and> _\<close> d c by (auto simp: bind_exn_eq_Inr_iff)
      have e: "conf_extends cf cf1"
        by (rule add_resource_extends [OF a(1) Cons.prems(2) check_resource_map_ok [OF c]])
      then have "conf_ok cf1" by (simp add: conf_extends_def)
      then show ?thesis using conf_extends_trans [OF e] Cons.IH [OF a(2)] by blast
    qed (use Cons True d c in auto)
  next
    case False
    then show ?thesis using Cons by (auto split: sum.splits if_splits)
  qed
qed auto

lemma mset_multimap_insert: "mset (multimap_insert k v m) = add_mset (k, v) (mset m)"
  unfolding multimap_insert_def
  by (metis mset_append mset.simps(2) takeWhile_dropWhile_id union_mset_add_mset_right)

lemma read_pep_rules_grow: "read_pep_rules rs rules = Inr rules' \<Longrightarrow> mset rules \<subseteq># mset rules'"
proof (induction rs arbitrary: rules)
  case (Cons r rs)
  have step: "mset rules \<subseteq># mset rules'" if "read_pep_rules rs (multimap_insert a b rules) = Inr rules'" for a b
  proof -
    have "mset rules \<subseteq># mset (multimap_insert a b rules)"
      by (metis add_mset_add_single mset_multimap_insert mset_subset_eq_add_left)
    then show ?thesis using Cons.IH [OF that] by (rule subset_mset.order_trans)
  qed
  obtain p where p: "pep_rule_of r = Inr p"
    "read_pep_rules rs (case p of None \<Rightarrow> rules | Some (a, v, u) \<Rightarrow> multimap_insert a (v, u) rules) = Inr rules'"
    using Cons.prems by (auto simp: bind_exn_eq_Inr_iff)
  show ?case
  proof (cases p)
    case None
    then show ?thesis using Cons.IH p(2) by simp
  next
    case (Some q)
    then show ?thesis using p(2) step by (cases q) simp
  qed
qed simp

lemma check_configuration_extends:
  assumes "check_configuration_json env j cf = Inr (err, cf')" "conf_ok cf"
  shows "conf_extends cf cf'"
proof (cases j)
  case (JObject ms)
  let ?cf1 = "cf\<lparr> cg_root := Some (members_but ''resources'' ms) \<rparr>"
  have e1: "conf_extends cf ?cf1" using assms(2) by (intro conf_extends_update) simp_all
  have ok1: "conf_ok ?cf1" using assms(2) by (simp add: conf_ok_def)
  show ?thesis
  proof (cases "array_member ms ''resources''")
    case (Some vs)
    obtain e cf2 where c: "check_resources env vs ([], ?cf1) = Inr (e, cf2)"
      using assms(1) JObject Some by (auto simp: check_configuration_json_def Let_def bind_exn_eq_Inr_iff)
    have e2: "conf_extends cf cf2" by (rule conf_extends_trans [OF e1 check_resources_extends [OF c ok1]])
    have f: "(case array_member (members_but ''resources'' ms) ''pep_rules'' of
        None \<Rightarrow> Inr (e, cf2)
      | Some rs \<Rightarrow> bind_exn (read_pep_rules rs (cg_pep_rules cf2)) (\<lambda>rules. Inr (e, cf2\<lparr> cg_pep_rules := rules \<rparr>)))
      = Inr (err, cf')"
      using assms(1) unfolding check_configuration_json_def JObject json.case Let_def Some option.case c bind_exn_simps prod.case
      by (cases "array_member (members_but ''resources'' ms) ''pep_rules''") simp_all
    show ?thesis
    proof (cases "array_member (members_but ''resources'' ms) ''pep_rules''")
      case None
      then show ?thesis using f e2 by simp
    next
      case (Some rs)
      then obtain rules where r: "read_pep_rules rs (cg_pep_rules cf2) = Inr rules"
        using f by (cases "read_pep_rules rs (cg_pep_rules cf2)") simp_all
      then have "cf' = cf2\<lparr> cg_pep_rules := rules \<rparr>" using f Some by simp
      then have "conf_extends cf2 cf'"
        using e2 read_pep_rules_grow [OF r] by (simp add: conf_extends_def conf_ok_def)
      then show ?thesis using e2 conf_extends_trans by blast
    qed
  next
    case None
    then show ?thesis using assms(1) JObject e1 by (auto simp: check_configuration_json_def Let_def)
  qed
qed (use assms in \<open>auto simp: check_configuration_json_def\<close>)

lemma read_file_extends:
  assumes "read_file env text cf = Inr (err, cf')" "conf_ok cf"
  shows "conf_extends cf cf'"
proof (cases "jl_parse (ce_json env) (c_str text)")
  case (Inl e)
  then show ?thesis
    using assms by (auto simp: read_file_def Let_def intro!: conf_extends_update)
next
  case (Inr j)
  then obtain cf1 e where c: "check_configuration_json env j cf = Inr (e, cf1)"
    and f: "cf' = cf1\<lparr> cg_error := e, cg_document := (if e = [] then j else JNull) \<rparr>"
    using assms by (auto simp: read_file_def bind_exn_eq_Inr_iff)
  have e: "conf_extends cf cf1" by (rule check_configuration_extends [OF c assms(2)])
  have "conf_extends cf1 cf'" using e unfolding f by (intro conf_extends_update) (simp_all add: conf_extends_def)
  then show ?thesis using e conf_extends_trans by blast
qed

lemma reload_extends: "reload env cf = Inr cf' \<Longrightarrow> conf_ok cf \<Longrightarrow> conf_extends cf cf'"
  by (auto simp: reload_def bind_exn_eq_Inr_iff split: option.splits intro: read_file_extends)

lemma update_conf_extends:
  assumes "update_conf env text cf = Inr (err, cf')" "conf_ok cf"
  shows "conf_extends cf cf'"
proof -
  obtain cf1 where r: "read_file env text cf = Inr (err, cf1)"
    and w: "if err = [] then write_conf env cf1 = Inr cf' else reload env cf1 = Inr cf'"
    using assms(1) by (auto simp: update_conf_def bind_exn_eq_Inr_iff split: if_splits)
  have e: "conf_extends cf cf1" by (rule read_file_extends [OF r assms(2)])
  then have ok: "conf_ok cf1" by (simp add: conf_extends_def)
  have "conf_extends cf1 cf'"
    using w ok by (auto simp: write_conf_def split: if_splits intro: reload_extends conf_extends_update)
  then show ?thesis using e conf_extends_trans by blast
qed


section \<open>Sample configurations\<close>

definition sample_service_doc :: "string \<Rightarrow> json" where
  "sample_service_doc x = JObject [(''apikey'', JString ''key''), (''service'', JString ''s''), (''entity_type'', JString ''thing''),
     (''service_path'', JString ''/p''), (''cbroker'', JString ''http://b''), (''token'', JString x)]"

definition sample_resource_doc :: "string \<Rightarrow> json" where
  "sample_resource_doc x = JObject [(''resource'', JString ''/iot/d''), (''services'', JArray [sample_service_doc x])]"

definition sample_conf_doc :: "string \<Rightarrow> json" where
  "sample_conf_doc x = JObject [(''resources'', JArray [sample_resource_doc x])]"

definition sample_docs :: "(string \<times> json) list" where
  "sample_docs = concat (map (\<lambda>x. [(''d'' @ x, sample_conf_doc x), (''r'' @ x, sample_resource_doc x),
     (''s'' @ x, sample_service_doc x)]) [''1'', ''2''])
     @ [(''dx'', JObject [(''resources'', JArray [sample_resource_doc ''2'', JObject []])]), (''o'', JObject [])]"

definition sample_conf_env :: conf_env where
  "sample_conf_env = \<lparr>
     ce_json = \<lparr> jl_parse = (\<lambda>s. case map_of sample_docs s of Some j \<Rightarrow> Inr j | None \<Rightarrow> Inl ''error''),
                 jl_print = (\<lambda>es. []), jl_number = (\<lambda>j. []), jl_stream = (\<lambda>j. []) \<rparr>,
     ce_pretty = (\<lambda>j. case filter (\<lambda>e. snd e = j) sample_docs of e # es \<Rightarrow> fst e | [] \<Rightarrow> []),
     ce_offset = (\<lambda>s. ''0''), ce_writable = True \<rparr>"

definition sample_loaded :: Configurator where
  "sample_loaded = (case read_file sample_conf_env ''d1'' (new_Configurator (Some ''d1'')) of
     Inr (err, cf) \<Rightarrow> cf | Inl e \<Rightarrow> new_Configurator None)"

lemma conf_ok_new [simp]: "conf_ok (new_Configurator f)"
  by (simp add: conf_ok_def new_Configurator_def)

lemma sample_loaded_ok:
  "read_file sample_conf_env ''d1'' (new_Configurator (Some ''d1'')) = Inr ([], sample_loaded)" "conf_ok sample_loaded"
  "map_find (cg_resources sample_loaded) ''/iot/d'' \<noteq> None"
proof -
  show r: "read_file sample_conf_env ''d1'' (new_Configurator (Some ''d1'')) = Inr ([], sample_loaded)" by code_simp
  show "conf_ok sample_loaded" using read_file_extends [OF r] by (simp add: conf_extends_def)
  show "map_find (cg_resources sample_loaded) ''/iot/d'' \<noteq> None" by code_simp
qed

section \<open>Updates\<close>

text \<open>C6: replacing the configuration does not replace anything.  When a new document is given,
  accepted or not, a resource that is configured already keeps its services as they were: every lookup
  by name, path or key in it answers as before, whatever the new document says; the rules for the
  access control are only added to.\<close>

theorem configuration_update_never_replaces:
  assumes "update_conf env text cf = Inr (err, cf')" "conf_ok cf" "map_find (cg_resources cf) resource \<noteq> None"
  shows "getService resource service service_path cf' = getService resource service service_path cf
     \<and> getServicebyApiKey resource apikey cf' = getServicebyApiKey resource apikey cf
     \<and> mset (cg_pep_rules cf) \<subseteq># mset (cg_pep_rules cf')"
  using update_conf_extends [OF assms(1,2)] assms(3)
  by (auto simp: conf_extends_def getService_def getServicebyApiKey_def)

theorem configuration_update_never_replaces_witness:
  "\<exists>cf'. update_conf sample_conf_env ''d2'' sample_loaded = Inr ([], cf') \<and> cg_file cf' = Some ''d2''
     \<and> getService ''/iot/d'' ''s'' ''/p'' cf' = Inr (sample_service_doc ''1'')"
proof -
  obtain cf' where u: "update_conf sample_conf_env ''d2'' sample_loaded = Inr ([], cf')" and f: "cg_file cf' = Some ''d2''"
  proof -
    let ?r = "update_conf sample_conf_env ''d2'' sample_loaded"
    have "case ?r of Inr (e, cf') \<Rightarrow> e = [] \<and> cg_file cf' = Some ''d2'' | Inl _ \<Rightarrow> False" by code_simp
    then show ?thesis using that by (auto split: sum.splits)
  qed
  have "getService ''/iot/d'' ''s'' ''/p'' sample_loaded = Inr (sample_service_doc ''1'')" by code_simp
  then show ?thesis
    using configuration_update_never_replaces [OF u sample_loaded_ok(2,3)] u f by auto
qed

text \<open>A document that is refused leaves its good resources behind, and they are served.\<close>

lemma refused_configuration_is_served:
  "\<exists>err cf'. update_conf sample_conf_env ''dx'' (new_Configurator None) = Inr (err, cf') \<and> err \<noteq> []
     \<and> getService ''/iot/d'' ''s'' ''/p'' cf' = Inr (sample_service_doc ''2'')"
proof -
  let ?r = "update_conf sample_conf_env ''dx'' (new_Configurator None)"
  have "case ?r of Inr (e, cf') \<Rightarrow> e \<noteq> [] \<and> getService ''/iot/d'' ''s'' ''/p'' cf' = Inr (sample_service_doc ''2'')
      | Inl _ \<Rightarrow> False" by code_simp
  then show ?thesis by (auto split: sum.splits)
qed


section \<open>What a loaded configuration answers\<close>

text \<open>The declaration of a service in a document: the first resource with the name, and in it the first
  service with the key.\<close>

definition text_of :: "json \<Rightarrow> string \<Rightarrow> string option" where
  "text_of v name = (case v of JObject ms \<Rightarrow> (case map_of ms name of Some (JString t) \<Rightarrow> Some (c_str t) | _ \<Rightarrow> None) | _ \<Rightarrow> None)"

definition part_list :: "json \<Rightarrow> string \<Rightarrow> json list" where
  "part_list v name = (case v of JObject ms \<Rightarrow> (case array_member ms name of Some vs \<Rightarrow> vs | None \<Rightarrow> []) | _ \<Rightarrow> [])"

definition declared_key :: "json \<Rightarrow> string" where
  "declared_key s = service_key (case text_of s ''service'' of Some a \<Rightarrow> a | None \<Rightarrow> [])
     (case text_of s ''service_path'' of Some a \<Rightarrow> a | None \<Rightarrow> [])"

definition declared :: "json \<Rightarrow> string \<Rightarrow> string \<Rightarrow> string \<Rightarrow> json option" where
  "declared j resource service service_path =
     Option.bind (find (\<lambda>v. text_of v ''resource'' = Some resource) (part_list j ''resources''))
       (\<lambda>v. find (\<lambda>s. declared_key s = service_key service service_path) (part_list v ''services''))"

text \<open>The parts of the document survive being printed and read again.\<close>

definition reparses :: "conf_env \<Rightarrow> json \<Rightarrow> bool" where
  "reparses env j \<longleftrightarrow> list_all (\<lambda>v. reparse env v = Inr v
     \<and> list_all (\<lambda>s. reparse env s = Inr s) (part_list v ''services'')) (part_list j ''resources'')"

lemma conf_error_nonempty [simp]: "conf_error w \<noteq> []" "[] \<noteq> conf_error w"
  by (simp_all add: conf_error_def CONF_FILE_ERROR_def)

lemma string_member_text: "string_member v name = Inr m \<Longrightarrow> m = text_of v name"
  by (cases v) (auto simp: string_member_def text_of_def IsString_def GetString_def HasMember_def FindMember_def
      split: option.splits json.splits)

lemma member_string_text: "member_string v name = Inr t \<Longrightarrow> text_of v name = Some t"
  by (cases v) (auto simp: member_string_def member_def FindMember_def text_of_def GetString_def split: option.splits json.splits)

lemma check_service_fields_clean: "check_service_fields v fs = Inr [] \<Longrightarrow> f \<in> set fs \<Longrightarrow> text_of v f \<noteq> None"
proof (induction fs)
  case (Cons g fs)
  obtain m where m: "string_member v g = Inr m" "(if m = None then Inr (conf_error g) else check_service_fields v fs) = (Inr [] :: string result)"
    using Cons.prems by (auto simp: bind_exn_eq_Inr_iff)
  then have "m \<noteq> None" by (metis conf_error_nonempty(1) sum.inject(2))
  then show ?case using Cons m string_member_text [OF m(1)] by auto
qed simp

lemma add_service_key:
  "add_service s res = Inr res' \<Longrightarrow>
     res' = res\<lparr> re_services := map_insert (declared_key s) s (re_services res) \<rparr>"
  by (auto simp: add_service_def bind_exn_eq_Inr_iff declared_key_def dest!: member_string_text)

text \<open>Without an error every service was stored, in order.\<close>

lemma check_services_error: "check_services env vs (res, err) = Inr (res', []) \<Longrightarrow> err = []"
proof (induction vs arbitrary: res err)
  case (Cons v vs)
  show ?case
  proof (cases "reparse env v")
    case (Inr d)
    then obtain l where l: "check_service d = Inr l" using Cons.prems by (auto simp: bind_exn_eq_Inr_iff)
    show ?thesis
    proof (cases "l = []")
      case True
      then obtain res1 where "check_services env vs (res1, err) = Inr (res', [])"
        using Cons.prems Inr l by (auto simp: bind_exn_eq_Inr_iff)
      then show ?thesis by (rule Cons.IH)
    next
      case False
      then show ?thesis using Cons.IH [of res l] Cons.prems Inr l by simp
    qed
  next
    case (Inl e)
    then show ?thesis using Cons.IH [of res "conf_error e"] Cons.prems by simp
  qed
qed simp

lemma check_services_stored:
  "check_services env vs (res, err) = Inr (res', []) \<Longrightarrow> list_all (\<lambda>s. reparse env s = Inr s) vs \<Longrightarrow>
     res' = res\<lparr> re_services := omap.insert_all (map (\<lambda>s. (declared_key s, s)) vs) (re_services res) \<rparr>"
proof (induction vs arbitrary: res err)
  case (Cons v vs)
  then have r: "reparse env v = Inr v" by simp
  obtain l where l: "check_service v = Inr l" using Cons.prems r by (auto simp: bind_exn_eq_Inr_iff)
  have "l = []"
  proof (rule ccontr)
    assume "l \<noteq> []"
    then have "check_services env vs (res, l) = Inr (res', [])" using Cons.prems(1) r l by simp
    then show False using check_services_error \<open>l \<noteq> []\<close> by blast
  qed
  then obtain res1 where a: "add_service v res = Inr res1" "check_services env vs (res1, err) = Inr (res', [])"
    using Cons.prems(1) r l by (auto simp: bind_exn_eq_Inr_iff)
  have "res' = res1\<lparr> re_services := omap.insert_all (map (\<lambda>s. (declared_key s, s)) vs) (re_services res1) \<rparr>"
    by (rule Cons.IH [OF a(2)]) (use Cons.prems(2) in simp)
  then show ?case using add_service_key [OF a(1)] by (simp add: omap.insert_all_def)
qed (simp add: omap.insert_all_def)

definition loaded_resource :: "json \<Rightarrow> Resource" where
  "loaded_resource v = \<lparr> re_fields = (case v of JObject ms \<Rightarrow> members_but ''services'' ms | _ \<Rightarrow> []),
     re_services = omap.insert_all (map (\<lambda>s. (declared_key s, s)) (part_list v ''services'')) [], re_doc = JNull \<rparr>"

lemma check_resource_loaded:
  assumes "check_resource env v = Inr (res, [])" "list_all (\<lambda>s. reparse env s = Inr s) (part_list v ''services'')"
  shows "res = loaded_resource v"
proof (cases v)
  case (JObject ms)
  have m: "map_of ms ''resource'' \<noteq> None"
  proof
    assume "map_of ms ''resource'' = None"
    then have "check_resource env v = Inr (new_Resource, conf_error ''resource field not found'')"
      using JObject by (simp add: check_resource_def)
    then show False using assms(1) by simp
  qed
  show ?thesis
  proof (cases "array_member ms ''services''")
    case None
    then show ?thesis
      using assms(1) JObject m
      by (auto simp: check_resource_def loaded_resource_def part_list_def new_Resource_def omap.insert_all_def Let_def)
  next
    case (Some vs)
    have s: "list_all (\<lambda>s. reparse env s = Inr s) vs" using assms(2) JObject Some by (simp add: part_list_def)
    have "check_services env vs (new_Resource\<lparr> re_fields := members_but ''services'' ms \<rparr>, []) = Inr (res, [])"
      using assms(1) JObject m Some by (auto simp: check_resource_def Let_def)
    from check_services_stored [OF this s] show ?thesis
      using JObject Some by (simp add: loaded_resource_def part_list_def new_Resource_def)
  qed
qed (use assms(1) in \<open>auto simp: check_resource_def HasMember_def FindMember_def\<close>)

lemma map_of_members_but: "\<not> (\<exists>x. c_str name = x \<and> x = skip) \<Longrightarrow> map_of (members_but skip ms) name = map_of ms name"
  by (induction ms) (auto simp: members_but_def)

lemma add_resource_name:
  assumes "add_resource (loaded_resource v) cf = Inr cf'"
  shows "\<exists>name. text_of v ''resource'' = Some name
     \<and> cf' = cf\<lparr> cg_resources := map_insert name (loaded_resource v) (cg_resources cf) \<rparr>"
proof -
  obtain name where n: "member_string (JObject (re_fields (loaded_resource v))) ''resource'' = Inr name"
    "cf' = cf\<lparr> cg_resources := map_insert name (loaded_resource v) (cg_resources cf) \<rparr>"
    using assms by (auto simp: add_resource_def bind_exn_eq_Inr_iff)
  have c: "c_str ''resource'' \<noteq> ''services''" by code_simp
  have "text_of (JObject (re_fields (loaded_resource v))) ''resource'' = text_of v ''resource''"
    using c by (cases v) (auto simp: loaded_resource_def text_of_def map_of_members_but member_string_def
        dest!: member_string_text)
  then have "text_of v ''resource'' = Some name" using member_string_text [OF n(1)] by simp
  then show ?thesis using n(2) by blast
qed

lemma check_resources_error: "check_resources env vs (err, cf) = Inr ([], cf') \<Longrightarrow> err = []"
proof (induction vs arbitrary: err cf)
  case (Cons v vs)
  show ?case
  proof (cases "IsObject v \<and> (\<exists>d. reparse env v = Inr d)")
    case True
    then obtain d where d: "reparse env v = Inr d" by blast
    obtain res l where c: "check_resource env d = Inr (res, l)"
      using Cons.prems True d by (auto simp: bind_exn_eq_Inr_iff)
    show ?thesis
    proof (cases "l = []")
      case True
      then obtain cf1 where "check_resources env vs (err, cf1) = Inr ([], cf')"
        using Cons.prems \<open>IsObject v \<and> _\<close> d c by (auto simp: bind_exn_eq_Inr_iff)
      then show ?thesis by (rule Cons.IH)
    next
      case False
      then show ?thesis using Cons.IH [of l cf] Cons.prems \<open>IsObject v \<and> _\<close> d c by simp
    qed
  next
    case False
    then obtain e where "check_resources env vs (conf_error e, cf) = Inr ([], cf')"
      using Cons.prems by (cases "reparse env v") (auto split: if_splits)
    then have "conf_error e = []" by (rule Cons.IH)
    then show ?thesis by simp
  qed
qed simp


lemma check_resources_loaded:
  "check_resources env vs (err, cf) = Inr ([], cf') \<Longrightarrow>
   list_all (\<lambda>v. reparse env v = Inr v \<and> list_all (\<lambda>s. reparse env s = Inr s) (part_list v ''services'')) vs \<Longrightarrow>
   list_all (\<lambda>v. text_of v ''resource'' \<noteq> None) vs
   \<and> cf' = cf\<lparr> cg_resources := omap.insert_all (map (\<lambda>v. (the (text_of v ''resource''), loaded_resource v)) vs) (cg_resources cf) \<rparr>"
proof (induction vs arbitrary: err cf)
  case (Cons v vs)
  have o: "IsObject v"
  proof (rule ccontr)
    assume "\<not> IsObject v"
    then show False using Cons.prems(1) check_resources_error by fastforce
  qed
  have r: "reparse env v = Inr v" and s: "list_all (\<lambda>s. reparse env s = Inr s) (part_list v ''services'')"
    using Cons.prems(2) by simp_all
  obtain res l where c: "check_resource env v = Inr (res, l)"
    using Cons.prems(1) o r by (auto simp: bind_exn_eq_Inr_iff)
  have "l = []"
  proof (rule ccontr)
    assume "l \<noteq> []"
    then have "check_resources env vs (l, cf) = Inr ([], cf')" using Cons.prems(1) o r c by simp
    then show False using check_resources_error \<open>l \<noteq> []\<close> by blast
  qed
  then have c': "check_resource env v = Inr (loaded_resource v, [])" using c check_resource_loaded [OF _ s] by simp
  then obtain cf1 where a: "add_resource (loaded_resource v) cf = Inr cf1"
    "check_resources env vs (err, cf1) = Inr ([], cf')"
    using Cons.prems(1) o r by (auto simp: bind_exn_eq_Inr_iff)
  from add_resource_name [OF a(1)] obtain name where n: "text_of v ''resource'' = Some name"
    "cf1 = cf\<lparr> cg_resources := map_insert name (loaded_resource v) (cg_resources cf) \<rparr>" by blast
  show ?case using Cons.IH [OF a(2)] Cons.prems(2) n by (simp add: omap.insert_all_def)
qed (simp add: omap.insert_all_def)

lemma map_of_keys_find: "map_of (map (\<lambda>x. (f x, g x)) xs) k = map_option g (find (\<lambda>x. f x = k) xs)"
  by (induction xs) auto

lemma find_some_text:
  "list_all (\<lambda>v. f v \<noteq> None) vs \<Longrightarrow> find (\<lambda>v. the (f v) = k) vs = find (\<lambda>v. f v = Some k) vs"
  by (induction vs) auto

text \<open>a configuration that was accepted answers what its document declares.  When a document is
  loaded into a new configuration without an error, the lookup of a service by resource, name and path
  gives the service of the first resource of that name whose name and path make the same key, and
  fails with \<open>The service does not exist\<close> when the document declares none.\<close>

theorem loaded_services_are_declared:
  assumes "jl_parse (ce_json env) (c_str text) = Inr j" "reparses env j"
    "read_file env text (new_Configurator file) = Inr ([], cf)" "service_path \<noteq> []"
  shows "case declared j resource service service_path of
      Some d \<Rightarrow> getService resource service service_path cf = Inr d
    | None \<Rightarrow> \<exists>t. getService resource service service_path cf = Inl (no_service t)"
proof -
  let ?vs = "part_list j ''resources''"
  obtain cf1 where c: "check_configuration_json env j (new_Configurator file) = Inr ([], cf1)"
    and f: "cg_resources cf = cg_resources cf1"
    using assms(1,3) by (auto simp: read_file_def bind_exn_eq_Inr_iff)
  obtain ms vs where j: "j = JObject ms" "array_member ms ''resources'' = Some vs"
    using c by (cases j) (auto simp: check_configuration_json_def Let_def split: option.splits)
  define cf0 where "cf0 = (new_Configurator file)\<lparr> cg_root := Some (members_but ''resources'' ms) \<rparr>"
  obtain e cf2 where r: "check_resources env vs ([], cf0) = Inr (e, cf2)"
    using c j by (auto simp: check_configuration_json_def Let_def bind_exn_eq_Inr_iff cf0_def)
  have e: "e = [] \<and> cg_resources cf1 = cg_resources cf2"
    using c j r unfolding cf0_def
    by (cases "array_member (members_but ''resources'' ms) ''pep_rules''")
      (auto simp: check_configuration_json_def Let_def bind_exn_eq_Inr_iff)
  have vs: "?vs = vs" using j by (simp add: part_list_def)
  from check_resources_loaded [of env vs "[]" cf0 cf2] r e assms(2)
  have all: "list_all (\<lambda>v. text_of v ''resource'' \<noteq> None) vs"
    and rs: "cg_resources cf2 = omap.insert_all (map (\<lambda>v. (the (text_of v ''resource''), loaded_resource v)) vs) []"
    by (simp_all add: reparses_def vs cf0_def new_Configurator_def)
  have res: "map_find (cg_resources cf) resource =
      map_option loaded_resource (find (\<lambda>v. text_of v ''resource'' = Some resource) vs)"
    using f e rs all by (simp add: omap.find_insert_all map_of_keys_find find_some_text)
  have srv: "map_find (re_services (loaded_resource v)) k = find (\<lambda>s. declared_key s = k) (part_list v ''services'')" for v k
    by (simp add: loaded_resource_def omap.find_insert_all map_of_keys_find option.map_ident)
  show ?thesis
    using assms(4) by (auto simp: getService_def declared_def res vs get_service_def srv split: option.split bind_split)
qed

theorem loaded_services_are_declared_witness:
  "getService ''/iot/d'' ''s'' ''/p'' sample_loaded = Inr (sample_service_doc ''1'')
   \<and> (\<exists>t. getService ''/iot/d'' ''s'' ''/q'' sample_loaded = Inl (no_service t))"
proof -
  have p: "jl_parse (ce_json sample_conf_env) (c_str ''d1'') = Inr (sample_conf_doc ''1'')"
    "reparses sample_conf_env (sample_conf_doc ''1'')" by code_simp+
  have d: "declared (sample_conf_doc ''1'') ''/iot/d'' ''s'' ''/p'' = Some (sample_service_doc ''1'')"
    "declared (sample_conf_doc ''1'') ''/iot/d'' ''s'' ''/q'' = None" by code_simp+
  show ?thesis
    using loaded_services_are_declared [OF p sample_loaded_ok(1), of "''/p''" "''/iot/d''" "''s''"]
      loaded_services_are_declared [OF p sample_loaded_ok(1), of "''/q''" "''/iot/d''" "''s''"] d by simp
qed

end
