(* ===== verification/Http_Client.thy ===== *)
theory Http_Client
  imports Oauth
begin

text \<open>
  The HTTP client (\<^verbatim>\<open>src/util/http_client.cc\<close>): one request over one connection, possibly through a
  proxy, with a timer.  Every handler is a step on the state of the client; the connection has at most
  one operation pending, and its completion and the timer arrive in any order, also after the connection
  was closed.  Name resolution is a parameter.
\<close>

section \<open>The code\<close>

datatype net_error = Would_block | Timed_out | Operation_aborted | Host_unreachable | Other_error int

datatype pending = Connecting | Reading_proxy | Writing | Reading_response

record http_client =
  hl_remote_ip :: string
  hl_remote_port :: int
  hl_proxy :: bool
  hl_ip :: string
  hl_port :: int
  hl_open :: bool
  hl_timer :: bool
  hl_ec :: "net_error option"
  hl_response :: "http_response option"
  hl_request :: "http_request option"
  hl_callback :: bool
  hl_wait :: "pending option"

datatype client_effect =
    Connect_to string int
  | Write_text string
  | Write_request http_request
  | Call_client "http_response option" "net_error option"

text \<open>The first address of a host and port, or the text of the error.\<close>

type_synonym resolver = "string \<Rightarrow> string \<Rightarrow> string + string"

definition resolve :: "resolver \<Rightarrow> string \<Rightarrow> string \<Rightarrow> http_client \<Rightarrow> http_client result" where
  "resolve dns address port cl =
     (case dns address port of
        Inr ip \<Rightarrow> Inr (cl\<lparr> hl_ip := ip \<rparr>)
      | Inl what \<Rightarrow> Inl (IotaException (RESPONSE_MESSAGE_INVALID_PARAMETER @ '' ['' @ address @ '']'') what 400))"

definition new_HttpClient :: "resolver \<Rightarrow> string \<Rightarrow> int \<Rightarrow> http_client result" where
  "new_HttpClient dns server port =
     resolve dns server (show_int (port mod 2 ^ 32))
       \<lparr> hl_remote_ip = server, hl_remote_port = port mod 2 ^ 32, hl_proxy = False, hl_ip = [], hl_port = port mod 2 ^ 32,
         hl_open = False, hl_timer = True, hl_ec = None, hl_response = None, hl_request = None,
         hl_callback = False, hl_wait = None \<rparr>"

text \<open>\<open>lexical_cast<unsigned int>\<close>: a sign is allowed, and a negative number wraps around.\<close>

definition lexical_unsigned :: "string \<Rightarrow> int option" where
  "lexical_unsigned s =
     (let (neg, d) = (case s of
          c # r \<Rightarrow> if c = CHR ''-'' then (True, r) else if c = CHR ''+'' then (False, r) else (False, s)
        | [] \<Rightarrow> (False, []))
      in if d \<noteq> [] \<and> list_all is_digit d \<and> int (read_nat d) < 2 ^ 32
         then Some (if neg then (- int (read_nat d)) mod 2 ^ 32 else int (read_nat d)) else None)"

definition change_header :: "string \<Rightarrow> string \<Rightarrow> http_request \<Rightarrow> http_request" where
  "change_header name val q = q\<lparr> hq_headers := filter (\<lambda>h. fst h \<noteq> name) (hq_headers q) @ [(name, val)] \<rparr>"

text \<open>The port is set before the name is resolved, and what is thrown is caught.\<close>

definition set_proxy_server :: "resolver \<Rightarrow> string \<Rightarrow> http_client \<Rightarrow> http_client" where
  "set_proxy_server dns proxy cl =
     (let (server, port) =
        (case find_sub '':'' proxy of
           None \<Rightarrow> (proxy, Some 80)
         | Some n_p \<Rightarrow> (take n_p proxy, lexical_unsigned (drop (n_p + 1) proxy)))
      in case port of
           None \<Rightarrow> cl
         | Some proxy_port \<Rightarrow>
             (case resolve dns server (show_int proxy_port) (cl\<lparr> hl_port := proxy_port \<rparr>) of
                Inr cl' \<Rightarrow> cl'\<lparr> hl_proxy := True \<rparr>
              | Inl e \<Rightarrow> cl\<lparr> hl_port := proxy_port \<rparr>))"

definition set_proxy :: "resolver \<Rightarrow> string \<Rightarrow> http_client \<Rightarrow> http_client" where
  "set_proxy dns proxy cl =
     (let cl' = (if proxy \<noteq> [] then set_proxy_server dns proxy cl else cl)
      in cl'\<lparr> hl_request := map_option (change_header ''Host'' (hl_remote_ip cl' @ '':'' @ show_int (hl_remote_port cl')))
           (hl_request cl') \<rparr>)"

type_synonym client_result = "http_client \<times> client_effect list"

definition connect :: "http_client \<Rightarrow> client_result" where
  "connect cl = (cl\<lparr> hl_open := True, hl_wait := Some Connecting \<rparr>, [Connect_to (hl_ip cl) (hl_port cl)])"

text \<open>\<open>send\<close> and \<open>async_send\<close>: they differ in who runs the handlers.\<close>

definition async_send :: "resolver \<Rightarrow> http_request \<Rightarrow> string \<Rightarrow> bool \<Rightarrow> http_client \<Rightarrow> client_result result" where
  "async_send dns request proxy callback cl =
     (let cl1 = set_proxy dns proxy (cl\<lparr> hl_ec := None, hl_callback := callback, hl_response := None,
                  hl_request := Some request, hl_proxy := False \<rparr>)
      in if hl_timer cl1 then Inr (connect cl1) else Inl (undefined_behaviour ''_timer''))"

definition stop :: "http_client \<Rightarrow> http_client" where
  "stop cl = cl\<lparr> hl_timer := False, hl_open := False \<rparr>"

definition call_client :: "net_error option \<Rightarrow> http_client \<Rightarrow> client_result" where
  "call_client ec cl =
     (cl\<lparr> hl_callback := False \<rparr>, if hl_callback cl then [Call_client (hl_response cl) ec] else [])"

text \<open>\<open>set_error\<close> and \<open>check_connection\<close>, with what is done when the connection is good.\<close>

definition check_connection :: "net_error option \<Rightarrow> (http_client \<Rightarrow> client_result) \<Rightarrow> http_client \<Rightarrow> client_result" where
  "check_connection ec good cl =
     (let cl1 = cl\<lparr> hl_ec := ec \<rparr> in
      if (ec \<noteq> None \<and> ec \<noteq> Some Would_block) \<or> \<not> hl_open cl1
      then apfst stop (call_client ec cl1)
      else good cl1)"

definition send_out :: "http_client \<Rightarrow> client_result" where
  "send_out cl = (cl\<lparr> hl_wait := Some Writing \<rparr>, case hl_request cl of Some q \<Rightarrow> [Write_request q] | None \<Rightarrow> [])"

definition HEADER_OUTGOING_ROUTE :: string where
  "HEADER_OUTGOING_ROUTE = ''X-M2M-Outgoing-Route''"

definition CRLF :: string where
  "CRLF = [CHR 0x0D, CHR 0x0A]"

definition request_CONNECT :: "http_client \<Rightarrow> string" where
  "request_CONNECT cl =
     (let h_outgoing = (case hl_request cl of
          Some q \<Rightarrow> (case map_of (hq_headers q) HEADER_OUTGOING_ROUTE of Some v \<Rightarrow> v | None \<Rightarrow> []) | None \<Rightarrow> [])
      in ''CONNECT '' @ hl_remote_ip cl @ '':'' @ show_int (hl_remote_port cl) @ '' HTTP/1.1'' @ CRLF
         @ (if h_outgoing \<noteq> [] then HEADER_OUTGOING_ROUTE @ '': '' @ h_outgoing @ CRLF else []) @ CRLF)"

definition connectHandle :: "net_error option \<Rightarrow> http_client \<Rightarrow> client_result" where
  "connectHandle ec cl =
     check_connection ec (\<lambda>cl.
       if hl_proxy cl then (cl\<lparr> hl_wait := Some Reading_proxy \<rparr>, [Write_text (request_CONNECT cl)])
       else send_out cl) cl"

definition endConnectProxy :: "net_error option \<Rightarrow> string \<Rightarrow> http_client \<Rightarrow> client_result" where
  "endConnectProxy ec resp_proxy cl =
     check_connection (if find_sub '' 200 '' (c_str resp_proxy) = None \<and> ec = None then Some Host_unreachable else ec)
       send_out cl"

definition readResponse :: "net_error option \<Rightarrow> http_client \<Rightarrow> client_result" where
  "readResponse ec cl = check_connection ec (\<lambda>cl. (cl\<lparr> hl_wait := Some Reading_response \<rparr>, [])) cl"

definition checkResponse :: "net_error option \<Rightarrow> http_response option \<Rightarrow> http_client \<Rightarrow> client_result" where
  "checkResponse ec response cl =
     apfst stop (call_client ec (cl\<lparr> hl_response := response, hl_timer := False \<rparr>))"

definition timeout_connection :: "net_error option \<Rightarrow> http_client \<Rightarrow> client_result" where
  "timeout_connection ec cl =
     (if ec \<noteq> Some Operation_aborted then check_connection (Some Timed_out) (\<lambda>cl. (cl, [])) cl else (cl, []))"

text \<open>What the event loop delivers: the end of the pending operation with the bytes of a proxy or a
  response, or the end of the timer.\<close>

datatype client_event =
    Socket_done "net_error option" string "http_response option"
  | Timer_done "net_error option"

fun client_step :: "client_event \<Rightarrow> http_client \<Rightarrow> client_result" where
  "client_step (Socket_done ec data response) cl =
     (let cl' = cl\<lparr> hl_wait := None \<rparr> in
      case hl_wait cl of
        None \<Rightarrow> (cl, [])
      | Some Connecting \<Rightarrow> connectHandle ec cl'
      | Some Reading_proxy \<Rightarrow> endConnectProxy ec data cl'
      | Some Writing \<Rightarrow> readResponse ec cl'
      | Some Reading_response \<Rightarrow> checkResponse ec response cl')"
| "client_step (Timer_done ec) cl = timeout_connection ec cl"

fun client_run :: "client_event list \<Rightarrow> http_client \<Rightarrow> client_result" where
  "client_run [] cl = (cl, [])"
| "client_run (ev # evs) cl =
     (let (cl1, eff1) = client_step ev cl; (cl2, eff2) = client_run evs cl1 in (cl2, eff1 @ eff2))"

section \<open>The callback\<close>

definition is_call :: "client_effect \<Rightarrow> bool" where
  "is_call eff = (case eff of Call_client r ec \<Rightarrow> True | _ \<Rightarrow> False)"

definition is_request :: "client_effect \<Rightarrow> bool" where
  "is_request eff = (case eff of Write_request q \<Rightarrow> True | _ \<Rightarrow> False)"

definition calls :: "client_effect list \<Rightarrow> nat" where
  "calls eff = length (filter is_call eff)"

lemma calls_simps [simp]:
  "calls [] = 0" "calls (e # eff) = (if is_call e then Suc (calls eff) else calls eff)" "calls (a @ b) = calls a + calls b"
  by (simp_all add: calls_def)

lemma is_call_simps [simp]:
  "\<not> is_call (Connect_to a b)" "\<not> is_call (Write_text t)" "\<not> is_call (Write_request q)" "is_call (Call_client r ec)"
  "\<not> is_request (Connect_to a b)" "\<not> is_request (Write_text t)" "is_request (Write_request q)" "\<not> is_request (Call_client r ec)"
  by (simp_all add: is_call_def is_request_def)

text \<open>While the callback is due the connection is open and an operation is pending; afterwards the
  connection is closed.\<close>

definition client_ok :: "http_client \<Rightarrow> bool" where
  "client_ok cl \<longleftrightarrow> (if hl_callback cl then hl_wait cl \<noteq> None \<and> hl_open cl else \<not> hl_open cl)"

lemmas client_defs =
  connectHandle_def endConnectProxy_def readResponse_def checkResponse_def timeout_connection_def
  check_connection_def call_client_def stop_def send_out_def

lemma client_step_ok:
  "client_ok cl \<Longrightarrow> client_step ev cl = (cl', eff) \<Longrightarrow>
     client_ok cl' \<and> calls eff = (if hl_callback cl \<and> \<not> hl_callback cl' then 1 else 0)
     \<and> (\<not> hl_callback cl \<longrightarrow> \<not> hl_callback cl' \<and> list_all (\<lambda>e. \<not> is_request e) eff)"
  by (cases ev) (auto simp: client_defs client_ok_def Let_def split: option.splits pending.splits if_splits)

lemma client_step_timer:
  "client_ok cl \<Longrightarrow> client_step (Timer_done None) cl = (cl', eff) \<Longrightarrow> \<not> hl_callback cl'"
  by (auto simp: client_defs client_ok_def Let_def split: if_splits)

lemma client_run_ok:
  "client_ok cl \<Longrightarrow> client_run evs cl = (cl', eff) \<Longrightarrow>
     client_ok cl' \<and> calls eff = (if hl_callback cl \<and> \<not> hl_callback cl' then 1 else 0)
     \<and> (\<not> hl_callback cl \<longrightarrow> \<not> hl_callback cl')
     \<and> (Timer_done None \<in> set evs \<longrightarrow> \<not> hl_callback cl')"
proof (induction evs arbitrary: cl eff)
  case (Cons ev evs)
  obtain cl1 eff1 eff2 where s: "client_step ev cl = (cl1, eff1)" and r: "client_run evs cl1 = (cl', eff2)"
    and e: "eff = eff1 @ eff2"
    using Cons.prems(2) by (auto simp: Let_def split: prod.splits)
  note step = client_step_ok [OF Cons.prems(1) s]
  have t: "ev = Timer_done None \<Longrightarrow> \<not> hl_callback cl1" using client_step_timer Cons.prems(1) s by blast
  show ?case using step t Cons.IH [OF _ r] e by auto
qed simp

lemma async_send_ok:
  assumes "async_send dns request proxy True cl = Inr (cl1, eff)"
  shows "client_ok cl1 \<and> hl_callback cl1 \<and> calls eff = 0"
  using assms
  by (auto simp: async_send_def connect_def client_ok_def set_proxy_def set_proxy_server_def resolve_def Let_def
      split: if_splits option.splits sum.splits)

text \<open>C23: the client calls back once.  After a request is sent, whatever the connection and the timer
  deliver and in whichever order, the callback has been called at most once; it has been called when no
  operation of the connection is pending any more or when the timer has expired; and once it has been
  called the connection is closed and nothing more is sent.\<close>

theorem client_calls_back_once:
  assumes "async_send dns request proxy True cl = Inr (cl1, eff1)" "client_run evs cl1 = (cl2, eff2)"
    "client_run evs' cl2 = (cl3, eff3)"
  shows "calls (eff1 @ eff2) \<le> 1
    \<and> (hl_wait cl2 = None \<or> Timer_done None \<in> set evs \<longrightarrow> calls (eff1 @ eff2) = 1)
    \<and> (calls (eff1 @ eff2) = 1 \<longrightarrow> \<not> hl_open cl2 \<and> list_all (\<lambda>e. \<not> is_request e \<and> \<not> is_call e) eff3)"
proof -
  note a = async_send_ok [OF assms(1)]
  note r = client_run_ok [OF conjunct1 [OF a] assms(2)]
  have silent: "client_ok cl \<Longrightarrow> \<not> hl_callback cl \<Longrightarrow> client_run es cl = (cl', eff) \<Longrightarrow>
      list_all (\<lambda>e. \<not> is_request e \<and> \<not> is_call e) eff" for es cl cl' eff
  proof (induction es arbitrary: cl eff)
    case (Cons ev es)
    obtain c1 e1 e2 where s: "client_step ev cl = (c1, e1)" "client_run es c1 = (cl', e2)" "eff = e1 @ e2"
      using Cons.prems(3) by (auto simp: Let_def split: prod.splits)
    note k = client_step_ok [OF Cons.prems(1) s(1)]
    have "calls e1 = 0" using k Cons.prems(2) by simp
    then have "list_all (\<lambda>e. \<not> is_call e) e1" by (simp add: calls_def filter_empty_conv list_all_iff)
    then show ?case using k Cons.IH [OF _ _ s(2)] Cons.prems(2) s(3) by (auto simp: list_all_iff)
  qed simp
  show ?thesis
  proof (cases "hl_callback cl2")
    case True
    then show ?thesis using a r by (simp add: client_ok_def)
  next
    case False
    then show ?thesis using a r silent [OF _ False assms(3)] by (simp add: client_ok_def)
  qed
qed


lemma async_send_connects:
  "async_send dns request proxy callback cl = Inr (cl1, eff) \<Longrightarrow> eff = [Connect_to (hl_ip cl1) (hl_port cl1)]"
  by (auto simp: async_send_def connect_def Let_def split: if_splits)

definition sample_dns :: resolver where
  "sample_dns host port = (if host = ''broker'' then Inr ''10.0.0.1'' else if host = ''proxy'' then Inr ''10.0.0.2'' else Inl ''not found'')"

definition sample_http_request :: http_request where
  "sample_http_request = \<lparr> hq_host = ''broker'', hq_port = 80, hq_method = ''POST'', hq_resource = ''/'', hq_content = [],
     hq_query = [], hq_headers = [] \<rparr>"

definition sample_client :: http_client where
  "sample_client = (case new_HttpClient sample_dns ''broker'' 80 of Inr cl \<Rightarrow> cl | Inl e \<Rightarrow> undefined)"

lemma sample_sent:
  "\<exists>cl1. async_send sample_dns sample_http_request ''proxy:88'' True sample_client = Inr (cl1, [Connect_to ''10.0.0.2'' 88])"
proof -
  have "case async_send sample_dns sample_http_request ''proxy:88'' True sample_client of
      Inr (cl1, eff) \<Rightarrow> hl_ip cl1 = ''10.0.0.2'' \<and> hl_port cl1 = 88 | Inl _ \<Rightarrow> False" by code_simp
  then show ?thesis using async_send_connects by (fastforce split: sum.split_asm)
qed

theorem client_calls_back_once_witness:
  "\<exists>cl1 cl2 eff2. async_send sample_dns sample_http_request ''proxy:88'' True sample_client = Inr (cl1, [Connect_to ''10.0.0.2'' 88])
     \<and> client_run [Socket_done None [] None, Socket_done None ''HTTP/1.1 200 OK'' None, Timer_done None] cl1 = (cl2, eff2)
     \<and> calls eff2 = 1 \<and> \<not> hl_open cl2"
proof -
  obtain cl1 where s: "async_send sample_dns sample_http_request ''proxy:88'' True sample_client = Inr (cl1, [Connect_to ''10.0.0.2'' 88])"
    using sample_sent by blast
  obtain cl2 eff2 where r: "client_run [Socket_done None [] None, Socket_done None ''HTTP/1.1 200 OK'' None, Timer_done None] cl1 = (cl2, eff2)"
    by fastforce
  obtain cl3 eff3 where t: "client_run [] cl2 = (cl3, eff3)" by fastforce
  show ?thesis using client_calls_back_once [OF s r t] s r by simp
qed

section \<open>Proxies\<close>

text \<open>a proxy whose name cannot be resolved is not an error, but it is not ignored either: the
  request is sent directly to the address of the server, at the port of the proxy.\<close>

theorem unresolved_proxy_moves_port:
  assumes "new_HttpClient dns server port = Inr cl"
    "find_sub '':'' proxy = Some n_p" "lexical_unsigned (drop (n_p + 1) proxy) = Some proxy_port"
    "dns (take n_p proxy) (show_int proxy_port) = Inl what"
  shows "\<exists>cl' ip. async_send dns request proxy True cl = Inr (cl', [Connect_to ip proxy_port])
     \<and> dns server (show_int (port mod 2 ^ 32)) = Inr ip \<and> \<not> hl_proxy cl'"
proof -
  obtain ip where ip: "dns server (show_int (port mod 2 ^ 32)) = Inr ip" and cl: "hl_ip cl = ip" "hl_timer cl"
    using assms(1) by (auto simp: new_HttpClient_def resolve_def split: sum.splits)
  have "proxy \<noteq> []" using assms(2) by (auto simp: find_sub.simps)
  then show ?thesis
    using ip cl assms(2-4)
    by (simp add: async_send_def set_proxy_def set_proxy_server_def resolve_def connect_def Let_def)
qed

theorem unresolved_proxy_moves_port_witness:
  "\<exists>cl'. async_send sample_dns sample_http_request ''prox:88'' True sample_client = Inr (cl', [Connect_to ''10.0.0.1'' 88])
     \<and> hl_remote_port cl' = 80"
proof -
  have n: "new_HttpClient sample_dns ''broker'' 80 = Inr sample_client"
    by (simp add: new_HttpClient_def resolve_def sample_dns_def sample_client_def)
  have c: "find_sub '':'' ''prox:88'' = Some 4" "lexical_unsigned (drop (4 + 1) ''prox:88'') = Some 88"
    "sample_dns (take 4 ''prox:88'') (show_int 88) = Inl ''not found''"
    "sample_dns ''broker'' (show_int (80 mod 2 ^ 32)) = Inr ''10.0.0.1''" by code_simp+
  from unresolved_proxy_moves_port [OF n c(1-3), of sample_http_request] c(4)
  obtain cl' where a: "async_send sample_dns sample_http_request ''prox:88'' True sample_client = Inr (cl', [Connect_to ''10.0.0.1'' 88])"
    by auto
  have "case async_send sample_dns sample_http_request ''prox:88'' True sample_client of
      Inr (cl', _) \<Rightarrow> hl_remote_port cl' = 80 | Inl _ \<Rightarrow> False" by code_simp
  then show ?thesis using a by simp
qed

text \<open>Through a proxy the request follows only an accepting answer.\<close>

lemma proxy_answer_first:
  assumes "hl_wait cl = Some Reading_proxy" "hl_open cl" "client_step (Socket_done ec data response) cl = (cl', eff)"
    "Write_request q \<in> set eff"
  shows "find_sub '' 200 '' (c_str data) \<noteq> None \<and> (ec = None \<or> ec = Some Would_block) \<or> ec = Some Would_block"
  using assms by (auto simp: client_defs Let_def split: if_splits)

end
