(* ===== verification/Cb_Comm.thy ===== *)
theory Cb_Comm
  imports Http_Client Ul_Service
begin

text \<open>
  The communicator with the context broker (\<^verbatim>\<open>src/rest/iot_cb_comm.cc\<close>): the request for an NGSI
  message, the access token that is asked for before it is sent, one more attempt when the broker answers
  that it is not authorised, and the alarms.  \<open>send\<close> waits for the answer, \<open>async_send\<close> gives it to
  \<open>receive_event\<close>.  The network is a parameter; its answer may depend on the number of the attempt.
\<close>

section \<open>Numbers in text\<close>

definition is_int_text :: "string \<Rightarrow> bool" where
  "is_int_text s =
     (case s of
        [] \<Rightarrow> False
      | c # r \<Rightarrow> if c = CHR ''-'' \<or> c = CHR ''+'' then r \<noteq> [] \<and> list_all is_digit r else list_all is_digit s)"

definition int_range :: "int \<Rightarrow> bool" where
  "int_range i \<longleftrightarrow> - (2 ^ 31) \<le> i \<and> i < 2 ^ 31"

text \<open>\<open>lexical_cast<int>\<close> takes the whole text; \<open>get<int>\<close> of a tree ignores blanks around it.\<close>

definition lexical_int :: "string \<Rightarrow> int option" where
  "lexical_int s = (if is_int_text s \<and> int_range (atoi s) then Some (atoi s) else None)"

definition pt_get_int :: "ptree \<Rightarrow> string \<Rightarrow> int \<Rightarrow> int" where
  "pt_get_int t key dflt =
     (case map_of (pt_children t) key of
        None \<Rightarrow> dflt
      | Some c \<Rightarrow> (case lexical_int (rev (dropWhile is_space (rev (dropWhile is_space (pt_data c))))) of
                    Some i \<Rightarrow> i | None \<Rightarrow> dflt))"

section \<open>The code\<close>

datatype cb_effect =
    Cb_alarm alarm_event
  | Cb_request http_request
  | Cb_callback string int

type_synonym http_answer = "http_response option \<times> net_error option"

text \<open>\<open>cb_oauth_conf\<close> is the object \<open>oauth\<close> of the configuration; \<open>cb_http\<close> sends a request with a timeout
  and a proxy, and throws when the name of the server has no address.\<close>

record cb_env =
  cb_oauth :: oauth_env
  cb_oauth_conf :: "(string, string) std_map result"
  cb_http :: "int \<Rightarrow> http_request \<Rightarrow> int \<Rightarrow> string \<Rightarrow> http_answer result"
  cb_error_text :: "net_error \<Rightarrow> string"
  cb_error_value :: "net_error \<Rightarrow> int"
  cb_ngsi_url :: "json result"

definition NUMBER_OF_TRIES :: string where
  "NUMBER_OF_TRIES = ''number_of_tries''"

definition STATUS_ERROR :: string where
  "STATUS_ERROR = ''error''"

definition RESPONSE_MESSAGE_BAD_GATEWAY :: string where
  "RESPONSE_MESSAGE_BAD_GATEWAY = ''Bad Gateway''"

definition HEADER_TRACE_MESSAGES :: string where
  "HEADER_TRACE_MESSAGES = ''X-Trace-Message''"

definition cb_create_request :: "IoTUrl \<Rightarrow> string \<Rightarrow> ptree \<Rightarrow> http_request" where
  "cb_create_request dest content info =
     (let forced_accept = pt_get info ''Accept'' [];
          token = pt_get info ''token'' [];
          trace_header = pt_get info HEADER_TRACE_MESSAGES [];
          q1 = \<lparr> hq_host = url_host dest, hq_port = url_port dest, hq_method = ''POST'', hq_resource = url_path dest,
                 hq_content = content, hq_query = url_query dest,
                 hq_headers = [(''Content-Type'', CONTENT_TYPE_JSON),
                   (''Accept'', if forced_accept = [] then CONTENT_TYPE_JSON else forced_accept),
                   (''Host'', compound_server dest),
                   (''Fiware-Service'', pt_get info ''service'' []),
                   (''Fiware-ServicePath'', pt_get info ''service_path'' ''/'')] \<rparr>;
          q2 = (if token \<noteq> [] then change_header HTTP_HEADER_AUTH token q1 else q1)
      in if trace_header \<noteq> [] then change_header HEADER_TRACE_MESSAGES trace_header q2 else q2)"

definition oauth_setting :: "cb_env \<Rightarrow> string \<Rightarrow> string result" where
  "oauth_setting env key =
     (case cb_oauth_conf env of
        Inr m \<Rightarrow> Inr (case map_find m key of Some v \<Rightarrow> v | None \<Rightarrow> [])
      | Inl e \<Rightarrow> if is_runtime e then Inr [] else Inl e)"

definition trusted_OAuth :: "string \<Rightarrow> string \<Rightarrow> string \<Rightarrow> string \<Rightarrow> OAuth" where
  "trusted_OAuth oauth token user pass =
     set_identity OAUTH_ON_BEHALF_TRUST user pass
       (new_OAuth\<lparr> oa_sync := True, oa_trust := oauth, oa_trust_token := token \<rparr>)"

text \<open>The token of the service is a trust; it is replaced by the token it gives access with.\<close>

definition authenticate :: "cb_env \<Rightarrow> nat \<Rightarrow> ptree \<Rightarrow> ptree result" where
  "authenticate env status_code info =
     bind_exn (oauth_setting env ''on_behalf_trust_url'') (\<lambda>oauth.
     bind_exn (oauth_setting env ''on_behalf_user'') (\<lambda>user.
     bind_exn (oauth_setting env ''on_behalf_password'') (\<lambda>pass.
       let token = pt_get info ''token'' [] in
       if token \<noteq> [] \<and> oauth \<noteq> []
       then bind_exn (get_token (cb_oauth env) status_code (trusted_OAuth oauth token user pass)) (\<lambda>(auth_token, _, _).
            Inr (pt_put ''token'' auth_token info))
       else Inr info)))"

definition no_cb :: "string \<Rightarrow> string \<Rightarrow> ptree \<Rightarrow> string \<Rightarrow> cb_effect" where
  "no_cb url content info text = Cb_alarm (Raise_info ALARM_CODE_NO_CB url content info STATUS_ERROR text)"

definition cb_ok :: "string \<Rightarrow> string \<Rightarrow> cb_effect" where
  "cb_ok url text = Cb_alarm (Clear ALARM_CODE_NO_CB url STATUS_ERROR text)"

definition process_response :: "cb_env \<Rightarrow> string \<Rightarrow> http_request \<Rightarrow> string \<Rightarrow> ptree \<Rightarrow> http_answer \<Rightarrow> string \<times> cb_effect list" where
  "process_response env url request content info answer =
     (case answer of
        (Some resp, None) \<Rightarrow> (hp_content resp, [cb_ok url (''send ok '' @ hp_content resp)])
      | (_, error) \<Rightarrow> ([], [no_cb url content info (''Response error  -> '' @ getRemoteEndpoint request @ '': ''
          @ (case error of Some e \<Rightarrow> cb_error_text env e | None \<Rightarrow> ''Success''))]))"

text \<open>One attempt of \<open>send\<close>: the text, the response, the information with the new token, and what was
  done.  What is thrown becomes an alarm.\<close>

definition cb_attempt ::
  "cb_env \<Rightarrow> int \<Rightarrow> string \<Rightarrow> string \<Rightarrow> ptree \<Rightarrow> nat \<Rightarrow> (string \<times> http_response option \<times> ptree \<times> cb_effect list) result" where
  "cb_attempt env tries url content info status_code =
     (case bind_exn (new_IoTUrl url) (\<lambda>dest.
           bind_exn (authenticate env status_code info) (\<lambda>info'.
           bind_exn (case lexical_int (pt_get info' ''timeout'' ''5'') of
                       Some t \<Rightarrow> Inr t | None \<Rightarrow> Inl (bad_cast ''bad_lexical_cast'')) (\<lambda>timeout.
             let request = cb_create_request dest content info' in
             bind_exn (cb_http env tries request timeout (pt_get info' ''proxy'' [])) (\<lambda>answer.
               let (text, eff) = process_response env url request content info' answer
               in Inr (text, fst answer, info', Cb_request request # eff))))) of
        Inr r \<Rightarrow> Inr r
      | Inl e \<Rightarrow> if catchable e then Inr ([], None, info, [no_cb url content info (exn_what e)]) else Inl e)"

definition unauthorised :: "http_response option \<Rightarrow> bool" where
  "unauthorised response = (case response of Some r \<Rightarrow> hp_status r = 401 | None \<Rightarrow> False)"

lemma lexical_int_show [simp]: "int_range i \<Longrightarrow> lexical_int (show_int i) = Some i"
proof -
  have d: "list_all is_digit (show_nat n)" for n by (auto simp: list_all_iff show_nat_digits)
  have "is_int_text (show_nat n)" for n
  proof (cases "show_nat n")
    case (Cons c r)
    then show ?thesis using d [of n] by (auto simp: is_int_text_def is_digit_def)
  qed simp
  then have "is_int_text (show_int i)" using d by (simp add: is_int_text_def show_int_def)
  then show "int_range i \<Longrightarrow> ?thesis" by (simp add: lexical_int_def atoi_show_int)
qed

lemma pt_get_int_put [simp]: "int_range i \<Longrightarrow> pt_get_int (pt_put key (show_int i) t) key dflt = i"
proof -
  obtain c where c: "map_of (put_child key (show_int i) (pt_children t)) key = Some c" "pt_data c = show_int i"
  proof -
    have "\<exists>c. map_of (put_child key v cs) key = Some c \<and> pt_data c = v" for v cs by (induction cs) auto
    then show ?thesis using that by blast
  qed
  have ns: "x \<in> set (show_int i) \<Longrightarrow> \<not> is_space x" for x
    using show_nat_digits is_digit_not_space by (fastforce simp: show_int_def is_space_def split: if_splits)
  then have "dropWhile is_space (show_int i) = show_int i" "dropWhile is_space (rev (show_int i)) = rev (show_int i)"
    by (metis dropWhile_eq_self_iff hd_in_set set_rev)+
  then show "int_range i \<Longrightarrow> ?thesis" using c by (simp add: pt_get_int_def pt_put_def)
qed

lemma pt_get_int_range: "int_range dflt \<Longrightarrow> int_range (pt_get_int t key dflt)"
  by (auto simp: pt_get_int_def lexical_int_def split: option.splits)

function cb_send :: "cb_env \<Rightarrow> string \<Rightarrow> string \<Rightarrow> ptree \<Rightarrow> nat \<Rightarrow> (string \<times> cb_effect list) result" where
  "cb_send env url content info status_code =
     (let token = pt_get info ''token'' [];
          tries = pt_get_int info NUMBER_OF_TRIES 0
      in bind_exn (oauth_setting env ''on_behalf_trust_url'') (\<lambda>oauth.
         bind_exn (cb_attempt env tries url content info status_code) (\<lambda>(text, response, info', eff).
           if unauthorised response \<and> token \<noteq> [] \<and> oauth \<noteq> [] \<and> tries < 1
           then bind_exn (cb_send env url content (pt_put NUMBER_OF_TRIES (show_int (tries + 1)) info') 401) (\<lambda>(text', eff').
                Inr (text', eff @ eff'))
           else Inr (text, eff))))"
  by pat_completeness auto
termination
proof (relation "measure (\<lambda>(env, url, content, info, status_code). nat (1 - pt_get_int info NUMBER_OF_TRIES 0))", goal_cases)
  case (2 env url content info status_code token tries oauth r tx z response y info' eff)
  have "int_range tries" unfolding 2(2) by (rule pt_get_int_range) (simp add: int_range_def)
  then have "int_range (tries + 1)" using 2(8) by (simp add: int_range_def)
  then show ?case using 2(2,8) by simp
qed simp

declare cb_send.simps [simp del]

text \<open>\<open>async_send\<close>: the request with what \<open>receive_event\<close> is bound to, or an alarm.\<close>

definition cb_async_send ::
  "cb_env \<Rightarrow> string \<Rightarrow> string \<Rightarrow> ptree \<Rightarrow> nat \<Rightarrow> (cb_effect list \<times> (http_request \<times> ptree) option) result" where
  "cb_async_send env url content info status_code =
     (case bind_exn (new_IoTUrl url) (\<lambda>dest.
           bind_exn (authenticate env status_code info) (\<lambda>info'.
           bind_exn (case lexical_int (pt_get info' ''timeout'' ''5'') of
                       Some t \<Rightarrow> Inr t | None \<Rightarrow> Inl (bad_cast ''bad_lexical_cast'')) (\<lambda>timeout.
             let request = cb_create_request dest content info'
             in Inr ([Cb_request request], Some (request, info'))))) of
        Inr r \<Rightarrow> Inr r
      | Inl e \<Rightarrow> if catchable e then Inr ([no_cb url content info (exn_what e)], None) else Inl e)"

definition receive_event ::
  "cb_env \<Rightarrow> bool \<Rightarrow> string \<Rightarrow> string \<Rightarrow> http_request \<Rightarrow> ptree \<Rightarrow> http_answer
   \<Rightarrow> (cb_effect list \<times> (http_request \<times> ptree) option) result" where
  "receive_event env callback url content request info answer =
     (let tries = pt_get_int info NUMBER_OF_TRIES 0 in
      case answer of
        (Some response, None) \<Rightarrow>
          if hp_status response = 401 \<and> tries < 1
          then cb_async_send env url content (pt_put NUMBER_OF_TRIES (show_int (tries + 1)) info) 401
          else if hp_status response = 502
          then Inr ([no_cb url content info RESPONSE_MESSAGE_BAD_GATEWAY], None)
          else Inr (cb_ok url ''send ok'' # (if callback then [Cb_callback (hp_content response) (int (hp_status response))] else []), None)
      | (_, error) \<Rightarrow>
          Inr ((if callback then [Cb_callback [] (- (case error of Some e \<Rightarrow> cb_error_value env e | None \<Rightarrow> 0))] else [])
               @ [no_cb url content info (case error of Some e \<Rightarrow> cb_error_text env e | None \<Rightarrow> ''Success'')], None))"

text \<open>The exchange that \<open>async_send\<close> starts, with the answers the connections deliver.\<close>

fun cb_exchange ::
  "cb_env \<Rightarrow> bool \<Rightarrow> string \<Rightarrow> string \<Rightarrow> http_answer list \<Rightarrow> cb_effect list \<times> (http_request \<times> ptree) option
   \<Rightarrow> (cb_effect list \<times> (http_request \<times> ptree) option) result" where
  "cb_exchange env callback url content [] st = Inr st"
| "cb_exchange env callback url content (a # as) (eff, None) = Inr (eff, None)"
| "cb_exchange env callback url content (a # as) (eff, Some (request, info)) =
     bind_exn (receive_event env callback url content request info a) (\<lambda>(eff', w).
       cb_exchange env callback url content as (eff @ eff', w))"

text \<open>\<open>send\<close> of a context element.\<close>

definition cb_get_ngsi_operation :: "cb_env \<Rightarrow> string \<Rightarrow> string result" where
  "cb_get_ngsi_operation env operation =
     (case cb_ngsi_url env of
        Inr ngsi_url \<Rightarrow> member_string ngsi_url operation
      | Inl e \<Rightarrow> if catchable e then Inr (''/NGSI10/'' @ operation) else Inl e)"

definition cb_send_element :: "cb_env \<Rightarrow> (UpdateContext \<Rightarrow> string) \<Rightarrow> ContextElement \<Rightarrow> string \<Rightarrow> ptree \<Rightarrow> (string \<times> cb_effect list) result" where
  "cb_send_element env uc_text el opSTR service_ptree =
     (let cbrokerURL = pt_get service_ptree ''cbroker'' [] in
      bind_exn (if cbrokerURL \<noteq> [] then bind_exn (cb_get_ngsi_operation env ''updateContext'') (\<lambda>u. Inr (cbrokerURL @ u)) else Inr [])
        (\<lambda>url. cb_send env url (uc_text (add_context_element el \<lparr> uc_action = opSTR, uc_elements = [] \<rparr>)) service_ptree 200))"


section \<open>How often the broker is asked\<close>

definition is_cb_request :: "cb_effect \<Rightarrow> bool" where
  "is_cb_request e = (case e of Cb_request q \<Rightarrow> True | _ \<Rightarrow> False)"

definition is_cb_callback :: "cb_effect \<Rightarrow> bool" where
  "is_cb_callback e = (case e of Cb_callback t c \<Rightarrow> True | _ \<Rightarrow> False)"

definition cb_requests :: "cb_effect list \<Rightarrow> nat" where
  "cb_requests eff = length (filter is_cb_request eff)"

definition cb_callbacks :: "cb_effect list \<Rightarrow> nat" where
  "cb_callbacks eff = length (filter is_cb_callback eff)"

lemma cb_count_simps [simp]:
  "cb_requests [] = 0" "cb_requests (a @ b) = cb_requests a + cb_requests b"
  "cb_requests (e # eff) = (if is_cb_request e then Suc (cb_requests eff) else cb_requests eff)"
  "cb_callbacks [] = 0" "cb_callbacks (a @ b) = cb_callbacks a + cb_callbacks b"
  "cb_callbacks (e # eff) = (if is_cb_callback e then Suc (cb_callbacks eff) else cb_callbacks eff)"
  by (simp_all add: cb_requests_def cb_callbacks_def)

lemma cb_effect_kinds [simp]:
  "is_cb_request (Cb_request q)" "\<not> is_cb_request (Cb_alarm a)" "\<not> is_cb_request (Cb_callback t c)"
  "is_cb_callback (Cb_callback t c)" "\<not> is_cb_callback (Cb_alarm a)" "\<not> is_cb_callback (Cb_request q)"
  "\<not> is_cb_request (no_cb u ct i tx)" "\<not> is_cb_callback (no_cb u ct i tx)" "\<not> is_cb_request (cb_ok u tx)" "\<not> is_cb_callback (cb_ok u tx)"
  by (simp_all add: is_cb_request_def is_cb_callback_def no_cb_def cb_ok_def)

lemma process_response_requests [simp]: "cb_requests (snd (process_response env url q content info a)) = 0"
  by (simp add: process_response_def split: prod.split option.split)

lemma cb_attempt_requests:
  assumes "cb_attempt env tries url content info status_code = Inr (text, response, info', eff)"
  shows "cb_requests eff \<le> 1"
  using assms
  by (auto simp: cb_attempt_def Let_def bind_exn_eq_Inr_iff case_prod_beta split: sum.split_asm if_splits)

lemma cb_send_requests:
  "cb_send env url content info status_code = Inr (tx, eff) \<Longrightarrow>
     cb_requests eff \<le> 1 + nat (1 - pt_get_int info NUMBER_OF_TRIES 0)"
proof (induction env url content info status_code arbitrary: tx eff rule: cb_send.induct)
  case (1 env url content info status_code)
  let ?tries = "pt_get_int info NUMBER_OF_TRIES 0"
  from "1.prems" obtain oauth text1 response info' eff1 where
    o: "oauth_setting env ''on_behalf_trust_url'' = Inr oauth"
    and a: "cb_attempt env ?tries url content info status_code = Inr (text1, response, info', eff1)"
    and rest: "(if unauthorised response \<and> pt_get info ''token'' [] \<noteq> [] \<and> oauth \<noteq> [] \<and> ?tries < 1
        then bind_exn (cb_send env url content (pt_put NUMBER_OF_TRIES (show_int (?tries + 1)) info') 401) (\<lambda>(text', eff').
             Inr (text', eff1 @ eff'))
        else Inr (text1, eff1)) = Inr (tx, eff)"
    by (subst (asm) cb_send.simps) (auto simp: Let_def bind_exn_eq_Inr_iff)
  note r = cb_attempt_requests [OF a]
  show ?case
  proof (cases "unauthorised response \<and> pt_get info ''token'' [] \<noteq> [] \<and> oauth \<noteq> [] \<and> ?tries < 1")
    case True
    then obtain eff2 where s: "cb_send env url content (pt_put NUMBER_OF_TRIES (show_int (?tries + 1)) info') 401 = Inr (tx, eff2)"
      "eff = eff1 @ eff2"
      using rest by (auto simp: bind_exn_eq_Inr_iff)
    have "int_range ?tries" by (rule pt_get_int_range) (simp add: int_range_def)
    then have "int_range (?tries + 1)" using True by (simp add: int_range_def)
    then have "cb_requests eff2 \<le> 1 + nat (1 - (?tries + 1))"
      using "1.IH" [OF refl refl o a refl refl refl True s(1)] by simp
    moreover have "nat (1 - ?tries) = Suc (nat (- ?tries))" using True by (simp add: nat_diff_distrib' Suc_nat_eq_nat_zadd1)
    ultimately show ?thesis using r s(2) by simp
  next
    case False
    then show ?thesis using rest r by auto
  qed
qed

lemma cb_async_send_effects:
  assumes "cb_async_send env url content info status_code = Inr (eff, w)"
  shows "cb_callbacks eff = 0 \<and> cb_requests eff \<le> 1 \<and> (w \<noteq> None \<longrightarrow> (\<exists>q i. w = Some (q, i)
     \<and> pt_get_int i NUMBER_OF_TRIES 0 = pt_get_int info NUMBER_OF_TRIES 0))"
proof (cases w)
  case None
  then show ?thesis
    using assms by (auto simp: cb_async_send_def Let_def bind_exn_eq_Inr_iff split: sum.split_asm if_splits)
next
  case (Some qi)
  obtain q i where qi: "qi = (q, i)" by (cases qi)
  have eff: "eff = [Cb_request q]" and a: "authenticate env status_code info = Inr i"
    using assms Some qi
    by (auto simp: cb_async_send_def Let_def bind_exn_eq_Inr_iff split: sum.split_asm if_splits)
  have "map_of (put_child ''token'' v cs) NUMBER_OF_TRIES = map_of cs NUMBER_OF_TRIES" for v cs
    by (induction cs) (auto simp: NUMBER_OF_TRIES_def)
  then have "pt_get_int (pt_put ''token'' v t) NUMBER_OF_TRIES 0 = pt_get_int t NUMBER_OF_TRIES 0" for v t
    by (simp add: pt_get_int_def pt_put_def)
  then have "pt_get_int i NUMBER_OF_TRIES 0 = pt_get_int info NUMBER_OF_TRIES 0"
    using a by (auto simp: authenticate_def Let_def bind_exn_eq_Inr_iff split: if_splits)
  then show ?thesis using eff Some qi by simp
qed

text \<open>C24: a message to the broker costs at most two requests.  Whatever the broker and the identity
  manager answer, the synchronous \<open>send\<close> makes at most two requests to the broker; an asynchronous
  exchange is over after at most two answers, with at most two requests and at most one call of the
  callback.\<close>

theorem broker_is_asked_at_most_twice:
  assumes "pt_get_int info NUMBER_OF_TRIES 0 = 0"
    "cb_send env url content info status_code = Inr (text, eff)"
    "cb_async_send env url content info status_code = Inr st"
    "cb_exchange env callback url content [a1, a2] st = Inr (eff', w)"
  shows "cb_requests eff \<le> 2 \<and> w = None \<and> cb_requests eff' \<le> 2 \<and> cb_callbacks eff' \<le> 1"
proof -
  have s: "cb_requests eff \<le> 2" using cb_send_requests [OF assms(2)] assms(1) by simp
  obtain eff0 w0 where st: "st = (eff0, w0)" by (cases st)
  note a0 = cb_async_send_effects [OF assms(3) [unfolded st]]
  show ?thesis
  proof (cases w0)
    case None
    then show ?thesis using s a0 assms(4) st by simp
  next
    case (Some qi)
    obtain q i where qi: "qi = (q, i)" by (cases qi)
    then have t0: "pt_get_int i NUMBER_OF_TRIES 0 = 0" using a0 Some assms(1) by simp
    obtain eff1 w1 where r1: "receive_event env callback url content q i a1 = Inr (eff1, w1)"
      and x1: "cb_exchange env callback url content [a2] (eff0 @ eff1, w1) = Inr (eff', w)"
      using assms(4) st Some qi by (auto simp: bind_exn_eq_Inr_iff)
    show ?thesis
    proof (cases w1)
      case None
      then have e: "eff' = eff0 @ eff1" "w = None" using x1 by simp_all
      have "cb_requests eff1 \<le> 1 \<and> cb_callbacks eff1 \<le> 1"
        using r1 t0 cb_async_send_effects
        by (fastforce simp: receive_event_def Let_def split: prod.splits option.splits if_splits)
      then show ?thesis using s a0 e by simp
    next
      case (Some qj)
      obtain p j where qj: "qj = (p, j)" by (cases qj)
      have c: "cb_async_send env url content (pt_put NUMBER_OF_TRIES (show_int 1) i) 401 = Inr (eff1, Some (p, j))"
        using r1 Some qj t0 by (auto simp: receive_event_def Let_def split: prod.splits option.splits if_splits)
      have t1: "pt_get_int j NUMBER_OF_TRIES 0 = 1"
        using cb_async_send_effects [OF c] by (simp add: int_range_def)
      obtain eff2 where r2: "receive_event env callback url content p j a2 = Inr (eff2, w)" "eff' = eff0 @ eff1 @ eff2"
        using x1 Some qj by (auto simp: bind_exn_eq_Inr_iff)
      then have "w = None \<and> cb_requests eff2 = 0 \<and> cb_callbacks eff2 \<le> 1"
        using t1 by (auto simp: receive_event_def Let_def split: prod.splits option.splits if_splits)
      then show ?thesis using s a0 cb_async_send_effects [OF c] r2(2) by simp
    qed
  qed
qed


section \<open>A sample broker\<close>

definition sample_trees :: "(ptree \<Rightarrow> string)" where
  "sample_trees t = pt_path t [''auth'', ''scope'', ''OS-TRUST:trust'', ''id''] []"

text \<open>The identity manager gives the token \<open>A\<close> for the trust \<open>T\<close>; the broker does not accept the first
  request and takes the second.\<close>

definition sample_cb_env :: cb_env where
  "sample_cb_env = \<lparr>
     cb_oauth = \<lparr> oe_read_json = (\<lambda>s. None), oe_write_json = (\<lambda>t. Inr (sample_trees t)),
       oe_send = (\<lambda>q. if hq_content q = ''T''
          then Some \<lparr> hp_status = 201, hp_content = [], hp_header = (\<lambda>h. if h = HTTP_HEADER_TOKEN then ''A'' else []) \<rparr> else None) \<rparr>,
     cb_oauth_conf = Inr [(''on_behalf_password'', ''p''), (''on_behalf_trust_url'', ''http://i/t''), (''on_behalf_user'', ''u'')],
     cb_http = (\<lambda>n q t p. Inr (Some \<lparr> hp_status = (if n = 0 then 401 else 200), hp_content = ''r'', hp_header = (\<lambda>h. []) \<rparr>, None)),
     cb_error_text = (\<lambda>e. []), cb_error_value = (\<lambda>e. 1), cb_ngsi_url = Inl (runtime_error ''Not found[ngsi_url]'') \<rparr>"

definition sample_info :: ptree where
  "sample_info = PTree [] [(''token'', PTree ''T'' [])]"

definition tokens_sent :: "cb_effect list \<Rightarrow> string option list" where
  "tokens_sent eff = concat (map (\<lambda>e. case e of Cb_request q \<Rightarrow> [map_of (hq_headers q) HTTP_HEADER_AUTH] | _ \<Rightarrow> []) eff)"

theorem broker_is_asked_at_most_twice_witness:
  "\<exists>eff. cb_send sample_cb_env ''http://b/u'' ''x'' sample_info 200 = Inr (''r'', eff) \<and> cb_requests eff = 2"
proof -
  have c: "case cb_send sample_cb_env ''http://b/u'' ''x'' sample_info 200 of
      Inr (r, eff) \<Rightarrow> r = ''r'' \<and> cb_requests eff = 2 | Inl _ \<Rightarrow> False"
    "case cb_async_send sample_cb_env ''http://b/u'' ''x'' sample_info 200 of
      Inr st \<Rightarrow> (case cb_exchange sample_cb_env True ''http://b/u'' ''x''
          [(None, Some Timed_out), (None, None)] st of Inr _ \<Rightarrow> True | Inl _ \<Rightarrow> False) | Inl _ \<Rightarrow> False"
    by code_simp+
  then obtain eff st eff' w where
    s: "cb_send sample_cb_env ''http://b/u'' ''x'' sample_info 200 = Inr (''r'', eff)" "cb_requests eff = 2"
    and a: "cb_async_send sample_cb_env ''http://b/u'' ''x'' sample_info 200 = Inr st"
      "cb_exchange sample_cb_env True ''http://b/u'' ''x'' [(None, Some Timed_out), (None, None)] st = Inr (eff', w)"
    by (fastforce split: sum.split_asm prod.split_asm)
  have i: "pt_get_int sample_info NUMBER_OF_TRIES 0 = 0" by code_simp
  show ?thesis using broker_is_asked_at_most_twice [OF i s(1) a] s by blast
qed

section \<open>The token of the second attempt\<close>

lemma trusted_not_pep: "token \<noteq> [] \<Longrightarrow> \<not> is_pep (trusted_OAuth oauth token user pass)"
  by (simp add: trusted_OAuth_def set_identity_def is_pep_def pt_path_def OAUTH_ON_BEHALF_TRUST_def new_OAuth_def Let_def)

definition renewed :: "http_response option \<Rightarrow> string" where
  "renewed response =
     (case response of Some r \<Rightarrow> if hp_status r = 200 \<or> hp_status r = 202 \<or> hp_status r = 201 then hp_header r HTTP_HEADER_TOKEN else []
      | None \<Rightarrow> [])"

lemma get_token_trusted:
  assumes "token \<noteq> []" "new_IoTUrl oauth = Inr dest"
    "oe_write_json env (oa_auth (trusted_OAuth oauth token user pass)) = Inr body"
  shows "\<exists>o1 eff. get_token env status_code (trusted_OAuth oauth token user pass)
     = Inr (renewed (oe_send env (create_request dest ''POST'' body (url_query dest) [])), o1, eff)"
proof -
  let ?o = "trusted_OAuth oauth token user pass"
  have f: "oa_subject_token ?o = []" "oa_trust ?o = oauth" "oa_sync ?o"
    by (simp_all add: trusted_OAuth_def set_identity_def new_OAuth_def Let_def)
  have p: "\<not> is_pep (?o\<lparr> oa_subject_token := t \<rparr>)" for t
    using trusted_not_pep [OF assms(1)] by (simp add: is_pep_def)
  show ?thesis
    using f p [of "[]"] p trusted_not_pep [OF assms(1)] assms(2,3)
    by (simp add: get_token_def renew_token_def receive_event_renew_token_def renewed_def Let_def)
qed


lemma pt_get_put_other [simp]: "key \<noteq> k \<Longrightarrow> pt_get (pt_put k v t) key dflt = pt_get t key dflt"
proof -
  have "key \<noteq> k \<Longrightarrow> map_of (put_child k v cs) key = map_of cs key" for cs
    by (induction cs) auto
  then show "key \<noteq> k \<Longrightarrow> ?thesis" by (simp add: pt_get_def pt_put_def)
qed

lemma pt_get_int_put_other [simp]: "key \<noteq> k \<Longrightarrow> pt_get_int (pt_put k v t) key dflt = pt_get_int t key dflt"
proof -
  have "key \<noteq> k \<Longrightarrow> map_of (put_child k v cs) key = map_of cs key" for cs
    by (induction cs) auto
  then show "key \<noteq> k \<Longrightarrow> ?thesis" by (simp add: pt_get_int_def pt_put_def)
qed

lemma request_token:
  "map_of (hq_headers (cb_create_request dest content info)) HTTP_HEADER_AUTH
     = (if pt_get info ''token'' [] = [] then None else Some (pt_get info ''token'' []))"
  by (simp add: cb_create_request_def change_header_def HTTP_HEADER_AUTH_def HEADER_TRACE_MESSAGES_def Let_def)

lemma tokens_sent_simps [simp]:
  "tokens_sent [] = []"
  "tokens_sent (Cb_request q # eff) = map_of (hq_headers q) HTTP_HEADER_AUTH # tokens_sent eff"
  "tokens_sent (Cb_alarm ev # eff) = tokens_sent eff" "tokens_sent (Cb_callback tx cd # eff) = tokens_sent eff"
  "tokens_sent (cb_ok u tx # eff) = tokens_sent eff" "tokens_sent (a @ b) = tokens_sent a @ tokens_sent b"
  by (simp_all add: tokens_sent_def cb_ok_def)

text \<open>the second attempt presents the wrong trust.  The access token that the first attempt was
  given replaces the trust of the service in the information that is kept, so when the broker does not
  accept it the identity manager is asked with the rejected access token as if it were the trust; unless
  that happens to be a trust as well, the message is sent again without any token.\<close>

theorem retry_loses_trust:
  assumes url: "new_IoTUrl url = Inr dest" "new_IoTUrl oauth = Inr odest" "oauth \<noteq> []"
    and conf: "cb_oauth_conf env = Inr m" "map_find m ''on_behalf_trust_url'' = Some oauth"
      "map_find m ''on_behalf_user'' = Some user" "map_find m ''on_behalf_password'' = Some pass"
    and body: "\<And>t. oe_write_json (cb_oauth env) (oa_auth (trusted_OAuth oauth t user pass)) = Inr (body t)"
    and trust: "pt_get info ''token'' [] = trust" "trust \<noteq> []" "access \<noteq> []"
    and identity: "\<And>q. hq_content q = body trust \<Longrightarrow> renewed (oe_send (cb_oauth env) q) = access"
      "\<And>q. hq_content q = body access \<Longrightarrow> renewed (oe_send (cb_oauth env) q) = []"
    and info: "lexical_int (pt_get info ''timeout'' ''5'') = Some timeout" "pt_get_int info NUMBER_OF_TRIES 0 = 0"
    and broker: "\<And>q. cb_http env 0 q timeout (pt_get info ''proxy'' []) = Inr (Some r1, None)" "hp_status r1 = 401"
      "\<And>q. cb_http env 1 q timeout (pt_get info ''proxy'' []) = Inr (Some r2, None)"
  shows "\<exists>eff. cb_send env url content info 200 = Inr (hp_content r2, eff) \<and> tokens_sent eff = [Some access, None]"
proof -
  have o: "oauth_setting env ''on_behalf_trust_url'' = Inr oauth" "oauth_setting env ''on_behalf_user'' = Inr user"
    "oauth_setting env ''on_behalf_password'' = Inr pass"
    using conf by (simp_all add: oauth_setting_def)
  have auth: "authenticate env sc i = Inr (pt_put ''token'' (if tk = trust then access else []) i)"
    if tk: "pt_get i ''token'' [] = tk" "tk = trust \<or> tk = access" for sc i tk
  proof -
    have ne: "tk \<noteq> []" using tk(2) trust by blast
    let ?q = "create_request odest ''POST'' (body tk) (url_query odest) []"
    obtain o1 eff where g: "get_token (cb_oauth env) sc (trusted_OAuth oauth tk user pass)
        = Inr (renewed (oe_send (cb_oauth env) ?q), o1, eff)"
      using get_token_trusted [OF ne url(2) body] by blast
    have "hq_content ?q = body tk" by (simp add: create_request_def)
    then have "renewed (oe_send (cb_oauth env) ?q) = (if tk = trust then access else [])"
      using tk(2) identity(1) [of ?q] identity(2) [of ?q] by (cases "tk = trust") simp_all
    then show ?thesis using o url(3) tk(1) ne g by (simp add: authenticate_def)
  qed
  let ?i1 = "pt_put ''token'' access info"
  let ?i2 = "pt_put NUMBER_OF_TRIES (show_int 1) ?i1"
  have n: "NUMBER_OF_TRIES \<noteq> ''token''" "NUMBER_OF_TRIES \<noteq> ''timeout''" "NUMBER_OF_TRIES \<noteq> ''proxy''"
    by (simp_all add: NUMBER_OF_TRIES_def)
  have a1: "\<exists>e. cb_attempt env 0 url content info 200
      = Inr (hp_content r1, Some r1, ?i1, [Cb_request (cb_create_request dest content ?i1), e]) \<and> tokens_sent [e] = []"
    using auth [OF trust(1)] url(1) info broker(1)
    by (simp add: cb_attempt_def process_response_def Let_def)
  have ne: "access \<noteq> trust"
  proof
    assume e: "access = trust"
    let ?q = "create_request odest ''POST'' (body trust) [] []"
    have "hq_content ?q = body trust" by (simp add: create_request_def)
    then show False using identity [of ?q] e trust by simp
  qed
  have t2: "pt_get ?i2 ''token'' [] = access" using n by simp
  have a2: "\<exists>i e. cb_attempt env 1 url content ?i2 401
      = Inr (hp_content r2, Some r2, i, [Cb_request (cb_create_request dest content (pt_put ''token'' [] ?i2)), e])
      \<and> tokens_sent [e] = []"
    using auth [OF t2] ne n url(1) info broker(3)
    by (simp add: cb_attempt_def process_response_def Let_def)
  then obtain i2 e2 where a2: "cb_attempt env 1 url content ?i2 401
      = Inr (hp_content r2, Some r2, i2, [Cb_request (cb_create_request dest content (pt_put ''token'' [] ?i2)), e2])"
    "tokens_sent [e2] = []" by blast
  obtain e1 where a1: "cb_attempt env 0 url content info 200
      = Inr (hp_content r1, Some r1, ?i1, [Cb_request (cb_create_request dest content ?i1), e1])" "tokens_sent [e1] = []"
    using a1 by blast
  have s2: "cb_send env url content ?i2 401
      = Inr (hp_content r2, [Cb_request (cb_create_request dest content (pt_put ''token'' [] ?i2)), e2])"
    by (subst cb_send.simps) (use a2 o(1) n in \<open>simp add: Let_def int_range_def\<close>)
  have "cb_send env url content info 200 = Inr (hp_content r2,
      [Cb_request (cb_create_request dest content ?i1), e1,
       Cb_request (cb_create_request dest content (pt_put ''token'' [] ?i2)), e2])"
    by (subst cb_send.simps) (use a1 o(1) info(2) broker(2) trust url(3) s2 in \<open>simp add: Let_def unauthorised_def\<close>)
  moreover have "tokens_sent [Cb_request (cb_create_request dest content ?i1), e1,
       Cb_request (cb_create_request dest content (pt_put ''token'' [] ?i2)), e2] = [Some access, None]"
    using a1(2) a2(2) trust(3) tokens_sent_simps(6) [of "[e1]"] tokens_sent_simps(6) [of "[e2]"]
    by (simp add: request_token tokens_sent_def)
  ultimately show ?thesis by blast
qed


theorem retry_loses_trust_witness:
  "\<exists>eff. cb_send sample_cb_env ''http://b/u'' ''x'' sample_info 200 = Inr (''r'', eff) \<and> tokens_sent eff = [Some ''A'', None]"
proof -
  obtain dest odest where u: "new_IoTUrl ''http://b/u'' = Inr dest" "new_IoTUrl ''http://i/t'' = Inr odest"
  proof -
    have "case new_IoTUrl ''http://b/u'' of Inr _ \<Rightarrow> True | Inl _ \<Rightarrow> False" "case new_IoTUrl ''http://i/t'' of Inr _ \<Rightarrow> True | Inl _ \<Rightarrow> False"
      by code_simp+
    then show ?thesis using that by (auto split: sum.split_asm)
  qed
  have b: "oe_write_json (cb_oauth sample_cb_env) (oa_auth (trusted_OAuth ''http://i/t'' t ''u'' ''p'')) = Inr t" for t
    by (simp add: sample_cb_env_def sample_trees_def trusted_OAuth_def set_identity_def new_OAuth_def pt_path_def
        OAUTH_ON_BEHALF_TRUST_def Let_def)
  have i: "lexical_int (pt_get sample_info ''timeout'' ''5'') = Some 5" "pt_get_int sample_info NUMBER_OF_TRIES 0 = 0"
    "pt_get sample_info ''token'' [] = ''T''" by code_simp+
  let ?h = "\<lambda>n :: int. \<lparr> hp_status = (if n = 0 then 401 else 200), hp_content = ''r'', hp_header = (\<lambda>h. [] :: string) \<rparr>"
  from retry_loses_trust [of "''http://b/u''" dest "''http://i/t''" odest sample_cb_env
      "[(''on_behalf_password'', ''p''), (''on_behalf_trust_url'', ''http://i/t''), (''on_behalf_user'', ''u'')]"
      "''u''" "''p''" "\<lambda>t. t" sample_info "''T''" "''A''" 5 "?h 0" "?h 1" "''x''"]
  show ?thesis
    using u b i by (simp add: sample_cb_env_def renewed_def)
qed

end
