(* ===== verification/Mongo_Collection.thy ===== *)
theory Mongo_Collection
  imports Action Alarm Ngsi_Json
begin

text \<open>
  The wrapper around the driver of the database (\<^verbatim>\<open>src/util/collection.cc\<close>): every operation turns what
  the driver throws into alarms, reconnections, retries and exceptions of the agent.  The driver and the
  database behind it are a parameter with its own type of states; a document is the list of its fields.
\<close>

section \<open>The driver\<close>

type_synonym doc = "(string \<times> json) list"

text \<open>The exceptions of the driver with their texts; the classes of the \<open>catch\<close> clauses.\<close>

datatype mongo_exn =
    SocketException string
  | ConnectException string
  | UserException string
  | AssertionException string
  | OperationException int string
  | DBException string

fun mongo_what :: "mongo_exn \<Rightarrow> string" where
  "mongo_what (SocketException w) = w"
| "mongo_what (ConnectException w) = w"
| "mongo_what (UserException w) = w"
| "mongo_what (AssertionException w) = w"
| "mongo_what (OperationException c w) = w"
| "mongo_what (DBException w) = w"

text \<open>\<open>getLastErrorDetailed\<close>.\<close>

record last_error =
  le_code :: int
  le_n :: int
  le_ok :: int
  le_err :: string
  le_text :: string

text \<open>A cursor gives documents until it fails or ends; \<open>None\<close> is a null cursor.\<close>

type_synonym cursor = "(mongo_exn + doc) list"

record 's mongo_driver =
  dr_insert :: "string \<Rightarrow> doc \<Rightarrow> 's \<Rightarrow> mongo_exn option \<times> 's"
  dr_update :: "string \<Rightarrow> doc \<Rightarrow> doc \<Rightarrow> bool \<Rightarrow> 's \<Rightarrow> mongo_exn option \<times> 's"
  dr_remove :: "string \<Rightarrow> doc \<Rightarrow> 's \<Rightarrow> mongo_exn option \<times> 's"
  dr_query :: "string \<Rightarrow> doc \<Rightarrow> int \<Rightarrow> int \<Rightarrow> doc \<Rightarrow> doc \<Rightarrow> 's \<Rightarrow> (mongo_exn + cursor option) \<times> 's"
  dr_count :: "string \<Rightarrow> doc \<Rightarrow> 's \<Rightarrow> (mongo_exn + int) \<times> 's"
  dr_command :: "string \<Rightarrow> doc \<Rightarrow> 's \<Rightarrow> (mongo_exn + doc) \<times> 's"
  dr_create_index :: "string \<Rightarrow> doc \<Rightarrow> bool \<Rightarrow> 's \<Rightarrow> mongo_exn option \<times> 's"
  dr_drop_indexes :: "string \<Rightarrow> 's \<Rightarrow> mongo_exn option \<times> 's"
  dr_last_error :: "'s \<Rightarrow> last_error"
  dr_text :: "doc \<Rightarrow> string"
  dr_endpoint :: string
  dr_database :: string

record 's mongo =
  mg_data :: 's
  mg_alarms :: "alarm_event list"
  mg_reconnects :: nat

section \<open>The code\<close>

definition ALARM_CODE_NO_MONGO :: int where
  "ALARM_CODE_NO_MONGO = 100"

definition RESPONSE_MESSAGE_DATABASE_ERROR :: string where
  "RESPONSE_MESSAGE_DATABASE_ERROR = ''Database error''"

definition RESPONSE_MESSAGE_DUPLICATED_DATA :: string where
  "RESPONSE_MESSAGE_DUPLICATED_DATA = ''There are conflicts, object already exists''"

definition MAX_RETRY :: nat where
  "MAX_RETRY = 1"

definition ERROR_NO_DATA :: int where
  "ERROR_NO_DATA = -1"

definition mongo_ns :: "'s mongo_driver \<Rightarrow> string \<Rightarrow> string" where
  "mongo_ns drv name = dr_database drv @ ''.'' @ name"

definition driver :: "('s \<Rightarrow> 'a \<times> 's) \<Rightarrow> (('s, 'z) mongo_scheme, 'a) action" where
  "driver f st = (let (r, s) = f (mg_data st) in Some (Inr r, st\<lparr> mg_data := s \<rparr>))"

definition mongo_alarm :: "'s mongo_driver \<Rightarrow> string \<Rightarrow> (('s, 'z) mongo_scheme, unit) action" where
  "mongo_alarm drv t = update_state (\<lambda>st. st\<lparr> mg_alarms := mg_alarms st
     @ [Raise ALARM_CODE_NO_MONGO (dr_endpoint drv) ''error'' t] \<rparr>)"

definition mongo_clear :: "'s mongo_driver \<Rightarrow> string \<Rightarrow> (('s, 'z) mongo_scheme, unit) action" where
  "mongo_clear drv t = update_state (\<lambda>st. st\<lparr> mg_alarms := mg_alarms st
     @ [Clear ALARM_CODE_NO_MONGO (dr_endpoint drv) ''error'' t] \<rparr>)"

definition reconnect :: "(('s, 'z) mongo_scheme, unit) action" where
  "reconnect = update_state (\<lambda>st. st\<lparr> mg_reconnects := Suc (mg_reconnects st) \<rparr>)"

definition throw :: "cxx_exn \<Rightarrow> ('t, 'a) action" where
  "throw e = lift (Inl e)"

definition database_error :: "string \<Rightarrow> cxx_exn" where
  "database_error t = IotaException RESPONSE_MESSAGE_DATABASE_ERROR t 500"

definition fail_mongo :: "'s mongo_driver \<Rightarrow> bool \<Rightarrow> string \<Rightarrow> (('s, 'z) mongo_scheme, 'a) action" where
  "fail_mongo drv again t =
     bind_act (mongo_alarm drv t) (\<lambda>_. bind_act (if again then reconnect else ret ()) (\<lambda>_. throw (database_error t)))"

definition duplicate_key :: "int \<Rightarrow> bool" where
  "duplicate_key c \<longleftrightarrow> c = 11000 \<or> c = 11001"

text \<open>The \<open>catch\<close> clauses that \<open>insert\<close>, \<open>update_r\<close>, \<open>remove\<close> and \<open>find\<close> share; \<open>insert\<close> does not reconnect
  after a failed assertion of the driver.\<close>

definition mongo_error :: "'s mongo_driver \<Rightarrow> bool \<Rightarrow> string \<Rightarrow> string \<Rightarrow> mongo_exn \<Rightarrow> (('s, 'z) mongo_scheme, 'a) action" where
  "mongo_error drv assertion_reconnects user_text what e =
     (case e of
        SocketException w \<Rightarrow> fail_mongo drv True ''SocketException ''
      | ConnectException w \<Rightarrow> fail_mongo drv True ''ConnectException ''
      | UserException w \<Rightarrow> fail_mongo drv False user_text
      | AssertionException w \<Rightarrow> fail_mongo drv assertion_reconnects ''AssertionException ''
      | OperationException cd w \<Rightarrow>
          if duplicate_key cd
          then throw (IotaException RESPONSE_MESSAGE_DUPLICATED_DATA (''duplicate key: '' @ what) 409)
          else fail_mongo drv False what
      | DBException w \<Rightarrow> fail_mongo drv True ''DBException '')"

definition is_user :: "mongo_exn \<Rightarrow> bool" where
  "is_user e = (case e of UserException w \<Rightarrow> True | _ \<Rightarrow> False)"

definition getLastError :: "'s mongo_driver \<Rightarrow> string \<Rightarrow> doc \<Rightarrow> (('s, 'z) mongo_scheme, int) action" where
  "getLastError drv bbdd obj =
     bind_act (driver (\<lambda>s. (dr_last_error drv s, s))) (\<lambda>err.
     bind_act (mongo_clear drv (le_text err)) (\<lambda>_.
       let detail = bbdd @ dr_text drv obj @ '' error:'' @ show_int (le_code err) @ '':'' @ le_err err in
       if le_code err = 0 then
         if le_ok err = 0
         then throw (database_error (le_err err @ ''   mongoiota::store:: '' @ bbdd @ ''::getLastError''))
         else ret (le_n err)
       else if duplicate_key (le_code err)
       then throw (IotaException RESPONSE_MESSAGE_INVALID_PARAMETER ''duplicate key '' 409)
       else throw (database_error detail)))"

text \<open>Control reaches the end of \<open>insert\<close> without a value; no caller uses one.\<close>

function insert_try :: "'s mongo_driver \<Rightarrow> string \<Rightarrow> doc \<Rightarrow> nat \<Rightarrow> (('s, 'z) mongo_scheme, unit) action" where
  "insert_try drv name data retry =
     bind_act (driver (dr_insert drv (mongo_ns drv name) data)) (\<lambda>r.
       case r of
         None \<Rightarrow> mongo_clear drv ''insert OK''
       | Some e \<Rightarrow>
           if is_user e \<and> retry < MAX_RETRY then insert_try drv name data (retry + 1)
           else mongo_error drv False ''problem with dabaseUSerConnection'' (mongo_ns drv name @ '' '' @ dr_text drv data) e)"
  by pat_completeness auto
termination by (relation "measure (\<lambda>(drv, name, data, retry). MAX_RETRY - retry)") auto

declare insert_try.simps [simp del]

definition mongo_insert :: "'s mongo_driver \<Rightarrow> string \<Rightarrow> doc \<Rightarrow> (('s, 'z) mongo_scheme, unit) action" where
  "mongo_insert drv name data = insert_try drv name data 0"

text \<open>\<open>update\<close> wraps the fields in \<open>$set\<close> and calls \<open>update_r\<close> with retry 0, whatever its own \<open>retry\<close> is;
  \<open>update_r\<close> retries by calling \<open>update\<close> and drops its result.\<close>

definition set_doc :: "doc \<Rightarrow> doc" where
  "set_doc d = [(''$set'', JObject d)]"

definition update_failure :: "'s mongo_driver \<Rightarrow> string \<Rightarrow> doc \<Rightarrow> mongo_exn \<Rightarrow> (('s, 'z) mongo_scheme, int) action" where
  "update_failure drv name query e =
     mongo_error drv True ''problem with database UserConnection'' (mongo_ns drv name @ '' '' @ dr_text drv query) e"

definition without_result :: "'a \<Rightarrow> 'a result \<times> 't \<Rightarrow> 'a result \<times> 't" where
  "without_result n r = (case fst r of Inl e \<Rightarrow> (Inl e, snd r) | Inr x \<Rightarrow> (Inr n, snd r))"

partial_function (option) update_r ::
  "'s mongo_driver \<Rightarrow> string \<Rightarrow> doc \<Rightarrow> doc \<Rightarrow> bool \<Rightarrow> nat \<Rightarrow> ('s, 'z) mongo_scheme
   \<Rightarrow> (int result \<times> ('s, 'z) mongo_scheme) option" where
  "update_r drv name query setData upsert retry st =
     (let (r, s) = dr_update drv (mongo_ns drv name) query setData upsert (mg_data st);
          st1 = st\<lparr> mg_data := s \<rparr>
      in case r of
           None \<Rightarrow> getLastError drv (mongo_ns drv name) setData st1
         | Some e \<Rightarrow>
             if is_user e \<and> retry < MAX_RETRY
             then Option.bind (update_r drv name query (set_doc setData) upsert 0 st1) (\<lambda>x. Some (without_result 0 x))
             else update_failure drv name query e st1)"

declare update_r.simps [code]

definition mongo_update :: "'s mongo_driver \<Rightarrow> string \<Rightarrow> doc \<Rightarrow> doc \<Rightarrow> bool \<Rightarrow> (('s, 'z) mongo_scheme, int) action" where
  "mongo_update drv name query setData upsert = update_r drv name query (set_doc setData) upsert 0"

function remove_try :: "'s mongo_driver \<Rightarrow> string \<Rightarrow> doc \<Rightarrow> nat \<Rightarrow> (('s, 'z) mongo_scheme, int) action" where
  "remove_try drv name query retry =
     bind_act (driver (dr_remove drv (mongo_ns drv name) query)) (\<lambda>r.
       case r of
         None \<Rightarrow> getLastError drv (mongo_ns drv name) query
       | Some e \<Rightarrow>
           if is_user e \<and> retry < MAX_RETRY
           then bind_act (remove_try drv name query (retry + 1)) (\<lambda>_. ret 0)
           else mongo_error drv True ''problem with database UserConnection'' (mongo_ns drv name @ '' '' @ dr_text drv query) e)"
  by pat_completeness auto
termination by (relation "measure (\<lambda>(drv, name, query, retry). MAX_RETRY - retry)") auto

declare remove_try.simps [simp del]

definition mongo_remove :: "'s mongo_driver \<Rightarrow> string \<Rightarrow> doc \<Rightarrow> (('s, 'z) mongo_scheme, int) action" where
  "mongo_remove drv name query = remove_try drv name query 0"

text \<open>\<open>find\<close>: the result and the cursor.  The retry appends to a builder that was finished.\<close>

definition mongo_find ::
  "'s mongo_driver \<Rightarrow> string \<Rightarrow> doc \<Rightarrow> int \<Rightarrow> int \<Rightarrow> doc \<Rightarrow> doc \<Rightarrow> (('s, 'z) mongo_scheme, int \<times> cursor) action" where
  "mongo_find drv name query limit skip order fieldsToReturn =
     bind_act (driver (dr_query drv (mongo_ns drv name) query limit skip order (fieldsToReturn @ [(''_id'', JInt 0)]))) (\<lambda>r.
       case r of
         Inr None \<Rightarrow> throw (database_error ''query returns null'')
       | Inr (Some (Inl e # c)) \<Rightarrow>
           if is_user e then throw (undefined_behaviour ''fieldsToReturn.append'')
           else mongo_error drv True [] (mongo_ns drv name @ '' '' @ dr_text drv query) e
       | Inr (Some c) \<Rightarrow> ret (if c \<noteq> [] then 0 else ERROR_NO_DATA, c)
       | Inl e \<Rightarrow>
           if is_user e then throw (undefined_behaviour ''fieldsToReturn.append'')
           else mongo_error drv True [] (mongo_ns drv name @ '' '' @ dr_text drv query) e)"

definition mongo_find_all :: "'s mongo_driver \<Rightarrow> string \<Rightarrow> doc \<Rightarrow> (('s, 'z) mongo_scheme, int \<times> cursor) action" where
  "mongo_find_all drv name query = mongo_find drv name query 0 0 [] []"

definition mongo_count :: "'s mongo_driver \<Rightarrow> string \<Rightarrow> doc \<Rightarrow> (('s, 'z) mongo_scheme, int) action" where
  "mongo_count drv name query =
     bind_act (driver (dr_count drv (mongo_ns drv name) query)) (\<lambda>r.
       case r of
         Inr n \<Rightarrow> ret n
       | Inl e \<Rightarrow> fail_mongo drv True (''error: '' @ name @ '': '' @ dr_text drv query @ '' what='' @ mongo_what e))"

text \<open>\<open>more\<close>: most handlers end without a value.  A second failure after a user exception escapes.\<close>

fun mongo_more :: "'s mongo_driver \<Rightarrow> cursor \<Rightarrow> (('s, 'z) mongo_scheme, bool) action" where
  "mongo_more drv [] = ret False"
| "mongo_more drv (Inr d # c) = ret True"
| "mongo_more drv (Inl e # c) =
     (case e of
        UserException w \<Rightarrow> (case c of [] \<Rightarrow> ret False | Inr d # c' \<Rightarrow> ret True | Inl e' # c' \<Rightarrow> throw (runtime_error (mongo_what e')))
      | OperationException cd w \<Rightarrow>
          bind_act (mongo_clear drv w) (\<lambda>_.
          throw (database_error ('' more error:'' @ show_int cd @ '':'' @ w)))
      | DBException w \<Rightarrow> bind_act reconnect (\<lambda>_. throw (undefined_behaviour ''more''))
      | _ \<Rightarrow> throw (undefined_behaviour ''more''))"

fun mongo_next :: "'s mongo_driver \<Rightarrow> cursor \<Rightarrow> (('s, 'z) mongo_scheme, doc \<times> cursor) action" where
  "mongo_next drv [] = throw (IotaException RESPONSE_MESSAGE_INVALID_PARAMETER ''no more data'' 400)"
| "mongo_next drv (Inr d # c) = ret (d, c)"
| "mongo_next drv (Inl e # c) =
     (if is_user e
      then bind_act (mongo_alarm drv (''Capturada mongo::UserException salimos de next, excepcion: '' @ mongo_what e)) (\<lambda>_.
           throw (database_error (mongo_what e)))
      else bind_act (mongo_alarm drv (''fetch  Error: '' @ mongo_what e)) (\<lambda>_. bind_act reconnect (\<lambda>_.
           throw (database_error (mongo_what e)))))"

text \<open>The loop over a cursor: \<open>while (more()) next()\<close>.\<close>

function read_cursor :: "'s mongo_driver \<Rightarrow> cursor \<Rightarrow> (('s, 'z) mongo_scheme, doc list) action" where
  "read_cursor drv c st =
     (case c of
        [] \<Rightarrow> ret [] st
      | Inr d # c' \<Rightarrow> bind_act (read_cursor drv c') (\<lambda>ds. ret (d # ds)) st
      | Inl e # c' \<Rightarrow>
          bind_act (mongo_more drv c) (\<lambda>more. if more then read_cursor drv c' else ret []) st)"
  by pat_completeness auto
termination by (relation "measure (\<lambda>(drv, c, st). length c)") auto

declare read_cursor.simps [simp del]

text \<open>\<open>findAndModify\<close>, \<open>aggregate\<close> and \<open>distinct\<close>: a command is tried twice, with a reconnection between.\<close>

definition run_command :: "'s mongo_driver \<Rightarrow> doc \<Rightarrow> (('s, 'z) mongo_scheme, doc) action" where
  "run_command drv r =
     bind_act (driver (dr_command drv (dr_database drv) r)) (\<lambda>first.
     bind_act
       (case first of
          Inr res \<Rightarrow> ret res
        | Inl original \<Rightarrow>
            bind_act reconnect (\<lambda>_.
            bind_act (driver (dr_command drv (dr_database drv) r)) (\<lambda>second.
              case second of
                Inr res \<Rightarrow> ret res
              | Inl e \<Rightarrow> bind_act (mongo_alarm drv (mongo_what e)) (\<lambda>_. bind_act reconnect (\<lambda>_.
                  throw (database_error (mongo_what original))))))) (\<lambda>res.
     bind_act (getLastError drv (dr_database drv) res) (\<lambda>_. ret res)))"

definition findAndModify :: "'s mongo_driver \<Rightarrow> string \<Rightarrow> doc \<Rightarrow> doc \<Rightarrow> bool \<Rightarrow> (('s, 'z) mongo_scheme, doc) action" where
  "findAndModify drv table query setd upsert =
     run_command drv ([(''findandmodify'', JString table), (''query'', JObject query), (''update'', JObject setd)]
       @ (if upsert then [(''upsert'', JBool True)] else []))"

definition aggregate :: "'s mongo_driver \<Rightarrow> string \<Rightarrow> doc list \<Rightarrow> (('s, 'z) mongo_scheme, doc) action" where
  "aggregate drv name pipeline =
     run_command drv [(''aggregate'', JString name), (''pipeline'', JArray (map JObject pipeline))]"

definition distinct_values :: "'s mongo_driver \<Rightarrow> string \<Rightarrow> string \<Rightarrow> doc \<Rightarrow> (('s, 'z) mongo_scheme, doc) action" where
  "distinct_values drv name field query =
     run_command drv [(''distinct'', JString name), (''key'', JString field), (''query'', JObject query)]"

subsection \<open>Indexes\<close>

definition ensureIndex :: "'s mongo_driver \<Rightarrow> string \<Rightarrow> doc \<Rightarrow> bool \<Rightarrow> (('s, 'z) mongo_scheme, int) action" where
  "ensureIndex drv name index is_unique =
     bind_act (driver (dr_create_index drv (mongo_ns drv name) index is_unique)) (\<lambda>r.
       case r of None \<Rightarrow> ret 0 | Some e \<Rightarrow> fail_mongo drv True ''DBException '')"

definition dropIndexes :: "'s mongo_driver \<Rightarrow> string \<Rightarrow> (('s, 'z) mongo_scheme, int) action" where
  "dropIndexes drv name =
     bind_act (driver (dr_drop_indexes drv (mongo_ns drv name))) (\<lambda>r.
       case r of
         None \<Rightarrow> ret 0
       | Some e \<Rightarrow> bind_act (mongo_alarm drv ''DBException in  dropIndexes'') (\<lambda>_. bind_act reconnect (\<lambda>_. ret (-1))))"

text \<open>With two indexes the query for the right one is made, and its answer is compared with \<open>dropIndex\<close>
  instead of being assigned to it.\<close>

definition createIndex :: "'s mongo_driver \<Rightarrow> string \<Rightarrow> doc \<Rightarrow> bool \<Rightarrow> (('s, 'z) mongo_scheme, int) action" where
  "createIndex drv name index uniqueIndex =
     (let bbdd = mongo_ns drv name in
      bind_act (mongo_count drv ''system.indexes'' [(''ns'', JString bbdd)]) (\<lambda>num_index.
      bind_act
        (if num_index = 2
         then bind_act (mongo_count drv ''system.indexes''
                ([(''ns'', JString bbdd), (''key'', JObject index)] @ (if uniqueIndex then [(''unique'', JBool True)] else [])))
                (\<lambda>_. ret False)
         else ret True) (\<lambda>dropIndex.
      if dropIndex
      then bind_act (dropIndexes drv name) (\<lambda>_. bind_act (ensureIndex drv name index uniqueIndex) (\<lambda>_. ret 200))
      else ret 200)))"


subsection \<open>The tables\<close>

definition DEVICE_TABLE :: string where
  "DEVICE_TABLE = ''DEVICE''"

definition SERVICE_TABLE :: string where
  "SERVICE_TABLE = ''SERVICE''"

definition COMMAND_TABLE :: string where
  "COMMAND_TABLE = ''COMMAND''"

definition MANAGER_SERVICE_TABLE :: string where
  "MANAGER_SERVICE_TABLE = ''SERVICE_MGMT''"

definition PROTOCOL_TABLE :: string where
  "PROTOCOL_TABLE = ''PROTOCOL''"

definition index_on :: "string list \<Rightarrow> doc" where
  "index_on ks = map (\<lambda>k. (k, JInt 1)) ks"

definition device_indexes :: "'s mongo_driver \<Rightarrow> (('s, 'z) mongo_scheme, int) action" where
  "device_indexes drv =
     bind_act (createIndex drv DEVICE_TABLE (index_on [''device_id'', ''service'', ''service_path'']) True) (\<lambda>_.
     createIndex drv DEVICE_TABLE (index_on [''entity_name'', ''entity_type'', ''service'', ''service_path'']) True)"

definition service_indexes :: "'s mongo_driver \<Rightarrow> (('s, 'z) mongo_scheme, int) action" where
  "service_indexes drv =
     bind_act (createIndex drv SERVICE_TABLE (index_on [''apikey'', ''resource'']) True) (\<lambda>_.
     createIndex drv SERVICE_TABLE (index_on [''service'', ''service_path'', ''resource'']) True)"

definition service_mgmt_indexes :: "'s mongo_driver \<Rightarrow> (('s, 'z) mongo_scheme, int) action" where
  "service_mgmt_indexes drv =
     createIndex drv MANAGER_SERVICE_TABLE (index_on [''service'', ''service_path'', ''iotagent'', ''protocol'']) True"

definition command_indexes :: "'s mongo_driver \<Rightarrow> (('s, 'z) mongo_scheme, int) action" where
  "command_indexes drv = createIndex drv COMMAND_TABLE (index_on [''id'', ''service'', ''service_path'']) True"

definition protocol_indexes :: "'s mongo_driver \<Rightarrow> (('s, 'z) mongo_scheme, int) action" where
  "protocol_indexes drv = createIndex drv PROTOCOL_TABLE (index_on [''protocol'']) True"

section \<open>What the operations leave alone\<close>

text \<open>Properties of the state that do not depend on the alarms and the reconnections, and are kept by the
  queries, or by the changes, of a table.\<close>

definition notice_free :: "(('s, 'z) mongo_scheme \<Rightarrow> bool) \<Rightarrow> bool" where
  "notice_free P \<longleftrightarrow> (\<forall>st a r. P st \<longrightarrow> P (st\<lparr> mg_alarms := a \<rparr>) \<and> P (st\<lparr> mg_reconnects := r \<rparr>))"

definition op_keeps :: "(('s, 'z) mongo_scheme \<Rightarrow> bool) \<Rightarrow> ('s \<Rightarrow> 'a \<times> 's) \<Rightarrow> bool" where
  "op_keeps P f \<longleftrightarrow> (\<forall>st. P st \<longrightarrow> P (st\<lparr> mg_data := snd (f (mg_data st)) \<rparr>))"

definition reads_free :: "(('s, 'z) mongo_scheme \<Rightarrow> bool) \<Rightarrow> 's mongo_driver \<Rightarrow> string \<Rightarrow> bool" where
  "reads_free P drv name \<longleftrightarrow> notice_free P
     \<and> (\<forall>q l k ord fs. op_keeps P (dr_query drv (mongo_ns drv name) q l k ord fs))
     \<and> (\<forall>q. op_keeps P (dr_count drv (mongo_ns drv name) q))"

definition writes_free :: "(('s, 'z) mongo_scheme \<Rightarrow> bool) \<Rightarrow> 's mongo_driver \<Rightarrow> string \<Rightarrow> bool" where
  "writes_free P drv name \<longleftrightarrow> notice_free P
     \<and> (\<forall>d. op_keeps P (dr_insert drv (mongo_ns drv name) d))
     \<and> (\<forall>q d u. op_keeps P (dr_update drv (mongo_ns drv name) q d u))
     \<and> (\<forall>q. op_keeps P (dr_remove drv (mongo_ns drv name) q))"

text \<open>A property of the state that does not look at the database at all.\<close>

definition db_free :: "(('s, 'z) mongo_scheme \<Rightarrow> bool) \<Rightarrow> bool" where
  "db_free P \<longleftrightarrow> (\<forall>st d a r. P st \<longrightarrow> P (st\<lparr> mg_data := d \<rparr>) \<and> P (st\<lparr> mg_alarms := a \<rparr>) \<and> P (st\<lparr> mg_reconnects := r \<rparr>))"

lemma db_free_frees:
  assumes "db_free P"
  shows "notice_free P" "reads_free P drv name" "writes_free P drv name"
  using assms by (auto simp: db_free_def notice_free_def reads_free_def writes_free_def op_keeps_def)

lemma free_notice: "reads_free P drv name \<Longrightarrow> notice_free P" "writes_free P drv name \<Longrightarrow> notice_free P"
  by (simp_all add: reads_free_def writes_free_def)

lemma keeps_driver: "op_keeps P f \<Longrightarrow> keeps P (driver f)"
  by (auto simp: keeps_def driver_def op_keeps_def split: prod.splits)

lemma keeps_last_error: "notice_free P \<Longrightarrow> keeps P (driver (\<lambda>s. (f s, s)))"
  by (auto simp: keeps_def driver_def)

lemma keeps_notices [keeps_intros]:
  "notice_free P \<Longrightarrow> keeps P (mongo_alarm drv t)" "notice_free P \<Longrightarrow> keeps P (mongo_clear drv t)" "notice_free P \<Longrightarrow> keeps P reconnect"
  by (auto simp: mongo_alarm_def mongo_clear_def reconnect_def notice_free_def intro!: keeps_update)

lemma keeps_throw [keeps_intros]: "keeps P (throw e)"
  unfolding throw_def by (rule keeps_intros)

lemma keeps_fail_mongo [keeps_intros]: "notice_free P \<Longrightarrow> keeps P (fail_mongo drv again t)"
  unfolding fail_mongo_def by (intro keeps_intros)

lemma keeps_mongo_error [keeps_intros]: "notice_free P \<Longrightarrow> keeps P (mongo_error drv b u w e)"
  unfolding mongo_error_def by (cases e) (simp_all add: keeps_intros)

lemma keeps_getLastError [keeps_intros]: "notice_free P \<Longrightarrow> keeps P (getLastError drv n d)"
  unfolding getLastError_def Let_def by (intro keeps_intros keeps_last_error)

lemma keeps_insert_try [keeps_intros]: "writes_free P drv name \<Longrightarrow> keeps P (insert_try drv name data retry)"
proof (induction drv name data retry rule: insert_try.induct)
  case (1 drv name data retry)
  have ih: "retry < MAX_RETRY \<Longrightarrow> keeps P (insert_try drv name data (retry + 1))"
    using "1.IH" [of "UserException []"] 1(2) by (simp add: is_user_def)
  have op: "op_keeps P (dr_insert drv (mongo_ns drv name) data)" using 1(2) by (simp add: writes_free_def)
  show ?case by (subst insert_try.simps) (intro keeps_intros keeps_driver op ih free_notice(2) [OF 1(2)], simp_all)
qed

lemma keeps_mongo_insert [keeps_intros]: "writes_free P drv name \<Longrightarrow> keeps P (mongo_insert drv name data)"
  unfolding mongo_insert_def by (rule keeps_intros)

lemma keeps_remove_try [keeps_intros]: "writes_free P drv name \<Longrightarrow> keeps P (remove_try drv name query retry)"
proof (induction drv name query retry rule: remove_try.induct)
  case (1 drv name query retry)
  have ih: "retry < MAX_RETRY \<Longrightarrow> keeps P (remove_try drv name query (retry + 1))"
    using "1.IH" [of "UserException []"] 1(2) by (simp add: is_user_def)
  have op: "op_keeps P (dr_remove drv (mongo_ns drv name) query)" using 1(2) by (simp add: writes_free_def)
  show ?case by (subst remove_try.simps) (intro keeps_intros keeps_driver op ih free_notice(2) [OF 1(2)], simp_all)
qed

lemma keeps_mongo_remove [keeps_intros]: "writes_free P drv name \<Longrightarrow> keeps P (mongo_remove drv name query)"
  unfolding mongo_remove_def by (rule keeps_intros)

lemma keeps_mongo_find [keeps_intros]:
  "reads_free P drv name \<Longrightarrow> keeps P (mongo_find drv name query limit skip order fs)"
  "reads_free P drv name \<Longrightarrow> keeps P (mongo_find_all drv name query)"
proof -
  assume P: "reads_free P drv name"
  have op: "op_keeps P (dr_query drv (mongo_ns drv name) q l k ord fs)" for q l k ord fs
    using P by (simp add: reads_free_def)
  show *: "keeps P (mongo_find drv name query limit skip order fs)" for query limit skip order fs
    unfolding mongo_find_def
    by (intro keeps_bind keeps_driver op) (simp add: keeps_intros free_notice(1) [OF P] split: sum.split option.split list.split)
  show "keeps P (mongo_find_all drv name query)" unfolding mongo_find_all_def by (rule *)
qed

lemma keeps_mongo_count [keeps_intros]: "reads_free P drv name \<Longrightarrow> keeps P (mongo_count drv name query)"
  unfolding mongo_count_def
  by (intro keeps_bind keeps_driver) (simp_all add: keeps_intros free_notice reads_free_def split: sum.split)

lemma keeps_mongo_more [keeps_intros]: "notice_free P \<Longrightarrow> keeps P (mongo_more drv c)"
proof (induction drv c rule: mongo_more.induct)
  case (3 drv e c)
  then show ?case by (cases e) (auto simp: keeps_intros split: list.split sum.split)
qed (simp_all add: keeps_intros)

lemma keeps_mongo_next [keeps_intros]: "notice_free P \<Longrightarrow> keeps P (mongo_next drv c)"
proof (induction drv c rule: mongo_next.induct)
  case (3 drv e c)
  then show ?case by (auto intro: keeps_intros)
qed (simp_all add: keeps_intros)

lemma keeps_bind_at:
  "bind_act m f st = Some (r, st') \<Longrightarrow> P st \<Longrightarrow> keeps P m \<Longrightarrow> (\<And>x st1. P st1 \<Longrightarrow> f x st1 = Some (r, st') \<Longrightarrow> P st') \<Longrightarrow> P st'"
  by (auto simp: bind_act_eq_Some keeps_def)

lemma keeps_read_cursor [keeps_intros]: "notice_free P \<Longrightarrow> keeps P (read_cursor drv c)"
proof (induction c rule: length_induct)
  case (1 c)
  show ?case
  proof (cases c)
    case (Cons a c')
    have ih: "keeps P (read_cursor drv c')" using 1 Cons by auto
    have eq: "read_cursor drv c = (case a of Inr d \<Rightarrow> bind_act (read_cursor drv c') (\<lambda>ds. ret (d # ds))
        | Inl e \<Rightarrow> bind_act (mongo_more drv c) (\<lambda>more. if more then read_cursor drv c' else ret []))"
      using Cons by (cases a; intro ext) (subst read_cursor.simps, simp del: mongo_more.simps)+
    show ?thesis unfolding eq using 1 by (auto split: sum.split intro!: keeps_intros ih)
  next
    case Nil
    show ?thesis unfolding Nil by (auto simp: keeps_def ret_def read_cursor.simps [of drv "[]"])
  qed
qed

lemma update_r_keeps:
  fixes P :: "('s, 'z) mongo_scheme \<Rightarrow> bool"
  shows "update_r drv name query d upsert retry st = Some r \<Longrightarrow> writes_free P drv name \<longrightarrow> P st \<longrightarrow> P (snd r)"
proof (rule update_r.raw_induct [where P = "\<lambda>(drv :: 's mongo_driver) name query d upsert retry (st :: ('s, 'z) mongo_scheme) r. writes_free P drv name \<longrightarrow> P st \<longrightarrow> P (snd r)"])
  fix f :: "'s mongo_driver \<Rightarrow> string \<Rightarrow> doc \<Rightarrow> doc \<Rightarrow> bool \<Rightarrow> nat \<Rightarrow> ('s, 'z) mongo_scheme
      \<Rightarrow> (int result \<times> ('s, 'z) mongo_scheme) option"
    and drv :: "'s mongo_driver" and name query d upsert retry and st :: "('s, 'z) mongo_scheme" and y
  assume ih: "\<And>drv name query d upsert retry st y.
      f drv name query d upsert retry st = Some y \<Longrightarrow> writes_free P drv name \<longrightarrow> P st \<longrightarrow> P (snd y)"
    and body: "(let (r, s) = dr_update drv (mongo_ns drv name) query d upsert (mg_data st);
          st1 = st\<lparr> mg_data := s \<rparr>
      in case r of
           None \<Rightarrow> getLastError drv (mongo_ns drv name) d st1
         | Some e \<Rightarrow>
             if is_user e \<and> retry < MAX_RETRY
             then Option.bind (f drv name query (set_doc d) upsert 0 st1) (\<lambda>x. Some (without_result 0 x))
             else update_failure drv name query e st1) = Some y"
  show "writes_free P drv name \<longrightarrow> P st \<longrightarrow> P (snd y)"
  proof (intro impI)
    assume P: "writes_free P drv name" "P st"
    obtain r s where u: "dr_update drv (mongo_ns drv name) query d upsert (mg_data st) = (r, s)" by fastforce
    obtain yr yst where y: "y = (yr, yst)" by fastforce
    have P1: "P (st\<lparr> mg_data := s \<rparr>)" using P(1) [unfolded writes_free_def op_keeps_def] P(2) u by (metis snd_conv)
    note notice = free_notice(2) [OF P(1)]
    show "P (snd y)"
    proof (cases r)
      case None
      then show ?thesis using body u y P1 keeps_getLastError [OF notice] by (auto simp: keeps_def)
    next
      case (Some e)
      show ?thesis
      proof (cases "is_user e \<and> retry < MAX_RETRY")
        case True
        then obtain x where "f drv name query (set_doc d) upsert 0 (st\<lparr> mg_data := s \<rparr>) = Some x" "y = without_result 0 x"
          using body u Some by (auto simp: bind_eq_Some_conv)
        then show ?thesis using ih P(1) P1 by (cases x) (fastforce simp: without_result_def split: sum.split)
      next
        case False
        then have "update_failure drv name query e (st\<lparr> mg_data := s \<rparr>) = Some (yr, yst)" using body u y Some by auto
        then show ?thesis unfolding y update_failure_def by (auto intro: keeps_at [OF keeps_mongo_error [OF notice] _ P1])
      qed
    qed
  qed
qed

lemma keeps_mongo_update [keeps_intros]: "writes_free P drv name \<Longrightarrow> keeps P (mongo_update drv name query d upsert)"
  unfolding keeps_def mongo_update_def using update_r_keeps [where P = P] by fastforce

section \<open>Retries\<close>

lemma action_total:
  "driver f st \<noteq> None" "mongo_alarm drv t st \<noteq> None" "mongo_clear drv t st \<noteq> None" "reconnect st \<noteq> None"
  "throw e st \<noteq> None" "ret x st \<noteq> None"
  by (simp_all add: driver_def mongo_alarm_def mongo_clear_def reconnect_def throw_def ret_def lift_def update_state_def
      split: prod.split)

lemma bind_act_total: "m st \<noteq> None \<Longrightarrow> (\<And>x st'. f x st' \<noteq> None) \<Longrightarrow> bind_act m f st \<noteq> None"
  by (auto simp: bind_act_def split: option.split sum.split)

lemma fail_total: "fail_mongo drv b t st \<noteq> None" "mongo_error drv b u w e st \<noteq> None" "getLastError drv n d st \<noteq> None"
proof -
  have *: "fail_mongo drv b t st \<noteq> None" for b t st
    unfolding fail_mongo_def by (intro bind_act_total action_total) (simp_all add: action_total del: not_None_eq)
  show "fail_mongo drv b t st \<noteq> None" by (rule *)
  show "mongo_error drv b u w e st \<noteq> None"
    unfolding mongo_error_def by (cases e) (auto simp: * action_total simp del: not_None_eq)
  show "getLastError drv n d st \<noteq> None"
    unfolding getLastError_def Let_def
    by (intro bind_act_total action_total) (auto simp: action_total simp del: not_None_eq)
qed

lemma insert_total: "insert_try drv name data retry st \<noteq> None"
proof (induction drv name data retry arbitrary: st rule: insert_try.induct)
  case (1 drv name data retry)
  show ?case
  proof (subst insert_try.simps, rule bind_act_total)
    fix r and st' :: "('a, 'b) mongo_scheme"
    show "(case r of None \<Rightarrow> mongo_clear drv ''insert OK''
       | Some e \<Rightarrow> if is_user e \<and> retry < MAX_RETRY then insert_try drv name data (retry + 1)
           else mongo_error drv False ''problem with dabaseUSerConnection'' (mongo_ns drv name @ '' '' @ dr_text drv data) e) st' \<noteq> None"
      using 1 by (cases r) (auto simp: action_total fail_total simp del: not_None_eq)
  qed (rule action_total)
qed

lemma remove_total: "remove_try drv name query retry st \<noteq> None"
proof (induction drv name query retry arbitrary: st rule: remove_try.induct)
  case (1 drv name query retry)
  show ?case
  proof (subst remove_try.simps, rule bind_act_total)
    fix r and st' :: "('a, 'b) mongo_scheme"
    show "(case r of None \<Rightarrow> getLastError drv (mongo_ns drv name) query
       | Some e \<Rightarrow> if is_user e \<and> retry < MAX_RETRY
           then bind_act (remove_try drv name query (retry + 1)) (\<lambda>_. ret 0)
           else mongo_error drv True ''problem with database UserConnection'' (mongo_ns drv name @ '' '' @ dr_text drv query) e) st' \<noteq> None"
    proof (cases r)
      case (Some e)
      show ?thesis
      proof (cases "is_user e \<and> retry < MAX_RETRY")
        case True
        have "bind_act (remove_try drv name query (retry + 1)) (\<lambda>_. ret 0) st' \<noteq> None"
          by (rule bind_act_total [OF "1.IH" [OF True] action_total(6)])
        then show ?thesis using Some True by (simp del: not_None_eq)
      next
        case False
        then show ?thesis unfolding Some by (simp only: option.case if_False fail_total not_False_eq_True)
      qed
    qed (simp add: fail_total del: not_None_eq)
  qed (rule action_total)
qed

definition rejects_updates :: "'s mongo_driver \<Rightarrow> string \<Rightarrow> bool" where
  "rejects_updates drv name \<longleftrightarrow>
     (\<forall>q d u s. \<exists>w s'. dr_update drv (mongo_ns drv name) q d u s = (Some (UserException w), s'))"

lemma update_r_diverges:
  "update_r drv name query d upsert retry st = Some r \<Longrightarrow> \<not> (retry = 0 \<and> rejects_updates drv name)"
proof (rule update_r.raw_induct [where P = "\<lambda>drv name query d upsert retry st r. \<not> (retry = 0 \<and> rejects_updates drv name)"])
  fix f :: "'s mongo_driver \<Rightarrow> string \<Rightarrow> doc \<Rightarrow> doc \<Rightarrow> bool \<Rightarrow> nat \<Rightarrow> ('s, 'z) mongo_scheme
      \<Rightarrow> (int result \<times> ('s, 'z) mongo_scheme) option"
    and drv :: "'s mongo_driver" and name query d upsert retry and st :: "('s, 'z) mongo_scheme" and y
  assume ih: "\<And>drv name query d upsert retry st y.
      f drv name query d upsert retry st = Some y \<Longrightarrow> \<not> (retry = 0 \<and> rejects_updates drv name)"
    and body: "(let (r, s) = dr_update drv (mongo_ns drv name) query d upsert (mg_data st);
          st1 = st\<lparr> mg_data := s \<rparr>
      in case r of
           None \<Rightarrow> getLastError drv (mongo_ns drv name) d st1
         | Some e \<Rightarrow>
             if is_user e \<and> retry < MAX_RETRY
             then Option.bind (f drv name query (set_doc d) upsert 0 st1) (\<lambda>x. Some (without_result 0 x))
             else update_failure drv name query e st1) = Some y"
  show "\<not> (retry = 0 \<and> rejects_updates drv name)"
  proof
    assume r: "retry = 0 \<and> rejects_updates drv name"
    then obtain w s' where "dr_update drv (mongo_ns drv name) query d upsert (mg_data st) = (Some (UserException w), s')"
      unfolding rejects_updates_def by metis
    then obtain x where "f drv name query (set_doc d) upsert 0 (st\<lparr> mg_data := s' \<rparr>) = Some x"
      using body r by (auto simp: is_user_def MAX_RETRY_def bind_eq_Some_conv)
    then show False using ih r by blast
  qed
qed


text \<open>A driver whose server refuses every write.\<close>

definition refusing_driver :: "unit mongo_driver" where
  "refusing_driver =
     \<lparr> dr_insert = (\<lambda>ns d s. (Some (UserException ''not master''), s)),
       dr_update = (\<lambda>ns q d u s. (Some (UserException ''not master''), s)),
       dr_remove = (\<lambda>ns q s. (Some (UserException ''not master''), s)),
       dr_query = (\<lambda>ns q l k ord fs s. (Inr (Some []), s)),
       dr_count = (\<lambda>ns q s. (Inr 0, s)),
       dr_command = (\<lambda>ns d s. (Inr [], s)),
       dr_create_index = (\<lambda>ns i u s. (None, s)),
       dr_drop_indexes = (\<lambda>ns s. (None, s)),
       dr_last_error = (\<lambda>s. \<lparr> le_code = 0, le_n = 0, le_ok = 1, le_err = [], le_text = [] \<rparr>),
       dr_text = (\<lambda>d. []),
       dr_endpoint = ''127.0.0.1:27017'',
       dr_database = ''iot'' \<rparr>"


section \<open>Indexes\<close>

text \<open>What the server keeps of a collection: the list of its indexes, the first of which is the one on
  \<open>_id\<close>.  \<open>system.indexes\<close> lists them, \<open>dropIndexes\<close> leaves the first, and \<open>createIndex\<close> adds one that
  is not there, making the collection with the first.\<close>

definition id_index :: "doc \<times> bool" where
  "id_index = ([(''_id'', JInt 1)], False)"

definition index_laws :: "'s mongo_driver \<Rightarrow> (string \<Rightarrow> 's \<Rightarrow> (doc \<times> bool) list) \<Rightarrow> bool" where
  "index_laws drv indexes \<longleftrightarrow>
     (\<forall>ns s. dr_count drv (mongo_ns drv ''system.indexes'') [(''ns'', JString ns)] s = (Inr (int (length (indexes ns s))), s))
     \<and> (\<forall>q s. snd (dr_count drv (mongo_ns drv ''system.indexes'') q s) = s
            \<and> (\<exists>n. fst (dr_count drv (mongo_ns drv ''system.indexes'') q s) = Inr n))
     \<and> (\<forall>ns s. \<exists>s'. dr_drop_indexes drv ns s = (None, s') \<and> indexes ns s' = take 1 (indexes ns s))
     \<and> (\<forall>ns d u s. \<exists>s'. dr_create_index drv ns d u s = (None, s')
          \<and> indexes ns s' = (let l = (if indexes ns s = [] then [id_index] else indexes ns s)
                             in if (d, u) \<in> set l then l else l @ [(d, u)]))"

lemma mongo_index_steps:
  "mg_data (st\<lparr> mg_data := s \<rparr>) = s"
  "bind_act (driver f) g st = g (fst (f (mg_data st))) (st\<lparr> mg_data := snd (f (mg_data st)) \<rparr>)"
  by (simp_all add: bind_act_def driver_def split: prod.split)

lemma mongo_count_step:
  "dr_count drv (mongo_ns drv nm) q (mg_data st) = (Inr n, mg_data st) \<Longrightarrow> mongo_count drv nm q st = Some (Inr n, st)"
  by (simp add: mongo_count_def mongo_index_steps ret_def)

lemma ensureIndex_laws:
  assumes "index_laws drv indexes" "ns = mongo_ns drv name"
  shows "\<exists>st'. ensureIndex drv name d u st = Some (Inr 0, st')
     \<and> indexes ns (mg_data st') = (let l = (if indexes ns (mg_data st) = [] then [id_index] else indexes ns (mg_data st))
                             in if (d, u) \<in> set l then l else l @ [(d, u)])"
proof -
  obtain s' where "dr_create_index drv ns d u (mg_data st) = (None, s')"
    and "indexes ns s' = (let l = (if indexes ns (mg_data st) = [] then [id_index] else indexes ns (mg_data st))
                             in if (d, u) \<in> set l then l else l @ [(d, u)])"
    using assms unfolding index_laws_def by metis
  then show ?thesis unfolding ensureIndex_def using assms(2) by (simp add: mongo_index_steps ret_def)
qed

lemma dropIndexes_laws:
  assumes "index_laws drv indexes" "ns = mongo_ns drv name"
  shows "\<exists>st'. dropIndexes drv name st = Some (Inr 0, st') \<and> indexes ns (mg_data st') = take 1 (indexes ns (mg_data st))"
proof -
  obtain s' where "dr_drop_indexes drv ns (mg_data st) = (None, s')" "indexes ns s' = take 1 (indexes ns (mg_data st))"
    using assms unfolding index_laws_def by metis
  then show ?thesis unfolding dropIndexes_def using assms(2) by (simp add: mongo_index_steps ret_def)
qed

text \<open>With two indexes nothing happens; otherwise every index but the first is dropped and the new one is made.\<close>

lemma createIndex_laws:
  assumes "index_laws drv indexes" "ns = mongo_ns drv name"
  shows "\<exists>st'. createIndex drv name d u st = Some (Inr 200, st')
     \<and> indexes ns (mg_data st') =
         (if length (indexes ns (mg_data st)) = 2 then indexes ns (mg_data st)
          else (let l = (if indexes ns (mg_data st) = [] then [id_index] else take 1 (indexes ns (mg_data st)))
                in if (d, u) \<in> set l then l else l @ [(d, u)]))"
proof -
  define s where "s = mg_data st"
  have n: "dr_count drv (mongo_ns drv ''system.indexes'') [(''ns'', JString ns)] s = (Inr (int (length (indexes ns s))), s)" for s
    using assms unfolding index_laws_def by blast
  show ?thesis
  proof (cases "length (indexes ns s) = 2")
    case True
    define q where "q = [(''ns'', JString ns), (''key'', JObject d)] @ (if u then [(''unique'', JBool True)] else [])"
    obtain m where m: "dr_count drv (mongo_ns drv ''system.indexes'') q s = (Inr m, s)"
      using assms unfolding index_laws_def by (metis prod.collapse)
    have c: "mongo_count drv ''system.indexes'' [(''ns'', JString ns)] st = Some (Inr 2, st)"
      using mongo_count_step n [of s] True unfolding s_def by fastforce
    have k: "mongo_count drv ''system.indexes'' q st = Some (Inr m, st)"
      using mongo_count_step m unfolding s_def by fastforce
    have "createIndex drv name d u st = Some (Inr 200, st)"
      unfolding createIndex_def Let_def assms(2) [symmetric] q_def [symmetric] bind_act_def
      by (simp add: c k ret_def)
    then show ?thesis using True by (simp add: s_def)
  next
    case False
    obtain st1 where d: "dropIndexes drv name st = Some (Inr 0, st1)"
      "indexes ns (mg_data st1) = take 1 (indexes ns (mg_data st))"
      using dropIndexes_laws [OF assms] by blast
    obtain st2 where e: "ensureIndex drv name d u st1 = Some (Inr 0, st2)"
      "indexes ns (mg_data st2) = (let l = (if indexes ns (mg_data st1) = [] then [id_index] else indexes ns (mg_data st1))
                             in if (d, u) \<in> set l then l else l @ [(d, u)])"
      using ensureIndex_laws [OF assms] by blast
    have c: "mongo_count drv ''system.indexes'' [(''ns'', JString ns)] st = Some (Inr (int (length (indexes ns s))), st)"
      using mongo_count_step n [of s] unfolding s_def by fastforce
    have "createIndex drv name d u st = Some (Inr 200, st2)"
      unfolding createIndex_def Let_def assms(2) [symmetric] bind_act_def
      using False by (simp add: c d(1) e(1) ret_def s_def)
    then show ?thesis using e(2) d(2) False by (simp add: s_def)
  qed
qed

text \<open>of two unique indexes of a table the second is never made.  When a table has only the index on
  the identifiers, or no index, or none but the first of the two, the creation of the first index leaves
  two of them, and the creation of the second finds two and does nothing, whatever they are.  Nothing
  then keeps two devices of a service path from being for the same entity.\<close>

theorem second_index_never_made:
  assumes "index_laws drv indexes"
    and "indexes (mongo_ns drv DEVICE_TABLE) (mg_data st)
      \<in> {[], [id_index], [id_index, (index_on [''device_id'', ''service'', ''service_path''], True)]}"
  shows "\<exists>st'. device_indexes drv st = Some (Inr 200, st')
    \<and> indexes (mongo_ns drv DEVICE_TABLE) (mg_data st')
        = [id_index, (index_on [''device_id'', ''service'', ''service_path''], True)]"
proof -
  define first where "first = (index_on [''device_id'', ''service'', ''service_path''], True)"
  define second where "second = (index_on [''entity_name'', ''entity_type'', ''service'', ''service_path''], True)"
  have ne: "first \<noteq> id_index" by (simp add: first_def id_index_def index_on_def)
  obtain st1 where one: "createIndex drv DEVICE_TABLE (fst first) (snd first) st = Some (Inr 200, st1)"
    and "indexes (mongo_ns drv DEVICE_TABLE) (mg_data st1) = [id_index, first]"
    using createIndex_laws [OF assms(1) refl, of DEVICE_TABLE "fst first" "snd first" st] assms(2) ne
    unfolding first_def [symmetric] by (auto simp: Let_def)
  moreover obtain st2 where two: "createIndex drv DEVICE_TABLE (fst second) (snd second) st1 = Some (Inr 200, st2)"
    and "indexes (mongo_ns drv DEVICE_TABLE) (mg_data st2) = [id_index, first]"
    using createIndex_laws [OF assms(1) refl, of DEVICE_TABLE "fst second" "snd second" st1] calculation(2) by auto
  ultimately show ?thesis
    by (simp add: device_indexes_def bind_act_def first_def second_def)
qed

text \<open>A server that keeps the indexes of the tables.\<close>

type_synonym index_table = "(string \<times> (doc \<times> bool) list) list"

definition indexes_of :: "string \<Rightarrow> index_table \<Rightarrow> (doc \<times> bool) list" where
  "indexes_of ns s = (case map_of s ns of None \<Rightarrow> [] | Some l \<Rightarrow> l)"

definition index_driver :: "index_table mongo_driver" where
  "index_driver =
     \<lparr> dr_insert = (\<lambda>ns d s. (None, s)), dr_update = (\<lambda>ns q d u s. (None, s)), dr_remove = (\<lambda>ns q s. (None, s)),
       dr_query = (\<lambda>ns q l k ord fs s. (Inr (Some []), s)),
       dr_count = (\<lambda>ns q s. (Inr (case q of [(f, JString n)] \<Rightarrow> int (length (indexes_of n s)) | _ \<Rightarrow> 1), s)),
       dr_command = (\<lambda>ns d s. (Inr [], s)),
       dr_create_index = (\<lambda>ns d u s.
         let l = (if indexes_of ns s = [] then [id_index] else indexes_of ns s)
         in (None, (ns, if (d, u) \<in> set l then l else l @ [(d, u)]) # s)),
       dr_drop_indexes = (\<lambda>ns s. (None, (ns, take 1 (indexes_of ns s)) # s)),
       dr_last_error = (\<lambda>s. \<lparr> le_code = 0, le_n = 0, le_ok = 1, le_err = [], le_text = [] \<rparr>),
       dr_text = (\<lambda>d. []),
       dr_endpoint = ''127.0.0.1:27017'',
       dr_database = ''iot'' \<rparr>"

lemma index_driver_laws: "index_laws index_driver indexes_of"
  by (simp add: index_laws_def index_driver_def Let_def) (simp add: indexes_of_def)

lemma second_index_never_made_witness:
  "\<exists>st'. device_indexes index_driver \<lparr> mg_data = [], mg_alarms = [], mg_reconnects = 0 \<rparr> = Some (Inr 200, st')
    \<and> length (indexes_of (mongo_ns index_driver DEVICE_TABLE) (mg_data st')) = 2"
proof -
  have "indexes_of (mongo_ns index_driver DEVICE_TABLE) (mg_data \<lparr> mg_data = [], mg_alarms = [], mg_reconnects = 0 \<rparr>) = []"
    by (simp add: indexes_of_def)
  then show ?thesis
    using second_index_never_made [OF index_driver_laws,
        of "\<lparr> mg_data = [], mg_alarms = [], mg_reconnects = 0 \<rparr>"] by fastforce
qed

end
