(* ===== verification/Bson.thy ===== *)
theory Bson
  imports Mongo_Collection
begin

text \<open>
  What the agent uses of the documents of the database's library, as a parameter.  A document is the list
  of its fields in order, so appending to a builder is appending to the list; reading fields with their
  conversions and the two ways to JSON text are the library's.
\<close>

section \<open>The library\<close>

text \<open>\<open>bs_string\<close>, \<open>bs_int\<close>, \<open>bs_bool\<close> and \<open>bs_object\<close> are \<open>getStringField\<close>, \<open>getIntField\<close>,
  \<open>getBoolField\<close> and \<open>getObjectField\<close>; \<open>bs_long\<close> is \<open>getField().numberLong()\<close>, \<open>bs_array\<close> is
  \<open>getField().Array()\<close> and \<open>bs_text\<close> is \<open>getField().String()\<close>, which throw on another type;
  \<open>bs_embedded\<close> is \<open>embeddedObject\<close> of an element and \<open>bs_object_of\<close> is \<open>Obj\<close> of an element for which
  \<open>isABSONObj\<close> holds.\<close>

record bson_lib =
  bs_string :: "doc \<Rightarrow> string \<Rightarrow> string"
  bs_int :: "doc \<Rightarrow> string \<Rightarrow> int"
  bs_bool :: "doc \<Rightarrow> string \<Rightarrow> bool"
  bs_long :: "doc \<Rightarrow> string \<Rightarrow> int"
  bs_object :: "doc \<Rightarrow> string \<Rightarrow> doc"
  bs_array :: "doc \<Rightarrow> string \<Rightarrow> json list result"
  bs_text :: "doc \<Rightarrow> string \<Rightarrow> string result"
  bs_embedded :: "json \<Rightarrow> doc result"
  bs_object_of :: "json \<Rightarrow> doc option"
  bs_print :: "doc \<Rightarrow> string"
  bs_parse :: "string \<Rightarrow> doc result"

definition has_field :: "doc \<Rightarrow> string \<Rightarrow> bool" where
  "has_field d k \<longleftrightarrow> k \<in> fst ` set d"

text \<open>What the documentation says of them: a field that is missing or of another type is read as the
  empty text or document, as the smallest \<open>int\<close>, as false and as 0.\<close>

definition bson_ok :: "bson_lib \<Rightarrow> bool" where
  "bson_ok lib \<longleftrightarrow>
     (\<forall>d k. bs_string lib d k = (case map_of d k of Some (JString s) \<Rightarrow> c_str s | _ \<Rightarrow> []))
     \<and> (\<forall>d k. bs_int lib d k = (case map_of d k of Some (JInt i) \<Rightarrow> i | _ \<Rightarrow> - (2 ^ 31)))
     \<and> (\<forall>d k. bs_bool lib d k = (case map_of d k of Some (JBool b) \<Rightarrow> b | _ \<Rightarrow> False))
     \<and> (\<forall>d k. bs_long lib d k = (case map_of d k of Some (JInt i) \<Rightarrow> i | _ \<Rightarrow> 0))
     \<and> (\<forall>d k. bs_object lib d k = (case map_of d k of
            Some (JObject e) \<Rightarrow> e
          | Some (JArray vs) \<Rightarrow> map (\<lambda>(i, v). (show_nat i, v)) (zip [0..<length vs] vs)
          | _ \<Rightarrow> []))
     \<and> (\<forall>e. bs_object_of lib (JObject e) = Some e)
     \<and> (\<forall>e. bs_embedded lib (JObject e) = Inr e)"

text \<open>A library that does this.\<close>

definition sample_bson :: "(doc \<Rightarrow> string) \<Rightarrow> (string \<Rightarrow> doc result) \<Rightarrow> bson_lib" where
  "sample_bson pr parse =
     \<lparr> bs_string = (\<lambda>d k. case map_of d k of Some (JString s) \<Rightarrow> c_str s | _ \<Rightarrow> []),
       bs_int = (\<lambda>d k. case map_of d k of Some (JInt i) \<Rightarrow> i | _ \<Rightarrow> - (2 ^ 31)),
       bs_bool = (\<lambda>d k. case map_of d k of Some (JBool b) \<Rightarrow> b | _ \<Rightarrow> False),
       bs_long = (\<lambda>d k. case map_of d k of Some (JInt i) \<Rightarrow> i | _ \<Rightarrow> 0),
       bs_object = (\<lambda>d k. case map_of d k of
            Some (JObject e) \<Rightarrow> e
          | Some (JArray vs) \<Rightarrow> map (\<lambda>(i, v). (show_nat i, v)) (zip [0..<length vs] vs)
          | _ \<Rightarrow> []),
       bs_array = (\<lambda>d k. case map_of d k of Some (JArray vs) \<Rightarrow> Inr vs | _ \<Rightarrow> Inl (runtime_error ''wrong type'')),
       bs_text = (\<lambda>d k. case map_of d k of Some (JString s) \<Rightarrow> Inr s | _ \<Rightarrow> Inl (runtime_error ''wrong type'')),
       bs_embedded = (\<lambda>v. case v of JObject e \<Rightarrow> Inr e | _ \<Rightarrow> Inl (runtime_error ''wrong type'')),
       bs_object_of = (\<lambda>v. case v of JObject e \<Rightarrow> Some e | _ \<Rightarrow> None),
       bs_print = pr,
       bs_parse = parse \<rparr>"

lemma sample_bson_ok: "bson_ok (sample_bson pr parse)"
  by (simp add: bson_ok_def sample_bson_def)

end
