(* ===== verification/Rest_Service.thy ===== *)
theory Rest_Service
  imports Bson Riot_Conf Cb_Comm
begin

text \<open>
  The part of \<^verbatim>\<open>src/rest/rest_handle.cc\<close> that finds the service of a request, in the database or in the
  configuration, and completes it with the defaults of the agent; the addresses and names of the agent;
  and its registration with the manager of agents.  Actions on the database, on the configuration and on
  the connections are recorded in the state.
\<close>

section \<open>The state\<close>

datatype agent_effect =
    Manager_request http_request int
  | Register_retries bool
  | Register_device string Device
  | Unregister_device string Device string ptree
  | Forget_device string Device

record 's agent = "'s mongo" +
  ag_effects :: "agent_effect list"
  ag_conf :: Configurator

definition perform :: "agent_effect \<Rightarrow> (('s, 'z) agent_scheme, unit) action" where
  "perform e = update_state (\<lambda>st. st\<lparr> ag_effects := ag_effects st @ [e] \<rparr>)"

text \<open>\<open>aw_read_json\<close> and \<open>aw_write\<close> are \<open>read_json\<close> of a tree and the compact writer of JSON.\<close>

record agent_env =
  aw_bson :: bson_lib
  aw_read_json :: "string \<Rightarrow> ptree option"
  aw_write :: "json \<Rightarrow> string"
  aw_dns :: resolver
  aw_listen_ip :: string
  aw_listen_port :: int
  aw_name :: string
  aw_url_base :: string

record rest_handle =
  rh_resource :: string
  rh_storage_type :: string
  rh_protocol :: string
  rh_description :: string
  rh_manager_endpoint :: string

section \<open>The code\<close>

subsection \<open>Defaults\<close>

definition json_int :: "json \<Rightarrow> int result" where
  "json_int j = (case j of JInt i \<Rightarrow> Inr i | _ \<Rightarrow> Inl (assertion_failure ''IsInt64''))"

text \<open>Conversion of a longer integer to \<open>int\<close>.\<close>

definition int32 :: "int \<Rightarrow> int" where
  "int32 i = (i + 2 ^ 31) mod 2 ^ 32 - 2 ^ 31"

text \<open>What is thrown is caught, and the default stays; the rest are not exceptions.\<close>

definition or_default :: "'a \<Rightarrow> 'a result \<Rightarrow> 'a result" where
  "or_default d r = (case r of Inl e \<Rightarrow> if catchable e then Inr d else Inl e | Inr x \<Rightarrow> Inr x)"

definition get_default_timeout :: "Configurator \<Rightarrow> int result" where
  "get_default_timeout cf =
     or_default 5 (bind_exn (conf_get ''timeout'' cf) (\<lambda>v. bind_exn (json_int v) (\<lambda>i. Inr (int32 i))))"

definition get_default_context_broker :: "Configurator \<Rightarrow> string result" where
  "get_default_context_broker cf =
     or_default [] (bind_exn (conf_get ''ngsi_url'' cf) (\<lambda>v.
       bind_exn (string_member v ''cbroker'') (\<lambda>s. Inr (case s of Some t \<Rightarrow> t | None \<Rightarrow> []))))"

definition CONF_FILE_PROXY :: string where
  "CONF_FILE_PROXY = ''http_proxy''"

definition get_http_proxy :: "Configurator \<Rightarrow> string result" where
  "get_http_proxy cf = or_default [] (bind_exn (conf_get CONF_FILE_PROXY cf) GetString)"

definition HTTP_PREFIX :: string where
  "HTTP_PREFIX = ''http://''"

definition get_public_ip :: "agent_env \<Rightarrow> Configurator \<Rightarrow> string result" where
  "get_public_ip env cf =
     bind_exn (or_default [] (bind_exn (conf_get ''public_ip'' cf) GetString)) (\<lambda>configured.
       let public_ip = (if configured = [] then aw_listen_ip env @ '':'' @ show_int (aw_listen_port env mod 2 ^ 16) else configured)
       in Inr (if public_ip \<noteq> [] \<and> find_sub HTTP_PREFIX public_ip = None then HTTP_PREFIX @ public_ip else public_ip))"

definition agent_identifier :: "agent_env \<Rightarrow> Configurator \<Rightarrow> (string \<times> Configurator) result" where
  "agent_identifier env cf =
     bind_exn (get_iotagent_identifier cf) (\<lambda>(conf_id, cf').
       let named = (if conf_id = [] then aw_name env else conf_id)
       in bind_exn (if named = []
                    then bind_exn (get_public_ip env cf') (\<lambda>ip. Inr (if prefix HTTP_PREFIX ip then drop 7 ip else ip))
                    else Inr named) (\<lambda>iotagent_id.
            Inr (if find_sub '':'' iotagent_id = None
                 then iotagent_id @ '':'' @ show_int (aw_listen_port env mod 2 ^ 16) else iotagent_id, cf')))"

subsection \<open>The service of a request\<close>

text \<open>What the readers of both sources do to the tree.\<close>

definition with_defaults :: "int \<Rightarrow> string \<Rightarrow> string \<Rightarrow> ptree \<Rightarrow> ptree" where
  "with_defaults default_timeout default_context_broker http_proxy pt =
     (let t1 = (if pt_get pt ''cbroker'' [] = [] then pt_put ''cbroker'' default_context_broker pt else pt);
          t2 = (if pt_get_int t1 ''timeout'' (-1) = -1 then pt_put ''timeout'' (show_int default_timeout) t1 else t1)
      in pt_put CONF_FILE_PROXY http_proxy t2)"

definition complete_info :: "ptree \<Rightarrow> ptree" where
  "complete_info pt = pt"

definition bson_to_ptree :: "agent_env \<Rightarrow> doc \<Rightarrow> ptree result" where
  "bson_to_ptree env bson =
     (case aw_read_json env (bs_print (aw_bson env) bson) of
        Some pt \<Rightarrow> Inr pt | None \<Rightarrow> Inl (runtime_error ''json_parser_error''))"

definition default_service :: "Configurator \<Rightarrow> (ptree \<Rightarrow> ptree) result" where
  "default_service cf =
     bind_exn (get_default_timeout cf) (\<lambda>default_timeout.
     bind_exn (get_default_context_broker cf) (\<lambda>default_context_broker.
     bind_exn (get_http_proxy cf) (\<lambda>http_proxy.
     Inr (with_defaults default_timeout default_context_broker http_proxy))))"

definition fill_service_with_bson :: "agent_env \<Rightarrow> Configurator \<Rightarrow> doc \<Rightarrow> ptree result" where
  "fill_service_with_bson env cf bson =
     bind_exn (default_service cf) (\<lambda>complete.
     bind_exn (bson_to_ptree env bson) (\<lambda>pt. Inr (complete_info (complete pt))))"

datatype service_code = Service_ok | No_service | More_than_one

definition SERVICE_fields :: "(string \<times> string) list \<Rightarrow> doc" where
  "SERVICE_fields fs = map (\<lambda>(k, v). (k, JString v)) fs"

definition read_service_bbdd ::
  "'s mongo_driver \<Rightarrow> agent_env \<Rightarrow> doc \<Rightarrow> (('s, 'z) agent_scheme, service_code \<times> ptree option) action" where
  "read_service_bbdd drv env query =
     bind_act (mongo_find_all drv SERVICE_TABLE query) (\<lambda>(_, c).
     bind_act (mongo_more drv c) (\<lambda>more.
       if \<not> more then ret (No_service, None)
       else bind_act (mongo_next drv c) (\<lambda>(r1, c').
            bind_act get_state (\<lambda>st.
            bind_act (lift (fill_service_with_bson env (ag_conf st) r1)) (\<lambda>pt.
            bind_act (mongo_more drv c') (\<lambda>more'.
            ret (if more' then More_than_one else Service_ok, Some pt)))))))"

definition get_service_by_name_bbdd ::
  "'s mongo_driver \<Rightarrow> agent_env \<Rightarrow> rest_handle \<Rightarrow> string \<Rightarrow> string \<Rightarrow> (('s, 'z) agent_scheme, service_code \<times> ptree option) action" where
  "get_service_by_name_bbdd drv env h name path =
     read_service_bbdd drv env (SERVICE_fields ([(''service'', name)]
       @ (if path \<noteq> [] then [(''service_path'', path)] else [])
       @ (if rh_resource h \<noteq> [] then [(''resource'', rh_resource h)] else [])))"

definition get_service_by_apiKey_bbdd ::
  "'s mongo_driver \<Rightarrow> agent_env \<Rightarrow> rest_handle \<Rightarrow> string \<Rightarrow> (('s, 'z) agent_scheme, service_code \<times> ptree option) action" where
  "get_service_by_apiKey_bbdd drv env h apiKey =
     bind_act get_state (\<lambda>st. bind_act (lift (default_service (ag_conf st))) (\<lambda>_.
     read_service_bbdd drv env (SERVICE_fields ([(''apikey'', apiKey)]
       @ (if rh_resource h \<noteq> [] then [(''resource'', rh_resource h)] else [])))))"

definition read_service_file :: "agent_env \<Rightarrow> Configurator \<Rightarrow> json result \<Rightarrow> ptree result" where
  "read_service_file env cf found =
     bind_exn (default_service cf) (\<lambda>complete.
     bind_exn found (\<lambda>service_object.
       case aw_read_json env (c_str (aw_write env service_object)) of
         Some pt \<Rightarrow> Inr (complete pt) | None \<Rightarrow> Inl (runtime_error ''json_parser_error'')))"

definition get_service_by_name_file :: "agent_env \<Rightarrow> rest_handle \<Rightarrow> string \<Rightarrow> string \<Rightarrow> Configurator \<Rightarrow> ptree result" where
  "get_service_by_name_file env h item_name path cf =
     read_service_file env cf (getService (rh_resource h) item_name path cf)"

definition get_service_by_apiKey_file :: "agent_env \<Rightarrow> rest_handle \<Rightarrow> string \<Rightarrow> Configurator \<Rightarrow> ptree result" where
  "get_service_by_apiKey_file env h apiKey cf =
     read_service_file env cf (getServicebyApiKey (rh_resource h) apiKey cf)"

text \<open>The tree of a service that is in the database is the first document's, whatever the code; else the
  configuration is read.\<close>

definition get_service_with ::
  "rest_handle \<Rightarrow> (('s, 'z) agent_scheme, service_code \<times> ptree option) action \<Rightarrow> (Configurator \<Rightarrow> ptree result)
   \<Rightarrow> (('s, 'z) agent_scheme, ptree) action" where
  "get_service_with h bbdd from_file =
     bind_act (if rh_storage_type h = ''mongodb'' then bbdd else ret (No_service, None)) (\<lambda>(code, found).
     bind_act (case found of
                 Some pt \<Rightarrow> ret pt
               | None \<Rightarrow> bind_act get_state (\<lambda>st. lift (from_file (ag_conf st)))) (\<lambda>pt.
     ret (complete_info pt)))"

definition get_service_by_name ::
  "'s mongo_driver \<Rightarrow> agent_env \<Rightarrow> rest_handle \<Rightarrow> string \<Rightarrow> string \<Rightarrow> (('s, 'z) agent_scheme, ptree) action" where
  "get_service_by_name drv env h item_name path =
     get_service_with h (get_service_by_name_bbdd drv env h item_name path)
       (get_service_by_name_file env h item_name path)"

definition get_service_by_apiKey ::
  "'s mongo_driver \<Rightarrow> agent_env \<Rightarrow> rest_handle \<Rightarrow> string \<Rightarrow> (('s, 'z) agent_scheme, ptree) action" where
  "get_service_by_apiKey drv env h apiKey =
     get_service_with h (get_service_by_apiKey_bbdd drv env h apiKey) (get_service_by_apiKey_file env h apiKey)"

subsection \<open>The manager of agents\<close>

text \<open>The storage type of the configuration; \<open>None\<close> when the object has no type.\<close>

definition storage_type :: "Configurator \<Rightarrow> string option result" where
  "storage_type cf =
     bind_exn (conf_get ''storage'' cf) (\<lambda>storage.
     bind_exn (HasMember storage ''type'') (\<lambda>h.
       if h then bind_exn (member_string storage ''type'') (\<lambda>t. Inr (Some t)) else Inr None))"

definition manager_request :: "IoTUrl \<Rightarrow> string \<Rightarrow> http_request" where
  "manager_request dest json_post =
     \<lparr> hq_host = url_host dest, hq_port = url_port dest, hq_method = ''POST'', hq_resource = url_path dest,
       hq_content = json_post, hq_query = [],
       hq_headers = [(''Content-Type'', CONTENT_TYPE_JSON), (''Accept'', CONTENT_TYPE_JSON), (''Host'', compound_server dest)] \<rparr>"

text \<open>The document of the registration; the array is there when a service is.\<close>

definition manager_document :: "rest_handle \<Rightarrow> string \<Rightarrow> string \<Rightarrow> doc list \<Rightarrow> doc" where
  "manager_document h iotagent identifier services =
     SERVICE_fields [(''protocol'', rh_protocol h), (''description'', rh_description h), (''iotagent'', iotagent),
       (''identifier'', identifier), (''resource'', rh_resource h)]
     @ (if services \<noteq> [] then [(''services'', JArray (map JObject services))] else [])"

definition send_registration ::
  "'s mongo_driver \<Rightarrow> agent_env \<Rightarrow> rest_handle \<Rightarrow> string \<Rightarrow> (('s, 'z) agent_scheme, unit) action" where
  "send_registration drv env h iotagent =
     bind_act (mongo_find_all drv SERVICE_TABLE (SERVICE_fields [(''resource'', rh_resource h)])) (\<lambda>(_, c).
       if rh_protocol h \<noteq> [] \<and> rh_description h \<noteq> []
       then bind_act get_state (\<lambda>st.
            bind_act (lift (agent_identifier env (ag_conf st))) (\<lambda>(identifier, cf').
            bind_act (update_state (\<lambda>st. st\<lparr> ag_conf := cf' \<rparr>)) (\<lambda>_.
            bind_act (read_cursor drv c) (\<lambda>services.
              let json_post = bs_print (aw_bson env) (manager_document h iotagent identifier services) in
            bind_act (lift (new_IoTUrl (rh_manager_endpoint h))) (\<lambda>dest.
            bind_act (lift (new_HttpClient (aw_dns env) (url_host dest) (url_port dest))) (\<lambda>client.
            bind_act get_state (\<lambda>st'.
            bind_act (lift (get_default_timeout (ag_conf st'))) (\<lambda>timeout.
            perform (Manager_request (manager_request dest json_post) timeout)))))))))
       else ret ())"

definition register_iota_manager :: "'s mongo_driver \<Rightarrow> agent_env \<Rightarrow> rest_handle \<Rightarrow> (('s, 'z) agent_scheme, unit) action" where
  "register_iota_manager drv env h =
     (if rh_manager_endpoint h = [] then ret ()
      else bind_act get_state (\<lambda>st.
           bind_act (lift (get_public_ip env (ag_conf st))) (\<lambda>public_ip.
           try_act (\<lambda>_. True)
             (bind_act (lift (storage_type (ag_conf st))) (\<lambda>t.
                if t = None \<or> t = Some ''mongodb'' then send_registration drv env h (public_ip @ aw_url_base env) else ret ()))
             (\<lambda>_. ret ()))))"

definition ALARM_CODE_NO_IOTA_MANAGER :: int where
  "ALARM_CODE_NO_IOTA_MANAGER = 400"

definition receive_event_from_manager ::
  "rest_handle \<Rightarrow> bool \<Rightarrow> string option \<Rightarrow> (('s, 'z) agent_scheme, unit) action" where
  "receive_event_from_manager h has_admin error =
     (case error of
        Some text \<Rightarrow>
          bind_act (if has_admin then perform (Register_retries True) else ret ()) (\<lambda>_.
          update_state (\<lambda>st. st\<lparr> mg_alarms := mg_alarms st
            @ [Raise ALARM_CODE_NO_IOTA_MANAGER (rh_manager_endpoint h) ''error'' text] \<rparr>))
      | None \<Rightarrow>
          update_state (\<lambda>st. st\<lparr> mg_alarms := mg_alarms st
            @ [Clear ALARM_CODE_NO_IOTA_MANAGER (rh_manager_endpoint h) ''error'' ''Success''] \<rparr>))"


section \<open>Services are complete\<close>

lemma pt_get_put_if: "pt_get (pt_put k v t) k' d = (if k = k' then v else pt_get t k' d)"
proof -
  have "map_of (put_child k v cs) k' = (if k = k' then Some (PTree v (case map_of cs k of Some c \<Rightarrow> pt_children c | None \<Rightarrow> [])) else map_of cs k')" for cs
    by (induction cs) auto
  then show ?thesis by (simp add: pt_get_def pt_put_def)
qed

text \<open>The tree of a service that has what its readers rely on.\<close>

definition complete_service :: "int \<Rightarrow> string \<Rightarrow> string \<Rightarrow> ptree \<Rightarrow> bool" where
  "complete_service default_timeout default_context_broker http_proxy pt \<longleftrightarrow>
     pt_get pt CONF_FILE_PROXY [] = http_proxy
     \<and> (pt_get pt ''cbroker'' [] = [] \<longrightarrow> default_context_broker = [])
     \<and> (pt_get_int pt ''timeout'' (-1) = -1 \<longrightarrow> default_timeout = -1)"

lemma with_defaults_complete:
  "int_range dt \<Longrightarrow> complete_service dt dcb proxy (with_defaults dt dcb proxy pt)"
  by (simp add: complete_service_def with_defaults_def Let_def pt_get_put_if pt_get_int_put_other CONF_FILE_PROXY_def)

lemma with_defaults_other:
  "k \<noteq> ''cbroker'' \<Longrightarrow> k \<noteq> ''timeout'' \<Longrightarrow> k \<noteq> CONF_FILE_PROXY \<Longrightarrow> pt_get (with_defaults dt dcb proxy pt) k d = pt_get pt k d"
  by (auto simp: with_defaults_def Let_def pt_get_put_if)

definition defaults :: "Configurator \<Rightarrow> int \<Rightarrow> string \<Rightarrow> string \<Rightarrow> bool" where
  "defaults cf dt dcb proxy \<longleftrightarrow>
     get_default_timeout cf = Inr dt \<and> get_default_context_broker cf = Inr dcb \<and> get_http_proxy cf = Inr proxy"

lemma default_service_eq: "defaults cf dt dcb proxy \<Longrightarrow> default_service cf = Inr (with_defaults dt dcb proxy)"
  by (simp add: defaults_def default_service_def)

lemma db_free_conf: "db_free (\<lambda>st. ag_conf st = cf)"
  by (simp add: db_free_def)

text \<open>What a reader of the database gives is empty or complete.\<close>

definition complete_result :: "int \<Rightarrow> string \<Rightarrow> string \<Rightarrow> service_code \<times> ptree option \<Rightarrow> bool" where
  "complete_result dt dcb proxy r \<longleftrightarrow>
     (case snd r of None \<Rightarrow> True | Some pt \<Rightarrow> \<exists>t. pt = with_defaults dt dcb proxy t)"

lemma read_service_bbdd_complete:
  assumes "read_service_bbdd drv env query st = Some (Inr r, st')" "ag_conf st = cf" "defaults cf dt dcb proxy"
  shows "complete_result dt dcb proxy r \<and> ag_conf st' = cf"
proof -
  define P where "P = (\<lambda>st :: ('a, 'b) agent_scheme. ag_conf st = cf)"
  have free: "db_free P" unfolding P_def by (rule db_free_conf)
  obtain c st1 m st2 where find: "mongo_find_all drv SERVICE_TABLE query st = Some (Inr c, st1)"
    and more: "mongo_more drv (snd c) st1 = Some (Inr m, st2)"
    using assms(1) unfolding read_service_bbdd_def by (auto simp: bind_act_eq_Some)
  have P1: "P st1" using keeps_at [OF keeps_mongo_find(2) [OF db_free_frees(2) [OF free]] find] assms(2) by (simp add: P_def)
  have P2: "P st2" by (rule keeps_at [OF keeps_mongo_more [OF db_free_frees(1) [OF free]] more P1])
  show ?thesis
  proof (cases m)
    case False
    then show ?thesis using assms(1) find more P2
      by (cases c) (auto simp: read_service_bbdd_def bind_act_eq_Some ret_def complete_result_def P_def)
  next
    case True
    then obtain d c' st3 pt where nxt: "mongo_next drv (snd c) st2 = Some (Inr (d, c'), st3)"
      and fill: "fill_service_with_bson env (ag_conf st3) d = Inr pt"
      and rest: "bind_act (mongo_more drv c') (\<lambda>more'. ret (if more' then More_than_one else Service_ok, Some pt)) st3 = Some (Inr r, st')"
      using assms(1) find more unfolding read_service_bbdd_def
      by (cases c) (auto simp: bind_act_eq_Some get_state_def lift_def)
    have P3: "P st3" by (rule keeps_at [OF keeps_mongo_next [OF db_free_frees(1) [OF free]] nxt P2])
    obtain t where "pt = with_defaults dt dcb proxy t"
      using fill P3 default_service_eq [OF assms(3)]
      by (auto simp: fill_service_with_bson_def P_def bind_exn_eq_Inr_iff complete_info_def)
    moreover obtain m' where "mongo_more drv c' st3 = Some (Inr m', st')" "snd r = Some pt"
      using rest by (auto simp: bind_act_eq_Some ret_def)
    moreover have "P st'" using keeps_at [OF keeps_mongo_more [OF db_free_frees(1) [OF free]] _ P3] calculation(2) by blast
    ultimately show ?thesis by (auto simp: complete_result_def P_def)
  qed
qed

lemma read_service_file_complete:
  "read_service_file env cf found = Inr pt \<Longrightarrow> defaults cf dt dcb proxy \<Longrightarrow> \<exists>t. pt = with_defaults dt dcb proxy t"
  by (auto simp: read_service_file_def bind_exn_eq_Inr_iff default_service_eq split: option.splits)


text \<open>a service that is found by its name is complete, from whichever source it comes: it has the
  proxy of the configuration, a context broker unless neither it nor the configuration names one, and a
  timeout.  A second service that matches changes nothing: the first document is used.\<close>

theorem found_service_is_complete:
  assumes "get_service_by_name drv env h name path st = Some (Inr pt, st')"
    and "defaults (ag_conf st) dt dcb proxy" "int_range dt"
  shows "complete_service dt dcb proxy pt \<and> ag_conf st' = ag_conf st"
proof -
  have "(\<exists>t. pt = with_defaults dt dcb proxy t) \<and> ag_conf st' = ag_conf st"
  proof (cases "rh_storage_type h = ''mongodb''")
    case True
    then obtain code found st1 where read: "get_service_by_name_bbdd drv env h name path st = Some (Inr (code, found), st1)"
      and rest: "(case found of Some pt \<Rightarrow> ret pt
          | None \<Rightarrow> bind_act get_state (\<lambda>st. lift (get_service_by_name_file env h name path (ag_conf st)))) st1 = Some (Inr pt, st')"
      using assms(1) by (auto simp: get_service_by_name_def get_service_with_def bind_act_eq_Some complete_info_def ret_def)
    have found: "complete_result dt dcb proxy (code, found)" "ag_conf st1 = ag_conf st"
      using read_service_bbdd_complete [OF read [unfolded get_service_by_name_bbdd_def] refl assms(2)] by blast+
    show ?thesis
    proof (cases found)
      case None
      then have "get_service_by_name_file env h name path (ag_conf st) = Inr pt" "st' = st1"
        using rest found(2) by (auto simp: lift_def)
      then show ?thesis using read_service_file_complete assms(2) found(2) unfolding get_service_by_name_file_def by blast
    next
      case (Some t)
      then show ?thesis using rest found by (auto simp: ret_def complete_result_def)
    qed
  next
    case False
    then have "get_service_by_name_file env h name path (ag_conf st) = Inr pt" "st' = st"
      using assms(1)
      by (auto simp: get_service_by_name_def get_service_with_def bind_act_eq_Some complete_info_def lift_def ret_def get_state_def)
    then show ?thesis using read_service_file_complete assms(2) unfolding get_service_by_name_file_def by blast
  qed
  then show ?thesis using with_defaults_complete [OF assms(3)] by blast
qed

section \<open>The proxy of the configuration\<close>

text \<open>A communicator without a proxy.\<close>

definition no_proxy :: "cb_env \<Rightarrow> cb_env" where
  "no_proxy env = env\<lparr> cb_http := (\<lambda>tries request timeout proxy. cb_http env tries request timeout []) \<rparr>"

lemma no_proxy_simps [simp]:
  "cb_oauth (no_proxy env) = cb_oauth env" "cb_oauth_conf (no_proxy env) = cb_oauth_conf env"
  "cb_error_text (no_proxy env) = cb_error_text env"
  "cb_http (no_proxy env) tries request timeout p = cb_http env tries request timeout []"
  by (simp_all add: no_proxy_def)

lemma no_proxy_setting [simp]: "oauth_setting (no_proxy env) k = oauth_setting env k"
  by (simp add: oauth_setting_def)

lemma no_proxy_authenticate [simp]: "authenticate (no_proxy env) status info = authenticate env status info"
  unfolding authenticate_def no_proxy_simps no_proxy_setting ..

lemma authenticate_proxy: "authenticate env status info = Inr info' \<Longrightarrow> pt_get info' ''proxy'' [] = pt_get info ''proxy'' []"
  by (auto simp: authenticate_def bind_exn_eq_Inr_iff Let_def pt_get_put_if split: if_splits)

lemma cb_attempt_no_proxy:
  assumes "pt_get info ''proxy'' [] = []"
  shows "cb_attempt (no_proxy env) tries url content info status = cb_attempt env tries url content info status"
    and "cb_attempt env tries url content info status = Inr (text', response, info', eff) \<Longrightarrow> pt_get info' ''proxy'' [] = []"
proof -
  have *: "bind_exn (authenticate env status info) f = bind_exn (authenticate env status info) g"
    if "\<And>info'. pt_get info' ''proxy'' [] = [] \<Longrightarrow> f info' = g info'" for f g :: "ptree \<Rightarrow> 'a result"
    using that authenticate_proxy [of env status info] assms by (cases "authenticate env status info") auto
  show "cb_attempt (no_proxy env) tries url content info status = cb_attempt env tries url content info status"
    unfolding cb_attempt_def process_response_def no_proxy_simps no_proxy_authenticate
    by (rule sum.case_cong, rule bind_exn_cong [OF refl], rule *) simp_all
  show "cb_attempt env tries url content info status = Inr (text', response, info', eff) \<Longrightarrow> pt_get info' ''proxy'' [] = []"
    using authenticate_proxy [of env status info] assms
    by (auto simp: cb_attempt_def bind_exn_eq_Inr_iff Let_def case_prod_beta split: sum.splits if_splits option.splits)
qed


text \<open>the proxy of the configuration is never used for the context broker.  The service's tree holds it
  under \<open>http_proxy\<close>, the communicator looks for \<open>proxy\<close>, so unless the stored service itself has such a
  field every request and every retry is sent as without a proxy.\<close>

theorem configured_proxy_is_not_used:
  assumes "pt_get t ''proxy'' [] = []"
  shows "cb_send env url content (with_defaults dt dcb proxy t) status
    = cb_send (no_proxy env) url content (with_defaults dt dcb proxy t) status"
proof -
  have "pt_get info ''proxy'' [] = [] \<Longrightarrow> cb_send env url content info status = cb_send (no_proxy env) url content info status" for info
  proof (induction env url content info status rule: cb_send.induct)
    case (1 env url content info status)
    have step: "cb_attempt (no_proxy env) tries url content info status = cb_attempt env tries url content info status" for tries
      by (rule cb_attempt_no_proxy(1) [OF 1(2)])
    have more: "cb_send env url content (pt_put NUMBER_OF_TRIES (show_int (pt_get_int info NUMBER_OF_TRIES 0 + 1)) info') 401
        = cb_send (no_proxy env) url content (pt_put NUMBER_OF_TRIES (show_int (pt_get_int info NUMBER_OF_TRIES 0 + 1)) info') 401"
      if "oauth_setting env ''on_behalf_trust_url'' = Inr oauth"
        and "cb_attempt env (pt_get_int info NUMBER_OF_TRIES 0) url content info status = Inr (tx, response, info', eff)"
        and "unauthorised response \<and> pt_get info ''token'' [] \<noteq> [] \<and> oauth \<noteq> [] \<and> pt_get_int info NUMBER_OF_TRIES 0 < 1"
      for oauth tx response info' eff
      using 1(1) [OF refl refl that(1,2) refl refl refl that(3)] cb_attempt_no_proxy(2) [OF 1(2) that(2)]
      by (simp add: pt_get_put_if NUMBER_OF_TRIES_def)
    show ?case
      unfolding cb_send.simps [of env url content info status] cb_send.simps [of "no_proxy env" url content info status]
        no_proxy_setting step Let_def
      by (intro bind_exn_cong refl) (auto simp: more)
  qed
  then show ?thesis using assms by (simp add: with_defaults_other CONF_FILE_PROXY_def)
qed


section \<open>Samples\<close>

definition sample_agent_env :: agent_env where
  "sample_agent_env =
     \<lparr> aw_bson = sample_bson (\<lambda>d. []) (\<lambda>s. Inl (runtime_error ''fromjson'')),
       aw_read_json = (\<lambda>s. Some (PTree [] [(''service'', PTree ''s'' [])])),
       aw_write = (\<lambda>j. ''{}''), aw_dns = (\<lambda>h p. Inl ''127.0.0.1''),
       aw_listen_ip = ''0.0.0.0'', aw_listen_port = 80, aw_name = [], aw_url_base = ''/iot'' \<rparr>"

definition sample_agent_conf :: Configurator where
  "sample_agent_conf = (new_Configurator None)\<lparr>
     cg_root := Some [(''timeout'', JInt 7), (''http_proxy'', JString ''proxy:80'')],
     cg_resources := [(''/iot/d'', new_Resource\<lparr> re_services := [(''s:/'', JObject [])] \<rparr>)] \<rparr>"

definition sample_rest_handle :: rest_handle where
  "sample_rest_handle = \<lparr> rh_resource = ''/iot/d'', rh_storage_type = ''file'', rh_protocol = ''P'',
     rh_description = ''D'', rh_manager_endpoint = [] \<rparr>"

definition sample_agent :: "unit agent" where
  "sample_agent = \<lparr> mg_data = (), mg_alarms = [], mg_reconnects = 0, ag_effects = [], ag_conf = sample_agent_conf \<rparr>"

lemma sample_defaults: "defaults sample_agent_conf 7 [] ''proxy:80''"
  unfolding defaults_def by code_simp

lemma found_service_is_complete_witness:
  "\<exists>pt. get_service_by_name refusing_driver sample_agent_env sample_rest_handle ''s'' ''/'' sample_agent = Some (Inr pt, sample_agent)
     \<and> complete_service 7 [] ''proxy:80'' pt"
proof -
  have "get_service_by_name_file sample_agent_env sample_rest_handle ''s'' ''/'' sample_agent_conf
      = Inr (with_defaults 7 [] ''proxy:80'' (PTree [] [(''service'', PTree ''s'' [])]))"
    by code_simp
  then have "get_service_by_name refusing_driver sample_agent_env sample_rest_handle ''s'' ''/'' sample_agent
      = Some (Inr (with_defaults 7 [] ''proxy:80'' (PTree [] [(''service'', PTree ''s'' [])])), sample_agent)"
    by (simp add: get_service_by_name_def get_service_with_def sample_rest_handle_def bind_act_def ret_def get_state_def
        lift_def complete_info_def sample_agent_def)
  moreover from found_service_is_complete [OF this, of 7 "[]" "''proxy:80''"] sample_defaults
  have "complete_service 7 [] ''proxy:80'' (with_defaults 7 [] ''proxy:80'' (PTree [] [(''service'', PTree ''s'' [])]))"
    by (simp add: sample_agent_def int_range_def)
  ultimately show ?thesis by blast
qed

lemma configured_proxy_is_not_used_witness:
  "\<forall>env. cb_send env ''http://cb:80/'' [] (with_defaults 7 [] ''proxy:80'' (PTree [] [])) 0
    = cb_send (no_proxy env) ''http://cb:80/'' [] (with_defaults 7 [] ''proxy:80'' (PTree [] [])) 0"
  by (intro allI, rule configured_proxy_is_not_used) (simp add: pt_get_def)

end
