(* ===== verification/Admin_Base.thy ===== *)
theory Admin_Base
  imports Rest_Service
begin

text \<open>
  The administration service (\<^verbatim>\<open>src/services/admin_service.cc\<close>), first part: the plugins it knows, the
  answers it builds, the checks on bodies and provisioned data, the protocol of a device, and what it asks
  of the plugins when devices and services change.
\<close>

section \<open>The state\<close>

text \<open>A plugin: \<open>pl_command\<close> tells whether it is a \<open>CommandHandle\<close>, \<open>pl_check\<close> and \<open>pl_commands\<close> are its
  \<open>check_provisioned_data\<close> and \<open>get_protocol_commands\<close>.\<close>

record plugin =
  pl_handle :: rest_handle
  pl_command :: bool
  pl_check :: "string \<Rightarrow> nat \<times> string"
  pl_commands :: string

text \<open>The HTTP response under construction; the message of a status is looked up and left out.\<close>

record reply =
  rp_status :: nat
  rp_headers :: "(string \<times> string) list"
  rp_body :: string

definition new_reply :: reply where
  "new_reply = \<lparr> rp_status = 200, rp_headers = [], rp_body = [] \<rparr>"

record 's admin = "'s agent" +
  ad_manager :: "(string, plugin) std_map"
  ad_reply :: reply

text \<open>The schemas of the bodies, and the library that validates: it throws, or finds an error with its
  place, or none; \<open>None\<close> when it is not compiled in.\<close>

record admin_env =
  ae_agent :: agent_env
  ae_schema :: "(string \<Rightarrow> string \<Rightarrow> string + (string \<times> string) option) option"
  ae_post_device :: string
  ae_put_device :: string
  ae_post_service :: string
  ae_put_service :: string

section \<open>The code\<close>

definition RESPONSE_MESSAGE_METHOD_NOT_ALLOWED :: string where
  "RESPONSE_MESSAGE_METHOD_NOT_ALLOWED = ''The method is not allowed''"

definition RESPONSE_MESSAGE_MISSING_PARAMETER :: string where
  "RESPONSE_MESSAGE_MISSING_PARAMETER = ''A parameter is missing in the request''"

definition RESPONSE_MESSAGE_NOT_IMPLEMENTED :: string where
  "RESPONSE_MESSAGE_NOT_IMPLEMENTED = ''The given operation is not implemented''"

definition RESPONSE_MESSAGE_BAD_PROTOCOL :: string where
  "RESPONSE_MESSAGE_BAD_PROTOCOL = ''There are conflicts, protocol is not correct''"

definition RESPONSE_MESSAGE_ENTITY_COMMANDS_ALREADY_EXISTS :: string where
  "RESPONSE_MESSAGE_ENTITY_COMMANDS_ALREADY_EXISTS = ''There are conflicts, entity with this command, already exists''"

definition LIMIT_DEFAULT :: int where
  "LIMIT_DEFAULT = 20"

definition LIMIT_MAX :: int where
  "LIMIT_MAX = 1000"

subsection \<open>Answers\<close>

text \<open>The body of an error: the two texts without their quotes.\<close>

definition error_body :: "string \<Rightarrow> string \<Rightarrow> string" where
  "error_body content details =
     ''{'' @ quoted ''reason'' @ '':'' @ quoted (erase_all CHR 0x22 content) @ '',''
     @ quoted ''details'' @ '':'' @ quoted (erase_all CHR 0x22 details) @ ''}''"

definition response_body :: "nat \<Rightarrow> string \<Rightarrow> string \<Rightarrow> string \<Rightarrow> string" where
  "response_body status_code content error_details response =
     (if status_code \<ge> 299 then
        if content \<noteq> [] \<and> error_details \<noteq> [] then error_body content error_details
        else if content \<noteq> [] then content else response
      else if response = [] \<and> content \<noteq> [] then content else response)"

definition make_reply :: "nat \<Rightarrow> string \<Rightarrow> string \<Rightarrow> reply \<Rightarrow> reply" where
  "make_reply status_code content error_details r =
     (let body = response_body status_code content error_details (rp_body r)
      in r\<lparr> rp_status := status_code, rp_body := body,
            rp_headers := rp_headers r @ (if body \<noteq> [] then [(''Content-Type'', CONTENT_TYPE_JSON)] else []) \<rparr>)"

definition create_response :: "nat \<Rightarrow> string \<Rightarrow> string \<Rightarrow> (('s, 'z) admin_scheme, nat) action" where
  "create_response status_code content error_details =
     bind_act (update_state (\<lambda>st. st\<lparr> ad_reply := make_reply status_code content error_details (ad_reply st) \<rparr>))
       (\<lambda>_. ret status_code)"

definition add_location :: "string \<Rightarrow> (('s, 'z) admin_scheme, unit) action" where
  "add_location url = update_state (\<lambda>st. st\<lparr> ad_reply := (ad_reply st)\<lparr>
     rp_headers := rp_headers (ad_reply st) @ [(''Location'', url)] \<rparr> \<rparr>)"

text \<open>\<open>error_response\<close>, with the body only.\<close>

definition admin_error_response :: "nat \<Rightarrow> reply \<Rightarrow> reply" where
  "admin_error_response status_code r =
     r\<lparr> rp_status := (if status_code \<noteq> 0 then status_code else 404),
        rp_body := (if rp_body r = [] then [] else ''{'' @ quoted ''reason'' @ '': '' @ quoted (rp_body r) @ ''}'') \<rparr>"

subsection \<open>Configuration and schemas\<close>

definition iota_error :: "string \<Rightarrow> string \<Rightarrow> nat \<Rightarrow> 'a result" where
  "iota_error reason details status = Inl (IotaException reason details status)"

definition read_schema :: "(string \<Rightarrow> string option) \<Rightarrow> Configurator \<Rightarrow> string \<Rightarrow> string result" where
  "read_schema files cf file_name =
     bind_exn (or_default ''/etc/iot'' (bind_exn (conf_get ''schema_path'' cf) GetString)) (\<lambda>dir.
       let schema_path = dir @ ''/'' @ file_name
       in case files schema_path of
            Some s \<Rightarrow> Inr s
          | None \<Rightarrow> iota_error RESPONSE_MESSAGE_BAD_CONFIG (''No schema to validate requests ['' @ schema_path @ '']'') 400)"

definition check_mongo_config :: "Configurator \<Rightarrow> unit result" where
  "check_mongo_config cf =
     bind_exn (storage_type cf) (\<lambda>t.
       case t of
         None \<Rightarrow> iota_error RESPONSE_MESSAGE_BAD_CONFIG '' [ response:type ]'' 400
       | Some ty \<Rightarrow>
           if ty \<noteq> ''mongodb''
           then iota_error RESPONSE_MESSAGE_NOT_IMPLEMENTED ('' API Rest not implemented for this storage type [ '' @ ty @ '']'') 400
           else Inr ())"

definition is_mongo_active :: "Configurator \<Rightarrow> bool result" where
  "is_mongo_active cf = bind_exn (storage_type cf) (\<lambda>t. Inr (t = Some ''mongodb''))"

text \<open>The text of the error; \<open>None\<close> when the body is accepted.\<close>

definition validate_json_schema :: "admin_env \<Rightarrow> string \<Rightarrow> string \<Rightarrow> string option" where
  "validate_json_schema ae json_str schema =
     (case ae_schema ae of
        None \<Rightarrow> None
      | Some validate \<Rightarrow>
          (case validate schema json_str of
             Inl what \<Rightarrow> Some what
           | Inr None \<Rightarrow> None
           | Inr (Some (validation_error, data_path)) \<Rightarrow> Some (validation_error @ '' ['' @ data_path @ '']'')))"

subsection \<open>Plugins\<close>

definition admin_add_service :: "string \<Rightarrow> plugin \<Rightarrow> (('s, 'z) admin_scheme, unit) action" where
  "admin_add_service resource p = update_state (\<lambda>st. st\<lparr> ad_manager := map_insert resource p (ad_manager st) \<rparr>)"

definition admin_get_service :: "string \<Rightarrow> (('s, 'z) admin_scheme, plugin option) action" where
  "admin_get_service resource = bind_act get_state (\<lambda>st. ret (map_find (ad_manager st) resource))"

definition check_existing_resource :: "string \<Rightarrow> (('s, 'z) admin_scheme, unit) action" where
  "check_existing_resource resource =
     bind_act (admin_get_service resource) (\<lambda>p.
       case p of None \<Rightarrow> lift (iota_error RESPONSE_MESSAGE_BAD_REQUEST ''Resource does not exist'' 400) | Some _ \<Rightarrow> ret ())"

text \<open>\<open>fill_all_resources\<close> of \<^verbatim>\<open>src/util/service_collection.cc\<close>.\<close>

definition fill_all_resources ::
  "'s mongo_driver \<Rightarrow> admin_env \<Rightarrow> string \<Rightarrow> string \<Rightarrow> (('s, 'z) admin_scheme, string list) action" where
  "fill_all_resources drv ae serv path =
     bind_act (mongo_find drv SERVICE_TABLE (SERVICE_fields [(''service'', serv), (''service_path'', path)]) 0 0 []
        [(''resource'', JInt 1)]) (\<lambda>(_, c).
     bind_act (read_cursor drv c) (\<lambda>ds.
       ret (filter (\<lambda>r. r \<noteq> []) (map (\<lambda>d. bs_string (aw_bson (ae_agent ae)) d ''resource'') ds))))"

fun first_with_protocol :: "string \<Rightarrow> (string, plugin) std_map \<Rightarrow> string list \<Rightarrow> plugin option" where
  "first_with_protocol protocol_name m [] = None"
| "first_with_protocol protocol_name m (r # rs) =
     (case map_find m r of
        Some p \<Rightarrow> if rh_protocol (pl_handle p) = protocol_name then Some p else first_with_protocol protocol_name m rs
      | None \<Rightarrow> first_with_protocol protocol_name m rs)"

definition get_device_protocol ::
  "'s mongo_driver \<Rightarrow> admin_env \<Rightarrow> string \<Rightarrow> string \<Rightarrow> string \<Rightarrow> (('s, 'z) admin_scheme, plugin option) action" where
  "get_device_protocol drv ae protocol_name serv path =
     (if protocol_name = [] then ret None
      else bind_act (fill_all_resources drv ae serv path) (\<lambda>resources.
           bind_act get_state (\<lambda>st. ret (first_with_protocol protocol_name (ad_manager st) resources))))"

text \<open>What the plugins are asked to do is recorded in the order of their names; what they throw is ignored.\<close>

definition each_plugin :: "(string \<Rightarrow> plugin \<Rightarrow> (('s, 'z) admin_scheme, unit) action) \<Rightarrow> (('s, 'z) admin_scheme, unit) action" where
  "each_plugin f =
     bind_act get_state (\<lambda>st.
     bind_act (for_each (\<lambda>(r, p). try_act (\<lambda>_. True) (f r p) (\<lambda>_. ret ())) (ad_manager st)) (\<lambda>_. ret ()))"

definition deploy_device :: "Device \<Rightarrow> (('s, 'z) admin_scheme, unit) action" where
  "deploy_device d =
     each_plugin (\<lambda>r p.
       if pl_command p \<and> protocol d = rh_protocol (pl_handle p) then perform (Register_device r d) else ret ())"

definition undeploy_device :: "'s mongo_driver \<Rightarrow> admin_env \<Rightarrow> Device \<Rightarrow> (('s, 'z) admin_scheme, unit) action" where
  "undeploy_device drv ae d =
     each_plugin (\<lambda>r p.
       if pl_command p \<and> protocol d = rh_protocol (pl_handle p)
       then bind_act (get_service_by_name drv (ae_agent ae) (pl_handle p) (service d) (service_path d)) (\<lambda>pt.
            perform (Unregister_device r d (registration_id d) pt))
       else ret ())"

definition remove_from_cache :: "Device \<Rightarrow> (('s, 'z) admin_scheme, unit) action" where
  "remove_from_cache d = each_plugin (\<lambda>r p. perform (Forget_device r d))"

definition admin_register_iota_manager :: "'s mongo_driver \<Rightarrow> admin_env \<Rightarrow> (('s, 'z) admin_scheme, unit) action" where
  "admin_register_iota_manager drv ae =
     each_plugin (\<lambda>r p.
       if rh_description (pl_handle p) \<noteq> [] then register_iota_manager drv (ae_agent ae) (pl_handle p) else ret ())"

end
