(* ===== verification/Admin_Device.thy ===== *)
theory Admin_Device
  imports Admin_Base
begin

text \<open>
  The operations on devices of the administration service (\<^verbatim>\<open>src/services/admin_service.cc\<close>): creation of
  one or several, change, queries and removal, with the commands of protocols joined into a device and the
  check for devices of the same entity with the same commands.
\<close>

section \<open>The code\<close>

subsection \<open>Commands of the protocol\<close>

text \<open>Position of the last occurrence of a character.\<close>

definition find_last :: "char \<Rightarrow> string \<Rightarrow> nat option" where
  "find_last c s = map_option (\<lambda>i. length s - 1 - i) (find_sub [c] (rev s))"

text \<open>The text after the brace up to the bracket of the commands, or up to the last brace.\<close>

definition inner_commands :: "string \<Rightarrow> bool \<Rightarrow> string result" where
  "inner_commands obj2 has =
     (case (find_sub ''{'' obj2, if has then find_from obj2 '']'' (str_find obj2 (quoted ''commands'') 0) else find_last CHR ''}'' obj2) of
        (Some i, Some f) \<Rightarrow> str_substr obj2 (i + 1) (size_sub f (i + 1))
      | _ \<Rightarrow> Inr [])"

definition joinCommands :: "string \<Rightarrow> string \<Rightarrow> string result" where
  "joinCommands obj1 obj2 =
     (let obj2_commands = (str_find obj2 (quoted ''commands'') 0 \<noteq> None) in
      bind_exn (inner_commands obj2 obj2_commands) (\<lambda>resobj2.
        case str_find obj1 (quoted ''commands'') 0 of
          Some i \<Rightarrow>
            (case str_find obj1 ''['' i of
               None \<Rightarrow> Inr []
             | Some f \<Rightarrow>
                 bind_exn (str_suffix obj1 (f + 1)) (\<lambda>rest.
                 Inr (take i obj1 @ (if resobj2 \<noteq> [] then resobj2 @ '','' else []) @ rest)))
        | None \<Rightarrow>
            let added = (if obj2_commands then resobj2 @ '']'' else resobj2)
            in bind_exn (str_suffix obj1 (case str_find obj1 ''{'' 0 of Some i \<Rightarrow> i + 1 | None \<Rightarrow> 0)) (\<lambda>rest.
               Inr (''{'' @ (if added \<noteq> [] then added @ '','' else []) @ rest))))"

subsection \<open>Devices with the same commands\<close>

text \<open>The names of the commands of a document.\<close>

definition command_names :: "bson_lib \<Rightarrow> doc \<Rightarrow> string list" where
  "command_names lib d =
     filter (\<lambda>n. n \<noteq> []) (map (\<lambda>e. bs_string lib e ''name'') (List.map_filter (bs_object_of lib \<circ> snd) (bs_object lib d ''commands'')))"

text \<open>Several names are appended to the array of \<open>$in\<close> as one element.\<close>

definition commands_query :: "string \<Rightarrow> string \<Rightarrow> string \<Rightarrow> string \<Rightarrow> string list \<Rightarrow> doc" where
  "commands_query entity serv path protocol_name names =
     SERVICE_fields [(''entity_name'', entity), (''service'', serv), (''service_path'', path), (''protocol'', protocol_name)]
     @ [(''commands.name'',
         case names of [n] \<Rightarrow> JString n | _ \<Rightarrow> JObject [(''$in'', JArray [JArray (map JString names)])])]"

definition check_device_commands_duplicate ::
  "'s mongo_driver \<Rightarrow> admin_env \<Rightarrow> string \<Rightarrow> string \<Rightarrow> string \<Rightarrow> doc \<Rightarrow> (('s, 'z) admin_scheme, bool) action" where
  "check_device_commands_duplicate drv ae protocol_name serv path bsonobj =
     (let lib = aw_bson (ae_agent ae);
          entity = bs_string lib bsonobj ''entity_name'';
          names = command_names lib bsonobj
      in if entity = [] \<or> names = [] then ret True
         else bind_act (mongo_find_all drv DEVICE_TABLE (commands_query entity serv path protocol_name names)) (\<lambda>(_, c).
              bind_act (mongo_more drv c) (\<lambda>more. ret (\<not> more))))"

subsection \<open>Creation\<close>

definition get_service_json :: "'s mongo_driver \<Rightarrow> admin_env \<Rightarrow> string \<Rightarrow> string \<Rightarrow> (('s, 'z) admin_scheme, string) action" where
  "get_service_json drv ae serv path =
     bind_act (mongo_find_all drv SERVICE_TABLE (SERVICE_fields [(''service'', serv), (''service_path'', path)])) (\<lambda>(_, c).
     bind_act (mongo_more drv c) (\<lambda>more.
       if more then bind_act (mongo_next drv c) (\<lambda>(d, _). ret (bs_print (aw_bson (ae_agent ae)) d)) else ret []))"

text \<open>The errors of a plugin that count: both for a new device, and the first for a change.\<close>

definition check_provisioned :: "bool \<Rightarrow> plugin \<Rightarrow> string \<Rightarrow> unit result" where
  "check_provisioned new p data =
     (let (code, err) = pl_check p data in
      if code = 472 then iota_error RESPONSE_MESSAGE_INVALID_PARAMETER ((if new then '' ['' else '' [ '') @ err @ '']'') 400
      else if code = 471 \<and> new then iota_error RESPONSE_MESSAGE_MISSING_PARAMETER ('' ['' @ err @ '']'') 400
      else Inr ())"

definition the_plugin :: "string \<Rightarrow> plugin option \<Rightarrow> plugin result" where
  "the_plugin protocol_name p =
     (case p of Some q \<Rightarrow> Inr q
      | None \<Rightarrow> iota_error RESPONSE_MESSAGE_BAD_PROTOCOL ('' [ protocol: '' @ protocol_name @ '']'') 400)"

definition with_protocol_commands :: "bson_lib \<Rightarrow> plugin \<Rightarrow> doc \<Rightarrow> doc result" where
  "with_protocol_commands lib p bo =
     (if pl_commands p \<noteq> [] then bind_exn (joinCommands (bs_print lib bo) (pl_commands p)) (bs_parse lib) else Inr bo)"

definition provisioned_device :: "string \<Rightarrow> string \<Rightarrow> string \<Rightarrow> string \<Rightarrow> Device" where
  "provisioned_device device_id serv path protocol_name =
     (Device_named device_id serv)\<lparr> service_path := path, protocol := protocol_name \<rparr>"

text \<open>One device of the body; the result is its identifier.\<close>

definition post_one_device ::
  "'s mongo_driver \<Rightarrow> admin_env \<Rightarrow> string \<Rightarrow> string \<Rightarrow> string \<Rightarrow> json \<Rightarrow> (('s, 'z) admin_scheme, string) action" where
  "post_one_device drv ae serv path body v =
     (let lib = aw_bson (ae_agent ae) in
      bind_act (lift (bs_embedded lib v)) (\<lambda>bo.
        let protocol_name = bs_string lib bo ''protocol'' in
      bind_act (get_device_protocol drv ae protocol_name serv path) (\<lambda>found.
      bind_act (lift (the_plugin protocol_name found)) (\<lambda>p.
      bind_act (lift (check_provisioned True p (bs_print lib bo))) (\<lambda>_.
      bind_act (lift (with_protocol_commands lib p bo)) (\<lambda>bo'.
      bind_act (lift (bs_text lib bo' ''device_id'')) (\<lambda>device_to_post.
        let insertObj = bo' @ SERVICE_fields [(''service'', serv), (''service_path'', path)] in
      bind_act (check_device_commands_duplicate drv ae protocol_name serv path insertObj) (\<lambda>unique.
        if \<not> unique
        then lift (iota_error RESPONSE_MESSAGE_ENTITY_COMMANDS_ALREADY_EXISTS ('' [ '' @ body @ '']'') 409)
        else bind_act (mongo_insert drv DEVICE_TABLE insertObj) (\<lambda>_.
             bind_act (deploy_device (provisioned_device device_to_post serv path protocol_name)) (\<lambda>_.
             ret device_to_post))))))))))"

definition ADMIN_SERVICE_DEVICES :: string where
  "ADMIN_SERVICE_DEVICES = ''/devices''"

definition post_device_json ::
  "'s mongo_driver \<Rightarrow> admin_env \<Rightarrow> string \<Rightarrow> string \<Rightarrow> string \<Rightarrow> (('s, 'z) admin_scheme, nat) action" where
  "post_device_json drv ae serv path body =
     (let lib = aw_bson (ae_agent ae) in
      bind_act (get_service_json drv ae serv path) (\<lambda>service_exists.
        if body = [] then create_response 400 RESPONSE_MESSAGE_BAD_REQUEST ''empty body''
        else if service_exists = []
        then create_response 404 RESPONSE_MESSAGE_NO_SERVICE ('' service:'' @ serv @ '' service_path:'' @ path)
        else case validate_json_schema ae body (ae_post_device ae) of
               Some error_details \<Rightarrow> create_response 400 RESPONSE_MESSAGE_BAD_REQUEST error_details
             | None \<Rightarrow>
                 bind_act (lift (bs_parse lib body)) (\<lambda>obj.
                 bind_act (lift (bs_array lib obj ''devices'')) (\<lambda>be.
                 bind_act (for_each (post_one_device drv ae serv path body) be) (\<lambda>ids.
                 bind_act (case ids of
                             [device_to_post] \<Rightarrow> add_location (aw_url_base (ae_agent ae) @ ADMIN_SERVICE_DEVICES @ ''/'' @ device_to_post)
                           | _ \<Rightarrow> ret ()) (\<lambda>_.
                 create_response 201 [] []))))))"

subsection \<open>Change\<close>

text \<open>\<open>removeField\<close> gives a copy without the field, which is dropped, so the document keeps its protocol.\<close>

definition device_query :: "string \<Rightarrow> string \<Rightarrow> string \<Rightarrow> string \<Rightarrow> doc" where
  "device_query serv path device_id protocol_name =
     SERVICE_fields ([(''service'', serv), (''service_path'', path), (''device_id'', device_id)]
       @ (if protocol_name \<noteq> [] then [(''protocol'', protocol_name)] else []))"

text \<open>The protocol of the device in the database, with the checks of its plugin; else the given one.\<close>

definition current_protocol ::
  "'s mongo_driver \<Rightarrow> admin_env \<Rightarrow> string \<Rightarrow> string \<Rightarrow> doc \<Rightarrow> string \<Rightarrow> string \<Rightarrow> (('s, 'z) admin_scheme, string) action" where
  "current_protocol drv ae serv path query body protocol_name =
     bind_act (mongo_find drv DEVICE_TABLE query 0 0 [] [(''protocol'', JInt 1)]) (\<lambda>(_, c).
     bind_act (mongo_more drv c) (\<lambda>more.
       if \<not> more then ret protocol_name
       else bind_act (mongo_next drv c) (\<lambda>(d, _).
              let name = bs_string (aw_bson (ae_agent ae)) d ''protocol'' in
            bind_act (get_device_protocol drv ae name serv path) (\<lambda>found.
            bind_act (lift (the_plugin protocol_name found)) (\<lambda>p.
            bind_act (lift (check_provisioned False p body)) (\<lambda>_.
            ret name))))))"

definition redeploy ::
  "'s mongo_driver \<Rightarrow> admin_env \<Rightarrow> string \<Rightarrow> string \<Rightarrow> string \<Rightarrow> doc \<Rightarrow> (('s, 'z) admin_scheme, unit) action" where
  "redeploy drv ae serv path device_id query =
     bind_act (mongo_find drv DEVICE_TABLE query 0 0 [] [(''protocol'', JInt 1)]) (\<lambda>(_, c).
     bind_act (mongo_more drv c) (\<lambda>more.
     bind_act
       (if more
        then bind_act (mongo_next drv c) (\<lambda>(d, _).
               let dev = provisioned_device device_id serv path (bs_string (aw_bson (ae_agent ae)) d ''protocol'') in
             bind_act (deploy_device dev) (\<lambda>_. ret dev))
        else ret (provisioned_device device_id serv path [])) (\<lambda>dev.
     remove_from_cache dev)))"

text \<open>From the end: the commands were compared, the devices counted, the document read.\<close>

definition put_checked ::
  "'s mongo_driver \<Rightarrow> admin_env \<Rightarrow> string \<Rightarrow> string \<Rightarrow> string \<Rightarrow> string \<Rightarrow> string \<Rightarrow> doc \<Rightarrow> bool \<Rightarrow> (('s, 'z) admin_scheme, nat) action" where
  "put_checked drv ae serv path device_id body protocol_name setbo unique =
     (if \<not> unique
      then lift (iota_error RESPONSE_MESSAGE_ENTITY_COMMANDS_ALREADY_EXISTS
             ('' [ entity_name: '' @ bs_string (aw_bson (ae_agent ae)) setbo ''entity_name'' @ '']'') 409)
      else
        bind_act (mongo_update drv DEVICE_TABLE (device_query serv path device_id protocol_name) setbo False) (\<lambda>count.
          if count = 0
          then lift (iota_error RESPONSE_MESSAGE_NO_DEVICE
                 ('' [ device: put_device_json service='' @ serv @ '' service_path='' @ path @ '' device=''
                   @ device_id @ '' content='' @ body @ '']'') 404)
          else bind_act (redeploy drv ae serv path device_id (device_query serv path device_id protocol_name)) (\<lambda>_.
               create_response 204 [] [])))"

definition put_counted ::
  "'s mongo_driver \<Rightarrow> admin_env \<Rightarrow> string \<Rightarrow> string \<Rightarrow> string \<Rightarrow> string \<Rightarrow> string \<Rightarrow> doc \<Rightarrow> int \<Rightarrow> (('s, 'z) admin_scheme, nat) action" where
  "put_counted drv ae serv path device_id body protocol_name setbo number_of_devices =
     (if number_of_devices > 1
      then lift (iota_error RESPONSE_MESSAGE_MISSING_PARAMETER ''This operation needs protocol parameter'' 400)
      else
        bind_act (current_protocol drv ae serv path (device_query serv path device_id protocol_name) body protocol_name) (\<lambda>name.
        bind_act (check_device_commands_duplicate drv ae name serv path setbo) (\<lambda>unique.
        put_checked drv ae serv path device_id body protocol_name setbo unique)))"

definition put_document ::
  "'s mongo_driver \<Rightarrow> admin_env \<Rightarrow> string \<Rightarrow> string \<Rightarrow> string \<Rightarrow> string \<Rightarrow> string \<Rightarrow> doc \<Rightarrow> (('s, 'z) admin_scheme, nat) action" where
  "put_document drv ae serv path device_id body protocol_name setbo =
     (if setbo = [] then create_response 400 RESPONSE_MESSAGE_BAD_REQUEST ''empty body''
      else bind_act (mongo_count drv DEVICE_TABLE (device_query serv path device_id protocol_name))
             (put_counted drv ae serv path device_id body protocol_name setbo))"

definition put_device_json ::
  "'s mongo_driver \<Rightarrow> admin_env \<Rightarrow> string \<Rightarrow> string \<Rightarrow> string \<Rightarrow> string \<Rightarrow> string \<Rightarrow> (('s, 'z) admin_scheme, nat) action" where
  "put_device_json drv ae serv path device_id body protocol_name =
     bind_act (get_service_json drv ae serv path) (\<lambda>_.
       if body = [] then create_response 400 RESPONSE_MESSAGE_BAD_REQUEST ''empty body''
       else case validate_json_schema ae body (ae_put_device ae) of
              Some error_details \<Rightarrow> create_response 400 RESPONSE_MESSAGE_BAD_REQUEST error_details
            | None \<Rightarrow> bind_act (lift (bs_parse (aw_bson (ae_agent ae)) body)) (put_document drv ae serv path device_id body protocol_name))"

subsection \<open>Queries\<close>

definition addServicePath :: "string \<Rightarrow> (string \<times> string) list" where
  "addServicePath data =
     (if data = [] then [(''service_path'', FIWARE_SERVICEPATH_DEFAULT)]
      else if data \<noteq> ''/*'' \<and> data \<noteq> ''/#'' then [(''service_path'', data)] else [])"

text \<open>A page of documents as JSON; a negative limit gives none.\<close>

definition list_documents ::
  "'s mongo_driver \<Rightarrow> admin_env \<Rightarrow> string \<Rightarrow> string \<Rightarrow> doc \<Rightarrow> int \<Rightarrow> int \<Rightarrow> doc \<Rightarrow> doc \<Rightarrow> string \<Rightarrow> (('s, 'z) admin_scheme, nat) action" where
  "list_documents drv ae table name query limit offset order returned detailed =
     bind_act (mongo_count drv table query) (\<lambda>count.
       if detailed \<noteq> [] \<and> detailed \<noteq> ''off'' \<and> detailed \<noteq> ''on''
       then create_response 400 RESPONSE_MESSAGE_BAD_REQUEST ''parameter detailed must be on or off''
       else
         bind_act (if limit \<ge> 0
                   then bind_act (mongo_find drv table query limit offset order
                          (if detailed \<noteq> ''on'' then returned else [])) (\<lambda>(_, c). read_cursor drv c)
                   else ret []) (\<lambda>ds.
         create_response 200
           (''{ '' @ quoted ''count'' @ '': '' @ show_int count @ '','' @ quoted name @ '': [''
            @ join_with '','' (map (bs_print (aw_bson (ae_agent ae))) ds) @ '']}'') []))"

definition get_all_devices_json ::
  "'s mongo_driver \<Rightarrow> admin_env \<Rightarrow> string \<Rightarrow> string \<Rightarrow> int \<Rightarrow> int \<Rightarrow> string \<Rightarrow> string \<Rightarrow> string \<Rightarrow> (('s, 'z) admin_scheme, nat) action" where
  "get_all_devices_json drv ae serv path limit offset detailed entity protocol_filter =
     list_documents drv ae DEVICE_TABLE ''devices''
       (SERVICE_fields ([(''service'', serv)] @ addServicePath path
          @ (if entity \<noteq> [] then [(''entity_name'', entity)] else [])
          @ (if protocol_filter \<noteq> [] then [(''protocol'', protocol_filter)] else [])))
       limit offset (index_on [''device_id'', ''service_path'']) [(''device_id'', JInt 1)] detailed"

definition get_a_device_json ::
  "'s mongo_driver \<Rightarrow> admin_env \<Rightarrow> string \<Rightarrow> string \<Rightarrow> string \<Rightarrow> (('s, 'z) admin_scheme, nat) action" where
  "get_a_device_json drv ae serv path device_id =
     bind_act (mongo_find_all drv DEVICE_TABLE
        (SERVICE_fields [(''device_id'', device_id), (''service'', serv), (''service_path'', path)])) (\<lambda>(_, c).
     bind_act (mongo_more drv c) (\<lambda>more.
       if more then bind_act (mongo_next drv c) (\<lambda>(d, _). create_response 200 (bs_print (aw_bson (ae_agent ae)) d) [])
       else create_response 404 RESPONSE_MESSAGE_NO_DEVICE device_id))"

subsection \<open>Removal\<close>

definition delete_device_json ::
  "'s mongo_driver \<Rightarrow> admin_env \<Rightarrow> string \<Rightarrow> string \<Rightarrow> string \<Rightarrow> (('s, 'z) admin_scheme, nat) action" where
  "delete_device_json drv ae serv path id_device =
     (let dev = (Device_named id_device serv)\<lparr> service_path := path \<rparr> in
      bind_act (undeploy_device drv ae dev) (\<lambda>_.
      bind_act (mongo_remove drv DEVICE_TABLE
        (SERVICE_fields (filter (\<lambda>f. snd f \<noteq> []) [(''device_id'', id_device), (''service'', serv), (''service_path'', path)]))) (\<lambda>_.
      bind_act (remove_from_cache dev) (\<lambda>_.
      create_response 204 [] []))))"

end
