(* ===== verification/Admin_Service.thy ===== *)
theory Admin_Service
  imports Admin_Device
begin

text \<open>
  The operations on services and the four request handlers of the administration service
  (\<^verbatim>\<open>src/services/admin_service.cc\<close>): the checks of headers and parameters, the dispatch on the method, and
  the answers to what is thrown.
\<close>

section \<open>The code\<close>

subsection \<open>Operations on services\<close>

definition check_uri :: "string \<Rightarrow> unit result" where
  "check_uri data = bind_exn (new_IoTUrl data) (\<lambda>_. Inr ())"

definition check_service_fields_of :: "admin_env \<Rightarrow> doc \<Rightarrow> (('s, 'z) admin_scheme, unit) action" where
  "check_service_fields_of ae d =
     (let cbroker = bs_string (aw_bson (ae_agent ae)) d ''cbroker'';
          resource = bs_string (aw_bson (ae_agent ae)) d ''resource''
      in bind_act (lift (if cbroker \<noteq> [] then check_uri cbroker else Inr ())) (\<lambda>_.
         if resource \<noteq> [] then check_existing_resource resource else ret ()))"

definition post_one_service ::
  "'s mongo_driver \<Rightarrow> admin_env \<Rightarrow> string \<Rightarrow> string \<Rightarrow> doc \<Rightarrow> (('s, 'z) admin_scheme, unit) action" where
  "post_one_service drv ae serv path d =
     (let insObj = d @ SERVICE_fields [(''service'', serv), (''service_path'', path)] in
      bind_act (check_service_fields_of ae insObj) (\<lambda>_. mongo_insert drv SERVICE_TABLE insObj))"

text \<open>All elements have to be documents before the first is inserted.\<close>

definition getElementsFromBSON :: "bson_lib \<Rightarrow> doc \<Rightarrow> doc list result" where
  "getElementsFromBSON lib obj = bind_exn (bs_array lib obj ''services'') (map_exn (bs_embedded lib))"

definition ADMIN_SERVICE_SERVICES :: string where
  "ADMIN_SERVICE_SERVICES = ''/services''"

definition post_service_json ::
  "'s mongo_driver \<Rightarrow> admin_env \<Rightarrow> string \<Rightarrow> string \<Rightarrow> string \<Rightarrow> (('s, 'z) admin_scheme, nat) action" where
  "post_service_json drv ae serv path body =
     (if body = [] then create_response 400 RESPONSE_MESSAGE_BAD_REQUEST ''empty body''
      else case validate_json_schema ae body (ae_post_service ae) of
             Some error_details \<Rightarrow> create_response 400 RESPONSE_MESSAGE_BAD_REQUEST error_details
           | None \<Rightarrow>
               bind_act (lift (bind_exn (bs_parse (aw_bson (ae_agent ae)) body) (getElementsFromBSON (aw_bson (ae_agent ae))))) (\<lambda>be.
               bind_act (for_each (post_one_service drv ae serv path) be) (\<lambda>_.
               bind_act (admin_register_iota_manager drv ae) (\<lambda>_.
               bind_act (if length be = 1
                         then add_location (aw_url_base (ae_agent ae) @ ADMIN_SERVICE_SERVICES @ ''/'' @ serv) else ret ()) (\<lambda>_.
               create_response 201 [] [])))))"

definition put_service_json ::
  "'s mongo_driver \<Rightarrow> admin_env \<Rightarrow> string \<Rightarrow> string \<Rightarrow> string \<Rightarrow> string \<Rightarrow> string \<Rightarrow> string \<Rightarrow> (('s, 'z) admin_scheme, nat) action" where
  "put_service_json drv ae serv path serv_id apikey resource body =
     (if resource = []
      then lift (iota_error RESPONSE_MESSAGE_MISSING_PARAMETER ''resource parameter is mandatory in PUT operation'' 400)
      else
        bind_act (check_existing_resource resource) (\<lambda>_.
          if body = [] then create_response 400 RESPONSE_MESSAGE_BAD_REQUEST ''empty body''
          else case validate_json_schema ae body (ae_put_service ae) of
                 Some error_details \<Rightarrow> create_response 400 RESPONSE_MESSAGE_BAD_REQUEST error_details
               | None \<Rightarrow>
                   bind_act (lift (bs_parse (aw_bson (ae_agent ae)) body)) (\<lambda>setbo.
                     if setbo = [] then create_response 400 RESPONSE_MESSAGE_BAD_REQUEST ''empty body''
                     else
                       bind_act (check_service_fields_of ae setbo) (\<lambda>_.
                       bind_act (mongo_update drv SERVICE_TABLE (SERVICE_fields
                          [(''service'', serv_id), (''service_path'', path), (''apikey'', apikey), (''resource'', resource)]) setbo False) (\<lambda>count.
                         if count = 0
                         then lift (iota_error RESPONSE_MESSAGE_NO_SERVICE
                                ('' [  put_service_json service='' @ serv @ '' service_path='' @ path @ '' service_id='' @ serv_id
                                  @ '' content='' @ body @ '' resource='' @ resource @ '']'') 404)
                         else bind_act (admin_register_iota_manager drv ae) (\<lambda>_. create_response 204 [] []))))))"

definition get_all_services_json ::
  "'s mongo_driver \<Rightarrow> admin_env \<Rightarrow> string \<Rightarrow> string \<Rightarrow> int \<Rightarrow> int \<Rightarrow> string \<Rightarrow> string \<Rightarrow> (('s, 'z) admin_scheme, nat) action" where
  "get_all_services_json drv ae serv path limit offset detailed resource =
     list_documents drv ae SERVICE_TABLE ''services''
       (SERVICE_fields ([(''service'', serv)] @ addServicePath path
          @ (if resource \<noteq> [] then [(''resource'', resource)] else [])))
       limit offset (index_on [''service'', ''service_path'']) [(''service'', JInt 1)] detailed"

definition get_a_service_json :: "'s mongo_driver \<Rightarrow> admin_env \<Rightarrow> string \<Rightarrow> string \<Rightarrow> (('s, 'z) admin_scheme, nat) action" where
  "get_a_service_json drv ae serv path =
     bind_act (get_service_json drv ae serv path) (\<lambda>res. create_response (if res = [] then 404 else 200) res [])"

definition every_path :: "string \<Rightarrow> bool" where
  "every_path path \<longleftrightarrow> path = ''/*'' \<or> path = ''/#''"

definition delete_service_json ::
  "'s mongo_driver \<Rightarrow> admin_env \<Rightarrow> string \<Rightarrow> string \<Rightarrow> string \<Rightarrow> string \<Rightarrow> string \<Rightarrow> bool \<Rightarrow> (('s, 'z) admin_scheme, nat) action" where
  "delete_service_json drv ae serv path serv_id apikey resource remove_devices =
     (if serv_id = [] then lift (iota_error RESPONSE_MESSAGE_BAD_REQUEST ('' service:'' @ serv_id) 400)
      else if path = [] \<or> hd path \<noteq> CHR ''/'' then lift (iota_error RESPONSE_MESSAGE_BAD_REQUEST (''service_path:'' @ path) 400)
      else
        let query_path = (if every_path path then [] else path);
            path_field = (if every_path path then [] else [(''service_path'', path)])
        in bind_act (mongo_count drv SERVICE_TABLE (SERVICE_fields ([(''service'', serv_id)] @ path_field))) (\<lambda>num_services.
           bind_act (mongo_remove drv SERVICE_TABLE (SERVICE_fields ([(''service'', serv_id)]
              @ (if apikey \<noteq> [] then [(''apikey'', apikey)] else [])
              @ (if resource \<noteq> [] then [(''resource'', resource)] else []) @ path_field))) (\<lambda>num_removed_services.
           bind_act (if num_services - num_removed_services = 0 \<and> remove_devices
                     then bind_act (mongo_remove drv DEVICE_TABLE (SERVICE_fields [(''service'', serv_id), (''service_path'', query_path)]))
                            (\<lambda>_. ret ())
                     else ret ()) (\<lambda>_.
           bind_act (admin_register_iota_manager drv ae) (\<lambda>_.
           create_response 204 [] [])))))"

subsection \<open>Parameters of a request\<close>

record admin_request =
  aq_method :: string
  aq_content :: string
  aq_service :: string
  aq_service_path :: string
  aq_url_arg :: string
  aq_query :: "(string \<times> string) list"

text \<open>\<open>find\<close> of a multimap: the first value.\<close>

definition query_param :: "admin_request \<Rightarrow> string \<Rightarrow> string" where
  "query_param q k = (case map_of (aq_query q) k of Some v \<Rightarrow> v | None \<Rightarrow> [])"

text \<open>A limit and an offset; the operation that is to blame when a number cannot be read.\<close>

definition limit_of :: "string \<Rightarrow> int option" where
  "limit_of temp =
     (if temp = [] then Some LIMIT_DEFAULT
      else map_option (\<lambda>l. if l < -1 then LIMIT_DEFAULT else if l > LIMIT_MAX then LIMIT_MAX else l) (lexical_int temp))"

definition offset_of :: "string \<Rightarrow> int option" where
  "offset_of temp = (if temp = [] then Some 0 else map_option (\<lambda>l. if l < 0 then 0 else l) (lexical_int temp))"

definition page_of :: "admin_request \<Rightarrow> (string \<times> string) + int \<times> int" where
  "page_of q =
     (case limit_of (query_param q ''limit'') of
        None \<Rightarrow> Inl (''limit'', query_param q ''limit'')
      | Some limit \<Rightarrow>
          (case offset_of (query_param q ''offset'') of
             None \<Rightarrow> Inl (''offset'', query_param q ''offset'')
           | Some offset \<Rightarrow> Inr (limit, offset)))"

text \<open>Extraction of a \<open>bool\<close> as text: anything but the word gives false, and nothing is thrown.\<close>

definition read_boolalpha :: "string \<Rightarrow> bool" where
  "read_boolalpha s = prefix ''true'' (dropWhile is_space s)"

definition get_param_resource :: "admin_request \<Rightarrow> bool \<Rightarrow> string result" where
  "get_param_resource q mandatory =
     (if mandatory \<and> query_param q ''resource'' = []
      then iota_error RESPONSE_MESSAGE_MISSING_PARAMETER ''resource parameter is mandatory'' 400
      else Inr (query_param q ''resource''))"

subsection \<open>Handlers\<close>

definition bad_headers :: "admin_request \<Rightarrow> bool" where
  "bad_headers q \<longleftrightarrow> aq_service q = [] \<or> (aq_service_path q \<noteq> [] \<and> hd (aq_service_path q) \<noteq> CHR ''/'')"

definition headers_error :: "(('s, 'z) admin_scheme, nat) action" where
  "headers_error = create_response 400 RESPONSE_MESSAGE_INVALID_PARAMETER ''Fiware-Service/Fiware-ServicePath not present or invalid''"

definition the_path :: "admin_request \<Rightarrow> string" where
  "the_path q = (if aq_service_path q = [] then FIWARE_SERVICEPATH_DEFAULT else aq_service_path q)"

text \<open>The last two \<open>catch\<close> clauses of every handler.\<close>

definition answered :: "(('s, 'z) admin_scheme, nat) action \<Rightarrow> (('s, 'z) admin_scheme, nat) action" where
  "answered m =
     try_act (\<lambda>_. True) m (\<lambda>e.
       case e of
         IotaException reason what status \<Rightarrow> create_response status reason (c_str what)
       | _ \<Rightarrow> create_response 500 RESPONSE_MESSAGE_INTERNAL_ERROR (exn_what e))"

definition mongo_configured :: "(('s, 'z) admin_scheme, unit) action" where
  "mongo_configured = bind_act get_state (\<lambda>st. lift (check_mongo_config (ag_conf st)))"

text \<open>A page is asked for; a number that cannot be read is answered by the first clause.\<close>

definition blamed :: "admin_request \<Rightarrow> string \<times> string" where
  "blamed q = (case page_of q of Inl p \<Rightarrow> p | Inr _ \<Rightarrow> ([], []))"

definition numbered :: "admin_request \<Rightarrow> (('s, 'z) admin_scheme, nat) action \<Rightarrow> (('s, 'z) admin_scheme, nat) action" where
  "numbered q m =
     try_act (\<lambda>e. case e of bad_cast _ \<Rightarrow> True | _ \<Rightarrow> False) m (\<lambda>_.
       create_response 400 RESPONSE_MESSAGE_INVALID_PARAMETER (fst (blamed q) @ '' must be a number but it is '' @ snd (blamed q)))"

definition with_page ::
  "admin_request \<Rightarrow> (int \<Rightarrow> int \<Rightarrow> (('s, 'z) admin_scheme, nat) action) \<Rightarrow> (('s, 'z) admin_scheme, nat) action" where
  "with_page q f =
     (case page_of q of
        Inl _ \<Rightarrow> throw (bad_cast ''bad_lexical_cast'')
      | Inr (limit, offset) \<Rightarrow> f limit offset)"

definition devices :: "'s mongo_driver \<Rightarrow> admin_env \<Rightarrow> admin_request \<Rightarrow> (('s, 'z) admin_scheme, nat) action" where
  "devices drv ae q =
     answered (numbered q (bind_act mongo_configured (\<lambda>_.
       if bad_headers q then headers_error
       else if aq_method q = ''POST'' then post_device_json drv ae (aq_service q) (the_path q) (boost_trim (aq_content q))
       else if aq_method q = ''GET'' then
         with_page q (\<lambda>limit offset.
           get_all_devices_json drv ae (aq_service q) (the_path q) limit offset (query_param q ''detailed'')
             (query_param q ''entity'') (query_param q ''protocol''))
       else create_response 405 RESPONSE_MESSAGE_METHOD_NOT_ALLOWED [])))"

definition device :: "'s mongo_driver \<Rightarrow> admin_env \<Rightarrow> admin_request \<Rightarrow> (('s, 'z) admin_scheme, nat) action" where
  "device drv ae q =
     answered (
       if bad_headers q then headers_error
       else if aq_method q = ''PUT'' then
         put_device_json drv ae (aq_service q) (the_path q) (aq_url_arg q) (boost_trim (aq_content q)) (query_param q ''protocol'')
       else if aq_method q = ''GET'' then get_a_device_json drv ae (aq_service q) (the_path q) (aq_url_arg q)
       else if aq_method q = ''DELETE'' then delete_device_json drv ae (aq_service q) (the_path q) (aq_url_arg q)
       else create_response 405 [] [])"

text \<open>\<open>services\<close> builds the answer to a removal once more.\<close>

definition remove_service ::
  "'s mongo_driver \<Rightarrow> admin_env \<Rightarrow> admin_request \<Rightarrow> string \<Rightarrow> (nat \<Rightarrow> (('s, 'z) admin_scheme, nat) action)
   \<Rightarrow> (('s, 'z) admin_scheme, nat) action" where
  "remove_service drv ae q serv_id after =
     bind_act (lift (get_param_resource q True)) (\<lambda>resource.
       let remove_devices = read_boolalpha (query_param q ''device'') in
       if every_path (the_path q) \<and> remove_devices
       then create_response 400 RESPONSE_MESSAGE_INVALID_PARAMETER
              (''Fiware-ServicePath is invalid in DELETE operation ['' @ the_path q @ ''] removing devices'')
       else bind_act (delete_service_json drv ae (aq_service q) (the_path q) serv_id (query_param q ''apikey'') resource remove_devices)
              after)"

definition services :: "'s mongo_driver \<Rightarrow> admin_env \<Rightarrow> admin_request \<Rightarrow> (('s, 'z) admin_scheme, nat) action" where
  "services drv ae q =
     answered (numbered q (bind_act mongo_configured (\<lambda>_.
       if bad_headers q then headers_error
       else if aq_method q = ''POST'' then post_service_json drv ae (aq_service q) (the_path q) (boost_trim (aq_content q))
       else if aq_method q = ''GET'' then
         with_page q (\<lambda>limit offset.
           get_all_services_json drv ae (aq_service q) (the_path q) limit offset ''on'' (query_param q ''resource''))
       else if aq_method q = ''PUT'' then
         (if every_path (the_path q)
          then create_response 400 RESPONSE_MESSAGE_INVALID_PARAMETER
                 (''Fiware-ServicePath is invalid in PUT operation ['' @ the_path q @ '']'')
          else put_service_json drv ae (aq_service q) (the_path q) (aq_service q) (query_param q ''apikey'')
                 (query_param q ''resource'') (boost_trim (aq_content q)))
       else if aq_method q = ''DELETE'' then
         remove_service drv ae q (aq_service q) (\<lambda>cd. create_response cd [] [])
       else create_response 404 [] [])))"

definition service_handler :: "'s mongo_driver \<Rightarrow> admin_env \<Rightarrow> admin_request \<Rightarrow> (('s, 'z) admin_scheme, nat) action" where
  "service_handler drv ae q =
     answered (bind_act mongo_configured (\<lambda>_.
       if bad_headers q then headers_error
       else if aq_url_arg q = []
       then create_response 400 RESPONSE_MESSAGE_INVALID_PARAMETER ''<service_id> not provided in urlFiware-Service''
       else if aq_service q \<noteq> aq_url_arg q
       then create_response 400 RESPONSE_MESSAGE_INVALID_PARAMETER ''service in url conflicts with Fiware-Service''
       else if aq_method q = ''PUT'' then
         (if query_param q ''resource'' = []
          then create_response 400 RESPONSE_MESSAGE_MISSING_PARAMETER ''resource parameter is mandatory in PUT operation''
          else put_service_json drv ae (aq_service q) (the_path q) (aq_url_arg q) (query_param q ''apikey'')
                 (query_param q ''resource'') (boost_trim (aq_content q)))
       else if aq_method q = ''GET'' then
         get_all_services_json drv ae (aq_service q) (the_path q) 0 0 ''on'' (query_param q ''resource'')
       else if aq_method q = ''DELETE'' then remove_service drv ae q (aq_url_arg q) ret
       else create_response 404 [] []))"

end
