(* ===== verification/Admin_Safety.thy ===== *)
theory Admin_Safety
  imports Admin_Service
begin

text \<open>
  What the administration service guarantees whatever the database and the plugins answer: every handler
  answers with the status it returns, queries change nothing, requests for services leave the devices, the
  pages are bounded, a change writes the whole body, and what remains of a request that fails half way.
\<close>

section \<open>Every handler answers\<close>

definition answering :: "(('s, 'z) admin_scheme, nat) action \<Rightarrow> bool" where
  "answering m \<longleftrightarrow> (\<forall>st cd st'. m st = Some (Inr cd, st') \<longrightarrow> rp_status (ad_reply st') = cd)"

named_theorems answers_intros \<open>actions that end with the response they return\<close>

lemma answers_basic [answers_intros]:
  "answering (create_response cd content details)" "answering (throw e)" "answering (lift (iota_error r w s))"
  by (auto simp: answering_def create_response_def make_reply_def bind_act_def update_state_def ret_def throw_def lift_def
      iota_error_def Let_def)

lemma answers_bind [answers_intros]: "(\<And>x. answering (f x)) \<Longrightarrow> answering (bind_act m f)"
  by (auto simp: answering_def bind_act_eq_Some)

lemma answers_cases [answers_intros]:
  "(b \<Longrightarrow> answering m) \<Longrightarrow> (\<not> b \<Longrightarrow> answering m') \<Longrightarrow> answering (if b then m else m')"
  "(x = None \<Longrightarrow> answering m) \<Longrightarrow> (\<And>y. x = Some y \<Longrightarrow> answering (k y)) \<Longrightarrow> answering (case x of None \<Rightarrow> m | Some y \<Rightarrow> k y)"
  "(\<And>a b. p = (a, b) \<Longrightarrow> answering (g a b)) \<Longrightarrow> answering (case p of (a, b) \<Rightarrow> g a b)"
  by (simp_all split: option.split prod.split)

lemma answers_try [answers_intros]: "answering m \<Longrightarrow> (\<And>e. answering (h e)) \<Longrightarrow> answering (try_act c m h)"
  unfolding answering_def try_act_eq_Some by (metis (full_types) Inl_Inr_False Inr_inject)

lemma answers_post_device [answers_intros]: "answering (post_device_json drv ae serv path body)"
  unfolding post_device_json_def Let_def by (intro answers_intros)

lemma answers_put_device [answers_intros]: "answering (put_device_json drv ae serv path d body p)"
  unfolding put_device_json_def put_document_def put_counted_def put_checked_def Let_def by (intro answers_intros)

lemma answers_list [answers_intros]: "answering (list_documents drv ae table name query limit offset order returned detailed)"
  unfolding list_documents_def Let_def by (intro answers_intros)

lemma answers_device_queries [answers_intros]:
  "answering (get_all_devices_json drv ae serv path limit offset detailed entity p)"
  "answering (get_a_device_json drv ae serv path d)" "answering (delete_device_json drv ae serv path d)"
  unfolding get_all_devices_json_def get_a_device_json_def delete_device_json_def Let_def by (intro answers_intros)+

lemma answers_services [answers_intros]:
  "answering (post_service_json drv ae serv path body)" "answering (put_service_json drv ae serv path serv_id apikey resource body)"
  "answering (get_all_services_json drv ae serv path limit offset detailed resource)"
  "answering (delete_service_json drv ae serv path serv_id apikey resource rd)"
  unfolding post_service_json_def put_service_json_def get_all_services_json_def delete_service_json_def Let_def
  by (intro answers_intros)+

lemma answers_parts [answers_intros]:
  "(\<And>l off. answering (f l off)) \<Longrightarrow> answering (with_page q f)" "answering m \<Longrightarrow> answering (numbered q m)" "answering headers_error"
  unfolding with_page_def numbered_def headers_error_def by (auto split: sum.split intro!: answers_intros)

lemma bind_act_ret: "bind_act m ret = m"
  by (auto simp: bind_act_def ret_def fun_eq_iff split: option.split sum.split)

lemma answers_remove_service [answers_intros]:
  "answering (remove_service drv ae q serv_id (\<lambda>cd. create_response cd [] []))" "answering (remove_service drv ae q serv_id ret)"
  unfolding remove_service_def Let_def bind_act_ret by (intro answers_intros)+

lemma answered_never_throws:
  "answered m st = Some (Inl e, st') \<Longrightarrow> \<not> catchable e"
  by (auto simp: answered_def try_act_eq_Some create_response_def bind_act_def update_state_def ret_def
      split: if_splits cxx_exn.splits)

lemma answers_answered [answers_intros]: "answering m \<Longrightarrow> answering (answered m)"
  unfolding answered_def by (intro answers_intros) (auto split: cxx_exn.split intro!: answers_intros)

lemma answers_handlers:
  "answering (devices drv ae q)" "answering (device drv ae q)" "answering (services drv ae q)" "answering (service_handler drv ae q)"
  unfolding devices_def device_def services_def service_handler_def by (intro answers_intros)+



section \<open>What requests leave alone\<close>

definition reply_free :: "(('s, 'z) admin_scheme \<Rightarrow> bool) \<Rightarrow> bool" where
  "reply_free P \<longleftrightarrow> (\<forall>st r. P st \<longrightarrow> P (st\<lparr> ad_reply := r \<rparr>))"

definition effect_free :: "(('s, 'z) agent_scheme \<Rightarrow> bool) \<Rightarrow> bool" where
  "effect_free P \<longleftrightarrow> (\<forall>st e c. P st \<longrightarrow> P (st\<lparr> ag_effects := e \<rparr>) \<and> P (st\<lparr> ag_conf := c \<rparr>))"

lemma keeps_reply [keeps_intros]:
  "reply_free P \<Longrightarrow> keeps P (create_response cd content details)" "reply_free P \<Longrightarrow> keeps P (add_location url)"
  unfolding create_response_def add_location_def by (intro keeps_intros keeps_update; simp add: reply_free_def)+

lemma keeps_perform [keeps_intros]: "effect_free P \<Longrightarrow> keeps P (perform e)"
  unfolding perform_def by (intro keeps_update) (simp add: effect_free_def)

lemma keeps_each_plugin [keeps_intros]: "(\<And>r p. keeps P (f r p)) \<Longrightarrow> keeps P (each_plugin f)"
  unfolding each_plugin_def by (intro keeps_intros) auto

lemma keeps_list_documents [keeps_intros]:
  assumes "reads_free P drv table" "reply_free P"
  shows "keeps P (list_documents drv ae table name query limit offset order returned detailed)"
  unfolding list_documents_def Let_def by (intro keeps_intros assms free_notice(1) [OF assms(1)])

lemma keeps_get_service_json [keeps_intros]:
  assumes "reads_free P drv SERVICE_TABLE"
  shows "keeps P (get_service_json drv ae serv path)"
  unfolding get_service_json_def Let_def by (intro keeps_intros assms free_notice(1) [OF assms(1)])

lemma keeps_device_queries [keeps_intros]:
  assumes "reads_free P drv DEVICE_TABLE" "reply_free P"
  shows "keeps P (get_all_devices_json drv ae serv path limit offset detailed entity p)"
    and "keeps P (get_a_device_json drv ae serv path d)"
  unfolding get_all_devices_json_def get_a_device_json_def Let_def
  by (intro keeps_intros assms free_notice(1) [OF assms(1)])+

lemma keeps_service_queries [keeps_intros]:
  assumes "reads_free P drv SERVICE_TABLE" "reply_free P"
  shows "keeps P (get_all_services_json drv ae serv path limit offset detailed resource)"
  unfolding get_all_services_json_def by (intro keeps_intros assms)

lemma keeps_with_page [keeps_intros]: "(\<And>l off. keeps P (f l off)) \<Longrightarrow> keeps P (with_page q f)"
  unfolding with_page_def by (auto split: sum.split intro!: keeps_intros)

lemma keeps_answered [keeps_intros]:
  "reply_free P \<Longrightarrow> keeps P m \<Longrightarrow> keeps P (answered m)" "reply_free P \<Longrightarrow> keeps P m \<Longrightarrow> keeps P (numbered q m)"
  "reply_free P \<Longrightarrow> keeps P headers_error" "keeps P mongo_configured"
  unfolding answered_def numbered_def headers_error_def mongo_configured_def
  by (intro keeps_intros; auto split: cxx_exn.split intro!: keeps_intros)+

lemma get_requests:
  assumes "aq_method q = ''GET''"
  shows "(aq_method q = ''GET'') = True" "(aq_method q = ''POST'') = False" "(aq_method q = ''PUT'') = False" "(aq_method q = ''DELETE'') = False"
  using assms by simp_all

text \<open>A driver whose queries change nothing.\<close>

definition pure_queries :: "'s mongo_driver \<Rightarrow> bool" where
  "pure_queries drv \<longleftrightarrow>
     (\<forall>ns q l k ord fs s. snd (dr_query drv ns q l k ord fs s) = s) \<and> (\<forall>ns q s. snd (dr_count drv ns q s) = s)"

text \<open>C26: a \<open>GET\<close> request changes neither the database nor the plugins, whatever is asked and whatever goes
  wrong.\<close>

theorem queries_change_nothing:
  assumes "pure_queries drv" "aq_method q = ''GET''"
    and "m \<in> {devices drv ae q, device drv ae q, services drv ae q, service_handler drv ae q}"
    and "m st = Some (r, st')"
  shows "mg_data st' = mg_data st \<and> ag_effects st' = ag_effects st \<and> ad_manager st' = ad_manager st"
proof -
  define P where "P = (\<lambda>s :: ('a, 'b) admin_scheme. mg_data s = mg_data st \<and> ag_effects s = ag_effects st \<and> ad_manager s = ad_manager st)"
  have P: "reads_free P drv name" "reply_free P" for name
    using assms(1) by (simp_all add: P_def reads_free_def notice_free_def op_keeps_def reply_free_def pure_queries_def)
  have "keeps P (devices drv ae q)" "keeps P (device drv ae q)" "keeps P (services drv ae q)" "keeps P (service_handler drv ae q)"
    unfolding devices_def device_def services_def service_handler_def get_requests [OF assms(2)] if_True if_False
    by (intro keeps_intros P)+
  then have "keeps P m" using assms(3) by auto
  from keeps_at [OF this assms(4)] show ?thesis by (simp add: P_def)
qed


section \<open>Requests for services\<close>

lemma keeps_service_lookup [keeps_intros]:
  assumes "reads_free P drv SERVICE_TABLE" "effect_free P"
  shows "keeps P (send_registration drv env h iotagent)" and "keeps P (register_iota_manager drv env h)"
proof -
  have conf: "keeps P (update_state (\<lambda>st. st\<lparr> ag_conf := cf \<rparr>))" for cf
    by (rule keeps_update) (use assms(2) in \<open>simp add: effect_free_def\<close>)
  show *: "keeps P (send_registration drv env h iotagent)" for iotagent
    unfolding send_registration_def Let_def by (intro keeps_intros conf assms free_notice(1) [OF assms(1)])
  show "keeps P (register_iota_manager drv env h)"
    unfolding register_iota_manager_def by (intro keeps_intros *)
qed

lemma keeps_register [keeps_intros]:
  assumes "reads_free P drv SERVICE_TABLE" "effect_free P"
  shows "keeps P (admin_register_iota_manager drv ae)"
  unfolding admin_register_iota_manager_def by (intro keeps_intros assms)

lemma keeps_resource_checks [keeps_intros]: "keeps P (check_existing_resource r)" "keeps P (check_service_fields_of ae d)"
proof -
  show *: "keeps P (check_existing_resource r)" for r
    unfolding check_existing_resource_def admin_get_service_def by (intro keeps_intros)
  show "keeps P (check_service_fields_of ae d)"
    unfolding check_service_fields_of_def Let_def by (intro keeps_intros *)
qed

lemma keeps_service_changes [keeps_intros]:
  assumes "reads_free P drv SERVICE_TABLE" "writes_free P drv SERVICE_TABLE" "effect_free P" "reply_free P"
  shows "keeps P (post_service_json drv ae serv path body)"
    and "keeps P (put_service_json drv ae serv path serv_id apikey resource body)"
    and "keeps P (delete_service_json drv ae serv path serv_id apikey resource False)"
proof -
  have one: "keeps P (post_one_service drv ae serv path d)" for d
    unfolding post_one_service_def Let_def by (intro keeps_intros assms)
  show "keeps P (post_service_json drv ae serv path body)"
    unfolding post_service_json_def by (intro keeps_intros one assms)
  show "keeps P (put_service_json drv ae serv path serv_id apikey resource body)"
    unfolding put_service_json_def by (intro keeps_intros assms)
  show "keeps P (delete_service_json drv ae serv path serv_id apikey resource False)"
    unfolding delete_service_json_def Let_def by (simp only: simp_thms if_False) (intro keeps_intros assms)
qed

text \<open>What is looked at of the database does not change with queries nor with changes of other tables than
  that of the devices.\<close>

definition about_devices :: "'s mongo_driver \<Rightarrow> ('s \<Rightarrow> 'v) \<Rightarrow> bool" where
  "about_devices drv view \<longleftrightarrow>
     (\<forall>ns q l k ord fs s. view (snd (dr_query drv ns q l k ord fs s)) = view s)
     \<and> (\<forall>ns q s. view (snd (dr_count drv ns q s)) = view s)
     \<and> (\<forall>ns d s. ns \<noteq> mongo_ns drv DEVICE_TABLE \<longrightarrow> view (snd (dr_insert drv ns d s)) = view s)
     \<and> (\<forall>ns q d u s. ns \<noteq> mongo_ns drv DEVICE_TABLE \<longrightarrow> view (snd (dr_update drv ns q d u s)) = view s)
     \<and> (\<forall>ns q s. ns \<noteq> mongo_ns drv DEVICE_TABLE \<longrightarrow> view (snd (dr_remove drv ns q s)) = view s)"

lemma about_devices_free:
  assumes "about_devices drv view"
  shows "reads_free (\<lambda>st. view (mg_data st) = v) drv name"
    and "writes_free (\<lambda>st. view (mg_data st) = v) drv SERVICE_TABLE"
proof -
  have "mongo_ns drv SERVICE_TABLE \<noteq> mongo_ns drv DEVICE_TABLE"
    by (simp add: mongo_ns_def SERVICE_TABLE_def DEVICE_TABLE_def)
  then show "reads_free (\<lambda>st. view (mg_data st) = v) drv name" "writes_free (\<lambda>st. view (mg_data st) = v) drv SERVICE_TABLE"
    using assms by (simp_all add: about_devices_def reads_free_def writes_free_def notice_free_def op_keeps_def)
qed

text \<open>a request for services leaves the devices of the database as they are, unless it is a \<open>DELETE\<close>
  that asks for the devices.\<close>

theorem services_leave_the_devices:
  assumes "about_devices drv view" "aq_method q \<noteq> ''DELETE'' \<or> \<not> read_boolalpha (query_param q ''device'')"
    and "m \<in> {services drv ae q, service_handler drv ae q}" "m st = Some (r, st')"
  shows "view (mg_data st') = view (mg_data st)"
proof -
  define P where "P = (\<lambda>s :: ('a, 'c) admin_scheme. view (mg_data s) = view (mg_data st))"
  have P: "reads_free P drv name" "writes_free P drv SERVICE_TABLE" "reply_free P" "effect_free P" for name
    using about_devices_free [OF assms(1)] by (simp_all add: P_def reply_free_def effect_free_def)
  have removal: "keeps P (remove_service drv ae q serv_id after)"
    if "\<And>cd. keeps P (after cd)" "aq_method q = ''DELETE''" for serv_id after
  proof -
    have r: "read_boolalpha (query_param q ''device'') = False" using assms(2) that(2) by simp
    show ?thesis unfolding remove_service_def Let_def r by (intro keeps_intros that P)
  qed
  have "keeps P (services drv ae q)" "keeps P (service_handler drv ae q)"
    unfolding services_def service_handler_def by (intro keeps_intros P removal; assumption)+
  then have "keeps P m" using assms(3) by auto
  from keeps_at [OF this assms(4)] show ?thesis by (simp add: P_def)
qed


section \<open>Changes of devices\<close>

lemma bind_act_Inr:
  "bind_act m f st = Some (Inr y, st') \<longleftrightarrow> (\<exists>x st1. m st = Some (Inr x, st1) \<and> f x st1 = Some (Inr y, st'))"
  by (auto simp: bind_act_eq_Some)

lemma answers_only:
  "create_response cd c e st = Some (Inr cd', st') \<Longrightarrow> cd' = cd" "lift (iota_error x y z) st \<noteq> Some (Inr v, st')"
  by (auto simp: create_response_def bind_act_def update_state_def ret_def lift_def iota_error_def)


lemma for_each_stops:
  "for_each f xs st = Some (Inr ys, st1) \<Longrightarrow> f x st1 = Some (Inl e, st2) \<Longrightarrow> for_each f (xs @ x # zs) st = Some (Inl e, st2)"
proof (induction xs arbitrary: st ys)
  case Nil
  then show ?case by (auto simp: ret_def bind_act_def)
next
  case (Cons a xs)
  then obtain y st0 ys' where "f a st = Some (Inr y, st0)" "for_each f xs st0 = Some (Inr ys', st1)"
    by (auto simp: bind_act_eq_Some ret_def)
  then show ?case using Cons by (auto simp: bind_act_def)
qed

text \<open>a \<open>POST\<close> of several devices that is refused because one of them names no protocol leaves those before it
  in the database, and registered, although the answer is that of an error.\<close>

theorem refused_post_keeps_the_devices_before:
  assumes "body \<noteq> []" "get_service_json drv ae serv path st = Some (Inr found, st0)" "found \<noteq> []"
    and "validate_json_schema ae body (ae_post_device ae) = None"
    and "bs_parse (aw_bson (ae_agent ae)) body = Inr obj" "bs_array (aw_bson (ae_agent ae)) obj ''devices'' = Inr (vs @ v # ws)"
    and "for_each (post_one_device drv ae serv path body) vs st0 = Some (Inr ids, st1)"
    and "bs_embedded (aw_bson (ae_agent ae)) v = Inr bo" "bs_string (aw_bson (ae_agent ae)) bo ''protocol'' = []"
  shows "post_device_json drv ae serv path body st
    = Some (Inl (IotaException RESPONSE_MESSAGE_BAD_PROTOCOL '' [ protocol: ]'' 400), st1)"
proof -
  have "post_one_device drv ae serv path body v st1 = Some (Inl (IotaException RESPONSE_MESSAGE_BAD_PROTOCOL '' [ protocol: ]'' 400), st1)"
    unfolding post_one_device_def Let_def assms(8)
    by (simp add: assms(9) get_device_protocol_def the_plugin_def iota_error_def lift_def)
  from for_each_stops [OF assms(7) this, of ws]
  have "for_each (post_one_device drv ae serv path body) (vs @ v # ws) st0
      = Some (Inl (IotaException RESPONSE_MESSAGE_BAD_PROTOCOL '' [ protocol: ]'' 400), st1)" .
  then show ?thesis
    unfolding post_device_json_def Let_def by (simp add: bind_act_def [of "get_service_json _ _ _ _"] bind_act_def [of "for_each _ _"] assms(1-6))
qed

text \<open>What \<open>each_plugin\<close> does when every plugin gets one thing to do.\<close>

lemma each_plugin_perform:
  "each_plugin (\<lambda>r p. perform (e r)) st = Some (Inr (), st\<lparr> ag_effects := ag_effects st @ map (e \<circ> fst) (ad_manager st) \<rparr>)"
proof -
  have "for_each (\<lambda>(r, p). try_act (\<lambda>_. True) (perform (e r)) (\<lambda>_. ret ())) m st
      = Some (Inr (map (\<lambda>_. ()) m), st\<lparr> ag_effects := ag_effects st @ map (e \<circ> fst) m \<rparr>)" for m :: "(string \<times> plugin) list"
    by (induction m arbitrary: st) (auto simp: ret_def perform_def try_act_def update_state_def bind_act_def)
  then show ?thesis by (simp add: each_plugin_def bind_act_def [of "for_each _ _"] ret_def)
qed

lemma each_plugin_nothing:
  assumes "list_all (\<lambda>(r, p). f r p = ret ()) (ad_manager st)"
  shows "each_plugin f st = Some (Inr (), st)"
proof -
  have "list_all (\<lambda>(r, p). f r p = ret ()) m
      \<Longrightarrow> for_each (\<lambda>(r, p). try_act (\<lambda>_. True) (f r p) (\<lambda>_. ret ())) m st = Some (Inr (map (\<lambda>_. ()) m), st)" for m
    by (induction m) (auto simp: ret_def bind_act_def)
  then show ?thesis using assms by (simp add: each_plugin_def bind_act_def [of "for_each _ _"] ret_def)
qed

text \<open>the removal of a device never takes its registration back at the context broker.  The device that is
  given to the plugins has no protocol, which is that of no plugin, so the only thing they are told is to
  forget it.\<close>

theorem removal_never_unregisters:
  assumes "list_all (\<lambda>(r, p). rh_protocol (pl_handle p) \<noteq> []) (ad_manager st)"
    and "delete_device_json drv ae serv path d st = Some (Inr cd, st')"
  shows "ag_effects st' = ag_effects st
    @ map (\<lambda>rp. Forget_device (fst rp) ((Device_named d serv)\<lparr> service_path := path \<rparr>)) (ad_manager st)"
proof -
  define dev where "dev = (Device_named d serv)\<lparr> service_path := path \<rparr>"
  define P where "P = (\<lambda>s :: ('a, 'b) admin_scheme. ag_effects s = ag_effects st \<and> ad_manager s = ad_manager st)"
  have free: "writes_free P drv name" for name
    by (rule db_free_frees(3)) (simp add: P_def db_free_def)
  have p: "protocol dev = []" by (simp add: dev_def Device_named_def blank_device_def)
  have u: "undeploy_device drv ae dev st = Some (Inr (), st)"
    unfolding undeploy_device_def
    by (rule each_plugin_nothing) (use assms(1) p in \<open>auto simp: list_all_iff\<close>)
  obtain n st1 where rm: "mongo_remove drv DEVICE_TABLE
        (SERVICE_fields (filter (\<lambda>f. snd f \<noteq> []) [(''device_id'', d), (''service'', serv), (''service_path'', path)])) st = Some (Inr n, st1)"
    and rest: "bind_act (remove_from_cache dev) (\<lambda>_. create_response 204 [] []) st1 = Some (Inr cd, st')"
    using assms(2) unfolding delete_device_json_def Let_def dev_def [symmetric]
    by (auto simp: bind_act_eq_Some u)
  have "P st1" using keeps_at [OF keeps_mongo_remove [OF free] rm] by (simp add: P_def)
  then show ?thesis
    using rest unfolding remove_from_cache_def
    by (auto simp: bind_act_def each_plugin_perform create_response_def update_state_def ret_def P_def dev_def [symmetric] comp_def)
qed

section \<open>Pages\<close>

text \<open>a request gets a page of at most 1000 documents from an offset that is not negative, or, with the limit
  -1, none; a limit of 0 is let through, which the database takes for no limit at all.\<close>

theorem pages_are_bounded:
  assumes "page_of q = Inr (limit, offset)"
  shows "-1 \<le> limit \<and> limit \<le> LIMIT_MAX \<and> 0 \<le> offset \<and> (query_param q ''limit'' = ''0'' \<longrightarrow> limit = 0)"
proof -
  have "lexical_int ''0'' = Some 0" by code_simp
  then show ?thesis using assms
    by (auto simp: page_of_def limit_of_def offset_of_def LIMIT_MAX_def LIMIT_DEFAULT_def split: option.splits if_splits)
qed


section \<open>Commands of the protocol\<close>

lemma find_sub_prefix [simp]: "prefix pat s \<Longrightarrow> find_sub pat s = Some 0"
  by (cases s) auto

lemma joined_inner:
  assumes "CHR '']'' \<notin> set cs"
  shows "inner_commands (''{'' @ quoted ''commands'' @ '':['' @ cs @ '']}'') True = Inr (quoted ''commands'' @ '':['' @ cs)"
proof -
  define obj where "obj = ''{'' @ quoted ''commands'' @ '':['' @ cs @ '']}''"
  have a: "find_sub ''{'' obj = Some 0" by (simp add: obj_def)
  have b: "str_find obj (quoted ''commands'') 0 = Some (Suc 0)"
    by (simp add: obj_def str_find_def quoted_def)
  have "find_sub '']'' (quoted ''commands'' @ '':['' @ cs @ '']}'') = Some (12 + length cs)"
    using find_sub_char [of "CHR '']''" "quoted ''commands'' @ '':['' @ cs" "''}''"] assms by (simp add: quoted_def)
  then have c: "find_from obj '']'' (Some (Suc 0)) = Some (13 + length cs)"
    by (simp add: obj_def find_from_def str_find_def)
  have "str_substr obj (0 + 1) (size_sub (13 + length cs) (0 + 1)) = Inr (quoted ''commands'' @ '':['' @ cs)"
  proof -
    have "drop 1 obj = (quoted ''commands'' @ '':['' @ cs) @ '']}''" "length (quoted ''commands'' @ '':['' @ cs) = 12 + length cs"
      by (simp_all add: obj_def quoted_def)
    then have "take (12 + length cs) (drop 1 obj) = quoted ''commands'' @ '':['' @ cs" by (metis append_eq_conv_conj)
    then show ?thesis by (simp add: str_substr_def size_sub_def obj_def)
  qed
  then show ?thesis unfolding obj_def [symmetric] inner_commands_def by (simp only: a b c option.case prod.case if_True)
qed

text \<open>the commands of the protocol come before those of the device.  Without commands of its own the device
  gets the whole array in front of its other fields; with an array of its own the commands are put at its
  beginning with a comma, so that an empty array becomes one that ends in a comma, which is no JSON.\<close>

theorem protocol_commands_come_first:
  assumes "CHR '']'' \<notin> set cs"
    and "find_sub (quoted ''commands'') (''{'' @ fs) = None"
    and "find_sub (quoted ''commands'') (pre @ quoted ''commands'' @ '':['' @ own) = Some (length pre)"
  shows "joinCommands (''{'' @ fs) (''{'' @ quoted ''commands'' @ '':['' @ cs @ '']}'')
      = Inr (''{'' @ quoted ''commands'' @ '':['' @ cs @ ''],'' @ fs)
    \<and> joinCommands (pre @ quoted ''commands'' @ '':['' @ own) (''{'' @ quoted ''commands'' @ '':['' @ cs @ '']}'')
      = Inr (pre @ quoted ''commands'' @ '':['' @ cs @ '','' @ own)"
proof -
  define obj2 where "obj2 = ''{'' @ quoted ''commands'' @ '':['' @ cs @ '']}''"
  have has: "str_find obj2 (quoted ''commands'') 0 = Some 1" by (simp add: obj2_def str_find_def quoted_def)
  have inner: "inner_commands obj2 True = Inr (quoted ''commands'' @ '':['' @ cs)"
    unfolding obj2_def by (rule joined_inner [OF assms(1)])
  have ne: "quoted ''commands'' @ '':['' @ cs \<noteq> []" by (simp add: quoted_def)
  have first: "joinCommands (''{'' @ fs) obj2 = Inr (''{'' @ quoted ''commands'' @ '':['' @ cs @ ''],'' @ fs)"
  proof -
    have "str_find (''{'' @ fs) (quoted ''commands'') 0 = None" using assms(2) by (simp add: str_find_def)
    moreover have "str_find (''{'' @ fs) ''{'' 0 = Some 0" by (simp add: str_find_def)
    ultimately show ?thesis unfolding joinCommands_def has by (simp add: inner str_suffix_def)
  qed
  have second: "joinCommands (pre @ quoted ''commands'' @ '':['' @ own) obj2 = Inr (pre @ quoted ''commands'' @ '':['' @ cs @ '','' @ own)"
  proof -
    define obj1 where "obj1 = pre @ quoted ''commands'' @ '':['' @ own"
    have 1: "str_find obj1 (quoted ''commands'') 0 = Some (length pre)" using assms(3) by (simp add: obj1_def str_find_def)
    have "find_sub ''['' (quoted ''commands'' @ '':['' @ own) = Some 11"
      using find_sub_char [of "CHR ''[''" "quoted ''commands'' @ '':''" own] by (simp add: quoted_def)
    then have 2: "str_find obj1 ''['' (length pre) = Some (length pre + 11)" by (simp add: obj1_def str_find_def)
    show ?thesis unfolding obj1_def [symmetric] joinCommands_def has
      by (simp add: 1 2 inner ne str_suffix_def) (simp add: obj1_def quoted_def)
  qed
  show ?thesis using first second unfolding obj2_def by blast
qed

lemma protocol_commands_come_first_witness:
  "joinCommands (''{'' @ quoted ''commands'' @ '':['' @ '']}'') (''{'' @ quoted ''commands'' @ '':['' @ ''1'' @ '']}'')
    = Inr (''{'' @ quoted ''commands'' @ '':['' @ ''1'' @ '','' @ '']}'')"
proof -
  have "find_sub (quoted ''commands'') (''{'' @ ''}'') = None"
    "find_sub (quoted ''commands'') (''{'' @ quoted ''commands'' @ '':['' @ '']}'') = Some (length ''{'')"
    "CHR '']'' \<notin> set ''1''"
    by code_simp+
  from protocol_commands_come_first [OF this(3,1,2)] show ?thesis by blast
qed


section \<open>Samples\<close>

text \<open>A database that answers every query with one document, which does for a device and for a service.\<close>

definition one_document_driver :: "unit mongo_driver" where
  "one_document_driver =
     \<lparr> dr_insert = (\<lambda>ns d s. (None, s)), dr_update = (\<lambda>ns q d u s. (None, s)), dr_remove = (\<lambda>ns q s. (None, s)),
       dr_query = (\<lambda>ns q l k ord fs s. (Inr (Some [Inr [(''protocol'', JString ''P''), (''resource'', JString ''/iot/d'')]]), s)),
       dr_count = (\<lambda>ns q s. (Inr 1, s)),
       dr_command = (\<lambda>ns d s. (Inr [], s)),
       dr_create_index = (\<lambda>ns i u s. (None, s)),
       dr_drop_indexes = (\<lambda>ns s. (None, s)),
       dr_last_error = (\<lambda>s. \<lparr> le_code = 0, le_n = 1, le_ok = 1, le_err = [], le_text = [] \<rparr>),
       dr_text = (\<lambda>d. []),
       dr_endpoint = ''127.0.0.1:27017'',
       dr_database = ''iot'' \<rparr>"

definition sample_parse :: "string \<Rightarrow> doc result" where
  "sample_parse s =
     (if s = ''B'' then Inr [(''protocol'', JString ''Q'')]
      else Inr [(''devices'', JArray [JObject [(''device_id'', JString ''a''), (''protocol'', JString ''P'')], JObject []])])"

definition sample_admin_env :: admin_env where
  "sample_admin_env =
     \<lparr> ae_agent = sample_agent_env\<lparr> aw_bson := sample_bson (\<lambda>d. ''{}'') sample_parse \<rparr>,
       ae_schema = None, ae_post_device = [], ae_put_device = [], ae_post_service = [], ae_put_service = [] \<rparr>"

definition sample_plugin :: plugin where
  "sample_plugin = \<lparr> pl_handle = sample_rest_handle, pl_command = True, pl_check = (\<lambda>d. (0, [])), pl_commands = [] \<rparr>"

definition sample_admin :: "unit admin" where
  "sample_admin = \<lparr> mg_data = (), mg_alarms = [], mg_reconnects = 0, ag_effects = [],
     ag_conf = (new_Configurator None)\<lparr> cg_root := Some [(''storage'', JObject [(''type'', JString ''mongodb'')])] \<rparr>,
     ad_manager = [(''/iot/d'', sample_plugin)], ad_reply = new_reply \<rparr>"

definition get_devices_request :: admin_request where
  "get_devices_request = \<lparr> aq_method = ''GET'', aq_content = [], aq_service = ''s'', aq_service_path = [], aq_url_arg = [],
     aq_query = [(''limit'', ''0'')] \<rparr>"

definition result_of :: "('r result \<times> 't) option \<Rightarrow> ('r result \<Rightarrow> 't \<Rightarrow> bool) \<Rightarrow> bool" where
  "result_of r P = (case r of Some (x, st) \<Rightarrow> P x st | None \<Rightarrow> False)"

lemma result_ofE: "result_of r P \<Longrightarrow> (\<And>x st. r = Some (x, st) \<Longrightarrow> P x st \<Longrightarrow> thesis) \<Longrightarrow> thesis"
  by (auto simp: result_of_def split: option.splits)

lemma sample_get: "result_of (devices one_document_driver sample_admin_env get_devices_request sample_admin) (\<lambda>x st. x = Inr 200)"
  by code_simp


lemma sample_pure: "pure_queries one_document_driver"
  by (simp add: pure_queries_def one_document_driver_def)

lemma queries_change_nothing_witness:
  "result_of (devices one_document_driver sample_admin_env get_devices_request sample_admin) (\<lambda>x st. ag_effects st = [])"
proof (rule result_ofE [OF sample_get])
  fix x st
  assume h: "devices one_document_driver sample_admin_env get_devices_request sample_admin = Some (x, st)"
  have "aq_method get_devices_request = ''GET''" by (simp add: get_devices_request_def)
  from queries_change_nothing [where m = "devices one_document_driver sample_admin_env get_devices_request"
      and drv = one_document_driver and ae = sample_admin_env and q = get_devices_request, OF sample_pure this _ h] h
  show ?thesis by (simp add: result_of_def sample_admin_def)
qed

lemma pages_are_bounded_witness: "case page_of get_devices_request of Inr (l, off) \<Rightarrow> l = 0 \<and> off = 0 | Inl _ \<Rightarrow> False"
proof -
  have "page_of get_devices_request = Inr (0, 0)" "query_param get_devices_request ''limit'' = ''0''" by code_simp+
  with pages_are_bounded [OF this(1)] show ?thesis by simp
qed


text \<open>Writes that count, of which only those to the devices are looked at.\<close>

definition counting_driver :: "(nat \<times> nat) mongo_driver" where
  "counting_driver =
     (let w = (\<lambda>ns (a, b). if ns = ''iot.DEVICE'' then (a + 1, b) else (a, b + 1)) in
     \<lparr> dr_insert = (\<lambda>ns d s. (None, w ns s)), dr_update = (\<lambda>ns q d u s. (None, w ns s)), dr_remove = (\<lambda>ns q s. (None, w ns s)),
       dr_query = (\<lambda>ns q l k ord fs s. (Inr (Some []), s)),
       dr_count = (\<lambda>ns q s. (Inr 1, s)),
       dr_command = (\<lambda>ns d s. (Inr [], s)),
       dr_create_index = (\<lambda>ns i u s. (None, s)),
       dr_drop_indexes = (\<lambda>ns s. (None, s)),
       dr_last_error = (\<lambda>s. \<lparr> le_code = 0, le_n = 1, le_ok = 1, le_err = [], le_text = [] \<rparr>),
       dr_text = (\<lambda>d. []),
       dr_endpoint = ''127.0.0.1:27017'',
       dr_database = ''iot'' \<rparr>)"

lemma counting_about: "about_devices counting_driver fst"
  by (auto simp: about_devices_def counting_driver_def mongo_ns_def DEVICE_TABLE_def split: prod.split)

definition counted_admin :: "(nat \<times> nat) admin" where
  "counted_admin = \<lparr> mg_data = (0, 0), mg_alarms = [], mg_reconnects = 0, ag_effects = [], ag_conf = ag_conf sample_admin,
     ad_manager = ad_manager sample_admin, ad_reply = new_reply \<rparr>"

definition delete_service_request :: admin_request where
  "delete_service_request = \<lparr> aq_method = ''DELETE'', aq_content = [], aq_service = ''s'', aq_service_path = [], aq_url_arg = [],
     aq_query = [(''resource'', ''/iot/d'')] \<rparr>"

lemma sample_delete: "result_of (services counting_driver sample_admin_env delete_service_request counted_admin)
   (\<lambda>x st. x = Inr 204 \<and> snd (mg_data st) = 1)"
  by code_simp

lemma services_leave_the_devices_witness:
  "result_of (services counting_driver sample_admin_env delete_service_request counted_admin) (\<lambda>x st. mg_data st = (0, 1))"
proof (rule result_ofE [OF sample_delete])
  fix x st
  assume h: "services counting_driver sample_admin_env delete_service_request counted_admin = Some (x, st)"
    and one: "x = Inr 204 \<and> snd (mg_data st) = 1"
  have "\<not> read_boolalpha (query_param delete_service_request ''device'')" by code_simp
  with services_leave_the_devices [where m = "services counting_driver sample_admin_env delete_service_request"
      and drv = counting_driver and ae = sample_admin_env and q = delete_service_request, OF counting_about _ _ h]
  have "fst (mg_data st) = fst (mg_data counted_admin)" by simp
  then show ?thesis using h one by (simp add: result_of_def counted_admin_def prod_eq_iff)
qed

lemma sample_post:
  "result_of (get_service_json one_document_driver sample_admin_env ''s'' ''/'' sample_admin) (\<lambda>x st0.
     x = Inr ''{}'' \<and> result_of (for_each (post_one_device one_document_driver sample_admin_env ''s'' ''/'' ''C'')
        [JObject [(''device_id'', JString ''a''), (''protocol'', JString ''P'')]] st0) (\<lambda>y st1. y = Inr [''a''] \<and> length (ag_effects st1) = 1))"
  by code_simp

lemma refused_post_keeps_the_devices_before_witness:
  "result_of (post_device_json one_document_driver sample_admin_env ''s'' ''/'' ''C'' sample_admin)
     (\<lambda>x st. x = Inl (IotaException RESPONSE_MESSAGE_BAD_PROTOCOL '' [ protocol: ]'' 400) \<and> length (ag_effects st) = 1)"
proof (rule result_ofE [OF sample_post], elim conjE)
  fix x st0
  assume s: "get_service_json one_document_driver sample_admin_env ''s'' ''/'' sample_admin = Some (x, st0)" "x = Inr ''{}''"
    and f: "result_of (for_each (post_one_device one_document_driver sample_admin_env ''s'' ''/'' ''C'')
        [JObject [(''device_id'', JString ''a''), (''protocol'', JString ''P'')]] st0) (\<lambda>y st1. y = Inr [''a''] \<and> length (ag_effects st1) = 1)"
  show ?thesis
  proof (rule result_ofE [OF f], elim conjE)
    fix y st1
    assume p: "for_each (post_one_device one_document_driver sample_admin_env ''s'' ''/'' ''C'')
        [JObject [(''device_id'', JString ''a''), (''protocol'', JString ''P'')]] st0 = Some (y, st1)" "y = Inr [''a'']" "length (ag_effects st1) = 1"
    note found = s(1) [unfolded s(2)] and posted = p(1) [unfolded p(2)]
    have parsed: "validate_json_schema sample_admin_env ''C'' (ae_post_device sample_admin_env) = None"
      "bs_parse (aw_bson (ae_agent sample_admin_env)) ''C''
        = Inr [(''devices'', JArray [JObject [(''device_id'', JString ''a''), (''protocol'', JString ''P'')], JObject []])]"
      "bs_array (aw_bson (ae_agent sample_admin_env))
          [(''devices'', JArray [JObject [(''device_id'', JString ''a''), (''protocol'', JString ''P'')], JObject []])] ''devices''
        = Inr ([JObject [(''device_id'', JString ''a''), (''protocol'', JString ''P'')]] @ JObject [] # [])"
      "bs_embedded (aw_bson (ae_agent sample_admin_env)) (JObject []) = Inr []"
      "bs_string (aw_bson (ae_agent sample_admin_env)) [] ''protocol'' = []"
      by (simp_all add: sample_admin_env_def sample_agent_env_def sample_bson_def sample_parse_def validate_json_schema_def)
    have "post_device_json one_document_driver sample_admin_env ''s'' ''/'' ''C'' sample_admin
        = Some (Inl (IotaException RESPONSE_MESSAGE_BAD_PROTOCOL '' [ protocol: ]'' 400), st1)"
      by (rule refused_post_keeps_the_devices_before [OF _ found _ parsed(1,2,3) posted parsed(4,5)]) simp_all
    then show ?thesis using p(3) by (simp add: result_of_def)
  qed
qed

lemma sample_removal: "result_of (delete_device_json one_document_driver sample_admin_env ''s'' ''/'' ''a'' sample_admin) (\<lambda>x st. x = Inr 204)"
  by code_simp

lemma removal_never_unregisters_witness:
  "result_of (delete_device_json one_document_driver sample_admin_env ''s'' ''/'' ''a'' sample_admin) (\<lambda>x st.
     ag_effects st = [Forget_device ''/iot/d'' ((Device_named ''a'' ''s'')\<lparr> service_path := ''/'' \<rparr>)])"
proof (rule result_ofE [OF sample_removal])
  fix x st
  assume h: "delete_device_json one_document_driver sample_admin_env ''s'' ''/'' ''a'' sample_admin = Some (x, st)" "x = Inr 204"
  have "list_all (\<lambda>(r, p). rh_protocol (pl_handle p) \<noteq> []) (ad_manager sample_admin)"
    by (simp add: sample_admin_def sample_plugin_def sample_rest_handle_def)
  from removal_never_unregisters [OF this h(1) [unfolded h(2)]] show ?thesis
    using h by (simp add: result_of_def sample_admin_def)
qed

lemma sample_put: "result_of (put_device_json one_document_driver sample_admin_env ''s'' ''/'' ''a'' ''B'' [] sample_admin) (\<lambda>x st. x = Inr 204)"
  by code_simp


end
