(* ===== verification/Device_Store.thy ===== *)
theory Device_Store
  imports Rest_Service
begin

text \<open>
  Devices and commands as documents of the database (\<^verbatim>\<open>src/util/device_collection.cc\<close> and
  \<^verbatim>\<open>src/util/command_collection.cc\<close>) and the searches the caches fall back on.  A field of a record is
  written when it differs from the value that stands for nothing, so the same writer makes queries.
\<close>

section \<open>Devices\<close>

definition text_field :: "string \<Rightarrow> string \<Rightarrow> doc" where
  "text_field k v = (if v = [] then [] else [(k, JString v)])"

definition number_field :: "string \<Rightarrow> int \<Rightarrow> int \<Rightarrow> doc" where
  "number_field k none v = (if v = none then [] else [(k, JInt v)])"

definition Map2BSON :: "string \<Rightarrow> (string, string) std_map \<Rightarrow> doc" where
  "Map2BSON fieldName datamap =
     [(fieldName, JArray (map (\<lambda>(k, v). JObject [(''name'', JString k), (''type'', JString fieldName), (fieldName, JString v)]) datamap))]"

text \<open>An entry whose text is no document is left out.\<close>

definition Map2BSONAttribute :: "bson_lib \<Rightarrow> string \<Rightarrow> (string, string) std_map \<Rightarrow> string \<Rightarrow> doc" where
  "Map2BSONAttribute lib fieldName datamap key_map =
     [(fieldName, JArray (concat (map (\<lambda>(k, body).
         case bs_parse lib body of
           Inr d \<Rightarrow> [JObject (d @ [(key_map, JString k)])]
         | Inl e \<Rightarrow> []) datamap)))]"

definition device_Obj2BSON :: "bson_lib \<Rightarrow> Device \<Rightarrow> bool \<Rightarrow> doc" where
  "device_Obj2BSON lib d withShardKey =
     (if withShardKey
      then text_field ''device_id'' (dev_name d) @ text_field ''service'' (service d) @ text_field ''service_path'' (service_path d)
      else [])
     @ number_field ''activate'' INT_MIN (active d)
     @ text_field ''endpoint'' (endpoint d) @ text_field ''protocol'' (protocol d)
     @ text_field ''entity_name'' (entity_name d) @ text_field ''entity_type'' (entity_type d)
     @ text_field ''model'' (model d) @ text_field ''registration_id'' (registration_id d)
     @ number_field ''duration'' LONG_MIN (duration_cb d) @ number_field ''timestamp_data'' (-1) (timestamp_data d)
     @ text_field ''timezone'' (timezone d)
     @ (if commands d \<noteq> [] then Map2BSON ''commands'' (commands d) else [])
     @ (if attributes d \<noteq> [] then Map2BSONAttribute lib ''attributes'' (attributes d) ''object_id'' else [])
     @ (if static_attributes d \<noteq> [] then Map2BSONAttribute lib ''static_attributes'' (static_attributes d) ''name'' else [])"

text \<open>The documents among the elements of an array.\<close>

definition array_docs :: "bson_lib \<Rightarrow> doc \<Rightarrow> doc list" where
  "array_docs lib obj = List.map_filter (\<lambda>(i, v). bs_object_of lib v) obj"

definition BSON2Map :: "bson_lib \<Rightarrow> doc \<Rightarrow> (string, string) std_map" where
  "BSON2Map lib obj = fold (\<lambda>e. map_insert (bs_string lib e ''name'') (bs_string lib e ''value'')) (array_docs lib obj) []"

definition BSON2MapAttribute :: "bson_lib \<Rightarrow> doc \<Rightarrow> string \<Rightarrow> (string, string) std_map" where
  "BSON2MapAttribute lib obj key_map =
     fold (\<lambda>e. map_insert (bs_string lib e key_map) (bs_print lib e)) (array_docs lib obj) []"

definition device_BSON2Obj :: "bson_lib \<Rightarrow> doc \<Rightarrow> Device" where
  "device_BSON2Obj lib obj =
     (Device_named (bs_string lib obj ''device_id'') (bs_string lib obj ''service''))\<lparr>
       service_path := bs_string lib obj ''service_path'', entity_type := bs_string lib obj ''entity_type'',
       entity_name := bs_string lib obj ''entity_name'', protocol := bs_string lib obj ''protocol'',
       timezone := bs_string lib obj ''timezone'', endpoint := bs_string lib obj ''endpoint'',
       registration_id := bs_string lib obj ''registration_id'', duration_cb := bs_int lib obj ''duration'',
       timestamp_data := bs_long lib obj ''timestamp_data'',
       attributes := BSON2MapAttribute lib (bs_object lib obj ''attributes'') ''object_id'',
       commands := BSON2Map lib (bs_object lib obj ''commands''),
       static_attributes := BSON2MapAttribute lib (bs_object lib obj ''static_attributes'') ''name'',
       model := bs_string lib obj ''model'',
       active := (if has_field obj ''activate'' then if bs_bool lib obj ''activate'' then 1 else 0 else 1) \<rparr>"

section \<open>Commands\<close>

text \<open>\<open>put\<close> of a tree splits the key at dots.  A key that ends with a dot stands for what is before it, when
  that is there; else the library asserts.\<close>

fun put_path :: "string list \<Rightarrow> string \<Rightarrow> ptree \<Rightarrow> ptree" where
  "put_path [] v t = PTree v (pt_children t)"
| "put_path (k # ks) v t =
     PTree (pt_data t)
       (case map_of (pt_children t) k of
          None \<Rightarrow> pt_children t @ [(k, put_path ks v (PTree [] []))]
        | Some c \<Rightarrow>
            (let old = takeWhile (\<lambda>e. fst e \<noteq> k) (pt_children t)
             in old @ (k, put_path ks v c) # tl (drop (length old) (pt_children t))))"

fun has_path :: "string list \<Rightarrow> ptree \<Rightarrow> bool" where
  "has_path [] t = True"
| "has_path (k # ks) t = (case map_of (pt_children t) k of None \<Rightarrow> False | Some c \<Rightarrow> has_path ks c)"

definition key_path :: "string \<Rightarrow> string list" where
  "key_path key =
     (let parts = split_on (\<lambda>c. c = CHR ''.'') key in if last parts = [] then butlast parts else parts)"

definition put_key :: "string \<Rightarrow> string \<Rightarrow> ptree \<Rightarrow> ptree result" where
  "put_key key v t =
     (if key \<noteq> [] \<and> last key = CHR ''.'' \<and> \<not> has_path (key_path key) t then Inl (assertion_failure ''Empty path not allowed'')
      else Inr (put_path (key_path key) v t))"

fun put_keys :: "(string \<times> string) list \<Rightarrow> ptree \<Rightarrow> ptree result" where
  "put_keys [] t = Inr t"
| "put_keys ((k, v) # kvs) t = bind_exn (put_key k v t) (put_keys kvs)"

text \<open>The names of the fields, as a \<open>std::set\<close>.\<close>

definition field_names :: "doc \<Rightarrow> string list" where
  "field_names d = remdups (sort (map fst d))"

definition command_BSON2Obj :: "bson_lib \<Rightarrow> doc \<Rightarrow> Command result" where
  "command_BSON2Obj lib obj =
     (let result = (Command_entity (bs_string lib obj ''node'') (bs_string lib obj ''service'') (bs_string lib obj ''service_path''))\<lparr>
            cmd_timeout := bs_int lib obj ''timeout'', cmd_entity_type := bs_string lib obj ''entity_type'',
            cmd_responseURI := bs_string lib obj ''uri'', cmd_id := bs_string lib obj ''id'',
            cmd_name := bs_string lib obj ''name'' \<rparr>;
          body = bs_object lib obj ''value'';
          names = field_names body
      in bind_exn (put_keys (map (\<lambda>n. (n, bs_string lib body n)) names) (PTree [] [])) (\<lambda>pt.
         Inr ((if names \<noteq> [] then result\<lparr> cmd_command := pt \<rparr> else result)\<lparr>
            cmd_status := bs_int lib obj ''status'', cmd_service := bs_string lib obj ''service'',
            cmd_sequence := bs_string lib obj ''sequence'' \<rparr>)))"

definition command_Obj2BSON :: "Command \<Rightarrow> bool \<Rightarrow> doc" where
  "command_Obj2BSON c withShardKey =
     (if withShardKey then text_field ''id'' (cmd_id c) else [])
     @ text_field ''name'' (cmd_name c) @ text_field ''service'' (cmd_service c) @ text_field ''service_path'' (cmd_service_path c)
     @ text_field ''node'' (cmd_entity c) @ text_field ''entity_type'' (cmd_entity_type c)
     @ number_field ''expired'' INT_MIN (cmd_expired c) @ text_field ''sequence'' (cmd_sequence c)
     @ number_field ''status'' INT_MIN (cmd_status c) @ number_field ''timeout'' INT_MIN (cmd_timeout c)
     @ text_field ''uri'' (cmd_responseURI c)
     @ (if pt_children (cmd_command c) \<noteq> []
        then [(''value'', JObject (map (\<lambda>(k, t). (k, JString (pt_data t))) (pt_children (cmd_command c))))]
        else [])"

section \<open>The tables\<close>

definition insertd :: "'s mongo_driver \<Rightarrow> bson_lib \<Rightarrow> Device \<Rightarrow> (('s, 'z) mongo_scheme, unit) action" where
  "insertd drv lib obj = mongo_insert drv DEVICE_TABLE (device_Obj2BSON lib obj True)"

definition updated :: "'s mongo_driver \<Rightarrow> bson_lib \<Rightarrow> Device \<Rightarrow> Device \<Rightarrow> bool \<Rightarrow> (('s, 'z) mongo_scheme, int) action" where
  "updated drv lib query sett upsert =
     mongo_update drv DEVICE_TABLE (device_Obj2BSON lib query True) (device_Obj2BSON lib sett True) upsert"

definition findd :: "'s mongo_driver \<Rightarrow> bson_lib \<Rightarrow> Device \<Rightarrow> (('s, 'z) mongo_scheme, int \<times> cursor) action" where
  "findd drv lib query = mongo_find_all drv DEVICE_TABLE (device_Obj2BSON lib query True)"

definition nextd :: "'s mongo_driver \<Rightarrow> bson_lib \<Rightarrow> cursor \<Rightarrow> (('s, 'z) mongo_scheme, Device \<times> cursor) action" where
  "nextd drv lib c = bind_act (mongo_next drv c) (\<lambda>(data, c'). ret (device_BSON2Obj lib data, c'))"

definition removed :: "'s mongo_driver \<Rightarrow> bson_lib \<Rightarrow> Device \<Rightarrow> (('s, 'z) mongo_scheme, int) action" where
  "removed drv lib query = mongo_remove drv DEVICE_TABLE (device_Obj2BSON lib query True)"

definition countd :: "'s mongo_driver \<Rightarrow> bson_lib \<Rightarrow> Device \<Rightarrow> (('s, 'z) mongo_scheme, int) action" where
  "countd drv lib query = mongo_count drv DEVICE_TABLE (device_Obj2BSON lib query True)"

definition command_insert :: "'s mongo_driver \<Rightarrow> Command \<Rightarrow> (('s, 'z) mongo_scheme, unit) action" where
  "command_insert drv obj = mongo_insert drv COMMAND_TABLE (command_Obj2BSON obj True)"

definition command_find :: "'s mongo_driver \<Rightarrow> Command \<Rightarrow> (('s, 'z) mongo_scheme, int \<times> cursor) action" where
  "command_find drv query = mongo_find_all drv COMMAND_TABLE (command_Obj2BSON query True)"

definition command_next :: "'s mongo_driver \<Rightarrow> bson_lib \<Rightarrow> cursor \<Rightarrow> (('s, 'z) mongo_scheme, Command \<times> cursor) action" where
  "command_next drv lib c = bind_act (mongo_next drv c) (\<lambda>(data, c').
     bind_act (lift (command_BSON2Obj lib data)) (\<lambda>cmd. ret (cmd, c')))"

definition command_remove :: "'s mongo_driver \<Rightarrow> Command \<Rightarrow> (('s, 'z) mongo_scheme, int) action" where
  "command_remove drv query = mongo_remove drv COMMAND_TABLE (command_Obj2BSON query True)"

definition command_count :: "'s mongo_driver \<Rightarrow> Command \<Rightarrow> (('s, 'z) mongo_scheme, int) action" where
  "command_count drv query = mongo_count drv COMMAND_TABLE (command_Obj2BSON query True)"

text \<open>The first match; whatever is thrown, nothing is found.\<close>

definition get_func :: "'s mongo_driver \<Rightarrow> bson_lib \<Rightarrow> Device \<Rightarrow> (('s, 'z) mongo_scheme, Device option) action" where
  "get_func drv lib item =
     try_act (\<lambda>_. True)
       (bind_act (findd drv lib item) (\<lambda>(_, c).
        bind_act (mongo_more drv c) (\<lambda>more.
          if more then bind_act (nextd drv lib c) (\<lambda>(aux, _). ret (Some (copy_device aux))) else ret None)))
       (\<lambda>_. ret None)"

definition command_from_mongo :: "'s mongo_driver \<Rightarrow> bson_lib \<Rightarrow> Command \<Rightarrow> (('s, 'z) mongo_scheme, Command option) action" where
  "command_from_mongo drv lib item =
     try_act (\<lambda>_. True)
       (bind_act (command_find drv item) (\<lambda>(_, c).
        bind_act (mongo_more drv c) (\<lambda>more.
          if more then bind_act (command_next drv lib c) (\<lambda>(aux, _). ret (Some aux)) else ret None)))
       (\<lambda>_. ret None)"

section \<open>What comes back\<close>

lemma map_of_fields [simp]:
  "map_of (text_field k v) q = (if q = k \<and> v \<noteq> [] then Some (JString v) else None)"
  "map_of (number_field k n i) q = (if q = k \<and> i \<noteq> n then Some (JInt i) else None)"
  "map_of (Map2BSON k m) q = (if q = k then Some (JArray (map (\<lambda>(n, v). JObject [(''name'', JString n), (''type'', JString k), (k, JString v)]) m)) else None)"
  by (auto simp: text_field_def number_field_def Map2BSON_def)

lemma map_of_attributes [simp]:
  "q \<noteq> k \<Longrightarrow> map_of (Map2BSONAttribute lib k m key) q = None"
  by (simp add: Map2BSONAttribute_def)

lemma has_fields [simp]:
  "has_field (d @ e) q \<longleftrightarrow> has_field d q \<or> has_field e q"
  "has_field (text_field k v) q \<longleftrightarrow> q = k \<and> v \<noteq> []"
  "has_field (number_field k n i) q \<longleftrightarrow> q = k \<and> i \<noteq> n"
  "has_field (Map2BSON k m) q \<longleftrightarrow> q = k"
  "has_field (Map2BSONAttribute lib k m key) q \<longleftrightarrow> q = k"
  "\<not> has_field [] q"
  by (auto simp: has_field_def text_field_def number_field_def Map2BSON_def Map2BSONAttribute_def)

lemma bson_okD:
  assumes "bson_ok lib"
  shows "bs_string lib d k = (case map_of d k of Some (JString s) \<Rightarrow> c_str s | _ \<Rightarrow> [])"
    and "bs_int lib d k = (case map_of d k of Some (JInt i) \<Rightarrow> i | _ \<Rightarrow> INT_MIN)"
    and "bs_bool lib d k = (case map_of d k of Some (JBool b) \<Rightarrow> b | _ \<Rightarrow> False)"
    and "bs_long lib d k = (case map_of d k of Some (JInt i) \<Rightarrow> i | _ \<Rightarrow> 0)"
    and "map_of d k = Some (JObject e) \<Longrightarrow> bs_object lib d k = e"
    and "map_of d k = None \<Longrightarrow> bs_object lib d k = []"
    and "bs_object_of lib (JObject e) = Some e"
proof -
  note ok = assms [unfolded bson_ok_def]
  show "bs_string lib d k = (case map_of d k of Some (JString s) \<Rightarrow> c_str s | _ \<Rightarrow> [])" using ok by blast
  show "bs_int lib d k = (case map_of d k of Some (JInt i) \<Rightarrow> i | _ \<Rightarrow> INT_MIN)" unfolding INT_MIN_def using ok by blast
  show "bs_bool lib d k = (case map_of d k of Some (JBool b) \<Rightarrow> b | _ \<Rightarrow> False)" using ok by blast
  show "bs_long lib d k = (case map_of d k of Some (JInt i) \<Rightarrow> i | _ \<Rightarrow> 0)" using ok by blast
  have obj: "bs_object lib d k = (case map_of d k of
            Some (JObject e) \<Rightarrow> e
          | Some (JArray vs) \<Rightarrow> map (\<lambda>(i, v). (show_nat i, v)) (zip [0..<length vs] vs)
          | _ \<Rightarrow> [])" using ok by blast
  show "map_of d k = Some (JObject e) \<Longrightarrow> bs_object lib d k = e" using obj by simp
  show "map_of d k = None \<Longrightarrow> bs_object lib d k = []" using obj by simp
  show "bs_object_of lib (JObject e) = Some e" using ok by blast
qed

lemma array_docs_stored:
  assumes "bson_ok lib" "map_of d k = Some (JArray (map JObject es))"
  shows "array_docs lib (bs_object lib d k) = es"
proof -
  have "List.map_filter (\<lambda>(i, v). bs_object_of lib v) (map (\<lambda>(i, v). (show_nat i, v)) (zip ns (map JObject es))) = es"
    if "length ns = length es" for ns
    using that by (induction ns es rule: list_induct2) (simp_all add: List.map_filter_simps bson_okD(7)[OF assms(1)])
  then have "List.map_filter (\<lambda>(i, v). bs_object_of lib v)
      (map (\<lambda>(i, v). (show_nat i, v)) (zip [0..<length es] (map JObject es))) = es" by simp
  moreover have "bs_object lib d k = map (\<lambda>(i, v). (show_nat i, v)) (zip [0..<length es] (map JObject es))"
    using assms by (simp add: bson_ok_def)
  ultimately show ?thesis unfolding array_docs_def by simp
qed

text \<open>The text of an attribute that comes back: the document of the stored one with its key behind it.\<close>

definition stored_entry :: "bson_lib \<Rightarrow> string \<Rightarrow> string \<times> string \<Rightarrow> string \<times> string" where
  "stored_entry lib key e =
     (fst e, case bs_parse lib (snd e) of Inr d \<Rightarrow> bs_print lib (d @ [(key, JString (fst e))]) | Inl _ \<Rightarrow> [])"

definition entry_ok :: "bson_lib \<Rightarrow> string \<Rightarrow> string \<times> string \<Rightarrow> bool" where
  "entry_ok lib key e \<longleftrightarrow> nul_free (fst e)
     \<and> (case bs_parse lib (snd e) of
          Inr d \<Rightarrow> map_of d key = None \<or> map_of d key = Some (JString (fst e))
        | Inl _ \<Rightarrow> False)"

definition device_storable :: "bson_lib \<Rightarrow> Device \<Rightarrow> bool" where
  "device_storable lib d \<longleftrightarrow>
     list_all nul_free [dev_name d, protocol d, service d, service_path d, entity_type d, entity_name d, timezone d,
       endpoint d, model d, registration_id d]
     \<and> (duration_cb d = LONG_MIN \<or> int_range (duration_cb d))
     \<and> map_ok (commands d) \<and> list_all (nul_free \<circ> fst) (commands d)
     \<and> map_ok (attributes d) \<and> list_all (entry_ok lib ''object_id'') (attributes d)
     \<and> map_ok (static_attributes d) \<and> list_all (entry_ok lib ''name'') (static_attributes d)"

lemma map_ok_keys: "map fst m' = map fst m \<Longrightarrow> map_ok m' \<longleftrightarrow> map_ok m"
  by (simp add: map_ok_def)

lemma commands_stored:
  assumes "bson_ok lib" "map_ok m" "list_all (nul_free \<circ> fst) m"
    and "map_of d k = Some (JArray (map (\<lambda>(n, v). JObject [(''name'', JString n), (''type'', JString k), (k, JString v)]) m))"
    and "k \<noteq> ''name''" "k \<noteq> ''value''"
  shows "BSON2Map lib (bs_object lib d k) = map (\<lambda>e. (fst e, [])) m"
proof -
  have "array_docs lib (bs_object lib d k) = map (\<lambda>(n, v). [(''name'', JString n), (''type'', JString k), (k, JString v)]) m"
    by (rule array_docs_stored [OF assms(1)]) (simp add: assms(4) case_prod_unfold comp_def)
  then have "BSON2Map lib (bs_object lib d k) = insert_entries (map (\<lambda>e. (fst e, [])) m) []"
    using assms(3,5,6) unfolding BSON2Map_def insert_entries_def
    by (auto simp: fold_map bson_okD(1)[OF assms(1)] list_all_iff comp_def case_prod_unfold intro!: fold_cong)
  then show ?thesis
    by (simp add: insert_entries_id assms(2) comp_def map_ok_keys [of "map (\<lambda>e. (fst e, [])) m" m])
qed

lemma attributes_stored:
  assumes "bson_ok lib" "map_ok m" "list_all (entry_ok lib key) m"
    and "map_of d k = map_of (Map2BSONAttribute lib k m key) k"
  shows "BSON2MapAttribute lib (bs_object lib d k) key = map (stored_entry lib key) m"
proof -
  let ?doc = "\<lambda>e. (case bs_parse lib (snd e) of Inr d \<Rightarrow> d | Inl _ \<Rightarrow> []) @ [(key, JString (fst e))]"
  have "concat (map (\<lambda>(n, body). case bs_parse lib body of Inr d \<Rightarrow> [JObject (d @ [(key, JString n)])] | Inl e \<Rightarrow> []) m)
        = map JObject (map ?doc m)"
    using assms(3) by (induction m) (auto simp: entry_ok_def split: sum.splits)
  then have "array_docs lib (bs_object lib d k) = map ?doc m"
    by (intro array_docs_stored [OF assms(1)]) (simp add: assms(4) Map2BSONAttribute_def)
  moreover have "bs_string lib (?doc e) key = fst e" "bs_print lib (?doc e) = snd (stored_entry lib key e)" if "e \<in> set m" for e
  proof -
    from that assms(3) have "entry_ok lib key e" by (simp add: list_all_iff)
    then obtain d0 where d0: "bs_parse lib (snd e) = Inr d0" "nul_free (fst e)"
      "map_of d0 key = None \<or> map_of d0 key = Some (JString (fst e))"
      by (auto simp: entry_ok_def split: sum.splits)
    show "bs_string lib (?doc e) key = fst e" "bs_print lib (?doc e) = snd (stored_entry lib key e)"
      using d0(3) by (auto simp: d0(1,2) stored_entry_def bson_okD(1)[OF assms(1)] map_add_def)
  qed
  ultimately have "BSON2MapAttribute lib (bs_object lib d k) key = insert_entries (map (stored_entry lib key) m) []"
    unfolding BSON2MapAttribute_def insert_entries_def
    by (auto simp: fold_map comp_def case_prod_unfold stored_entry_def intro!: fold_cong)
  then show ?thesis
    by (simp add: insert_entries_id assms(2) comp_def stored_entry_def map_ok_keys [of "map (stored_entry lib key) m" m])
qed

text \<open>C28: Under the documented behaviour of the library, a device that was stored with its key comes back with
  its identity, names, protocol, time zone, endpoint, model and registration.  What changes: commands keep their
  names and lose their texts, which are written under another name than they are read; attributes come back as
  the stored document with the key appended; lazy attributes are gone; a device that was stored with any
  activation comes back inactive, and one without comes back active; a missing duration and a missing time
  stamp come back as other values than those that stand for nothing.\<close>

theorem stored_device_reads_back:
  assumes "bson_ok lib" "device_storable lib d"
  shows "device_BSON2Obj lib (device_Obj2BSON lib d True) =
    d\<lparr> commands := map (\<lambda>e. (fst e, [])) (commands d),
       attributes := map (stored_entry lib ''object_id'') (attributes d),
       static_attributes := map (stored_entry lib ''name'') (static_attributes d),
       lazy := [],
       active := (if active d = INT_MIN then 1 else 0),
       duration_cb := (if duration_cb d = LONG_MIN then INT_MIN else duration_cb d),
       timestamp_data := (if timestamp_data d = - 1 then 0 else timestamp_data d) \<rparr>"
proof -
  let ?doc = "device_Obj2BSON lib d True"
  note ok = assms(2) [unfolded device_storable_def]
  note read = bson_okD [OF assms(1)] device_Obj2BSON_def map_add_def
  have texts: "bs_string lib ?doc ''device_id'' = dev_name d" "bs_string lib ?doc ''service'' = service d"
    "bs_string lib ?doc ''service_path'' = service_path d" "bs_string lib ?doc ''entity_type'' = entity_type d"
    "bs_string lib ?doc ''entity_name'' = entity_name d" "bs_string lib ?doc ''protocol'' = protocol d"
    "bs_string lib ?doc ''timezone'' = timezone d" "bs_string lib ?doc ''endpoint'' = endpoint d"
    "bs_string lib ?doc ''registration_id'' = registration_id d" "bs_string lib ?doc ''model'' = model d"
    using ok by (simp_all add: read)
  have numbers: "bs_int lib ?doc ''duration'' = (if duration_cb d = LONG_MIN then INT_MIN else duration_cb d)"
    "bs_long lib ?doc ''timestamp_data'' = (if timestamp_data d = - 1 then 0 else timestamp_data d)"
    "\<not> bs_bool lib ?doc ''activate''" "has_field ?doc ''activate'' \<longleftrightarrow> active d \<noteq> INT_MIN"
    by (simp_all add: read)
  have cmds: "BSON2Map lib (bs_object lib ?doc ''commands'') = map (\<lambda>e. (fst e, [])) (commands d)"
  proof (cases "commands d = []")
    case True
    then show ?thesis by (simp add: read BSON2Map_def array_docs_def List.map_filter_simps)
  next
    case False
    then show ?thesis using ok by (intro commands_stored [OF assms(1)]) (simp_all add: device_Obj2BSON_def map_add_def)
  qed
  have attrs: "BSON2MapAttribute lib (bs_object lib ?doc ''attributes'') ''object_id'' = map (stored_entry lib ''object_id'') (attributes d)"
  proof (cases "attributes d = []")
    case True
    then show ?thesis by (simp add: read BSON2MapAttribute_def array_docs_def List.map_filter_simps)
  next
    case False
    then show ?thesis using ok by (intro attributes_stored [OF assms(1)]) (simp_all add: device_Obj2BSON_def map_add_def Map2BSONAttribute_def)
  qed
  have stat: "BSON2MapAttribute lib (bs_object lib ?doc ''static_attributes'') ''name'' = map (stored_entry lib ''name'') (static_attributes d)"
  proof (cases "static_attributes d = []")
    case True
    then show ?thesis by (simp add: read BSON2MapAttribute_def array_docs_def List.map_filter_simps)
  next
    case False
    then show ?thesis using ok by (intro attributes_stored [OF assms(1)]) (simp_all add: device_Obj2BSON_def map_add_def Map2BSONAttribute_def)
  qed
  show ?thesis
    unfolding device_BSON2Obj_def texts numbers cmds attrs stat
    by (simp add: numbers(3) Device_named_def blank_device_def)
qed

definition sample_stored_device :: Device where
  "sample_stored_device = (Device_named ''dev1'' ''home'')\<lparr> service_path := ''/'', entity_name := ''room'',
     commands := [(''ping'', ''%s'')], attributes := [(''t'', ''{}'')], active := 1 \<rparr>"

definition one_text_bson :: bson_lib where
  "one_text_bson = sample_bson (\<lambda>d. ''{'' @ (case d of (k, JString v) # _ \<Rightarrow> k @ '':'' @ v | _ \<Rightarrow> []) @ ''}'') (\<lambda>s. Inr [])"

theorem stored_device_reads_back_witness:
  "device_BSON2Obj one_text_bson (device_Obj2BSON one_text_bson sample_stored_device True) =
     sample_stored_device\<lparr> commands := [(''ping'', [])], attributes := [(''t'', ''{object_id:t}'')], active := 0,
       duration_cb := INT_MIN, timestamp_data := 0 \<rparr>"
proof -
  have ok: "bson_ok one_text_bson" by (simp add: one_text_bson_def sample_bson_ok)
  have st: "device_storable one_text_bson sample_stored_device"
    by (simp add: device_storable_def sample_stored_device_def Device_named_def blank_device_def nul_free_def entry_ok_def
        one_text_bson_def sample_bson_def)
  show ?thesis
    unfolding stored_device_reads_back [OF ok st]
    by (simp add: sample_stored_device_def Device_named_def blank_device_def stored_entry_def one_text_bson_def sample_bson_def
        INT_MIN_def LONG_MIN_def)
qed

subsection \<open>Commands\<close>

text \<open>A parameter under a plain name, without children of its own.\<close>

definition plain_child :: "string \<times> ptree \<Rightarrow> bool" where
  "plain_child e \<longleftrightarrow> nul_free (fst e) \<and> fst e \<noteq> [] \<and> CHR ''.'' \<notin> set (fst e)
     \<and> pt_children (snd e) = [] \<and> nul_free (pt_data (snd e))"

definition command_storable :: "Command \<Rightarrow> bool" where
  "command_storable c \<longleftrightarrow>
     list_all nul_free [cmd_id c, cmd_name c, cmd_service c, cmd_service_path c, cmd_entity c, cmd_entity_type c,
       cmd_sequence c, cmd_responseURI c]
     \<and> int_range (cmd_timeout c) \<and> int_range (cmd_status c)
     \<and> pt_data (cmd_command c) = [] \<and> distinct (map fst (pt_children (cmd_command c)))
     \<and> list_all plain_child (pt_children (cmd_command c))"

lemma key_path_plain:
  assumes "k \<noteq> []" "CHR ''.'' \<notin> set k"
  shows "key_path k = [k]" "last k \<noteq> CHR ''.''"
proof -
  have "split_on (\<lambda>c. c = CHR ''.'') k = [k]" if "CHR ''.'' \<notin> set k" for k
    using that by (induction k) auto
  with assms show "key_path k = [k]" by (simp add: key_path_def)
  show "last k \<noteq> CHR ''.''" using assms by (metis last_in_set)
qed

lemma put_keys_plain:
  assumes "distinct (map fst kvs)" "\<forall>k \<in> fst ` set kvs. k \<noteq> [] \<and> CHR ''.'' \<notin> set k \<and> k \<notin> fst ` set cs"
  shows "put_keys kvs (PTree d cs) = Inr (PTree d (cs @ map (\<lambda>(k, v). (k, PTree v [])) kvs))"
  using assms
proof (induction kvs arbitrary: cs)
  case (Cons e kvs)
  obtain k v where e: "e = (k, v)" by (cases e)
  have plain: "k \<noteq> []" "CHR ''.'' \<notin> set k" "k \<notin> fst ` set cs" using Cons.prems(2) by (auto simp: e)
  then have "map_of cs k = None" by (simp add: map_of_eq_None_iff)
  then have step: "put_key k v (PTree d cs) = Inr (PTree d (cs @ [(k, PTree v [])]))"
    by (simp add: put_key_def key_path_plain[OF plain(1,2)])
  have "put_keys kvs (PTree d (cs @ [(k, PTree v [])])) = Inr (PTree d ((cs @ [(k, PTree v [])]) @ map (\<lambda>(k, v). (k, PTree v [])) kvs))"
    using Cons.prems by (intro Cons.IH) (auto simp: e)
  then show ?case by (simp add: e step)
qed simp

lemma field_names_distinct:
  assumes "distinct (map fst ch)" "map fst d = map fst ch"
  shows "field_names d = map fst (sort_key fst ch)"
proof -
  have "mset (map fst (sort_key fst ch)) = mset (map fst ch)" by (simp only: mset_map mset_sort)
  then have "sort (map fst ch) = map fst (sort_key fst ch)" by (rule properties_for_sort) simp
  moreover have "distinct (map fst (sort_key fst ch))" using assms by (simp add: distinct_map)
  ultimately show ?thesis by (simp add: field_names_def distinct_remdups_id assms(2))
qed

lemma parameters_stored:
  assumes "bson_ok lib" "distinct (map fst ch)" "list_all plain_child ch"
  defines "body \<equiv> map (\<lambda>(k, t). (k, JString (pt_data t))) ch"
  shows "put_keys (map (\<lambda>n. (n, bs_string lib body n)) (field_names body)) (PTree [] []) = Inr (PTree [] (sort_key fst ch))"
    and "field_names body = [] \<longleftrightarrow> ch = []"
proof -
  have fst_body: "map fst body = map fst ch" by (simp add: body_def case_prod_unfold)
  have names: "field_names body = map fst (sort_key fst ch)"
    by (rule field_names_distinct [OF assms(2) fst_body])
  show "field_names body = [] \<longleftrightarrow> ch = []" unfolding names by (metis length_0_conv length_map length_sort)
  have val: "bs_string lib body (fst e) = pt_data (snd e)" if "e \<in> set ch" for e
  proof -
    have "map_of body (fst e) = Some (JString (pt_data (snd e)))"
      using that assms(2) by (intro map_of_is_SomeI) (auto simp: body_def case_prod_unfold comp_def)
    then show ?thesis using that assms(3) by (auto simp: bson_okD(1)[OF assms(1)] list_all_iff plain_child_def)
  qed
  have kvs: "map (\<lambda>n. (n, bs_string lib body n)) (field_names body) = map (\<lambda>e. (fst e, pt_data (snd e))) (sort_key fst ch)"
    by (auto simp: names val)
  have "put_keys (map (\<lambda>e. (fst e, pt_data (snd e))) (sort_key fst ch)) (PTree [] [])
        = Inr (PTree [] ([] @ map (\<lambda>(k, v). (k, PTree v [])) (map (\<lambda>e. (fst e, pt_data (snd e))) (sort_key fst ch))))"
    using assms(2,3) by (intro put_keys_plain) (auto simp: comp_def list_all_iff plain_child_def distinct_map)
  moreover have "map (\<lambda>(k, v). (k, PTree v [])) (map (\<lambda>e. (fst e, pt_data (snd e))) (sort_key fst ch)) = sort_key fst ch"
  proof -
    have "PTree (pt_data (snd e)) [] = snd e" if "e \<in> set ch" for e
      using that assms(3) by (cases "snd e") (auto simp: list_all_iff plain_child_def)
    then have "map (\<lambda>e. (fst e, PTree (pt_data (snd e)) [])) (sort_key fst ch) = sort_key fst ch"
      by (intro map_idI) (simp add: prod_eq_iff)
    then show ?thesis by (simp add: comp_def)
  qed
  ultimately show "put_keys (map (\<lambda>n. (n, bs_string lib body n)) (field_names body)) (PTree [] []) = Inr (PTree [] (sort_key fst ch))"
    unfolding kvs by simp
qed

text \<open>C29: A command whose parameters have plain names comes back from the database as it was stored, its parameters
  in the order of their names; only whether it has expired is not read back.\<close>

theorem stored_command_reads_back:
  assumes "bson_ok lib" "command_storable c"
  shows "command_BSON2Obj lib (command_Obj2BSON c True) =
    Inr (c\<lparr> cmd_expired := INT_MIN, cmd_command := PTree [] (sort_key fst (pt_children (cmd_command c))) \<rparr>)"
proof -
  let ?doc = "command_Obj2BSON c True" and ?ch = "pt_children (cmd_command c)"
  note ok = assms(2) [unfolded command_storable_def]
  note read = bson_okD [OF assms(1)] command_Obj2BSON_def map_add_def
  have texts: "bs_string lib ?doc ''node'' = cmd_entity c" "bs_string lib ?doc ''service'' = cmd_service c"
    "bs_string lib ?doc ''service_path'' = cmd_service_path c" "bs_string lib ?doc ''entity_type'' = cmd_entity_type c"
    "bs_string lib ?doc ''uri'' = cmd_responseURI c" "bs_string lib ?doc ''id'' = cmd_id c"
    "bs_string lib ?doc ''name'' = cmd_name c" "bs_string lib ?doc ''sequence'' = cmd_sequence c"
    using ok by (simp_all add: read)
  have numbers: "bs_int lib ?doc ''timeout'' = cmd_timeout c" "bs_int lib ?doc ''status'' = cmd_status c"
    by (simp_all add: read)
  have body: "bs_object lib ?doc ''value'' = map (\<lambda>(k, t). (k, JString (pt_data t))) ?ch"
    by (cases "?ch = []") (simp_all add: read)
  have ch: "distinct (map fst ?ch)" "list_all plain_child ?ch" using ok by simp_all
  note params = parameters_stored [OF assms(1) ch]
  show ?thesis
    unfolding command_BSON2Obj_def texts numbers body Let_def params(1) params(2) bind_exn_simps
    using ok by (simp add: Command_entity_def blank_command_def CMD_INT_MIN_def INT_MIN_def)
qed

definition sample_stored_command :: Command where
  "sample_stored_command = (Command_new ''c1'' ''home'' ''/'' ''s1'' ''room'' ''http://dev'' (PTree [] [(''b'', PTree ''1'' []), (''a'', PTree ''2'' [])]))
     \<lparr> cmd_name := ''ping'', cmd_timeout := 10, cmd_status := 2, cmd_expired := 0 \<rparr>"

theorem stored_command_reads_back_witness:
  "command_BSON2Obj one_text_bson (command_Obj2BSON sample_stored_command True) =
     Inr (sample_stored_command\<lparr> cmd_expired := INT_MIN, cmd_command := PTree [] [(''a'', PTree ''2'' []), (''b'', PTree ''1'' [])] \<rparr>)"
proof -
  have ok: "bson_ok one_text_bson" by (simp add: one_text_bson_def sample_bson_ok)
  have st: "command_storable sample_stored_command"
    by (simp add: command_storable_def sample_stored_command_def Command_new_def blank_command_def nul_free_def plain_child_def int_range_def)
  show ?thesis
    unfolding stored_command_reads_back [OF ok st] by (simp add: sample_stored_command_def Command_new_def blank_command_def)
qed

end
