(* ===== verification/Device_File.thy ===== *)
theory Device_File
  imports Riot_Conf Command_Handle
begin

text \<open>
  The file of devices (\<^verbatim>\<open>src/util/dev_file.cc\<close>): reading it, and filling the cache of a handler from it when
  the storage is not a database.
\<close>

section \<open>The file\<close>

record DevicesFile =
  df_filename :: string
  df_document :: json
  df_error :: string

definition new_DevicesFile :: DevicesFile where
  "new_DevicesFile = \<lparr> df_filename = [], df_document = JNull, df_error = ''error, no config file was initializated'' \<rparr>"

text \<open>A document that cannot be parsed is null.\<close>

definition devices_read_file :: "conf_env \<Rightarrow> string \<Rightarrow> DevicesFile \<Rightarrow> DevicesFile" where
  "devices_read_file env s f =
     (case jl_parse (ce_json env) (c_str s) of
        Inl e \<Rightarrow> f\<lparr> df_document := JNull, df_error := ''DevicesFile: '' @ e @ ''['' @ ce_offset env (c_str s) @ '']'' \<rparr>
      | Inr d \<Rightarrow> f\<lparr> df_document := d, df_error := [] \<rparr>)"

definition devices_init :: "conf_env \<Rightarrow> (string \<Rightarrow> string option) \<Rightarrow> DevicesFile \<Rightarrow> DevicesFile result" where
  "devices_init env disk f =
     (case disk (df_filename f) of
        Some s \<Rightarrow> Inr (devices_read_file env s f)
      | None \<Rightarrow> Inl (IotaException (RESPONSE_MESSAGE_INVALID_PARAMETER @ '' ['' @ df_filename f @ '']'')
                     (''File does not exists: '' @ c_str (df_filename f)) 500))"

definition devices_initialize :: "conf_env \<Rightarrow> (string \<Rightarrow> string option) \<Rightarrow> string \<Rightarrow> DevicesFile \<Rightarrow> DevicesFile result" where
  "devices_initialize env disk filename f = devices_init env disk (f\<lparr> df_filename := filename \<rparr>)"

text \<open>Control reaches the end of \<open>getDevicesObject\<close> without a value when the document has no devices.\<close>

definition getDevicesObject :: "DevicesFile \<Rightarrow> json result" where
  "getDevicesObject f =
     (case df_document f of
        JObject ms \<Rightarrow> (case map_of ms ''devices'' of Some v \<Rightarrow> Inr v | None \<Rightarrow> Inl (undefined_behaviour ''getDevicesObject''))
      | _ \<Rightarrow> Inl (undefined_behaviour ''getDevicesObject''))"

section \<open>A device of the file\<close>

definition file_value :: "json_lib \<Rightarrow> json \<Rightarrow> string \<Rightarrow> string result" where
  "file_value lib j name = bind_exn (member j name) (get_value_from_rapidjson lib)"

definition file_text :: "json_lib \<Rightarrow> json \<Rightarrow> string \<Rightarrow> string result" where
  "file_text lib j name = bind_exn (HasMember j name) (\<lambda>h. if h then file_value lib j name else Inr [])"

text \<open>An array of entries with a name and a text; the first entry of a name stays.\<close>

definition file_entries :: "(json \<Rightarrow> (string \<times> string) result) \<Rightarrow> json \<Rightarrow> string \<Rightarrow> (string, string) std_map result" where
  "file_entries entry j name =
     bind_exn (HasMember j name) (\<lambda>h.
       if h then bind_exn (bind_exn (member j name) elements) (\<lambda>vs.
            bind_exn (map_exn entry vs) (\<lambda>es. Inr (insert_entries es [])))
       else Inr [])"

definition file_command :: "json_lib \<Rightarrow> json \<Rightarrow> (string \<times> string) result" where
  "file_command lib c =
     bind_exn (file_value lib c ''name'') (\<lambda>attr_name.
     bind_exn (file_value lib c ''value'') (\<lambda>attr_cmd. Inr (attr_name, attr_cmd)))"

text \<open>The text of an attribute: with a type and no name it ends with a comma, and nothing is escaped.\<close>

definition attribute_json :: "string \<Rightarrow> string \<Rightarrow> string" where
  "attribute_json attr_type attr_attr =
     ''{'' @ (if attr_type \<noteq> [] then quoted ''type'' @ '':'' @ quoted attr_type @ '','' else [])
     @ (if attr_attr \<noteq> [] then quoted ''name'' @ '':'' @ quoted attr_attr else []) @ ''}''"

definition file_attribute :: "json_lib \<Rightarrow> json \<Rightarrow> (string \<times> string) result" where
  "file_attribute lib a =
     bind_exn (file_text lib a ''object_id'') (\<lambda>attr_name.
     bind_exn (file_text lib a ''name'') (\<lambda>attr_attr.
     bind_exn (file_text lib a ''type'') (\<lambda>attr_type. Inr (attr_name, attribute_json attr_type attr_attr))))"

definition file_static :: "json_lib \<Rightarrow> json \<Rightarrow> (string \<times> string) result" where
  "file_static lib a =
     bind_exn (file_value lib a ''name'') (\<lambda>attr_name. Inr (attr_name, c_str (jl_print lib (events_of a))))"

definition file_device :: "json_lib \<Rightarrow> json \<Rightarrow> Device result" where
  "file_device lib j =
     bind_exn (file_value lib j ''device_id'') (\<lambda>dev_id.
     bind_exn (file_text lib j ''entity_type'') (\<lambda>type.
     bind_exn (file_text lib j ''endpoint'') (\<lambda>endp.
     bind_exn (file_text lib j ''timezone'') (\<lambda>zone.
     bind_exn (file_text lib j ''entity_name'') (\<lambda>entity.
     bind_exn (file_text lib j ''service'') (\<lambda>serv.
     bind_exn (file_text lib j ''service_path'') (\<lambda>path.
     bind_exn (file_text lib j ''status'') (\<lambda>status.
     bind_exn (file_entries (file_command lib) j ''commands'') (\<lambda>cmds.
     bind_exn (file_entries (file_attribute lib) j ''attributes'') (\<lambda>attrs.
     bind_exn (file_entries (file_static lib) j ''static_attributes'') (\<lambda>statics.
       Inr ((Device_entity entity type serv)\<lparr> dev_name := dev_id, timezone := zone, endpoint := endp,
          service_path := (if path = [] then FIWARE_SERVICEPATH_DEFAULT else path),
          active := (if status = ''inactive'' then 0 else 1), commands := cmds, attributes := attrs,
          static_attributes := statics \<rparr>))))))))))))"

section \<open>Filling the cache\<close>

text \<open>The first device that cannot be read ends the loop; those before it stay in the cache.\<close>

fun fill_cache :: "json_lib \<Rightarrow> Device finder \<Rightarrow> json list \<Rightarrow> cache \<Rightarrow> cxx_exn option \<times> cache" where
  "fill_cache lib fnd [] c = (None, c)"
| "fill_cache lib fnd (j # js) c =
     (case file_device lib j of
        Inl e \<Rightarrow> (Some e, c)
      | Inr d \<Rightarrow> fill_cache lib fnd js (cache_insert fnd d c))"

definition parse_to_cache :: "json_lib \<Rightarrow> Device finder \<Rightarrow> DevicesFile \<Rightarrow> cache \<Rightarrow> cache result" where
  "parse_to_cache lib fnd f c =
     (case df_document f of
        JObject ms \<Rightarrow>
          (case map_of ms ''devices'' of
             Some (JArray devs) \<Rightarrow>
               (case fill_cache lib fnd devs c of
                  (Some e, c') \<Rightarrow> if catchable e then Inr c' else Inl e
                | (None, c') \<Rightarrow> Inr c')
           | _ \<Rightarrow> Inr c)
      | _ \<Rightarrow> Inr c)"

section \<open>What the cache holds\<close>

text \<open>The devices before the first one that cannot be read.\<close>

definition readable :: "json_lib \<Rightarrow> json list \<Rightarrow> Device list" where
  "readable lib js = map projr (takeWhile (\<lambda>r. \<not> isl r) (map (file_device lib) js))"

definition dev_key :: "Device \<Rightarrow> string \<times> string" where
  "dev_key d = (dev_name d, service d)"

lemma cache_insert_new:
  assumes "find_ok dev_hash_key dev_eq fnd" "\<not> lru c" "dev_key d \<notin> dev_key ` set (items c)" "length (items c) \<le> max_num_items c"
  shows "items (cache_insert fnd d c) = take (max_num_items c) (items c @ [d])"
    and "lru (cache_insert fnd d c) = lru c" "max_num_items (cache_insert fnd d c) = max_num_items c"
proof -
  have "fnd d (items c) = None"
  proof (rule ccontr)
    assume "fnd d (items c) \<noteq> None"
    then obtain x where x: "x \<in> set (items c)" "dev_eq x d" using find_ok_Some [OF assms(1)] by blast
    then have "dev_key d = dev_key x" by (simp add: dev_eq_def dev_key_def)
    with x(1) assms(3) show False by (metis imageI)
  qed
  then show "items (cache_insert fnd d c) = take (max_num_items c) (items c @ [d])"
    "lru (cache_insert fnd d c) = lru c" "max_num_items (cache_insert fnd d c) = max_num_items c"
    using assms(2,4) by (auto simp: cache_insert_def push_back_def start_timer_def Let_def)
qed

lemma fill_cache_items:
  assumes "find_ok dev_hash_key dev_eq fnd" "\<not> lru c" "length (items c) \<le> max_num_items c"
    and "distinct (map dev_key (items c @ readable lib js))"
  shows "items (snd (fill_cache lib fnd js c)) = take (max_num_items c) (items c @ readable lib js)"
  using assms(2-)
proof (induction js arbitrary: c)
  case (Cons j js)
  show ?case
  proof (cases "file_device lib j")
    case (Inr d)
    let ?c = "cache_insert fnd d c"
    have ds: "readable lib (j # js) = d # readable lib js" by (simp add: readable_def Inr)
    have new: "dev_key d \<notin> dev_key ` set (items c)" using Cons.prems(3) by (auto simp: ds)
    note ins = cache_insert_new [OF assms(1) Cons.prems(1) new Cons.prems(2)]
    have "distinct (map dev_key (items ?c @ readable lib js))"
    proof -
      have keys: "map dev_key (items ?c) = take (max_num_items c) (map dev_key (items c @ [d]))" unfolding ins(1) by (rule take_map[symmetric])
      have all: "distinct (map dev_key (items c @ [d]))" "distinct (map dev_key (readable lib js))"
        "set (map dev_key (items c @ [d])) \<inter> set (map dev_key (readable lib js)) = {}"
        using Cons.prems(3) by (auto simp: ds)
      have "set (map dev_key (items ?c)) \<subseteq> set (map dev_key (items c @ [d]))" unfolding keys by (rule set_take_subset)
      then have "set (map dev_key (items ?c)) \<inter> set (map dev_key (readable lib js)) = {}" using all(3) by blast
      moreover have "distinct (map dev_key (items ?c))" unfolding keys by (rule distinct_take [OF all(1)])
      ultimately show ?thesis using all(2) unfolding map_append distinct_append by blast
    qed
    then have "items (snd (fill_cache lib fnd js ?c)) = take (max_num_items c) (items ?c @ readable lib js)"
      using Cons.prems(1) by (subst Cons.IH) (auto simp: ins)
    moreover have "take n (take n (xs @ [d]) @ ys) = take n (xs @ d # ys)" for n and xs ys :: "Device list"
      by (cases "n \<le> length xs") (simp_all add: take_Cons' not_le)
    ultimately show ?thesis by (simp add: Inr ds ins(1))
  qed (use Cons.prems in \<open>simp add: readable_def\<close>)
qed (simp add: readable_def)

text \<open>C30: When the cache is filled from the file, it holds the devices of the file in their order up to its capacity
  and up to the first device that cannot be read; that one and those behind it are ignored without an error.\<close>

theorem file_devices_are_cached:
  assumes "find_ok dev_hash_key dev_eq fnd" "distinct (map dev_key (readable lib js))"
    and "df_document f = JObject ms" "map_of ms ''devices'' = Some (JArray js)"
    and "parse_to_cache lib fnd f (new_cache capacity False 0) = Inr c"
  shows "items c = take capacity (readable lib js)"
proof -
  have "c = snd (fill_cache lib fnd js (new_cache capacity False 0))"
    using assms(3-5) by (auto simp: parse_to_cache_def split: prod.splits option.splits if_splits)
  then show ?thesis
    using fill_cache_items [OF assms(1), of "new_cache capacity False 0" lib js] assms(2) by (simp add: new_cache_def)
qed

definition sample_device_json :: "string \<Rightarrow> json" where
  "sample_device_json name = JObject [(''device_id'', JString name), (''service'', JString ''home'')]"

definition sample_devices_file :: DevicesFile where
  "sample_devices_file = new_DevicesFile\<lparr> df_document :=
     JObject [(''devices'', JArray [sample_device_json ''a'', sample_device_json ''b'', JObject [], sample_device_json ''c''])] \<rparr>"

theorem file_devices_are_cached_witness:
  "\<exists>lib c. parse_to_cache lib (scan dev_key) sample_devices_file (new_cache 1 False 0) = Inr c
     \<and> map dev_name (items c) = [''a'']"
proof -
  define lib where "lib = \<lparr> jl_parse = \<lambda>s. Inl s, jl_print = \<lambda>e. [], jl_number = \<lambda>j. [], jl_stream = \<lambda>j. [] \<rparr>"
  let ?js = "[sample_device_json ''a'', sample_device_json ''b'', JObject [], sample_device_json ''c'']"
  let ?dev = "\<lambda>n. (Device_entity [] [] ''home'')\<lparr> dev_name := n, service_path := FIWARE_SERVICEPATH_DEFAULT, active := 1 \<rparr>"
  have fnd: "find_ok dev_hash_key dev_eq (scan dev_key)"
    by (auto simp: find_ok_def scan_def dev_key_def dev_eq_def find_None_iff find_Some_iff dev_hash_key_def split: option.split)
  have dev: "file_device lib (sample_device_json n) = Inr (?dev n)" if "c_str n = n" for n
    using that by (simp add: file_device_def sample_device_json_def file_value_def file_text_def file_entries_def member_def
        HasMember_def FindMember_def get_value_from_rapidjson_def c_str_def Device_entity_def blank_device_def)
  have bad: "\<exists>w. file_device lib (JObject []) = Inl (IotaException RESPONSE_MESSAGE_INVALID_PARAMETER w 400)"
    by (simp add: file_device_def file_value_def member_def FindMember_def get_value_from_rapidjson_def)
  have js: "readable lib ?js = [?dev ''a'', ?dev ''b'']"
    using bad by (auto simp: readable_def dev c_str_def)
  obtain c where c: "parse_to_cache lib (scan dev_key) sample_devices_file (new_cache 1 False 0) = Inr c"
    using bad by (auto simp: parse_to_cache_def sample_devices_file_def new_DevicesFile_def dev c_str_def catchable_def)
  have "items c = take 1 (readable lib ?js)"
    by (rule file_devices_are_cached [OF fnd _ _ _ c, of ?js "[(''devices'', JArray ?js)]"])
      (simp_all add: js dev_key_def sample_devices_file_def)
  then have "map dev_name (items c) = [''a'']" by (simp add: js)
  then show ?thesis by (intro exI [of _ lib] exI [of _ c] conjI c)
qed

end
