(* ===== verification/Registration.thy ===== *)
theory Registration
  imports Device_Store Device_File
begin

text \<open>
  Registering the commands of devices with the context broker (\<^verbatim>\<open>src/rest/command_handle.cc\<close>, with
  \<open>send_optional_registration\<close> of \<^verbatim>\<open>src/ultra_light/ul20_service.cc\<close>): the message of a registration, the round
  over all devices of the database or of the file, the registration of one device after its provision, its
  withdrawal, and the timer of the next round, which is what the broker answered last.
\<close>

section \<open>State and environment\<close>

text \<open>\<open>rg_device\<close> is the object of the caller that \<open>send_register_device\<close> has a reference to; \<open>rg_updates\<close> are the
  messages handed to the asynchronous sender.\<close>

record 's registrar = "'s agent" +
  rg_devices :: cache
  rg_timeout :: int
  rg_services :: "string list"
  rg_sent :: "cb_effect list"
  rg_updates :: "(string \<times> UpdateContext) list"
  rg_device :: Device

record reg_env =
  re_agent :: agent_env
  re_cb :: cb_env
  re_conf :: conf_env
  re_json :: json_lib
  re_now :: string
  re_handle :: rest_handle
  re_app :: string
  re_find :: "Device finder"
  re_file :: DevicesFile

section \<open>Messages\<close>

definition UNKOWN_PROVIDING_APP :: string where
  "UNKOWN_PROVIDING_APP = ''unkown''"

definition operation_url :: "Configurator \<Rightarrow> string \<Rightarrow> string result" where
  "operation_url cf operation =
     or_default (''/NGSI10/'' @ operation)
       (bind_exn (conf_get ''ngsi_url'' cf) (\<lambda>ngsi_url.
        bind_exn (HasMember ngsi_url operation) (\<lambda>h.
          if h then member_string ngsi_url operation else Inr (''/NGSI10/'' @ operation))))"

definition broker_url :: "Configurator \<Rightarrow> string \<Rightarrow> ptree \<Rightarrow> string result" where
  "broker_url cf operation pt =
     (let cbrokerSTR = pt_get pt ''cbroker'' [] in
      if cbrokerSTR \<noteq> [] then bind_exn (operation_url cf operation) (\<lambda>u. Inr (cbrokerSTR @ u)) else Inr [])"

definition register_text :: "reg_env \<Rightarrow> RegisterContext \<Rightarrow> string" where
  "register_text env r = c_str (jl_print (re_json env) (Serialize_register_context r))"

definition broker_send :: "reg_env \<Rightarrow> string \<Rightarrow> string \<Rightarrow> ptree \<Rightarrow> (('s, 'z) registrar_scheme, string) action" where
  "broker_send env url content pt =
     bind_act (lift (cb_send (re_cb env) url content pt 200)) (\<lambda>(text, eff).
     bind_act (update_state (\<lambda>st. st\<lparr> rg_sent := rg_sent st @ eff \<rparr>)) (\<lambda>_. ret text))"

text \<open>A registration that is known is first cut short to a second, then a new one is made.\<close>

definition send_register ::
  "reg_env \<Rightarrow> ContextRegistration list \<Rightarrow> ptree \<Rightarrow> string \<Rightarrow> (('s, 'z) registrar_scheme, string \<times> ptree) action" where
  "send_register env context_registrations pt_cb regId =
     bind_act get_state (\<lambda>st.
     bind_act (lift (broker_url (ag_conf st) ''registerContext'' pt_cb)) (\<lambda>cb_url.
       let pt = pt_put ''Accept'' CONTENT_TYPE_JSON pt_cb;
           reg = \<lparr> rc_registrations = context_registrations, rc_duration = ''PT1S'', rc_registrationId = regId \<rparr>
       in bind_act (if regId \<noteq> [] then broker_send env cb_url (register_text env reg) pt else ret []) (\<lambda>_.
          bind_act (broker_send env cb_url (register_text env (reg\<lparr> rc_duration := [], rc_registrationId := [] \<rparr>)) pt) (\<lambda>cb_response.
          ret (cb_response, pt)))))"

definition send_unregister :: "reg_env \<Rightarrow> ptree \<Rightarrow> Device \<Rightarrow> string \<Rightarrow> (('s, 'z) registrar_scheme, ptree) action" where
  "send_unregister env pt_cb dev regId =
     bind_act get_state (\<lambda>st.
     bind_act (lift (broker_url (ag_conf st) ''registerContext'' pt_cb)) (\<lambda>cb_url.
       let service_type = pt_get pt_cb ''entity_type'' [];
           entity = \<lparr> en_id = get_real_name dev service_type, en_type = (if service_type \<noteq> [] then service_type else ''thing''),
                      en_is_pattern = ''false'' \<rparr>;
           pt = pt_put ''Accept'' CONTENT_TYPE_JSON pt_cb
       in if re_app env = UNKOWN_PROVIDING_APP then ret pt
          else bind_act (broker_send env cb_url (register_text env
                 \<lparr> rc_registrations = [\<lparr> cr_entities = [entity], cr_attributes = [], cr_provider = re_app env \<rparr>],
                   rc_duration = ''PT1S'', rc_registrationId = regId \<rparr>) pt) (\<lambda>_. ret pt)))"

section \<open>One device\<close>

definition command_attribute :: "string \<times> string \<Rightarrow> AttributeRegister" where
  "command_attribute p =
     \<lparr> ar_name = fst p, ar_type = (if snd p \<noteq> ''status'' \<and> snd p \<noteq> ''info'' then ''command'' else snd p), ar_is_domain = ''false'' \<rparr>"

text \<open>The registration of a device, and the device with the entity it is registered under.\<close>

definition device_registration ::
  "reg_env \<Rightarrow> ptree \<Rightarrow> Device \<Rightarrow> (string, string) std_map \<Rightarrow> ContextRegistration \<times> Device" where
  "device_registration env service_ptree item_dev cmds =
     (case registration_set_env_info service_ptree (Some item_dev) \<lparr> cr_entities = [], cr_attributes = [], cr_provider = [] \<rparr> of
        (cr, dev) \<Rightarrow> (cr\<lparr> cr_provider := re_app env, cr_attributes := map command_attribute cmds \<rparr>,
                       case dev of Some d \<Rightarrow> d | None \<Rightarrow> item_dev))"

text \<open>Sending it; an answer that is not that of a registration throws.\<close>

definition answered_registration ::
  "reg_env \<Rightarrow> ContextRegistration \<Rightarrow> ptree \<Rightarrow> string \<Rightarrow> (('s, 'z) registrar_scheme, RegisterResponse) action" where
  "answered_registration env cr service_ptree reg_id =
     bind_act (send_register env [cr] service_ptree reg_id) (\<lambda>(cb_response, _).
     lift (RegisterResponse_text (re_json env) cb_response))"

definition set_reg_timeout :: "string \<Rightarrow> (('s, 'z) registrar_scheme, unit) action" where
  "set_reg_timeout reg_time =
     bind_act (lift (get_duration_seconds reg_time)) (\<lambda>secs. update_state (\<lambda>st. st\<lparr> rg_timeout := secs \<rparr>))"

text \<open>What is written to the database: every device with the name in the service, whatever its path.\<close>

definition store_registration ::
  "'s mongo_driver \<Rightarrow> reg_env \<Rightarrow> string \<Rightarrow> string \<Rightarrow> string \<Rightarrow> (('s, 'z) registrar_scheme, unit) action" where
  "store_registration drv env name serv reg_id =
     bind_act get_state (\<lambda>st.
     bind_act (updated drv (aw_bson (re_agent env)) (Device_named name serv)
        (blank_device\<lparr> registration_id := reg_id, duration_cb := rg_timeout st \<rparr>) False) (\<lambda>_. ret ()))"

definition has_duties :: "Device \<Rightarrow> bool" where
  "has_duties d \<longleftrightarrow> commands d \<noteq> [] \<or> lazy d \<noteq> []"

section \<open>All devices of the database\<close>

text \<open>The loop over a cursor: \<open>while (more()) { next(); ... }\<close>.\<close>

function each_document ::
  "'s mongo_driver \<Rightarrow> (doc \<Rightarrow> (('s, 'z) mongo_scheme, unit) action) \<Rightarrow> cursor \<Rightarrow> (('s, 'z) mongo_scheme, unit) action" where
  "each_document drv f c st =
     (case c of
        [] \<Rightarrow> ret () st
      | Inr d # c' \<Rightarrow> bind_act (f d) (\<lambda>_. each_document drv f c') st
      | Inl e # c' \<Rightarrow> bind_act (mongo_more drv c) (\<lambda>more. if more then each_document drv f c' else ret ()) st)"
  by pat_completeness auto
termination by (relation "measure (\<lambda>(drv, f, c, st). length c)") auto

declare each_document.simps [simp del]

definition find_devices_with_commands ::
  "'s mongo_driver \<Rightarrow> string \<Rightarrow> string \<Rightarrow> string \<Rightarrow> (('s, 'z) mongo_scheme, int \<times> cursor) action" where
  "find_devices_with_commands drv srv path protocol_name =
     mongo_find_all drv DEVICE_TABLE
       (SERVICE_fields [(''service'', srv), (''service_path'', path), (''protocol'', protocol_name)]
        @ [(''commands'', JObject [(''$exists'', JString ''true'')])])"

definition register_stored_device ::
  "'s mongo_driver \<Rightarrow> reg_env \<Rightarrow> ptree \<Rightarrow> Device \<Rightarrow> (('s, 'z) registrar_scheme, unit) action" where
  "register_stored_device drv env service_ptree dev_resu =
     (if has_duties dev_resu
      then bind_act (answered_registration env
             (fst (device_registration env service_ptree (copy_device dev_resu) (commands dev_resu)))
             service_ptree (registration_id dev_resu)) (\<lambda>resp.
           bind_act (set_reg_timeout (rr_duration resp)) (\<lambda>_.
           store_registration drv env (dev_name dev_resu) (service dev_resu) (rr_registrationId resp)))
      else ret ())"

definition send_all_registrations_from_mongo :: "'s mongo_driver \<Rightarrow> reg_env \<Rightarrow> (('s, 'z) registrar_scheme, unit) action" where
  "send_all_registrations_from_mongo drv env =
     try_act (\<lambda>_. True)
       (let lib = aw_bson (re_agent env); h = re_handle env in
        bind_act (mongo_find_all drv SERVICE_TABLE (SERVICE_fields [(''resource'', rh_resource h)])) (\<lambda>(_, c).
        each_document drv (\<lambda>srv_resu.
          bind_act get_state (\<lambda>st.
          bind_act (lift (fill_service_with_bson (re_agent env) (ag_conf st) srv_resu)) (\<lambda>service_ptree.
          bind_act (find_devices_with_commands drv (bs_string lib srv_resu ''service'') (bs_string lib srv_resu ''service_path'')
             (rh_protocol h)) (\<lambda>(_, dc).
          each_document drv (\<lambda>d. register_stored_device drv env service_ptree (device_BSON2Obj lib d)) dc)))) c))
       (\<lambda>_. ret ())"

section \<open>All devices of the file\<close>

definition services_of_resource :: "reg_env \<Rightarrow> Configurator \<Rightarrow> string list result" where
  "services_of_resource env cf =
     or_default []
       (bind_exn (getResourceObject (re_conf env) (rh_resource (re_handle env)) cf) (\<lambda>res.
          case res of
            JObject ms \<Rightarrow>
              (case map_of ms ''services'' of
                 Some (JArray vs) \<Rightarrow> map_exn (\<lambda>v. member_string v ''service'') vs
               | _ \<Rightarrow> Inr [])
          | _ \<Rightarrow> Inr []))"

definition init_services_by_resource :: "reg_env \<Rightarrow> (('s, 'z) registrar_scheme, unit) action" where
  "init_services_by_resource env =
     bind_act get_state (\<lambda>st. bind_act (lift (services_of_resource env (ag_conf st))) (\<lambda>names.
     update_state (\<lambda>st. st\<lparr> rg_services := rg_services st @ names \<rparr>)))"

fun find_service_name :: "string \<Rightarrow> string list \<Rightarrow> bool" where
  "find_service_name srv [] = False"
| "find_service_name srv (n # ns) = (if n = srv then True else find_service_name srv ns)"

text \<open>Writing through the shared pointer changes the cached device.\<close>

definition change_cached :: "Device \<Rightarrow> Device \<Rightarrow> (('s, 'z) registrar_scheme, unit) action" where
  "change_cached d d' = update_state (\<lambda>st. st\<lparr> rg_devices := (rg_devices st)\<lparr> items :=
     map (\<lambda>x. if x = d then d' else x) (items (rg_devices st)) \<rparr> \<rparr>)"

definition cached_device :: "reg_env \<Rightarrow> Device \<Rightarrow> (('s, 'z) registrar_scheme, Device option) action" where
  "cached_device env key =
     bind_act get_state (\<lambda>st. bind_act (lift (cache_get (re_find env) key (rg_devices st))) (\<lambda>(d, c).
     bind_act (update_state (\<lambda>st. st\<lparr> rg_devices := c \<rparr>)) (\<lambda>_. ret d)))"

text \<open>A device whose entity was computed is taken out of the cache and put in again.\<close>

definition reinsert_device :: "reg_env \<Rightarrow> Device \<Rightarrow> (('s, 'z) registrar_scheme, unit) action" where
  "reinsert_device env d =
     update_state (\<lambda>st. st\<lparr> rg_devices := cache_insert (re_find env) (copy_device d) (cache_remove (re_find env) d (rg_devices st)) \<rparr>)"

definition register_cached_device :: "'s mongo_driver \<Rightarrow> reg_env \<Rightarrow> string \<Rightarrow> Device \<Rightarrow> (('s, 'z) registrar_scheme, unit) action" where
  "register_cached_device drv env serv d =
     bind_act (get_service_by_name drv (re_agent env) (re_handle env) serv []) (\<lambda>service_ptree.
       case device_registration env service_ptree d (commands d) of
         (cr, d1) \<Rightarrow>
           bind_act (change_cached d d1) (\<lambda>_.
           bind_act (answered_registration env cr service_ptree (registration_id d)) (\<lambda>resp.
             let d2 = d1\<lparr> registration_id := rr_registrationId resp \<rparr> in
           bind_act (change_cached d1 d2) (\<lambda>_.
           bind_act (set_reg_timeout (rr_duration resp)) (\<lambda>_.
             if entity_name d \<noteq> entity_name d2 \<or> entity_type d \<noteq> entity_type d2 then reinsert_device env d2 else ret ())))))"

definition register_file_device :: "'s mongo_driver \<Rightarrow> reg_env \<Rightarrow> json \<Rightarrow> (('s, 'z) registrar_scheme, unit) action" where
  "register_file_device drv env j =
     bind_act (lift (any_field j ''device_id'' [])) (\<lambda>dev_id.
     bind_act (lift (any_field j ''service'' [])) (\<lambda>serv.
     bind_act (lift (any_field j ''service_path'' [])) (\<lambda>path.
     bind_act (cached_device env ((Device_named dev_id serv)\<lparr> service_path := path \<rparr>)) (\<lambda>item_dev.
     bind_act get_state (\<lambda>st.
       if \<not> find_service_name serv (rg_services st) then ret ()
       else case item_dev of None \<Rightarrow> ret () | Some d \<Rightarrow> register_cached_device drv env serv d)))))"

definition send_all_registrations :: "'s mongo_driver \<Rightarrow> reg_env \<Rightarrow> (('s, 'z) registrar_scheme, unit) action" where
  "send_all_registrations drv env =
     (if re_app env = UNKOWN_PROVIDING_APP then ret ()
      else try_act (\<lambda>_. True)
        (bind_act (lift (getDevicesObject (re_file env))) (\<lambda>devs.
           case devs of
             JArray vs \<Rightarrow> bind_act (for_each (register_file_device drv env) vs) (\<lambda>_. ret ())
           | _ \<Rightarrow> ret ()))
        (\<lambda>_. ret ()))"

section \<open>A provisioned device\<close>

definition device_update :: "reg_env \<Rightarrow> Device \<Rightarrow> ptree \<Rightarrow> ContextElement result option" where
  "device_update env item_dev service_ptree =
     bind_run (add_attribute (re_json env) (stamp (re_now env)) (blank_element\<lparr> ce_is_pattern := ''false'' \<rparr>))
       (set_env_info (re_json env) (re_now env) service_ptree (Some item_dev))"

definition send_device_update :: "reg_env \<Rightarrow> Device \<Rightarrow> ptree \<Rightarrow> (('s, 'z) registrar_scheme, unit) action" where
  "send_device_update env item_dev service_ptree =
     bind_act (lift_run (device_update env item_dev service_ptree)) (\<lambda>el.
     bind_act get_state (\<lambda>st.
     bind_act (lift (broker_url (ag_conf st) ''updateContext'' service_ptree)) (\<lambda>url.
     update_state (\<lambda>st. st\<lparr> rg_updates := rg_updates st
       @ [(url, add_context_element el \<lparr> uc_action = ''APPEND'', uc_elements = [] \<rparr>)] \<rparr>))))"

definition set_device :: "(Device \<Rightarrow> Device) \<Rightarrow> (('s, 'z) registrar_scheme, unit) action" where
  "set_device f = update_state (\<lambda>st. st\<lparr> rg_device := f (rg_device st) \<rparr>)"

definition provision_device ::
  "'s mongo_driver \<Rightarrow> reg_env \<Rightarrow> string \<Rightarrow> string \<Rightarrow> Device \<Rightarrow> (('s, 'z) registrar_scheme, unit) action" where
  "provision_device drv env srv path dev =
     bind_act (set_device (\<lambda>_. dev)) (\<lambda>_.
     bind_act (get_service_by_name drv (re_agent env) (re_handle env) srv path) (\<lambda>service_ptree.
     bind_act (send_device_update env (copy_device dev) service_ptree) (\<lambda>_.
       if has_duties dev
       then bind_act (answered_registration env
              (fst (device_registration env service_ptree (copy_device dev) (commands dev)))
              service_ptree (registration_id dev)) (\<lambda>resp.
            bind_act (set_device (\<lambda>d. d\<lparr> registration_id := rr_registrationId resp \<rparr>)) (\<lambda>_.
            bind_act (set_reg_timeout (rr_duration resp)) (\<lambda>_.
            store_registration drv env (dev_name dev) (service dev) (rr_registrationId resp))))
       else ret ())))"

text \<open>Each device that is found is written over the caller's, and is what the next search looks for.\<close>

definition send_register_device :: "'s mongo_driver \<Rightarrow> reg_env \<Rightarrow> Device \<Rightarrow> (('s, 'z) registrar_scheme, unit) action" where
  "send_register_device drv env dev =
     (let lib = aw_bson (re_agent env) in
      bind_act (set_device (\<lambda>_. dev)) (\<lambda>_.
      try_act (\<lambda>_. True)
        (bind_act (mongo_find_all drv SERVICE_TABLE (SERVICE_fields [(''service'', service dev),
            (''service_path'', service_path dev), (''resource'', rh_resource (re_handle env))])) (\<lambda>(_, c).
         each_document drv (\<lambda>srv_resu.
           bind_act get_state (\<lambda>st.
           bind_act (findd drv lib (rg_device st)) (\<lambda>(_, dc).
           each_document drv (\<lambda>d. provision_device drv env (bs_string lib srv_resu ''service'')
             (bs_string lib srv_resu ''service_path'') (device_BSON2Obj lib d)) dc))) c))
        (\<lambda>_. ret ())))"

section \<open>A device that reports\<close>

text \<open>The UltraLight service registers a device with commands and without a registration; the duration of the
  answer is not used.\<close>

definition send_optional_registration ::
  "'s mongo_driver \<Rightarrow> reg_env \<Rightarrow> string \<Rightarrow> string \<Rightarrow> (('s, 'z) registrar_scheme, unit) action" where
  "send_optional_registration drv env dev serv =
     (if re_app env = UNKOWN_PROVIDING_APP then ret ()
      else try_act (\<lambda>_. True)
        (bind_act (cached_device env (Device_named dev serv)) (\<lambda>item_dev.
           case item_dev of
             None \<Rightarrow> ret ()
           | Some d \<Rightarrow>
               if registration_id d = [] \<and> commands d \<noteq> []
               then bind_act (get_service_by_name drv (re_agent env) (re_handle env) serv []) (\<lambda>service_ptree.
                    bind_act (answered_registration env
                      \<lparr> cr_entities = [\<lparr> en_id = entity_name d, en_type = entity_type d, en_is_pattern = ''false'' \<rparr>],
                        cr_attributes = map (\<lambda>p. \<lparr> ar_name = fst p, ar_type = ''command'', ar_is_domain = ''false'' \<rparr>) (commands d),
                        cr_provider = re_app env \<rparr> service_ptree []) (\<lambda>resp.
                    change_cached d (d\<lparr> registration_id := rr_registrationId resp \<rparr>)))
               else ret ()))
        (\<lambda>_. ret ()))"

section \<open>The rounds\<close>

text \<open>One turn of the loop of \<open>make_registrations\<close>: the seconds that were waited before it.\<close>

definition registration_round :: "'s mongo_driver \<Rightarrow> reg_env \<Rightarrow> (('s, 'z) registrar_scheme, int) action" where
  "registration_round drv env =
     bind_act get_state (\<lambda>st.
       let waited = rg_timeout st in
     bind_act (if waited = DEFAULT_REG_TIMEOUT then update_state (\<lambda>st. st\<lparr> rg_timeout := DEFAULT_REG_TIMEOUT * 600 \<rparr>) else ret ()) (\<lambda>_.
     bind_act (try_act (\<lambda>_. True)
       (bind_act (lift (storage_type (ag_conf st))) (\<lambda>type_store.
          if type_store = Some ''mongodb'' then send_all_registrations_from_mongo drv env
          else if type_store = Some ''file'' then send_all_registrations drv env
          else ret ()))
       (\<lambda>_. ret ())) (\<lambda>_. ret waited)))"

fun registration_rounds :: "nat \<Rightarrow> 's mongo_driver \<Rightarrow> reg_env \<Rightarrow> (('s, 'z) registrar_scheme, int list) action" where
  "registration_rounds 0 drv env = ret []"
| "registration_rounds (Suc n) drv env =
     bind_act (registration_round drv env) (\<lambda>w. bind_act (registration_rounds n drv env) (\<lambda>ws. ret (w # ws)))"

definition make_registrations :: "nat \<Rightarrow> 's mongo_driver \<Rightarrow> reg_env \<Rightarrow> (('s, 'z) registrar_scheme, int list) action" where
  "make_registrations n drv env =
     bind_act (update_state (\<lambda>st. st\<lparr> rg_timeout := DEFAULT_REG_TIMEOUT \<rparr>)) (\<lambda>_. registration_rounds n drv env)"

section \<open>The timer\<close>

lemma get_duration_positive: "get_duration_seconds data = Inr s \<Longrightarrow> 0 < s"
proof -
  have unit: "0 < snd (duration_part us saux)" if "list_all (\<lambda>u. 0 < snd u) us" for us saux
    using that by (induction us saux rule: duration_part.induct) (auto split: option.split)
  have "0 < snd (case find_sub ''PT'' data of
           Some p \<Rightarrow> duration_part [(CHR ''H'', 3600), (CHR ''M'', 60), (CHR ''S'', 1)] (drop (p + 2) data)
         | None \<Rightarrow>
             (case find_sub ''P'' data of
                Some p \<Rightarrow> duration_part [(CHR ''Y'', 365 * 24 * 3600), (CHR ''M'', 30 * 24 * 3600),
                    (CHR ''W'', 7 * 24 * 3600), (CHR ''D'', 24 * 3600)] (drop (p + 1) data)
              | None \<Rightarrow> ([], 3600)))"
    by (auto intro!: unit split: option.split)
  then show "get_duration_seconds data = Inr s \<Longrightarrow> 0 < s"
    by (auto simp: get_duration_seconds_def Let_def DEFAULT_REG_TIMEOUT_def split: prod.splits if_splits)
qed

lemma keeps_each_document [keeps_intros]:
  assumes "notice_free P" "\<And>d. keeps P (f d)"
  shows "keeps P (each_document drv f c)"
proof (induction c rule: length_induct)
  case (1 c)
  show ?case
  proof (cases c)
    case (Cons a c')
    have ih: "keeps P (each_document drv f c')" using 1 Cons by auto
    show ?thesis
    proof (cases a)
      case (Inl e)
      have "each_document drv f c = bind_act (mongo_more drv c) (\<lambda>more. if more then each_document drv f c' else ret ())"
        by (rule ext, subst each_document.simps) (simp add: Cons Inl)
      then show ?thesis by (simp only:) (intro keeps_intros ih assms)
    next
      case (Inr d)
      have "each_document drv f c = bind_act (f d) (\<lambda>_. each_document drv f c')"
        by (rule ext, subst each_document.simps) (simp add: Cons Inr)
      then show ?thesis by (simp only:) (intro keeps_intros ih assms)
    qed
  next
    case Nil
    have "each_document drv f [] = ret ()" by (rule ext, subst each_document.simps) simp
    then show ?thesis by (simp add: Nil keeps_intros)
  qed
qed

lemma keeps_get_service [keeps_intros]:
  assumes "reads_free P drv SERVICE_TABLE"
  shows "keeps P (get_service_by_name drv env h name path)"
  unfolding get_service_by_name_def get_service_with_def get_service_by_name_bbdd_def read_service_bbdd_def
  by (intro keeps_intros assms free_notice(1) [OF assms])

text \<open>A property that does not depend on the database and on what registrations leave behind.\<close>

definition timer_only :: "(('s, 'z) registrar_scheme \<Rightarrow> bool) \<Rightarrow> bool" where
  "timer_only P \<longleftrightarrow> db_free P \<and> (\<forall>st sent ups dev devs. P st \<longrightarrow>
     P (st\<lparr> rg_sent := sent \<rparr>) \<and> P (st\<lparr> rg_updates := ups \<rparr>) \<and> P (st\<lparr> rg_device := dev \<rparr>) \<and> P (st\<lparr> rg_devices := devs \<rparr>))
     \<and> (\<forall>st s. P st \<longrightarrow> 0 < s \<longrightarrow> P (st\<lparr> rg_timeout := s \<rparr>))"

lemma timer_onlyD:
  assumes "timer_only P"
  shows "notice_free P" "reads_free P drv name" "writes_free P drv name"
    and "keeps P (update_state (\<lambda>st. st\<lparr> rg_sent := f st \<rparr>))" "keeps P (update_state (\<lambda>st. st\<lparr> rg_updates := g st \<rparr>))"
    and "keeps P (set_device h)" "keeps P (change_cached d d')" "keeps P (reinsert_device env d)"
    and "keeps P (update_state (\<lambda>st. st\<lparr> rg_devices := k st \<rparr>))"
  using assms
  by (auto simp: timer_only_def db_free_frees set_device_def change_cached_def reinsert_device_def intro!: keeps_update)

lemma keeps_set_reg_timeout:
  assumes "timer_only P" shows "keeps P (set_reg_timeout t)"
  using assms get_duration_positive [of t]
  by (auto simp: keeps_def set_reg_timeout_def bind_act_def lift_def update_state_def timer_only_def split: sum.splits)

lemma keeps_broker_send:
  assumes "timer_only P" shows "keeps P (broker_send env url content pt)"
  unfolding broker_send_def by (intro keeps_intros timer_onlyD [OF assms])

lemma keeps_send_register:
  assumes "timer_only P"
  shows "keeps P (send_register env crs pt i)" "keeps P (send_unregister env pt dev i)"
  unfolding send_register_def send_unregister_def Let_def by (intro keeps_intros keeps_broker_send assms)+

lemma keeps_answered_registration:
  assumes "timer_only P" shows "keeps P (answered_registration env cr pt i)"
  unfolding answered_registration_def by (intro keeps_intros keeps_send_register assms)

lemma keeps_store_registration:
  assumes "timer_only P" shows "keeps P (store_registration drv env name serv i)"
  unfolding store_registration_def updated_def by (intro keeps_intros timer_onlyD [OF assms])

lemma keeps_from_mongo:
  assumes "timer_only P"
  shows "keeps P (send_all_registrations_from_mongo drv env)"
proof -
  have one: "keeps P (register_stored_device drv env pt d)" for pt d
    unfolding register_stored_device_def
    by (intro keeps_intros keeps_answered_registration keeps_set_reg_timeout keeps_store_registration assms)
  show ?thesis
    unfolding send_all_registrations_from_mongo_def find_devices_with_commands_def Let_def
    by (intro keeps_intros one timer_onlyD [OF assms])
qed

lemma keeps_cached_device:
  assumes "timer_only P" shows "keeps P (cached_device env key)"
  unfolding cached_device_def by (intro keeps_intros timer_onlyD [OF assms])

lemma keeps_from_file:
  assumes "timer_only P"
  shows "keeps P (send_all_registrations drv env)"
proof -
  have one: "keeps P (register_cached_device drv env serv d)" for serv d
    unfolding register_cached_device_def Let_def
    by (intro keeps_intros keeps_answered_registration keeps_set_reg_timeout timer_onlyD assms)
  have entry: "keeps P (register_file_device drv env j)" for j
    unfolding register_file_device_def by (intro keeps_intros keeps_cached_device one assms)
  have each: "keeps P (bind_act (for_each (register_file_device drv env) vs) (\<lambda>_. ret ()))" for vs
    by (intro keeps_intros entry)
  show ?thesis
    unfolding send_all_registrations_def
    by (intro keeps_intros) (auto split: json.split intro!: each keeps_intros)
qed

lemma timer_positive: "timer_only (\<lambda>st. 0 < rg_timeout st)"
  by (simp add: timer_only_def db_free_def)

lemma registration_round_positive:
  assumes "0 < rg_timeout st" "registration_round drv env st = Some (r, st')"
  shows "0 < rg_timeout st' \<and> (\<forall>w. r = Inr w \<longrightarrow> w = rg_timeout st)"
proof -
  let ?P = "\<lambda>st. 0 < rg_timeout st"
  have "keeps ?P (registration_round drv env)"
    unfolding registration_round_def Let_def
    by (intro keeps_intros keeps_from_mongo keeps_from_file timer_positive keeps_update) (simp add: DEFAULT_REG_TIMEOUT_def)
  from keeps_at [OF this assms(2,1)] show ?thesis
    using assms(2) by (auto simp: registration_round_def Let_def bind_act_eq_Some get_state_def ret_def)
qed


section \<open>What the broker is sent\<close>

definition sent_texts :: "cb_effect list \<Rightarrow> string list" where
  "sent_texts eff = List.map_filter (\<lambda>e. case e of Cb_request q \<Rightarrow> Some (hq_content q) | _ \<Rightarrow> None) eff"

lemma sent_texts_simps [simp]:
  "sent_texts [] = []" "sent_texts (Cb_request q # eff) = hq_content q # sent_texts eff"
  "sent_texts (Cb_alarm a # eff) = sent_texts eff" "sent_texts (eff1 @ eff2) = sent_texts eff1 @ sent_texts eff2"
  by (simp_all add: sent_texts_def List.map_filter_def)

lemma sent_texts_length: "length (sent_texts eff) = cb_requests eff"
proof (induction eff)
  case (Cons e eff)
  then show ?case by (cases e) (simp_all add: sent_texts_def List.map_filter_def cb_requests_def is_cb_request_def)
qed (simp add: cb_requests_def)

lemma request_content [simp]: "hq_content (cb_create_request dest content info) = content"
  by (simp add: cb_create_request_def Let_def change_header_def)

lemma cb_attempt_texts:
  assumes "cb_attempt env tries url content info status_code = Inr (text, response, info', eff)"
  shows "set (sent_texts eff) \<subseteq> {content}"
proof -
  have "sent_texts (snd (process_response env url q content i a)) = []" for q i a
    by (simp add: process_response_def cb_ok_def no_cb_def split: prod.split option.split)
  then show ?thesis
    using assms by (auto simp: cb_attempt_def Let_def bind_exn_eq_Inr_iff case_prod_beta no_cb_def split: sum.split_asm if_splits)
qed

lemma cb_send_texts:
  "cb_send env url content info status_code = Inr (tx, eff) \<Longrightarrow> set (sent_texts eff) \<subseteq> {content}"
proof (induction env url content info status_code arbitrary: tx eff rule: cb_send.induct)
  case (1 env url content info status_code)
  let ?tries = "pt_get_int info NUMBER_OF_TRIES 0"
  from "1.prems" obtain oauth text1 response info' eff1 where
    o: "oauth_setting env ''on_behalf_trust_url'' = Inr oauth"
    and a: "cb_attempt env ?tries url content info status_code = Inr (text1, response, info', eff1)"
    and rest: "(if unauthorised response \<and> pt_get info ''token'' [] \<noteq> [] \<and> oauth \<noteq> [] \<and> ?tries < 1
        then bind_exn (cb_send env url content (pt_put NUMBER_OF_TRIES (show_int (?tries + 1)) info') 401) (\<lambda>(text', eff').
             Inr (text', eff1 @ eff'))
        else Inr (text1, eff1)) = Inr (tx, eff)"
    by (subst (asm) cb_send.simps) (auto simp: Let_def bind_exn_eq_Inr_iff)
  note r = cb_attempt_texts [OF a]
  show ?case
  proof (cases "unauthorised response \<and> pt_get info ''token'' [] \<noteq> [] \<and> oauth \<noteq> [] \<and> ?tries < 1")
    case True
    then obtain eff2 where s: "cb_send env url content (pt_put NUMBER_OF_TRIES (show_int (?tries + 1)) info') 401 = Inr (tx, eff2)"
      "eff = eff1 @ eff2"
      using rest by (auto simp: bind_exn_eq_Inr_iff)
    show ?thesis using "1.IH" [OF refl refl o a refl refl refl True s(1)] r by (simp add: s(2))
  qed (use rest r in auto)
qed

lemma broker_send_texts:
  assumes "broker_send env url content pt st = Some (Inr tx, st')" "pt_get_int pt NUMBER_OF_TRIES 0 = 0"
  shows "\<exists>n \<le> 2. \<exists>eff. rg_sent st' = rg_sent st @ eff \<and> sent_texts eff = replicate n content"
proof -
  obtain eff where eff: "cb_send (re_cb env) url content pt 200 = Inr (tx, eff)" "rg_sent st' = rg_sent st @ eff"
    using assms(1) by (auto simp: broker_send_def bind_act_eq_Some lift_def ret_def update_state_def)
  have "sent_texts eff = replicate (length (sent_texts eff)) content"
    using cb_send_texts [OF eff(1)] by (metis replicate_length_same singletonD subsetD)
  moreover have "length (sent_texts eff) \<le> 2"
    using cb_send_requests [OF eff(1)] by (simp add: sent_texts_length assms(2))
  ultimately show ?thesis using eff(2) by blast
qed


section \<open>An agent with one device\<close>

text \<open>The broker answers, but not with a registration.\<close>

definition registering_driver :: "unit mongo_driver" where
  "registering_driver =
     \<lparr> dr_insert = (\<lambda>ns d s. (None, s)), dr_update = (\<lambda>ns q d u s. (None, s)), dr_remove = (\<lambda>ns q s. (None, s)),
       dr_query = (\<lambda>ns q l k ord fs s. (Inr (Some [Inr (if ns = ''iot.DEVICE''
          then [(''device_id'', JString ''d''), (''service'', JString ''home''),
                (''commands'', JArray [JObject [(''name'', JString ''ping''), (''value'', JString ''%s'')]])]
          else [(''service'', JString ''home''), (''service_path'', JString ''/'')])]), s)),
       dr_count = (\<lambda>ns q s. (Inr 1, s)),
       dr_command = (\<lambda>ns d s. (Inr [], s)),
       dr_create_index = (\<lambda>ns i u s. (None, s)),
       dr_drop_indexes = (\<lambda>ns s. (None, s)),
       dr_last_error = (\<lambda>s. \<lparr> le_code = 0, le_n = 1, le_ok = 1, le_err = [], le_text = [] \<rparr>),
       dr_text = (\<lambda>d. []),
       dr_endpoint = ''127.0.0.1:27017'',
       dr_database = ''iot'' \<rparr>"

definition registering_env :: reg_env where
  "registering_env =
     (let js = \<lparr> jl_parse = \<lambda>s. Inr (JObject []),
                 jl_print = \<lambda>es. (if WString ''duration'' \<in> set es then ''W'' else ''N''), jl_number = \<lambda>j. [], jl_stream = \<lambda>j. [] \<rparr> in
     \<lparr> re_agent = sample_agent_env\<lparr> aw_read_json := (\<lambda>s. Some (PTree [] [(''cbroker'', PTree ''http://cb:1026'' [])])) \<rparr>,
       re_cb = \<lparr> cb_oauth = cb_oauth sample_cb_env, cb_oauth_conf = Inl (runtime_error []),
          cb_http = (\<lambda>n q t p. Inr (Some \<lparr> hp_status = 200, hp_content = ''R'', hp_header = (\<lambda>h. []) \<rparr>, None)),
          cb_error_text = (\<lambda>e. []), cb_error_value = (\<lambda>e. 0), cb_ngsi_url = Inl (runtime_error []) \<rparr>,
       re_conf = \<lparr> ce_json = js, ce_pretty = (\<lambda>j. []), ce_offset = (\<lambda>s. []), ce_writable = False \<rparr>,
       re_json = js, re_now = ''2015'', re_handle = sample_rest_handle, re_app = ''http://agent'',
       re_find = scan dev_key, re_file = new_DevicesFile \<rparr>)"

definition registering_agent :: "unit registrar" where
  "registering_agent = \<lparr> mg_data = (), mg_alarms = [], mg_reconnects = 0, ag_effects = [],
     ag_conf = (new_Configurator None)\<lparr> cg_root := Some [(''storage'', JObject [(''type'', JString ''mongodb'')])] \<rparr>,
     rg_devices = new_cache 10 False 0, rg_timeout = 0, rg_services = [], rg_sent = [], rg_updates = [],
     rg_device = blank_device \<rparr>"

definition ends_with :: "('a \<times> 't) option \<Rightarrow> ('a \<Rightarrow> 't \<Rightarrow> bool) \<Rightarrow> bool" where
  "ends_with r P = (case r of Some (x, st) \<Rightarrow> P x st | None \<Rightarrow> False)"

lemma ends_withE:
  assumes "ends_with r P" "\<And>x st. r = Some (x, st) \<Longrightarrow> P x st \<Longrightarrow> Q"
  shows Q
  using assms by (auto simp: ends_with_def split: option.splits)

lemma two_rounds: "ends_with (make_registrations 2 registering_driver registering_env registering_agent)
    (\<lambda>x st. x = Inr [1, 600] \<and> sent_texts (rg_sent st) = [''N'', ''N''])"
  by code_simp


definition broker_tree :: ptree where
  "broker_tree = PTree [] [(''cbroker'', PTree ''http://cb:1026'' [])]"

lemma one_replacement: "ends_with (send_register registering_env [] broker_tree ''r1'' registering_agent)
    (\<lambda>x st. (case x of Inl e \<Rightarrow> False | Inr (resp, pt) \<Rightarrow> resp = ''R'') \<and> sent_texts (rg_sent st) = [''W'', ''N''])"
  by code_simp


end
