(* ===== verification/Manager_Store.thy ===== *)
theory Manager_Store
  imports Admin_Safety
begin

text \<open>
  The two tables of the manager of agents: the protocols with the agents that speak them
  (\<^verbatim>\<open>src/util/protocol_collection.cc\<close>, \<^verbatim>\<open>src/util/protocol.cc\<close>), and the services the agents have registered
  (\<^verbatim>\<open>src/util/service_mgmt_collection.cc\<close>).
\<close>

section \<open>Protocols\<close>

record resource_endpoint =
  ep_endpoint :: string
  ep_resource :: string

record Protocol =
  pc_id :: string
  pc_description :: string
  pc_name :: string
  pc_endpoints :: "resource_endpoint list"

definition new_Protocol :: "string \<Rightarrow> Protocol" where
  "new_Protocol name = \<lparr> pc_id = [], pc_description = [], pc_name = name, pc_endpoints = [] \<rparr>"

definition protocol_add :: "resource_endpoint \<Rightarrow> Protocol \<Rightarrow> Protocol" where
  "protocol_add data p = p\<lparr> pc_endpoints := pc_endpoints p @ [data] \<rparr>"

definition protocol_text :: "string \<Rightarrow> string \<Rightarrow> doc" where
  "protocol_text k v = (if v = [] then [] else [(k, JString v)])"

definition protocol_Obj2BSON :: "Protocol \<Rightarrow> bool \<Rightarrow> doc" where
  "protocol_Obj2BSON p withShardKey =
     (if withShardKey then protocol_text ''_id'' (pc_id p) else [])
     @ protocol_text ''protocol'' (pc_name p) @ protocol_text ''description'' (pc_description p)
     @ (if pc_endpoints p \<noteq> []
        then [(''endpoints'', JArray (map (\<lambda>e. JObject [(''endpoint'', JString (ep_endpoint e)), (''resource'', JString (ep_resource e))])
                (pc_endpoints p)))]
        else [])"

text \<open>The identifier is copied and not used; \<open>it.next().Obj()\<close> throws when the element is no document.\<close>

definition read_endpoint :: "bson_lib \<Rightarrow> doc \<Rightarrow> resource_endpoint" where
  "read_endpoint lib e = \<lparr> ep_endpoint = bs_string lib e ''endpoint'', ep_resource = bs_string lib e ''resource'' \<rparr>"

definition protocol_BSON2Obj :: "bson_lib \<Rightarrow> doc \<Rightarrow> Protocol result" where
  "protocol_BSON2Obj lib obj =
     bind_exn (map_exn (bs_embedded lib \<circ> snd) (bs_object lib obj ''endpoints'')) (\<lambda>es.
       Inr (fold protocol_add (map (read_endpoint lib) es)
         ((new_Protocol (bs_string lib obj ''protocol''))\<lparr> pc_description := bs_string lib obj ''description'' \<rparr>)))"

definition protocol_insert :: "'s mongo_driver \<Rightarrow> Protocol \<Rightarrow> (('s, 'z) mongo_scheme, unit) action" where
  "protocol_insert drv obj = mongo_insert drv PROTOCOL_TABLE (protocol_Obj2BSON obj True)"

definition protocol_update :: "'s mongo_driver \<Rightarrow> Protocol \<Rightarrow> Protocol \<Rightarrow> (('s, 'z) mongo_scheme, int) action" where
  "protocol_update drv query sett =
     mongo_update drv PROTOCOL_TABLE (protocol_Obj2BSON query True) (protocol_Obj2BSON sett True) False"

definition protocol_find :: "'s mongo_driver \<Rightarrow> Protocol \<Rightarrow> (('s, 'z) mongo_scheme, int \<times> cursor) action" where
  "protocol_find drv query = mongo_find_all drv PROTOCOL_TABLE (protocol_Obj2BSON query True)"

definition protocol_next :: "'s mongo_driver \<Rightarrow> bson_lib \<Rightarrow> cursor \<Rightarrow> (('s, 'z) mongo_scheme, Protocol \<times> cursor) action" where
  "protocol_next drv lib c =
     bind_act (mongo_next drv c) (\<lambda>(data, c'). bind_act (lift (protocol_BSON2Obj lib data)) (\<lambda>p. ret (p, c')))"

definition protocol_remove :: "'s mongo_driver \<Rightarrow> Protocol \<Rightarrow> (('s, 'z) mongo_scheme, int) action" where
  "protocol_remove drv query = mongo_remove drv PROTOCOL_TABLE (protocol_Obj2BSON query True)"

definition protocol_count :: "'s mongo_driver \<Rightarrow> Protocol \<Rightarrow> (('s, 'z) mongo_scheme, int) action" where
  "protocol_count drv query = mongo_count drv PROTOCOL_TABLE (protocol_Obj2BSON query True)"

text \<open>The loop \<open>while (more()) result.push_back(next())\<close>.\<close>

function read_protocols :: "'s mongo_driver \<Rightarrow> bson_lib \<Rightarrow> cursor \<Rightarrow> (('s, 'z) mongo_scheme, Protocol list) action" where
  "read_protocols drv lib c st =
     (case c of
        [] \<Rightarrow> ret [] st
      | Inr d # c' \<Rightarrow>
          bind_act (lift (protocol_BSON2Obj lib d)) (\<lambda>p.
          bind_act (read_protocols drv lib c') (\<lambda>ps. ret (p # ps))) st
      | Inl e # c' \<Rightarrow>
          bind_act (mongo_more drv c) (\<lambda>more. if more then read_protocols drv lib c' else ret []) st)"
  by pat_completeness auto
termination by (relation "measure (\<lambda>(drv, lib, c, st). length c)") auto

declare read_protocols.simps [simp del]

definition find_protocol_names :: "'s mongo_driver \<Rightarrow> (('s, 'z) mongo_scheme, int \<times> cursor) action" where
  "find_protocol_names drv =
     mongo_find drv PROTOCOL_TABLE [] 0 0 (index_on [''protocol'']) [(''protocol'', JInt 1), (''description'', JInt 1)]"

definition get_all :: "'s mongo_driver \<Rightarrow> bson_lib \<Rightarrow> (('s, 'z) mongo_scheme, Protocol list) action" where
  "get_all drv lib = bind_act (find_protocol_names drv) (\<lambda>(_, c). read_protocols drv lib c)"

definition get_endpoint_by_protocol :: "'s mongo_driver \<Rightarrow> bson_lib \<Rightarrow> string \<Rightarrow> (('s, 'z) mongo_scheme, Protocol list) action" where
  "get_endpoint_by_protocol drv lib name =
     bind_act (mongo_find_all drv PROTOCOL_TABLE [(''protocol'', JString name)]) (\<lambda>(_, c). read_protocols drv lib c)"

definition fillProtocols :: "'s mongo_driver \<Rightarrow> bson_lib \<Rightarrow> (('s, 'z) mongo_scheme, (string, string) std_map) action" where
  "fillProtocols drv lib =
     bind_act (find_protocol_names drv) (\<lambda>(_, c).
     bind_act (read_protocols drv lib c) (\<lambda>ps.
       ret (fold (\<lambda>p. map_insert (pc_name p) (pc_description p)) ps [])))"

section \<open>Services of the agents\<close>

definition RESPONSE_MESSAGE_MISSING_IOTAGENTS :: string where
  "RESPONSE_MESSAGE_MISSING_IOTAGENTS = ''there aren't iotagents for this operation''"

definition get_services_by_protocol ::
  "'s mongo_driver \<Rightarrow> bson_lib \<Rightarrow> int \<Rightarrow> int \<Rightarrow> (('s, 'z) mongo_scheme, (string \<times> string) list) action" where
  "get_services_by_protocol drv lib limit skip =
     bind_act (mongo_find drv MANAGER_SERVICE_TABLE [] limit skip (index_on [''service'', ''service_path''])
        [(''service'', JInt 1), (''service_path'', JInt 1)]) (\<lambda>(_, c).
     bind_act (read_cursor drv c) (\<lambda>ds.
       ret (map (\<lambda>d. (bs_string lib d ''service'', bs_string lib d ''service_path'')) ds)))"

text \<open>The answer of the aggregation is not read.\<close>

definition get_services_group_protocol :: "'s mongo_driver \<Rightarrow> (('s, 'z) mongo_scheme, (string \<times> string) list) action" where
  "get_services_group_protocol drv =
     bind_act (aggregate drv MANAGER_SERVICE_TABLE
       [[(''$project'', JObject (index_on [''service'', ''service_path'', ''protocol'']))],
        [(''$group'', JObject [(''_id'', JObject [(''service'', JString ''$service''), (''service_path'', JString ''$service_path'')]),
           (''protocol'', JObject [(''$addToSet'', JString ''$protocol'')])])]]) (\<lambda>_. ret [])"

definition element_str :: "json \<Rightarrow> string" where
  "element_str j = (case j of JString s \<Rightarrow> s | _ \<Rightarrow> [])"

text \<open>Only without limit and offset is it an error that there is no agent.\<close>

definition get_iotagents_by_service ::
  "'s mongo_driver \<Rightarrow> bson_lib \<Rightarrow> string \<Rightarrow> string \<Rightarrow> string \<Rightarrow> int \<Rightarrow> int \<Rightarrow> (('s, 'z) mongo_scheme, string list) action" where
  "get_iotagents_by_service drv lib serv path protocol_id limit skip =
     bind_act (distinct_values drv MANAGER_SERVICE_TABLE ''iotagent''
        (SERVICE_fields ([(''service'', serv)] @ addServicePath path
           @ (if protocol_id \<noteq> [] then [(''protocol'', protocol_id)] else [])))) (\<lambda>res.
       let agents = map (element_str \<circ> snd) (bs_object lib res ''values'')
       in if agents = [] \<and> limit = 0 \<and> skip = 0
          then throw (IotaException RESPONSE_MESSAGE_MISSING_IOTAGENTS
                 (''[protocol:'' @ protocol_id @ '' service: '' @ serv @ '' service_path:'' @ path @ '']'') 404)
          else ret agents)"

definition removeField :: "string \<Rightarrow> doc \<Rightarrow> doc" where
  "removeField k d = filter (\<lambda>f. fst f \<noteq> k) d"

text \<open>A service of the request becomes one document for each of its protocols.\<close>

definition with_protocol :: "(string, string) std_map \<Rightarrow> doc \<Rightarrow> json \<Rightarrow> doc result" where
  "with_protocol protocols obj p =
     (let protocol_id = element_str p in
      case map_find protocols protocol_id of
        None \<Rightarrow> iota_error RESPONSE_MESSAGE_BAD_REQUEST (''No exists protocol '' @ protocol_id) 400
      | Some description \<Rightarrow>
          Inr (removeField ''protocol'' obj @ [(''protocol'', JString protocol_id), (''description'', JString description)]))"

definition protocols_of_element :: "bson_lib \<Rightarrow> (string, string) std_map \<Rightarrow> json \<Rightarrow> doc list result" where
  "protocols_of_element lib protocols e =
     bind_exn (bs_embedded lib e) (\<lambda>obj.
       if has_field obj ''protocol''
       then bind_exn (bs_array lib obj ''protocol'') (map_exn (with_protocol protocols obj))
       else Inr [])"

definition manager_getElementsFromBSON :: "'s mongo_driver \<Rightarrow> bson_lib \<Rightarrow> doc \<Rightarrow> (('s, 'z) mongo_scheme, doc list) action" where
  "manager_getElementsFromBSON drv lib obj =
     bind_act (lift (bs_array lib obj ''services'')) (\<lambda>be.
     bind_act (fillProtocols drv lib) (\<lambda>protocols.
     bind_act (lift (map_exn (protocols_of_element lib protocols) be)) (\<lambda>dss. ret (concat dss))))"

definition mgmt_service_key :: "bson_lib \<Rightarrow> doc \<Rightarrow> string" where
  "mgmt_service_key lib d = bs_string lib d ''service'' @ ''|'' @ bs_string lib d ''service_path''"

definition fillServices ::
  "'s mongo_driver \<Rightarrow> bson_lib \<Rightarrow> string \<Rightarrow> string \<Rightarrow> (('s, 'z) mongo_scheme, (string, doc) std_map) action" where
  "fillServices drv lib iotagent resource =
     bind_act (mongo_find_all drv MANAGER_SERVICE_TABLE (SERVICE_fields [(''iotagent'', iotagent), (''protocol'', resource)])) (\<lambda>(_, c).
     bind_act (read_cursor drv c) (\<lambda>ds.
       ret (fold (\<lambda>d. map_insert (mgmt_service_key lib d) d) ds [])))"

end
