(* ===== verification/Manager.thy ===== *)
theory Manager
  imports Manager_Store
begin

text \<open>
  The manager of agents (\<^verbatim>\<open>src/services/admin_mgmt_service.cc\<close>): agents register the protocols they speak and
  their services with it, and requests for devices and services are sent on to the agents concerned, whose
  answers are put together.  The handlers of the administration service are inherited.
\<close>

section \<open>The state\<close>

text \<open>Alarms are those of the state of the database; \<open>mn_sent\<close> are the requests to the agents.\<close>

record 's manager = "'s admin" +
  mn_sent :: "http_request list"

text \<open>\<open>me_http\<close> gives the answer to a request from its number, itself and the timeout; \<open>me_encode\<close> is
  \<open>url_encode\<close>, \<open>me_pretty\<close> the indenting writer, \<open>me_offset\<close> the place of a syntax error, and \<open>me_same\<close>
  the comparison \<open>woCompare\<close> of two documents giving 0.\<close>

record manager_env =
  me_admin :: admin_env
  me_json :: json_lib
  me_offset :: "string \<Rightarrow> string"
  me_pretty :: "json \<Rightarrow> string"
  me_encode :: "string \<Rightarrow> string"
  me_same :: "doc \<Rightarrow> doc \<Rightarrow> bool"
  me_http :: "nat \<Rightarrow> http_request \<Rightarrow> nat \<Rightarrow> http_answer"
  me_error_text :: "net_error \<Rightarrow> string"
  me_timeout :: nat
  me_post_protocol :: string
  me_post_service :: string
  me_put_service :: string

abbreviation me_bson :: "manager_env \<Rightarrow> bson_lib" where
  "me_bson env \<equiv> aw_bson (ae_agent (me_admin env))"

section \<open>Answers of agents\<close>

definition ALARM_CODE_NO_IOTA :: int where
  "ALARM_CODE_NO_IOTA = 300"

definition agent_alarm :: "alarm_event \<Rightarrow> (('s, 'z) mongo_scheme, unit) action" where
  "agent_alarm a = update_state (\<lambda>st. st\<lparr> mg_alarms := mg_alarms st @ [a] \<rparr>)"

definition no_agent :: "string \<Rightarrow> string \<Rightarrow> (('s, 'z) mongo_scheme, unit) action" where
  "no_agent url text = agent_alarm (Raise ALARM_CODE_NO_IOTA url ''error'' text)"

definition connection_text :: "manager_env \<Rightarrow> net_error option \<Rightarrow> string" where
  "connection_text env error = (case error of Some e \<Rightarrow> me_error_text env e | None \<Rightarrow> ''Success'')"

definition check_alarm :: "manager_env \<Rightarrow> http_request \<Rightarrow> http_answer \<Rightarrow> (('s, 'z) mongo_scheme, int) action" where
  "check_alarm env q answer =
     (case answer of
        (Some resp, None) \<Rightarrow>
          bind_act (agent_alarm (Clear ALARM_CODE_NO_IOTA (getRemoteEndpoint q) ''error'' ''Success'')) (\<lambda>_. ret (int (hp_status resp)))
      | (_, error) \<Rightarrow> bind_act (no_agent (getRemoteEndpoint q) (connection_text env error)) (\<lambda>_. ret (- 1)))"

text \<open>The content of an answer, or the text of the error of the connection.\<close>

definition answer_text :: "manager_env \<Rightarrow> http_answer \<Rightarrow> string" where
  "answer_text env answer =
     (case answer of (Some resp, None) \<Rightarrow> c_str (hp_content resp) | (_, error) \<Rightarrow> connection_text env error)"

text \<open>A client is made, which throws when the name has no address; the request is sent and its answer
  waited for.\<close>

definition agent_exchange :: "manager_env \<Rightarrow> IoTUrl \<Rightarrow> http_request \<Rightarrow> (('s, 'z) manager_scheme, int \<times> string) action" where
  "agent_exchange env dest q =
     bind_act (lift (new_HttpClient (aw_dns (ae_agent (me_admin env))) (url_host dest) (url_port dest))) (\<lambda>_.
     bind_act get_state (\<lambda>st.
       let answer = me_http env (length (mn_sent st)) q (me_timeout env) in
     bind_act (update_state (\<lambda>st. st\<lparr> mn_sent := mn_sent st @ [q] \<rparr>)) (\<lambda>_.
     bind_act (check_alarm env q answer) (\<lambda>code_i. ret (code_i, answer_text env answer)))))"

definition mgr_create_request ::
  "string \<Rightarrow> string \<Rightarrow> string \<Rightarrow> string \<Rightarrow> string \<Rightarrow> string \<Rightarrow> string \<Rightarrow> string \<Rightarrow> IoTUrl \<Rightarrow> http_request" where
  "mgr_create_request method resource query content token trace serv path dest =
     change_header ''Host'' (url_host dest @ '':'' @ show_int (url_port dest mod 2 ^ 16))
       \<lparr> hq_host = url_host dest, hq_port = url_port dest, hq_method = method, hq_resource = resource,
         hq_content = content, hq_query = query,
         hq_headers = [(''Accept'', CONTENT_TYPE_JSON)]
           @ (if token \<noteq> [] then [(HTTP_HEADER_AUTH, token)] else [])
           @ [(HEADER_TRACE_MESSAGES, trace), (''Fiware-Service'', serv), (''Fiware-ServicePath'', path)]
           @ (if content \<noteq> [] then [(''Content-Type'', CONTENT_TYPE_JSON)] else []) \<rparr>"

text \<open>\<open>error_manager\<close>: a message that is JSON is put in as it is, any other one in quotes.\<close>

definition error_manager :: "manager_env \<Rightarrow> int \<Rightarrow> string \<Rightarrow> string" where
  "error_manager env code_i msg =
     quoted ''code'' @ '': '' @ quoted (show_int code_i) @ '','' @ quoted ''details'' @ '': ''
     @ (case jl_parse (me_json env) (c_str msg) of Inl _ \<Rightarrow> quoted msg | Inr _ \<Rightarrow> msg)"

text \<open>\<open>find_last_of\<close>, and the comma that is put in front of the errors even when nothing precedes them.\<close>

definition last_of :: "char \<Rightarrow> string \<Rightarrow> nat option" where
  "last_of c s = (if c \<in> set s then Some (length s - 1 - length (takeWhile (\<lambda>x. x \<noteq> c) (rev s))) else None)"

definition errors_text :: "(string, string) std_map \<Rightarrow> string" where
  "errors_text nok =
     (if nok = [] then []
      else erase_all CHR 0x0A (quoted ''errors'' @ '': [''
        @ join_with '','' (map (\<lambda>(url, text). ''{'' @ quoted ''endpoint'' @ '': '' @ quoted url @ '','' @ text @ ''}'') nok) @ '']''))"

definition add_errors_to_response :: "string \<Rightarrow> (string, string) std_map \<Rightarrow> string" where
  "add_errors_to_response response nok =
     (let errors = errors_text nok in
      if errors = [] then response
      else if response = [] then ''{'' @ errors @ ''}''
      else case last_of CHR ''}'' response of
             Some i \<Rightarrow> take i response @ '','' @ errors @ drop i response
           | None \<Rightarrow> errors @ response)"

text \<open>What the agents answered: texts by their addresses, of those that did what was wanted and of the others;
  the first answer of an address stays.\<close>

record agents_outcome =
  oc_ok :: "(string, string) std_map"
  oc_nok :: "(string, string) std_map"

definition no_outcome :: agents_outcome where
  "no_outcome = \<lparr> oc_ok = [], oc_nok = [] \<rparr>"

definition note_answer :: "manager_env \<Rightarrow> int \<Rightarrow> string \<Rightarrow> int \<times> string \<Rightarrow> agents_outcome \<Rightarrow> agents_outcome" where
  "note_answer env wanted url answer oc =
     (if fst answer = wanted then oc\<lparr> oc_ok := map_insert url (snd answer) (oc_ok oc) \<rparr>
      else oc\<lparr> oc_nok := map_insert url (error_manager env (fst answer) (snd answer)) (oc_nok oc) \<rparr>)"

text \<open>The code of an operation on agents, and its text with the errors.\<close>

definition outcome_code :: "nat \<Rightarrow> nat \<Rightarrow> agents_outcome \<Rightarrow> string \<Rightarrow> nat" where
  "outcome_code wanted none oc response = (if oc_ok oc = [] then none else if response \<noteq> [] then 200 else wanted)"

definition set_text :: "string \<Rightarrow> (('s, 'z) admin_scheme, unit) action" where
  "set_text t = update_state (\<lambda>st. st\<lparr> ad_reply := (ad_reply st)\<lparr> rp_body := t \<rparr> \<rparr>)"

definition set_code :: "nat \<Rightarrow> (('s, 'z) admin_scheme, unit) action" where
  "set_code cd = update_state (\<lambda>st. st\<lparr> ad_reply := (ad_reply st)\<lparr> rp_status := cd \<rparr> \<rparr>)"

definition conclude :: "nat \<Rightarrow> nat \<Rightarrow> agents_outcome \<Rightarrow> (('s, 'z) admin_scheme, nat) action" where
  "conclude wanted none oc =
     bind_act get_state (\<lambda>st.
       let response = add_errors_to_response (rp_body (ad_reply st)) (oc_nok oc) in
     bind_act (set_text response) (\<lambda>_. ret (outcome_code wanted none oc response)))"

fun fold_act :: "('a \<Rightarrow> 'b \<Rightarrow> ('t, 'b) action) \<Rightarrow> 'a list \<Rightarrow> 'b \<Rightarrow> ('t, 'b) action" where
  "fold_act f [] b = ret b"
| "fold_act f (x # xs) b = bind_act (f x b) (fold_act f xs)"

section \<open>Devices\<close>

subsection \<open>Lists of devices\<close>

definition signed_int :: "int \<Rightarrow> int result" where
  "signed_int i = (if int_range i then Inr i else Inl (undefined_behaviour ''signed overflow''))"

record page =
  pg_limit :: int
  pg_offset :: int
  pg_count :: int
  pg_devices :: "json list"
  pg_nok :: "(string, string) std_map"

text \<open>What is left of the offset, and what is taken for the number of devices that came.\<close>

definition next_offset :: "int \<Rightarrow> int \<Rightarrow> (int \<times> int) result" where
  "next_offset offsetI countI =
     (if offsetI > 0
      then if offsetI > countI then bind_exn (signed_int (offsetI - countI)) (\<lambda>off. Inr (off, countI))
           else Inr (0, countI - offsetI)
      else Inr (offsetI, countI))"

definition next_limit :: "int \<Rightarrow> int \<Rightarrow> int result" where
  "next_limit limitI countI =
     (if limitI > 0 then if limitI > countI then signed_int (limitI - countI) else Inr (- 1) else Inr limitI)"

definition turn_page :: "int \<Rightarrow> page \<Rightarrow> page result" where
  "turn_page countI p =
     bind_exn (next_offset (pg_offset p) countI) (\<lambda>(off, c).
     bind_exn (next_limit (pg_limit p) c) (\<lambda>l. Inr (p\<lparr> pg_limit := l, pg_offset := off \<rparr>)))"

definition blame_agent :: "manager_env \<Rightarrow> string \<Rightarrow> cxx_exn \<Rightarrow> page \<Rightarrow> page result" where
  "blame_agent env agent e p =
     (if catchable e then Inr (p\<lparr> pg_nok := map_insert agent (error_manager env (- 1) (exn_what e)) (pg_nok p) \<rparr>) else Inl e)"

text \<open>The devices are counted before it is known whether they can be read.\<close>

definition page_of_agent :: "manager_env \<Rightarrow> string \<Rightarrow> string \<Rightarrow> page \<Rightarrow> page result" where
  "page_of_agent env agent response_agent p =
     (case bs_parse (me_bson env) response_agent of
        Inl e \<Rightarrow> blame_agent env agent e p
      | Inr obj \<Rightarrow>
          let countI = bs_int (me_bson env) obj ''count'' in
          bind_exn (signed_int (pg_count p + countI)) (\<lambda>total.
            case bs_array (me_bson env) obj ''devices'' of
              Inl e \<Rightarrow> blame_agent env agent e (p\<lparr> pg_count := total \<rparr>)
            | Inr ds \<Rightarrow> turn_page countI (p\<lparr> pg_count := total, pg_devices := pg_devices p @ ds \<rparr>)))"

definition page_request ::
  "manager_env \<Rightarrow> string \<Rightarrow> string \<Rightarrow> string \<Rightarrow> string \<Rightarrow> string \<Rightarrow> string \<Rightarrow> string \<Rightarrow> int \<Rightarrow> int \<Rightarrow> IoTUrl \<Rightarrow> http_request" where
  "page_request env serv path detailed entity trace token protocol_filter limit offset dest =
     mgr_create_request ''GET'' (url_path dest @ ADMIN_SERVICE_DEVICES)
       (make_query_string (me_encode env)
          [(''detailed'', detailed), (''entity'', entity), (''limit'', show_int limit), (''offset'', show_int offset),
           (''protocol'', protocol_filter)])
       [] token trace serv path dest"

text \<open>One agent of the list; \<open>request\<close> makes the request from the limit and the offset that are left.\<close>

definition ask_agent ::
  "manager_env \<Rightarrow> (int \<Rightarrow> int \<Rightarrow> IoTUrl \<Rightarrow> http_request) \<Rightarrow> string \<Rightarrow> page \<Rightarrow> (('s, 'z) manager_scheme, page) action" where
  "ask_agent env request agent p =
     try_act (\<lambda>_. True)
       (bind_act (lift (new_IoTUrl agent)) (\<lambda>dest.
        bind_act (agent_exchange env dest (request (pg_limit p) (pg_offset p) dest)) (\<lambda>(code_i, msg).
          if code_i = 200 then lift (page_of_agent env agent msg p)
          else ret (p\<lparr> pg_nok := map_insert agent (error_manager env code_i msg) (pg_nok p) \<rparr>))))
       (\<lambda>e. lift (blame_agent env agent e p))"

definition devices_text :: "manager_env \<Rightarrow> int \<Rightarrow> json list \<Rightarrow> string" where
  "devices_text env n ds = bs_print (me_bson env) [(''count'', JInt n), (''devices'', JArray ds)]"

definition mgr_get_all_devices_json ::
  "'s mongo_driver \<Rightarrow> manager_env \<Rightarrow> string \<Rightarrow> string \<Rightarrow> int \<Rightarrow> int \<Rightarrow> string \<Rightarrow> string \<Rightarrow> string \<Rightarrow> string \<Rightarrow> string
   \<Rightarrow> (('s, 'z) manager_scheme, nat) action" where
  "mgr_get_all_devices_json drv env serv path limit offset detailed entity trace token protocol_filter =
     (if detailed \<noteq> [] \<and> detailed \<noteq> ''on'' \<and> detailed \<noteq> ''off''
      then create_response 400 RESPONSE_MESSAGE_BAD_REQUEST ''parameter detailed must be on or off''
      else
        bind_act (try_act is_IotaException (get_iotagents_by_service drv (me_bson env) serv path protocol_filter 0 0) (\<lambda>_. ret [])) (\<lambda>all_dest.
        bind_act (fold_act (ask_agent env (page_request env serv path detailed entity trace token protocol_filter)) all_dest
           \<lparr> pg_limit = limit, pg_offset = offset, pg_count = 0, pg_devices = [], pg_nok = [] \<rparr>) (\<lambda>p.
        bind_act (set_text (add_errors_to_response (devices_text env (pg_count p) (pg_devices p)) (pg_nok p))) (\<lambda>_.
        create_response 200 [] []))))"

subsection \<open>One device\<close>

definition query_agent ::
  "manager_env \<Rightarrow> string \<Rightarrow> string \<Rightarrow> string \<Rightarrow> string \<Rightarrow> string \<Rightarrow> string \<Rightarrow> agents_outcome \<Rightarrow> (('s, 'z) manager_scheme, agents_outcome) action" where
  "query_agent env serv path device_id trace token agent oc =
     try_act (\<lambda>_. True)
       (bind_act (lift (new_IoTUrl agent)) (\<lambda>dest.
        bind_act (agent_exchange env dest
          (mgr_create_request ''GET'' (url_path dest @ ADMIN_SERVICE_DEVICES @ ''/'' @ device_id) (make_query_string (me_encode env) [])
             [] token trace serv path dest)) (\<lambda>answer. ret (note_answer env 200 agent answer oc))))
       (\<lambda>e. ret (note_answer env 200 agent (- 1, exn_what e) oc))"

text \<open>Answers that are empty or no documents are left out.\<close>

fun found_devices :: "bson_lib \<Rightarrow> string list \<Rightarrow> doc list result" where
  "found_devices lib [] = Inr []"
| "found_devices lib (t # ts) =
     bind_exn (if boost_trim t = [] then Inr []
               else case bs_parse lib (boost_trim t) of
                      Inr d \<Rightarrow> Inr [d] | Inl e \<Rightarrow> if catchable e then Inr [] else Inl e) (\<lambda>d.
     bind_exn (found_devices lib ts) (\<lambda>ds. Inr (d @ ds)))"

definition mgr_get_a_device_json ::
  "'s mongo_driver \<Rightarrow> manager_env \<Rightarrow> string \<Rightarrow> string \<Rightarrow> string \<Rightarrow> string \<Rightarrow> string \<Rightarrow> string \<Rightarrow> (('s, 'z) manager_scheme, nat) action" where
  "mgr_get_a_device_json drv env serv path device_id trace token protocol_filter =
     bind_act (get_iotagents_by_service drv (me_bson env) serv path protocol_filter LIMIT_MAX 0) (\<lambda>all_dest.
     bind_act (fold_act (query_agent env serv path device_id trace token) all_dest no_outcome) (\<lambda>oc.
     bind_act (lift (found_devices (me_bson env) (map snd (oc_ok oc)))) (\<lambda>ds.
     bind_act (set_text (add_errors_to_response (devices_text env (int (length ds)) (map JObject ds)) (oc_nok oc))) (\<lambda>_.
     create_response 200 [] []))))"

subsection \<open>Changes of devices\<close>

definition device_request :: "string \<Rightarrow> string \<Rightarrow> string \<Rightarrow> string \<Rightarrow> string \<Rightarrow> IoTUrl \<Rightarrow> http_request" where
  "device_request method body serv sub_service token dest =
     \<lparr> hq_host = url_host dest, hq_port = url_port dest, hq_method = method, hq_resource = url_path dest,
       hq_content = body, hq_query = url_query dest,
       hq_headers = [(''Content-Type'', CONTENT_TYPE_JSON), (''Accept'', CONTENT_TYPE_JSON), (''Host'', url_host dest),
           (''Fiware-Service'', serv), (''Fiware-ServicePath'', sub_service)]
         @ (if token \<noteq> [] then [(HTTP_HEADER_AUTH, token)] else []) \<rparr>"

definition operation_device_iotagent ::
  "manager_env \<Rightarrow> string \<Rightarrow> string \<Rightarrow> string \<Rightarrow> string \<Rightarrow> string \<Rightarrow> string \<Rightarrow> (('s, 'z) manager_scheme, int \<times> string) action" where
  "operation_device_iotagent env url_iotagent body serv sub_service token method =
     try_act (\<lambda>_. True)
       (bind_act (lift (new_IoTUrl url_iotagent)) (\<lambda>dest.
        agent_exchange env dest (device_request method body serv sub_service token dest)))
       (\<lambda>e. bind_act (no_agent url_iotagent (exn_what e)) (\<lambda>_. ret (- 1, [])))"

text \<open>A device and the agent it goes to.\<close>

type_synonym DeviceToBeAdded = "string \<times> string"

definition change_device ::
  "manager_env \<Rightarrow> int \<Rightarrow> string \<Rightarrow> (string \<Rightarrow> string) \<Rightarrow> (string \<Rightarrow> string) \<Rightarrow> string \<Rightarrow> string \<Rightarrow> string
   \<Rightarrow> DeviceToBeAdded \<Rightarrow> agents_outcome \<Rightarrow> (('s, 'z) manager_scheme, agents_outcome) action" where
  "change_device env wanted method url_of content_of serv sub_service token dev oc =
     (let url_endpoint = url_of (snd dev) in
      bind_act (operation_device_iotagent env url_endpoint (content_of (fst dev)) serv sub_service token method) (\<lambda>answer.
      ret (note_answer env wanted url_endpoint answer oc)))"

definition multiple_devices ::
  "manager_env \<Rightarrow> int \<Rightarrow> string \<Rightarrow> (string \<Rightarrow> string) \<Rightarrow> (string \<Rightarrow> string) \<Rightarrow> string \<Rightarrow> string \<Rightarrow> string
   \<Rightarrow> DeviceToBeAdded list \<Rightarrow> (('s, 'z) manager_scheme, agents_outcome) action" where
  "multiple_devices env wanted method url_of content_of serv sub_service token devs =
     fold_act (change_device env wanted method url_of content_of serv sub_service token) devs no_outcome"

definition devices_url :: "string \<Rightarrow> string" where
  "devices_url agent = agent @ ADMIN_SERVICE_DEVICES"

definition devices_body :: "string \<Rightarrow> string" where
  "devices_body device_json = ''{'' @ quoted ''devices'' @ '':['' @ device_json @ '']}''"

definition post_multiple_devices ::
  "manager_env \<Rightarrow> DeviceToBeAdded list \<Rightarrow> string \<Rightarrow> string \<Rightarrow> string \<Rightarrow> (('s, 'z) manager_scheme, nat) action" where
  "post_multiple_devices env devs serv sub_service token =
     bind_act (set_text []) (\<lambda>_.
     bind_act (multiple_devices env 201 ''POST'' devices_url devices_body serv sub_service token devs) (\<lambda>oc.
     conclude 201 500 oc))"

definition device_url :: "manager_env \<Rightarrow> string \<Rightarrow> string \<Rightarrow> string" where
  "device_url env device_id agent = agent @ ADMIN_SERVICE_DEVICES @ ''/'' @ me_encode env device_id"

definition delete_multiple_devices ::
  "manager_env \<Rightarrow> DeviceToBeAdded list \<Rightarrow> string \<Rightarrow> string \<Rightarrow> string \<Rightarrow> string \<Rightarrow> (('s, 'z) manager_scheme, nat) action" where
  "delete_multiple_devices env devs device_id serv sub_service token =
     bind_act (multiple_devices env 204 ''DELETE'' (device_url env device_id) (\<lambda>_. []) serv sub_service token devs) (\<lambda>oc.
     conclude 204 404 oc)"

definition put_multiple_devices ::
  "manager_env \<Rightarrow> DeviceToBeAdded list \<Rightarrow> string \<Rightarrow> string \<Rightarrow> string \<Rightarrow> string \<Rightarrow> string \<Rightarrow> (('s, 'z) manager_scheme, nat) action" where
  "put_multiple_devices env devs device_id serv sub_service protocol_name token =
     bind_act (multiple_devices env 204 ''PUT''
        (\<lambda>agent. device_url env device_id agent @ (if protocol_name \<noteq> [] then ''?protocol='' @ me_encode env protocol_name else []))
        (\<lambda>device_json. device_json) serv sub_service token devs) (\<lambda>oc.
     conclude 204 404 oc)"

subsection \<open>The agents of the devices of a request\<close>

text \<open>The agents of a protocol are looked up once in a request; a device without a protocol is passed over.\<close>

fun resolve_devices ::
  "'s mongo_driver \<Rightarrow> manager_env \<Rightarrow> string \<Rightarrow> string \<Rightarrow> json list \<Rightarrow> (string, string list) std_map
   \<Rightarrow> (('s, 'z) mongo_scheme, DeviceToBeAdded list) action" where
  "resolve_devices drv env serv sub [] known = ret []"
| "resolve_devices drv env serv sub (d # ds) known =
     bind_act (lift (HasMember d ''protocol'')) (\<lambda>has.
       if has
       then
         bind_act (lift (member_string d ''protocol'')) (\<lambda>p.
         bind_act (case map_find known p of
                     Some agents \<Rightarrow> if agents \<noteq> [] then ret agents else get_iotagents_by_service drv (me_bson env) serv sub p 0 0
                   | None \<Rightarrow> get_iotagents_by_service drv (me_bson env) serv sub p 0 0) (\<lambda>agents.
         bind_act (resolve_devices drv env serv sub ds (map_assign p agents known)) (\<lambda>rest.
         ret (map (\<lambda>agent. (c_str (me_pretty env d), agent)) agents @ rest))))
       else resolve_devices drv env serv sub ds known)"

text \<open>The text is copied into an array of its own length, one short of what the copy writes; the model goes on
  as if it had the room.\<close>

definition resolve_endpoints ::
  "'s mongo_driver \<Rightarrow> manager_env \<Rightarrow> string \<Rightarrow> string \<Rightarrow> string \<Rightarrow> (('s, 'z) mongo_scheme, DeviceToBeAdded list) action" where
  "resolve_endpoints drv env devices_protocols_in serv sub_service =
     (let bad = (\<lambda>details. lift (iota_error RESPONSE_MESSAGE_BAD_REQUEST details 400));
          text = c_str devices_protocols_in
      in case jl_parse (me_json env) text of
           Inl e \<Rightarrow> bad (''AdminManagerService: '' @ e @ ''['' @ me_offset env text @ '']'')
         | Inr document \<Rightarrow>
             bind_act (lift (HasMember document ''devices'')) (\<lambda>has.
               if \<not> has then bad ''not proper formatted [devices] : not found''
               else
                 bind_act (lift (member document ''devices'')) (\<lambda>devs.
                   if \<not> IsArray devs then bad ''not proper formatted [devices]: not an array''
                   else
                     bind_act (lift (elements devs)) (\<lambda>ds.
                     bind_act (try_act is_IotaException (resolve_devices drv env serv sub_service ds []) (\<lambda>e. bad (exn_what e))) (\<lambda>v.
                       if v = []
                       then bad (RESPONSE_MESSAGE_MISSING_IOTAGENTS @ ''[service '' @ serv @ '' sub-service '' @ sub_service @ '']'')
                       else ret v)))))"

definition missing_service :: "('t, 'a) action" where
  "missing_service = lift (iota_error RESPONSE_MESSAGE_BAD_REQUEST ''Service or Service path are missing'' 400)"

definition missing_protocol :: "('t, 'a) action" where
  "missing_protocol = lift (iota_error RESPONSE_MESSAGE_MISSING_PARAMETER ''protocol parameter is mandatory'' 400)"

definition mgr_post_device_json ::
  "'s mongo_driver \<Rightarrow> manager_env \<Rightarrow> string \<Rightarrow> string \<Rightarrow> string \<Rightarrow> string \<Rightarrow> (('s, 'z) manager_scheme, nat) action" where
  "mgr_post_device_json drv env serv path body token =
     (if serv = [] \<or> path = [] then missing_service
      else bind_act (resolve_endpoints drv env body serv path) (\<lambda>v_endpoints.
           bind_act (post_multiple_devices env v_endpoints serv path token) (\<lambda>cd.
           create_response cd [] [])))"

definition mgr_delete_device_json ::
  "'s mongo_driver \<Rightarrow> manager_env \<Rightarrow> string \<Rightarrow> string \<Rightarrow> string \<Rightarrow> string \<Rightarrow> string \<Rightarrow> (('s, 'z) manager_scheme, nat) action" where
  "mgr_delete_device_json drv env serv path id_device token protocol_name =
     (if protocol_name = [] then missing_protocol
      else if serv = [] \<or> path = [] then missing_service
      else bind_act (get_iotagents_by_service drv (me_bson env) serv path protocol_name 0 0) (\<lambda>v_endpoint.
           bind_act (delete_multiple_devices env (map (Pair []) v_endpoint) id_device serv path token) (\<lambda>cd.
           create_response cd [] [])))"

definition mgr_put_device_json ::
  "'s mongo_driver \<Rightarrow> manager_env \<Rightarrow> string \<Rightarrow> string \<Rightarrow> string \<Rightarrow> string \<Rightarrow> string \<Rightarrow> string \<Rightarrow> (('s, 'z) manager_scheme, nat) action" where
  "mgr_put_device_json drv env serv path device_id body token protocol_name =
     (if serv = [] \<or> path = [] then missing_service
      else if body = [] then lift (iota_error RESPONSE_MESSAGE_BAD_REQUEST ''Body is missing'' 400)
      else if protocol_name = [] then missing_protocol
      else case validate_json_schema (me_admin env) body (ae_put_device (me_admin env)) of
             Some error_details \<Rightarrow> lift (iota_error RESPONSE_MESSAGE_BAD_REQUEST error_details 400)
           | None \<Rightarrow>
               bind_act (get_iotagents_by_service drv (me_bson env) serv path protocol_name 0 0) (\<lambda>v_endpoint.
               bind_act (put_multiple_devices env (map (Pair body) v_endpoint) device_id serv path protocol_name token) (\<lambda>cd.
               create_response cd [] [])))"

end
