(* ===== verification/Manager_Service.thy ===== *)
theory Manager_Service
  imports Manager
begin

text \<open>
  The second part of the manager of agents (\<^verbatim>\<open>src/services/admin_mgmt_service.cc\<close>): requests for services, which
  go to the agents of their protocols, the registration of an agent with its protocol and services, the list
  of protocols, and the request handlers.
\<close>

section \<open>Services\<close>

text \<open>The agents of a protocol; of several protocols of one name, those of the last.\<close>

definition protocol_agents :: "'s mongo_driver \<Rightarrow> manager_env \<Rightarrow> string \<Rightarrow> (('s, 'z) mongo_scheme, resource_endpoint list) action" where
  "protocol_agents drv env protocol_filter =
     bind_act (get_endpoint_by_protocol drv (me_bson env) protocol_filter) (\<lambda>ps.
       ret (if ps = [] then [] else pc_endpoints (last ps)))"

text \<open>One agent; what is thrown raises an alarm and leaves no trace in the answer.\<close>

definition service_exchange ::
  "manager_env \<Rightarrow> int \<Rightarrow> (resource_endpoint \<Rightarrow> IoTUrl \<Rightarrow> http_request) \<Rightarrow> resource_endpoint \<Rightarrow> agents_outcome
   \<Rightarrow> (('s, 'z) manager_scheme, agents_outcome) action" where
  "service_exchange env wanted request ep oc =
     try_act (\<lambda>_. True)
       (bind_act (lift (new_IoTUrl (ep_endpoint ep))) (\<lambda>dest.
        bind_act (agent_exchange env dest (request ep dest)) (\<lambda>answer.
        ret (note_answer env wanted (ep_endpoint ep) answer oc))))
       (\<lambda>e. bind_act (no_agent (ep_endpoint ep) (exn_what e)) (\<lambda>_. ret oc))"

definition service_request ::
  "manager_env \<Rightarrow> string \<Rightarrow> string \<Rightarrow> string \<Rightarrow> string \<Rightarrow> string \<Rightarrow> (resource_endpoint \<Rightarrow> KVP list) \<Rightarrow> (resource_endpoint \<Rightarrow> string)
   \<Rightarrow> resource_endpoint \<Rightarrow> IoTUrl \<Rightarrow> http_request" where
  "service_request env method token trace serv path params content ep dest =
     mgr_create_request method (url_path dest @ ADMIN_SERVICE_SERVICES) (make_query_string (me_encode env) (params ep))
       (content ep) token trace serv path dest"

text \<open>What an agent is sent of a service: without the protocol and its description.\<close>

definition trimmed_service :: "doc \<Rightarrow> doc" where
  "trimmed_service d = removeField ''protocol'' (removeField ''description'' d)"

definition post_content :: "manager_env \<Rightarrow> doc \<Rightarrow> resource_endpoint \<Rightarrow> string" where
  "post_content env d ep =
     bs_print (me_bson env) [(''services'', JArray [JObject (trimmed_service d @ [(''resource'', JString (ep_resource ep))])])]"

text \<open>Every service document of the body is sent to every agent of its protocol.\<close>

definition each_service ::
  "'s mongo_driver \<Rightarrow> manager_env \<Rightarrow> int \<Rightarrow> (doc \<Rightarrow> resource_endpoint \<Rightarrow> IoTUrl \<Rightarrow> http_request) \<Rightarrow> doc list
   \<Rightarrow> (('s, 'z) manager_scheme, agents_outcome) action" where
  "each_service drv env wanted request ds =
     fold_act (\<lambda>d oc.
       bind_act (protocol_agents drv env (bs_string (me_bson env) d ''protocol'')) (\<lambda>all_dest.
       fold_act (service_exchange env wanted (request d)) all_dest oc)) ds no_outcome"

text \<open>The status is set; the header of the type of the content is not.\<close>

definition with_services ::
  "'s mongo_driver \<Rightarrow> manager_env \<Rightarrow> string \<Rightarrow> string \<Rightarrow> nat \<Rightarrow> nat \<Rightarrow> (doc \<Rightarrow> resource_endpoint \<Rightarrow> IoTUrl \<Rightarrow> http_request)
   \<Rightarrow> (('s, 'z) manager_scheme, nat) action" where
  "with_services drv env body schema wanted none request =
     (if body = [] then lift (iota_error RESPONSE_MESSAGE_BAD_REQUEST ''empty body'' 400)
      else case validate_json_schema (me_admin env) body schema of
             Some error_details \<Rightarrow> lift (iota_error RESPONSE_MESSAGE_BAD_REQUEST error_details 400)
           | None \<Rightarrow>
               bind_act (lift (bs_parse (me_bson env) body)) (\<lambda>obj.
               bind_act (manager_getElementsFromBSON drv (me_bson env) obj) (\<lambda>obj_protocols.
               bind_act (each_service drv env (int wanted) request obj_protocols) (\<lambda>oc.
               bind_act (conclude wanted none oc) (\<lambda>cd.
               bind_act (set_code cd) (\<lambda>_. ret cd))))))"

definition mgr_post_service_json ::
  "'s mongo_driver \<Rightarrow> manager_env \<Rightarrow> string \<Rightarrow> string \<Rightarrow> string \<Rightarrow> string \<Rightarrow> string \<Rightarrow> (('s, 'z) manager_scheme, nat) action" where
  "mgr_post_service_json drv env serv path body token trace =
     with_services drv env body (me_post_service env) 201 500
       (\<lambda>d. service_request env ''POST'' token trace serv path (\<lambda>_. []) (post_content env d))"

definition mgr_put_service_json ::
  "'s mongo_driver \<Rightarrow> manager_env \<Rightarrow> string \<Rightarrow> string \<Rightarrow> string \<Rightarrow> string \<Rightarrow> string \<Rightarrow> string \<Rightarrow> (('s, 'z) manager_scheme, nat) action" where
  "mgr_put_service_json drv env serv path apikey body token trace =
     with_services drv env body (me_put_service env) 204 404
       (\<lambda>d. service_request env ''PUT'' token trace serv path
          (\<lambda>ep. (if apikey \<noteq> [] then [(''apikey'', apikey)] else []) @ [(''resource'', ep_resource ep)])
          (\<lambda>_. bs_print (me_bson env) (trimmed_service d)))"

definition mgr_delete_service_json ::
  "'s mongo_driver \<Rightarrow> manager_env \<Rightarrow> string \<Rightarrow> string \<Rightarrow> string \<Rightarrow> string \<Rightarrow> string \<Rightarrow> (('s, 'z) manager_scheme, nat) action" where
  "mgr_delete_service_json drv env serv path resource token trace =
     (if resource = [] then lift (iota_error RESPONSE_MESSAGE_BAD_REQUEST ''protocol is madatory'' 400)
      else
        bind_act (get_endpoint_by_protocol drv (me_bson env) resource) (\<lambda>ps.
          if ps = [] then lift (iota_error RESPONSE_MESSAGE_BAD_REQUEST (''Protocol does not exists ['' @ resource @ '']'') 404)
          else
            bind_act (fold_act (service_exchange env 204
               (service_request env ''DELETE'' token trace serv path (\<lambda>ep. [(''resource'', ep_resource ep)]) (\<lambda>_. [])))
               (pc_endpoints (last ps)) no_outcome) (\<lambda>oc.
            bind_act (conclude 204 404 oc) (\<lambda>cd.
            bind_act (set_code cd) (\<lambda>_. ret cd)))))"

section \<open>Protocols\<close>

definition delete_all_protocol_json :: "'s mongo_driver \<Rightarrow> string \<Rightarrow> (('s, 'z) manager_scheme, nat) action" where
  "delete_all_protocol_json drv protocol_name =
     (let every = (if protocol_name \<noteq> [] then [(''protocol'', JString protocol_name)] else [])
      in bind_act (mongo_remove drv PROTOCOL_TABLE every) (\<lambda>_.
         bind_act (mongo_remove drv MANAGER_SERVICE_TABLE every) (\<lambda>_.
         create_response 204 [] [])))"

text \<open>The agent is known by its identifier, or by its address, or is added to the protocol.\<close>

definition elem_match :: "string \<Rightarrow> string \<Rightarrow> string \<Rightarrow> doc" where
  "elem_match protocol_name k v =
     [(''protocol'', JString protocol_name), (''endpoints'', JObject [(''$elemMatch'', JObject [(k, JString v)])])]"

definition add_agent :: "string \<Rightarrow> string \<Rightarrow> string \<Rightarrow> string \<Rightarrow> doc" where
  "add_agent description url resource endpoint_id =
     [(''$set'', JObject [(''description'', JString description)]),
      (''$addToSet'', JObject [(''endpoints'', JObject
         [(''endpoint'', JString url), (''resource'', JString resource), (''identifier'', JString endpoint_id)])])]"

definition tried_update :: "'s mongo_driver \<Rightarrow> doc \<Rightarrow> doc \<Rightarrow> (('s, 'z) mongo_scheme, int) action" where
  "tried_update drv query changes =
     try_act is_IotaException (update_r drv PROTOCOL_TABLE query (set_doc changes) True 0) (\<lambda>_. ret 0)"

definition update_protocol ::
  "'s mongo_driver \<Rightarrow> string \<Rightarrow> string \<Rightarrow> string \<Rightarrow> string \<Rightarrow> string \<Rightarrow> (('s, 'z) mongo_scheme, unit) action" where
  "update_protocol drv protocol_name description url resource endpoint_id =
     bind_act (tried_update drv (elem_match protocol_name ''identifier'' endpoint_id)
        (SERVICE_fields [(''endpoints.$.endpoint'', url), (''endpoints.$.resource'', resource)])) (\<lambda>ups1.
     bind_act (if ups1 = 0
               then tried_update drv (elem_match protocol_name ''endpoint'' url)
                      (SERVICE_fields [(''endpoints.$.identifier'', endpoint_id), (''endpoints.$.resource'', resource)])
               else ret ups1) (\<lambda>ups2.
       if ups2 = 0
       then bind_act (update_r drv PROTOCOL_TABLE [(''protocol'', JString protocol_name)]
              (add_agent description url resource endpoint_id) True 0) (\<lambda>_. ret ())
       else ret ()))"

text \<open>A service that is new or differs is written; what remains of the map are the services the agent no
  longer has.\<close>

fun update_services ::
  "'s mongo_driver \<Rightarrow> manager_env \<Rightarrow> string \<Rightarrow> string \<Rightarrow> string \<Rightarrow> json list \<Rightarrow> (string, doc) std_map
   \<Rightarrow> (('s, 'z) mongo_scheme, (string, doc) std_map) action" where
  "update_services drv env url protocol_name description [] services_in_mongo = ret services_in_mongo"
| "update_services drv env url protocol_name description (e # es) services_in_mongo =
     bind_act (lift (bs_embedded (me_bson env) e)) (\<lambda>srvObj.
       let key = mgmt_service_key (me_bson env) srvObj;
           changed = (case map_find services_in_mongo key of None \<Rightarrow> True | Some d \<Rightarrow> \<not> me_same env srvObj d)
       in bind_act (if changed
                    then bind_act (mongo_update drv MANAGER_SERVICE_TABLE
                           (SERVICE_fields [(''service'', bs_string (me_bson env) srvObj ''service''),
                              (''service_path'', bs_string (me_bson env) srvObj ''service_path''),
                              (''iotagent'', url), (''protocol'', protocol_name)])
                           (removeField ''resource'' (removeField ''service_path'' (removeField ''service'' srvObj))
                            @ [(''description'', JString description)]) True) (\<lambda>_. ret ())
                    else ret ()) (\<lambda>_.
          update_services drv env url protocol_name description es (map_erase key services_in_mongo)))"

definition register_protocol :: "'s mongo_driver \<Rightarrow> manager_env \<Rightarrow> doc \<Rightarrow> (('s, 'z) mongo_scheme, unit) action" where
  "register_protocol drv env obj =
     (let lib = me_bson env;
          url = bs_string lib obj ''iotagent'';
          endpoint_id = (if bs_string lib obj ''identifier'' = [] then url else bs_string lib obj ''identifier'');
          description = bs_string lib obj ''description'';
          protocol_name = bs_string lib obj ''protocol''
      in bind_act (update_protocol drv protocol_name description url (bs_string lib obj ''resource'') endpoint_id) (\<lambda>_.
         bind_act (fillServices drv lib url protocol_name) (\<lambda>services_in_mongo.
         bind_act (if has_field obj ''services''
                   then bind_act (lift (bs_array lib obj ''services'')) (\<lambda>be.
                        update_services drv env url protocol_name description be services_in_mongo)
                   else ret services_in_mongo) (\<lambda>gone.
         bind_act (for_each (\<lambda>(k, d). mongo_remove drv MANAGER_SERVICE_TABLE d) gone) (\<lambda>_. ret ())))))"

definition post_protocol_json :: "'s mongo_driver \<Rightarrow> manager_env \<Rightarrow> string \<Rightarrow> (('s, 'z) manager_scheme, nat) action" where
  "post_protocol_json drv env body =
     (if body = [] then create_response 400 RESPONSE_MESSAGE_BAD_REQUEST ''empty body''
      else case validate_json_schema (me_admin env) body (me_post_protocol env) of
             Some error_details \<Rightarrow> create_response 400 RESPONSE_MESSAGE_BAD_REQUEST error_details
           | None \<Rightarrow>
               bind_act (lift (bs_parse (me_bson env) body)) (\<lambda>obj.
               bind_act (register_protocol drv env obj) (\<lambda>_.
               create_response 201 [] [])))"

text \<open>The protocols are counted before the parameter is checked.\<close>

definition get_protocols_json ::
  "'s mongo_driver \<Rightarrow> manager_env \<Rightarrow> int \<Rightarrow> int \<Rightarrow> string \<Rightarrow> (('s, 'z) manager_scheme, nat) action" where
  "get_protocols_json drv env limit offset detailed =
     bind_act (mongo_count drv PROTOCOL_TABLE []) (\<lambda>count.
       if detailed \<noteq> [] \<and> detailed \<noteq> ''off'' \<and> detailed \<noteq> ''on''
       then create_response 400 RESPONSE_MESSAGE_BAD_REQUEST ''parameter detailed must be on or off''
       else
         bind_act (mongo_find drv PROTOCOL_TABLE [] limit offset (index_on [''protocol''])
           (if detailed \<noteq> ''on'' then [(''protocol'', JInt 1), (''description'', JInt 1)] else [])) (\<lambda>(_, c).
         bind_act (read_cursor drv c) (\<lambda>ds.
         create_response 200
           (''{ '' @ quoted ''count'' @ '': '' @ show_int count @ '','' @ quoted ''protocols'' @ '': [''
            @ join_with '','' (map (bs_print (me_bson env)) ds) @ '']}'') [])))"

section \<open>Handlers\<close>

text \<open>Unlike the pages of devices and services, a page of protocols may have a negative offset.\<close>

definition protocols_page :: "admin_request \<Rightarrow> (int \<times> int) option" where
  "protocols_page q =
     Option.bind (if query_param q ''limit'' = [] then Some LIMIT_DEFAULT
                  else map_option (\<lambda>l. if l < 0 then LIMIT_DEFAULT else if l > LIMIT_MAX then LIMIT_MAX else l)
                         (lexical_int (query_param q ''limit''))) (\<lambda>limit.
     Option.bind (if query_param q ''offset'' = [] then Some 0 else lexical_int (query_param q ''offset'')) (\<lambda>offset.
       Some (limit, offset)))"

definition protocols :: "'s mongo_driver \<Rightarrow> manager_env \<Rightarrow> admin_request \<Rightarrow> (('s, 'z) manager_scheme, nat) action" where
  "protocols drv env q =
     answered (numbered q (bind_act mongo_configured (\<lambda>_.
       if aq_method q = ''POST'' then post_protocol_json drv env (boost_trim (aq_content q))
       else if aq_method q = ''GET'' then
         (case protocols_page q of
            None \<Rightarrow> throw (bad_cast ''bad_lexical_cast'')
          | Some (limit, offset) \<Rightarrow> get_protocols_json drv env limit offset ''on'')
       else create_response 404 [] [])))"

definition mgr_get_param_resource :: "admin_request \<Rightarrow> bool \<Rightarrow> string result" where
  "mgr_get_param_resource q mandatory =
     (if mandatory \<and> query_param q ''protocol'' = []
      then iota_error RESPONSE_MESSAGE_MISSING_PARAMETER ''protocol parameter is mandatory'' 400
      else Inr (query_param q ''protocol''))"

text \<open>The inherited handlers, with the token and the trace of the request.\<close>

definition mgr_devices ::
  "'s mongo_driver \<Rightarrow> manager_env \<Rightarrow> admin_request \<Rightarrow> string \<Rightarrow> string \<Rightarrow> (('s, 'z) manager_scheme, nat) action" where
  "mgr_devices drv env q token trace =
     answered (numbered q (bind_act mongo_configured (\<lambda>_.
       if bad_headers q then headers_error
       else if aq_method q = ''POST'' then
         mgr_post_device_json drv env (aq_service q) (the_path q) (boost_trim (aq_content q)) token
       else if aq_method q = ''GET'' then
         with_page q (\<lambda>limit offset.
           mgr_get_all_devices_json drv env (aq_service q) (the_path q) limit offset (query_param q ''detailed'')
             (query_param q ''entity'') trace token (query_param q ''protocol''))
       else create_response 405 RESPONSE_MESSAGE_METHOD_NOT_ALLOWED [])))"

definition mgr_device ::
  "'s mongo_driver \<Rightarrow> manager_env \<Rightarrow> admin_request \<Rightarrow> string \<Rightarrow> string \<Rightarrow> (('s, 'z) manager_scheme, nat) action" where
  "mgr_device drv env q token trace =
     answered (
       if bad_headers q then headers_error
       else if aq_method q = ''PUT'' then
         mgr_put_device_json drv env (aq_service q) (the_path q) (aq_url_arg q) (boost_trim (aq_content q)) token (query_param q ''protocol'')
       else if aq_method q = ''GET'' then
         mgr_get_a_device_json drv env (aq_service q) (the_path q) (aq_url_arg q) trace token (query_param q ''protocol'')
       else if aq_method q = ''DELETE'' then
         mgr_delete_device_json drv env (aq_service q) (the_path q) (aq_url_arg q) token (query_param q ''protocol'')
       else create_response 405 [] [])"

text \<open>The table of services is the manager's, and the resource is a protocol.\<close>

definition mgr_get_all_services_json ::
  "'s mongo_driver \<Rightarrow> manager_env \<Rightarrow> string \<Rightarrow> string \<Rightarrow> int \<Rightarrow> int \<Rightarrow> string \<Rightarrow> (('s, 'z) manager_scheme, nat) action" where
  "mgr_get_all_services_json drv env serv path limit offset resource =
     list_documents drv (me_admin env) MANAGER_SERVICE_TABLE ''services''
       (SERVICE_fields ([(''service'', serv)] @ addServicePath path
          @ (if resource \<noteq> [] then [(''protocol'', resource)] else [])))
       limit offset (index_on [''service'', ''service_path'']) [(''service'', JInt 1)] ''on''"

definition mgr_remove_service ::
  "'s mongo_driver \<Rightarrow> manager_env \<Rightarrow> admin_request \<Rightarrow> string \<Rightarrow> string \<Rightarrow> (nat \<Rightarrow> (('s, 'z) manager_scheme, nat) action)
   \<Rightarrow> (('s, 'z) manager_scheme, nat) action" where
  "mgr_remove_service drv env q token trace after =
     bind_act (lift (mgr_get_param_resource q True)) (\<lambda>resource.
       if every_path (the_path q) \<and> read_boolalpha (query_param q ''device'')
       then create_response 400 RESPONSE_MESSAGE_INVALID_PARAMETER
              (''Fiware-ServicePath is invalid in DELETE operation ['' @ the_path q @ ''] removing devices'')
       else bind_act (mgr_delete_service_json drv env (aq_service q) (the_path q) resource token trace) after)"

definition mgr_services ::
  "'s mongo_driver \<Rightarrow> manager_env \<Rightarrow> admin_request \<Rightarrow> string \<Rightarrow> string \<Rightarrow> (('s, 'z) manager_scheme, nat) action" where
  "mgr_services drv env q token trace =
     answered (numbered q (bind_act mongo_configured (\<lambda>_.
       if bad_headers q then headers_error
       else if aq_method q = ''POST'' then
         mgr_post_service_json drv env (aq_service q) (the_path q) (boost_trim (aq_content q)) token trace
       else if aq_method q = ''GET'' then
         with_page q (\<lambda>limit offset.
           bind_act (lift (mgr_get_param_resource q False)) (\<lambda>resource.
           mgr_get_all_services_json drv env (aq_service q) (the_path q) limit offset resource))
       else if aq_method q = ''PUT'' then
         (if every_path (the_path q)
          then create_response 400 RESPONSE_MESSAGE_INVALID_PARAMETER
                 (''Fiware-ServicePath is invalid in PUT operation ['' @ the_path q @ '']'')
          else mgr_put_service_json drv env (aq_service q) (the_path q) (query_param q ''apikey'') (boost_trim (aq_content q)) token trace)
       else if aq_method q = ''DELETE'' then
         mgr_remove_service drv env q token trace (\<lambda>cd. create_response cd [] [])
       else create_response 404 [] [])))"

definition mgr_service_handler ::
  "'s mongo_driver \<Rightarrow> manager_env \<Rightarrow> admin_request \<Rightarrow> string \<Rightarrow> string \<Rightarrow> (('s, 'z) manager_scheme, nat) action" where
  "mgr_service_handler drv env q token trace =
     answered (bind_act mongo_configured (\<lambda>_.
       if bad_headers q then headers_error
       else if aq_url_arg q = []
       then create_response 400 RESPONSE_MESSAGE_INVALID_PARAMETER ''<service_id> not provided in urlFiware-Service''
       else if aq_service q \<noteq> aq_url_arg q
       then create_response 400 RESPONSE_MESSAGE_INVALID_PARAMETER ''service in url conflicts with Fiware-Service''
       else if aq_method q = ''PUT'' then
         (if query_param q ''resource'' = []
          then create_response 400 RESPONSE_MESSAGE_MISSING_PARAMETER ''resource parameter is mandatory in PUT operation''
          else mgr_put_service_json drv env (aq_service q) (the_path q) (query_param q ''apikey'') (boost_trim (aq_content q)) token trace)
       else if aq_method q = ''GET'' then
         mgr_get_all_services_json drv env (aq_service q) (the_path q) 0 0 (query_param q ''resource'')
       else if aq_method q = ''DELETE'' then mgr_remove_service drv env q token trace ret
       else create_response 404 [] []))"

end
