(* ===== verification/Manager_Safety.thy ===== *)
theory Manager_Safety
  imports Manager_Service
begin

text \<open>
  What the manager of agents guarantees: its handlers answer, requests for devices leave its database alone,
  the status of a change tells how the agents answered, the list of devices is put together from the pages of
  the agents, and a registration removes the services the agent no longer has.
\<close>

section \<open>Every handler answers\<close>

lemma answers_set_status [answers_intros]: "answering (bind_act (set_code cd) (\<lambda>_. ret cd))"
  by (auto simp: answering_def set_code_def bind_act_def update_state_def ret_def)

lemma answers_devices [answers_intros]:
  "answering (mgr_get_all_devices_json drv env serv path limit offset detailed entity trace token p)"
  "answering (mgr_get_a_device_json drv env serv path d trace token p)"
  "answering (mgr_post_device_json drv env serv path body token)"
  "answering (mgr_delete_device_json drv env serv path d token p)"
  "answering (mgr_put_device_json drv env serv path d body token p)"
  unfolding mgr_get_all_devices_json_def mgr_get_a_device_json_def mgr_post_device_json_def mgr_delete_device_json_def
    mgr_put_device_json_def missing_service_def missing_protocol_def Let_def
  by (intro answers_intros)+

lemma answers_manager_services [answers_intros]:
  "answering (with_services drv env body schema wanted none request)"
  "answering (mgr_post_service_json drv env serv path body token trace)"
  "answering (mgr_put_service_json drv env serv path apikey body token trace)"
  "answering (mgr_delete_service_json drv env serv path resource token trace)"
  "answering (mgr_get_all_services_json drv env serv path limit offset resource)"
  unfolding mgr_post_service_json_def mgr_put_service_json_def mgr_delete_service_json_def with_services_def
    mgr_get_all_services_json_def Let_def
  by (intro answers_intros)+

lemma answers_protocols [answers_intros]:
  "answering (post_protocol_json drv env body)" "answering (get_protocols_json drv env limit offset detailed)"
  unfolding post_protocol_json_def get_protocols_json_def by (intro answers_intros)+

lemma answers_mgr_remove [answers_intros]:
  "answering (mgr_remove_service drv env q token trace (\<lambda>cd. create_response cd [] []))"
  "answering (mgr_remove_service drv env q token trace ret)"
  unfolding mgr_remove_service_def Let_def bind_act_ret by (intro answers_intros)+

lemma manager_handlers_end:
  "answering (mgr_devices drv env q token trace)" "answering (mgr_device drv env q token trace)"
  "answering (mgr_services drv env q token trace)" "answering (mgr_service_handler drv env q token trace)"
  "answering (protocols drv env q)"
  unfolding mgr_devices_def mgr_device_def mgr_services_def mgr_service_handler_def protocols_def
  by (intro answers_intros)+



section \<open>Requests for devices leave the database alone\<close>

definition sent_free :: "(('s, 'z) manager_scheme \<Rightarrow> bool) \<Rightarrow> bool" where
  "sent_free P \<longleftrightarrow> (\<forall>st q. P st \<longrightarrow> P (st\<lparr> mn_sent := q \<rparr>))"

lemma keeps_agent_alarm [keeps_intros]: "notice_free P \<Longrightarrow> keeps P (agent_alarm a)" "notice_free P \<Longrightarrow> keeps P (no_agent url t)"
  unfolding no_agent_def agent_alarm_def by (intro keeps_update; simp add: notice_free_def)+

lemma keeps_check_alarm [keeps_intros]: "notice_free P \<Longrightarrow> keeps P (check_alarm env q a)"
  unfolding check_alarm_def by (intro keeps_intros) (auto split: option.split intro!: keeps_intros)

lemma keeps_agent_exchange [keeps_intros]: "notice_free P \<Longrightarrow> sent_free P \<Longrightarrow> keeps P (agent_exchange env dest q)"
  unfolding agent_exchange_def Let_def by (intro keeps_intros keeps_update) (simp add: sent_free_def)

lemma keeps_fold_act [keeps_intros]: "(\<And>x b. keeps P (f x b)) \<Longrightarrow> keeps P (fold_act f xs b)"
  by (induction xs arbitrary: b) (auto intro!: keeps_intros)

lemma keeps_set_text [keeps_intros]: "reply_free P \<Longrightarrow> keeps P (set_text t)" "reply_free P \<Longrightarrow> keeps P (set_code cd)"
  unfolding set_text_def set_code_def by (intro keeps_update; simp add: reply_free_def)+

lemma keeps_conclude [keeps_intros]: "reply_free P \<Longrightarrow> keeps P (conclude wanted none oc)"
  unfolding conclude_def Let_def by (intro keeps_intros)

lemma keeps_agent_requests [keeps_intros]:
  assumes "notice_free P" "sent_free P"
  shows "keeps P (ask_agent env request agent p)" "keeps P (query_agent env serv path d trace token agent oc)"
    "keeps P (operation_device_iotagent env url body serv sub token method)"
  unfolding ask_agent_def query_agent_def operation_device_iotagent_def by (intro keeps_intros assms)+

lemma keeps_multiple_devices [keeps_intros]:
  assumes "notice_free P" "sent_free P"
  shows "keeps P (multiple_devices env wanted method url_of content_of serv sub token devs)"
  unfolding multiple_devices_def change_device_def Let_def by (intro keeps_intros assms)

lemma keeps_changes_of_devices [keeps_intros]:
  assumes "notice_free P" "sent_free P" "reply_free P"
  shows "keeps P (post_multiple_devices env devs serv sub token)"
    "keeps P (delete_multiple_devices env devs d serv sub token)"
    "keeps P (put_multiple_devices env devs d serv sub p token)"
  unfolding post_multiple_devices_def delete_multiple_devices_def put_multiple_devices_def
  by (intro keeps_intros assms)+

definition distinct_free :: "(('s, 'z) mongo_scheme \<Rightarrow> bool) \<Rightarrow> 's mongo_driver \<Rightarrow> bool" where
  "distinct_free P drv \<longleftrightarrow> notice_free P \<and> (\<forall>db t r. op_keeps P (dr_command drv db ((''distinct'', t) # r)))"

lemma keeps_distinct [keeps_intros]:
  assumes "distinct_free P drv"
  shows "keeps P (distinct_values drv name field query)"
proof -
  have P: "notice_free P" "op_keeps P (dr_command drv db ((''distinct'', t) # r))" for db t r
    using assms by (simp_all add: distinct_free_def)
  show ?thesis unfolding distinct_values_def run_command_def
    by (intro keeps_bind keeps_driver P(2)) (auto split: sum.split intro!: keeps_intros keeps_driver P)
qed

lemma keeps_get_iotagents [keeps_intros]:
  "distinct_free P drv \<Longrightarrow> keeps P (get_iotagents_by_service drv lib serv path p limit skip)"
  unfolding get_iotagents_by_service_def Let_def by (intro keeps_intros)

lemma keeps_resolve_devices [keeps_intros]:
  "distinct_free P drv \<Longrightarrow> keeps P (resolve_devices drv env serv sub ds known)"
  by (induction ds arbitrary: known) (auto intro!: keeps_intros)

lemma keeps_resolve_endpoints [keeps_intros]:
  "distinct_free P drv \<Longrightarrow> keeps P (resolve_endpoints drv env body serv sub)"
  unfolding resolve_endpoints_def Let_def by (auto split: sum.split intro!: keeps_intros)

text \<open>A driver that answers queries for distinct values and changes nothing.\<close>

definition pure_distinct :: "'s mongo_driver \<Rightarrow> bool" where
  "pure_distinct drv \<longleftrightarrow> (\<forall>db t r s. snd (dr_command drv db ((''distinct'', t) # r) s) = s)"

text \<open>a request for devices, of any method, leaves the database of the manager as it is: devices are kept by
  the agents only.\<close>

theorem manager_keeps_no_devices:
  assumes "pure_distinct drv" "m \<in> {mgr_devices drv env q token trace, mgr_device drv env q token trace}"
    and "m st = Some (r, st')"
  shows "mg_data st' = mg_data st"
proof -
  define P where "P = (\<lambda>s :: ('a, 'b) manager_scheme. mg_data s = mg_data st)"
  have P: "distinct_free P drv" "notice_free P" "sent_free P" "reply_free P"
    using assms(1) by (simp_all add: P_def distinct_free_def notice_free_def op_keeps_def reply_free_def sent_free_def pure_distinct_def)
  have "keeps P (mgr_devices drv env q token trace)" "keeps P (mgr_device drv env q token trace)"
    unfolding mgr_devices_def mgr_device_def mgr_post_device_json_def mgr_get_all_devices_json_def mgr_put_device_json_def
      mgr_get_a_device_json_def mgr_delete_device_json_def missing_service_def missing_protocol_def
    by (intro keeps_intros P)+
  then have "keeps P m" using assms(2) by auto
  from keeps_at [OF this assms(3)] show ?thesis by (simp add: P_def)
qed


section \<open>The status of a change\<close>

definition reachable :: "manager_env \<Rightarrow> string \<Rightarrow> bool" where
  "reachable env url \<longleftrightarrow> (case new_IoTUrl url of Inl e \<Rightarrow> False | Inr dest \<Rightarrow>
     (case new_HttpClient (aw_dns (ae_agent (me_admin env))) (url_host dest) (url_port dest) of Inl e \<Rightarrow> False | Inr cl \<Rightarrow> True))"

definition the_url :: "string \<Rightarrow> IoTUrl" where
  "the_url url = (case new_IoTUrl url of Inr dest \<Rightarrow> dest | Inl e \<Rightarrow> \<lparr> url_protocol = [], url_host = [], url_port = 0, url_path = [], url_query = [] \<rparr>)"

definition answer_code :: "http_answer \<Rightarrow> int" where
  "answer_code answer = (case answer of (Some resp, None) \<Rightarrow> int (hp_status resp) | _ \<Rightarrow> - 1)"

lemma reachableD:
  assumes "reachable env url"
  obtains cl where "new_IoTUrl url = Inr (the_url url)"
    "new_HttpClient (aw_dns (ae_agent (me_admin env))) (url_host (the_url url)) (url_port (the_url url)) = Inr cl"
  using assms by (auto simp: reachable_def the_url_def split: sum.splits)

lemma check_alarm_runs:
  "\<exists>a. check_alarm env q answer st = Some (Inr (answer_code answer), st\<lparr> mg_alarms := a \<rparr>)"
  by (auto simp: check_alarm_def answer_code_def agent_alarm_def no_agent_def update_state_def ret_def bind_act_def
      split: option.split prod.split)

text \<open>With an agent that can be reached, an exchange sends its request and gives the code and text of the
  answer; only alarms change besides.\<close>

lemma agent_exchange_runs:
  fixes st :: "('s, 'z) manager_scheme"
  assumes "new_HttpClient (aw_dns (ae_agent (me_admin env))) (url_host dest) (url_port dest) = Inr cl"
  and ans: "answer = me_http env (length (mn_sent st)) q (me_timeout env)"
  shows "\<exists>a. agent_exchange env dest q st
    = Some (Inr (answer_code answer, answer_text env answer), st\<lparr> mn_sent := mn_sent st @ [q], mg_alarms := a \<rparr>)"
proof -
  obtain a where a: "check_alarm env q answer (st\<lparr> mn_sent := mn_sent st @ [q] \<rparr>)
      = Some (Inr (answer_code answer), st\<lparr> mn_sent := mn_sent st @ [q], mg_alarms := a \<rparr>)"
    using check_alarm_runs [of env q answer "st\<lparr> mn_sent := mn_sent st @ [q] \<rparr>"] by auto
  show ?thesis by (intro exI [of _ a]) (simp add: agent_exchange_def assms(1) ans [symmetric] a bind_act_def [of "check_alarm _ _ _"] ret_def)
qed

lemma operation_runs:
  fixes st :: "('s, 'z) manager_scheme"
  assumes "reachable env url"
  and q: "q = device_request method body serv sub token (the_url url)"
  and ans: "answer = me_http env (length (mn_sent st)) q (me_timeout env)"
  shows "\<exists>a. operation_device_iotagent env url body serv sub token method st
    = Some (Inr (answer_code answer, answer_text env answer), st\<lparr> mn_sent := mn_sent st @ [q], mg_alarms := a \<rparr>)"
proof -
  obtain cl where cl: "new_IoTUrl url = Inr (the_url url)"
    "new_HttpClient (aw_dns (ae_agent (me_admin env))) (url_host (the_url url)) (url_port (the_url url)) = Inr cl"
    using assms(1) by (rule reachableD)
  then show ?thesis
    using agent_exchange_runs [OF cl(2) ans] unfolding q
    by (auto simp: operation_device_iotagent_def try_act_def)
qed

text \<open>The requests of a change in the order of the devices, and the codes the agents answer them with.\<close>

definition device_requests ::
  "string \<Rightarrow> (string \<Rightarrow> string) \<Rightarrow> (string \<Rightarrow> string) \<Rightarrow> string \<Rightarrow> string \<Rightarrow> string \<Rightarrow> DeviceToBeAdded list \<Rightarrow> http_request list" where
  "device_requests method url_of content_of serv sub token devs =
     map (\<lambda>d. device_request method (content_of (fst d)) serv sub token (the_url (url_of (snd d)))) devs"

fun codes_from :: "manager_env \<Rightarrow> nat \<Rightarrow> http_request list \<Rightarrow> int list" where
  "codes_from env n [] = []"
| "codes_from env n (q # qs) = answer_code (me_http env n q (me_timeout env)) # codes_from env (Suc n) qs"

definition tells :: "int \<Rightarrow> int list \<Rightarrow> agents_outcome \<Rightarrow> agents_outcome \<Rightarrow> bool" where
  "tells wanted cs oc oc' \<longleftrightarrow>
     (oc_ok oc' = [] \<longleftrightarrow> oc_ok oc = [] \<and> wanted \<notin> set cs)
     \<and> (oc_nok oc' = [] \<longleftrightarrow> oc_nok oc = [] \<and> list_all (\<lambda>c. c = wanted) cs)"

lemma map_insert_not_Nil [simp]: "map_insert k v m \<noteq> []"
  by (induction k v m rule: map_insert.induct) auto

lemma multiple_devices_runs:
  assumes "list_all (\<lambda>d. reachable env (url_of (snd d))) devs"
  shows "\<exists>oc' a. fold_act (change_device env wanted method url_of content_of serv sub token) devs oc st
      = Some (Inr oc', st\<lparr> mn_sent := mn_sent st @ device_requests method url_of content_of serv sub token devs, mg_alarms := a \<rparr>)
    \<and> tells wanted (codes_from env (length (mn_sent st)) (device_requests method url_of content_of serv sub token devs)) oc oc'"
  using assms
proof (induction devs arbitrary: oc st)
  case Nil
  show ?case by (intro exI [of _ oc] exI [of _ "mg_alarms st"]) (simp add: device_requests_def ret_def tells_def)
next
  case (Cons d devs)
  let ?q = "device_request method (content_of (fst d)) serv sub token (the_url (url_of (snd d)))"
  let ?answer = "me_http env (length (mn_sent st)) ?q (me_timeout env)"
  let ?oc = "note_answer env wanted (url_of (snd d)) (answer_code ?answer, answer_text env ?answer) oc"
  obtain a where a: "operation_device_iotagent env (url_of (snd d)) (content_of (fst d)) serv sub token method st
      = Some (Inr (answer_code ?answer, answer_text env ?answer), st\<lparr> mn_sent := mn_sent st @ [?q], mg_alarms := a \<rparr>)"
    using operation_runs [of env "url_of (snd d)", OF _ refl refl] Cons.prems by fastforce
  have step: "change_device env wanted method url_of content_of serv sub token d oc st
      = Some (Inr ?oc, st\<lparr> mn_sent := mn_sent st @ [?q], mg_alarms := a \<rparr>)"
    by (simp add: change_device_def a bind_act_def ret_def Let_def)
  obtain oc' b where rest: "fold_act (change_device env wanted method url_of content_of serv sub token) devs ?oc
        (st\<lparr> mn_sent := mn_sent st @ [?q], mg_alarms := a \<rparr>)
      = Some (Inr oc', st\<lparr> mn_sent := (mn_sent st @ [?q]) @ device_requests method url_of content_of serv sub token devs, mg_alarms := b \<rparr>)"
    "tells wanted (codes_from env (Suc (length (mn_sent st))) (device_requests method url_of content_of serv sub token devs)) ?oc oc'"
    using Cons.IH [of ?oc "st\<lparr> mn_sent := mn_sent st @ [?q], mg_alarms := a \<rparr>"] Cons.prems by auto
  show ?case
    using rest by (intro exI [of _ oc'] exI [of _ b])
      (auto simp: step bind_act_def device_requests_def tells_def note_answer_def split: if_splits)
qed

lemma errors_text_Nil [simp]: "errors_text nok = [] \<longleftrightarrow> nok = []"
  by (auto simp: errors_text_def erase_all_def quoted_def)

lemma add_errors_Nil [simp]: "add_errors_to_response [] nok = [] \<longleftrightarrow> nok = []"
  by (simp add: add_errors_to_response_def Let_def)

text \<open>The status of a change: none of the agents, all of them, or some of them did what was wanted.\<close>

definition change_status :: "nat \<Rightarrow> nat \<Rightarrow> int list \<Rightarrow> nat" where
  "change_status wanted none cs =
     (if int wanted \<notin> set cs then none else if list_all (\<lambda>c. c = int wanted) cs then wanted else 200)"

lemma changes_run:
  fixes st :: "('s, 'z) manager_scheme"
  assumes "list_all (\<lambda>d. reachable env (url_of (snd d))) devs" "rp_body (ad_reply st) = []"
  and qs: "qs = device_requests method url_of content_of serv sub token devs"
  and cs: "cs = codes_from env (length (mn_sent st)) qs"
  shows "\<exists>st'. bind_act (multiple_devices env (int wanted) method url_of content_of serv sub token devs) (conclude wanted none) st
      = Some (Inr (change_status wanted none cs), st')
    \<and> mn_sent st' = mn_sent st @ qs \<and> (rp_body (ad_reply st') = [] \<longleftrightarrow> list_all (\<lambda>c. c = int wanted) cs)"
proof -
  obtain oc a where oc: "multiple_devices env (int wanted) method url_of content_of serv sub token devs st
        = Some (Inr oc, st\<lparr> mn_sent := mn_sent st @ qs, mg_alarms := a \<rparr>)"
    "tells (int wanted) cs no_outcome oc"
    using multiple_devices_runs [OF assms(1)] unfolding multiple_devices_def qs cs by blast
  let ?text = "add_errors_to_response [] (oc_nok oc)"
  have code: "outcome_code wanted none oc ?text = change_status wanted none cs"
    using oc(2) by (auto simp: outcome_code_def change_status_def tells_def no_outcome_def)
  show ?thesis
    using oc by (intro exI [of _ "st\<lparr> mn_sent := mn_sent st @ qs, mg_alarms := a, ad_reply := (ad_reply st)\<lparr> rp_body := ?text \<rparr> \<rparr>"])
      (simp add: bind_act_def [of "multiple_devices _ _ _ _ _ _ _ _ _"] conclude_def assms(2) set_text_def code ret_def tells_def no_outcome_def)
qed

text \<open>C34: When its agents can be reached, a creation of devices returns; it has sent one request for each device and
  agent, in their order, and its status tells how they were answered: 500 when no agent created its device, 201
  when all did, and 200 with a text of errors when some did.\<close>

theorem status_tells_the_answers:
  assumes "list_all (\<lambda>d. reachable env (devices_url (snd d))) devs"
    and "qs = device_requests ''POST'' devices_url devices_body serv sub token devs"
    and "cs = codes_from env (length (mn_sent st)) qs"
  shows "\<exists>st'. post_multiple_devices env devs serv sub token st = Some (Inr (change_status 201 500 cs), st')
    \<and> mn_sent st' = mn_sent st @ qs \<and> (rp_body (ad_reply st') = [] \<longleftrightarrow> list_all (\<lambda>c. c = 201) cs)"
proof -
  let ?st = "st\<lparr> ad_reply := (ad_reply st)\<lparr> rp_body := [] \<rparr> \<rparr>"
  have "rp_body (ad_reply ?st) = []" "cs = codes_from env (length (mn_sent ?st)) qs" using assms(3) by simp_all
  from changes_run [OF assms(1) this(1) assms(2) this(2), where wanted = 201 and none = 500]
  show ?thesis by (auto simp: post_multiple_devices_def set_text_def)
qed


section \<open>Lists of devices\<close>

text \<open>What an agent with the devices \<open>xs\<close> answers when it is asked for a page.\<close>

definition agent_page :: "int \<Rightarrow> int \<Rightarrow> 'a list \<Rightarrow> 'a list" where
  "agent_page limit offset xs =
     (if limit < 0 then [] else if limit = 0 then drop (nat offset) xs else take (nat limit) (drop (nat offset) xs))"

text \<open>The agents have the devices \<open>xss\<close>, and each answers the page it is asked for in its turn, with the number
  of all its devices.\<close>

definition page_answer :: "manager_env \<Rightarrow> http_answer \<Rightarrow> int \<Rightarrow> int \<Rightarrow> json list \<Rightarrow> bool" where
  "page_answer env answer limit offset xs \<longleftrightarrow>
     snd answer = None
     \<and> (case fst answer of
          Some resp \<Rightarrow> hp_status resp = 200
          \<and> (case bs_parse (me_bson env) (c_str (hp_content resp)) of
               Inl e \<Rightarrow> False
             | Inr obj \<Rightarrow> bs_int (me_bson env) obj ''count'' = int (length xs)
                 \<and> bs_array (me_bson env) obj ''devices'' = Inr (agent_page limit offset xs))
        | None \<Rightarrow> False)"

fun agents_answer ::
  "manager_env \<Rightarrow> (int \<Rightarrow> int \<Rightarrow> IoTUrl \<Rightarrow> http_request) \<Rightarrow> nat \<Rightarrow> int \<Rightarrow> int \<Rightarrow> string list \<Rightarrow> json list list \<Rightarrow> bool" where
  "agents_answer env request n limit offset [] xss \<longleftrightarrow> xss = []"
| "agents_answer env request n limit offset (u # us) [] \<longleftrightarrow> False"
| "agents_answer env request n limit offset (u # us) (xs # xss) \<longleftrightarrow>
     reachable env u
     \<and> page_answer env (me_http env n (request limit offset (the_url u)) (me_timeout env)) limit offset xs
     \<and> (case next_offset offset (int (length xs)) of
          Inl e \<Rightarrow> False
        | Inr (off, c) \<Rightarrow>
            (case next_limit limit c of Inl e \<Rightarrow> False | Inr l \<Rightarrow> agents_answer env request (Suc n) l off us xss))"

lemma ask_agent_page:
  fixes st :: "('s, 'z) manager_scheme"
  assumes "reachable env u" "page_answer env (me_http env (length (mn_sent st)) (request (pg_limit p) (pg_offset p) (the_url u)) (me_timeout env))
      (pg_limit p) (pg_offset p) xs"
    and "int_range (pg_count p + int (length xs))"
    and "next_offset (pg_offset p) (int (length xs)) = Inr (off, c)" "next_limit (pg_limit p) c = Inr l"
  shows "\<exists>a. ask_agent env request u p st
    = Some (Inr (p\<lparr> pg_limit := l, pg_offset := off, pg_count := pg_count p + int (length xs),
                    pg_devices := pg_devices p @ agent_page (pg_limit p) (pg_offset p) xs \<rparr>),
        st\<lparr> mn_sent := mn_sent st @ [request (pg_limit p) (pg_offset p) (the_url u)], mg_alarms := a \<rparr>)"
proof -
  let ?q = "request (pg_limit p) (pg_offset p) (the_url u)"
  obtain cl where cl: "new_IoTUrl u = Inr (the_url u)"
    "new_HttpClient (aw_dns (ae_agent (me_admin env))) (url_host (the_url u)) (url_port (the_url u)) = Inr cl"
    using assms(1) by (rule reachableD)
  obtain resp obj where answer: "me_http env (length (mn_sent st)) ?q (me_timeout env) = (Some resp, None)" "hp_status resp = 200"
    "bs_parse (me_bson env) (c_str (hp_content resp)) = Inr obj" "bs_int (me_bson env) obj ''count'' = int (length xs)"
    "bs_array (me_bson env) obj ''devices'' = Inr (agent_page (pg_limit p) (pg_offset p) xs)"
    using assms(2) by (cases "me_http env (length (mn_sent st)) ?q (me_timeout env)")
      (auto simp: page_answer_def split: option.splits sum.splits)
  obtain a where a: "agent_exchange env (the_url u) ?q st
      = Some (Inr (200, c_str (hp_content resp)), st\<lparr> mn_sent := mn_sent st @ [?q], mg_alarms := a \<rparr>)"
    using agent_exchange_runs [where st = st and q = ?q, OF cl(2) refl] answer(1,2) by (auto simp: answer_code_def answer_text_def)
  have page: "page_of_agent env u (c_str (hp_content resp)) p
      = Inr (p\<lparr> pg_limit := l, pg_offset := off, pg_count := pg_count p + int (length xs),
                pg_devices := pg_devices p @ agent_page (pg_limit p) (pg_offset p) xs \<rparr>)"
    using assms(3-5) by (simp add: page_of_agent_def answer turn_page_def signed_int_def bind_exn_def)
  show ?thesis
    by (intro exI [of _ a]) (simp add: ask_agent_def cl(1) a bind_act_def [of "agent_exchange _ _ _"] page try_act_def lift_def)
qed

text \<open>From no offset on, the pages of the agents are the page of all devices.\<close>

lemma pages_from_start:
  fixes st :: "('s, 'z) manager_scheme"
  assumes "agents_answer env request (length (mn_sent st)) (pg_limit p) 0 us xss" "pg_limit p \<noteq> 0" "pg_offset p = 0"
    and "0 \<le> pg_count p" "int_range (pg_count p + int (length (concat xss)))"
  shows "\<exists>p' st'. fold_act (ask_agent env request) us p st = Some (Inr p', st') \<and> ad_reply st' = ad_reply st \<and> pg_nok p' = pg_nok p
    \<and> pg_count p' = pg_count p + int (length (concat xss))
    \<and> pg_devices p' = pg_devices p @ (if pg_limit p < 0 then [] else take (nat (pg_limit p)) (concat xss))"
  using assms
proof (induction us arbitrary: p st xss)
  case Nil
  then show ?case by (simp add: ret_def)
next
  case (Cons u us)
  obtain xs xss' where xss: "xss = xs # xss'" using Cons.prems(1) by (cases xss) auto
  let ?n = "int (length xs)" and ?l = "pg_limit p"
  let ?l' = "if ?l > ?n then ?l - ?n else - 1"
  have range: "int_range (pg_count p + ?n)" using Cons.prems(4,5) by (simp add: xss int_range_def)
  obtain l where l: "next_limit ?l ?n = Inr l" "agents_answer env request (Suc (length (mn_sent st))) l 0 us xss'"
    using Cons.prems(1) by (auto simp: xss next_offset_def split: sum.splits)
  obtain a where step: "ask_agent env request u p st
      = Some (Inr (p\<lparr> pg_limit := l, pg_offset := 0, pg_count := pg_count p + ?n, pg_devices := pg_devices p @ agent_page ?l 0 xs \<rparr>),
          st\<lparr> mn_sent := mn_sent st @ [request ?l 0 (the_url u)], mg_alarms := a \<rparr>)" (is "_ = Some (Inr ?p, ?st)")
    using ask_agent_page [where off = 0 and c = ?n and l = l, of env u st request p xs] Cons.prems(1,3) range l(1)
    by (auto simp: xss next_offset_def)
  have l': "l = (if ?l > 0 then ?l' else ?l)"
    using l(1) by (auto simp: next_limit_def signed_int_def split: if_splits)
  have "l \<noteq> 0" using l' Cons.prems(2) by auto
  then obtain p' st' where rest: "fold_act (ask_agent env request) us ?p ?st = Some (Inr p', st')" "ad_reply st' = ad_reply st"
    "pg_nok p' = pg_nok p" "pg_count p' = pg_count p + ?n + int (length (concat xss'))"
    "pg_devices p' = pg_devices p @ agent_page ?l 0 xs @ (if l < 0 then [] else take (nat l) (concat xss'))"
    using Cons.IH [of ?st ?p xss'] l(2) Cons.prems(4,5) by (auto simp: xss add.assoc)
  have "agent_page ?l 0 xs @ (if l < 0 then [] else take (nat l) (concat xss')) = (if ?l < 0 then [] else take (nat ?l) (concat xss))"
    using Cons.prems(2) by (auto simp: agent_page_def xss l' nat_diff_distrib)
  then show ?case using rest by (intro exI [of _ p'] exI [of _ st']) (simp add: step bind_act_def xss)
qed

text \<open>The first agent takes up the offset, when it has as many devices.\<close>

lemma pages_of_agents:
  fixes st :: "('s, 'z) manager_scheme"
  assumes "agents_answer env request (length (mn_sent st)) limit offset us xss" "0 < limit" "0 \<le> offset"
    and "case xss of [] \<Rightarrow> True | xs # _ \<Rightarrow> offset \<le> int (length xs)" "int_range (int (length (concat xss)))"
  shows "\<exists>p st'. fold_act (ask_agent env request) us
      \<lparr> pg_limit = limit, pg_offset = offset, pg_count = 0, pg_devices = [], pg_nok = [] \<rparr> st = Some (Inr p, st')
    \<and> ad_reply st' = ad_reply st \<and> pg_nok p = [] \<and> pg_count p = int (length (concat xss))
    \<and> pg_devices p = take (nat limit) (drop (nat offset) (concat xss))"
proof (cases xss)
  case Nil
  then have "us = []" using assms(1) by (cases us) auto
  then show ?thesis using Nil by (simp add: ret_def)
next
  case (Cons xs xss')
  then obtain u us' where us: "us = u # us'" using assms(1) by (cases us) auto
  let ?start = "\<lparr> pg_limit = limit, pg_offset = offset, pg_count = 0, pg_devices = [], pg_nok = [] \<rparr>"
  let ?c = "int (length xs) - offset"
  have range: "int_range (0 + int (length xs))" using assms(5) by (simp add: Cons int_range_def)
  have off: "next_offset offset (int (length xs)) = Inr (0, ?c)"
    using assms(3,4) by (auto simp: Cons next_offset_def)
  obtain l where l: "next_limit limit ?c = Inr l" "agents_answer env request (Suc (length (mn_sent st))) l 0 us' xss'"
    using assms(1) off by (auto simp: Cons us split: sum.splits)
  obtain a where step: "ask_agent env request u ?start st
      = Some (Inr \<lparr> pg_limit = l, pg_offset = 0, pg_count = int (length xs), pg_devices = agent_page limit offset xs, pg_nok = [] \<rparr>,
          st\<lparr> mn_sent := mn_sent st @ [request limit offset (the_url u)], mg_alarms := a \<rparr>)" (is "_ = Some (Inr ?p, ?st)")
    using ask_agent_page [where off = 0 and c = ?c and l = l, of env u st request ?start xs] assms(1) range l(1) off
    by (auto simp: Cons us)
  have l': "l = (if limit > ?c then limit - ?c else - 1)"
    using l(1) assms(2) by (auto simp: next_limit_def signed_int_def split: if_splits)
  then have "l \<noteq> 0" by auto
  then obtain p' st' where rest: "fold_act (ask_agent env request) us' ?p ?st = Some (Inr p', st')" "ad_reply st' = ad_reply st"
    "pg_nok p' = []" "pg_count p' = int (length xs) + int (length (concat xss'))"
    "pg_devices p' = agent_page limit offset xs @ (if l < 0 then [] else take (nat l) (concat xss'))"
    using pages_from_start [of env request ?st ?p us' xss'] l(2) assms(5) by (auto simp: Cons)
  have "agent_page limit offset xs @ (if l < 0 then [] else take (nat l) (concat xss')) = take (nat limit) (drop (nat offset) (concat xss))"
    using assms(2-4) by (auto simp: agent_page_def Cons l' nat_diff_distrib)
  then show ?thesis using rest by (intro exI [of _ p'] exI [of _ st']) (simp add: us step bind_act_def Cons)
qed



text \<open>An offset beyond the first agent loses devices: the devices that were passed over are taken off the limit,
  so the second agent is asked for none, whatever it has.\<close>

lemma skipped_agent_uses_up_the_limit:
  fixes st :: "('s, 'z) manager_scheme"
  assumes "agents_answer env request (length (mn_sent st)) limit offset [u, v] [xs, ys]"
    and "0 < limit" "limit \<le> int (length xs)" "int (length xs) < offset" "offset < int (length xs + length ys)"
    and "int_range (int (length xs + length ys))"
  shows "\<exists>p st'. fold_act (ask_agent env request) [u, v]
      \<lparr> pg_limit = limit, pg_offset = offset, pg_count = 0, pg_devices = [], pg_nok = [] \<rparr> st = Some (Inr p, st')
    \<and> pg_devices p = [] \<and> take (nat limit) (drop (nat offset) (xs @ ys)) \<noteq> []"
proof -
  let ?start = "\<lparr> pg_limit = limit, pg_offset = offset, pg_count = 0, pg_devices = [], pg_nok = [] \<rparr>"
  let ?off = "offset - int (length xs)"
  have r: "int_range (int (length xs))" "int_range ?off"
    using assms(4-6) by (simp_all add: int_range_def)
  have off: "next_offset offset (int (length xs)) = Inr (?off, int (length xs))"
    using assms(2,4) r(2) by (simp add: next_offset_def signed_int_def)
  have l: "next_limit limit (int (length xs)) = Inr (- 1)" using assms(2,3) by (simp add: next_limit_def)
  have none: "agent_page limit offset xs = []" using assms(2,4) by (simp add: agent_page_def)
  obtain a where one: "ask_agent env request u ?start st
      = Some (Inr \<lparr> pg_limit = - 1, pg_offset = ?off, pg_count = int (length xs), pg_devices = [], pg_nok = [] \<rparr>,
          st\<lparr> mn_sent := mn_sent st @ [request limit offset (the_url u)], mg_alarms := a \<rparr>)" (is "_ = Some (Inr ?p, ?st)")
    using ask_agent_page [of env u st request ?start xs ?off "int (length xs)" "- 1"] assms(1) off l r(1) none by auto
  obtain off' c where off': "next_offset ?off (int (length ys)) = Inr (off', c)"
    using assms(1) off l by (auto split: sum.splits)
  obtain b where two: "ask_agent env request v ?p ?st
      = Some (Inr \<lparr> pg_limit = - 1, pg_offset = off', pg_count = int (length xs) + int (length ys), pg_devices = [], pg_nok = [] \<rparr>,
          ?st\<lparr> mn_sent := mn_sent ?st @ [request (- 1) ?off (the_url v)], mg_alarms := b \<rparr>)"
    using ask_agent_page [of env v ?st request ?p ys off' c "- 1"] assms(1,6) off off' l
    by (auto simp: next_limit_def agent_page_def)
  show ?thesis using assms(2,4,5) by (simp add: one two bind_act_def ret_def)
qed


section \<open>Registrations of agents\<close>

definition listed_keys :: "bson_lib \<Rightarrow> json list \<Rightarrow> string list" where
  "listed_keys lib be = concat (map (\<lambda>e. case bs_embedded lib e of Inr d \<Rightarrow> [mgmt_service_key lib d] | Inl _ \<Rightarrow> []) be)"

lemma map_erase_filter: "map_ok m \<Longrightarrow> map_erase k m = filter (\<lambda>e. fst e \<noteq> k) m"
  by (induction k m rule: map_erase.induct) (auto simp: map_ok_def intro!: filter_True [symmetric])

lemma update_services_leaves:
  assumes "map_ok found" "update_services drv env url p description be found st = Some (Inr gone, st')"
  shows "gone = filter (\<lambda>e. fst e \<notin> set (listed_keys (me_bson env) be)) found"
  using assms
proof (induction be arbitrary: found st)
  case Nil
  then show ?case by (simp add: ret_def listed_keys_def)
next
  case (Cons e be)
  obtain d where d: "bs_embedded (me_bson env) e = Inr d" using Cons.prems(2) by (auto simp: bind_act_Inr lift_def)
  let ?key = "mgmt_service_key (me_bson env) d"
  obtain st1 where "update_services drv env url p description be (map_erase ?key found) st1 = Some (Inr gone, st')"
    using Cons.prems(2) by (auto simp: bind_act_Inr d Let_def)
  then have "gone = filter (\<lambda>e. fst e \<notin> set (listed_keys (me_bson env) be)) (map_erase ?key found)"
    using Cons.IH Cons.prems(1) by simp
  moreover have "listed_keys (me_bson env) (e # be) = ?key # listed_keys (me_bson env) be" by (simp add: listed_keys_def d)
  ultimately show ?case using Cons.prems(1) by (simp add: map_erase_filter)
qed

lemma found_services_ok:
  assumes "fillServices drv lib url p st = Some (Inr found, st')"
  shows "map_ok found"
proof -
  have "map_ok (fold (\<lambda>d. map_insert (mgmt_service_key lib d) d) ds m)" if "map_ok m" for ds :: "doc list" and m
    using that by (induction ds arbitrary: m) simp_all
  then show ?thesis using assms by (auto simp: fillServices_def bind_act_Inr ret_def map_ok_def)
qed



section \<open>Two agents with a device each\<close>

definition managing_driver :: "unit mongo_driver" where
  "managing_driver = one_document_driver\<lparr>
     dr_query := (\<lambda>ns q l k ord fs s. (Inr (Some [Inr [(''service'', JString ''home''), (''service_path'', JString ''/'')]]), s)),
     dr_command := (\<lambda>db r s. (Inr [(''values'', JArray [JString ''http://a'', JString ''http://b''])], s)) \<rparr>"

definition managing_parse :: "string \<Rightarrow> doc result" where
  "managing_parse s =
     (if s = ''A'' then Inr [(''count'', JInt 1), (''devices'', JArray [JString ''d1''])]
      else if s = ''B'' then Inr [(''count'', JInt 1), (''devices'', JArray [])]
      else Inl (runtime_error ''fromjson''))"

text \<open>The first agent answers to a creation that it has created the device, the second that it has not.\<close>

definition managing_env :: manager_env where
  "managing_env =
     \<lparr> me_admin = sample_admin_env\<lparr> ae_agent := sample_agent_env\<lparr> aw_bson := sample_bson (\<lambda>d. ''{}'') managing_parse,
         aw_dns := (\<lambda>h p. Inr ''10.0.0.1'') \<rparr> \<rparr>,
       me_json = \<lparr> jl_parse = (\<lambda>s. Inr (JObject [(''devices'', JArray [JObject [(''protocol'', JString ''P'')]])])),
         jl_print = (\<lambda>es. []), jl_number = (\<lambda>j. []), jl_stream = (\<lambda>j. []) \<rparr>,
       me_offset = (\<lambda>s. []), me_pretty = (\<lambda>j. ''{}''), me_encode = (\<lambda>s. s), me_same = (\<lambda>a b. False),
       me_http = (\<lambda>n q t. (Some \<lparr> hp_status = if hq_method q = ''GET'' then 200 else if hq_host q = ''a'' then 201 else 409,
          hp_content = if hq_host q = ''a'' then ''A'' else ''B'', hp_header = (\<lambda>h. []) \<rparr>, None)),
       me_error_text = (\<lambda>e. []), me_timeout = 5, me_post_protocol = [], me_post_service = [], me_put_service = [] \<rparr>"

definition managing :: "unit manager" where
  "managing = \<lparr> mg_data = (), mg_alarms = [], mg_reconnects = 0, ag_effects = [],
     ag_conf = (new_Configurator None)\<lparr> cg_root := Some [(''storage'', JObject [(''type'', JString ''mongodb'')])] \<rparr>,
     ad_manager = [], ad_reply = new_reply, mn_sent = [] \<rparr>"

definition post_devices_request :: admin_request where
  "post_devices_request = \<lparr> aq_method = ''POST'', aq_content = ''D'', aq_service = ''s'', aq_service_path = ''/'', aq_url_arg = [],
     aq_query = [] \<rparr>"

lemma managed_post:
  "result_of (mgr_devices managing_driver managing_env post_devices_request [] [] managing) (\<lambda>x st. x = Inr 200 \<and> length (mn_sent st) = 2)"
  by code_simp


theorem manager_keeps_no_devices_witness:
  "result_of (mgr_devices managing_driver managing_env post_devices_request [] [] managing) (\<lambda>x st. mg_data st = mg_data managing)"
proof (rule result_ofE [OF managed_post])
  fix x st
  assume h: "mgr_devices managing_driver managing_env post_devices_request [] [] managing = Some (x, st)"
  have "pure_distinct managing_driver" by (simp add: pure_distinct_def managing_driver_def)
  from manager_keeps_no_devices [where m = "mgr_devices managing_driver managing_env post_devices_request [] []"
      and env = managing_env and q = post_devices_request and token = "[]" and trace = "[]", OF this _ h] h
  show ?thesis by (simp add: result_of_def)
qed

theorem status_tells_the_answers_witness:
  "\<exists>st'. post_multiple_devices managing_env [(''x'', ''http://a''), (''x'', ''http://b'')] ''s'' ''/'' [] managing = Some (Inr 200, st')
     \<and> length (mn_sent st') = 2 \<and> rp_body (ad_reply st') \<noteq> []"
proof -
  define qs where "qs = device_requests ''POST'' devices_url devices_body ''s'' ''/'' [] [(''x'', ''http://a''), (''x'', ''http://b'')]"
  have ok: "list_all (\<lambda>d. reachable managing_env (devices_url (snd d))) [(''x'', ''http://a''), (''x'', ''http://b'')]" by code_simp
  have cs: "[201, 409] = codes_from managing_env (length (mn_sent managing)) qs" unfolding qs_def by code_simp
  have "change_status 201 500 [201, 409] = 200" "length qs = 2" "mn_sent managing = []"
    unfolding qs_def by (simp_all add: change_status_def device_requests_def managing_def)
  with status_tells_the_answers [OF ok qs_def cs] show ?thesis by auto
qed

lemma managed_agents:
  "result_of (get_iotagents_by_service managing_driver (me_bson managing_env) ''s'' ''/'' [] 0 0 managing)
     (\<lambda>x st. x = Inr [''http://a'', ''http://b''] \<and> mn_sent st = [])"
  by code_simp


definition agent_registration :: doc where
  "agent_registration = [(''iotagent'', JString ''http://a''), (''protocol'', JString ''P''),
     (''services'', JArray [JObject [(''service'', JString ''home''), (''service_path'', JString ''/x'')]])]"

lemma managed_registration:
  "result_of (register_protocol managing_driver managing_env agent_registration managing) (\<lambda>x st. x = Inr ())"
  by code_simp


end
