(* ===== verification/Json_Text.thy ===== *)
theory Json_Text
  imports Command_Handle
begin

text \<open>
  JSON as compact text, for the documents the agent puts together by appending strings: the text of a
  value without escapes, a reader for this fragment of JSON, and their round trip.  The reader says what
  is expected of the parser of the JSON library, which is a parameter (\<open>reads_json\<close>).
\<close>

section \<open>Text\<close>

fun json_text :: "json \<Rightarrow> string" where
  "json_text (JString s) = quoted s"
| "json_text (JArray vs) = ''['' @ join_with '','' (map json_text vs) @ '']''"
| "json_text (JObject ms) = ''{'' @ join_with '','' (map (\<lambda>m. quoted (fst m) @ '':'' @ json_text (snd m)) ms) @ ''}''"
| "json_text (JInt i) = show_int i"
| "json_text (JBool b) = (if b then ''true'' else ''false'')"
| "json_text j = ''null''"

text \<open>Characters that stand for themselves in a string of JSON, and the values made of such strings.\<close>

definition plain_char :: "char \<Rightarrow> bool" where
  "plain_char c \<longleftrightarrow> c \<noteq> CHR 0x22 \<and> c \<noteq> CHR 0x5C \<and> 32 \<le> (of_char c :: nat)"

abbreviation plain_text :: "string \<Rightarrow> bool" where
  "plain_text \<equiv> list_all plain_char"

fun plain_json :: "json \<Rightarrow> bool" where
  "plain_json (JString s) = plain_text s"
| "plain_json (JArray vs) = list_all plain_json vs"
| "plain_json (JObject ms) = list_all (\<lambda>m. plain_text (fst m) \<and> plain_json (snd m)) ms"
| "plain_json j = False"

section \<open>The reader\<close>

definition json_blank :: "char \<Rightarrow> bool" where
  "json_blank c \<longleftrightarrow> c = CHR '' '' \<or> c = CHR 0x09 \<or> c = CHR 0x0A \<or> c = CHR 0x0D"

definition expect :: "char \<Rightarrow> string \<Rightarrow> string option" where
  "expect c s = (case dropWhile json_blank s of [] \<Rightarrow> None | d # r \<Rightarrow> if d = c then Some r else None)"

fun read_plain :: "string \<Rightarrow> (string \<times> string) option" where
  "read_plain [] = None"
| "read_plain (c # s) =
     (if c = CHR 0x22 then Some ([], s)
      else if plain_char c then map_option (apfst (Cons c)) (read_plain s) else None)"

text \<open>The first argument bounds the depth and the number of elements; \<open>read_json\<close> starts with the length.\<close>

fun read_val :: "nat \<Rightarrow> string \<Rightarrow> (json \<times> string) option"
  and read_items :: "nat \<Rightarrow> string \<Rightarrow> (json list \<times> string) option"
  and read_members :: "nat \<Rightarrow> string \<Rightarrow> ((string \<times> json) list \<times> string) option" where
  "read_val 0 s = None"
| "read_val (Suc n) s =
     (case expect CHR 0x22 s of
        Some r \<Rightarrow> map_option (apfst JString) (read_plain r)
      | None \<Rightarrow> (case expect CHR ''['' s of
          Some r \<Rightarrow> (case expect CHR '']'' r of
              Some r' \<Rightarrow> Some (JArray [], r')
            | None \<Rightarrow> map_option (apfst JArray) (read_items n r))
        | None \<Rightarrow> (case expect CHR ''{'' s of
            Some r \<Rightarrow> (case expect CHR ''}'' r of
                Some r' \<Rightarrow> Some (JObject [], r')
              | None \<Rightarrow> map_option (apfst JObject) (read_members n r))
          | None \<Rightarrow> None)))"
| "read_items 0 s = None"
| "read_items (Suc n) s =
     Option.bind (read_val n s) (\<lambda>(v, r).
       case expect CHR '','' r of
         Some r' \<Rightarrow> map_option (apfst (Cons v)) (read_items n r')
       | None \<Rightarrow> map_option (Pair [v]) (expect CHR '']'' r))"
| "read_members 0 s = None"
| "read_members (Suc n) s =
     Option.bind (Option.bind (expect CHR 0x22 s) read_plain) (\<lambda>(k, r).
     Option.bind (Option.bind (expect CHR '':'' r) (read_val n)) (\<lambda>(v, r').
       case expect CHR '','' r' of
         Some r'' \<Rightarrow> map_option (apfst (Cons (k, v))) (read_members n r'')
       | None \<Rightarrow> map_option (Pair [(k, v)]) (expect CHR ''}'' r')))"

definition read_json :: "string \<Rightarrow> json option" where
  "read_json s =
     (case read_val (length s) s of
        Some (v, r) \<Rightarrow> if dropWhile json_blank r = [] then Some v else None
      | None \<Rightarrow> None)"

section \<open>The round trip\<close>

lemma expect_simps [simp]:
  "\<not> json_blank c \<Longrightarrow> expect c (c # r) = Some r"
  "\<not> json_blank d \<Longrightarrow> d \<noteq> c \<Longrightarrow> expect c (d # r) = None"
  "expect c (CHR '' '' # r) = expect c r"
  by (simp_all add: expect_def json_blank_def)

lemma structural_not_blank [simp]:
  "\<not> json_blank CHR 0x22" "\<not> json_blank CHR ''[''" "\<not> json_blank CHR '']''" "\<not> json_blank CHR ''{''"
  "\<not> json_blank CHR ''}''" "\<not> json_blank CHR '':''" "\<not> json_blank CHR '',''"
  by (simp_all add: json_blank_def)

lemma read_plain_quoted [simp]: "plain_text s \<Longrightarrow> read_plain (s @ CHR 0x22 # r) = Some (s, r)"
  by (induction s) (auto simp: plain_char_def)

lemma json_text_head:
  "plain_json j \<Longrightarrow> \<exists>c r. json_text j = c # r \<and> c \<noteq> CHR '']'' \<and> c \<noteq> CHR ''}'' \<and> \<not> json_blank c"
  by (cases j) (auto simp: quoted_def)

lemma not_closed: "plain_json j \<Longrightarrow> expect CHR '']'' (json_text j @ r) = None"
  using json_text_head [of j] by auto

text \<open>What the reader needs: more than the nesting and the number of the elements.\<close>

fun json_weight :: "json \<Rightarrow> nat" where
  "json_weight (JArray vs) = Suc (sum_list (map (\<lambda>v. Suc (json_weight v)) vs))"
| "json_weight (JObject ms) = Suc (sum_list (map (\<lambda>m. Suc (json_weight (snd m))) ms))"
| "json_weight j = 1"

lemma join_with_length: "length (join_with s xs) = sum_list (map length xs) + (length xs - 1) * length s"
  by (induction s xs rule: join_with.induct) auto

lemma weight_le_length: "plain_json j \<Longrightarrow> json_weight j \<le> length (json_text j)"
proof (induction j)
  case (JArray vs)
  have "sum_list (map (\<lambda>v. Suc (json_weight v)) vs) \<le> sum_list (map (\<lambda>v. Suc (length (json_text v))) vs)"
    using JArray by (intro sum_list_mono) (auto simp: list_all_iff)
  moreover have "sum_list (map (\<lambda>v. Suc (length (json_text v))) vs) = sum_list (map (\<lambda>v. length (json_text v)) vs) + length vs"
    by (induction vs) simp_all
  ultimately have "sum_list (map (\<lambda>v. Suc (json_weight v)) vs) \<le> sum_list (map (\<lambda>v. length (json_text v)) vs) + length vs"
    by simp
  then show ?case by (cases vs) (auto simp: join_with_length comp_def)
next
  case (JObject ms)
  have "sum_list (map (\<lambda>m. Suc (json_weight (snd m))) ms) \<le> sum_list (map (\<lambda>m. length (quoted (fst m) @ '':'' @ json_text (snd m))) ms)"
  proof (rule sum_list_mono)
    fix m assume "m \<in> set ms"
    then have "json_weight (snd m) \<le> length (json_text (snd m))"
      using JObject.IH [of m "snd m"] JObject.prems by (auto simp: list_all_iff snds.simps)
    then show "Suc (json_weight (snd m)) \<le> length (quoted (fst m) @ '':'' @ json_text (snd m))" by simp
  qed
  then show ?case by (simp add: join_with_length comp_def)
qed (auto simp: quoted_def)

lemma read_items_text:
  assumes "vs \<noteq> []" "sum_list (map (\<lambda>v. Suc (json_weight v)) vs) \<le> n"
    and "\<And>v m q. v \<in> set vs \<Longrightarrow> json_weight v \<le> m \<Longrightarrow> read_val m (json_text v @ q) = Some (v, q)"
  shows "read_items n (join_with '','' (map json_text vs) @ CHR '']'' # r) = Some (vs, r)"
  using assms
proof (induction vs arbitrary: n)
  case (Cons v vs)
  from Cons.prems(2) obtain m where n: "n = Suc m" by (cases n) auto
  have v: "read_val m (json_text v @ q) = Some (v, q)" for q
    using Cons.prems(2,3) n by simp
  show ?case
  proof (cases vs)
    case Nil
    then show ?thesis by (simp add: n v)
  next
    case (Cons u us)
    have "read_items m (join_with '','' (map json_text vs) @ CHR '']'' # r) = Some (vs, r)"
      using Cons.prems Cons n by (intro Cons.IH) auto
    then show ?thesis using v [of "CHR '','' # join_with '','' (map json_text vs) @ CHR '']'' # r"] Cons by (simp add: n)
  qed
qed simp

lemma read_members_text:
  assumes "ms \<noteq> []" "sum_list (map (\<lambda>m. Suc (json_weight (snd m))) ms) \<le> n" "list_all (\<lambda>m. plain_text (fst m)) ms"
    and "\<And>v m q. v \<in> snd ` set ms \<Longrightarrow> json_weight v \<le> m \<Longrightarrow> read_val m (json_text v @ q) = Some (v, q)"
  shows "read_members n (join_with '','' (map (\<lambda>m. quoted (fst m) @ '':'' @ json_text (snd m)) ms) @ CHR ''}'' # r) = Some (ms, r)"
  using assms
proof (induction ms arbitrary: n)
  case (Cons kv ms)
  obtain k v where kv: "kv = (k, v)" by (cases kv)
  from Cons.prems(2) obtain m where n: "n = Suc m" by (cases n) auto
  have v: "read_val m (json_text v @ q) = Some (v, q)" for q
    using Cons.prems(2,4) n kv by simp
  show ?case
  proof (cases ms)
    case Nil
    then show ?thesis using Cons.prems(3) by (simp add: n v kv quoted_def)
  next
    case (Cons u us)
    let ?rest = "join_with '','' (map (\<lambda>m. quoted (fst m) @ '':'' @ json_text (snd m)) ms) @ CHR ''}'' # r"
    have "read_members m ?rest = Some (ms, r)"
      using Cons.prems Cons n by (intro Cons.IH) auto
    then show ?thesis using v [of "CHR '','' # ?rest"] Cons Cons.prems(3) by (simp add: n kv quoted_def)
  qed
qed simp

lemma read_val_text: "plain_json j \<Longrightarrow> json_weight j \<le> n \<Longrightarrow> read_val n (json_text j @ r) = Some (j, r)"
proof (induction j arbitrary: n r)
  case (JString s)
  then show ?case by (cases n) (auto simp: quoted_def)
next
  case (JArray vs)
  from JArray.prems(2) obtain m where n: "n = Suc m" by (cases n) auto
  show ?case
  proof (cases vs)
    case Nil
    then show ?thesis by (simp add: n)
  next
    case (Cons u us)
    have "read_items m (join_with '','' (map json_text vs) @ CHR '']'' # r) = Some (vs, r)"
      using JArray n Cons by (intro read_items_text) (auto simp: list_all_iff)
    moreover have "expect CHR '']'' (join_with '','' (map json_text vs) @ CHR '']'' # r) = None"
      using not_closed [of u] JArray.prems(1) Cons by (cases us) auto
    ultimately show ?thesis by (simp add: n)
  qed
next
  case (JObject ms)
  from JObject.prems(2) obtain m where n: "n = Suc m" by (cases n) auto
  show ?case
  proof (cases ms)
    case Nil
    then show ?thesis by (simp add: n)
  next
    case (Cons u us)
    let ?t = "join_with '','' (map (\<lambda>m. quoted (fst m) @ '':'' @ json_text (snd m)) ms) @ CHR ''}'' # r"
    have "read_members m ?t = Some (ms, r)"
    proof (rule read_members_text)
      fix v k q assume "v \<in> snd ` set ms" "json_weight v \<le> k"
      then show "read_val k (json_text v @ q) = Some (v, q)"
        using JObject.IH JObject.prems(1) by (auto simp: list_all_iff)
    qed (use JObject.prems n Cons in \<open>auto simp: list_all_iff\<close>)
    moreover have "expect CHR ''}'' ?t = None"
      using Cons by (cases us) (auto simp: quoted_def)
    ultimately show ?thesis by (simp add: n)
  qed
qed auto

lemma read_json_text: "plain_json j \<Longrightarrow> read_json (json_text j) = Some j"
  using read_val_text [of j "length (json_text j)" "[]"] weight_le_length [of j] by (simp add: read_json_def)

section \<open>What is expected of the library\<close>

text \<open>The parser reads what the reader reads, and the printer of an object of plain strings is \<open>json_text\<close>.\<close>

definition reads_json :: "json_lib \<Rightarrow> bool" where
  "reads_json lib \<longleftrightarrow>
     (\<forall>s j. read_json s = Some j \<longrightarrow> jl_parse lib s = Inr j)
     \<and> (\<forall>j. plain_json j \<and> IsObject j \<longrightarrow> jl_print lib (events_of j) = json_text j)"

definition plain_lib :: json_lib where
  "plain_lib =
     \<lparr> jl_parse = (\<lambda>s. case read_json s of Some j \<Rightarrow> Inr j | None \<Rightarrow> Inl ''error''),
       jl_print = (\<lambda>es. case written es of Some j \<Rightarrow> json_text j | None \<Rightarrow> []),
       jl_number = (\<lambda>j. []), jl_stream = (\<lambda>j. []) \<rparr>"

lemma plain_lib_reads: "reads_json plain_lib"
  by (simp add: reads_json_def plain_lib_def written_events_of)

lemma reads_json_parse: "reads_json lib \<Longrightarrow> read_json s = Some j \<Longrightarrow> jl_parse lib s = Inr j"
  by (simp add: reads_json_def)

lemma reads_json_print: "reads_json lib \<Longrightarrow> plain_json j \<Longrightarrow> IsObject j \<Longrightarrow> jl_print lib (events_of j) = json_text j"
  by (simp add: reads_json_def)

text \<open>Plain text is not cut as a C string.\<close>

lemma nul_free_parts:
  "nul_free []" "nul_free (c # s) \<longleftrightarrow> c \<noteq> CHR 0x00 \<and> nul_free s" "nul_free (s @ t) \<longleftrightarrow> nul_free s \<and> nul_free t"
  "nul_free (quoted s) = nul_free s"
  by (auto simp: nul_free_def quoted_def)

lemma plain_nul_free: "plain_text s \<Longrightarrow> nul_free s"
proof (induction s)
  case (Cons c s)
  have "\<not> plain_char CHR 0x00" by (simp add: plain_char_def)
  then show ?case using Cons by (metis list.pred_inject(2) nul_free_parts(2))
qed (simp add: nul_free_parts)

lemma join_plain_nul_free: "list_all nul_free xs \<Longrightarrow> nul_free s \<Longrightarrow> nul_free (join_with s xs)"
  by (induction s xs rule: join_with.induct) (simp_all add: nul_free_parts)

lemma json_text_nul_free: "plain_json j \<Longrightarrow> nul_free (json_text j)"
proof (induction j)
  case (JArray vs)
  have "list_all nul_free (map json_text vs)" using JArray by (simp add: list_all_iff)
  then have "nul_free (join_with '','' (map json_text vs))" by (rule join_plain_nul_free) (simp add: nul_free_parts)
  then show ?case by (simp add: nul_free_parts)
next
  case (JObject ms)
  have "nul_free (fst m) \<and> nul_free (json_text (snd m))" if "m \<in> set ms" for m
    using that JObject.IH [of m "snd m"] JObject.prems plain_nul_free [of "fst m"] by (simp add: list_all_iff snds.simps)
  then have "list_all nul_free (map (\<lambda>m. quoted (fst m) @ '':'' @ json_text (snd m)) ms)"
    by (simp add: list_all_iff nul_free_parts)
  then have "nul_free (join_with '','' (map (\<lambda>m. quoted (fst m) @ '':'' @ json_text (snd m)) ms))"
    by (rule join_plain_nul_free) (simp add: nul_free_parts)
  then show ?case by (simp add: nul_free_parts)
qed (simp_all add: plain_nul_free nul_free_parts)

end
