(* ===== verification/Tt_Module.thy ===== *)
theory Tt_Module
  imports Esp_Description Json_Text
begin

text \<open>
  The modules of the Thinking Things protocol (\<^verbatim>\<open>src/src/esp/plugins/postprocessor_tt\<close>): the attributes
  that the parser found for a module of a device become the JSON text of an NGSI attribute, in two forms,
  and the postprocessor that keeps one object per module.  Text is appended without escapes.  Reading the
  value of an attribute outside its block is undefined behaviour.
\<close>

section \<open>The code\<close>

subsection \<open>Modules\<close>

definition value_text :: "fp_ops \<Rightarrow> ESP_Attribute \<Rightarrow> string result" where
  "value_text fp a =
     (case getValueAsString fp a of Some s \<Rightarrow> Inr s | None \<Rightarrow> Inl (undefined_behaviour ''getValueAsString''))"

text \<open>\<open>find\<close> and, when found, \<open>getValueAsString\<close>; and the text that stays empty when not found.\<close>

definition found_text :: "fp_ops \<Rightarrow> CC_AttributesType \<Rightarrow> string \<Rightarrow> string option result" where
  "found_text fp attribs key =
     (case map_find attribs key of
        None \<Rightarrow> Inr None | Some a \<Rightarrow> bind_exn (value_text fp a) (\<lambda>s. Inr (Some s)))"

definition text_or_empty :: "fp_ops \<Rightarrow> CC_AttributesType \<Rightarrow> string \<Rightarrow> string result" where
  "text_or_empty fp attribs key =
     bind_exn (found_text fp attribs key) (\<lambda>f. Inr (case f of Some s \<Rightarrow> s | None \<Rightarrow> []))"

record tt_pair =
  pr_name :: string
  pr_value :: string
  pr_mandatory :: bool

definition new_Pair :: "string \<Rightarrow> tt_pair" where
  "new_Pair nameParam = \<lparr> pr_name = nameParam, pr_value = [], pr_mandatory = True \<rparr>"

definition set_optional :: "tt_pair \<Rightarrow> tt_pair" where
  "set_optional p = p\<lparr> pr_mandatory := False \<rparr>"

record gps_mapping =
  gp_refCoordX :: string
  gp_refCoordY :: string
  gp_separator :: string
  gp_metaName :: string
  gp_metaType :: string
  gp_metaValue :: string

text \<open>The derived classes with their fields.\<close>

datatype tt_class =
    TTGPSModules gps_mapping
  | TTP1_BModules "(string, tt_pair) std_map"
  | TTGM_Modules
  | TTGC_Modules string

record TTModules =
  tm_class :: tt_class
  tm_name :: string
  tm_type :: string
  tm_sleepCondition :: string
  tm_sleepTime :: string
  tm_valid :: bool
  tm_json :: string

definition new_TTModules :: "tt_class \<Rightarrow> string \<Rightarrow> TTModules" where
  "new_TTModules c n =
     \<lparr> tm_class = c, tm_name = n, tm_type = [], tm_sleepCondition = [], tm_sleepTime = [], tm_valid = False, tm_json = [] \<rparr>"

definition new_gps_mapping :: gps_mapping where
  "new_gps_mapping =
     \<lparr> gp_refCoordX = [], gp_refCoordY = [], gp_separator = [], gp_metaName = [], gp_metaType = [], gp_metaValue = [] \<rparr>"

definition decodeModule :: "string \<Rightarrow> TTModules" where
  "decodeModule keyword =
     new_TTModules
       (if keyword = ''GPS'' then TTGPSModules new_gps_mapping
        else if keyword = ''GM'' then TTGM_Modules
        else if keyword = ''GC'' then TTGC_Modules []
        else TTP1_BModules []) keyword"

definition toJSON :: "TTModules \<Rightarrow> string" where
  "toJSON m = tm_json m"

definition toPlainJSON :: "TTModules \<Rightarrow> string" where
  "toPlainJSON m = (case tm_class m of TTGC_Modules plainJson \<Rightarrow> plainJson | _ \<Rightarrow> tm_json m)"

definition parseSleepCondAndTime :: "fp_ops \<Rightarrow> CC_AttributesType \<Rightarrow> TTModules \<Rightarrow> TTModules result" where
  "parseSleepCondAndTime fp attribs m =
     bind_exn (text_or_empty fp attribs ''sleepcondition'') (\<lambda>sleepcondition.
     bind_exn (text_or_empty fp attribs ''sleeptime'') (\<lambda>sleeptime.
     Inr (m\<lparr> tm_sleepCondition := sleepcondition, tm_sleepTime := sleeptime \<rparr>)))"

text \<open>Name, type and value as the code writes them.\<close>

definition name_type_value :: "string \<Rightarrow> string \<Rightarrow> string \<Rightarrow> string" where
  "name_type_value n t v =
     quoted ''name'' @ '':'' @ quoted n @ '','' @ quoted ''type'' @ '':'' @ quoted t @ '','' @ quoted ''value'' @ '':'' @ quoted v"

definition appendSleepCondTime :: "TTModules \<Rightarrow> string" where
  "appendSleepCondTime m =
     (if tm_sleepCondition m \<noteq> [] then name_type_value ''sleepcondition'' ''string'' (tm_sleepCondition m) else [])
     @ (if tm_sleepTime m \<noteq> []
        then (if tm_sleepCondition m \<noteq> [] then ''},{'' else [])
             @ name_type_value ''sleeptime'' ''string'' (tm_sleepTime m)
        else [])"

definition doMetadatas :: "TTModules \<Rightarrow> string" where
  "doMetadatas m =
     (if tm_sleepCondition m \<noteq> [] \<or> tm_sleepTime m \<noteq> []
      then '','' @ quoted ''metadatas'' @ '':[{'' @ appendSleepCondTime m @ ''}]'' else [])"

subsection \<open>Configuration of a module\<close>

definition addToMap :: "string \<Rightarrow> tt_pair \<Rightarrow> (string, tt_pair) std_map \<Rightarrow> (string, tt_pair) std_map" where
  "addToMap paramPos pair mappings = map_insert paramPos pair mappings"

definition default_p1 :: "(string, tt_pair) std_map \<Rightarrow> (string, tt_pair) std_map" where
  "default_p1 m =
     addToMap ''param_5'' (set_optional (new_Pair ''dbm'')) (addToMap ''param_4'' (new_Pair ''lac'')
       (addToMap ''param_3'' (new_Pair ''cell-id'') (addToMap ''param_2'' (new_Pair ''mnc'')
         (addToMap ''param_1'' (new_Pair ''mcc'') m))))"

definition default_b :: "(string, tt_pair) std_map \<Rightarrow> (string, tt_pair) std_map" where
  "default_b m =
     addToMap ''param_6'' (new_Pair ''tiempo_desco_stack'') (addToMap ''param_5'' (new_Pair ''modo_carga'')
       (addToMap ''param_4'' (new_Pair ''estado_carga'') (addToMap ''param_3'' (new_Pair ''hay_cargador'')
         (addToMap ''param_2'' (new_Pair ''estado_activacion'') (addToMap ''param_1'' (new_Pair ''voltaje'') m)))))"

definition default_gps_internals :: "gps_mapping \<Rightarrow> gps_mapping" where
  "default_gps_internals g =
     \<lparr> gp_refCoordX = ''param_1'', gp_refCoordY = ''param_2'', gp_separator = '','',
       gp_metaName = ''location'', gp_metaType = ''string'', gp_metaValue = ''WGS84'' \<rparr>"

definition default_p1b_internals :: "string \<Rightarrow> (string, tt_pair) std_map \<Rightarrow> (string, tt_pair) std_map" where
  "default_p1b_internals n mappings =
     (if n = ''P1'' then default_p1 mappings else if n = ''B'' then default_b mappings else mappings)"

definition populate_default_internals :: "TTModules \<Rightarrow> TTModules" where
  "populate_default_internals m =
     (case tm_class m of
        TTGPSModules g \<Rightarrow> m\<lparr> tm_class := TTGPSModules (default_gps_internals g) \<rparr>
      | TTP1_BModules mappings \<Rightarrow> m\<lparr> tm_class := TTP1_BModules (default_p1b_internals (tm_name m) mappings) \<rparr>
      | _ \<Rightarrow> m)"

text \<open>The loop starts at the first element \<open>mapping\<close> and goes on with any sibling.\<close>

definition mapping_pair :: "TiXmlElement \<Rightarrow> tt_pair" where
  "mapping_pair e =
     (if queryBoolValue e ''optional'' then set_optional (new_Pair (queryStringValue e ''name''))
      else new_Pair (queryStringValue e ''name''))"

definition gps_internals :: "TiXmlElement \<Rightarrow> gps_mapping \<Rightarrow> gps_mapping" where
  "gps_internals e g =
     (let g1 = (case first_child e ''dualCompoundMapping'' of
            None \<Rightarrow> g
          | Some x \<Rightarrow> g\<lparr> gp_refCoordX := queryStringValue x ''refA'', gp_refCoordY := queryStringValue x ''refB'',
                      gp_separator := queryStringValue x ''separator'' \<rparr>)
      in case first_child e ''metadataAttribute'' of
           None \<Rightarrow> g1
         | Some x \<Rightarrow> g1\<lparr> gp_metaName := queryStringValue x ''name'', gp_metaType := queryStringValue x ''type'',
                     gp_metaValue := queryStringValue x ''value'' \<rparr>)"

definition p1b_internals :: "TiXmlElement \<Rightarrow> (string, tt_pair) std_map \<Rightarrow> (string, tt_pair) std_map" where
  "p1b_internals e mappings =
     fold (\<lambda>x. addToMap (queryStringValue x ''ref'') (mapping_pair x))
       (dropWhile (\<lambda>x. el_value x \<noteq> ''mapping'') (el_children e)) mappings"

definition populateInternalMappings :: "TiXmlElement \<Rightarrow> TTModules \<Rightarrow> TTModules" where
  "populateInternalMappings e m =
     (case tm_class m of
        TTGPSModules g \<Rightarrow> m\<lparr> tm_class := TTGPSModules (gps_internals e g) \<rparr>
      | TTP1_BModules mappings \<Rightarrow>
          m\<lparr> tm_type := ''compound'', tm_class := TTP1_BModules (p1b_internals e mappings) \<rparr>
      | _ \<Rightarrow> m)"

subsection \<open>Transformation\<close>

text \<open>The code looks the value up again for every use.\<close>

definition transform_gps :: "fp_ops \<Rightarrow> gps_mapping \<Rightarrow> CC_AttributesType \<Rightarrow> TTModules \<Rightarrow> TTModules result" where
  "transform_gps fp g attribs m0 =
     bind_exn (parseSleepCondAndTime fp attribs m0) (\<lambda>m.
     let wrong = m\<lparr> tm_valid := False, tm_json := ''{}'' \<rparr> in
     case (map_find attribs (gp_refCoordX g), map_find attribs (gp_refCoordY g)) of
       (Some x, Some y) \<Rightarrow>
         bind_exn (value_text fp x) (\<lambda>coordX.
           if coordX = [] then Inr wrong
           else bind_exn (value_text fp y) (\<lambda>coordY.
             if coordY = [] then Inr wrong
             else
               let sleepAndCond = appendSleepCondTime m in
               Inr (m\<lparr> tm_valid := True,
                 tm_json := ''{'' @ name_type_value ''position'' ''coords'' (coordX @ gp_separator g @ coordY)
                   @ '','' @ quoted ''metadatas'' @ '':[{''
                   @ name_type_value (gp_metaName g) (gp_metaType g) (gp_metaValue g) @ ''}''
                   @ (if sleepAndCond \<noteq> [] then '',{'' @ sleepAndCond @ ''}'' else []) @ '']'' @ ''}'' \<rparr>)))
     | _ \<Rightarrow> Inr wrong)"

text \<open>The loop over the mappings: the text so far, the number of hits and whether all is well.\<close>

fun map_params ::
  "fp_ops \<Rightarrow> CC_AttributesType \<Rightarrow> (string, tt_pair) std_map \<Rightarrow> string \<times> nat \<times> bool
   \<Rightarrow> ((string, tt_pair) std_map \<times> string \<times> nat \<times> bool) result" where
  "map_params fp inputMap [] st = Inr ([], st)"
| "map_params fp inputMap ((ref, p) # mappings) (jSonValue, count, ok) =
     bind_exn (text_or_empty fp inputMap ref) (\<lambda>v.
       let (p', st) =
         (if v \<noteq> []
          then (p\<lparr> pr_value := v \<rparr>,
                (jSonValue @ (if count > 0 then ''},{'' else []) @ name_type_value (pr_name p) ''string'' v, count + 1, ok))
          else (p, (jSonValue, count, ok \<and> \<not> pr_mandatory p)))
       in bind_exn (map_params fp inputMap mappings st) (\<lambda>(mp, st'). Inr ((ref, p') # mp, st')))"

definition transform_p1b ::
  "fp_ops \<Rightarrow> (string, tt_pair) std_map \<Rightarrow> CC_AttributesType \<Rightarrow> TTModules \<Rightarrow> TTModules result" where
  "transform_p1b fp mappings inputMap m0 =
     bind_exn (parseSleepCondAndTime fp inputMap m0) (\<lambda>m.
     bind_exn (map_params fp inputMap mappings (''{'', 0, True)) (\<lambda>(mappings', jSonValue, _, ok).
     Inr (m\<lparr> tm_class := TTP1_BModules mappings', tm_valid := ok,
       tm_json := ''{'' @ quoted ''name'' @ '':'' @ quoted (tm_name m) @ '','' @ quoted ''type'' @ '':'' @ quoted ''compound'' @ '',''
         @ quoted ''value'' @ '':['' @ jSonValue @ ''}'' @ '']'' @ doMetadatas m @ ''}'' \<rparr>)))"

definition transform_gm :: "fp_ops \<Rightarrow> CC_AttributesType \<Rightarrow> TTModules \<Rightarrow> TTModules result" where
  "transform_gm fp attribs m0 =
     bind_exn (parseSleepCondAndTime fp attribs m0) (\<lambda>m.
     bind_exn (text_or_empty fp attribs ''param_2'') (\<lambda>valueGM.
     bind_exn (text_or_empty fp attribs ''param_1'') (\<lambda>nameGM.
       if nameGM \<noteq> [] \<and> valueGM \<noteq> []
       then Inr (m\<lparr> tm_valid := True, tm_json := ''{'' @ name_type_value nameGM ''string'' valueGM @ doMetadatas m @ ''}'' \<rparr>)
       else Inr (m\<lparr> tm_valid := False, tm_json := ''{}'' \<rparr>))))"

definition CB_OUTGC_PREFIX :: string where
  "CB_OUTGC_PREFIX = ''_TTcurrent_''"

definition transform_gc :: "fp_ops \<Rightarrow> CC_AttributesType \<Rightarrow> TTModules \<Rightarrow> TTModules result" where
  "transform_gc fp attribs m0 =
     bind_exn (parseSleepCondAndTime fp attribs m0) (\<lambda>m.
     bind_exn (text_or_empty fp attribs ''param_2'') (\<lambda>valueGC.
     bind_exn (text_or_empty fp attribs ''param_1'') (\<lambda>nameGC.
       if nameGC \<noteq> [] \<and> valueGC \<noteq> []
       then Inr (m\<lparr> tm_valid := True,
              tm_json := ''{'' @ name_type_value (CB_OUTGC_PREFIX @ nameGC) ''string'' valueGC @ doMetadatas m @ ''}'',
              tm_class := TTGC_Modules (''{'' @ name_type_value nameGC ''string'' valueGC @ doMetadatas m @ ''}'') \<rparr>)
       else Inr (m\<lparr> tm_valid := False, tm_json := ''{}'', tm_class := TTGC_Modules ''{}'' \<rparr>))))"

definition transform :: "fp_ops \<Rightarrow> CC_AttributesType \<Rightarrow> TTModules \<Rightarrow> TTModules result" where
  "transform fp attribs m =
     (case tm_class m of
        TTGPSModules g \<Rightarrow> transform_gps fp g attribs m
      | TTP1_BModules mappings \<Rightarrow> transform_p1b fp mappings attribs m
      | TTGM_Modules \<Rightarrow> transform_gm fp attribs m
      | TTGC_Modules _ \<Rightarrow> transform_gc fp attribs m)"

subsection \<open>The postprocessor\<close>

record ESP_Postprocessor_TT =
  po_modulesMap :: "(string, TTModules) std_map"
  po_result :: string
  po_resultValid :: bool

text \<open>The constructor leaves \<open>resultValid\<close> unset; it is read after \<open>initialize\<close> only.\<close>

definition new_Postprocessor_TT :: ESP_Postprocessor_TT where
  "new_Postprocessor_TT = \<lparr> po_modulesMap = [], po_result = [], po_resultValid = False \<rparr>"

definition pp_initialize :: "ESP_Postprocessor_TT \<Rightarrow> ESP_Postprocessor_TT" where
  "pp_initialize p = p\<lparr> po_result := [], po_resultValid := False \<rparr>"

definition pp_result_text :: "TTModules \<Rightarrow> string" where
  "pp_result_text m =
     ''{ '' @ quoted ''processed'' @ '' : '' @ toJSON m @ '','' @ quoted ''plain'' @ '' : '' @ toPlainJSON m @ ''}''"

definition pp_execute :: "fp_ops \<Rightarrow> CC_AttributesType \<Rightarrow> ESP_Postprocessor_TT \<Rightarrow> (bool \<times> ESP_Postprocessor_TT) result" where
  "pp_execute fp attribs p0 =
     (let p = p0\<lparr> po_resultValid := False \<rparr> in
      bind_exn (found_text fp attribs ''module'') (\<lambda>itModule.
        case itModule of
          None \<Rightarrow> Inr (False, p)
        | Some keyword \<Rightarrow>
            (case map_find (po_modulesMap p) keyword of
               None \<Rightarrow> Inr (True, p)
             | Some ttObj \<Rightarrow>
                 bind_exn (transform fp attribs ttObj) (\<lambda>m.
                 Inr (True, p\<lparr> po_modulesMap := map_assign keyword m (po_modulesMap p),
                   po_result := (if tm_valid m then pp_result_text m else po_result p),
                   po_resultValid := (toJSON m \<noteq> [] \<and> toPlainJSON m \<noteq> [] \<and> tm_valid m) \<rparr>)))))"

definition checkParams :: "ESP_Postprocessor_TT \<Rightarrow> bool" where
  "checkParams p \<longleftrightarrow> po_modulesMap p \<noteq> []"

definition parse_ttmodules :: "TiXmlElement \<Rightarrow> ESP_Postprocessor_TT \<Rightarrow> ESP_Postprocessor_TT" where
  "parse_ttmodules e p =
     fold (\<lambda>x q. let keyword = queryStringValue x ''keyword'' in
         q\<lparr> po_modulesMap := map_insert keyword (populateInternalMappings x (decodeModule keyword)) (po_modulesMap q) \<rparr>)
       (dropWhile (\<lambda>x. el_value x \<noteq> ''ttmodule'') (el_children e)) p"

definition load_default_TTModules :: "ESP_Postprocessor_TT \<Rightarrow> ESP_Postprocessor_TT" where
  "load_default_TTModules p =
     (let add = (\<lambda>k c m. map_insert k (populate_default_internals (new_TTModules c k)) m) in
      p\<lparr> po_modulesMap :=
        add ''B'' (TTP1_BModules []) (add ''P1'' (TTP1_BModules []) (add ''GPS'' (TTGPSModules new_gps_mapping)
          (add ''GM'' TTGM_Modules (add ''GC'' (TTGC_Modules []) (po_modulesMap p))))) \<rparr>)"

section \<open>Modules remember nothing\<close>

definition forget_pair :: "tt_pair \<Rightarrow> tt_pair" where
  "forget_pair p = p\<lparr> pr_value := [] \<rparr>"

definition forget_class :: "tt_class \<Rightarrow> tt_class" where
  "forget_class c =
     (case c of TTP1_BModules mp \<Rightarrow> TTP1_BModules (map (apsnd forget_pair) mp) | TTGC_Modules _ \<Rightarrow> TTGC_Modules [] | _ \<Rightarrow> c)"

definition forget :: "TTModules \<Rightarrow> TTModules" where
  "forget m = new_TTModules (forget_class (tm_class m)) (tm_name m)"

text \<open>The loop over the mappings reads all texts, whatever it then does with them.\<close>

definition fill_pair :: "string \<times> tt_pair \<Rightarrow> string \<Rightarrow> string \<times> tt_pair" where
  "fill_pair e v = (if v \<noteq> [] then (fst e, (snd e)\<lparr> pr_value := v \<rparr>) else e)"

fun add_hit :: "(string \<times> tt_pair) \<times> string \<Rightarrow> string \<times> nat \<times> bool \<Rightarrow> string \<times> nat \<times> bool" where
  "add_hit ((ref, p), v) (jSonValue, count, ok) =
     (if v \<noteq> []
      then (jSonValue @ (if count > 0 then ''},{'' else []) @ name_type_value (pr_name p) ''string'' v, count + 1, ok)
      else (jSonValue, count, ok \<and> \<not> pr_mandatory p))"

lemma map_params_eq:
  "map_params fp a mp st =
     bind_exn (map_exn (text_or_empty fp a) (map fst mp)) (\<lambda>vs. Inr (map2 fill_pair mp vs, fold add_hit (zip mp vs) st))"
proof (induction fp a mp st rule: map_params.induct)
  case (2 fp a k p mp jv c ok)
  then show ?case
    by (cases "text_or_empty fp a k"; cases "map_exn (text_or_empty fp a) (map fst mp)") (auto simp: fill_pair_def)
qed simp

lemma forget_pair_idem [simp]: "apsnd forget_pair (apsnd forget_pair e) = apsnd forget_pair e"
  by (cases e) (simp add: forget_pair_def)

lemma fill_pair_forget:
  "length vs = length mp \<Longrightarrow> map (\<lambda>x. apsnd forget_pair (fill_pair (fst x) (snd x))) (zip mp vs) = map (apsnd forget_pair) mp"
  "length vs = length mp \<Longrightarrow>
     map (\<lambda>x. apsnd forget_pair (fill_pair (fst x) (snd x))) (zip (map (apsnd forget_pair) mp) vs) = map (apsnd forget_pair) mp"
  by (induction mp vs rule: list_induct2') (auto simp: fill_pair_def forget_pair_def)

lemma add_hit_forget: "fold add_hit (zip (map (apsnd forget_pair) mp) vs) st = fold add_hit (zip mp vs) st"
proof (induction mp arbitrary: vs st)
  case (Cons e mp)
  show ?case
  proof (cases vs)
    case (Cons v vs')
    have "add_hit (apsnd forget_pair e, v) st = add_hit (e, v) st" by (cases e; cases st) (simp add: forget_pair_def)
    then show ?thesis using Cons.IH Cons by simp
  qed simp
qed simp

lemma map_exn_length: "map_exn f xs = Inr ys \<Longrightarrow> length ys = length xs"
  by (induction xs arbitrary: ys) (auto simp: bind_exn_eq_Inr_iff)

lemma parse_sleep_forget:
  "parseSleepCondAndTime fp a m = bind_exn (parseSleepCondAndTime fp a (forget m))
     (\<lambda>n. Inr (m\<lparr> tm_sleepCondition := tm_sleepCondition n, tm_sleepTime := tm_sleepTime n \<rparr>))"
  by (cases "text_or_empty fp a ''sleepcondition''"; cases "text_or_empty fp a ''sleeptime''")
     (simp_all add: parseSleepCondAndTime_def)

text \<open>What one sees of a module after a transformation.\<close>

definition seen :: "TTModules result \<Rightarrow> (bool \<times> string \<times> string \<times> TTModules) result" where
  "seen r = bind_exn r (\<lambda>m. Inr (tm_valid m, toJSON m, toPlainJSON m, forget m))"

lemma forget_simps [simp]:
  "tm_name (forget m) = tm_name m" "tm_class (forget m) = forget_class (tm_class m)" "forget (forget m) = forget m"
  by (auto simp: forget_def new_TTModules_def forget_class_def forget_pair_def comp_def apsnd_def map_prod_def split: tt_class.split)

lemmas transform_defs = transform_def transform_gps_def transform_gm_def transform_gc_def transform_p1b_def
  parseSleepCondAndTime_def

lemmas module_views = seen_def toJSON_def toPlainJSON_def doMetadatas_def appendSleepCondTime_def

lemma seen_transform: "seen (transform fp a m) = seen (transform fp a (forget m))"
proof (cases "text_or_empty fp a ''sleepcondition''")
  case cond: (Inr sc)
  show ?thesis
  proof (cases "text_or_empty fp a ''sleeptime''")
    case time: (Inr st)
    show ?thesis
    proof (cases "tm_class m")
      case (TTP1_BModules mp)
      have "map_exn (text_or_empty fp a) (map fst mp) = Inr vs \<Longrightarrow> length vs = length mp" for vs
        using map_exn_length by fastforce
      then show ?thesis using TTP1_BModules cond time
        by (cases "map_exn (text_or_empty fp a) (map fst mp)")
           (simp_all add: transform_defs map_params_eq module_views add_hit_forget
             fill_pair_forget comp_def case_prod_beta forget_def new_TTModules_def forget_class_def)
    next
      case (TTGPSModules g)
      show ?thesis
      proof (cases "map_find a (gp_refCoordX g)")
        case (Some x)
        then show ?thesis using TTGPSModules cond time
          by (cases "map_find a (gp_refCoordY g)"; cases "value_text fp x"; cases "value_text fp (the (map_find a (gp_refCoordY g)))")
             (simp_all add: transform_defs module_views forget_def new_TTModules_def forget_class_def Let_def)
      qed (simp add: TTGPSModules cond time transform_defs module_views forget_def new_TTModules_def forget_class_def)
    next
      case TTGM_Modules
      then show ?thesis using cond time
        by (cases "text_or_empty fp a ''param_2''"; cases "text_or_empty fp a ''param_1''")
           (simp_all add: transform_defs module_views forget_def new_TTModules_def forget_class_def)
    next
      case (TTGC_Modules s)
      then show ?thesis using cond time
        by (cases "text_or_empty fp a ''param_2''"; cases "text_or_empty fp a ''param_1''")
           (simp_all add: transform_defs module_views forget_def new_TTModules_def forget_class_def)
    qed
  qed (simp add: transform_defs seen_def cond forget_class_def split: tt_class.split)
qed (simp add: transform_defs seen_def forget_class_def split: tt_class.split)

lemma transform_config: "transform fp a m = Inr m' \<Longrightarrow> forget m' = forget m"
proof (cases "tm_class m")
  case (TTP1_BModules mp)
  assume "transform fp a m = Inr m'"
  then obtain vs where "map_exn (text_or_empty fp a) (map fst mp) = Inr vs"
    "tm_class m' = TTP1_BModules (map2 fill_pair mp vs)" "tm_name m' = tm_name m"
    using TTP1_BModules
    by (auto simp: transform_defs map_params_eq bind_exn_eq_Inr_iff case_prod_beta)
  then show ?thesis
    using map_exn_length [of "text_or_empty fp a" "map fst mp" vs] TTP1_BModules
    by (simp add: forget_def new_TTModules_def forget_class_def fill_pair_forget comp_def case_prod_beta)
next
  case (TTGPSModules g)
  assume "transform fp a m = Inr m'"
  then have "tm_class m' = tm_class m \<and> tm_name m' = tm_name m"
    using TTGPSModules
    by (cases "map_find a (gp_refCoordX g)"; cases "map_find a (gp_refCoordY g)")
       (auto simp: transform_defs bind_exn_eq_Inr_iff Let_def split: if_splits)
  then show ?thesis by (simp add: forget_def)
qed (auto simp: transform_defs bind_exn_eq_Inr_iff forget_def new_TTModules_def forget_class_def split: if_splits)

text \<open>The postprocessor as the service uses it: \<open>initialize\<close> and then \<open>execute\<close>.\<close>

definition pp_step :: "fp_ops \<Rightarrow> CC_AttributesType \<Rightarrow> ESP_Postprocessor_TT \<Rightarrow> (bool \<times> ESP_Postprocessor_TT) result" where
  "pp_step fp a p = pp_execute fp a (pp_initialize p)"

fun pp_steps :: "fp_ops \<Rightarrow> CC_AttributesType list \<Rightarrow> ESP_Postprocessor_TT \<Rightarrow> ESP_Postprocessor_TT result" where
  "pp_steps fp [] p = Inr p"
| "pp_steps fp (a # as) p = bind_exn (pp_step fp a p) (\<lambda>(_, p'). pp_steps fp as p')"

definition pp_outcome :: "fp_ops \<Rightarrow> CC_AttributesType \<Rightarrow> ESP_Postprocessor_TT \<Rightarrow> (bool \<times> bool \<times> string) result" where
  "pp_outcome fp a p = bind_exn (pp_step fp a p) (\<lambda>(r, p'). Inr (r, po_resultValid p', po_result p'))"

definition forget_map :: "(string, TTModules) std_map \<Rightarrow> (string, TTModules) std_map" where
  "forget_map mm = map (apsnd forget) mm"

lemma find_forget_map: "map_find (forget_map mm) k = map_option forget (map_find mm k)"
  by (induction mm) (auto simp: forget_map_def)

lemma assign_forget_map:
  "map_ok mm \<Longrightarrow> map_find mm k = Some m \<Longrightarrow> forget m' = forget m \<Longrightarrow> forget_map (map_assign k m' mm) = forget_map mm"
proof (induction k m' mm rule: map_assign.induct)
  case (2 k v k1 v1 mm)
  have "map_find mm k = Some m \<Longrightarrow> k \<in> map_keys mm"
    by (metis map_find_None_iff option.distinct(1))
  then show ?case using 2 by (auto simp: forget_map_def split: if_splits)
qed simp

lemma pp_step_config:
  assumes "pp_step fp a p = Inr (b, p')" "map_ok (po_modulesMap p)"
  shows "map_ok (po_modulesMap p')" "forget_map (po_modulesMap p') = forget_map (po_modulesMap p)"
proof -
  obtain f where f: "found_text fp a ''module'' = Inr f"
    using assms(1) by (auto simp: pp_step_def pp_execute_def bind_exn_eq_Inr_iff Let_def)
  have "po_modulesMap p' = po_modulesMap p
      \<or> (\<exists>k m m'. map_find (po_modulesMap p) k = Some m \<and> transform fp a m = Inr m' \<and> po_modulesMap p' = map_assign k m' (po_modulesMap p))"
  proof (cases f)
    case (Some k)
    show ?thesis
    proof (cases "map_find (po_modulesMap p) k")
      case found: (Some m)
      then obtain m' where "transform fp a m = Inr m'" "po_modulesMap p' = map_assign k m' (po_modulesMap p)"
        using assms(1) f Some by (auto simp: pp_step_def pp_execute_def pp_initialize_def bind_exn_eq_Inr_iff)
      then show ?thesis using found by blast
    qed (use assms(1) f Some in \<open>auto simp: pp_step_def pp_execute_def pp_initialize_def\<close>)
  qed (use assms(1) f in \<open>auto simp: pp_step_def pp_execute_def pp_initialize_def\<close>)
  then show "map_ok (po_modulesMap p')" "forget_map (po_modulesMap p') = forget_map (po_modulesMap p)"
    using assms(2) transform_config assign_forget_map by auto
qed

lemma pp_outcome_seen:
  "pp_outcome fp a p = bind_exn (found_text fp a ''module'') (\<lambda>f.
     case f of None \<Rightarrow> Inr (False, False, [])
     | Some k \<Rightarrow> (case map_option (\<lambda>m. seen (transform fp a m)) (map_find (po_modulesMap p) k) of
         None \<Rightarrow> Inr (True, False, [])
       | Some r \<Rightarrow> bind_exn r (\<lambda>(ok, js, pl, _).
           Inr (True, js \<noteq> [] \<and> pl \<noteq> [] \<and> ok,
             if ok then ''{ '' @ quoted ''processed'' @ '' : '' @ js @ '','' @ quoted ''plain'' @ '' : '' @ pl @ ''}'' else []))))"
  by (cases "found_text fp a ''module''")
     (auto simp: pp_outcome_def pp_step_def pp_execute_def pp_initialize_def bind_exn_def seen_def pp_result_text_def Let_def
       split: option.split sum.split)

lemma pp_outcome_config:
  assumes "forget_map (po_modulesMap p) = forget_map (po_modulesMap q)"
  shows "pp_outcome fp a p = pp_outcome fp a q"
proof -
  have eq: "map_option (\<lambda>m. seen (transform fp a m)) (map_find mm k)
      = map_option (\<lambda>m. seen (transform fp a m)) (map_find (forget_map mm) k)" for mm k
    unfolding find_forget_map option.map_comp comp_def seen_transform [symmetric] ..
  show ?thesis unfolding pp_outcome_seen eq [of "po_modulesMap p"] eq [of "po_modulesMap q"] assms ..
qed

text \<open>The attributes the parser makes are read inside their blocks.\<close>

lemma found_text_total: "attributes_ok a \<Longrightarrow> \<exists>f. found_text fp a k = Inr f"
  using attributes_ok_find [of a k] getters_defined(1) [of _ fp]
  by (force simp: found_text_def value_text_def split: option.split)

lemma text_or_empty_total: "attributes_ok a \<Longrightarrow> \<exists>s. text_or_empty fp a k = Inr s"
  using found_text_total [of a fp k] by (auto simp: text_or_empty_def)

lemma value_text_total: "attributes_ok a \<Longrightarrow> map_find a k = Some x \<Longrightarrow> \<exists>s. value_text fp x = Inr s"
  using found_text_total [of a fp k] by (cases "value_text fp x") (auto simp: found_text_def)

lemma texts_total: "attributes_ok a \<Longrightarrow> \<exists>vs. map_exn (text_or_empty fp a) ks = Inr vs"
proof (induction ks)
  case (Cons k ks)
  then show ?case using text_or_empty_total [of a fp k] by auto
qed simp

lemma transform_total:
  assumes "attributes_ok a"
  shows "\<exists>m'. transform fp a m = Inr m'"
proof -
  note t = text_or_empty_total [OF assms, of fp]
  obtain sc st p1 p2 where s: "text_or_empty fp a ''sleepcondition'' = Inr sc" "text_or_empty fp a ''sleeptime'' = Inr st"
    "text_or_empty fp a ''param_1'' = Inr p1" "text_or_empty fp a ''param_2'' = Inr p2"
    using t by metis
  show ?thesis
  proof (cases "tm_class m")
    case (TTGPSModules g)
    show ?thesis
    proof (cases "map_find a (gp_refCoordX g)"; cases "map_find a (gp_refCoordY g)")
      fix x y assume f: "map_find a (gp_refCoordX g) = Some x" "map_find a (gp_refCoordY g) = Some y"
      then show ?thesis
        using value_text_total [OF assms f(1), of fp] value_text_total [OF assms f(2), of fp] TTGPSModules s
        by (auto simp: transform_defs Let_def)
    qed (simp_all add: transform_defs TTGPSModules s Let_def)
  next
    case (TTP1_BModules mp)
    then show ?thesis using texts_total [OF assms, of fp "map fst mp"] s
      by (auto simp: transform_defs map_params_eq case_prod_beta)
  qed (simp_all add: transform_defs s)
qed

lemma pp_step_total:
  assumes "attributes_ok a"
  shows "\<exists>r. pp_step fp a p = Inr r"
proof -
  obtain f where f: "found_text fp a ''module'' = Inr f" using found_text_total [OF assms] by blast
  show ?thesis
  proof (cases f)
    case (Some k)
    show ?thesis
    proof (cases "map_find (po_modulesMap p) k")
      case found: (Some m)
      obtain m' where "transform fp a m = Inr m'" using transform_total [OF assms] by blast
      then show ?thesis unfolding pp_step_def pp_execute_def pp_initialize_def Let_def by (simp add: f Some found del: split_paired_Ex)
    qed (simp add: pp_step_def pp_execute_def pp_initialize_def f Some del: split_paired_Ex)
  qed (simp add: pp_step_def pp_execute_def pp_initialize_def f del: split_paired_Ex)
qed

lemma pp_steps_run:
  "list_all attributes_ok earlier \<Longrightarrow> map_ok (po_modulesMap p) \<Longrightarrow>
     \<exists>p'. pp_steps fp earlier p = Inr p' \<and> forget_map (po_modulesMap p') = forget_map (po_modulesMap p)"
proof (induction earlier arbitrary: p)
  case (Cons x xs)
  then obtain b q where q: "pp_step fp x p = Inr (b, q)" using pp_step_total [of x fp p] by auto
  note c = pp_step_config [OF q Cons.prems(2)]
  show ?case using Cons.IH [of q] Cons.prems c q by auto
qed simp

text \<open>C38: What the device said before leaves no trace: after any messages, whatever their modules held and
  whether they were complete, the postprocessor gives for the next message the return value, validity and
  text that it gives without them; and it reads no value outside its block.\<close>

theorem earlier_messages_leave_no_trace:
  assumes "map_ok (po_modulesMap p)" "list_all attributes_ok earlier" "attributes_ok a"
  shows "\<exists>p' r. pp_steps fp earlier p = Inr p' \<and> pp_outcome fp a p' = Inr r \<and> pp_outcome fp a p = Inr r"
proof -
  obtain p' where p': "pp_steps fp earlier p = Inr p'" "forget_map (po_modulesMap p') = forget_map (po_modulesMap p)"
    using pp_steps_run assms(1,2) by blast
  moreover obtain r where "pp_outcome fp a p = Inr r"
    using pp_step_total [OF assms(3), of fp p] by (auto simp: pp_outcome_def)
  ultimately show ?thesis using pp_outcome_config [OF p'(2), of fp a] by metis
qed

section \<open>Modules write attributes\<close>

text \<open>The NGSI attribute a module stands for: the texts of the message put together as the module says.\<close>

definition message_text :: "fp_ops \<Rightarrow> CC_AttributesType \<Rightarrow> string \<Rightarrow> string" where
  "message_text fp attribs key = (case text_or_empty fp attribs key of Inr s \<Rightarrow> s | Inl _ \<Rightarrow> [])"

definition plain_part :: "string \<Rightarrow> string \<Rightarrow> string \<Rightarrow> Attribute" where
  "plain_part n t v = Attribute n t v [] [] False"

definition sleep_metadatas :: "string \<Rightarrow> string \<Rightarrow> Attribute list" where
  "sleep_metadatas sleepcondition sleeptime =
     (if sleepcondition \<noteq> [] then [plain_part ''sleepcondition'' ''string'' sleepcondition] else [])
     @ (if sleeptime \<noteq> [] then [plain_part ''sleeptime'' ''string'' sleeptime] else [])"

definition tt_parts :: "fp_ops \<Rightarrow> CC_AttributesType \<Rightarrow> (string, tt_pair) std_map \<Rightarrow> Attribute list" where
  "tt_parts fp a mp =
     map (\<lambda>e. plain_part (pr_name (snd e)) ''string'' (message_text fp a (fst e))) (filter (\<lambda>e. message_text fp a (fst e) \<noteq> []) mp)"

definition tt_attribute :: "fp_ops \<Rightarrow> CC_AttributesType \<Rightarrow> bool \<Rightarrow> TTModules \<Rightarrow> Attribute" where
  "tt_attribute fp a plain m =
     (let sleep = sleep_metadatas (message_text fp a ''sleepcondition'') (message_text fp a ''sleeptime'');
          p1 = message_text fp a ''param_1''; p2 = message_text fp a ''param_2''
      in case tm_class m of
           TTGPSModules g \<Rightarrow> Attribute ''position'' ''coords''
             (message_text fp a (gp_refCoordX g) @ gp_separator g @ message_text fp a (gp_refCoordY g))
             (plain_part (gp_metaName g) (gp_metaType g) (gp_metaValue g) # sleep) [] False
         | TTP1_BModules mp \<Rightarrow> Attribute (tm_name m) ''compound'' [] sleep (tt_parts fp a mp) False
         | TTGM_Modules \<Rightarrow> Attribute p1 ''string'' p2 sleep [] False
         | TTGC_Modules _ \<Rightarrow> Attribute ((if plain then [] else CB_OUTGC_PREFIX) @ p1) ''string'' p2 sleep [] False)"

definition tt_complete :: "fp_ops \<Rightarrow> CC_AttributesType \<Rightarrow> TTModules \<Rightarrow> bool" where
  "tt_complete fp a m =
     (case tm_class m of
        TTGPSModules g \<Rightarrow> message_text fp a (gp_refCoordX g) \<noteq> [] \<and> message_text fp a (gp_refCoordY g) \<noteq> []
      | TTP1_BModules mp \<Rightarrow> list_all (\<lambda>e. pr_mandatory (snd e) \<longrightarrow> message_text fp a (fst e) \<noteq> []) mp
      | _ \<Rightarrow> message_text fp a ''param_1'' \<noteq> [] \<and> message_text fp a ''param_2'' \<noteq> [])"

lemma message_text_read: "text_or_empty fp a k = Inr s \<Longrightarrow> message_text fp a k = s"
  by (simp add: message_text_def)

lemma plain_part_simps [simp]:
  "json_text (leaf_doc (plain_part n t v)) = ''{'' @ name_type_value n t v @ ''}''"
  "a_name (plain_part n t v) = n" "a_type (plain_part n t v) = t" "a_value (plain_part n t v) = v"
  by (simp_all add: plain_part_def leaf_doc_def name_type_value_def)

lemma attribute_text:
  "t \<noteq> ''compound'' \<Longrightarrow> json_text (attribute_doc lib (Attribute n t v ms [] b)) =
     ''{'' @ name_type_value n t v
     @ (if ms = [] then [] else '','' @ quoted ''metadatas'' @ '':'' @ json_text (JArray (map leaf_doc ms))) @ ''}''"
  "cs \<noteq> [] \<Longrightarrow> json_text (attribute_doc lib (Attribute n ''compound'' [] ms cs False)) =
     ''{'' @ quoted ''name'' @ '':'' @ quoted n @ '','' @ quoted ''type'' @ '':'' @ quoted ''compound'' @ '',''
     @ quoted ''value'' @ '':'' @ json_text (JArray (map leaf_doc cs))
     @ (if ms = [] then [] else '','' @ quoted ''metadatas'' @ '':'' @ json_text (JArray (map leaf_doc ms))) @ ''}''"
  by (simp_all add: attribute_doc_def value_doc_def name_type_value_def)

lemma sleep_text:
  "appendSleepCondTime m = [] \<longleftrightarrow> sleep_metadatas (tm_sleepCondition m) (tm_sleepTime m) = []"
  "doMetadatas m =
     (let ms = sleep_metadatas (tm_sleepCondition m) (tm_sleepTime m) in
      if ms = [] then [] else '','' @ quoted ''metadatas'' @ '':'' @ json_text (JArray (map leaf_doc ms)))"
  "json_text (JArray (map leaf_doc (plain_part n t v # sleep_metadatas (tm_sleepCondition m) (tm_sleepTime m)))) =
     ''[{'' @ name_type_value n t v @ ''}''
     @ (if appendSleepCondTime m \<noteq> [] then '',{'' @ appendSleepCondTime m @ ''}'' else []) @ '']''"
  by (simp_all add: appendSleepCondTime_def doMetadatas_def sleep_metadatas_def name_type_value_def quoted_def)

lemma braces_join: "xs \<noteq> [] \<Longrightarrow> ''{'' @ join_with ''},{'' xs @ ''}'' = join_with '','' (map (\<lambda>x. ''{'' @ x @ ''}'') xs)"
  by (induction "''},{''" xs rule: join_with.induct) auto

lemma add_hits:
  "fold add_hit (zip mp vs) (jv, c, ok) =
     (let hits = map (\<lambda>x. name_type_value (pr_name (snd (fst x))) ''string'' (snd x)) (filter (\<lambda>x. snd x \<noteq> []) (zip mp vs)) in
      (jv @ (if hits = [] then [] else (if c > 0 then ''},{'' else []) @ join_with ''},{'' hits), c + length hits,
       ok \<and> list_all (\<lambda>x. pr_mandatory (snd (fst x)) \<longrightarrow> snd x \<noteq> []) (zip mp vs)))"
proof (induction mp arbitrary: vs jv c ok)
  case (Cons e mp)
  show ?case
  proof (cases vs)
    case (Cons v vs')
    obtain k p where "e = (k, p)" by (cases e)
    then show ?thesis using Cons.IH Cons
      by (cases "filter (\<lambda>x. snd x \<noteq> []) (zip mp vs')") (auto simp: Let_def)
  qed simp
qed simp

lemma map_exn_texts: "map_exn (text_or_empty fp a) ks = Inr vs \<Longrightarrow> vs = map (message_text fp a) ks"
  by (induction ks arbitrary: vs) (auto simp: bind_exn_eq_Inr_iff message_text_read)

lemma zip_own_map: "zip xs (map f xs) = map (\<lambda>x. (x, f x)) xs"
  by (induction xs) simp_all

lemma p1b_text:
  assumes "map_params fp a mp (''{'', 0, True) = Inr (mp', js, c, ok)"
  shows "ok \<longleftrightarrow> list_all (\<lambda>e. pr_mandatory (snd e) \<longrightarrow> message_text fp a (fst e) \<noteq> []) mp"
    and "tt_parts fp a mp \<noteq> [] \<Longrightarrow> ''['' @ js @ ''}'' @ '']'' = json_text (JArray (map leaf_doc (tt_parts fp a mp)))"
proof -
  let ?g = "\<lambda>e. message_text fp a (fst e)"
  let ?hits = "map (\<lambda>e. name_type_value (pr_name (snd e)) ''string'' (?g e)) (filter (\<lambda>e. ?g e \<noteq> []) mp)"
  have vs: "map_exn (text_or_empty fp a) (map fst mp) = Inr vs \<Longrightarrow> zip mp vs = map (\<lambda>x. (x, ?g x)) mp" for vs
    using zip_own_map [of mp ?g] by (auto dest!: map_exn_texts simp: comp_def)
  have "filter (\<lambda>x. snd x \<noteq> []) (map (\<lambda>x. (x, ?g x)) mp) = map (\<lambda>x. (x, ?g x)) (filter (\<lambda>e. ?g e \<noteq> []) mp)"
    by (induction mp) auto
  then have "fold add_hit (map (\<lambda>x. (x, ?g x)) mp) (''{'', 0, True)
      = (''{'' @ (if ?hits = [] then [] else join_with ''},{'' ?hits), length ?hits,
         list_all (\<lambda>e. pr_mandatory (snd e) \<longrightarrow> ?g e \<noteq> []) mp)"
    using add_hits [of mp "map ?g mp" "''{''" 0 True] zip_own_map [of mp ?g]
    by (simp add: Let_def comp_def list_all_iff)
  then have js: "js = ''{'' @ (if ?hits = [] then [] else join_with ''},{'' ?hits)"
    and ok: "ok \<longleftrightarrow> list_all (\<lambda>e. pr_mandatory (snd e) \<longrightarrow> ?g e \<noteq> []) mp"
    using assms vs by (auto simp: map_params_eq bind_exn_eq_Inr_iff)
  show "ok \<longleftrightarrow> list_all (\<lambda>e. pr_mandatory (snd e) \<longrightarrow> ?g e \<noteq> []) mp" by (rule ok)
  assume "tt_parts fp a mp \<noteq> []"
  then have hits: "?hits \<noteq> []" "map (json_text \<circ> leaf_doc) (tt_parts fp a mp) = map (\<lambda>x. ''{'' @ x @ ''}'') ?hits"
    by (auto simp: tt_parts_def)
  then show "''['' @ js @ ''}'' @ '']'' = json_text (JArray (map leaf_doc (tt_parts fp a mp)))"
    using braces_join [OF hits(1)] by (simp add: js)
qed

text \<open>The value of a module of parts may be empty: the code then writes one part without fields.\<close>

definition has_value :: "fp_ops \<Rightarrow> CC_AttributesType \<Rightarrow> TTModules \<Rightarrow> bool" where
  "has_value fp a m = (case tm_class m of TTP1_BModules mp \<Rightarrow> tt_parts fp a mp \<noteq> [] | _ \<Rightarrow> True)"

lemma gps_writes:
  assumes "transform fp a m = Inr m'" "text_or_empty fp a ''sleepcondition'' = Inr sc" "text_or_empty fp a ''sleeptime'' = Inr st"
    and "tm_class m = TTGPSModules g"
  shows "(tm_valid m' \<longleftrightarrow> tt_complete fp a m)
    \<and> (tt_complete fp a m \<and> has_value fp a m \<longrightarrow>
        toJSON m' = json_text (attribute_doc lib (tt_attribute fp a False m))
        \<and> toPlainJSON m' = json_text (attribute_doc lib (tt_attribute fp a True m)))"
proof -
  note sleep' = assms(2,3) [THEN message_text_read]
  show ?thesis
  proof (cases "map_find a (gp_refCoordX g)"; cases "map_find a (gp_refCoordY g)")
    fix x y assume found: "map_find a (gp_refCoordX g) = Some x" "map_find a (gp_refCoordY g) = Some y"
    let ?m = "m\<lparr> tm_sleepCondition := sc, tm_sleepTime := st \<rparr>"
    obtain vx where vx: "value_text fp x = Inr vx"
      using assms found by (auto simp: transform_defs bind_exn_eq_Inr_iff Let_def)
    have X: "message_text fp a (gp_refCoordX g) = vx"
      using vx found by (simp add: message_text_def text_or_empty_def found_text_def)
    show ?thesis
    proof (cases "vx = []")
      case True
      then have "\<not> tm_valid m'" using assms found vx by (auto simp: transform_defs Let_def)
      then show ?thesis using True X assms(4) by (simp add: tt_complete_def)
    next
      case False
      then obtain vy where vy: "value_text fp y = Inr vy"
        using assms found vx by (auto simp: transform_defs bind_exn_eq_Inr_iff Let_def)
      have Y: "message_text fp a (gp_refCoordY g) = vy"
        using vy found by (simp add: message_text_def text_or_empty_def found_text_def)
      show ?thesis
      proof (cases "vy = []")
        case True
        then have "\<not> tm_valid m'" using assms found vx vy False by (auto simp: transform_defs Let_def)
        then show ?thesis using True Y assms(4) by (simp add: tt_complete_def)
      next
        case more: False
        have "tm_valid m'" "tm_class m' = tm_class m"
          "toJSON m' = ''{'' @ name_type_value ''position'' ''coords'' (vx @ gp_separator g @ vy)
             @ '','' @ quoted ''metadatas'' @ '':'' @ (''[{'' @ name_type_value (gp_metaName g) (gp_metaType g) (gp_metaValue g) @ ''}''
             @ (if appendSleepCondTime ?m \<noteq> [] then '',{'' @ appendSleepCondTime ?m @ ''}'' else []) @ '']'') @ ''}''"
          using assms found vx vy False more by (auto simp: transform_defs Let_def toJSON_def)
        moreover have "toPlainJSON m' = toJSON m'" using calculation(2) assms(4) by (simp add: toPlainJSON_def toJSON_def)
        ultimately show ?thesis
          using X Y False more assms(4) sleep' unfolding sleep_text(3) [symmetric]
          by (simp add: tt_complete_def has_value_def tt_attribute_def attribute_text)
      qed
    qed
  qed (use assms in \<open>simp_all add: transform_defs tt_complete_def message_text_def text_or_empty_def
        found_text_def Let_def, auto\<close>)
qed


section \<open>Samples\<close>

definition tt_fp :: fp_ops where
  "tt_fp = \<lparr> fp_float = (\<lambda>s. []), fp_double = (\<lambda>s. []), fp_fless = (\<lambda>a b. False), fp_dless = (\<lambda>a b. False),
     fp_fshow = (\<lambda>v. []), fp_dshow = (\<lambda>v. []) \<rparr>"

definition text_attribute :: "string \<Rightarrow> ESP_Attribute" where
  "text_attribute s =
     \<lparr> at_name = [], at_value = Some (str_bytes s), at_datasize = int (length s), at_datatype = ESP_DataType_STRING,
       at_datacode = ESP_DataCode_STRING \<rparr>"

definition tt_message :: "(string \<times> string) list \<Rightarrow> CC_AttributesType" where
  "tt_message kvs = map (apsnd text_attribute) kvs"

lemma value_text_attribute [simp]: "value_text fp (text_attribute s) = Inr s"
proof -
  have "length (str_bytes s) = length s" by (simp add: str_bytes_def)
  then show ?thesis
    by (simp add: value_text_def getValueAsString_def text_attribute_def getStringValue_def read_mem_def)
qed

lemma find_message: "map_find (tt_message kvs) k = map_option text_attribute (map_of kvs k)"
  by (induction kvs) (auto simp: tt_message_def)

lemma message_texts [simp]:
  "found_text fp (tt_message kvs) k = Inr (map_of kvs k)"
  "text_or_empty fp (tt_message kvs) k = Inr (case map_of kvs k of Some s \<Rightarrow> s | None \<Rightarrow> [])"
  by (simp_all add: found_text_def text_or_empty_def find_message split: option.split)

definition sample_p1 :: TTModules where
  "sample_p1 = populate_default_internals (new_TTModules (TTP1_BModules []) ''P1'')"

definition p1_message :: CC_AttributesType where
  "p1_message = tt_message [(''module'', ''P1''), (''param_1'', ''214''), (''param_2'', ''7''), (''param_3'', ''41''), (''param_4'', ''b1''),
     (''sleeptime'', ''60'')]"


lemma message_ok: "sorted_wrt (<) (map fst kvs) \<Longrightarrow> attributes_ok (tt_message kvs)"
  by (auto simp: attributes_ok_def map_ok_def tt_message_def comp_def list_all_iff text_attribute_def attribute_ok_def str_bytes_def)

lemma default_modules_ok: "map_ok (po_modulesMap (load_default_TTModules new_Postprocessor_TT))"
  by (simp add: load_default_TTModules_def new_Postprocessor_TT_def Let_def)

theorem earlier_messages_leave_no_trace_witness:
  "\<exists>p' r. pp_steps tt_fp [p1_message, tt_message [(''module'', ''P1'')]] (load_default_TTModules new_Postprocessor_TT) = Inr p'
     \<and> pp_outcome tt_fp p1_message p' = Inr r"
  using earlier_messages_leave_no_trace [OF default_modules_ok, of "[p1_message, tt_message [(''module'', ''P1'')]]" p1_message tt_fp]
    message_ok [of "[(''module'', ''P1'')]"] message_ok
  by (auto simp: p1_message_def)

end
