(* ===== verification/Tt_Response.thy ===== *)
theory Tt_Response
  imports Tt_Module
begin

text \<open>
  The answer to a Thinking Things device (\<^verbatim>\<open>src/src/thinkingthings/SearchResponse.cpp\<close>): what the broker holds
  about the entity is compared with what the device sent, module by module, and every module contributes one
  entry \<open>#bus,module,...,sleeptime$sleepcondition\<close>.  \<open>P1\<close>, \<open>B\<close> and the modules without a class of their own
  are answered with what they sent.
\<close>

section \<open>The code\<close>

subsection \<open>Responses of modules\<close>

text \<open>The derived classes with their fields.\<close>

datatype response_class =
    TTCloseResponse
  | GPSResponse
  | BResponse (estado_activacion_carga: string) (modo_carga: string) (tiempo_desconexion_stack: string)
  | GMResponse
  | GCResponse (gc_value: string)

record TTResponse =
  re_class :: response_class
  re_module :: string
  re_busid :: string
  re_nameTTAttribute :: string
  re_sleepCondition :: string
  re_sleepTime :: string
  re_mainResponse :: string
  re_ignore_module :: bool

definition new_TTResponse :: "response_class \<Rightarrow> string \<Rightarrow> TTResponse" where
  "new_TTResponse c m =
     \<lparr> re_class = c, re_module = m, re_busid = [], re_nameTTAttribute = [], re_sleepCondition = [], re_sleepTime = [],
       re_mainResponse = [], re_ignore_module = False \<rparr>"

definition decodeStringToTTResponse :: "string \<Rightarrow> TTResponse" where
  "decodeStringToTTResponse module =
     new_TTResponse
       (if module = ''GM'' then GMResponse
        else if module = ''GC'' then GCResponse []
        else if module = ''B'' then BResponse [] [] []
        else if module = ''GPS'' then GPSResponse
        else TTCloseResponse) module"

definition setBusId :: "string \<Rightarrow> TTResponse \<Rightarrow> TTResponse" where
  "setBusId bus r = r\<lparr> re_busid := bus \<rparr>"

definition toTTString :: "TTResponse \<Rightarrow> string" where
  "toTTString r = (if re_ignore_module r then [] else re_mainResponse r)"

text \<open>A field that is assigned when the attribute is found.\<close>

definition assign_found :: "fp_ops \<Rightarrow> CC_AttributesType \<Rightarrow> string \<Rightarrow> (string \<Rightarrow> 'r \<Rightarrow> 'r) \<Rightarrow> 'r \<Rightarrow> 'r result" where
  "assign_found fp attribs key upd r =
     bind_exn (found_text fp attribs key) (\<lambda>f. Inr (case f of Some s \<Rightarrow> upd s r | None \<Rightarrow> r))"

definition populate_sleep :: "fp_ops \<Rightarrow> CC_AttributesType \<Rightarrow> TTResponse \<Rightarrow> TTResponse result" where
  "populate_sleep fp attribs r =
     bind_exn (assign_found fp attribs ''sleepcondition'' (\<lambda>s r. r\<lparr> re_sleepCondition := s \<rparr>) r)
       (assign_found fp attribs ''sleeptime'' (\<lambda>s r. r\<lparr> re_sleepTime := s \<rparr>))"

definition set_tt_name :: "string \<Rightarrow> TTResponse \<Rightarrow> TTResponse" where
  "set_tt_name s r = r\<lparr> re_nameTTAttribute := s \<rparr>"

definition set_estado :: "string \<Rightarrow> TTResponse \<Rightarrow> TTResponse" where
  "set_estado s r = r\<lparr> re_class := BResponse s (modo_carga (re_class r)) (tiempo_desconexion_stack (re_class r)) \<rparr>"

definition set_modo :: "string \<Rightarrow> TTResponse \<Rightarrow> TTResponse" where
  "set_modo s r =
     r\<lparr> re_class := BResponse (estado_activacion_carga (re_class r)) s (tiempo_desconexion_stack (re_class r)) \<rparr>"

definition set_tiempo :: "string \<Rightarrow> TTResponse \<Rightarrow> TTResponse" where
  "set_tiempo s r = r\<lparr> re_class := BResponse (estado_activacion_carga (re_class r)) (modo_carga (re_class r)) s \<rparr>"

definition populate_close :: "fp_ops \<Rightarrow> CC_AttributesType \<Rightarrow> TTResponse \<Rightarrow> TTResponse result" where
  "populate_close fp attribs r = populate_sleep fp attribs (set_tt_name (re_module r) r)"

definition populate_gps :: "fp_ops \<Rightarrow> CC_AttributesType \<Rightarrow> TTResponse \<Rightarrow> TTResponse result" where
  "populate_gps fp attribs r = populate_sleep fp attribs (set_tt_name ''position'' r)"

definition populate_gm :: "fp_ops \<Rightarrow> CC_AttributesType \<Rightarrow> TTResponse \<Rightarrow> TTResponse result" where
  "populate_gm fp attribs r =
     bind_exn (assign_found fp attribs ''param_1'' set_tt_name r) (populate_sleep fp attribs)"

definition populate_gc :: "fp_ops \<Rightarrow> CC_AttributesType \<Rightarrow> TTResponse \<Rightarrow> TTResponse result" where
  "populate_gc fp attribs r =
     bind_exn (populate_sleep fp attribs r) (\<lambda>r1.
     bind_exn (assign_found fp attribs ''param_1'' set_tt_name r1)
       (assign_found fp attribs ''param_2'' (\<lambda>s r. r\<lparr> re_class := GCResponse s \<rparr>)))"

definition populate_b :: "fp_ops \<Rightarrow> CC_AttributesType \<Rightarrow> TTResponse \<Rightarrow> TTResponse result" where
  "populate_b fp attribs r =
     bind_exn (populate_sleep fp attribs r) (\<lambda>r1.
     bind_exn (assign_found fp attribs ''param_2'' set_estado (set_tt_name (re_module r1) r1)) (\<lambda>r2.
     bind_exn (assign_found fp attribs ''param_5'' set_modo r2)
       (assign_found fp attribs ''param_6'' set_tiempo)))"

definition populateInternalFields :: "fp_ops \<Rightarrow> CC_AttributesType \<Rightarrow> TTResponse \<Rightarrow> TTResponse result" where
  "populateInternalFields fp attribs r =
     (case re_class r of
        TTCloseResponse \<Rightarrow> populate_close fp attribs r
      | GPSResponse \<Rightarrow> populate_gps fp attribs r
      | GMResponse \<Rightarrow> populate_gm fp attribs r
      | GCResponse _ \<Rightarrow> populate_gc fp attribs r
      | BResponse _ _ _ \<Rightarrow> populate_b fp attribs r)"

lemmas populate_defs = populateInternalFields_def populate_close_def populate_gps_def populate_gm_def populate_gc_def
  populate_b_def populate_sleep_def

definition parseModule :: "TTResponse \<Rightarrow> string" where
  "parseModule r = ''#'' @ re_busid r @ '','' @ re_module r"

text \<open>The value of the last entry with a name.\<close>

definition last_value :: "Attribute list \<Rightarrow> string \<Rightarrow> string" where
  "last_value as n = fold (\<lambda>a s. if a_name a = n then a_value a else s) as []"

definition parseMetadatas :: "Attribute \<Rightarrow> string" where
  "parseMetadatas attrib = last_value (a_metadata attrib) ''sleeptime'' @ ''$'' @ last_value (a_metadata attrib) ''sleepcondition''"

definition compound_gc :: "Attribute \<Rightarrow> string" where
  "compound_gc attrib = '','' @ a_name attrib @ '','' @ a_value attrib"

definition compound_gm :: "Attribute \<Rightarrow> string" where
  "compound_gm attrib = '','' @ a_name attrib"

definition compound_close :: "Attribute \<Rightarrow> string" where
  "compound_close attrib = '','' @ a_value attrib"

definition compound_b :: "Attribute \<Rightarrow> string" where
  "compound_b attrib =
     (let cs = a_value_compound attrib in
      '','' @ (if cs = [] then []
               else last_value cs ''estado_activacion_carga'' @ '','' @ last_value cs ''modo_carga'' @ '',''
                 @ last_value cs ''tiempo_desconexion_stack''))"

definition parseCompoundSimpleValue :: "TTResponse \<Rightarrow> Attribute \<Rightarrow> string" where
  "parseCompoundSimpleValue r attrib =
     (case re_class r of
        GCResponse _ \<Rightarrow> compound_gc attrib
      | GMResponse \<Rightarrow> compound_gm attrib
      | TTCloseResponse \<Rightarrow> compound_close attrib
      | GPSResponse \<Rightarrow> []
      | BResponse _ _ _ \<Rightarrow> compound_b attrib)"

lemmas compound_defs = parseCompoundSimpleValue_def compound_gc_def compound_gm_def compound_close_def compound_b_def

definition parseResponse :: "Attribute \<Rightarrow> TTResponse \<Rightarrow> TTResponse" where
  "parseResponse attrib r =
     r\<lparr> re_mainResponse := parseModule r @ parseCompoundSimpleValue r attrib @ '','' @ parseMetadatas attrib \<rparr>"

definition default_base :: "TTResponse \<Rightarrow> string" where
  "default_base r = ''#'' @ re_busid r @ '','' @ re_module r @ '','' @ re_sleepTime r @ ''$'' @ re_sleepCondition r"

definition default_gc :: "TTResponse \<Rightarrow> string \<Rightarrow> string" where
  "default_gc r val =
     ''#'' @ re_busid r @ '','' @ re_module r @ '','' @ re_nameTTAttribute r @ '','' @ val @ '','' @ re_sleepTime r @ ''$''
     @ re_sleepCondition r"

definition default_gm :: "TTResponse \<Rightarrow> string" where
  "default_gm r =
     ''#'' @ re_busid r @ '','' @ re_module r @ '','' @ re_nameTTAttribute r @ '','' @ re_sleepTime r @ ''$''
     @ re_sleepCondition r"

definition default_b_response :: "TTResponse \<Rightarrow> string \<Rightarrow> string \<Rightarrow> string \<Rightarrow> string" where
  "default_b_response r estado modo tiempo =
     ''#'' @ re_busid r @ '','' @ re_module r @ '','' @ estado @ '','' @ modo @ '','' @ tiempo @ '','' @ re_sleepTime r
     @ ''$'' @ re_sleepCondition r"

definition parseDefault :: "TTResponse \<Rightarrow> TTResponse" where
  "parseDefault r =
     r\<lparr> re_mainResponse :=
         (case re_class r of
            BResponse estado modo tiempo \<Rightarrow> default_b_response r estado modo tiempo
          | GCResponse v \<Rightarrow> default_gc r v
          | GMResponse \<Rightarrow> default_gm r
          | _ \<Rightarrow> default_base r) \<rparr>"

lemmas default_defs = parseDefault_def default_base_def default_gc_def default_gm_def default_b_response_def

text \<open>The loop over the attributes of the element, with the flag \<open>byDefault\<close>.\<close>

definition match_attribute :: "Attribute \<Rightarrow> TTResponse \<times> bool \<Rightarrow> TTResponse \<times> bool" where
  "match_attribute attrib st =
     (let (r, byDefault) = st in
      if a_name attrib = re_nameTTAttribute r then (parseResponse attrib r, False) else (r, byDefault))"

definition process_close :: "fp_ops \<Rightarrow> CC_AttributesType \<Rightarrow> TTResponse \<Rightarrow> TTResponse result" where
  "process_close fp attribs r = bind_exn (populateInternalFields fp attribs r) (\<lambda>r1. Inr (parseDefault r1))"

definition process_b :: "fp_ops \<Rightarrow> CC_AttributesType \<Rightarrow> TTResponse \<Rightarrow> TTResponse result" where
  "process_b fp attribs r = bind_exn (populateInternalFields fp attribs r) (\<lambda>r1. Inr (parseDefault r1))"

definition process_open :: "fp_ops \<Rightarrow> ContextElement \<Rightarrow> CC_AttributesType \<Rightarrow> TTResponse \<Rightarrow> TTResponse result" where
  "process_open fp cElement attribs r0 =
     bind_exn (populateInternalFields fp attribs r0) (\<lambda>r.
       let (r', byDefault) = fold match_attribute (ce_attributes cElement) (r, True)
       in Inr (if byDefault then parseDefault r' else r'))"

definition processContextElement :: "fp_ops \<Rightarrow> ContextElement \<Rightarrow> CC_AttributesType \<Rightarrow> TTResponse \<Rightarrow> TTResponse result" where
  "processContextElement fp cElement attribs r =
     (case re_class r of
        TTCloseResponse \<Rightarrow> process_close fp attribs r
      | BResponse _ _ _ \<Rightarrow> process_b fp attribs r
      | _ \<Rightarrow> process_open fp cElement attribs r)"

lemmas process_defs = processContextElement_def process_close_def process_b_def process_open_def

subsection \<open>The search\<close>

text \<open>One turn of the loop; the response so far is extended by the entry of the module.\<close>

definition append_entry :: "fp_ops \<Rightarrow> ContextElement \<Rightarrow> CC_AttributesType \<Rightarrow> string \<Rightarrow> string result" where
  "append_entry fp cElement attribs finalResponse =
     (if map_find attribs ''module'' \<noteq> None \<and> map_find attribs ''busid'' \<noteq> None
      then bind_exn (text_or_empty fp attribs ''module'') (\<lambda>module.
           bind_exn (text_or_empty fp attribs ''busid'') (\<lambda>busid.
           bind_exn (processContextElement fp cElement attribs (setBusId busid (decodeStringToTTResponse module))) (\<lambda>ttResponse.
           Inr (finalResponse @ (if finalResponse \<noteq> [] then '','' else []) @ toTTString ttResponse))))
      else Inr finalResponse)"

fun append_entries :: "fp_ops \<Rightarrow> ContextElement \<Rightarrow> CC_AttributesType list \<Rightarrow> string \<Rightarrow> string result" where
  "append_entries fp cElement [] finalResponse = Inr finalResponse"
| "append_entries fp cElement (a # as) finalResponse =
     bind_exn (append_entry fp cElement a finalResponse) (append_entries fp cElement as)"

text \<open>\<open>doSearchTTResponse\<close> with the responses of the query.\<close>

definition search_responses :: "fp_ops \<Rightarrow> ContextResponses \<Rightarrow> CC_AttributesType list \<Rightarrow> string result" where
  "search_responses fp cResponses as =
     (case cResponses of
        [] \<Rightarrow> Inr []
      | cResp # _ \<Rightarrow> if rs_code cResp = ''200'' then append_entries fp (rs_element cResp) as [] else Inr [])"

definition search_query :: "string \<Rightarrow> string \<Rightarrow> QueryContext" where
  "search_query ent_name ent_type =
     query_add_entity \<lparr> en_id = ent_name, en_type = ent_type, en_is_pattern = ''false'' \<rparr>
       \<lparr> qc_entities = [], qc_attributes = [] \<rparr>"

section \<open>One entry for each module\<close>

text \<open>The answer to a module as the protocol states it.\<close>

definition closing :: "string \<Rightarrow> string \<Rightarrow> string" where
  "closing sleeptime sleepcondition = sleeptime @ ''$'' @ sleepcondition"

definition broker_attribute :: "ContextElement \<Rightarrow> string \<Rightarrow> Attribute option" where
  "broker_attribute el n = find (\<lambda>a. a_name a = n) (rev (ce_attributes el))"

definition from_broker :: "(Attribute \<Rightarrow> string list) \<Rightarrow> string list \<Rightarrow> string \<Rightarrow> Attribute option \<Rightarrow> string list" where
  "from_broker known own sleep b =
     (case b of
        Some at \<Rightarrow> known at @ [closing (last_value (a_metadata at) ''sleeptime'') (last_value (a_metadata at) ''sleepcondition'')]
      | None \<Rightarrow> own @ [sleep])"

definition tt_answer :: "fp_ops \<Rightarrow> ContextElement \<Rightarrow> CC_AttributesType \<Rightarrow> string" where
  "tt_answer fp el a =
     (let t = message_text fp a; sleep = closing (t ''sleeptime'') (t ''sleepcondition'') in
      join_with '','' ([''#'' @ t ''busid'', t ''module'']
        @ (if t ''module'' = ''GM'' then from_broker (\<lambda>at. [a_name at]) [t ''param_1''] sleep (broker_attribute el (t ''param_1''))
           else if t ''module'' = ''GC'' then
             from_broker (\<lambda>at. [a_name at, a_value at]) [t ''param_1'', t ''param_2''] sleep (broker_attribute el (t ''param_1''))
           else if t ''module'' = ''GPS'' then from_broker (\<lambda>at. []) [] sleep (broker_attribute el ''position'')
           else if t ''module'' = ''B'' then [t ''param_2'', t ''param_5'', t ''param_6'', sleep]
           else [sleep])))"

definition has_entry :: "CC_AttributesType \<Rightarrow> bool" where
  "has_entry a \<longleftrightarrow> map_find a ''module'' \<noteq> None \<and> map_find a ''busid'' \<noteq> None"

lemma assign_found_eq:
  assumes "attributes_ok a" "upd [] r = r"
  shows "assign_found fp a k upd r = Inr (upd (message_text fp a k) r)"
  using found_text_total [OF assms(1), of fp k] assms(2)
  by (auto simp: assign_found_def message_text_def text_or_empty_def split: option.split)

definition filled :: "fp_ops \<Rightarrow> CC_AttributesType \<Rightarrow> string \<Rightarrow> string \<Rightarrow> TTResponse" where
  "filled fp a bus m =
     \<lparr> re_class = (if m = ''GM'' then GMResponse else if m = ''GC'' then GCResponse (message_text fp a ''param_2'')
          else if m = ''B'' then BResponse (message_text fp a ''param_2'') (message_text fp a ''param_5'') (message_text fp a ''param_6'')
          else if m = ''GPS'' then GPSResponse else TTCloseResponse),
       re_module = m, re_busid = bus,
       re_nameTTAttribute = (if m = ''GM'' \<or> m = ''GC'' then message_text fp a ''param_1'' else if m = ''GPS'' then ''position'' else m),
       re_sleepCondition = message_text fp a ''sleepcondition'', re_sleepTime = message_text fp a ''sleeptime'',
       re_mainResponse = [], re_ignore_module = False \<rparr>"

lemma populate_fresh:
  assumes "attributes_ok a"
  shows "populateInternalFields fp a (setBusId bus (decodeStringToTTResponse m)) = Inr (filled fp a bus m)"
  by (simp add: populate_defs assign_found_eq [OF assms] setBusId_def decodeStringToTTResponse_def
      new_TTResponse_def filled_def set_tt_name_def set_estado_def set_modo_def set_tiempo_def)

lemma match_attributes:
  "fold match_attribute as (r, d) =
     (case find (\<lambda>a. a_name a = re_nameTTAttribute r) (rev as) of
        None \<Rightarrow> (r, d) | Some at \<Rightarrow> (parseResponse at r, False))"
proof (induction as rule: rev_induct)
  case (snoc a as)
  then show ?case
    by (auto simp: match_attribute_def parseResponse_def parseModule_def compound_defs split: option.split)
qed simp

lemma filled_simps [simp]:
  "re_module (filled fp a bus m) = m" "re_busid (filled fp a bus m) = bus"
  "re_sleepCondition (filled fp a bus m) = message_text fp a ''sleepcondition''"
  "re_sleepTime (filled fp a bus m) = message_text fp a ''sleeptime''" "\<not> re_ignore_module (filled fp a bus m)"
  by (simp_all add: filled_def)

lemmas answer_defs = toTTString_def tt_answer_def default_defs parseResponse_def parseModule_def compound_defs
  parseMetadatas_def closing_def from_broker_def broker_attribute_def Let_def

lemma answer_of_module:
  assumes "attributes_ok a"
  shows "bind_exn (processContextElement fp el a (setBusId (message_text fp a ''busid'') (decodeStringToTTResponse (message_text fp a ''module''))))
       (\<lambda>r. Inr (toTTString r)) = Inr (tt_answer fp el a)"
proof -
  define m where "m = message_text fp a ''module''"
  let ?r = "filled fp a (message_text fp a ''busid'') m"
  have fresh: "re_class (setBusId bus x) = re_class x" for bus x
    by (simp add: setBusId_def)
  note fresh' = fresh decodeStringToTTResponse_def new_TTResponse_def
  consider (GM) "m = ''GM''" | (GC) "m = ''GC''" | (GPS) "m = ''GPS''" | (B) "m = ''B''"
    | (other) "m \<noteq> ''GM''" "m \<noteq> ''GC''" "m \<noteq> ''GPS''" "m \<noteq> ''B''" by blast
  then show ?thesis
  proof cases
    case GM
    then have "re_class ?r = GMResponse" "re_nameTTAttribute ?r = message_text fp a ''param_1''" by (simp_all add: filled_def)
    then show ?thesis unfolding process_defs m_def [symmetric] populate_fresh [OF assms]
      using GM m_def [symmetric] by (auto simp: fresh' match_attributes answer_defs split: option.split)
  next
    case GC
    then have "re_class ?r = GCResponse (message_text fp a ''param_2'')" "re_nameTTAttribute ?r = message_text fp a ''param_1''"
      by (simp_all add: filled_def)
    then show ?thesis unfolding process_defs m_def [symmetric] populate_fresh [OF assms]
      using GC m_def [symmetric] by (auto simp: fresh' match_attributes answer_defs split: option.split)
  next
    case GPS
    then have "re_class ?r = GPSResponse" "re_nameTTAttribute ?r = ''position''" by (simp_all add: filled_def)
    then show ?thesis unfolding process_defs m_def [symmetric] populate_fresh [OF assms]
      using GPS m_def [symmetric] by (auto simp: fresh' match_attributes answer_defs split: option.split)
  next
    case B
    then have "re_class ?r = BResponse (message_text fp a ''param_2'') (message_text fp a ''param_5'') (message_text fp a ''param_6'')"
      by (simp add: filled_def)
    then show ?thesis unfolding process_defs m_def [symmetric] populate_fresh [OF assms]
      using B m_def [symmetric] by (simp add: fresh' answer_defs)
  next
    case other
    then have "re_class ?r = TTCloseResponse" by (simp add: filled_def)
    then show ?thesis unfolding process_defs m_def [symmetric] populate_fresh [OF assms]
      using other m_def [symmetric] by (simp add: fresh' answer_defs)
  qed
qed

lemma append_entries_answers:
  assumes "list_all attributes_ok as"
  shows "append_entries fp el as sofar = Inr (sofar @ (if sofar \<noteq> [] \<and> filter has_entry as \<noteq> [] then '','' else [])
     @ join_with '','' (map (tt_answer fp el) (filter has_entry as)))"
  using assms
proof (induction as arbitrary: sofar)
  case (Cons a as)
  have ok: "attributes_ok a" using Cons.prems by simp
  show ?case
  proof (cases "has_entry a")
    case True
    obtain r where "processContextElement fp el a (setBusId (message_text fp a ''busid'') (decodeStringToTTResponse (message_text fp a ''module''))) = Inr r"
      "toTTString r = tt_answer fp el a" using answer_of_module [OF ok, of fp el] by (auto simp: bind_exn_eq_Inr_iff)
    moreover have "text_or_empty fp a k = Inr (message_text fp a k)" for k
      using text_or_empty_total [OF ok, of fp k] by (auto simp: message_text_def)
    ultimately have "append_entry fp el a sofar = Inr (sofar @ (if sofar \<noteq> [] then '','' else []) @ tt_answer fp el a)"
      using True by (simp add: append_entry_def has_entry_def)
    moreover have "tt_answer fp el a \<noteq> []" by (simp add: tt_answer_def Let_def)
    ultimately show ?thesis using True Cons
      by (cases "filter has_entry as") auto
  next
    case False
    then have "append_entry fp el a sofar = Inr sofar" by (auto simp: append_entry_def has_entry_def)
    then show ?thesis using False Cons by simp
  qed
qed simp


section \<open>Publishing does not change the answer\<close>

definition default_modules :: "(string, TTModules) std_map" where
  "default_modules = po_modulesMap (load_default_TTModules new_Postprocessor_TT)"

lemma default_module_class:
  "map_find default_modules ''GC'' = Some (new_TTModules (TTGC_Modules []) ''GC'')"
  "map_find default_modules ''GM'' = Some (new_TTModules TTGM_Modules ''GM'')"
  "map_find default_modules ''GPS'' = Some (new_TTModules (TTGPSModules (default_gps_internals new_gps_mapping)) ''GPS'')"
  by (simp_all add: default_modules_def load_default_TTModules_def new_Postprocessor_TT_def Let_def populate_default_internals_def
      new_TTModules_def)

text \<open>The broker holds, last under its name, the attribute that the module writes for the first publication,
  with one more metadata.\<close>

definition holds_published :: "fp_ops \<Rightarrow> ContextElement \<Rightarrow> Attribute \<Rightarrow> CC_AttributesType \<Rightarrow> TTModules \<Rightarrow> bool" where
  "holds_published fp el extra a m \<longleftrightarrow>
     (let at = tt_attribute fp a True m in broker_attribute el (a_name at) = Some (add_metadata extra at))"

definition lacks :: "fp_ops \<Rightarrow> ContextElement \<Rightarrow> CC_AttributesType \<Rightarrow> TTModules \<Rightarrow> bool" where
  "lacks fp el a m \<longleftrightarrow> broker_attribute el (a_name (tt_attribute fp a True m)) = None"

lemma last_value_sleep:
  assumes "a_name extra \<noteq> ''sleeptime''" "a_name extra \<noteq> ''sleepcondition''"
  shows "last_value (sleep_metadatas sc st @ [extra]) ''sleeptime'' = st"
    "last_value (sleep_metadatas sc st @ [extra]) ''sleepcondition'' = sc"
    "n \<noteq> ''sleeptime'' \<Longrightarrow> last_value (plain_part n t v # sleep_metadatas sc st @ [extra]) ''sleeptime'' = st"
    "n \<noteq> ''sleepcondition'' \<Longrightarrow> last_value (plain_part n t v # sleep_metadatas sc st @ [extra]) ''sleepcondition'' = sc"
  using assms by (simp_all add: last_value_def sleep_metadatas_def)

lemma published_answer:
  assumes "map_find default_modules (message_text fp a ''module'') = Some m" "holds_published fp el extra a m" "lacks fp el' a m"
    and "a_name extra \<noteq> ''sleeptime''" "a_name extra \<noteq> ''sleepcondition''"
  shows "tt_answer fp el a = tt_answer fp el' a"
proof -
  let ?m = "message_text fp a ''module''"
  note last = last_value_sleep [OF assms(4,5)]
  consider (GM) "?m = ''GM''" | (GC) "?m = ''GC''" | (GPS) "?m = ''GPS''"
    | (other) "?m \<noteq> ''GM''" "?m \<noteq> ''GC''" "?m \<noteq> ''GPS''" by blast
  then show ?thesis
  proof cases
    case GM
    then have "m = new_TTModules TTGM_Modules ''GM''" using assms(1) default_module_class by simp
    then show ?thesis using GM assms(2,3)
      by (simp add: holds_published_def lacks_def tt_attribute_def new_TTModules_def tt_answer_def from_broker_def add_metadata_def
          last Let_def)
  next
    case GC
    then have "m = new_TTModules (TTGC_Modules []) ''GC''" using assms(1) default_module_class by simp
    then show ?thesis using GC assms(2,3)
      by (simp add: holds_published_def lacks_def tt_attribute_def new_TTModules_def tt_answer_def from_broker_def add_metadata_def
          last Let_def)
  next
    case GPS
    then have "m = new_TTModules (TTGPSModules (default_gps_internals new_gps_mapping)) ''GPS''" using assms(1) default_module_class by simp
    then show ?thesis using GPS assms(2,3)
      by (simp add: holds_published_def lacks_def tt_attribute_def new_TTModules_def tt_answer_def from_broker_def add_metadata_def
          default_gps_internals_def last Let_def)
  qed (simp add: tt_answer_def Let_def)
qed


section \<open>Samples\<close>

definition gm_message :: CC_AttributesType where
  "gm_message = tt_message [(''busid'', ''0''), (''module'', ''GM''), (''param_1'', ''temp''), (''param_2'', ''21''), (''sleeptime'', ''60'')]"

lemma gm_message_ok: "attributes_ok gm_message"
  unfolding gm_message_def by (rule message_ok) simp

lemma gm_texts [simp]:
  "message_text fp gm_message ''module'' = ''GM''" "message_text fp gm_message ''busid'' = ''0''" "message_text fp gm_message ''param_1'' = ''temp''"
  "message_text fp gm_message ''param_2'' = ''21''" "message_text fp gm_message ''sleeptime'' = ''60''"
  "message_text fp gm_message ''sleepcondition'' = []"
  by (simp_all add: message_text_def gm_message_def)

lemma gm_answered: "has_entry gm_message"
  by (simp add: has_entry_def gm_message_def find_message)

definition broker_response :: "Attribute list \<Rightarrow> ContextResponse" where
  "broker_response as = new_ContextResponse\<lparr> rs_element := blank_element\<lparr> ce_attributes := as \<rparr> \<rparr>"

lemma broker_response_simps [simp]:
  "rs_code (broker_response as) = ''200''" "ce_attributes (rs_element (broker_response as)) = as"
  by (simp_all add: broker_response_def new_ContextResponse_def)



end
