(* ===== verification/Spec2Isabelle.thy ===== *)
theory Spec2Isabelle
  imports Prelude Modbus_Crc Modbus_Frame Mqtt_Buffer Multi_Index Device_Cache Command_Cache Func_Util
    Iot_Url Alarm Statistic Esp_String Esp_Attribute Esp_Context Esp_Parser Esp_Run Esp_Command
    Esp_Description Ngsi_Json Ngsi_Attribute Ngsi_Element Ngsi_Message Riot_Time Ul_Observation
    Command_Text Command_Handle Command_Life Ul_Service Oauth Rest_Route Rest_Filter Rest_Admission Rest_Pipeline
    Action Riot_Conf Http_Client Cb_Comm Mongo_Collection Bson Rest_Service Admin_Base Admin_Device Admin_Service Admin_Safety
    Device_Store Device_File Registration Manager_Store Manager Manager_Service Manager_Safety
    Json_Text Tt_Module Tt_Response
begin

text \<open>
  A verification development for the FIWARE IoT Agent in C++ (the code under \<^verbatim>\<open>src/src\<close>).

  The agent stands between devices that speak constrained protocols (UltraLight 2.0 over HTTP or MQTT,
  Thinking Things frames, Modbus over TCP) and an NGSI context broker.  Measures of devices become
  updates of context elements at the broker; updates of the broker become commands that are pushed to a
  device or wait in a cache until the device polls for them, and the outcome of a command is reported
  back.  Around this core stand the ESP engine, an interpreter of frame descriptions, and small
  services: an alarm registry, statistics, utilities.

  \<^bold>\<open>Theories and sources.\<close>

  \<^item> \<open>Prelude\<close>: C++ integers, exceptions as values (\<open>'a result\<close>), checked vector access, \<open>std::map\<close>
    as a sorted association list, \<open>atoi\<close> and the other library calls several components share.
  \<^item> \<open>Modbus_Crc\<close>, \<open>Modbus_Frame\<close> (\<^verbatim>\<open>modbus/modbus.cc\<close>): checksum, request frames, and the receiver
    that recognises a complete response among the chunks of a connection.  The checksum is the
    bitwise CRC-16 it tabulates, and it detects every burst of up to sixteen bits.
  \<^item> \<open>Mqtt_Buffer\<close> (\<^verbatim>\<open>esp/plugins/input_mqtt/ESP_MqttBuffer.cpp\<close>): the queue of received messages, refined
    from a byte queue per message.
  \<^item> \<open>Multi_Index\<close>, \<open>Device_Cache\<close>, \<open>Command_Cache\<close> (\<^verbatim>\<open>util/device.h\<close>, \<^verbatim>\<open>util/cache.cc\<close>, \<^verbatim>\<open>util/command.cc\<close>,
    \<^verbatim>\<open>util/command_cache.cc\<close>): the two caches over one locale of hashed unique sequences; bounded,
    without duplicates, least recently used first out.
  \<^item> \<open>Func_Util\<close>, \<open>Iot_Url\<close>, \<open>Riot_Time\<close>, \<open>Alarm\<close>, \<open>Statistic\<close>: utilities with round trips,
    refinements and the defects found.
  \<^item> \<open>Ngsi_Json\<close>, \<open>Ngsi_Attribute\<close>, \<open>Ngsi_Element\<close>, \<open>Ngsi_Message\<close> (\<^verbatim>\<open>ngsi/\<close>): JSON values, attributes,
    context elements with the mappings of a device, and the messages of the broker protocol with
    their round trips.
  \<^item> \<open>Ul_Observation\<close> (\<^verbatim>\<open>ultra_light/ULInsertObservation.cc\<close>): measures to context elements.
  \<^item> \<open>Command_Text\<close>, \<open>Command_Handle\<close>, \<open>Command_Life\<close> (\<^verbatim>\<open>rest/command_handle.cc\<close>): command lines and
    identifiers; the operations of the handler as actions on a state of two caches, database and
    messages sent; what holds of them in any order of events.
  \<^item> \<open>Ul_Service\<close> (\<^verbatim>\<open>ultra_light/ul20_service.cc\<close>): the request handler of the UltraLight service, and
    the whole way of a polled command through the components above.
  \<^item> \<open>Oauth\<close>, \<open>Rest_Route\<close>, \<open>Rest_Filter\<close>, \<open>Rest_Admission\<close>, \<open>Rest_Pipeline\<close> (\<^verbatim>\<open>util/oauth_comm.cc\<close>,
    \<^verbatim>\<open>util/access_control.cc\<close>, \<^verbatim>\<open>rest/rest_functions.cc\<close>, \<^verbatim>\<open>rest/media_filter.cc\<close>, \<^verbatim>\<open>rest/oauth_filter.cc\<close>,
    \<^verbatim>\<open>rest/http_filter.h\<close>, \<^verbatim>\<open>rest/rest_handle.cc\<close>): the routes, the dialogue with the identity manager and the
    access control as a machine of requests and answers, and the chain of filters with several requests
    on their way; who is admitted, and that every request is decided.
  \<^item> \<open>Action\<close>: code on a state that may throw after having changed it, and the rules by which a
    property of the state passes through it.
  \<^item> \<open>Riot_Conf\<close> (\<^verbatim>\<open>rest/riot_conf.cc\<close>): the configuration document, its checks, updates and look-ups.
  \<^item> \<open>Http_Client\<close>, \<open>Cb_Comm\<close> (\<^verbatim>\<open>util/http_client.cc\<close>, \<^verbatim>\<open>rest/iot_cb_comm.cc\<close>): a connection with its
    handlers, and the messages to the broker with their tokens and second attempts.
  \<^item> \<open>Mongo_Collection\<close>, \<open>Bson\<close> (\<^verbatim>\<open>util/collection.cc\<close>): the operations on the database with their retries,
    alarms and exceptions, over a driver that is a parameter.
  \<^item> \<open>Rest_Service\<close> (\<^verbatim>\<open>rest/rest_handle.cc\<close>): the service of a request from the database or the
    configuration, its defaults, and the registration with the manager of agents.
  \<^item> \<open>Admin_Base\<close>, \<open>Admin_Device\<close>, \<open>Admin_Service\<close>, \<open>Admin_Safety\<close> (\<^verbatim>\<open>services/admin_service.cc\<close>): the
    administration of devices and services; every handler answers, queries change nothing, and what a
    change, a creation and a removal leave in the database.
  \<^item> \<open>Device_Store\<close>, \<open>Device_File\<close> (\<^verbatim>\<open>util/device_collection.cc\<close>, \<^verbatim>\<open>util/command_collection.cc\<close>,
    \<^verbatim>\<open>util/dev_file.cc\<close>): devices and commands as documents of the database and as entries of a file; what
    comes back of a device and of a command that was stored.
  \<^item> \<open>Registration\<close> (\<^verbatim>\<open>rest/command_handle.cc\<close>): the registration of commands with the broker, its renewal
    and withdrawal.
  \<^item> \<open>Manager_Store\<close>, \<open>Manager\<close>, \<open>Manager_Service\<close>, \<open>Manager_Safety\<close> (\<^verbatim>\<open>services/admin_mgmt_service.cc\<close>,
    \<^verbatim>\<open>util/protocol_collection.cc\<close>, \<^verbatim>\<open>util/service_mgmt_collection.cc\<close>): the manager of several agents, which
    register with it; requests for devices and services go on to the agents, and their answers are put
    together: the pages of devices, the status and the errors.
  \<^item> \<open>Esp_String\<close>, \<open>Esp_Attribute\<close>, \<open>Esp_Context\<close>, \<open>Esp_Parser\<close>, \<open>Esp_Run\<close>, \<open>Esp_Command\<close>, \<open>Esp_Description\<close>
    (\<^verbatim>\<open>esp/source\<close>, \<^verbatim>\<open>esp/plugins/parser_basic\<close>): the ESP engine, from the XML description of a
    command to the machine of tags that reads and writes frames.

  \<^item> \<open>Json_Text\<close>, \<open>Tt_Module\<close>, \<open>Tt_Response\<close> (\<^verbatim>\<open>esp/plugins/postprocessor_tt\<close>,
    \<^verbatim>\<open>thinkingthings/SearchResponse.cpp\<close>): the Thinking Things protocol; the modules of a message become
    attributes of the broker, and the answer to the device has one entry for each module.

  \<^bold>\<open>Conventions.\<close>  A function that may throw returns \<open>'a result\<close>, \<open>Inl\<close> the exception.  A failed
  assertion of the JSON library and undefined behaviour of C++ (a read past a vector, a null pointer, a
  signed overflow) are values of the same type that no \<open>catch\<close> clause catches; proving their absence is
  proving memory safety.  A function that may not return is a partial function (\<open>add_attribute\<close>, whose
  mappings may be cyclic) or takes fuel (the tag machine, with the bound of \<open>command_returns_in_buffer\<close>);
  \<open>None\<close> is not returning.  Log output is left out, except where evaluating a logged expression can
  fail.  Plain getters and setters are fields of the records.

  \<^bold>\<open>Parameters.\<close>  What is not under \<^verbatim>\<open>src\<close> is an argument: parser and printer of the JSON library
  (\<open>json_lib\<close>), the calendar of the date library (\<open>time_lib\<close>), floating point text (\<open>fp_ops\<close>), the
  choice a hashed index makes among equal keys (\<open>finder\<close>, with the property \<open>key_find_ok\<close> a hash index
  promises), and in \<open>handle_env\<close> the database, the configuration, the clock and random identifiers.  Regular
  expressions, the JSON and XML trees of the filters (\<open>filter_env\<close>, \<open>oauth_env\<close>), the resolver and the
  network (\<open>cb_env\<close>), the driver of the database (\<open>mongo_driver\<close>) with its documents (\<open>bson_lib\<close>), the
  validator of schemas (\<open>admin_env\<close>), the file of the configuration (\<open>conf_env\<close>) and the agents of the manager
  (\<open>manager_env\<close>) are arguments too.
  The clock stands still within one operation.  A message to the broker is recorded when it is handed to
  \<open>async_send\<close>.  A device is copied where the code shares a pointer; the one place where this shows,
  \<open>Device::get_attribute\<close> adding an empty entry to a mapped device, has no effect on later lookups, and
  the places that write through a pointer into a cache are written as updates of the cache.

  \<^bold>\<open>Not modelled.\<close>  The vendored code (\<^verbatim>\<open>third_party\<close>, \<^verbatim>\<open>esp/tinyxml\<close>), logging, sockets and
  threads, the driver of the database and its connection, and the parts listed with this status in the
  manifest.
\<close>

end
